(* ===== verification/Prelude.thy ===== *)
theory Prelude
  imports Main "HOL-Library.Sublist" "HOL-Library.Code_Target_Nat"
begin

text \<open>
  Shared vocabulary of the development: the error values of the program, the error monad the
  handlers are written in, the operations of Go's package \<open>strings\<close> the code uses, and the
  generic lemmas the components share.

  A Go \<open>string\<close> is a sequence of bytes, so it is a \<open>char list\<close> here and \<open>length\<close> is Go's
  \<open>len\<close>. The case and white-space operations are those of the ASCII range: a byte above 127 is
  left alone by \<open>to_lower\<close> and is not a space.
\<close>

named_theorems result_iff \<open>when a computation in the error monad returns a value\<close>
named_theorems go_string \<open>characterisations of the string operations\<close>


section \<open>Errors\<close>

text \<open>
  \<open>internal/app/app.go\<close> has one error type with an HTTP status, \<open>apiError\<close>, and five
  constructors of it. Every other error (a driver error, \<open>errors.New\<close>) is \<open>Internal\<close>.
\<close>

datatype failure = ApiError int string | Internal string

type_synonym 'a result = "failure + 'a"

definition bad :: "string \<Rightarrow> failure" where
  "bad m = ApiError 400 m"

definition unauthorized :: failure where
  "unauthorized = ApiError 401 ''invalid credentials or expired session''"

definition denied :: failure where
  "denied = ApiError 403 ''permission denied''"

definition missing :: failure where
  "missing = ApiError 404 ''resource not found''"

definition conflict :: "string \<Rightarrow> failure" where
  "conflict m = ApiError 409 m"

fun failure_status :: "failure \<Rightarrow> int" where
  "failure_status (ApiError s _) = s"
| "failure_status (Internal _) = 500"

text \<open>Sequencing: an error ends the handler, as \<open>if err != nil { return err }\<close> does.\<close>

abbreviation and_then :: "'a result \<Rightarrow> ('a \<Rightarrow> 'b result) \<Rightarrow> 'b result" where
  "and_then m k \<equiv> (case m of Inl e \<Rightarrow> Inl e | Inr a \<Rightarrow> k a)"

definition check :: "bool \<Rightarrow> failure \<Rightarrow> unit result" where
  "check b e = (if b then Inr () else Inl e)"

fun ok :: "'a result \<Rightarrow> bool" where
  "ok (Inl _) = False"
| "ok (Inr _) = True"

lemma and_then_Inr_iff [result_iff]:
  "and_then m k = Inr b \<longleftrightarrow> (\<exists>a. m = Inr a \<and> k a = Inr b)"
  by (cases m) auto

lemma and_then_Inl_iff:
  "and_then m k = Inl e \<longleftrightarrow> m = Inl e \<or> (\<exists>a. m = Inr a \<and> k a = Inl e)"
  by (cases m) auto

lemma check_Inr_iff [result_iff]: "check b e = Inr u \<longleftrightarrow> b"
  by (simp add: check_def)

lemma check_simps [simp]: "check True e = Inr ()" "check False e = Inl e"
  by (simp_all add: check_def)

lemma ok_iff: "ok m \<longleftrightarrow> (\<exists>a. m = Inr a)"
  by (cases m) auto

lemma ok_and_then [simp]: "ok (and_then m k) \<longleftrightarrow> (\<exists>a. m = Inr a \<and> ok (k a))"
  by (cases m) auto

lemma if_Inl_Inr_iff [result_iff]: "(if b then Inl e else m) = Inr a \<longleftrightarrow> \<not> b \<and> m = Inr a"
  by simp

text \<open>A loop whose body may return an error: the first error ends it.\<close>

fun each :: "('a \<Rightarrow> unit result) \<Rightarrow> 'a list \<Rightarrow> unit result" where
  "each f [] = Inr ()"
| "each f (x # xs) = and_then (f x) (\<lambda>_. each f xs)"

lemma each_Inr_iff [result_iff]: "each f xs = Inr u \<longleftrightarrow> (\<forall>x \<in> set xs. f x = Inr ())"
  by (induction xs) (auto simp: result_iff)

text \<open>The same loop with a value carried from one iteration to the next.\<close>

fun each_with :: "('s \<Rightarrow> 'a \<Rightarrow> 's result) \<Rightarrow> 's \<Rightarrow> 'a list \<Rightarrow> 's result" where
  "each_with f s [] = Inr s"
| "each_with f s (x # xs) = and_then (f s x) (\<lambda>s'. each_with f s' xs)"

lemma each_with_append:
  "each_with f s (xs @ ys) = and_then (each_with f s xs) (\<lambda>s'. each_with f s' ys)"
proof (induction xs arbitrary: s)
  case Nil
  show ?case by simp
next
  case (Cons x xs)
  show ?case by (cases "f s x") (simp_all add: Cons.IH)
qed

lemma each_with_invariant:
  assumes "each_with f s xs = Inr t" and "P s"
    and "\<And>s x s'. \<lbrakk> P s; x \<in> set xs; f s x = Inr s' \<rbrakk> \<Longrightarrow> P s'"
  shows "P t"
  using assms
proof (induction xs arbitrary: s)
  case Nil
  then show ?case by simp
next
  case (Cons x xs)
  from Cons.prems(1) obtain s' where s': "f s x = Inr s'" "each_with f s' xs = Inr t"
    by (auto simp: result_iff)
  have "P s'" by (rule Cons.prems(3) [OF Cons.prems(2) _ s'(1)]) simp
  then show ?case
    by (rule Cons.IH [OF s'(2)]) (auto intro: Cons.prems(3))
qed


section \<open>Go's package strings\<close>

definition has_prefix :: "string \<Rightarrow> string \<Rightarrow> bool" where
  "has_prefix s p \<longleftrightarrow> take (length p) s = p"

definition has_suffix :: "string \<Rightarrow> string \<Rightarrow> bool" where
  "has_suffix s p \<longleftrightarrow> has_prefix (rev s) (rev p)"

definition trim_prefix :: "string \<Rightarrow> string \<Rightarrow> string" where
  "trim_prefix s p = (if has_prefix s p then drop (length p) s else s)"

definition trim_suffix :: "string \<Rightarrow> string \<Rightarrow> string" where
  "trim_suffix s p = (if has_suffix s p then take (length s - length p) s else s)"

fun contains :: "string \<Rightarrow> string \<Rightarrow> bool" where
  "contains [] sub = (sub = [])"
| "contains (c # s) sub = (has_prefix (c # s) sub \<or> contains s sub)"

definition contains_any :: "string \<Rightarrow> string \<Rightarrow> bool" where
  "contains_any s cs = list_ex (\<lambda>c. List.member cs c) s"

definition lower_char :: "char \<Rightarrow> char" where
  "lower_char c = (let n = of_char c :: nat in if 65 \<le> n \<and> n \<le> 90 then char_of (n + 32) else c)"

definition to_lower :: "string \<Rightarrow> string" where
  "to_lower = map lower_char"

definition is_space :: "char \<Rightarrow> bool" where
  "is_space c = (let n = of_char c :: nat in n = 32 \<or> 9 \<le> n \<and> n \<le> 13)"

definition trim_space :: "string \<Rightarrow> string" where
  "trim_space s = rev (dropWhile is_space (rev (dropWhile is_space s)))"

definition equal_fold :: "string \<Rightarrow> string \<Rightarrow> bool" where
  "equal_fold s t \<longleftrightarrow> to_lower s = to_lower t"

text \<open>\<open>strings.Cut\<close>: the text before and after the first separator, when there is one.\<close>

fun cut_at :: "string \<Rightarrow> string \<Rightarrow> (string \<times> string) option" where
  "cut_at sep [] = (if sep = [] then Some ([], []) else None)"
| "cut_at sep (c # s) =
     (if has_prefix (c # s) sep then Some ([], drop (length sep) (c # s))
      else map_option (\<lambda>(a, b). (c # a, b)) (cut_at sep s))"

text \<open>\<open>strings.FieldsFunc\<close>: the maximal runs of characters that are not separators.\<close>

fun fields_from :: "(char \<Rightarrow> bool) \<Rightarrow> string \<Rightarrow> string \<Rightarrow> string list" where
  "fields_from sep run [] = (if run = [] then [] else [rev run])"
| "fields_from sep run (c # s) =
     (if sep c then (if run = [] then [] else [rev run]) @ fields_from sep [] s
      else fields_from sep (c # run) s)"

definition fields_func :: "(char \<Rightarrow> bool) \<Rightarrow> string \<Rightarrow> string list" where
  "fields_func sep s = fields_from sep [] s"

text \<open>\<open>strings.NewReplacer(old1, new1, ...)\<close>: at each position the first pair that matches.\<close>

fun first_match :: "(string \<times> string) list \<Rightarrow> string \<Rightarrow> (string \<times> string) option" where
  "first_match [] s = None"
| "first_match (p # ps) s = (if has_prefix s (fst p) then Some p else first_match ps s)"

function replace_pairs :: "(string \<times> string) list \<Rightarrow> string \<Rightarrow> string" where
  "replace_pairs ps [] = []"
| "replace_pairs ps (c # s) =
     (case first_match ps (c # s) of
        None \<Rightarrow> c # replace_pairs ps s
      | Some (old, new) \<Rightarrow> new @ replace_pairs ps (drop (max 1 (length old)) (c # s)))"
  by pat_completeness auto
termination
  by (relation "measure (\<lambda>(ps, s). length s)") auto

text \<open>The number of code points of a UTF-8 string: its bytes that do not continue one.\<close>

definition rune_count :: "string \<Rightarrow> nat" where
  "rune_count s = length (List.filter (\<lambda>c. let n = of_char c :: nat in n < 128 \<or> 192 \<le> n) s)"

lemma has_prefix_iff_prefix [go_string]: "has_prefix s p \<longleftrightarrow> prefix p s"
  unfolding has_prefix_def
  by (metis append_eq_conv_conj append_take_drop_id prefixE prefixI)

lemma has_suffix_iff_suffix [go_string]: "has_suffix s p \<longleftrightarrow> suffix p s"
  by (simp add: has_suffix_def go_string suffix_to_prefix)

lemma has_prefix_Nil [simp]: "has_prefix s []"
  by (simp add: has_prefix_def)

lemma has_suffix_Nil [simp]: "has_suffix s []"
  by (simp add: has_suffix_def)

lemma has_prefix_refl [simp]: "has_prefix s s"
  by (simp add: has_prefix_def)

lemma trim_suffix_append [simp]: "trim_suffix (s @ p) p = s"
  by (auto simp: trim_suffix_def go_string suffix_def)

lemma trim_prefix_append [simp]: "trim_prefix (p @ s) p = s"
  by (simp add: trim_prefix_def go_string)

lemma length_to_lower [simp]: "length (to_lower s) = length s"
  by (simp add: to_lower_def)

lemma to_lower_append: "to_lower (s @ t) = to_lower s @ to_lower t"
  by (simp add: to_lower_def)

lemma lower_char_idem [simp]: "lower_char (lower_char c) = lower_char c"
proof -
  have "of_char c < (256::nat)" by simp
  then show ?thesis by (auto simp: lower_char_def Let_def of_char_of take_bit_eq_mod)
qed

lemma to_lower_idem [simp]: "to_lower (to_lower s) = to_lower s"
  by (simp add: to_lower_def)

lemma has_prefix_to_lower: "has_prefix s p \<Longrightarrow> has_prefix (to_lower s) (to_lower p)"
  by (auto simp: go_string prefix_def to_lower_def)

lemma dropWhile_rev_ends:
  "xs = [] \<or> \<not> P (last xs) \<Longrightarrow> dropWhile P (rev xs) = rev xs"
  by (cases xs rule: rev_cases) auto

lemma last_dropWhile_keep: "dropWhile P xs \<noteq> [] \<Longrightarrow> last (dropWhile P xs) = last xs"
  by (metis append_is_Nil_conv last_appendR takeWhile_dropWhile_id)

lemma trim_space_idem [simp]: "trim_space (trim_space s) = trim_space s"
proof -
  define t where "t = dropWhile is_space s"
  define u where "u = rev (dropWhile is_space (rev t))"
  have "u = [] \<or> \<not> is_space (hd u)"
  proof (cases "u = []")
    case False
    then have ne: "dropWhile is_space (rev t) \<noteq> []" by (simp add: u_def)
    then have "hd u = hd t"
      by (metis False u_def hd_rev last_dropWhile_keep last_rev dropWhile_eq_Nil_conv
          rev_is_Nil_conv dropWhile.simps(1))
    moreover have "t \<noteq> []" using ne by auto
    ultimately show ?thesis
      using t_def by (simp add: hd_dropWhile)
  qed simp
  then have "dropWhile is_space u = u" by (cases u) auto
  moreover have "dropWhile is_space (rev u) = rev u"
    by (simp add: u_def)
  ultimately show ?thesis
    by (simp add: trim_space_def t_def [symmetric] u_def [symmetric])
qed

lemma is_space_lower [simp]: "is_space (lower_char c) = is_space c"
proof -
  have "of_char c < (256::nat)" by simp
  then show ?thesis by (auto simp: is_space_def lower_char_def Let_def of_char_of take_bit_eq_mod)
qed

lemma trim_space_to_lower: "trim_space (to_lower s) = to_lower (trim_space s)"
  by (simp add: trim_space_def to_lower_def dropWhile_map rev_map comp_def)


section \<open>Lists\<close>

text \<open>An optional value, with a default.\<close>

definition given :: "'a option \<Rightarrow> 'a \<Rightarrow> 'a" where
  "given x d = (case x of None \<Rightarrow> d | Some a \<Rightarrow> a)"

text \<open>The first element that satisfies a predicate, with what it maps to: a search loop.\<close>

fun find_map :: "('a \<Rightarrow> 'b option) \<Rightarrow> 'a list \<Rightarrow> 'b option" where
  "find_map f [] = None"
| "find_map f (x # xs) = (case f x of None \<Rightarrow> find_map f xs | Some y \<Rightarrow> Some y)"

lemma find_map_SomeD: "find_map f xs = Some y \<Longrightarrow> \<exists>x \<in> set xs. f x = Some y"
  by (induction xs) (auto split: option.splits)

lemma find_map_None_iff: "find_map f xs = None \<longleftrightarrow> (\<forall>x \<in> set xs. f x = None)"
  by (induction xs) (auto split: option.splits)

lemma find_map_append:
  "find_map f (xs @ ys) = (case find_map f xs of None \<Rightarrow> find_map f ys | Some y \<Rightarrow> Some y)"
  by (induction xs) (auto split: option.splits)

lemma sorted_wrt_distinct: "sorted_wrt R xs \<Longrightarrow> \<forall>x \<in> set xs. \<not> R x x \<Longrightarrow> distinct xs"
  by (induction xs) auto

lemma sorted_wrt_eqI:
  "sorted_wrt R xs \<Longrightarrow> x \<in> set xs \<Longrightarrow> y \<in> set xs \<Longrightarrow> \<not> R x y \<Longrightarrow> \<not> R y x \<Longrightarrow> x = y"
  by (induction xs) auto

lemma find_unique:
  assumes "x \<in> set xs" "P x" "\<And>y. y \<in> set xs \<Longrightarrow> P y \<Longrightarrow> y = x"
  shows "find P xs = Some x"
proof (cases "find P xs")
  case None
  with assms(1,2) show ?thesis by (auto simp: find_None_iff)
next
  case (Some y)
  then have "y \<in> set xs" "P y" by (auto simp: find_Some_iff)
  then have "y = x" by (rule assms(3))
  with Some show ?thesis by simp
qed

text \<open>Go's \<open>map[string]T\<close> read off an association list: the entry of a key.\<close>

fun assoc :: "('k \<times> 'v) list \<Rightarrow> 'k \<Rightarrow> 'v option" where
  "assoc [] k = None"
| "assoc ((k', v) # xs) k = (if k' = k then Some v else assoc xs k)"

lemma assoc_eq_map_of: "assoc xs k = map_of xs k"
  by (induction xs) auto



section \<open>Choosing the best candidate\<close>

text \<open>
  A loop that keeps the best candidate so far. The comparison of the code is abstracted by a key in
  a linear order; a client provides the comparison, the filter and the key, and gets that the loop
  returns a least candidate and, where keys tell candidates apart, that the order of the candidates
  does not matter.
\<close>

fun keep_best :: "('a \<Rightarrow> bool) \<Rightarrow> ('a \<Rightarrow> 'a \<Rightarrow> bool) \<Rightarrow> 'a option \<Rightarrow> 'a \<Rightarrow> 'a option" where
  "keep_best good better None r = (if good r then Some r else None)"
| "keep_best good better (Some b) r = (if good r \<and> better r b then Some r else Some b)"

locale best_choice =
  fixes good :: "'a \<Rightarrow> bool" and better :: "'a \<Rightarrow> 'a \<Rightarrow> bool" and key :: "'a \<Rightarrow> 'k::linorder"
  assumes better_iff: "good a \<Longrightarrow> good b \<Longrightarrow> better a b \<longleftrightarrow> key a < key b"
begin

definition least :: "'a list \<Rightarrow> 'a option \<Rightarrow> bool" where
  "least xs best \<longleftrightarrow> (case best of
     None \<Rightarrow> \<forall>x \<in> set xs. \<not> good x
   | Some b \<Rightarrow> b \<in> set xs \<and> good b \<and> (\<forall>x \<in> set xs. good x \<longrightarrow> key b \<le> key x))"

lemma least_fold: "least xs (foldl (keep_best good better) None xs)"
proof (induction xs rule: rev_induct)
  case Nil
  show ?case by (simp add: least_def)
next
  case (snoc x xs)
  show ?case
  proof (cases "foldl (keep_best good better) None xs")
    case None
    with snoc show ?thesis by (auto simp: least_def)
  next
    case (Some b)
    with snoc have b: "b \<in> set xs" "good b" "\<And>y. y \<in> set xs \<Longrightarrow> good y \<Longrightarrow> key b \<le> key y"
      by (auto simp: least_def)
    show ?thesis
    proof (cases "good x \<and> better x b")
      case True
      then have "key x < key b" using better_iff b(2) by blast
      then have "key x \<le> key y" if "y \<in> set xs" "good y" for y
        using b(3) [OF that] by simp
      with True Some show ?thesis by (simp add: least_def)
    next
      case False
      then have "good x \<Longrightarrow> key b \<le> key x" using better_iff b(2) by (simp add: not_less)
      with False Some b show ?thesis by (auto simp: least_def)
    qed
  qed
qed

lemma least_unique:
  assumes "least xs a" "least ys b" "set xs = set ys" "inj_on key {x \<in> set xs. good x}"
  shows "a = b"
proof (cases a)
  case None
  then show ?thesis using assms by (cases b) (auto simp: least_def)
next
  case (Some x)
  then obtain y where y: "b = Some y" using assms by (cases b) (auto simp: least_def)
  have "key x \<le> key y" "key y \<le> key x" "x \<in> set xs" "good x" "y \<in> set xs" "good y"
    using assms(1-3) Some y by (auto simp: least_def)
  then have "x = y" using assms(4) by (auto simp: inj_on_def)
  with Some y show ?thesis by simp
qed

lemma fold_order_irrelevant:
  assumes "set xs = set ys" "inj_on key {x \<in> set xs. good x}"
  shows "foldl (keep_best good better) None xs = foldl (keep_best good better) None ys"
  using least_unique [OF least_fold least_fold assms] .

lemma fold_Some:
  assumes "foldl (keep_best good better) None xs = Some b"
  shows "b \<in> set xs" "good b" "x \<in> set xs \<Longrightarrow> good x \<Longrightarrow> \<not> better x b"
  using least_fold [of xs] assms better_iff by (auto simp: least_def not_less)

lemma fold_None: "foldl (keep_best good better) None xs = None \<longleftrightarrow> (\<forall>x \<in> set xs. \<not> good x)"
  using least_fold [of xs] by (auto simp: least_def split: option.splits)

end

end
