(* ===== verification/Decimal.thy ===== *)
theory Decimal
  imports Prelude Complex_Main
begin

text \<open>
  Decimal text and exact rationals. Money, prices, rates and multipliers travel as
  \<open>json.Number\<close> (the literal text) and are computed on as \<open>*big.Rat\<close>; a result leaves as text
  again through \<open>FloatString\<close>. The theory models the JSON number grammar, \<open>rat\<close> (its value),
  \<open>FloatString\<close> (rounding half away from zero), and the validity checks \<open>validPrice\<close>,
  \<open>positiveDecimal\<close>, \<open>validMultiplier\<close> of \<open>internal/app/pricing.go\<close> and \<open>validDecimal\<close> of
  \<open>internal/app/users.go\<close>. \<open>(*big.Rat).SetString\<close> accepts more than JSON numbers; every text the
  code gives it is a JSON number or was checked with \<open>json.Valid\<close> before, so the model reads the
  JSON grammar only.
\<close>

type_synonym json_number = string

section \<open>Digits\<close>

definition is_digit :: "char \<Rightarrow> bool" where
  "is_digit c = (let n = of_char c :: nat in 48 \<le> n \<and> n \<le> 57)"

definition digit_val :: "char \<Rightarrow> nat" where
  "digit_val c = of_char c - 48"

definition digit_char :: "nat \<Rightarrow> char" where
  "digit_char n = char_of (48 + n)"

definition text_nat :: "string \<Rightarrow> nat" where
  "text_nat s = foldl (\<lambda>a c. 10 * a + digit_val c) 0 s"

fun nat_text :: "nat \<Rightarrow> string" where
  "nat_text n = (if n < 10 then [digit_char n] else nat_text (n div 10) @ [digit_char (n mod 10)])"

declare nat_text.simps [simp del]

definition int_text :: "int \<Rightarrow> string" where
  "int_text n = (if n < 0 then CHR ''-'' # nat_text (nat (- n)) else nat_text (nat n))"

definition pad_zeros :: "nat \<Rightarrow> string \<Rightarrow> string" where
  "pad_zeros p s = replicate (p - length s) (CHR ''0'') @ s"

lemma is_digit_digit_char [simp]: "n < 10 \<Longrightarrow> is_digit (digit_char n)"
  by (simp add: is_digit_def digit_char_def of_char_of take_bit_eq_mod)

lemma digit_val_digit_char [simp]: "n < 10 \<Longrightarrow> digit_val (digit_char n) = n"
  by (simp add: digit_val_def digit_char_def of_char_of take_bit_eq_mod)

lemma digit_val_zero [simp]: "digit_val (CHR ''0'') = 0"
  by (simp add: digit_val_def)

lemma is_digit_zero [simp]: "is_digit (CHR ''0'')"
  by (simp add: is_digit_def)

lemma digit_val_bound: "is_digit c \<Longrightarrow> digit_val c < 10"
  by (auto simp: is_digit_def digit_val_def Let_def)

lemma digit_char_not_zero: "0 < n \<Longrightarrow> n < 10 \<Longrightarrow> digit_char n \<noteq> CHR ''0''"
  by (metis digit_val_digit_char digit_val_zero less_irrefl)

lemma foldl_text_nat:
  "foldl (\<lambda>a c. 10 * a + digit_val c) k s = k * 10 ^ length s + text_nat s"
proof (induction s arbitrary: k)
  case Nil
  show ?case by (simp add: text_nat_def)
next
  case (Cons c s)
  have "foldl (\<lambda>a c. 10 * a + digit_val c) k (c # s)
      = (10 * k + digit_val c) * 10 ^ length s + text_nat s"
    using Cons.IH [of "10 * k + digit_val c"] by simp
  moreover have "text_nat (c # s) = digit_val c * 10 ^ length s + text_nat s"
    using Cons.IH [of "digit_val c"] by (simp add: text_nat_def)
  ultimately show ?case by (simp add: algebra_simps)
qed

lemma text_nat_Nil [simp]: "text_nat [] = 0"
  by (simp add: text_nat_def)

lemma text_nat_Cons: "text_nat (c # s) = digit_val c * 10 ^ length s + text_nat s"
  using foldl_text_nat [of "digit_val c" s] by (simp add: text_nat_def)

lemma text_nat_append: "text_nat (s @ t) = text_nat s * 10 ^ length t + text_nat t"
  by (induction s) (simp_all add: text_nat_Cons power_add algebra_simps)

lemma text_nat_replicate [simp]: "text_nat (replicate n (CHR ''0'')) = 0"
  by (induction n) (simp_all add: text_nat_Cons)

lemma text_nat_nat_text [simp]: "text_nat (nat_text n) = n"
proof (induction n rule: nat_text.induct)
  case (1 n)
  show ?case
  proof (cases "n < 10")
    case True
    then show ?thesis by (simp add: nat_text.simps [of n] text_nat_Cons)
  next
    case False
    then have "text_nat (nat_text n) = text_nat (nat_text (n div 10)) * 10 + n mod 10"
      by (simp add: nat_text.simps [of n] text_nat_append text_nat_Cons)
    with 1 False show ?thesis by simp
  qed
qed

lemma nat_text_digits: "list_all is_digit (nat_text n)"
proof (induction n rule: nat_text.induct)
  case (1 n)
  then show ?case by (cases "n < 10") (simp_all add: nat_text.simps [of n])
qed

lemma nat_text_not_Nil [simp]: "nat_text n \<noteq> []"
  by (subst nat_text.simps) simp

lemma nat_text_head: "10 \<le> n \<Longrightarrow> hd (nat_text n) \<noteq> CHR ''0''"
proof (induction n rule: nat_text.induct)
  case (1 n)
  show ?case
  proof (cases "n div 10 < 10")
    case True
    with "1.prems" show ?thesis
      using digit_char_not_zero [of "n div 10"]
      by (simp add: nat_text.simps [of n] nat_text.simps [of "n div 10"] div_greater_zero_iff)
  next
    case False
    with 1 show ?thesis by (simp add: nat_text.simps [of n])
  qed
qed

lemma length_nat_text: "0 < k \<Longrightarrow> length (nat_text n) \<le> k \<longleftrightarrow> n < 10 ^ k"
proof (induction n arbitrary: k rule: nat_text.induct)
  case (1 n)
  show ?case
  proof (cases "n < 10")
    case True
    have "(10::nat) ^ 1 \<le> 10 ^ k" using "1.prems" by (intro power_increasing) auto
    with True "1.prems" show ?thesis by (simp add: nat_text.simps [of n])
  next
    case False
    then obtain j where j: "k = Suc j" using "1.prems" by (cases k) auto
    show ?thesis
    proof (cases "j = 0")
      case True
      with False j show ?thesis by (simp add: nat_text.simps [of n])
    next
      case nz: False
      have "length (nat_text n) \<le> k \<longleftrightarrow> length (nat_text (n div 10)) \<le> j"
        using False j by (simp add: nat_text.simps [of n])
      also have "\<dots> \<longleftrightarrow> n div 10 < 10 ^ j" using "1.IH" False nz by simp
      also have "\<dots> \<longleftrightarrow> n < 10 ^ k" using j by (simp add: div_less_iff_less_mult mult.commute)
      finally show ?thesis .
    qed
  qed
qed

lemma length_pad_zeros: "length s \<le> p \<Longrightarrow> length (pad_zeros p s) = p"
  by (simp add: pad_zeros_def)

lemma text_nat_pad_zeros [simp]: "text_nat (pad_zeros p s) = text_nat s"
  by (simp add: pad_zeros_def text_nat_append)

lemma pad_zeros_digits: "list_all is_digit s \<Longrightarrow> list_all is_digit (pad_zeros p s)"
  by (auto simp: pad_zeros_def list_all_iff)


section \<open>The JSON number grammar and its value\<close>

text \<open>A parsed number: its sign, integer digits, fraction digits and exponent.\<close>

type_synonym number_parts = "bool \<times> string \<times> string \<times> int"

definition parse_fraction :: "string \<Rightarrow> (string \<times> string) option" where
  "parse_fraction s = (case s of
     c # r \<Rightarrow> (if c = CHR ''.'' then
                (let fp = takeWhile is_digit r in
                 if fp = [] then None else Some (fp, dropWhile is_digit r))
              else Some ([], s))
   | [] \<Rightarrow> Some ([], []))"

definition parse_exponent :: "string \<Rightarrow> int option" where
  "parse_exponent s = (case s of
     [] \<Rightarrow> Some 0
   | c # r \<Rightarrow> (if c = CHR ''e'' \<or> c = CHR ''E'' then
       (let neg = (r \<noteq> [] \<and> hd r = CHR ''-'');
            ds = (if r \<noteq> [] \<and> (hd r = CHR ''-'' \<or> hd r = CHR ''+'') then tl r else r)
        in if ds = [] \<or> \<not> list_all is_digit ds then None
           else Some (if neg then - int (text_nat ds) else int (text_nat ds)))
      else None))"

definition parse_number :: "json_number \<Rightarrow> number_parts option" where
  "parse_number raw =
     (let neg = (raw \<noteq> [] \<and> hd raw = CHR ''-'');
          s = (if neg then tl raw else raw);
          ip = takeWhile is_digit s
      in if ip = [] \<or> hd ip = CHR ''0'' \<and> 1 < length ip then None
         else (case parse_fraction (dropWhile is_digit s) of
                 None \<Rightarrow> None
               | Some (fp, rest) \<Rightarrow> map_option (\<lambda>e. (neg, ip, fp, e)) (parse_exponent rest)))"

definition pow10 :: "int \<Rightarrow> rat" where
  "pow10 e = (if 0 \<le> e then 10 ^ nat e else 1 / 10 ^ nat (- e))"

fun number_value :: "number_parts \<Rightarrow> rat" where
  "number_value (neg, ip, fp, e) =
     (if neg then - 1 else 1) * of_nat (text_nat (ip @ fp)) * pow10 (e - int (length fp))"

declare number_value.simps [simp del]

text \<open>\<open>rat\<close> of pricing.go: \<open>None\<close> is the nil pointer of a text that is no number.\<close>

definition rat_of :: "json_number \<Rightarrow> rat option" where
  "rat_of n = map_option number_value (parse_number n)"

text \<open>The value where the text has been validated before (see \<open>valid_price_value\<close>).\<close>

definition rat_val :: "json_number \<Rightarrow> rat" where
  "rat_val n = (case rat_of n of None \<Rightarrow> 0 | Some v \<Rightarrow> v)"

text \<open>\<open>decimalOr\<close>: the value of an optional number, or of the fallback text.\<close>

definition decimal_or :: "json_number option \<Rightarrow> json_number \<Rightarrow> rat" where
  "decimal_or n fallback = (case n of None \<Rightarrow> rat_val fallback | Some t \<Rightarrow> rat_val t)"


text \<open>\<open>Rat.SetString\<close> on decimals and on the fractions that \<open>RatString\<close> writes.\<close>

definition rat_string :: "rat \<Rightarrow> string" where
  "rat_string r = (case quotient_of r of (a, b) \<Rightarrow> if b = 1 then int_text a else int_text a @ CHR ''/'' # int_text b)"

definition rat_text :: "string \<Rightarrow> rat option" where
  "rat_text s = (case cut_at ''/'' s of
     None \<Rightarrow> rat_of s
   | Some (a, b) \<Rightarrow> (case (rat_of a, rat_of b) of
       (Some x, Some y) \<Rightarrow> if list_all is_digit b \<and> y \<noteq> 0 then Some (x / y) else None
     | _ \<Rightarrow> None))"


section \<open>FloatString\<close>

text \<open>
  \<open>(*big.Rat).FloatString(prec)\<close>: sign, integer part and exactly \<open>prec\<close> fraction digits of the
  value rounded to the nearest multiple of \<open>10 ^ -prec\<close>, halves away from zero.
\<close>

definition scaled :: "nat \<Rightarrow> rat \<Rightarrow> nat" where
  "scaled p x = nat \<lfloor>\<bar>x\<bar> * 10 ^ p + 1 / 2\<rfloor>"

definition float_string :: "nat \<Rightarrow> rat \<Rightarrow> string" where
  "float_string p x =
     (if x < 0 then ''-'' else []) @ nat_text (scaled p x div 10 ^ p) @
     (if p = 0 then [] else ''.'' @ pad_zeros p (nat_text (scaled p x mod 10 ^ p)))"

definition round_half_away :: "nat \<Rightarrow> rat \<Rightarrow> rat" where
  "round_half_away p x = (if x < 0 then - 1 else 1) * of_nat (scaled p x) / 10 ^ p"

lemma takeWhile_digits: "list_all is_digit s \<Longrightarrow> takeWhile is_digit (s @ t) = s @ takeWhile is_digit t"
  by (simp add: list_all_iff takeWhile_append2)

lemma dropWhile_digits: "list_all is_digit s \<Longrightarrow> dropWhile is_digit (s @ t) = dropWhile is_digit t"
  by (simp add: list_all_iff dropWhile_append2)

lemma not_digit_dot [simp]: "\<not> is_digit (CHR ''.'')" "\<not> is_digit (CHR ''-'')"
  by (simp_all add: is_digit_def)

lemma parse_number_fixed:
  assumes fp: "list_all is_digit fp"
    and neg: "neg = (x < (0::rat))"
    and body: "s = (if fp = [] then [] else ''.'' @ fp)"
  shows "parse_number ((if neg then ''-'' else []) @ nat_text n @ s) = Some (neg, nat_text n, fp, 0)"
proof -
  have head: "hd (nat_text n) \<noteq> CHR ''-''"
    using nat_text_digits [of n] by (cases "nat_text n") (auto simp: list_all_iff)
  have tw: "takeWhile is_digit (nat_text n @ s) = nat_text n"
    and dw: "dropWhile is_digit (nat_text n @ s) = s"
    using nat_text_digits [of n] body by (auto simp: takeWhile_digits dropWhile_digits)
  have lead: "\<not> (hd (nat_text n) = CHR ''0'' \<and> 1 < length (nat_text n))"
  proof (cases "n < 10")
    case True
    then show ?thesis by (simp add: nat_text.simps [of n])
  next
    case False
    then show ?thesis using nat_text_head [of n] by simp
  qed
  have "takeWhile is_digit fp = fp" "dropWhile is_digit fp = []"
    using takeWhile_digits [OF fp, of "[]"] dropWhile_digits [OF fp, of "[]"] by simp_all
  then have fr: "parse_fraction s = Some (fp, [])"
    using body by (auto simp: parse_fraction_def Let_def simp del: takeWhile_eq_all_conv dropWhile_eq_Nil_conv)
  show ?thesis
    using head tw dw lead fr
    by (cases neg) (auto simp: parse_number_def parse_exponent_def Let_def)
qed

theorem rat_of_float_string: "rat_of (float_string p x) = Some (round_half_away p x)"
proof -
  define m where "m = scaled p x"
  define fp where "fp = (if p = 0 then [] else pad_zeros p (nat_text (m mod 10 ^ p)))"
  have small: "p \<noteq> 0 \<Longrightarrow> length (nat_text (m mod 10 ^ p)) \<le> p"
    by (simp add: length_nat_text)
  have len: "length fp = p"
    using small by (simp add: fp_def length_pad_zeros)
  have digits: "list_all is_digit fp"
    by (simp add: fp_def pad_zeros_digits nat_text_digits)
  have val: "text_nat (nat_text (m div 10 ^ p) @ fp) = m"
  proof (cases "p = 0")
    case True
    then show ?thesis by (simp add: fp_def)
  next
    case False
    then have "text_nat fp = m mod 10 ^ p" by (simp add: fp_def)
    then show ?thesis by (simp add: text_nat_append len div_mult_mod_eq)
  qed
  have "p = 0 \<longleftrightarrow> fp = []" using len by auto
  then have eq: "float_string p x = (if x < 0 then ''-'' else []) @ nat_text (m div 10 ^ p) @
      (if fp = [] then [] else ''.'' @ fp)"
    by (auto simp: float_string_def m_def fp_def)
  have "parse_number (float_string p x) = Some (x < 0, nat_text (m div 10 ^ p), fp, 0)"
    unfolding eq by (rule parse_number_fixed [OF digits refl refl])
  then show ?thesis
    using val len
    by (simp add: rat_of_def number_value.simps round_half_away_def pow10_def m_def divide_simps)
qed

lemma rat_val_float_string [simp]: "rat_val (float_string p x) = round_half_away p x"
  by (simp add: rat_val_def rat_of_float_string)

text \<open>How far rounding moves a value: at most half a unit of the last digit.\<close>

lemma scaled_bounds:
  "\<bar>x\<bar> * 10 ^ p - 1 / 2 < of_nat (scaled p x)" "of_nat (scaled p x) \<le> \<bar>x\<bar> * 10 ^ p + 1 / 2"
proof -
  have "0 \<le> \<lfloor>\<bar>x\<bar> * 10 ^ p + 1 / 2\<rfloor>" by simp
  then have eq: "(of_nat (scaled p x) :: rat) = of_int \<lfloor>\<bar>x\<bar> * 10 ^ p + 1 / 2\<rfloor>"
    by (simp add: scaled_def)
  show "\<bar>x\<bar> * 10 ^ p - 1 / 2 < of_nat (scaled p x)"
    unfolding eq using floor_correct [of "\<bar>x\<bar> * 10 ^ p + 1 / 2"] by linarith
  show "of_nat (scaled p x) \<le> \<bar>x\<bar> * 10 ^ p + 1 / 2"
    unfolding eq using floor_correct [of "\<bar>x\<bar> * 10 ^ p + 1 / 2"] by linarith
qed

lemma round_half_away_error: "\<bar>round_half_away p x - x\<bar> \<le> 1 / (2 * 10 ^ p)"
proof -
  let ?m = "of_nat (scaled p x) :: rat"
  have "\<bar>round_half_away p x - x\<bar> = \<bar>?m / 10 ^ p - \<bar>x\<bar>\<bar>"
    by (simp add: round_half_away_def abs_if)
  also have "\<dots> = \<bar>?m - \<bar>x\<bar> * 10 ^ p\<bar> / 10 ^ p"
    by (simp add: field_simps abs_if)
  also have "\<dots> \<le> (1 / 2) / 10 ^ p"
    using scaled_bounds [where x = x and p = p] by (intro divide_right_mono) (auto simp: abs_if)
  finally show ?thesis by simp
qed

lemma scaled_mono: "0 \<le> x \<Longrightarrow> x \<le> y \<Longrightarrow> scaled p x \<le> scaled p y"
  by (auto simp: scaled_def intro!: nat_mono floor_mono mult_right_mono)

lemma round_half_away_mono: "0 \<le> x \<Longrightarrow> x \<le> y \<Longrightarrow> round_half_away p x \<le> round_half_away p y"
  by (auto simp: round_half_away_def intro!: divide_right_mono scaled_mono)

lemma round_half_away_nonneg [simp]: "0 \<le> x \<Longrightarrow> 0 \<le> round_half_away p x"
  by (simp add: round_half_away_def)

lemma round_half_away_zero [simp]: "round_half_away p 0 = 0"
  by (simp add: round_half_away_def scaled_def)


section \<open>Validity\<close>

definition valid_price :: "json_number option \<Rightarrow> nat \<Rightarrow> nat \<Rightarrow> bool" where
  "valid_price n integer scale = (case n of
     None \<Rightarrow> True
   | Some raw \<Rightarrow>
       (if 100 < length raw then False
        else (case parse_number raw of
                None \<Rightarrow> False
              | Some (neg, ip, fp, e) \<Rightarrow>
                  (if e < - 100 \<or> 100 < e then False
                   else (let v = number_value (neg, ip, fp, e) in
                     if v < 0 then False
                     else (let rounded = float_string scale v in
                       if integer < length (takeWhile (\<lambda>c. c \<noteq> CHR ''.'') rounded) then False
                       else rat_of rounded = Some v))))))"

definition positive_decimal :: "json_number \<Rightarrow> nat \<Rightarrow> nat \<Rightarrow> bool" where
  "positive_decimal n integer scale \<longleftrightarrow> valid_price (Some n) integer scale \<and> 0 < rat_val n"

definition valid_multiplier :: "json_number option \<Rightarrow> bool" where
  "valid_multiplier n = (case n of None \<Rightarrow> True | Some m \<Rightarrow> positive_decimal m 6 6)"

text \<open>\<open>strings.Split\<close> at a byte, and \<open>validDecimal\<close> of users.go.\<close>

fun split_at :: "char \<Rightarrow> string \<Rightarrow> string list" where
  "split_at c [] = [[]]"
| "split_at c (x # s) =
     (if x = c then [] # split_at c s else (case split_at c s of [] \<Rightarrow> [[x]] | p # ps \<Rightarrow> (x # p) # ps))"

definition valid_decimal :: "json_number \<Rightarrow> nat \<Rightarrow> nat \<Rightarrow> bool" where
  "valid_decimal n integer scale = (case split_at (CHR ''.'') n of
     [ip] \<Rightarrow> ip \<noteq> [] \<and> length ip \<le> integer \<and> list_all is_digit ip
   | [ip, fp] \<Rightarrow> ip \<noteq> [] \<and> length ip \<le> integer \<and> fp \<noteq> [] \<and> length fp \<le> scale \<and>
       list_all is_digit ip \<and> list_all is_digit fp
   | _ \<Rightarrow> False)"

definition exponent_in_range :: "json_number \<Rightarrow> bool" where
  "exponent_in_range raw = (case parse_number raw of
     None \<Rightarrow> False | Some (neg, ip, fp, e) \<Rightarrow> - 100 \<le> e \<and> e \<le> 100)"

lemma rounds_to_itself_iff:
  assumes "0 \<le> v"
  shows "round_half_away s v = v \<longleftrightarrow> (\<exists>k::nat. v * 10 ^ s = of_nat k)"
proof
  assume "round_half_away s v = v"
  then have "v * 10 ^ s = of_nat (scaled s v)"
    using assms by (simp add: round_half_away_def field_simps)
  then show "\<exists>k::nat. v * 10 ^ s = of_nat k" by blast
next
  assume "\<exists>k::nat. v * 10 ^ s = of_nat k"
  then obtain k :: nat where k: "v * 10 ^ s = of_nat k" by blast
  have "\<lfloor>of_nat k + 1 / 2 :: rat\<rfloor> = int k"
    by (simp add: floor_eq_iff)
  then have "scaled s v = k"
    using assms k by (simp add: scaled_def)
  with k assms show "round_half_away s v = v"
    by (simp add: round_half_away_def field_simps)
qed

lemma integer_digits_float_string:
  assumes "0 \<le> v"
  shows "takeWhile (\<lambda>c. c \<noteq> CHR ''.'') (float_string s v) = nat_text (scaled s v div 10 ^ s)"
proof -
  have "\<forall>c \<in> set (nat_text n). c \<noteq> CHR ''.''" for n
    using nat_text_digits [of n] by (auto simp: list_all_iff)
  then show ?thesis using assms
    by (simp add: float_string_def takeWhile_append2 takeWhile_eq_all_conv)
qed

lemma scaled_of_exact: "0 \<le> v \<Longrightarrow> v * 10 ^ s = of_nat k \<Longrightarrow> scaled s v = k"
  using rounds_to_itself_iff [of v s] by (auto simp: round_half_away_def field_simps)

text \<open>
  What the check accepts: a JSON number of at most 100 characters and an exponent within
  100, whose value is not negative, below \<open>10 ^ integer\<close> and exact in \<open>scale\<close> decimals.
\<close>

theorem valid_price_iff:
  assumes "0 < i"
  shows "valid_price (Some raw) i s \<longleftrightarrow>
    length raw \<le> 100 \<and> exponent_in_range raw \<and>
    (\<exists>v. rat_of raw = Some v \<and> 0 \<le> v \<and> v < 10 ^ i \<and> (\<exists>k::nat. v * 10 ^ s = of_nat k))"
proof (cases "parse_number raw")
  case None
  then show ?thesis by (simp add: valid_price_def exponent_in_range_def)
next
  case (Some parts)
  obtain neg ip fp e where parts: "parts = (neg, ip, fp, e)" by (cases parts) auto
  define v where "v = number_value (neg, ip, fp, e)"
  have ro: "rat_of raw = Some v" using Some parts by (simp add: rat_of_def v_def)
  have digits: "length (nat_text (scaled s v div 10 ^ s)) \<le> i \<longleftrightarrow> v < 10 ^ i"
    if "0 \<le> v" "v * 10 ^ s = of_nat k" for k :: nat
  proof -
    have sc: "scaled s v = k" using that by (rule scaled_of_exact)
    have "length (nat_text (k div 10 ^ s)) \<le> i \<longleftrightarrow> k < 10 ^ i * 10 ^ s"
      using assms by (simp add: length_nat_text div_less_iff_less_mult)
    also have "\<dots> \<longleftrightarrow> (of_nat k :: rat) < of_nat (10 ^ i * 10 ^ s)" by (simp only: of_nat_less_iff)
    also have "\<dots> \<longleftrightarrow> v * 10 ^ s < 10 ^ i * 10 ^ s" by (simp add: that(2))
    also have "\<dots> \<longleftrightarrow> v < 10 ^ i" by simp
    finally show ?thesis by (simp add: sc)
  qed
  show ?thesis
    using Some parts ro digits
    by (auto simp: valid_price_def exponent_in_range_def Let_def v_def [symmetric]
        rat_of_float_string rounds_to_itself_iff integer_digits_float_string not_less not_le)
qed

lemma valid_price_value:
  assumes "valid_price (Some raw) i s" and "0 < i"
  shows "rat_of raw = Some (rat_val raw)" "0 \<le> rat_val raw" "rat_val raw < 10 ^ i"
  using assms by (auto simp: valid_price_iff rat_val_def)

lemma positive_decimal_value:
  assumes "positive_decimal raw i s" and "0 < i"
  shows "rat_of raw = Some (rat_val raw)" "0 < rat_val raw"
  using assms valid_price_value by (auto simp: positive_decimal_def)

lemma valid_price_None [simp]: "valid_price None i s"
  by (simp add: valid_price_def)

lemma valid_multiplier_pos: "valid_multiplier (Some m) \<Longrightarrow> 0 < rat_val m"
  by (simp add: valid_multiplier_def positive_decimal_def)

lemma rat_val_nonneg_if_valid: "valid_price (Some raw) i s \<Longrightarrow> 0 \<le> rat_val raw"
  by (auto simp: valid_price_def rat_val_def rat_of_def Let_def split: option.splits if_splits)

end
