(* ===== verification/Pricing.thy ===== *)
theory Pricing
  imports Decimal
begin

text \<open>
  The price cards and the price calculation of \<open>internal/app/pricing.go\<close>: the data a
  configuration carries (\<open>modelPrice\<close>, \<open>priceInterval\<close>, \<open>timePrice\<close>), its validation, and
  \<open>calculatePrice\<close>, which turns a usage and a card into the amounts that are charged.

  Parameters: \<open>tz\<close> stands for the time zone database behind \<open>time.LoadLocation\<close>. It gives for a
  zone name the function from an instant (Unix seconds) to its local weekday (0 is Sunday) and
  second of the day, or \<open>None\<close> for an unknown zone. An instant is \<open>None\<close> when it is Go's zero
  time. A nil slice and an empty one, and a nil map and an empty one, are the same list here.
  Go's \<open>int64\<close> counters are \<open>int\<close>; \<open>calculate_price\<close> rejects counters outside 31 bits, and
  \<open>Pricing_Facts\<close> shows that no intermediate value leaves 64 bits.
\<close>

type_synonym tz_database = "string \<Rightarrow> (int \<Rightarrow> int \<times> int) option"

section \<open>Data\<close>

record price_interval =
  iv_min :: int
  iv_max :: "int option"
  iv_label :: string
  iv_input :: "json_number option"
  iv_output :: "json_number option"
  iv_cache_write :: "json_number option"
  iv_cache_write_1h :: "json_number option"
  iv_cache_read :: "json_number option"
  iv_per_request :: "json_number option"
  iv_input_multiplier :: "json_number option"
  iv_output_multiplier :: "json_number option"
  iv_write_multiplier :: "json_number option"
  iv_read_multiplier :: "json_number option"
  iv_sort_order :: int

record time_price_period =
  period_start :: string
  period_end :: string
  period_multiplier :: json_number

record time_price =
  tp_timezone :: string
  tp_weekdays_only :: bool
  tp_periods :: "time_price_period list"

record model_price =
  mp_fast_ratio :: "rat option"
  mp_platform :: string
  mp_models :: "string list"
  mp_billing_mode :: string
  mp_input :: "json_number option"
  mp_output :: "json_number option"
  mp_cache_write :: "json_number option"
  mp_cache_write_1h :: "json_number option"
  mp_cache_read :: "json_number option"
  mp_image_input :: "json_number option"
  mp_image_output :: "json_number option"
  mp_per_request :: "json_number option"
  mp_fast :: "json_number option"
  mp_flex :: "json_number option"
  mp_reasoning :: "(string \<times> json_number) list"
  mp_intervals :: "price_interval list"
  mp_time_pricing :: "time_price option"

record price_usage =
  u_image_request :: bool
  u_image_count :: int
  u_image_size :: string
  u_image_size_source :: string
  u_image_input_size :: string
  u_image_output_size :: string
  u_image_sizes :: "int \<times> int \<times> int"
  u_video_count :: int
  u_video_seconds :: int
  u_video_resolution :: string
  u_audio_units :: string
  u_input :: int
  u_output :: int
  u_cache_write :: int
  u_cache_write_5m :: int
  u_cache_write_1h :: int
  u_cache_read :: int
  u_image_input :: int
  u_image_output :: int
  u_requests :: int
  u_search_calls :: int

record price_cost =
  c_input :: string
  c_output :: string
  c_cache_write :: string
  c_cache_read :: string
  c_image_input :: string
  c_image_output :: string
  c_total :: string
  c_actual :: string
  c_debit :: string
  c_total_value :: rat


section \<open>Names and patterns\<close>

definition supported_platform :: "string \<Rightarrow> bool" where
  "supported_platform platform = List.member
     [''openai'', ''anthropic'', ''gemini'', ''grok'', ''kimi'', ''zhipu'', ''deepseek'', ''minimax''] platform"

definition pricing_name :: "string \<Rightarrow> string" where
  "pricing_name s =
     (let s = to_lower (trim_space s) in
      if has_prefix s ''claude-'' then map (\<lambda>c. if c = CHR ''.'' then CHR ''-'' else c) s else s)"

definition valid_model_pattern :: "string \<Rightarrow> bool" where
  "valid_model_pattern s \<longleftrightarrow> 0 < length s \<and> length s \<le> 200 \<and> trim_space s = s \<and>
     \<not> contains_any s [CHR 0x0D, CHR 0x0A, CHR 0x00] \<and> \<not> contains (trim_suffix s ''*'') ''*''"

text \<open>\<open>concreteModel\<close> of models.go.\<close>

definition concrete_model :: "string \<Rightarrow> bool" where
  "concrete_model m \<longleftrightarrow> valid_model_pattern m \<and> length m \<le> 100 \<and> \<not> contains_any m [CHR ''*'', CHR 0x09]"

definition patterns_overlap :: "string \<Rightarrow> string \<Rightarrow> bool" where
  "patterns_overlap a b \<longleftrightarrow> a = b \<or>
     has_suffix a ''*'' \<and> has_prefix (trim_suffix b ''*'') (trim_suffix a ''*'') \<or>
     has_suffix b ''*'' \<and> has_prefix (trim_suffix a ''*'') (trim_suffix b ''*'')"

text \<open>\<open>patternMatches\<close> of gateway.go: a literal, or a prefix followed by a star, in any case.\<close>

definition pattern_matches :: "string \<Rightarrow> string \<Rightarrow> bool" where
  "pattern_matches pattern model =
     (let pattern = to_lower pattern; model = to_lower model in
      if has_suffix pattern ''*'' then has_prefix model (trim_suffix pattern ''*'')
      else pattern = model)"


section \<open>Time pricing\<close>

text \<open>
  \<open>clockSeconds\<close>: \<open>time.Parse\<close> followed by the comparison of the formatted time with the text
  accepts exactly the two-digit fields of \<open>HH:mm\<close> and \<open>HH:mm:ss\<close>.
\<close>

fun two_digits :: "string \<Rightarrow> nat option" where
  "two_digits [a, b] = (if is_digit a \<and> is_digit b then Some (10 * digit_val a + digit_val b) else None)"
| "two_digits _ = None"

fun clock_fields :: "string \<Rightarrow> (nat \<times> nat \<times> nat) option" where
  "clock_fields [h1, h2, x, m1, m2] =
     (case (two_digits [h1, h2], two_digits [m1, m2]) of
        (Some h, Some m) \<Rightarrow> (if x = CHR '':'' then Some (h, m, 0) else None)
      | _ \<Rightarrow> None)"
| "clock_fields [h1, h2, x, m1, m2, y, s1, s2] =
     (case (two_digits [h1, h2], two_digits [m1, m2], two_digits [s1, s2]) of
        (Some h, Some m, Some s) \<Rightarrow> (if x = CHR '':'' \<and> y = CHR '':'' then Some (h, m, s) else None)
      | _ \<Rightarrow> None)"
| "clock_fields _ = None"

definition clock_seconds :: "string \<Rightarrow> bool \<Rightarrow> nat result" where
  "clock_seconds s at_end =
     (if at_end \<and> (s = ''00:00'' \<or> s = ''00:00:00'') then Inr 86400
      else (case clock_fields s of
              None \<Rightarrow> Inl (bad ''time must use HH:mm or HH:mm:ss'')
            | Some (h, m, sec) \<Rightarrow>
                (if h < 24 \<and> m < 60 \<and> sec < 60 then Inr (h * 3600 + m * 60 + sec)
                 else Inl (bad ''time must use HH:mm or HH:mm:ss''))))"

definition period_span :: "time_price_period \<Rightarrow> (nat \<times> nat) result" where
  "period_span p =
     (case (clock_seconds (period_start p) False, clock_seconds (period_end p) True) of
        (Inr s, Inr e) \<Rightarrow>
          (if e \<le> s \<or> period_start p = period_end p then Inl (bad ''invalid pricing time interval'')
           else if \<not> positive_decimal (period_multiplier p) 6 2
             then Inl (bad ''time multiplier must be positive with at most two decimal places'')
           else Inr (s, e))
      | _ \<Rightarrow> Inl (bad ''invalid pricing time interval''))"

fun period_spans :: "time_price_period list \<Rightarrow> (nat \<times> nat) list result" where
  "period_spans [] = Inr []"
| "period_spans (p # ps) =
     and_then (period_span p) (\<lambda>s. and_then (period_spans ps) (\<lambda>ss. Inr (s # ss)))"

fun spans_overlap :: "(nat \<times> nat) list \<Rightarrow> bool" where
  "spans_overlap (a # b # ss) = (fst b < snd a \<or> spans_overlap (b # ss))"
| "spans_overlap _ = False"

definition validate_time_price :: "tz_database \<Rightarrow> time_price option \<Rightarrow> unit result" where
  "validate_time_price tz tp = (case tp of
     None \<Rightarrow> Inr ()
   | Some p \<Rightarrow>
       (if tp_periods p = [] then Inr ()
        else if tp_timezone p = '''' \<or> tp_timezone p = ''Local''
          then Inl (bad ''an explicit timezone is required'')
        else if tz (tp_timezone p) = None then Inl (bad ''invalid timezone'')
        else if 100 < length (tp_periods p) then Inl (bad ''too many pricing periods'')
        else and_then (period_spans (tp_periods p)) (\<lambda>spans.
          check (\<not> spans_overlap (sort_key fst spans)) (bad ''pricing periods overlap''))))"

text \<open>\<open>multiplierAt\<close>: the multiplier of the first period around the local time, else one.\<close>

definition seconds_or_zero :: "nat result \<Rightarrow> nat" where
  "seconds_or_zero r = (case r of Inl _ \<Rightarrow> 0 | Inr n \<Rightarrow> n)"

definition period_at :: "int \<Rightarrow> time_price_period \<Rightarrow> bool" where
  "period_at sec p \<longleftrightarrow> int (seconds_or_zero (clock_seconds (period_start p) False)) \<le> sec \<and>
     sec < int (seconds_or_zero (clock_seconds (period_end p) True))"

definition multiplier_at :: "tz_database \<Rightarrow> time_price option \<Rightarrow> int option \<Rightarrow> rat" where
  "multiplier_at tz tp when = (case (tp, when) of
     (Some p, Some t) \<Rightarrow>
       (if tp_periods p = [] then 1
        else (case tz (tp_timezone p) of
                None \<Rightarrow> 1
              | Some local \<Rightarrow>
                  (let (weekday, sec) = local t in
                   if tp_weekdays_only p \<and> (weekday = 6 \<or> weekday = 0) then 1
                   else (case find (period_at sec) (tp_periods p) of
                           None \<Rightarrow> 1 | Some q \<Rightarrow> rat_val (period_multiplier q)))))
   | _ \<Rightarrow> 1)"


section \<open>Validation of price cards\<close>

fun check_patterns :: "string list \<Rightarrow> string list \<Rightarrow> string list result" where
  "check_patterns seen [] = Inr seen"
| "check_patterns seen (model # models) =
     (if \<not> valid_model_pattern model then Inl (bad ''invalid model pattern'')
      else (let n = pricing_name model in
        if list_ex (patterns_overlap n) seen then Inl (bad ''overlapping model pricing patterns'')
        else check_patterns (seen @ [n]) models))"

definition efforts :: "string list" where
  "efforts = [''none'', ''minimal'', ''low'', ''medium'', ''high'', ''xhigh'', ''max'']"

definition check_reasoning :: "(string \<times> json_number) list \<Rightarrow> unit result" where
  "check_reasoning m = each (\<lambda>(effort, n).
     if \<not> List.member efforts effort then Inl (bad ''invalid reasoning effort'')
     else check (positive_decimal n 6 6) (bad ''invalid reasoning multiplier'')) m"

definition interval_bounds_ok :: "price_interval \<Rightarrow> bool" where
  "interval_bounds_ok iv \<longleftrightarrow> \<not> (iv_min iv < 0 \<or> 2147483647 < iv_min iv \<or>
     (case iv_max iv of None \<Rightarrow> False | Some m \<Rightarrow> m \<le> iv_min iv \<or> 2147483647 < m) \<or>
     50 < rune_count (iv_label iv) \<or> iv_sort_order iv < 0 \<or> 1000000 < iv_sort_order iv)"

definition interval_prices :: "price_interval \<Rightarrow> json_number option list" where
  "interval_prices iv = [iv_input iv, iv_output iv, iv_cache_write iv, iv_cache_write_1h iv,
     iv_cache_read iv, iv_per_request iv]"

definition interval_multipliers :: "price_interval \<Rightarrow> json_number option list" where
  "interval_multipliers iv = [iv_input_multiplier iv, iv_output_multiplier iv,
     iv_write_multiplier iv, iv_read_multiplier iv]"

fun check_intervals ::
  "bool \<Rightarrow> bool \<Rightarrow> price_interval option \<Rightarrow> string list \<Rightarrow> price_interval list \<Rightarrow> unit result" where
  "check_intervals token account_stats prev labels [] = Inr ()"
| "check_intervals token account_stats prev labels (iv # ivs) =
     (if \<not> interval_bounds_ok iv then Inl (bad ''invalid pricing interval'')
      else and_then (each (\<lambda>n. check (valid_price n 8 12) (bad ''invalid interval price''))
                       (interval_prices iv)) (\<lambda>_.
        and_then (each (\<lambda>n. check (valid_multiplier n \<and> \<not> (account_stats \<and> n \<noteq> None))
                                (bad ''invalid interval multiplier''))
                    (interval_multipliers iv)) (\<lambda>_.
          if list_all (\<lambda>n. n = None) (interval_prices iv @ interval_multipliers iv)
            then Inl (bad ''interval requires a price or multiplier'')
          else if token then
            (if (case prev of None \<Rightarrow> False
                 | Some q \<Rightarrow> (case iv_max q of None \<Rightarrow> True | Some m \<Rightarrow> iv_min iv < m))
             then Inl (bad ''pricing intervals overlap'')
             else check_intervals token account_stats (Some iv) labels ivs)
          else (let label = to_lower (iv_label iv) in
            if label = '''' then check_intervals token account_stats (Some iv) labels ivs
            else if List.member labels label then Inl (bad ''duplicate pricing tier label'')
            else check_intervals token account_stats (Some iv) (label # labels) ivs))))"

text \<open>The card with the defaults the validation fills in.\<close>

definition with_card_defaults :: "model_price \<Rightarrow> model_price" where
  "with_card_defaults p = p\<lparr>
     mp_platform := (if mp_platform p = '''' then ''anthropic'' else mp_platform p),
     mp_billing_mode := (if mp_billing_mode p = '''' then ''token'' else mp_billing_mode p),
     mp_time_pricing := (case mp_time_pricing p of None \<Rightarrow> None
       | Some t \<Rightarrow> if tp_periods t = [] then None else Some t)\<rparr>"

definition check_card_head :: "model_price \<Rightarrow> unit result" where
  "check_card_head p =
     (if \<not> supported_platform (mp_platform p) then Inl (bad ''unsupported pricing platform'')
      else if \<not> List.member [''token'', ''per_request'', ''image'', ''video''] (mp_billing_mode p)
        then Inl (bad ''invalid billing mode'')
      else check (mp_models p \<noteq> [] \<and> length (mp_models p) \<le> 100)
        (bad ''pricing requires 1 to 100 models''))"

definition check_card_prices :: "bool \<Rightarrow> model_price \<Rightarrow> unit result" where
  "check_card_prices account_stats p =
     (let integer = (if account_stats then 10 else 8); scale = (if account_stats then 10 else 12);
          image_integer = (if account_stats then 10 else 12); image_scale = (if account_stats then 10 else 8)
      in and_then (each (\<lambda>n. check (valid_price n integer scale) (bad ''invalid token price''))
                     [mp_input p, mp_output p, mp_cache_write p, mp_cache_read p]) (\<lambda>_.
         check (valid_price (mp_cache_write_1h p) 8 12 \<and> valid_price (mp_image_input p) 8 12 \<and>
                valid_price (mp_image_output p) image_integer image_scale \<and>
                valid_price (mp_per_request p) 10 10 \<and>
                valid_multiplier (mp_fast p) \<and> valid_multiplier (mp_flex p))
           (bad ''invalid price or multiplier'')))"

definition check_card_modes :: "tz_database \<Rightarrow> bool \<Rightarrow> model_price \<Rightarrow> unit result" where
  "check_card_modes tz account_stats p =
     (if mp_billing_mode p \<noteq> ''token'' \<and> mp_per_request p = None \<and> mp_intervals p = []
        then Inl (bad ''per-request and image billing require a price'')
      else if mp_time_pricing p \<noteq> None \<and> (mp_billing_mode p \<noteq> ''token'' \<or> account_stats)
        then Inl (bad ''time pricing only applies to channel token prices'')
      else and_then (validate_time_price tz (mp_time_pricing p)) (\<lambda>_.
        if account_stats \<and> (mp_fast p \<noteq> None \<or> mp_flex p \<noteq> None \<or> mp_image_input p \<noteq> None)
          then Inl (bad ''account stats pricing does not support service tier or image input overrides'')
        else check (length (mp_intervals p) \<le> 100) (bad ''too many pricing intervals'')))"

definition validate_card ::
  "tz_database \<Rightarrow> bool \<Rightarrow> string list \<Rightarrow> model_price \<Rightarrow> (string list \<times> model_price) result" where
  "validate_card tz account_stats seen p0 =
     (let p = with_card_defaults p0 in
      and_then (check_card_head p) (\<lambda>_.
      and_then (check_patterns seen (mp_models p)) (\<lambda>seen'.
      and_then (check_card_prices account_stats p) (\<lambda>_.
      and_then (check_reasoning (mp_reasoning p)) (\<lambda>_.
      and_then (check_card_modes tz account_stats p) (\<lambda>_.
      and_then (check_intervals (mp_billing_mode p = ''token'') account_stats None []
                 (sort_key iv_min (mp_intervals p))) (\<lambda>_.
      Inr (seen', p))))))))"

text \<open>The loop over the cards, with the patterns seen per platform and the model count.\<close>

fun validate_cards ::
  "tz_database \<Rightarrow> bool \<Rightarrow> nat \<Rightarrow> (string \<Rightarrow> string list) \<Rightarrow> model_price list \<Rightarrow> model_price list result" where
  "validate_cards tz account_stats n_models patterns [] = Inr []"
| "validate_cards tz account_stats n_models patterns (p # ps) =
     (let total' = n_models + length (mp_models p); platform = mp_platform (with_card_defaults p) in
      if 2000 < total' then Inl (bad ''too many pricing model patterns'')
      else and_then (validate_card tz account_stats (patterns platform) p) (\<lambda>(seen, p').
        and_then (validate_cards tz account_stats total' (patterns(platform := seen)) ps) (\<lambda>ps'.
          Inr (p' # ps'))))"

definition validate_model_prices ::
  "tz_database \<Rightarrow> bool \<Rightarrow> model_price list \<Rightarrow> model_price list result" where
  "validate_model_prices tz account_stats prices =
     (if 1000 < length prices then Inl (bad ''too many pricing entries'')
      else validate_cards tz account_stats 0 (\<lambda>_. []) prices)"

fun group_price_inputs :: "string \<Rightarrow> model_price list \<Rightarrow> model_price list result" where
  "group_price_inputs platform [] = Inr []"
| "group_price_inputs platform (p # ps) =
     (let p' = p\<lparr>mp_platform := (if mp_platform p = '''' then platform else mp_platform p),
                 mp_models := map trim_space (mp_models p)\<rparr>
      in if (case mp_time_pricing p of None \<Rightarrow> False | Some t \<Rightarrow> tp_periods t \<noteq> [])
           then Inl (bad ''group model pricing does not support time pricing'')
         else and_then (group_price_inputs platform ps) (\<lambda>ps'. Inr (p' # ps')))"

definition validate_group_prices ::
  "tz_database \<Rightarrow> string \<Rightarrow> model_price list \<Rightarrow> model_price list result" where
  "validate_group_prices tz platform prices =
     and_then (group_price_inputs platform prices) (validate_model_prices tz False)"


section \<open>Tier selection\<close>

definition interval_contains :: "int \<Rightarrow> price_interval \<Rightarrow> bool" where
  "interval_contains ctx iv \<longleftrightarrow>
     iv_min iv < ctx \<and> (case iv_max iv of None \<Rightarrow> True | Some m \<Rightarrow> ctx \<le> m)"

definition interval_at :: "model_price \<Rightarrow> int \<Rightarrow> price_interval option" where
  "interval_at p ctx = find (interval_contains ctx) (mp_intervals p)"

definition resolved_price ::
  "json_number option \<Rightarrow> json_number option \<Rightarrow> json_number option \<Rightarrow> rat option" where
  "resolved_price base override multiplier = (case override of
     Some n \<Rightarrow> Some (rat_val n)
   | None \<Rightarrow> (case base of
       None \<Rightarrow> None
     | Some b \<Rightarrow> Some (rat_val b * decimal_or multiplier ''1'')))"

definition no_interval :: price_interval where
  "no_interval = \<lparr>iv_min = 0, iv_max = None, iv_label = '''', iv_input = None, iv_output = None,
     iv_cache_write = None, iv_cache_write_1h = None, iv_cache_read = None, iv_per_request = None,
     iv_input_multiplier = None, iv_output_multiplier = None, iv_write_multiplier = None,
     iv_read_multiplier = None, iv_sort_order = 0\<rparr>"

record unit_prices =
  up_input :: "rat option"
  up_output :: "rat option"
  up_write :: "rat option"
  up_hour :: "rat option"
  up_read :: "rat option"

definition token_prices :: "model_price \<Rightarrow> price_interval option \<Rightarrow> unit_prices" where
  "token_prices p tier =
     (let iv = (case tier of None \<Rightarrow> no_interval | Some t \<Rightarrow> t);
          write_1h = (case mp_cache_write_1h p of None \<Rightarrow> mp_cache_write p | Some n \<Rightarrow> Some n);
          hour = (case (iv_cache_write iv, iv_cache_write_1h iv) of
                    (Some w, None) \<Rightarrow> Some (rat_val w)
                  | _ \<Rightarrow> resolved_price write_1h (iv_cache_write_1h iv) (iv_write_multiplier iv))
      in \<lparr>up_input = resolved_price (mp_input p) (iv_input iv) (iv_input_multiplier iv),
          up_output = resolved_price (mp_output p) (iv_output iv) (iv_output_multiplier iv),
          up_write = resolved_price (mp_cache_write p) (iv_cache_write iv) (iv_write_multiplier iv),
          up_hour = hour,
          up_read = resolved_price (mp_cache_read p) (iv_cache_read iv) (iv_read_multiplier iv)\<rparr>)"


section \<open>The price of a usage\<close>

definition count_ok :: "int \<Rightarrow> bool" where
  "count_ok n \<longleftrightarrow> \<not> (n < 0 \<or> 2147483647 < n)"

definition usage_counts :: "price_usage \<Rightarrow> int list" where
  "usage_counts u = [u_input u, u_output u, u_cache_write u, u_cache_write_5m u, u_cache_write_1h u,
     u_cache_read u, u_image_input u, u_image_output u, u_requests u, u_video_count u,
     u_video_seconds u, u_image_count u]"

definition context_tokens :: "price_usage \<Rightarrow> int" where
  "context_tokens u = u_input u + u_cache_write u + u_cache_read u"

definition positive_price :: "json_number option \<Rightarrow> bool" where
  "positive_price n = (case n of None \<Rightarrow> False | Some t \<Rightarrow> 0 < rat_val t)"

text \<open>Per-request billing: the tier named by the label, else by the context, else the flat price.\<close>

definition selected_request_price ::
  "model_price \<Rightarrow> string \<Rightarrow> int \<Rightarrow> json_number option" where
  "selected_request_price p label ctx =
     (case (if label \<noteq> '''' then
              find (\<lambda>iv. iv_label iv = label \<and> positive_price (iv_per_request iv)) (mp_intervals p)
            else None) of
        Some iv \<Rightarrow> iv_per_request iv
      | None \<Rightarrow> (case interval_at p ctx of
          Some iv \<Rightarrow> (if positive_price (iv_per_request iv) then iv_per_request iv else mp_per_request p)
        | None \<Rightarrow> mp_per_request p))"

definition request_units :: "model_price \<Rightarrow> price_usage \<Rightarrow> rat result" where
  "request_units p u =
     (let count = (if u_requests u = 0 then 1 else u_requests u) in
      if mp_billing_mode p = ''video'' \<and> (u_video_count u \<le> 0 \<or> u_video_seconds u \<le> 0)
        then Inl (bad ''video pricing requires video usage'')
      else (let units = (if mp_billing_mode p = ''video''
                         then of_int (u_video_count u) * of_int (u_video_seconds u)
                         else of_int count)
        in if u_audio_units u \<noteq> '''' then
             (case rat_text (u_audio_units u) of
                None \<Rightarrow> Inl (bad ''invalid audio usage units'')
              | Some a \<Rightarrow> if a < 0 then Inl (bad ''invalid audio usage units'') else Inr a)
           else Inr units))"

text \<open>Token billing: the multiplier of the service tier, the split of cache writes, the parts.\<close>

definition tier_multiplier :: "model_price \<Rightarrow> string \<Rightarrow> rat" where
  "tier_multiplier p service_tier =
     (let tier = to_lower (trim_space service_tier) in
      if tier = ''priority'' \<or> tier = ''fast'' then
        (case (mp_fast p, mp_fast_ratio p) of
           (None, Some r) \<Rightarrow> r
         | _ \<Rightarrow> decimal_or (mp_fast p) ''2'')
      else if tier = ''ultrafast'' then 2
      else if tier = ''flex'' then decimal_or (mp_flex p) ''0.5''
      else 1)"

definition component :: "int \<Rightarrow> rat option \<Rightarrow> rat result" where
  "component count price =
     (if count = 0 then Inr 0
      else (case price of
              None \<Rightarrow> Inl (bad ''price unavailable for consumed units'')
            | Some q \<Rightarrow> Inr (of_int count * q)))"

fun components :: "(int \<times> rat option) list \<Rightarrow> rat list result" where
  "components [] = Inr []"
| "components ((count, price) # cs) =
     and_then (component count price) (\<lambda>v. and_then (components cs) (\<lambda>vs. Inr (v # vs)))"

definition split_cache_write :: "price_usage \<Rightarrow> int \<times> int" where
  "split_cache_write u =
     (let five = u_cache_write_5m u; hour = u_cache_write_1h u in
      if 0 < u_cache_write u \<and> u_cache_write u < five + hour then
        (let five' = (u_cache_write u * five * 2 + (five + hour)) div (2 * (five + hour))
         in (five', u_cache_write u - five'))
      else (five, hour))"

definition cache_write_cost :: "model_price \<Rightarrow> price_usage \<Rightarrow> unit_prices \<Rightarrow> rat result" where
  "cache_write_cost p u up =
     (let (five, hour) = split_cache_write u;
          split = (mp_cache_write_1h p \<noteq> None \<or> list_ex (\<lambda>iv. iv_cache_write_1h iv \<noteq> None) (mp_intervals p))
      in if split \<and> (0 < five \<or> 0 < hour) then
           and_then (component five (up_write up)) (\<lambda>c5.
             and_then (component hour (up_hour up)) (\<lambda>c1. Inr (c5 + c1)))
         else component (u_cache_write u) (up_write up))"

definition token_counts :: "price_usage \<Rightarrow> unit_prices \<Rightarrow> rat option \<Rightarrow> rat \<Rightarrow> (int \<times> rat option) list" where
  "token_counts u up image_price image_out =
     (let image_input = min (u_image_input u) (u_input u) in
      [(u_input u - image_input, up_input up),
       (max (u_output u - u_image_output u) 0, up_output up),
       (0, up_write up),
       (u_cache_read u, up_read up),
       (image_input, image_price),
       (u_image_output u, Some image_out)])"

definition token_parts :: "model_price \<Rightarrow> price_usage \<Rightarrow> bool \<Rightarrow> rat list result" where
  "token_parts p u long_context =
     (let ctx = (if long_context then context_tokens u else 1);
          up = token_prices p (interval_at p ctx);
          image_price = (if positive_price (mp_image_input p)
                         then map_option rat_val (mp_image_input p) else up_input up)
      in and_then (components (token_counts u up image_price (decimal_or (mp_image_output p) ''0''))) (\<lambda>vs.
         and_then (cache_write_cost p u up) (\<lambda>w. Inr (vs[2 := w]))))"

definition effort_multiplier :: "model_price \<Rightarrow> string \<Rightarrow> rat" where
  "effort_multiplier p effort =
     (case assoc (mp_reasoning p) effort of None \<Rightarrow> 1 | Some n \<Rightarrow> rat_val n)"

definition make_cost :: "rat list \<Rightarrow> rat \<Rightarrow> json_number \<Rightarrow> price_cost" where
  "make_cost parts amount rate =
     (let actual = amount * rat_val rate in
      \<lparr>c_input = float_string 10 (parts ! 0), c_output = float_string 10 (parts ! 1),
       c_cache_write = float_string 10 (parts ! 2), c_cache_read = float_string 10 (parts ! 3),
       c_image_input = float_string 10 (parts ! 4), c_image_output = float_string 10 (parts ! 5),
       c_total = float_string 10 amount, c_actual = float_string 10 actual,
       c_debit = float_string 8 actual, c_total_value = amount\<rparr>)"

definition request_total :: "model_price \<Rightarrow> price_usage \<Rightarrow> string \<Rightarrow> string \<Rightarrow> rat result" where
  "request_total p u effort label =
     (case selected_request_price p label (context_tokens u) of
        None \<Rightarrow> Inl (bad ''no price for request tier'')
      | Some n \<Rightarrow> and_then (request_units p u) (\<lambda>units.
          Inr (rat_val n * units * effort_multiplier p effort)))"

definition calculate_price ::
  "tz_database \<Rightarrow> model_price \<Rightarrow> price_usage \<Rightarrow> json_number \<Rightarrow> string \<Rightarrow> string \<Rightarrow> string \<Rightarrow>
   int option \<Rightarrow> bool \<Rightarrow> price_cost result" where
  "calculate_price tz p u rate service_tier effort label when long_context =
     and_then (validate_model_prices tz False [p]) (\<lambda>_.
     if \<not> valid_price (Some rate) 6 4 then Inl (bad ''invalid billing rate'')
     else if \<not> list_all count_ok (usage_counts u) then Inl (bad ''invalid usage count'')
     else if List.member [''per_request'', ''image'', ''video''] (mp_billing_mode p) then
       and_then (request_total p u effort label) (\<lambda>total.
         Inr (make_cost (replicate 6 0) total rate))
     else
       and_then (token_parts p u long_context) (\<lambda>vs.
         (let m = effort_multiplier p effort * tier_multiplier p service_tier *
                  multiplier_at tz (mp_time_pricing p) when;
              parts = map (\<lambda>v. v * m) vs
          in Inr (make_cost parts (sum_list parts) rate))))"

end
