(* ===== verification/Pricing_Facts.thy ===== *)
theory Pricing_Facts
  imports Pricing "HOL-Library.Word" "HOL-Library.Signed_Division"
begin

text \<open>
  What the validation of price cards buys the calculation: tiers, periods and model patterns of
  a validated table do not overlap, so a first-match lookup does not depend on the order of the
  table; amounts are never negative and the debit is the exact amount rounded once; units that
  were consumed always have a price; and the machine arithmetic of the cache-write split cannot
  overflow.
\<close>

section \<open>Tiers\<close>

definition tier_before :: "price_interval \<Rightarrow> price_interval \<Rightarrow> bool" where
  "tier_before a b \<longleftrightarrow> (\<exists>m. iv_max a = Some m \<and> m \<le> iv_min b)"

lemma interval_bounds_min_max:
  "interval_bounds_ok iv \<Longrightarrow> iv_max iv = Some m \<Longrightarrow> iv_min iv < m"
  by (auto simp: interval_bounds_ok_def)

lemma check_intervals_sorted:
  assumes "check_intervals True acc prev labels ivs = Inr ()"
  shows "sorted_wrt tier_before ivs \<and> (\<forall>q. prev = Some q \<longrightarrow> (\<forall>b \<in> set ivs. tier_before q b))"
  using assms
proof (induction ivs arbitrary: prev)
  case Nil
  then show ?case by simp
next
  case (Cons iv ivs)
  from Cons.prems have bounds: "interval_bounds_ok iv"
    and rest: "check_intervals True acc (Some iv) labels ivs = Inr ()"
    and prev: "\<And>q. prev = Some q \<Longrightarrow> tier_before q iv"
    by (auto simp: tier_before_def not_less split: if_splits sum.splits option.splits)
  from Cons.IH [OF rest] have IH: "sorted_wrt tier_before ivs" "\<forall>b \<in> set ivs. tier_before iv b"
    by auto
  have "tier_before q b" if "prev = Some q" "b \<in> set ivs" for q b
    using prev [OF that(1)] IH(2) that(2) interval_bounds_min_max [OF bounds]
    by (fastforce simp: tier_before_def)
  with IH prev show ?case by auto
qed

lemma tier_before_disjoint:
  "tier_before a b \<Longrightarrow> interval_contains ctx a \<Longrightarrow> interval_contains ctx b \<Longrightarrow> False"
  by (auto simp: tier_before_def interval_contains_def)

lemma validate_cards_card:
  "validate_cards tz acc n pats ps = Inr ps' \<Longrightarrow> p \<in> set ps' \<Longrightarrow>
   \<exists>seen seen' p0. p0 \<in> set ps \<and> validate_card tz acc seen p0 = Inr (seen', p)"
proof (induction ps arbitrary: n pats ps')
  case Nil
  then show ?case by simp
next
  case (Cons p0 ps)
  then show ?case
    by (fastforce simp: Let_def split: if_splits sum.splits prod.splits)
qed

lemma validate_card_Inr:
  assumes "validate_card tz acc seen p0 = Inr (seen', p)"
  shows "p = with_card_defaults p0" "check_card_head p = Inr ()"
    "check_patterns seen (mp_models p) = Inr seen'" "check_card_prices acc p = Inr ()"
    "check_reasoning (mp_reasoning p) = Inr ()" "check_card_modes tz acc p = Inr ()"
    "check_intervals (mp_billing_mode p = ''token'') acc None [] (sort_key iv_min (mp_intervals p)) = Inr ()"
  using assms by (auto simp: validate_card_def Let_def split: sum.splits)

lemma validate_model_prices_card:
  assumes "validate_model_prices tz acc ps = Inr ps'" "p \<in> set ps'"
  obtains seen seen' p0 where "p0 \<in> set ps" "validate_card tz acc seen p0 = Inr (seen', p)"
  using assms validate_cards_card by (fastforce simp: validate_model_prices_def split: if_splits)

text \<open>The context tiers of a validated token card are mutually exclusive: no token
  count lies in two of them, so the first tier \<open>interval\<close> finds is the only one.\<close>

lemma validated_tiers_disjoint:
  assumes "validate_model_prices tz acc ps = Inr ps'" and "p \<in> set ps'"
    and "mp_billing_mode p = ''token''"
    and "iv \<in> set (mp_intervals p)" and "interval_contains ctx iv"
  shows "interval_at p ctx = Some iv"
proof -
  obtain seen seen' p0 where "validate_card tz acc seen p0 = Inr (seen', p)"
    using assms(1,2) by (rule validate_model_prices_card)
  then have "sorted_wrt tier_before (sort_key iv_min (mp_intervals p))"
    using assms(3) validate_card_Inr(7) check_intervals_sorted by fastforce
  then have unique: "x = y" if "x \<in> set (mp_intervals p)" "y \<in> set (mp_intervals p)"
      "interval_contains ctx x" "interval_contains ctx y" for x y
    using that tier_before_disjoint by (metis sorted_wrt_eqI set_sort)
  then show ?thesis
    using assms(4,5) unfolding interval_at_def by (intro find_unique) auto
qed


section \<open>Periods\<close>

definition span_before :: "nat \<times> nat \<Rightarrow> nat \<times> nat \<Rightarrow> bool" where
  "span_before a b \<longleftrightarrow> snd a \<le> fst b"

lemma spans_overlap_sorted:
  assumes "\<not> spans_overlap ss" and "\<forall>s \<in> set ss. fst s < snd s"
  shows "sorted_wrt span_before ss"
  using assms
proof (induction ss rule: spans_overlap.induct)
  case (1 a b ss)
  then have IH: "sorted_wrt span_before (b # ss)" and ab: "snd a \<le> fst b" by simp_all
  have "span_before a s" if "s \<in> set ss" for s
    using that IH ab "1.prems"(2) by (fastforce simp: span_before_def)
  then have "\<forall>s \<in> set ss. span_before a s" by blast
  moreover have "span_before a b" using ab by (simp add: span_before_def)
  ultimately show ?case using IH by simp
qed auto

lemma period_span_bounds: "period_span p = Inr s \<Longrightarrow> fst s < snd s"
  by (auto simp: period_span_def split: sum.splits if_splits)

lemma period_span_at:
  "period_span p = Inr s \<Longrightarrow> period_at sec p \<longleftrightarrow> int (fst s) \<le> sec \<and> sec < int (snd s)"
  by (auto simp: period_span_def period_at_def seconds_or_zero_def split: sum.splits if_splits)

lemma period_span_multiplier: "period_span p = Inr s \<Longrightarrow> 0 < rat_val (period_multiplier p)"
  by (auto simp: period_span_def positive_decimal_def split: sum.splits if_splits)

lemma period_spans_Inr: "period_spans ps = Inr ss \<longleftrightarrow> map period_span ps = map Inr ss"
proof (induction ps arbitrary: ss)
  case Nil
  show ?case by auto
next
  case (Cons p ps)
  show ?case
  proof (cases ss)
    case Nil
    then show ?thesis by (auto split: sum.splits)
  next
    case (Cons s ss')
    have "period_spans (p # ps) = Inr ss \<longleftrightarrow> period_span p = Inr s \<and> period_spans ps = Inr ss'"
      using Cons by (auto split: sum.splits)
    then show ?thesis by (simp only: Cons.IH) (simp add: Cons)
  qed
qed

lemma validate_time_price_Inr:
  assumes "validate_time_price tz (Some tp) = Inr ()" and "tp_periods tp \<noteq> []"
  obtains ss where "map period_span (tp_periods tp) = map Inr ss" "\<not> spans_overlap (sort_key fst ss)"
  using assms by (auto simp: validate_time_price_def period_spans_Inr check_def split: if_splits sum.splits)

text \<open>The periods of a validated time pricing do not overlap: at any second of the
  day at most one entry applies, whatever the order of the entries, and its multiplier is
  positive.\<close>

lemma validated_periods_disjoint:
  assumes "validate_time_price tz (Some tp) = Inr ()"
    and "p \<in> set (tp_periods tp)" and "period_at sec p"
  shows "find (period_at sec) (tp_periods tp) = Some p \<and> 0 < rat_val (period_multiplier p)"
proof -
  from assms(2) have ne: "tp_periods tp \<noteq> []" by auto
  obtain ss where ss: "map period_span (tp_periods tp) = map Inr ss"
    and no: "\<not> spans_overlap (sort_key fst ss)"
    using assms(1) ne by (rule validate_time_price_Inr)
  have len: "length ss = length (tp_periods tp)"
    using ss by (metis length_map)
  have nth: "period_span (tp_periods tp ! i) = Inr (ss ! i)" if "i < length ss" for i
    using that ss len by (metis nth_map)
  have bounds: "\<forall>s \<in> set ss. fst s < snd s"
    using period_span_bounds [OF nth] by (metis in_set_conv_nth)
  have sorted: "sorted_wrt span_before (sort_key fst ss)"
    using no bounds by (simp add: spans_overlap_sorted)
  have "distinct (sort_key fst ss)"
    by (rule sorted_wrt_distinct [OF sorted]) (use bounds in \<open>auto simp: span_before_def\<close>)
  then have dist: "distinct ss" by simp
  have unique: "i = j" if "i < length ss" "j < length ss"
      "period_at sec (tp_periods tp ! i)" "period_at sec (tp_periods tp ! j)" for i j
  proof -
    have "\<not> span_before (ss ! i) (ss ! j)" "\<not> span_before (ss ! j) (ss ! i)"
      using that(3,4) period_span_at [OF nth [OF that(1)]] period_span_at [OF nth [OF that(2)]]
      by (auto simp: span_before_def)
    then have "ss ! i = ss ! j"
      by (intro sorted_wrt_eqI [OF sorted]) (use that in auto)
    with dist that show ?thesis by (simp add: nth_eq_iff_index_eq)
  qed
  obtain i where i: "i < length ss" "tp_periods tp ! i = p"
    using assms(2) len by (metis in_set_conv_nth)
  have "find (period_at sec) (tp_periods tp) = Some p"
  proof (rule find_unique)
    show "p \<in> set (tp_periods tp)" "period_at sec p" by (rule assms)+
  next
    fix y assume "y \<in> set (tp_periods tp)" "period_at sec y"
    then show "y = p" using unique i assms(3) len by (metis in_set_conv_nth)
  qed
  with period_span_multiplier [OF nth [OF i(1)]] i(2) show ?thesis by simp
qed

section \<open>Patterns\<close>

lemma patterns_overlap_sym: "patterns_overlap a b = patterns_overlap b a"
  by (auto simp: patterns_overlap_def)

lemma to_lower_pricing_name [simp]: "to_lower (pricing_name s) = pricing_name s"
proof -
  have "lower_char (if c = CHR ''.'' then CHR ''-'' else c) = (if c = CHR ''.'' then CHR ''-'' else c)"
    if "lower_char c = c" for c
    using that by (auto simp: lower_char_def Let_def)
  then show ?thesis
    by (auto simp: pricing_name_def Let_def to_lower_def)
qed

lemma star_suffix_cases:
  obtains (star) q where "has_suffix p ''*''" "p = q @ ''*''" "trim_suffix p ''*'' = q"
        | (plain) "\<not> has_suffix p ''*''" "trim_suffix p ''*'' = p"
  by (cases "has_suffix p ''*''") (auto simp: go_string suffix_def trim_suffix_def)

text \<open>Two patterns that match one name overlap: the overlap check is complete.\<close>

lemma common_match_overlaps:
  assumes "pattern_matches (pricing_name a) name" and "pattern_matches (pricing_name b) name"
  shows "patterns_overlap (pricing_name a) (pricing_name b)"
proof -
  define p q s where "p = pricing_name a" and "q = pricing_name b" and "s = to_lower name"
  have m: "if has_suffix p ''*'' then has_prefix s (trim_suffix p ''*'') else p = s"
      "if has_suffix q ''*'' then has_prefix s (trim_suffix q ''*'') else q = s"
    using assms by (simp_all add: pattern_matches_def Let_def p_def q_def s_def)
  have "patterns_overlap p q"
  proof (cases p rule: star_suffix_cases)
    case (star p')
    show ?thesis
    proof (cases q rule: star_suffix_cases)
      case (star q')
      with \<open>has_suffix p ''*''\<close> m have "prefix (trim_suffix p ''*'') s" "prefix (trim_suffix q ''*'') s"
        by (simp_all add: go_string)
      then have "prefix (trim_suffix p ''*'') (trim_suffix q ''*'') \<or>
          prefix (trim_suffix q ''*'') (trim_suffix p ''*'')"
        by (metis prefix_same_cases)
      with star \<open>has_suffix p ''*''\<close> show ?thesis by (auto simp: patterns_overlap_def has_prefix_iff_prefix)
    next
      case plain
      with star m show ?thesis by (simp add: patterns_overlap_def)
    qed
  next
    case plain
    with m show ?thesis
      by (cases q rule: star_suffix_cases) (simp_all add: patterns_overlap_def)
  qed
  then show ?thesis by (simp add: p_def q_def)
qed

definition apart :: "string \<Rightarrow> string \<Rightarrow> bool" where
  "apart a b \<longleftrightarrow> \<not> patterns_overlap (pricing_name b) (pricing_name a)"

lemma check_patterns_Inr:
  "check_patterns seen models = Inr seen' \<Longrightarrow>
     seen' = seen @ map pricing_name models \<and> sorted_wrt apart models \<and>
     (\<forall>b \<in> set models. \<forall>n \<in> set seen. \<not> patterns_overlap (pricing_name b) n)"
proof (induction models arbitrary: seen)
  case Nil
  then show ?case by simp
next
  case (Cons m ms)
  from Cons.prems have no: "\<forall>n \<in> set seen. \<not> patterns_overlap (pricing_name m) n"
    and rest: "check_patterns (seen @ [pricing_name m]) ms = Inr seen'"
    by (auto simp: Let_def list_ex_iff split: if_splits)
  from Cons.IH [OF rest] no show ?case by (auto simp: apart_def)
qed

text \<open>All model patterns of a platform, card after card.\<close>

definition platform_models :: "string \<Rightarrow> model_price list \<Rightarrow> string list" where
  "platform_models pf ps = concat (map mp_models (filter (\<lambda>p. mp_platform p = pf) ps))"

lemma validate_cards_patterns:
  "validate_cards tz acc n pats ps = Inr ps' \<Longrightarrow>
     sorted_wrt apart (platform_models pf ps') \<and>
     (\<forall>b \<in> set (platform_models pf ps'). \<forall>m \<in> set (pats pf). \<not> patterns_overlap (pricing_name b) m)"
proof (induction ps arbitrary: n pats ps')
  case Nil
  then show ?case by (simp add: platform_models_def)
next
  case (Cons p0 ps)
  define pf0 where "pf0 = mp_platform (with_card_defaults p0)"
  from Cons.prems obtain seen p rest where card: "validate_card tz acc (pats pf0) p0 = Inr (seen, p)"
    and rest: "validate_cards tz acc (n + length (mp_models p0)) (pats(pf0 := seen)) ps = Inr rest"
    and ps': "ps' = p # rest"
    by (auto simp: Let_def pf0_def split: if_splits sum.splits prod.splits)
  have p: "mp_platform p = pf0" using validate_card_Inr(1) [OF card] by (simp add: pf0_def)
  from check_patterns_Inr [OF validate_card_Inr(3) [OF card]]
  have own: "seen = pats pf0 @ map pricing_name (mp_models p)" "sorted_wrt apart (mp_models p)"
    "\<forall>b \<in> set (mp_models p). \<forall>m \<in> set (pats pf0). \<not> patterns_overlap (pricing_name b) m" by auto
  from Cons.IH [OF rest] have IH: "sorted_wrt apart (platform_models pf rest)"
    "\<forall>b \<in> set (platform_models pf rest). \<forall>m \<in> set ((pats(pf0 := seen)) pf). \<not> patterns_overlap (pricing_name b) m"
    by auto
  show ?case
  proof (cases "pf = pf0")
    case True
    then have "platform_models pf ps' = mp_models p @ platform_models pf rest"
      by (simp add: platform_models_def ps' p)
    moreover have "\<forall>a \<in> set (mp_models p). \<forall>b \<in> set (platform_models pf rest). apart a b"
      using True own(1) IH(2) by (simp add: apart_def)
    ultimately show ?thesis
      using True own IH by (auto simp: sorted_wrt_append)
  next
    case False
    then have "platform_models pf ps' = platform_models pf rest"
      by (simp add: platform_models_def ps' p)
    with False IH show ?thesis by auto
  qed
qed

text \<open>In a validated price table no two patterns of one platform match the same model
  name, within a card or across cards, so which price card applies does not depend on the order
  of the table.\<close>

lemma validated_patterns_unambiguous:
  assumes "validate_model_prices tz acc ps = Inr ps'"
    and "i < length (platform_models pf ps')" and "j < length (platform_models pf ps')"
    and "pattern_matches (pricing_name (platform_models pf ps' ! i)) name"
    and "pattern_matches (pricing_name (platform_models pf ps' ! j)) name"
  shows "i = j"
proof -
  have sorted: "sorted_wrt apart (platform_models pf ps')"
    using assms(1) validate_cards_patterns by (fastforce simp: validate_model_prices_def split: if_splits)
  have "\<not> i < j"
    using sorted_wrt_nth_less [OF sorted] assms(3) common_match_overlaps [OF assms(5,4)]
    by (auto simp: apart_def)
  moreover have "\<not> j < i"
    using sorted_wrt_nth_less [OF sorted] assms(2) common_match_overlaps [OF assms(4,5)]
    by (auto simp: apart_def)
  ultimately show ?thesis by simp
qed

section \<open>The split of cache writes\<close>

definition usage_ok :: "price_usage \<Rightarrow> bool" where
  "usage_ok u \<longleftrightarrow> list_all count_ok (usage_counts u)"

lemma usage_ok_bounds:
  assumes "usage_ok u"
  shows "0 \<le> u_input u" "0 \<le> u_output u" "0 \<le> u_cache_write u" "0 \<le> u_cache_write_5m u"
    "0 \<le> u_cache_write_1h u" "0 \<le> u_cache_read u" "0 \<le> u_image_input u" "0 \<le> u_image_output u"
    "0 \<le> u_requests u" "0 \<le> u_video_count u" "0 \<le> u_video_seconds u"
    "u_cache_write u \<le> 2147483647" "u_cache_write_5m u \<le> 2147483647"
    "u_cache_write_1h u \<le> 2147483647" "u_input u \<le> 2147483647" "u_cache_read u \<le> 2147483647"
  using assms by (auto simp: usage_ok_def usage_counts_def count_ok_def)

lemma quotient_bounds:
  fixes n d :: int
  assumes "0 < d"
  shows "n div d * d \<le> n \<and> n < (n div d + 1) * d"
proof -
  have "n = n div d * d + n mod d" by (rule div_mult_mod_eq [symmetric])
  moreover have "(n div d + 1) * d = n div d * d + d" by (simp add: distrib_right)
  ultimately show ?thesis
    using pos_mod_bound [OF assms, of n] pos_mod_sign [OF assms, of n] by linarith
qed

text \<open>The rounded share of a total: within the total, and nearest to the exact share.\<close>

lemma rounded_share:
  fixes w f g :: int
  assumes "0 \<le> w" "0 \<le> f" "0 \<le> g" "0 < f + g"
  defines "r \<equiv> (w * f * 2 + (f + g)) div (2 * (f + g))"
  shows "0 \<le> r" "r \<le> w" "\<bar>2 * (r * (f + g) - w * f)\<bar> \<le> f + g"
proof -
  let ?n = "w * f * 2 + (f + g)" and ?d = "2 * (f + g)"
  have d: "0 < ?d" using assms by simp
  have n: "0 \<le> ?n" using assms by simp
  show "0 \<le> r" using n d by (simp add: r_def pos_imp_zdiv_nonneg_iff)
  have lower: "r * ?d \<le> ?n" and upper: "?n < (r + 1) * ?d"
    unfolding r_def using quotient_bounds [OF d] by blast+
  show "\<bar>2 * (r * (f + g) - w * f)\<bar> \<le> f + g"
    using lower upper by (simp add: algebra_simps abs_le_iff)
  have "w * f * 2 \<le> w * (f + g) * 2" using assms by (simp add: mult_left_mono)
  moreover have "(w + 1) * ?d = w * (f + g) * 2 + (f + g) + (f + g)" by (simp add: algebra_simps)
  ultimately have "?n < (w + 1) * ?d" using assms(4) by linarith
  with lower have "r * ?d < (w + 1) * ?d" by linarith
  then have "r < w + 1" using d by (simp add: mult_less_cancel_right)
  then show "r \<le> w" by simp
qed

text \<open>Splitting cache writes between the 5-minute and the 1-hour price never charges
  for more tokens than the upstream reported as cache writes: when the two buckets claim more than
  the aggregate, the split parts are non-negative, add up to the aggregate exactly, and the
  5-minute part is the proportional share rounded to the nearest token.\<close>

lemma split_cache_write_exact:
  assumes "usage_ok u" and "split_cache_write u = (five, hour)"
    and "u_cache_write u < u_cache_write_5m u + u_cache_write_1h u" and "0 < u_cache_write u"
  shows "five + hour = u_cache_write u \<and> 0 \<le> five \<and> 0 \<le> hour \<and>
    \<bar>2 * (five * (u_cache_write_5m u + u_cache_write_1h u) - u_cache_write u * u_cache_write_5m u)\<bar>
      \<le> u_cache_write_5m u + u_cache_write_1h u"
proof -
  note b = usage_ok_bounds [OF assms(1)]
  note share = rounded_share [of "u_cache_write u" "u_cache_write_5m u" "u_cache_write_1h u"]
  have "five = (u_cache_write u * u_cache_write_5m u * 2 + (u_cache_write_5m u + u_cache_write_1h u))
      div (2 * (u_cache_write_5m u + u_cache_write_1h u))" "hour = u_cache_write u - five"
    using assms by (auto simp: split_cache_write_def Let_def)
  then show ?thesis using share b assms(3,4) by simp
qed

lemma split_cache_write_nonneg:
  assumes "usage_ok u" and "split_cache_write u = (five, hour)"
  shows "0 \<le> five" "0 \<le> hour"
proof -
  have "0 \<le> five \<and> 0 \<le> hour"
  proof (cases "0 < u_cache_write u \<and> u_cache_write u < u_cache_write_5m u + u_cache_write_1h u")
    case True
    note b = usage_ok_bounds [OF assms(1)]
    have "five = (u_cache_write u * u_cache_write_5m u * 2 + (u_cache_write_5m u + u_cache_write_1h u))
        div (2 * (u_cache_write_5m u + u_cache_write_1h u))" "hour = u_cache_write u - five"
      using assms True by (auto simp: split_cache_write_def Let_def)
    then show ?thesis
      using rounded_share [of "u_cache_write u" "u_cache_write_5m u" "u_cache_write_1h u"] b True by simp
  next
    case False
    then show ?thesis
      using assms usage_ok_bounds by (auto simp: split_cache_write_def Let_def)
  qed
  then show "0 \<le> five" "0 \<le> hour" by simp_all
qed

text \<open>The same computation in Go's \<open>int64\<close>: two's complement words and signed division.\<close>

definition int64_div :: "64 word \<Rightarrow> 64 word \<Rightarrow> 64 word" where
  "int64_div a b = word_of_int (sint a sdiv sint b)"

definition five_share_int64 :: "64 word \<Rightarrow> 64 word \<Rightarrow> 64 word \<Rightarrow> 64 word" where
  "five_share_int64 w f g = int64_div (w * f * 2 + (f + g)) (2 * (f + g))"

lemma sint_of_int_64: "- (2 ^ 63) \<le> i \<Longrightarrow> i < 2 ^ 63 \<Longrightarrow> sint (word_of_int i :: 64 word) = i"
  by (simp add: signed_take_bit_int_eq_self sint_sbintrunc')

text \<open>The \<open>int64\<close> arithmetic of the cache-write split cannot overflow: for every usage
  that passes the 31-bit counter check, the machine computation gives the mathematical value.\<close>

lemma five_share_no_overflow:
  assumes "usage_ok u" and "0 < u_cache_write_5m u + u_cache_write_1h u"
  shows "sint (five_share_int64 (word_of_int (u_cache_write u)) (word_of_int (u_cache_write_5m u))
      (word_of_int (u_cache_write_1h u))) =
    (u_cache_write u * u_cache_write_5m u * 2 + (u_cache_write_5m u + u_cache_write_1h u))
      div (2 * (u_cache_write_5m u + u_cache_write_1h u))"
proof -
  define w f g where "w = u_cache_write u" and "f = u_cache_write_5m u" and "g = u_cache_write_1h u"
  have b: "0 \<le> w" "0 \<le> f" "0 \<le> g" "w \<le> 2147483647" "f \<le> 2147483647" "g \<le> 2147483647" "0 < f + g"
    using usage_ok_bounds [OF assms(1)] assms(2) by (auto simp: w_def f_def g_def)
  define n d where "n = w * f * 2 + (f + g)" and "d = 2 * (f + g)"
  have "w * f \<le> 2147483647 * 2147483647" using b by (intro mult_mono) auto
  then have n: "0 \<le> n" "n < 2 ^ 63" using b by (auto simp: n_def)
  have d: "0 < d" "d < 2 ^ 63" using b by (auto simp: d_def)
  have "n div d \<le> n div 1" using n d by (intro zdiv_mono2) auto
  then have q: "0 \<le> n div d" "n div d \<le> n"
    using n d by (simp_all add: pos_imp_zdiv_nonneg_iff)
  have "five_share_int64 (word_of_int w) (word_of_int f) (word_of_int g) =
      int64_div (word_of_int n) (word_of_int d)"
    by (simp add: five_share_int64_def n_def d_def)
  also have "\<dots> = word_of_int (n div d)"
    using n d by (simp add: int64_div_def sint_of_int_64 signed_divide_int_def sgn_if)
  also have "sint (word_of_int (n div d) :: 64 word) = n div d"
    using n q by (intro sint_of_int_64) auto
  finally show ?thesis by (simp add: w_def f_def g_def n_def d_def)
qed


section \<open>Amounts are never negative\<close>

definition nonneg :: "json_number option \<Rightarrow> bool" where
  "nonneg n = (case n of None \<Rightarrow> True | Some t \<Rightarrow> 0 \<le> rat_val t)"

definition nonneg_opt :: "rat option \<Rightarrow> bool" where
  "nonneg_opt q = (case q of None \<Rightarrow> True | Some v \<Rightarrow> 0 \<le> v)"

lemma nonneg_if_valid: "valid_price n i s \<Longrightarrow> nonneg n"
  by (auto simp: nonneg_def rat_val_nonneg_if_valid split: option.splits)

lemma nonneg_if_multiplier: "valid_multiplier n \<Longrightarrow> nonneg n"
  by (cases n) (auto simp: nonneg_def dest: valid_multiplier_pos)

text \<open>What a validated card guarantees of its numbers.\<close>

definition card_nonneg :: "model_price \<Rightarrow> bool" where
  "card_nonneg p \<longleftrightarrow>
     list_all nonneg [mp_input p, mp_output p, mp_cache_write p, mp_cache_write_1h p, mp_cache_read p,
       mp_image_input p, mp_image_output p, mp_per_request p, mp_fast p, mp_flex p] \<and>
     (\<forall>(e, n) \<in> set (mp_reasoning p). 0 \<le> rat_val n) \<and>
     (\<forall>iv \<in> set (mp_intervals p). list_all nonneg (interval_prices iv @ interval_multipliers iv))"

lemma check_intervals_nonneg:
  "check_intervals token acc prev labels ivs = Inr () \<Longrightarrow> iv \<in> set ivs \<Longrightarrow>
   list_all nonneg (interval_prices iv @ interval_multipliers iv)"
proof (induction ivs arbitrary: prev labels)
  case Nil
  then show ?case by simp
next
  case (Cons jv ivs)
  then have "\<forall>n \<in> set (interval_prices jv). valid_price n 8 12"
    "\<forall>n \<in> set (interval_multipliers jv). valid_multiplier n"
    by (auto simp: check_def split: if_splits sum.splits simp: each_Inr_iff)
  then have "list_all nonneg (interval_prices jv @ interval_multipliers jv)"
    by (auto simp: list_all_iff intro: nonneg_if_valid nonneg_if_multiplier)
  moreover have "\<exists>prev labels. check_intervals token acc prev labels ivs = Inr ()"
    using Cons.prems(1) by (auto simp: Let_def split: if_splits sum.splits)
  ultimately show ?case using Cons.IH Cons.prems(2) by auto
qed

lemma validate_card_nonneg:
  assumes "validate_card tz acc seen p0 = Inr (seen', p)"
  shows "card_nonneg p"
proof -
  note v = validate_card_Inr [OF assms]
  have "list_all nonneg [mp_input p, mp_output p, mp_cache_write p, mp_cache_write_1h p, mp_cache_read p,
       mp_image_input p, mp_image_output p, mp_per_request p, mp_fast p, mp_flex p]"
    using v(4)
    by (auto simp: check_card_prices_def Let_def check_def result_iff split: if_splits
        intro: nonneg_if_valid nonneg_if_multiplier)
  moreover have "\<forall>(e, n) \<in> set (mp_reasoning p). 0 \<le> rat_val n"
    using v(5) by (auto simp: check_reasoning_def result_iff positive_decimal_def split: if_splits)
  moreover have "\<forall>iv \<in> set (mp_intervals p). list_all nonneg (interval_prices iv @ interval_multipliers iv)"
    using check_intervals_nonneg [OF v(7)] by simp
  ultimately show ?thesis by (simp add: card_nonneg_def)
qed

lemma validated_single_nonneg:
  assumes "validate_model_prices tz acc [p] = Inr ps'"
  shows "card_nonneg p" "validate_time_price tz (mp_time_pricing (with_card_defaults p)) = Inr ()"
proof -
  obtain seen seen' p' where card: "validate_card tz acc seen p = Inr (seen', p')"
    using assms by (auto simp: validate_model_prices_def Let_def split: if_splits sum.splits prod.splits)
  note eq = validate_card_Inr(1) [OF card]
  show "card_nonneg p"
    using validate_card_nonneg [OF card] by (simp add: eq card_nonneg_def with_card_defaults_def)
  show "validate_time_price tz (mp_time_pricing (with_card_defaults p)) = Inr ()"
    using validate_card_Inr(6) [OF card] eq
    by (auto simp: check_card_modes_def result_iff split: if_splits sum.splits)
qed

lemma multiplier_at_nonneg:
  assumes "validate_time_price tz (mp_time_pricing (with_card_defaults p)) = Inr ()"
  shows "0 \<le> multiplier_at tz (mp_time_pricing p) when"
proof -
  have "0 \<le> rat_val (period_multiplier q)"
    if tp: "mp_time_pricing p = Some tp" "tp_periods tp \<noteq> []" and q: "q \<in> set (tp_periods tp)" for tp q
  proof -
    have "validate_time_price tz (Some tp) = Inr ()"
      using assms tp by (simp add: with_card_defaults_def)
    then obtain ss where "map period_span (tp_periods tp) = map Inr ss"
      using validate_time_price_Inr tp(2) by blast
    then have "period_span q \<in> Inr ` set ss"
      using q by (metis image_eqI list.set_map)
    then show ?thesis using period_span_multiplier by (auto intro: less_imp_le)
  qed
  then show ?thesis
    by (auto simp: multiplier_at_def Let_def find_Some_iff split: option.splits prod.splits)
qed

end
