(* ===== verification/Charges.thy ===== *)
theory Charges
  imports Pricing_Facts
begin

text \<open>
  The amounts \<open>calculatePrice\<close> returns: never negative, the debit is the exact charge rounded once
  to eight decimals, units that were consumed always have a price, and a higher billing rate never
  lowers a debit. The usage and the card the witnesses use stand at the end.
\<close>

lemma resolved_price_nonneg:
  "nonneg b \<Longrightarrow> nonneg ov \<Longrightarrow> nonneg m \<Longrightarrow> nonneg_opt (resolved_price b ov m)"
proof -
  have "rat_val ''1'' = 1" by code_simp
  then show "nonneg b \<Longrightarrow> nonneg ov \<Longrightarrow> nonneg m \<Longrightarrow> nonneg_opt (resolved_price b ov m)"
    by (auto simp: resolved_price_def nonneg_opt_def nonneg_def decimal_or_def split: option.splits)
qed

definition units_nonneg :: "unit_prices \<Rightarrow> bool" where
  "units_nonneg up \<longleftrightarrow> list_all nonneg_opt [up_input up, up_output up, up_write up, up_hour up, up_read up]"

lemma interval_at_in: "interval_at p ctx = Some iv \<Longrightarrow> iv \<in> set (mp_intervals p)"
  by (auto simp: interval_at_def find_Some_iff)

lemma token_prices_nonneg:
  assumes "card_nonneg p"
  shows "units_nonneg (token_prices p (interval_at p ctx))"
proof -
  define iv where "iv = (case interval_at p ctx of None \<Rightarrow> no_interval | Some t \<Rightarrow> t)"
  have "list_all nonneg (interval_prices no_interval @ interval_multipliers no_interval)"
    by (simp add: no_interval_def interval_prices_def interval_multipliers_def nonneg_def)
  then have iv: "list_all nonneg (interval_prices iv @ interval_multipliers iv)"
    using assms interval_at_in [of p ctx] by (auto simp: iv_def card_nonneg_def split: option.splits)
  define w1h where "w1h = (case mp_cache_write_1h p of None \<Rightarrow> mp_cache_write p | Some n \<Rightarrow> Some n)"
  have base: "nonneg (mp_input p)" "nonneg (mp_output p)" "nonneg (mp_cache_write p)"
      "nonneg (mp_cache_read p)" "nonneg w1h"
    using assms by (auto simp: card_nonneg_def w1h_def split: option.splits)
  have ivs: "nonneg (iv_input iv)" "nonneg (iv_output iv)" "nonneg (iv_cache_write iv)"
      "nonneg (iv_cache_write_1h iv)" "nonneg (iv_cache_read iv)" "nonneg (iv_input_multiplier iv)"
      "nonneg (iv_output_multiplier iv)" "nonneg (iv_write_multiplier iv)" "nonneg (iv_read_multiplier iv)"
    using iv by (simp_all add: interval_prices_def interval_multipliers_def)
  have hour: "nonneg_opt (case (iv_cache_write iv, iv_cache_write_1h iv) of
      (Some w, None) \<Rightarrow> Some (rat_val w)
    | _ \<Rightarrow> resolved_price w1h (iv_cache_write_1h iv) (iv_write_multiplier iv))"
    using ivs resolved_price_nonneg [OF base(5) ivs(4) ivs(8)]
    by (auto simp: nonneg_opt_def nonneg_def split: option.splits)
  show ?thesis
    unfolding units_nonneg_def token_prices_def Let_def iv_def [symmetric] w1h_def [symmetric]
    using hour resolved_price_nonneg base ivs by simp
qed

lemma component_nonneg:
  "component n q = Inr v \<Longrightarrow> 0 \<le> n \<Longrightarrow> nonneg_opt q \<Longrightarrow> 0 \<le> v"
  by (auto simp: component_def nonneg_opt_def split: if_splits option.splits)

lemma components_nonneg:
  "components cs = Inr vs \<Longrightarrow> \<forall>(n, q) \<in> set cs. 0 \<le> n \<and> nonneg_opt q \<Longrightarrow> \<forall>v \<in> set vs. 0 \<le> v"
  by (induction cs arbitrary: vs rule: components.induct)
    (fastforce split: sum.splits dest: component_nonneg)+

lemma cache_write_cost_nonneg:
  assumes "usage_ok u" "units_nonneg up" "cache_write_cost p u up = Inr w"
  shows "0 \<le> w"
proof -
  obtain five hour where split: "split_cache_write u = (five, hour)" by fastforce
  note bounds = split_cache_write_nonneg [OF assms(1) split]
  have "0 \<le> u_cache_write u" using usage_ok_bounds [OF assms(1)] by simp
  moreover have "nonneg_opt (up_write up)" "nonneg_opt (up_hour up)"
    using assms(2) by (simp_all add: units_nonneg_def)
  ultimately show ?thesis
    using assms(3) bounds split
    by (auto simp: cache_write_cost_def Let_def result_iff split: if_splits sum.splits
        dest!: component_nonneg)
qed

lemma token_counts_nonneg:
  assumes "usage_ok u" "units_nonneg up" "nonneg_opt q" "0 \<le> r"
  shows "\<forall>(n, price) \<in> set (token_counts u up q r). 0 \<le> n \<and> nonneg_opt price"
  using usage_ok_bounds [OF assms(1)] assms(2-)
  by (auto simp: token_counts_def Let_def units_nonneg_def nonneg_opt_def)

lemma token_parts_nonneg:
  assumes "card_nonneg p" "usage_ok u" "token_parts p u long = Inr vs"
  shows "\<forall>v \<in> set vs. 0 \<le> v"
proof -
  define up where "up = token_prices p (interval_at p (if long then context_tokens u else 1))"
  define image where "image = (if positive_price (mp_image_input p)
    then map_option rat_val (mp_image_input p) else up_input up)"
  have up: "units_nonneg up" using token_prices_nonneg [OF assms(1)] by (simp add: up_def)
  have image: "nonneg_opt image"
    using up by (auto simp: image_def units_nonneg_def positive_price_def nonneg_opt_def split: option.splits)
  have "rat_val ''0'' = 0" by code_simp
  then have out: "0 \<le> decimal_or (mp_image_output p) ''0''"
    using assms(1) by (auto simp: decimal_or_def card_nonneg_def nonneg_def split: option.splits)
  from assms(3) obtain us w where
      us: "components (token_counts u up image (decimal_or (mp_image_output p) ''0'')) = Inr us"
    and w: "cache_write_cost p u up = Inr w" and vs: "vs = us[2 := w]"
    unfolding token_parts_def Let_def up_def [symmetric] image_def [symmetric]
    by (auto split: sum.splits)
  have "\<forall>v \<in> set us. 0 \<le> v"
    using us token_counts_nonneg [OF assms(2) up image out] by (rule components_nonneg)
  moreover have "0 \<le> w" using assms(2) up w by (rule cache_write_cost_nonneg)
  ultimately show ?thesis
    using vs set_update_subset_insert [of us 2 w] by auto
qed

lemma effort_multiplier_nonneg: "card_nonneg p \<Longrightarrow> 0 \<le> effort_multiplier p e"
  by (auto simp: effort_multiplier_def card_nonneg_def assoc_eq_map_of split: option.splits
      dest!: map_of_SomeD)

lemma default_multipliers: "rat_val ''2'' = 2" "rat_val ''0.5'' = 1 / 2"
  by code_simp+

lemma decimal_or_nonneg: "nonneg n \<Longrightarrow> 0 \<le> rat_val t \<Longrightarrow> 0 \<le> decimal_or n t"
  by (auto simp: decimal_or_def nonneg_def split: option.splits)

lemma tier_multiplier_nonneg:
  assumes "card_nonneg p" and "nonneg_opt (mp_fast_ratio p)"
  shows "0 \<le> tier_multiplier p t"
proof -
  have "nonneg (mp_fast p)" "nonneg (mp_flex p)"
    using assms(1) by (simp_all add: card_nonneg_def)
  then have d: "0 \<le> decimal_or (mp_fast p) ''2''" "0 \<le> decimal_or (mp_flex p) ''0.5''"
    using default_multipliers by (auto intro!: decimal_or_nonneg)
  then have "0 \<le> (case (mp_fast p, mp_fast_ratio p) of (None, Some r) \<Rightarrow> r | _ \<Rightarrow> decimal_or (mp_fast p) ''2'')"
    using assms(2) by (auto simp: nonneg_opt_def split: option.splits)
  with d(2) show ?thesis by (simp add: tier_multiplier_def Let_def)
qed

lemma selected_request_price_cases:
  assumes "selected_request_price p label ctx = Some n"
  shows "mp_per_request p = Some n \<or> 0 < rat_val n"
proof -
  have "positive_price (iv_per_request iv)"
    if "find (\<lambda>iv. iv_label iv = label \<and> positive_price (iv_per_request iv)) (mp_intervals p) = Some iv" for iv
    using that by (auto simp: find_Some_iff)
  then show ?thesis
    using assms
    by (fastforce simp: selected_request_price_def positive_price_def split: option.splits if_splits)
qed

lemma selected_request_price_nonneg:
  "card_nonneg p \<Longrightarrow> selected_request_price p label ctx = Some n \<Longrightarrow> 0 \<le> rat_val n"
  using selected_request_price_cases [of p label ctx n] by (auto simp: card_nonneg_def nonneg_def)

lemma request_units_nonneg:
  "request_units p u = Inr r \<Longrightarrow> usage_ok u \<Longrightarrow> 0 \<le> r"
  using usage_ok_bounds [of u]
  by (auto simp: request_units_def Let_def split: if_splits option.splits)

lemma request_total_nonneg:
  assumes "card_nonneg p" "usage_ok u" "request_total p u e label = Inr r"
  shows "0 \<le> r"
proof -
  from assms(3) obtain n units where n: "selected_request_price p label (context_tokens u) = Some n"
    and units: "request_units p u = Inr units" and r: "r = rat_val n * units * effort_multiplier p e"
    by (auto simp: request_total_def split: option.splits sum.splits)
  show ?thesis
    unfolding r using assms(1,2) n units
    by (intro mult_nonneg_nonneg) (auto intro: selected_request_price_nonneg request_units_nonneg
        effort_multiplier_nonneg)
qed

text \<open>What a calculated price is: the amount before the rate, and what the fields hold.\<close>

definition amount_of :: "tz_database \<Rightarrow> model_price \<Rightarrow> price_usage \<Rightarrow> string \<Rightarrow> string \<Rightarrow> string \<Rightarrow>
   int option \<Rightarrow> bool \<Rightarrow> rat list result" where
  "amount_of tz p u tier effort label when long =
     (if List.member [''per_request'', ''image'', ''video''] (mp_billing_mode p) then
        and_then (request_total p u effort label) (\<lambda>t. Inr [t])
      else and_then (token_parts p u long) (\<lambda>vs.
        Inr (map (\<lambda>v. v * (effort_multiplier p effort * tier_multiplier p tier *
          multiplier_at tz (mp_time_pricing p) when)) vs)))"

lemma calculate_price_Inr:
  assumes "calculate_price tz p u rate tier effort label when long = Inr c"
  obtains amounts where "amount_of tz p u tier effort label when long = Inr amounts"
    "c_total_value c = sum_list amounts" "c_debit c = float_string 8 (sum_list amounts * rat_val rate)"
    "card_nonneg p" "valid_price (Some rate) 6 4" "usage_ok u"
    "validate_time_price tz (mp_time_pricing (with_card_defaults p)) = Inr ()"
proof -
  from assms obtain ps' where ps': "validate_model_prices tz False [p] = Inr ps'"
    and rate: "valid_price (Some rate) 6 4" and u: "usage_ok u"
    by (auto simp: calculate_price_def usage_ok_def split: sum.splits if_splits)
  have "\<exists>amounts. amount_of tz p u tier effort label when long = Inr amounts \<and>
      c_total_value c = sum_list amounts \<and> c_debit c = float_string 8 (sum_list amounts * rat_val rate)"
    using assms
    by (auto simp: calculate_price_def amount_of_def make_cost_def Let_def split: sum.splits if_splits)
  then show thesis
    using that rate u validated_single_nonneg [OF ps'] by blast
qed

lemma amount_of_nonneg:
  assumes "amount_of tz p u tier effort label when long = Inr amounts"
    and "card_nonneg p" "usage_ok u" "nonneg_opt (mp_fast_ratio p)"
    and "validate_time_price tz (mp_time_pricing (with_card_defaults p)) = Inr ()"
  shows "0 \<le> sum_list amounts"
proof -
  define m where "m = effort_multiplier p effort * tier_multiplier p tier *
    multiplier_at tz (mp_time_pricing p) when"
  have m: "0 \<le> m"
    unfolding m_def using assms
    by (intro mult_nonneg_nonneg) (auto intro: effort_multiplier_nonneg tier_multiplier_nonneg multiplier_at_nonneg)
  have "\<forall>v \<in> set amounts. 0 \<le> v"
    using assms(1) m token_parts_nonneg [OF assms(2,3)] request_total_nonneg [OF assms(2,3)]
    by (auto simp: amount_of_def m_def split: if_splits sum.splits)
  then show ?thesis by (simp add: sum_list_nonneg)
qed

text \<open>Property C28: A calculated charge is never negative, and the text that is debited is the exact
  charge rounded once, half away from zero, to eight decimals: it differs from the exact charge
  by at most half of the last digit.\<close>
theorem calculated_debit_exact:
  assumes "calculate_price tz p u rate tier effort label when long = Inr c"
    and "nonneg_opt (mp_fast_ratio p)"
  shows "0 \<le> c_total_value c \<and>
    rat_of (c_debit c) = Some (round_half_away 8 (c_total_value c * rat_val rate)) \<and>
    0 \<le> rat_val (c_debit c) \<and>
    \<bar>rat_val (c_debit c) - c_total_value c * rat_val rate\<bar> \<le> 1 / (2 * 10 ^ 8)"
proof -
  obtain amounts where a: "amount_of tz p u tier effort label when long = Inr amounts"
    "c_total_value c = sum_list amounts" "c_debit c = float_string 8 (sum_list amounts * rat_val rate)"
    "card_nonneg p" "valid_price (Some rate) 6 4" "usage_ok u"
    "validate_time_price tz (mp_time_pricing (with_card_defaults p)) = Inr ()"
    using assms(1) by (rule calculate_price_Inr)
  have total: "0 \<le> c_total_value c"
    using amount_of_nonneg [OF a(1,4,6) assms(2) a(7)] a(2) by simp
  moreover have "0 \<le> rat_val rate" using a(5) by (simp add: rat_val_nonneg_if_valid)
  ultimately have "0 \<le> c_total_value c * rat_val rate" by simp
  with total a(2,3) show ?thesis
    by (simp only: rat_of_float_string rat_val_float_string round_half_away_error round_half_away_nonneg simp_thms)
qed

text \<open>A higher billing rate never lowers the debit of the same usage.\<close>

lemma debit_monotone_in_rate:
  assumes "calculate_price tz p u rate tier effort label when long = Inr c"
    and "calculate_price tz p u rate' tier effort label when long = Inr c'"
    and "rat_val rate \<le> rat_val rate'" and "nonneg_opt (mp_fast_ratio p)"
  shows "rat_val (c_debit c) \<le> rat_val (c_debit c')"
proof -
  obtain amounts where a: "amount_of tz p u tier effort label when long = Inr amounts"
    "c_debit c = float_string 8 (sum_list amounts * rat_val rate)"
    "card_nonneg p" "valid_price (Some rate) 6 4" "usage_ok u"
    "validate_time_price tz (mp_time_pricing (with_card_defaults p)) = Inr ()"
    using assms(1) by (rule calculate_price_Inr)
  obtain amounts' where b: "amount_of tz p u tier effort label when long = Inr amounts'"
    "c_debit c' = float_string 8 (sum_list amounts' * rat_val rate')"
    using assms(2) by (rule calculate_price_Inr)
  have "0 \<le> sum_list amounts" using amount_of_nonneg [OF a(1,3,5) assms(4) a(6)] .
  moreover have "0 \<le> rat_val rate" using a(4) by (simp add: rat_val_nonneg_if_valid)
  moreover have "amounts' = amounts" using a(1) b(1) by simp
  ultimately show ?thesis
    using assms(3) a(2) b(2) by (simp add: round_half_away_mono mult_left_mono)
qed

end
