(* ===== verification/Pricing_Examples.thy ===== *)
theory Pricing_Examples
  imports Charges
begin

text \<open>
  A concrete price table and concrete usages, on which the properties of the pricing theories are
  applied: a token card with two context tiers and a night discount, next to a literal model.
\<close>

definition low_tier :: price_interval where
  "low_tier = no_interval\<lparr>iv_max := Some 200000, iv_input_multiplier := Some ''1''\<rparr>"

definition high_tier :: price_interval where
  "high_tier = no_interval\<lparr>iv_min := 200000, iv_input_multiplier := Some ''2''\<rparr>"

definition night :: time_price_period where
  "night = \<lparr>period_start = ''00:00'', period_end = ''06:30'', period_multiplier = ''0.5''\<rparr>"

definition evening :: time_price_period where
  "evening = \<lparr>period_start = ''22:00'', period_end = ''00:00'', period_multiplier = ''0.75''\<rparr>"

definition discounts :: time_price where
  "discounts = \<lparr>tp_timezone = ''UTC'', tp_weekdays_only = False, tp_periods = [evening, night]\<rparr>"

definition utc_only :: tz_database where
  "utc_only z = (if z = ''UTC'' then Some (\<lambda>t. (4, t mod 86400)) else None)"

definition sample_card :: model_price where
  "sample_card = \<lparr>mp_fast_ratio = None, mp_platform = ''openai'', mp_models = [''gpt-5*''],
     mp_billing_mode = ''token'', mp_input = Some ''0.00000125'', mp_output = Some ''0.00001'',
     mp_cache_write = Some ''0'', mp_cache_write_1h = None, mp_cache_read = None,
     mp_image_input = None, mp_image_output = None, mp_per_request = None, mp_fast = None,
     mp_flex = None, mp_reasoning = [], mp_intervals = [high_tier, low_tier],
     mp_time_pricing = Some discounts\<rparr>"

definition other_card :: model_price where
  "other_card = sample_card\<lparr>mp_models := [''gpt-4''], mp_intervals := [], mp_time_pricing := None\<rparr>"

definition sample_usage :: price_usage where
  "sample_usage = \<lparr>u_image_request = False, u_image_count = 0, u_image_size = [],
     u_image_size_source = [], u_image_input_size = [], u_image_output_size = [],
     u_image_sizes = (0, 0, 0), u_video_count = 0, u_video_seconds = 0, u_video_resolution = [],
     u_audio_units = [], u_input = 1000, u_output = 200, u_cache_write = 10, u_cache_write_5m = 9,
     u_cache_write_1h = 6, u_cache_read = 0, u_image_input = 0, u_image_output = 0, u_requests = 0,
     u_search_calls = 0\<rparr>"

lemma sample_cards_valid:
  "validate_model_prices utc_only False [sample_card, other_card] = Inr [sample_card, other_card]"
  by code_simp

lemma sample_card_valid: "validate_model_prices utc_only False [sample_card] = Inr [sample_card]"
  by code_simp

theorem validated_tiers_disjoint_witness: "interval_at sample_card 1000 = Some low_tier"
proof (rule validated_tiers_disjoint [OF sample_cards_valid])
  show "sample_card \<in> set [sample_card, other_card]" by simp
  show "mp_billing_mode sample_card = ''token''" "low_tier \<in> set (mp_intervals sample_card)"
    "interval_contains 1000 low_tier"
    by (simp_all add: sample_card_def low_tier_def interval_contains_def no_interval_def)
qed

theorem validated_periods_disjoint_witness:
  "find (period_at 3600) (tp_periods discounts) = Some night \<and> 0 < rat_val (period_multiplier night)"
proof (rule validated_periods_disjoint)
  show "validate_time_price utc_only (Some discounts) = Inr ()" by code_simp
  show "night \<in> set (tp_periods discounts)" by (simp add: discounts_def)
  show "period_at 3600 night" by code_simp
qed

theorem validated_patterns_unambiguous_witness: "(0::nat) = 0 \<and>
    pattern_matches (pricing_name (platform_models ''openai'' [sample_card, other_card] ! 0)) ''GPT-5-mini''"
proof
  have m: "pattern_matches (pricing_name (platform_models ''openai'' [sample_card, other_card] ! 0)) ''GPT-5-mini''"
    "0 < length (platform_models ''openai'' [sample_card, other_card])" by code_simp+
  show "pattern_matches (pricing_name (platform_models ''openai'' [sample_card, other_card] ! 0)) ''GPT-5-mini''"
    by (rule m)
  show "(0::nat) = 0"
    by (rule validated_patterns_unambiguous [OF sample_cards_valid m(2) m(2) m(1) m(1)])
qed

lemma sample_usage_ok: "usage_ok sample_usage"
  by code_simp

theorem split_cache_write_exact_witness:
  "(6::int) + 4 = 10 \<and> split_cache_write sample_usage = (6, 4)"
proof
  show split: "split_cache_write sample_usage = (6, 4)" by code_simp
  have "6 + 4 = u_cache_write sample_usage \<and> (0::int) \<le> 6 \<and> (0::int) \<le> 4 \<and>
    \<bar>2 * (6 * (u_cache_write_5m sample_usage + u_cache_write_1h sample_usage) -
        u_cache_write sample_usage * u_cache_write_5m sample_usage)\<bar>
      \<le> u_cache_write_5m sample_usage + u_cache_write_1h sample_usage"
    by (rule split_cache_write_exact [OF sample_usage_ok split]) (simp_all add: sample_usage_def)
  then show "(6::int) + 4 = 10" by simp
qed

theorem five_share_no_overflow_witness:
  "sint (five_share_int64 (word_of_int (u_cache_write sample_usage))
    (word_of_int (u_cache_write_5m sample_usage)) (word_of_int (u_cache_write_1h sample_usage))) = 6"
  by (subst five_share_no_overflow [OF sample_usage_ok]) (simp_all add: sample_usage_def)

lemma token_parts_sample: "ok (token_parts sample_card sample_usage True)"
  by code_simp

lemma sample_price:
  assumes "valid_price (Some rate) 6 4"
  shows "\<exists>c. calculate_price utc_only sample_card sample_usage rate ''priority'' [] [] (Some 3600) True = Inr c"
proof -
  have mode: "mp_billing_mode sample_card = ''token''" by (simp add: sample_card_def)
  obtain vs where "token_parts sample_card sample_usage True = Inr vs"
    using token_parts_sample by (auto simp: ok_iff)
  then show ?thesis
    using assms sample_card_valid sample_usage_ok mode
    by (simp add: calculate_price_def usage_ok_def Let_def)
qed

lemma sample_rates: "valid_price (Some ''1.5'') 6 4" "valid_price (Some ''2'') 6 4"
    "rat_val ''1.5'' \<le> rat_val ''2''" "nonneg_opt (mp_fast_ratio sample_card)"
  by code_simp+

theorem calculated_debit_exact_witness:
  "\<exists>c. calculate_price utc_only sample_card sample_usage ''1.5'' ''priority'' [] [] (Some 3600) True = Inr c \<and>
     0 \<le> c_total_value c \<and> 0 \<le> rat_val (c_debit c)"
  using sample_price [OF sample_rates(1)] calculated_debit_exact [OF _ sample_rates(4)] by blast

theorem debit_monotone_in_rate_witness:
  "\<exists>c c'. calculate_price utc_only sample_card sample_usage ''1.5'' ''priority'' [] [] (Some 3600) True = Inr c \<and>
     calculate_price utc_only sample_card sample_usage ''2'' ''priority'' [] [] (Some 3600) True = Inr c' \<and>
     rat_val (c_debit c) \<le> rat_val (c_debit c')"
  using sample_price [OF sample_rates(1)] sample_price [OF sample_rates(2)]
    debit_monotone_in_rate [OF _ _ sample_rates(3,4)] by blast

end
