(* ===== verification/Json.thy ===== *)
theory Json
  imports Decimal "HOL-Library.AList"
begin

text \<open>
  JSON values and the decoding idioms of the handlers. A \<open>json.RawMessage\<close> is a parsed value here
  (its white space does not matter to the code), a \<open>map[string]json.RawMessage\<close> is an association
  list, read with \<open>assoc\<close> and updated with \<open>put\<close> and \<open>remove\<close>. As in Go's \<open>encoding/json\<close>, decoding
  a missing value is an error, decoding \<open>null\<close> leaves the target as it was, and of two entries with
  one key the last counts.
\<close>

datatype json = JNull | JBool bool | JNum json_number | JStr string
  | JArr "json list" | JObj "(string \<times> json) list"

type_synonym fields = "(string \<times> json) list"

definition put :: "'k \<Rightarrow> 'v \<Rightarrow> ('k \<times> 'v) list \<Rightarrow> ('k \<times> 'v) list" where
  "put = AList.update"

definition remove :: "'k \<Rightarrow> ('k \<times> 'v) list \<Rightarrow> ('k \<times> 'v) list" where
  "remove = AList.delete"

lemma assoc_put: "assoc (put k v m) k' = (if k' = k then Some v else assoc m k')"
  by (simp add: assoc_eq_map_of put_def update_conv')

lemma assoc_put_same [simp]: "assoc (put k v m) k = Some v"
  by (simp add: assoc_put)

lemma assoc_put_other [simp]: "k' \<noteq> k \<Longrightarrow> assoc (put k v m) k' = assoc m k'"
  by (simp add: assoc_put)

lemma assoc_remove: "assoc (remove k m) k' = (if k' = k then None else assoc m k')"
  by (simp add: assoc_eq_map_of remove_def delete_conv')

lemma assoc_remove_same [simp]: "assoc (remove k m) k = None"
  by (simp add: assoc_remove)

lemma assoc_remove_other [simp]: "k' \<noteq> k \<Longrightarrow> assoc (remove k m) k' = assoc m k'"
  by (simp add: assoc_remove)

text \<open>\<open>json.Unmarshal\<close> into a string that was empty: \<open>None\<close> is an error.\<close>

fun as_string :: "json option \<Rightarrow> string option" where
  "as_string (Some JNull) = Some []"
| "as_string (Some (JStr s)) = Some s"
| "as_string _ = None"

text \<open>Into a \<open>map[string]json.RawMessage\<close>: \<open>Some None\<close> is the nil map \<open>null\<close> leaves behind.\<close>

fun as_object :: "json option \<Rightarrow> fields option option" where
  "as_object (Some JNull) = Some None"
| "as_object (Some (JObj kvs)) = Some (Some (rev kvs))"
| "as_object _ = None"

text \<open>\<open>credentialString\<close> of upstream.go: the string under a key, empty when there is none.\<close>

definition credential_string :: "fields \<Rightarrow> string \<Rightarrow> string" where
  "credential_string m key = (case as_string (assoc m key) of None \<Rightarrow> [] | Some s \<Rightarrow> s)"

text \<open>\<open>json.Unmarshal\<close> into an \<open>int\<close> that was zero, and into a \<open>json.Number\<close>.\<close>

definition as_int :: "json \<Rightarrow> int option" where
  "as_int j = (case j of
     JNull \<Rightarrow> Some 0
   | JNum n \<Rightarrow> (case parse_number n of
       Some (neg, ip, fp, e) \<Rightarrow>
         (let v = (if neg then - int (text_nat ip) else int (text_nat ip)) in
          if n = (if neg then ''-'' else []) @ ip \<and> - (2 ^ 63) \<le> v \<and> v < 2 ^ 63 then Some v else None)
     | None \<Rightarrow> None)
   | _ \<Rightarrow> None)"

definition as_number :: "json \<Rightarrow> json_number option" where
  "as_number j = (case j of
     JNull \<Rightarrow> Some []
   | JNum n \<Rightarrow> Some n
   | JStr s \<Rightarrow> if parse_number s = None then None else Some s
   | _ \<Rightarrow> None)"

end
