(* ===== verification/Reasoning_Facts.thy ===== *)
theory Reasoning_Facts
  imports Reasoning
begin

text \<open>
  What a group's reasoning policy guarantees: the most specific mapping decides, no effort above
  the cap leaves the policy, only the effort fields of a request change and none is invented, and
  validating a validated policy changes nothing.
\<close>

section \<open>The most specific mapping\<close>

definition at_most :: "nat \<times> nat \<Rightarrow> nat \<times> nat \<Rightarrow> bool" where
  "at_most a b \<longleftrightarrow> fst a < fst b \<or> fst a = fst b \<and> snd a \<le> snd b"

definition specificity :: "effort_mapping \<Rightarrow> string \<Rightarrow> nat \<times> nat" where
  "specificity m model = (match_rank m model, length (em_model m))"

definition applies :: "string \<Rightarrow> string \<Rightarrow> effort_mapping \<Rightarrow> bool" where
  "applies from model m \<longleftrightarrow> em_from m = from \<and> 0 < match_rank m model"

definition best_of :: "string \<Rightarrow> string \<Rightarrow> effort_mapping list \<Rightarrow> best_match \<Rightarrow> bool" where
  "best_of from model ms best \<longleftrightarrow> (case fst best of
     None \<Rightarrow> snd best = (0, 0) \<and> (\<forall>m \<in> set ms. \<not> applies from model m)
   | Some m \<Rightarrow> m \<in> set ms \<and> applies from model m \<and> snd best = specificity m model \<and>
       (\<forall>m' \<in> set ms. applies from model m' \<longrightarrow> at_most (specificity m' model) (specificity m model)))"

lemma best_of_step:
  assumes "best_of from model ms best"
  shows "best_of from model (ms @ [m]) (better_match from model best m)"
proof -
  obtain b s l where b: "best = (b, s, l)" by (metis prod_cases3)
  show ?thesis
  proof (cases b)
    case None
    with assms b show ?thesis
      by (auto simp: best_of_def better_match_def Let_def applies_def specificity_def at_most_def)
  next
    case (Some a)
    with assms b have a: "a \<in> set ms" "applies from model a" "s = match_rank a model"
      "l = length (em_model a)"
      and max: "\<And>m'. m' \<in> set ms \<Longrightarrow> applies from model m' \<Longrightarrow>
        at_most (specificity m' model) (specificity a model)"
      by (auto simp: best_of_def specificity_def)
    show ?thesis
    proof (cases "applies from model m \<and> \<not> at_most (specificity m model) (specificity a model)")
      case True
      then have "better_match from model best m = (Some m, match_rank m model, length (em_model m))"
        using b Some a by (auto simp: better_match_def Let_def applies_def at_most_def specificity_def)
      moreover have "at_most (specificity m' model) (specificity m model)"
        if "m' \<in> set ms" "applies from model m'" for m'
        using max [OF that] True by (auto simp: at_most_def)
      ultimately show ?thesis using True by (simp add: best_of_def specificity_def at_most_def)
    next
      case False
      then have "better_match from model best m = best"
        using b Some a by (auto simp: better_match_def Let_def applies_def at_most_def specificity_def)
      then show ?thesis
        using b Some a False max by (auto simp: best_of_def specificity_def)
    qed
  qed
qed

lemma best_of_fold: "best_of from model ms (foldl (better_match from model) (None, 0, 0) ms)"
proof (induction ms rule: rev_induct)
  case Nil
  show ?case by (simp add: best_of_def)
next
  case (snoc m ms)
  then show ?case by (simp add: best_of_step)
qed

text \<open>Among the mappings of a requested effort that cover the model, the most specific
  one decides: an exact model name before a prefix or suffix, before a mapping for every model, and
  of equals the longer scope. A value is left alone exactly when no mapping covers it.\<close>

lemma most_specific_mapping_decides:
  "(if \<exists>m \<in> set (rp_mappings p). applies (effort_key value) model m
    then \<exists>m \<in> set (rp_mappings p). applies (effort_key value) model m \<and>
      list_all (\<lambda>m'. if applies (effort_key value) model m'
        then at_most (specificity m' model) (specificity m model) else True) (rp_mappings p) \<and>
      mapped_effort p value model = (em_to m, True)
    else mapped_effort p value model = (value, False))"
proof -
  obtain b r where b: "foldl (better_match (effort_key value) model) (None, 0, 0) (rp_mappings p) = (b, r)"
    by (rule prod.exhaust)
  have "best_of (effort_key value) model (rp_mappings p) (b, r)"
    using best_of_fold [of "effort_key value" model "rp_mappings p"] by (simp add: b)
  then show ?thesis
    by (cases b) (auto simp: mapped_effort_def b best_of_def list_all_iff)
qed


section \<open>The cap\<close>

lemma effective_effort_capped:
  assumes "effective_effort p model platform value = Inr eff"
    and "0 < effort_rank (policy_max p platform)"
  shows "effort_rank (canonical_effort eff) \<le> effort_rank (policy_max p platform)"
proof -
  obtain e mapped where m: "mapped_effort p (trim_space value) model = (e, mapped)" by fastforce
  have low: "canonical_effort ''low'' = ''low''" by (simp add: canonical_ranked ranked_efforts_def)
  have self: "canonical_effort (policy_max p platform) = policy_max p platform"
    using assms(2) by (simp add: canonical_ranked effort_rank_pos)
  show ?thesis
    using assms m low self
    by (auto simp: effective_effort_def Let_def not_less split: if_splits)
qed

lemma as_object_to_json [simp]: "as_object (Some (to_json m)) = Some (Some m)"
  by (simp add: to_json_def)

lemma effort_paths_distinct:
  "path \<in> set effort_paths \<Longrightarrow> path' \<in> set effort_paths \<Longrightarrow> path \<noteq> path' \<Longrightarrow> fst path \<noteq> fst path'"
  by (auto simp: effort_paths_def)

text \<open>A path reads the entry of its own top-level field and nothing else.\<close>

lemma effort_value_cong:
  "assoc body (fst path) = assoc body' (fst path) \<Longrightarrow> effort_value body path = effort_value body' path"
  by (auto simp: effort_value_def effort_object_def effort_field_def split: option.splits)

lemma set_effort_other: "k \<noteq> fst path \<Longrightarrow> assoc (set_effort body path v) k = assoc body k"
  by (auto simp: set_effort_def effort_object_def effort_field_def Let_def split: option.splits)

lemma effort_value_set:
  "effort_value body path \<noteq> None \<Longrightarrow> effort_value (set_effort body path v) path =
     (if trim_space v = [] then None else Some v)"
  by (auto simp: effort_value_def set_effort_def effort_object_def effort_field_def Let_def
      split: option.splits)

lemma apply_path_other:
  "apply_path p model platform body path = Inr body' \<Longrightarrow> k \<noteq> fst path \<Longrightarrow> assoc body' k = assoc body k"
  by (auto simp: apply_path_def set_effort_other split: option.splits sum.splits if_splits)

lemma apply_path_value:
  assumes "apply_path p model platform body path = Inr body'"
    and "effort_value body' path = Some v"
  obtains old where "effort_value body path = Some old" "effective_effort p model platform old = Inr v"
  using assms
  by (auto simp: apply_path_def effort_value_set split: option.splits sum.splits if_splits)

lemma each_apply_path_keep:
  "each_with (apply_path p model platform) body paths = Inr body' \<Longrightarrow> k \<notin> fst ` set paths \<Longrightarrow>
   assoc body' k = assoc body k"
proof (induction paths arbitrary: body)
  case Nil
  then show ?case by simp
next
  case (Cons path paths)
  then show ?case by (auto simp: apply_path_other split: sum.splits)
qed

lemma each_apply_path_value:
  assumes "each_with (apply_path p model platform) body paths = Inr body'"
    and "distinct (map fst paths)" and "path \<in> set paths" and "effort_value body' path = Some v"
  obtains old where "effort_value body path = Some old" "effective_effort p model platform old = Inr v"
  using assms
proof (induction paths arbitrary: body thesis)
  case Nil
  then show ?case by simp
next
  case (Cons q paths)
  from Cons.prems(2) obtain body1 where q: "apply_path p model platform body q = Inr body1"
    and rest: "each_with (apply_path p model platform) body1 paths = Inr body'"
    by (auto split: sum.splits)
  show ?case
  proof (cases "path = q")
    case True
    then have "assoc body' (fst path) = assoc body1 (fst path)"
      using each_apply_path_keep [OF rest, of "fst path"] Cons.prems(3) by simp
    then have "effort_value body1 path = Some v"
      using Cons.prems(5) effort_value_cong by metis
    then show ?thesis
      using apply_path_value q Cons.prems(1) True by blast
  next
    case False
    then have path: "path \<in> set paths" using Cons.prems(4) by simp
    have "fst path \<noteq> fst q" using path Cons.prems(3) by (metis distinct.simps(2) image_eqI list.map(2) set_map)
    then have same: "effort_value body1 path = effort_value body path"
      using apply_path_other [OF q] effort_value_cong by metis
    show ?thesis
      by (rule Cons.IH [OF _ rest _ path Cons.prems(5)]) (use Cons.prems(1,3) same in auto)
  qed
qed

lemma apply_reasoning_value:
  assumes "apply_reasoning p body model platform = Inr body'"
    and "path \<in> set effort_paths" and "effort_value body' path = Some v"
    and "platform = ''openai'' \<or> platform = ''anthropic''" and "rp_max p \<noteq> [] \<or> rp_mappings p \<noteq> []"
  obtains old where "effort_value body path = Some old" "effective_effort p model platform old = Inr v"
proof -
  have each: "each_with (apply_path p model platform) body effort_paths = Inr body'"
    using assms(1,4,5) by (auto simp: apply_reasoning_def)
  have "distinct (map fst effort_paths)" by (simp add: effort_paths_def)
  then show thesis using each_apply_path_value [OF each _ assms(2,3)] that by blast
qed

text \<open>No effort above the group's cap leaves the policy: after a successful rewrite every
  one of the three effort fields of the request ranks at most as high as the cap (the cap
  \<open>minimal\<close> counts as \<open>low\<close> for Anthropic).\<close>

lemma effort_never_above_cap:
  assumes "apply_reasoning p body model platform = Inr body'"
    and "platform = ''openai'' \<or> platform = ''anthropic''"
    and "0 < effort_rank (policy_max p platform)"
    and "path \<in> set effort_paths" and "effort_value body' path = Some v"
  shows "effort_rank (canonical_effort v) \<le> effort_rank (policy_max p platform)"
proof -
  have "rp_max p \<noteq> []" using assms(3) by (auto simp: policy_max_def split: if_splits)
  then show ?thesis
    using apply_reasoning_value [OF assms(1,4,5,2)] effective_effort_capped [OF _ assms(3)] by metis
qed

text \<open>The policy rewrites efforts and nothing else: every other field of the request
  keeps its value, an effort field that was absent or blank stays without a value, and an effort
  that a mapping denies, at the cap or not, never passes.\<close>

lemma policy_never_invents_effort:
  assumes "apply_reasoning p body model platform = Inr body'"
    and "platform = ''openai'' \<or> platform = ''anthropic''" and "rp_mappings p \<noteq> []"
  shows "(k \<notin> {''reasoning'', ''reasoning_effort'', ''output_config''} \<longrightarrow> assoc body' k = assoc body k) \<and>
    (\<forall>path \<in> set effort_paths. effort_value body path = None \<longrightarrow> effort_value body' path = None) \<and>
    (\<forall>path \<in> set effort_paths. effort_value body' path \<noteq> None \<longrightarrow>
       mapped_effort p (trim_space (the (effort_value body path))) model \<noteq> (''deny'', True))"
proof (intro conjI ballI impI)
  have each: "each_with (apply_path p model platform) body effort_paths = Inr body'"
    using assms by (auto simp: apply_reasoning_def)
  show "assoc body' k = assoc body k" if "k \<notin> {''reasoning'', ''reasoning_effort'', ''output_config''}"
    using each_apply_path_keep [OF each] that by (simp add: effort_paths_def)
next
  fix path assume path: "path \<in> set effort_paths"
  { assume "effort_value body path = None"
    then show "effort_value body' path = None"
      using apply_reasoning_value [OF assms(1) path _ assms(2)] assms(3)
      by (metis option.distinct(1) option.exhaust) }
  { assume "effort_value body' path \<noteq> None"
    then obtain v where "effort_value body' path = Some v" by auto
    then obtain old where "effort_value body path = Some old"
        "effective_effort p model platform old = Inr v"
      using apply_reasoning_value [OF assms(1) path _ assms(2)] assms(3) by metis
    then show "mapped_effort p (trim_space (the (effort_value body path))) model \<noteq> (''deny'', True)"
      by (auto simp: effective_effort_def) }
qed


section \<open>Validation is idempotent\<close>

lemma mapping_from_idem [simp]: "mapping_from (mapping_from s) = mapping_from s"
proof -
  have none: "mapping_from ''none'' = ''none''" by code_simp
  have "\<forall>v \<in> set ([] # ranked_efforts). mapping_from v = v" by code_simp
  then have "mapping_from (canonical_effort s) = canonical_effort s"
    using canonical_effort_cases [of s] by auto
  then show ?thesis
    using none by (cases "equal_fold (trim_space s) ''none''") (auto simp: mapping_from_def [of s])
qed

lemma mapping_to_idem [simp]: "mapping_to (mapping_to s) = mapping_to s"
proof -
  have deny: "mapping_to ''deny'' = ''deny''" by code_simp
  have "\<forall>v \<in> set ([] # ranked_efforts). mapping_to v = v" by code_simp
  then have "mapping_to (canonical_effort s) = canonical_effort s"
    using canonical_effort_cases [of s] by auto
  then show ?thesis
    using deny by (cases "equal_fold (trim_space s) ''deny''") (auto simp: mapping_to_def [of s])
qed

definition match_type :: "string \<Rightarrow> string \<Rightarrow> bool" where
  "match_type model t \<longleftrightarrow> (if model = [] then t = [] else t = ''exact'' \<or> t = ''prefix'' \<or> t = ''suffix'')"

definition normal_mapping :: "string \<Rightarrow> effort_mapping \<Rightarrow> bool" where
  "normal_mapping platform m \<longleftrightarrow> effort_allowed platform ''low'' \<and>
     (em_from m = ''none'' \<or> effort_allowed platform (em_from m)) \<and>
     (em_to m = ''deny'' \<or> effort_allowed platform (em_to m)) \<and>
     mapping_from (em_from m) = em_from m \<and> mapping_to (em_to m) = em_to m \<and>
     trim_space (em_model m) = em_model m \<and> length (em_model m) \<le> 200 \<and>
     \<not> contains_any (em_model m) [CHR 0x0D, CHR 0x0A, CHR 0x00] \<and> match_type (em_model m) (em_match m)"

lemma validate_mapping_normal:
  assumes "validate_mapping platform m = Inr m'"
  shows "normal_mapping platform m'"
proof -
  define t where "t = to_lower (trim_space (em_match m))"
  define model where "model = trim_space (em_model m)"
  define t' where "t' = (if model = [] then [] else if t = [] then ''exact'' else t)"
  have "m' = \<lparr>em_from = mapping_from (em_from m), em_to = mapping_to (em_to m), em_match = t', em_model = model\<rparr>"
    "t' = [] \<or> t' = ''exact'' \<or> t' = ''prefix'' \<or> t' = ''suffix''"
    "effort_allowed platform ''low''" "length model \<le> 200"
    "\<not> contains_any model [CHR 0x0D, CHR 0x0A, CHR 0x00]"
    "mapping_from (em_from m) = ''none'' \<or> effort_allowed platform (mapping_from (em_from m))"
    "mapping_to (em_to m) = ''deny'' \<or> effort_allowed platform (mapping_to (em_to m))"
    using assms
    unfolding validate_mapping_def Let_def model_def [symmetric] t_def [symmetric] t'_def [symmetric]
    by (simp_all only: if_Inl_Inr_iff not_less sum.inject de_Morgan_disj de_Morgan_conj not_not) blast+
  moreover have "match_type model t'"
    using calculation(2) by (auto simp: match_type_def t'_def split: if_splits)
  moreover have "trim_space model = model" by (simp add: model_def)
  ultimately show ?thesis by (simp add: normal_mapping_def)
qed

lemma match_type_norm: "match_type model t \<Longrightarrow> to_lower (trim_space t) = t"
proof -
  have "to_lower (trim_space ''exact'') = ''exact''" "to_lower (trim_space ''prefix'') = ''prefix''"
    "to_lower (trim_space ''suffix'') = ''suffix''" "to_lower (trim_space []) = []"
    by code_simp+
  then show "match_type model t \<Longrightarrow> to_lower (trim_space t) = t"
    unfolding match_type_def by metis
qed

lemma normal_mapping_valid: "normal_mapping platform m \<Longrightarrow> validate_mapping platform m = Inr m"
proof -
  assume n: "normal_mapping platform m"
  then have "match_type (em_model m) (em_match m)" by (simp add: normal_mapping_def)
  note t = match_type_norm [OF this] this
  from t(2) have "(if em_model m = [] then [] else if em_match m = [] then ''exact'' else em_match m) = em_match m"
    "em_match m = [] \<or> em_match m = ''exact'' \<or> em_match m = ''prefix'' \<or> em_match m = ''suffix''"
    by (auto simp: match_type_def split: if_splits)
  with n t(1) show ?thesis
    unfolding validate_mapping_def normal_mapping_def Let_def
    by (simp only: if_Inl_Inr_iff not_less sum.inject de_Morgan_disj de_Morgan_conj not_not) auto
qed

lemma validate_mapping_idem:
  "validate_mapping platform m = Inr m' \<Longrightarrow> validate_mapping platform m' = Inr m'"
  by (rule normal_mapping_valid [OF validate_mapping_normal])

lemma validate_mappings_idem:
  "validate_mappings platform seen ms = Inr ms' \<Longrightarrow> validate_mappings platform seen ms' = Inr ms'"
proof (induction ms arbitrary: seen ms')
  case Nil
  then show ?case by simp
next
  case (Cons m ms)
  from Cons.prems obtain m1 ms1 where "validate_mapping platform m = Inr m1"
      "\<not> List.member seen (mapping_key m1)"
      "validate_mappings platform (mapping_key m1 # seen) ms = Inr ms1" "ms' = m1 # ms1"
    by (auto split: sum.splits if_splits)
  then show ?case using Cons.IH by (simp add: validate_mapping_idem)
qed

lemma validate_mappings_length: "validate_mappings platform seen ms = Inr ms' \<Longrightarrow> length ms' = length ms"
  by (induction ms arbitrary: seen ms') (auto split: sum.splits if_splits)

lemma validate_max_idem: "validate_max platform m = Inr m' \<Longrightarrow> validate_max platform m' = Inr m'"
proof -
  assume a: "validate_max platform m = Inr m'"
  then have "m' = canonical_effort m" "trim_space m \<noteq> [] \<Longrightarrow> effort_allowed platform m'"
    by (auto simp: validate_max_def split: if_splits)
  moreover have "trim_space m = [] \<Longrightarrow> canonical_effort m = []"
    by (simp add: canonical_effort_def to_lower_def)
  moreover have "trim_space [] = []" by (simp add: trim_space_def)
  ultimately show ?thesis by (cases "trim_space m = []") (simp_all add: validate_max_def)
qed

lemma validate_over_idem:
  assumes "validate_over platform a = Inr a'"
  shows "validate_over platform a' = Inr a'"
proof -
  have fixed: "to_lower (trim_space ''downgrade'') = ''downgrade''" "to_lower (trim_space ''deny'') = ''deny''"
    by code_simp+
  have "a' = ''downgrade'' \<or> a' = ''deny'' \<and> effort_allowed platform ''low''"
    using assms by (auto simp: validate_over_def Let_def split: if_splits)
  then show ?thesis using fixed by (auto simp: validate_over_def)
qed

lemma when_given_idem:
  "when_given f x = Inr y \<Longrightarrow> (\<And>a b. x = Some a \<Longrightarrow> f a = Inr b \<Longrightarrow> f b = Inr b) \<Longrightarrow> when_given f y = Inr y"
  by (auto simp: when_given_def split: option.splits sum.splits)

text \<open>Validating a reasoning policy normalises it once and for all: the normalised
  policy passes validation again, unchanged.\<close>

lemma validate_reasoning_idempotent:
  assumes "validate_reasoning platform inp = Inr out"
  shows "validate_reasoning platform out = Inr out"
proof -
  define vm where "vm ms = (if 64 < length ms then Inl (bad ''too many reasoning effort mappings'')
    else validate_mappings platform [] ms)" for ms
  from assms have out: "when_given (validate_max platform) (ri_max inp) = Inr (ri_max out)"
      "when_given (validate_over platform) (ri_over inp) = Inr (ri_over out)"
      "when_given vm (ri_mappings inp) = Inr (ri_mappings out)"
    by (auto simp: validate_reasoning_def vm_def [abs_def] split: sum.splits)
  have "vm b = Inr b" if "vm a = Inr b" for a b
    using that validate_mappings_idem [of platform "[]" a b] validate_mappings_length [of platform "[]" a b]
    by (auto simp: vm_def split: if_splits)
  then have "when_given vm (ri_mappings out) = Inr (ri_mappings out)"
    using when_given_idem [OF out(3)] by blast
  moreover have "when_given (validate_max platform) (ri_max out) = Inr (ri_max out)"
    using when_given_idem [OF out(1)] validate_max_idem by blast
  moreover have "when_given (validate_over platform) (ri_over out) = Inr (ri_over out)"
    using when_given_idem [OF out(2)] validate_over_idem by blast
  ultimately show ?thesis
    by (simp add: validate_reasoning_def vm_def [abs_def])
qed


section \<open>Witnesses\<close>

definition sample_policy :: reasoning_policy where
  "sample_policy = \<lparr>rp_max = ''medium'', rp_over = ''downgrade'',
     rp_mappings = [\<lparr>em_from = ''none'', em_to = ''low'', em_match = [], em_model = []\<rparr>,
                    \<lparr>em_from = ''max'', em_to = ''deny'', em_match = ''prefix'', em_model = ''gpt-5''\<rparr>]\<rparr>"

definition sample_body :: fields where
  "sample_body = [(''model'', JStr ''gpt-5''), (''reasoning'', JObj [(''effort'', JStr ''x-high'')])]"

definition sample_capped :: fields where
  "sample_capped = [(''model'', JStr ''gpt-5''), (''reasoning'', JObj [(''effort'', JStr ''medium'')])]"

lemma sample_apply: "apply_reasoning sample_policy sample_body ''gpt-5'' ''openai'' = Inr sample_capped"
  by code_simp

theorem effort_never_above_cap_witness:
  "effort_rank (canonical_effort ''medium'') \<le> effort_rank (policy_max sample_policy ''openai'')"
proof (rule effort_never_above_cap [OF sample_apply])
  show "(''reasoning'', ''effort'') \<in> set effort_paths" by (simp add: effort_paths_def)
  show "0 < effort_rank (policy_max sample_policy ''openai'')" by code_simp
  show "effort_value sample_capped (''reasoning'', ''effort'') = Some ''medium''" by code_simp
qed simp

theorem policy_never_invents_effort_witness:
  "assoc sample_capped ''model'' = assoc sample_body ''model''"
  using policy_never_invents_effort [OF sample_apply, of "''model''"]
  by (simp add: sample_policy_def)

definition sample_input :: reasoning_input where
  "sample_input = \<lparr>ri_max = Some '' High '', ri_over = Some [],
     ri_mappings = Some [\<lparr>em_from = ''None'', em_to = ''low'', em_match = [], em_model = '' gpt-5 ''\<rparr>]\<rparr>"

definition sample_normal :: reasoning_input where
  "sample_normal = \<lparr>ri_max = Some ''high'', ri_over = Some ''downgrade'',
     ri_mappings = Some [\<lparr>em_from = ''none'', em_to = ''low'', em_match = ''exact'', em_model = ''gpt-5''\<rparr>]\<rparr>"

theorem validate_reasoning_idempotent_witness:
  "validate_reasoning ''openai'' sample_normal = Inr sample_normal"
  by (rule validate_reasoning_idempotent [of _ sample_input]) code_simp

end
