(* ===== verification/Fast_Tier.thy ===== *)
theory Fast_Tier
  imports Pricing Json
begin

text \<open>
  Service tiers: the fast policy of \<open>internal/app/fast_policy.go\<close> (validated rules, the rule that
  decides for a user, a model and a tier, its application to a request body), the group override of
  \<open>internal/app/group_fast.go\<close> and the tier that is billed. User-scoped rules come first, a blocked
  request never passes, and an upstream cannot raise the billed tier.
\<close>

record fast_rule =
  fr_tier :: string
  fr_action :: string
  fr_scope :: string
  fr_users :: "int list"
  fr_message :: string
  fr_models :: "string list"
  fr_fallback :: string
  fr_fallback_message :: string

section \<open>Validation\<close>

definition fast_actions :: "string list" where
  "fast_actions = [''pass'', ''filter'', ''block'', ''force_priority'']"

definition fast_tiers :: "string list" where
  "fast_tiers = [''all'', ''priority'', ''ultrafast'', ''flex'', ''missing'']"

fun check_users :: "int list \<Rightarrow> int list \<Rightarrow> unit result" where
  "check_users seen [] = Inr ()"
| "check_users seen (user # users) =
     (if user \<le> 0 \<or> List.member seen user
      then Inl (bad ''fast policy user_ids must be unique positive IDs'')
      else check_users (user # seen) users)"

fun trim_patterns :: "string list \<Rightarrow> string list result" where
  "trim_patterns [] = Inr []"
| "trim_patterns (pattern # patterns) =
     (if \<not> valid_model_pattern (trim_space pattern) then Inl (bad ''invalid fast policy model pattern'')
      else and_then (trim_patterns patterns) (\<lambda>ps. Inr (trim_space pattern # ps)))"

definition validate_fast_rule :: "fast_rule \<Rightarrow> fast_rule result" where
  "validate_fast_rule r =
     (let t = to_lower (trim_space (fr_tier r)); tier = (if t = [] then ''all'' else t) in
      if \<not> List.member fast_tiers tier \<or> \<not> List.member fast_actions (fr_action r) \<or>
         fr_fallback r \<noteq> [] \<and> \<not> List.member fast_actions (fr_fallback r) \<or>
         \<not> List.member [''all'', ''apikey''] (fr_scope r) \<or> 1000 < length (fr_users r) \<or>
         100 < length (fr_models r) \<or> 2000 < length (fr_message r) \<or> 2000 < length (fr_fallback_message r)
      then Inl (bad ''invalid fast policy rule'')
      else and_then (check_users [] (fr_users r)) (\<lambda>_.
        and_then (trim_patterns (fr_models r)) (\<lambda>models.
          Inr (r\<lparr>fr_tier := tier, fr_models := models\<rparr>))))"

fun validate_fast_rules :: "fast_rule list \<Rightarrow> fast_rule list result" where
  "validate_fast_rules [] = Inr []"
| "validate_fast_rules (r # rs) =
     and_then (validate_fast_rule r) (\<lambda>r'. and_then (validate_fast_rules rs) (\<lambda>rs'. Inr (r' # rs')))"

definition validate_fast_policy :: "fast_rule list \<Rightarrow> fast_rule list result" where
  "validate_fast_policy rules =
     (if 100 < length rules then Inl (bad ''too many fast policy rules'') else validate_fast_rules rules)"

text \<open>
  \<open>loadFastPolicy\<close>: the stored text, or what the query failed with. \<open>decode\<close> stands for
  \<open>json.Unmarshal\<close> into the settings. A corrupt policy is an error, not an empty policy.
\<close>

datatype stored_policy = NoRow | QueryFailed | Stored string

definition load_fast_policy ::
  "(string \<Rightarrow> fast_rule list option) \<Rightarrow> stored_policy \<Rightarrow> fast_rule list result" where
  "load_fast_policy decode stored = (case stored of
     NoRow \<Rightarrow> Inr []
   | QueryFailed \<Rightarrow> Inl (ApiError 503 ''fast policy unavailable'')
   | Stored raw \<Rightarrow>
       (if trim_space raw = [] then Inr []
        else if \<not> has_prefix (trim_space raw) ''{'' then Inl (ApiError 503 ''invalid stored fast policy'')
        else (case decode raw of
                None \<Rightarrow> Inl (ApiError 503 ''invalid stored fast policy'')
              | Some rules \<Rightarrow> (case validate_fast_policy rules of
                    Inl _ \<Rightarrow> Inl (ApiError 503 ''invalid stored fast policy'')
                  | Inr rules' \<Rightarrow> Inr rules'))))"


section \<open>The rule that decides\<close>

definition rule_applies :: "bool \<Rightarrow> int \<Rightarrow> string \<Rightarrow> fast_rule \<Rightarrow> bool" where
  "rule_applies scoped user tier r \<longleftrightarrow>
     (fr_users r \<noteq> []) = scoped \<and> (scoped \<longrightarrow> List.member (fr_users r) user) \<and>
     (fr_scope r = ''all'' \<or> fr_scope r = ''apikey'') \<and>
     (if tier = [] then fr_tier r = ''missing'' else fr_tier r = ''all'' \<or> fr_tier r = tier)"

definition lists_model :: "string \<Rightarrow> fast_rule \<Rightarrow> bool" where
  "lists_model model r \<longleftrightarrow> fr_models r = [] \<or>
     list_ex (\<lambda>p. p = model \<or> has_suffix p ''*'' \<and> has_prefix model (trim_suffix p ''*'')) (fr_models r)"

definition rule_action :: "string \<Rightarrow> fast_rule \<Rightarrow> string \<times> string" where
  "rule_action model r =
     (if lists_model model r then (fr_action r, fr_message r)
      else if fr_fallback r \<noteq> [] then (fr_fallback r, fr_fallback_message r)
      else (''pass'', []))"

definition fast_action :: "fast_rule list \<Rightarrow> int \<Rightarrow> string \<Rightarrow> string \<Rightarrow> string \<times> string" where
  "fast_action rules user model tier =
     (case find_map (\<lambda>scoped. find (rule_applies scoped user tier) rules) [True, False] of
        None \<Rightarrow> (''pass'', [])
      | Some r \<Rightarrow> rule_action model r)"

text \<open>The application to a request: the body and the tier that goes on, or a denial.\<close>

definition apply_fast_policy ::
  "fast_rule list \<Rightarrow> fields \<Rightarrow> int \<Rightarrow> string \<Rightarrow> string \<Rightarrow> string \<Rightarrow> (fields \<times> string) result" where
  "apply_fast_policy rules body user model platform tier =
     (case fast_action rules user model tier of (action, message) \<Rightarrow>
       (if tier = [] \<and> (platform \<noteq> ''openai'' \<or> action \<noteq> ''force_priority'') then Inr (body, [])
        else if action = ''block''
          then Inl (ApiError 403 (if message = []
            then ''service_tier='' @ tier @ '' is not allowed for model '' @ model else message))
        else if action = ''filter'' then Inr (remove ''service_tier'' body, [])
        else if action = ''force_priority''
          then Inr (put ''service_tier'' (JStr ''priority'') body, ''priority'')
        else Inr (body, tier)))"


section \<open>The group override and the billed tier\<close>

text \<open>The protocols whose service tier the policy governs: of the request and of the account.\<close>

definition fast_policy_protocol :: "string \<Rightarrow> string \<Rightarrow> bool \<Rightarrow> bool" where
  "fast_policy_protocol account_protocol protocol count_only \<longleftrightarrow> \<not> count_only \<and>
     List.member [''responses'', ''chat_completions'', ''anthropic''] protocol \<and>
     List.member [''responses'', ''chat_completions''] account_protocol"

definition openai_fast_scope :: "string \<Rightarrow> string \<Rightarrow> bool" where
  "openai_fast_scope source_platform group_platform =
     (let platform = (if source_platform = [] then group_platform else source_platform)
      in platform = ''openai'' \<or> platform = ''composite'')"

definition request_tiers :: "string list" where
  "request_tiers = [[], ''priority'', ''flex'', ''auto'', ''default'', ''scale'', ''ultrafast'']"

definition apply_group_fast ::
  "bool \<Rightarrow> bool \<Rightarrow> string \<Rightarrow> bool \<Rightarrow> fields \<Rightarrow> string \<Rightarrow> (fields \<times> string) result" where
  "apply_group_fast governed in_scope account_platform force_fast body in_tier =
     (if \<not> governed then Inr (body, in_tier)
      else if assoc body ''service_tier'' \<noteq> None \<and> assoc body ''service_tier'' \<noteq> Some JNull \<and>
              trim_space in_tier = []
        then Inl (bad ''invalid OpenAI service_tier'')
      else (let t = to_lower (trim_space in_tier); tier = (if t = ''fast'' then ''priority'' else t) in
        if \<not> List.member request_tiers tier then Inl (bad ''invalid OpenAI service_tier'')
        else (let tier = (if account_platform = ''openai'' \<and> in_scope \<and> force_fast then ''priority'' else tier)
          in Inr (if tier \<noteq> [] then put ''service_tier'' (JStr tier) body else body, tier))))"

definition tier_rank :: "string \<Rightarrow> nat \<times> bool" where
  "tier_rank tier =
     (if tier = ''flex'' then (0, True)
      else if List.member [[], ''default'', ''standard'', ''auto'', ''scale''] tier then (1, True)
      else if tier = ''priority'' \<or> tier = ''fast'' then (2, True)
      else (1, False))"

definition openai_billing_tier :: "string \<Rightarrow> string \<Rightarrow> string" where
  "openai_billing_tier requested observed =
     (let requested = to_lower (trim_space requested); observed = to_lower (trim_space observed);
          want = fst (tier_rank requested); (got, known) = tier_rank observed
      in if observed \<noteq> [] \<and> known \<and> got < want then observed else requested)"

text \<open>The update of a group's two switches: only groups that reach OpenAI can hold them.\<close>

definition store_group_fast ::
  "bool option \<Rightarrow> bool option \<Rightarrow> string \<Rightarrow> bool \<times> bool \<Rightarrow> bool \<times> bool" where
  "store_group_fast force free platform stored =
     (if force = None \<and> free = None then stored
      else (let reaches = (platform = ''openai'' \<or> platform = ''composite'') in
        (reaches \<and> (case force of None \<Rightarrow> fst stored | Some b \<Rightarrow> b),
         reaches \<and> (case free of None \<Rightarrow> snd stored | Some b \<Rightarrow> b))))"


section \<open>Guarantees\<close>

lemma fast_action_scoped:
  "find (rule_applies True user tier) rules = Some r \<Longrightarrow> fast_action rules user model tier = rule_action model r"
  by (simp add: fast_action_def)

text \<open>A rule for a user takes precedence over every rule for all users, wherever it
  stands in the list: with at least one user-scoped rule for the user and the tier, removing all
  unscoped rules changes nothing.\<close>

lemma scoped_rules_first:
  assumes "r \<in> set rules" and "rule_applies True user tier r"
  shows "fast_action rules user model tier =
    fast_action (filter (\<lambda>r. fr_users r \<noteq> []) rules) user model tier"
proof -
  obtain r' where r': "find (rule_applies True user tier) rules = Some r'"
    using assms by (cases "find (rule_applies True user tier) rules") (auto simp: find_None_iff)
  have "find (rule_applies True user tier) (filter (\<lambda>r. fr_users r \<noteq> []) rs) =
      find (rule_applies True user tier) rs" for rs
    by (induction rs) (auto simp: rule_applies_def)
  then show ?thesis using r' by (simp add: fast_action_scoped)
qed

text \<open>A named tier that the policy blocks is refused with status 403, and no other
  outcome of the policy is an error; what goes on agrees with the body: the returned tier is the
  one the body carries, if it carried the requested one before.\<close>

lemma fast_policy_outcome:
  assumes "assoc body ''service_tier'' = (if tier = [] then None else Some (JStr tier))"
  shows "(case apply_fast_policy rules body user model platform tier of
      Inl e \<Rightarrow> tier \<noteq> [] \<and> fst (fast_action rules user model tier) = ''block'' \<and> failure_status e = 403
    | Inr (body', tier') \<Rightarrow>
        \<not> (tier \<noteq> [] \<and> fst (fast_action rules user model tier) = ''block'') \<and>
        assoc body' ''service_tier'' = (if tier' = [] then None else Some (JStr tier')) \<and>
        tier' \<in> {tier, [], ''priority''} \<and>
        (\<forall>k. k \<noteq> ''service_tier'' \<longrightarrow> assoc body' k = assoc body k))"
  using assms by (auto simp: apply_fast_policy_def split: prod.splits)

lemma group_fast_tier_known:
  assumes "apply_group_fast True in_scope account_platform force body in_tier = Inr (body', tier)"
  shows "tier \<in> set request_tiers"
  using assms by (auto simp: apply_group_fast_def Let_def request_tiers_def split: if_splits)

text \<open>An upstream can lower the billed tier but never raise it: the billed tier is the
  requested or the observed one and never ranks above the requested one; a second observation
  never costs more than either alone, and an observation counts once.\<close>

lemma billing_tier_never_raised:
  "fst (tier_rank (openai_billing_tier requested observed)) \<le> fst (tier_rank (to_lower (trim_space requested))) \<and>
   openai_billing_tier requested observed \<in> {to_lower (trim_space requested), to_lower (trim_space observed)} \<and>
   fst (tier_rank (openai_billing_tier (openai_billing_tier requested observed) again)) \<le>
     min (fst (tier_rank (openai_billing_tier requested observed)))
         (fst (tier_rank (openai_billing_tier requested again))) \<and>
   openai_billing_tier (openai_billing_tier requested observed) observed = openai_billing_tier requested observed"
  by (auto simp: openai_billing_tier_def Let_def trim_space_to_lower split: prod.splits)


section \<open>Witnesses\<close>

definition sample_rule :: fast_rule where
  "sample_rule = \<lparr>fr_tier = ''all'', fr_action = ''pass'', fr_scope = ''all'', fr_users = [7],
     fr_message = [], fr_models = [''gpt-5*''], fr_fallback = ''block'', fr_fallback_message = []\<rparr>"

definition block_rule :: fast_rule where
  "block_rule = sample_rule\<lparr>fr_users := [], fr_action := ''block''\<rparr>"

theorem scoped_rules_first_witness:
  "fast_action [block_rule, sample_rule] 7 ''gpt-5'' ''flex'' = fast_action [sample_rule] 7 ''gpt-5'' ''flex''"
proof -
  have "rule_applies True 7 ''flex'' sample_rule" by code_simp
  then have "fast_action [block_rule, sample_rule] 7 ''gpt-5'' ''flex'' =
      fast_action (filter (\<lambda>r. fr_users r \<noteq> []) [block_rule, sample_rule]) 7 ''gpt-5'' ''flex''"
    by (intro scoped_rules_first) auto
  then show ?thesis by (simp add: block_rule_def sample_rule_def)
qed

theorem fast_policy_outcome_witness:
  "apply_fast_policy [block_rule] [(''service_tier'', JStr ''flex'')] 7 ''gpt-5'' ''openai'' ''flex'' =
     Inl (ApiError 403 ''service_tier=flex is not allowed for model gpt-5'') \<and>
   failure_status (ApiError 403 ''service_tier=flex is not allowed for model gpt-5'') = 403"
proof
  show run: "apply_fast_policy [block_rule] [(''service_tier'', JStr ''flex'')] 7 ''gpt-5'' ''openai'' ''flex'' =
     Inl (ApiError 403 ''service_tier=flex is not allowed for model gpt-5'')" by code_simp
  show "failure_status (ApiError 403 ''service_tier=flex is not allowed for model gpt-5'') = 403"
    using fast_policy_outcome [of "[(''service_tier'', JStr ''flex'')]" "''flex''" "[block_rule]" 7 "''gpt-5''" "''openai''"]
    by (simp add: run)
qed

end
