(* ===== verification/Composite.thy ===== *)
theory Composite
  imports Pricing Json "HOL-Library.Product_Lexorder"
begin

text \<open>
  Composite groups, \<open>internal/app/composite.go\<close>: a composite group sends each model to a concrete
  platform, by an explicit route, else by the only platform whose accounts expose the model as an
  alias, else by the spelling of the name. The theory models the routing snapshot, its resolution,
  the detector, the model targets of a catalog, and the handler that lists, previews and changes
  routes on the tables it reads. The time stamps of a route are not modelled, and a failed insert
  does not consume a route ID here.
\<close>

record composite_route =
  cr_id :: int
  cr_group :: int
  cr_public :: string
  cr_match :: string
  cr_platform :: string
  cr_upstream :: string
  cr_endpoint :: string
  cr_priority :: int
  cr_enabled :: bool
  cr_notes :: string
  cr_deleted :: bool

record composite_decision =
  d_matched :: bool
  d_source :: string
  d_group :: int
  d_public :: string
  d_platform :: string
  d_upstream :: string
  d_endpoint :: string
  d_route :: "composite_route option"
  d_reason :: string

record composite_config =
  cc_routes :: "composite_route list"
  cc_owners :: "(string \<times> string) list"

definition composite_endpoint :: "string \<Rightarrow> bool" where
  "composite_endpoint endpoint = List.member
     [''any'', ''messages'', ''count_tokens'', ''responses'', ''chat_completions'', ''embeddings'',
      ''images'', ''gemini''] endpoint"


section \<open>The routing snapshot\<close>

text \<open>The alias claims of an account: its platform and its model mapping, \<open>None\<close> when the stored
  mapping does not decode.\<close>

definition claim_model :: "string \<Rightarrow> (string \<times> string) list \<Rightarrow> string \<times> string \<Rightarrow> (string \<times> string) list" where
  "claim_model platform owners entry = (case entry of (model, target) \<Rightarrow>
     (if \<not> concrete_model model \<or> trim_space target = [] then owners
      else (case assoc owners model of
              Some previous \<Rightarrow> put model (if previous \<noteq> platform then [] else platform) owners
            | None \<Rightarrow> put model platform owners)))"

definition claim_account ::
  "(string \<times> string) list \<Rightarrow> string \<times> (string \<times> string) list option \<Rightarrow> (string \<times> string) list result" where
  "claim_account owners account = (case account of (platform, mapping) \<Rightarrow>
     (if \<not> supported_platform platform then Inr owners
      else (case mapping of
              None \<Rightarrow> Inl (ApiError 503 ''invalid account model mapping'')
            | Some entries \<Rightarrow> Inr (foldl (claim_model platform) owners entries))))"

definition group_routes :: "composite_route list \<Rightarrow> int \<Rightarrow> composite_route list" where
  "group_routes table gid =
     sort_key cr_priority (sort_key cr_id (filter (\<lambda>r. cr_group r = gid \<and> \<not> cr_deleted r) table))"

definition load_composite ::
  "composite_route list \<Rightarrow> (string \<times> (string \<times> string) list option) list \<Rightarrow> int \<Rightarrow> composite_config result" where
  "load_composite table accounts gid =
     and_then (each_with claim_account [] accounts) (\<lambda>owners.
       Inr \<lparr>cc_routes = group_routes table gid, cc_owners = owners\<rparr>)"


section \<open>Resolution\<close>

definition better_route :: "string \<Rightarrow> composite_route \<Rightarrow> composite_route \<Rightarrow> bool" where
  "better_route endpoint a b =
     (if cr_match a \<noteq> cr_match b then cr_match a = ''exact''
      else if (cr_endpoint a = endpoint) \<noteq> (cr_endpoint b = endpoint) then cr_endpoint a = endpoint
      else if length (cr_public a) \<noteq> length (cr_public b) then length (cr_public b) < length (cr_public a)
      else if cr_priority a \<noteq> cr_priority b then cr_priority a < cr_priority b
      else cr_id a < cr_id b)"

definition route_matches :: "string \<Rightarrow> string \<Rightarrow> composite_route \<Rightarrow> bool" where
  "route_matches model endpoint r \<longleftrightarrow>
     cr_enabled r \<and> (cr_endpoint r = ''any'' \<or> cr_endpoint r = endpoint) \<and>
     (cr_match r = ''exact'' \<and> cr_public r = model \<or> cr_match r = ''prefix'' \<and> has_prefix model (cr_public r))"

definition best_route :: "composite_route list \<Rightarrow> string \<Rightarrow> string \<Rightarrow> composite_route option" where
  "best_route routes model endpoint =
     foldl (keep_best (route_matches model endpoint) (better_route endpoint)) None routes"

definition provider_platform :: "string \<Rightarrow> string option" where
  "provider_platform provider =
     (if List.member [''antigravity'', ''opencode'', ''opencode_go'', ''bedrock''] provider then Some []
      else if provider = ''anthropic'' \<or> provider = ''claude'' then Some ''anthropic''
      else if provider = ''openai'' \<or> provider = ''chatgpt'' then Some ''openai''
      else if List.member [''google'', ''google-ai-studio'', ''gemini''] provider then Some ''gemini''
      else if List.member [''xai'', ''x-ai'', ''grok''] provider then Some ''grok''
      else if provider = ''kimi'' \<or> provider = ''moonshot'' then Some ''kimi''
      else if List.member [''zhipu'', ''glm'', ''bigmodel''] provider then Some ''zhipu''
      else if provider = ''deepseek'' \<or> provider = ''minimax'' then Some provider
      else None)"

definition platform_prefixes :: "(string \<times> string list) list" where
  "platform_prefixes =
     [(''anthropic'', [''anthropic.claude-'', ''claude-'']),
      (''openai'', [''gpt-'', ''chatgpt-'', ''codex-'', ''text-embedding-'', ''text-moderation-'',
                    ''omni-moderation-'', ''dall-e-'', ''tts-'', ''whisper-'']),
      (''gemini'', [''gemini-'', ''learnlm-'']),
      (''grok'', [''grok-'']),
      (''kimi'', [''kimi-'', ''moonshot-'']),
      (''zhipu'', [''glm-'']),
      (''deepseek'', [''deepseek-'']),
      (''minimax'', [''minimax-'', ''abab5'', ''abab6'', ''abab7''])]"

definition detect_by_name :: "string \<Rightarrow> string" where
  "detect_by_name model =
     (case find (\<lambda>row. list_ex (has_prefix model) (snd row)) platform_prefixes of
        Some row \<Rightarrow> fst row
      | None \<Rightarrow>
          (if list_ex (\<lambda>name. model = name \<or> has_prefix model (name @ ''-'')) [''o1'', ''o3'', ''o4'', ''o5'']
             then ''openai''
           else if model = ''k3'' \<or> model = ''k3-256k'' then ''kimi''
           else if model = ''grok'' then ''grok''
           else []))"

definition detect_model_platform :: "string \<Rightarrow> string" where
  "detect_model_platform name =
     (let model = trim_prefix (to_lower (trim_space name)) ''models/'' in
      (case cut_at ''/'' model of
         Some (provider, rest) \<Rightarrow>
           (case provider_platform provider of
              Some platform \<Rightarrow> platform
            | None \<Rightarrow> detect_by_name (trim_prefix rest ''models/''))
       | None \<Rightarrow> detect_by_name model))"

definition undecided :: "int \<Rightarrow> string \<Rightarrow> string \<Rightarrow> composite_decision" where
  "undecided gid model endpoint =
     \<lparr>d_matched = False, d_source = [], d_group = gid, d_public = model, d_platform = [],
      d_upstream = [], d_endpoint = endpoint, d_route = None, d_reason = []\<rparr>"

definition resolve_composite :: "composite_config \<Rightarrow> int \<Rightarrow> string \<Rightarrow> string \<Rightarrow> composite_decision" where
  "resolve_composite c gid model endpoint =
     (let d = undecided gid model endpoint in
      case best_route (cc_routes c) model endpoint of
        Some best \<Rightarrow>
          (if \<not> supported_platform (cr_platform best)
           then d\<lparr>d_reason := ''route targets an unsupported platform''\<rparr>
           else d\<lparr>d_matched := True, d_source := ''route'', d_platform := cr_platform best,
                  d_upstream := (if cr_upstream best = [] then model else cr_upstream best),
                  d_route := Some best\<rparr>)
      | None \<Rightarrow>
          (case assoc (cc_owners c) model of
             Some platform \<Rightarrow>
               (if platform = [] then d\<lparr>d_reason := ''model is exposed by multiple provider platforms''\<rparr>
                else d\<lparr>d_matched := True, d_source := ''account_model'', d_platform := platform,
                       d_upstream := model\<rparr>)
           | None \<Rightarrow>
               (if detect_model_platform model \<noteq> []
                then d\<lparr>d_matched := True, d_source := ''detector'',
                       d_platform := detect_model_platform model, d_upstream := model\<rparr>
                else d\<lparr>d_reason := ''no explicit route, account ownership or recognized model platform''\<rparr>)))"


section \<open>Catalog targets\<close>

definition chat_responses_platform :: "string \<Rightarrow> bool" where
  "chat_responses_platform platform =
     List.member [''openai'', ''kimi'', ''zhipu'', ''deepseek'', ''minimax''] platform"

definition messages_chat_platform :: "string \<Rightarrow> bool" where
  "messages_chat_platform platform \<longleftrightarrow> chat_responses_platform platform \<or> platform = ''grok''"

definition chat_anthropic_platform :: "string \<Rightarrow> bool" where
  "chat_anthropic_platform platform \<longleftrightarrow> platform = ''anthropic'' \<or> chat_responses_platform platform"

definition callable_endpoints :: "string \<Rightarrow> string \<Rightarrow> bool \<Rightarrow> string list" where
  "callable_endpoints platform protocol native =
     (if native then [''gemini'']
      else (let e = [protocol] @
           (if protocol = ''gemini'' then [''chat_completions'', ''messages'', ''count_tokens''] else []) @
           (if protocol = ''responses'' \<and> chat_responses_platform platform then [''chat_completions''] else []) @
           (if protocol = ''chat_completions'' \<and> chat_responses_platform platform then [''responses''] else []) @
           (if (protocol = ''chat_completions'' \<or> protocol = ''responses'') \<and> messages_chat_platform platform
            then [''messages'', ''count_tokens''] else []);
         e = (if protocol = ''anthropic''
              then [''messages'', ''count_tokens''] @
                (if chat_anthropic_platform platform then [''chat_completions'', ''responses''] else [])
              else e)
       in e @ (if platform = ''openai'' then [''embeddings''] else [])))"

definition add_target ::
  "composite_config \<Rightarrow> int \<Rightarrow> string \<Rightarrow> string \<Rightarrow> string list \<Rightarrow> string \<Rightarrow> string list" where
  "add_target c gid model platform targets endpoint =
     (let d = resolve_composite c gid model endpoint in
      if d_matched d \<and> d_platform d = platform \<and> \<not> List.member targets (d_upstream d)
      then targets @ [d_upstream d] else targets)"

definition composite_model_targets ::
  "composite_config option \<Rightarrow> int \<Rightarrow> string \<Rightarrow> string \<Rightarrow> string \<Rightarrow> bool \<Rightarrow> string list" where
  "composite_model_targets config gid model platform protocol native = (case config of
     None \<Rightarrow> [model]
   | Some c \<Rightarrow> foldl (add_target c gid model platform) [] (callable_endpoints platform protocol native))"


section \<open>The handler\<close>

text \<open>The tables: live groups with their platform, the routes, and the next route ID.\<close>

record composite_db =
  db_groups :: "(int \<times> string) list"
  db_routes :: "composite_route list"
  db_accounts :: "(int \<times> (string \<times> (string \<times> string) list option) list) list"
  db_next :: int

text \<open>A decoded body: a field is \<open>None\<close> when it was absent or null.\<close>

record route_input =
  in_public :: "string option"
  in_match :: "string option"
  in_platform :: "string option"
  in_upstream :: "string option"
  in_endpoint :: "string option"
  in_priority :: "int option"
  in_enabled :: "bool option"
  in_notes :: "string option"

definition validate_route :: "route_input \<Rightarrow> composite_route result" where
  "validate_route inp =
     (let public = trim_space (given (in_public inp) []); upstream = trim_space (given (in_upstream inp) []);
          m = given (in_match inp) ''exact''; match = (if m = [] then ''exact'' else m);
          e = given (in_endpoint inp) ''any''; endpoint = (if e = [] then ''any'' else e);
          p = given (in_priority inp) 100; priority = (if p = 0 then 100 else p);
          platform = given (in_platform inp) []; notes = given (in_notes inp) []
      in if \<not> concrete_model public \<or> upstream \<noteq> [] \<and> \<not> concrete_model upstream \<or>
            \<not> supported_platform platform \<or> \<not> composite_endpoint endpoint \<or>
            match \<noteq> ''exact'' \<and> match \<noteq> ''prefix'' \<or> priority < - 2147483648 \<or> 2147483647 < priority \<or>
            10000 < length notes
         then Inl (bad ''invalid composite route'')
         else Inr \<lparr>cr_id = 0, cr_group = 0, cr_public = public, cr_match = match, cr_platform = platform,
           cr_upstream = (if match = ''exact'' \<and> upstream = [] then public else upstream),
           cr_endpoint = endpoint, cr_priority = priority, cr_enabled = given (in_enabled inp) True,
           cr_notes = trim_space notes, cr_deleted = False\<rparr>)"

definition same_slot :: "composite_route \<Rightarrow> composite_route \<Rightarrow> bool" where
  "same_slot a b \<longleftrightarrow> cr_group a = cr_group b \<and> cr_endpoint a = cr_endpoint b \<and>
     cr_match a = cr_match b \<and> cr_public a = cr_public b"

text \<open>The unique index over the rows that are not deleted.\<close>

definition taken :: "composite_route list \<Rightarrow> composite_route \<Rightarrow> bool" where
  "taken table r = list_ex (\<lambda>q. \<not> cr_deleted q \<and> cr_id q \<noteq> cr_id r \<and> same_slot q r) table"

datatype route_change = PostRoute "route_input option" | PutRoute "int option" "route_input option"
  | DeleteRoute "int option"

definition decoded :: "'a option \<Rightarrow> 'a result" where
  "decoded body = (case body of
     None \<Rightarrow> Inl (bad ''invalid JSON body or unsupported field'') | Some a \<Rightarrow> Inr a)"

definition route_id :: "int option \<Rightarrow> int result" where
  "route_id rid = (case rid of
     None \<Rightarrow> Inl (bad ''invalid route ID'')
   | Some i \<Rightarrow> if i \<le> 0 then Inl (bad ''invalid route ID'') else Inr i)"

definition require_composite :: "composite_db \<Rightarrow> int \<Rightarrow> unit result" where
  "require_composite db gid = (case assoc (db_groups db) gid of
     None \<Rightarrow> Inl missing
   | Some platform \<Rightarrow> check (platform = ''composite'') (bad ''a composite group is required''))"

definition live_route :: "composite_db \<Rightarrow> int \<Rightarrow> int \<Rightarrow> composite_route option" where
  "live_route db gid rid =
     find (\<lambda>r. cr_id r = rid \<and> cr_group r = gid \<and> \<not> cr_deleted r) (db_routes db)"

definition replace_route :: "composite_route \<Rightarrow> composite_route list \<Rightarrow> composite_route list" where
  "replace_route r table = map (\<lambda>q. if cr_id q = cr_id r then r else q) table"

definition change_route ::
  "composite_db \<Rightarrow> int \<Rightarrow> route_change \<Rightarrow> (composite_db \<times> composite_route) result" where
  "change_route db gid change = (case change of
     PostRoute body \<Rightarrow>
       and_then (decoded body) (\<lambda>inp. and_then (validate_route inp) (\<lambda>r.
       and_then (require_composite db gid) (\<lambda>_.
         (let r = r\<lparr>cr_id := db_next db, cr_group := gid\<rparr> in
          if taken (db_routes db) r then Inl (conflict ''resource already exists'')
          else Inr (db\<lparr>db_routes := db_routes db @ [r], db_next := db_next db + 1\<rparr>, r)))))
   | PutRoute rid body \<Rightarrow>
       and_then (route_id rid) (\<lambda>rid. and_then (decoded body) (\<lambda>inp. and_then (validate_route inp) (\<lambda>r.
       and_then (require_composite db gid) (\<lambda>_.
         (case live_route db gid rid of
            None \<Rightarrow> Inl missing
          | Some old \<Rightarrow>
              (let r = r\<lparr>cr_id := rid, cr_group := gid\<rparr> in
               if taken (db_routes db) r then Inl (conflict ''resource already exists'')
               else Inr (db\<lparr>db_routes := replace_route r (db_routes db)\<rparr>, r)))))))
   | DeleteRoute rid \<Rightarrow>
       and_then (route_id rid) (\<lambda>rid. and_then (require_composite db gid) (\<lambda>_.
         (case live_route db gid rid of
            None \<Rightarrow> Inl missing
          | Some old \<Rightarrow> (let r = old\<lparr>cr_deleted := True\<rparr>
              in Inr (db\<lparr>db_routes := replace_route r (db_routes db)\<rparr>, r))))))"

text \<open>The requests that only read: the list of routes, and the preview of a decision.\<close>

definition read_composite :: "composite_db \<Rightarrow> int \<Rightarrow> composite_config result" where
  "read_composite db gid =
     and_then (require_composite db gid) (\<lambda>_.
       load_composite (db_routes db) (given (assoc (db_accounts db) gid) []) gid)"

definition preview_route ::
  "composite_db \<Rightarrow> int \<Rightarrow> (string \<times> string) option \<Rightarrow> composite_decision result" where
  "preview_route db gid body =
     and_then (read_composite db gid) (\<lambda>c. and_then (decoded body) (\<lambda>(model, e).
       (let endpoint = (if e = [] then ''any'' else e) in
        if \<not> concrete_model model \<or> \<not> composite_endpoint endpoint
        then Inl (bad ''invalid preview model or endpoint'')
        else Inr (resolve_composite c gid model endpoint))))"

end
