(* ===== verification/Composite_Facts.thy ===== *)
theory Composite_Facts
  imports Composite
begin

text \<open>
  What composite routing guarantees: the preference between routes is a strict total order, so the
  decision does not depend on the order of the table; an alias has an owner exactly when one
  platform exposes it; a decision never leaves the supported platforms; and every change of the
  route table keeps it well formed, with one live route per group, endpoint, match type and model.
\<close>

section \<open>The preference between routes\<close>

definition route_key :: "string \<Rightarrow> composite_route \<Rightarrow> nat \<times> nat \<times> int \<times> int \<times> int" where
  "route_key endpoint r =
     (if cr_match r = ''exact'' then 0 else 1, if cr_endpoint r = endpoint then 0 else 1,
      - int (length (cr_public r)), cr_priority r, cr_id r)"

lemma route_matches_type:
  "route_matches model endpoint r \<Longrightarrow> cr_match r = ''exact'' \<or> cr_match r = ''prefix''"
  by (auto simp: route_matches_def)

lemma better_route_key:
  assumes "route_matches model endpoint a" "route_matches model endpoint b"
  shows "better_route endpoint a b \<longleftrightarrow> route_key endpoint a < route_key endpoint b"
  using route_matches_type [OF assms(1)] route_matches_type [OF assms(2)]
  by (auto simp: better_route_def route_key_def)

interpretation routes: best_choice "route_matches model endpoint" "better_route endpoint" "route_key endpoint"
  for model endpoint
  by unfold_locales (rule better_route_key)

lemma route_key_inj:
  assumes "distinct (map cr_id rs)"
  shows "inj_on (route_key endpoint) {r \<in> set rs. route_matches model endpoint r}"
proof (rule inj_onI)
  fix a b
  assume "a \<in> {r \<in> set rs. route_matches model endpoint r}" "b \<in> {r \<in> set rs. route_matches model endpoint r}"
    and "route_key endpoint a = route_key endpoint b"
  then show "a = b"
    using assms by (auto simp: route_key_def distinct_map inj_on_def)
qed

text \<open>The decision for a model and an endpoint does not depend on the order in which
  the routes of the group are read, as long as their IDs differ: preference between routes is a
  strict total order on the matching ones.\<close>

lemma composite_order_irrelevant:
  assumes "distinct (map cr_id rs)" and "set rs' = set rs"
  shows "resolve_composite (c\<lparr>cc_routes := rs'\<rparr>) gid model endpoint =
    resolve_composite (c\<lparr>cc_routes := rs\<rparr>) gid model endpoint"
proof -
  have "best_route rs model endpoint = best_route rs' model endpoint"
    unfolding best_route_def
    using routes.fold_order_irrelevant [OF assms(2) [symmetric] route_key_inj [OF assms(1)]] .
  then show ?thesis by (simp add: resolve_composite_def cong: option.case_cong)
qed

lemma best_route_matches:
  "best_route rs model endpoint = Some r \<Longrightarrow> r \<in> set rs \<and> route_matches model endpoint r"
  unfolding best_route_def using routes.fold_Some(1,2) by blast


section \<open>Owners of aliases\<close>

definition claims :: "string \<times> (string \<times> string) list option \<Rightarrow> string \<Rightarrow> bool" where
  "claims account model \<longleftrightarrow> supported_platform (fst account) \<and> concrete_model model \<and>
     (\<exists>entries target. snd account = Some entries \<and> (model, target) \<in> set entries \<and> trim_space target \<noteq> [])"

definition claimants :: "(string \<times> (string \<times> string) list option) list \<Rightarrow> string \<Rightarrow> string set" where
  "claimants accounts model = fst ` {a \<in> set accounts. claims a model}"

lemma claimants_Cons:
  "claimants (a # accounts) model =
    (if claims a model then insert (fst a) (claimants accounts model) else claimants accounts model)"
proof -
  have "{b \<in> set (a # accounts). claims b model} =
      (if claims a model then insert a {b \<in> set accounts. claims b model} else {b \<in> set accounts. claims b model})"
    by auto
  then show ?thesis by (simp add: claimants_def)
qed

text \<open>The owner a set of claiming platforms stands for.\<close>

definition owner_of :: "string set \<Rightarrow> string option" where
  "owner_of ps = (if ps = {} then None else if \<exists>p. ps = {p} then Some (the_elem ps) else Some [])"

lemma supported_not_Nil: "supported_platform p \<Longrightarrow> p \<noteq> []"
  by (auto simp: supported_platform_def)

lemma owner_of_insert:
  assumes "\<And>q. q \<in> ps \<Longrightarrow> q \<noteq> []" and "p \<noteq> []"
  shows "owner_of (insert p ps) = (case owner_of ps of
    None \<Rightarrow> Some p | Some previous \<Rightarrow> Some (if previous \<noteq> p then [] else p))"
proof (cases "ps = {}")
  case True
  then show ?thesis by (simp add: owner_of_def)
next
  case False
  show ?thesis
  proof (cases "\<exists>q. ps = {q}")
    case True
    then obtain q where q: "ps = {q}" by blast
    then show ?thesis by (auto simp: owner_of_def)
  next
    case more: False
    then have "\<not> (\<exists>q. insert p ps = {q})" using False by blast
    with False more assms(2) show ?thesis by (simp add: owner_of_def)
  qed
qed

lemma owner_of_cases:
  assumes "\<And>q. q \<in> ps \<Longrightarrow> q \<noteq> []"
  shows "(owner_of ps = None) = (ps = {}) \<and> (p \<noteq> [] \<longrightarrow> (owner_of ps = Some p) = (ps = {p})) \<and>
    (owner_of ps = Some []) = (\<exists>p q. p \<noteq> q \<and> p \<in> ps \<and> q \<in> ps)"
proof -
  consider "ps = {}" | q where "ps = {q}" "q \<noteq> []" | a b where "a \<in> ps" "b \<in> ps" "a \<noteq> b"
    using assms by blast
  then show ?thesis
  proof cases
    case (3 a b)
    then have "\<nexists>p. ps = {p}" "ps \<noteq> {}" by auto
    then have "owner_of ps = Some []" by (simp add: owner_of_def)
    with 3 show ?thesis by auto
  qed (auto simp: owner_of_def)
qed

lemma claimants_not_Nil: "q \<in> claimants accounts model \<Longrightarrow> q \<noteq> []"
  using supported_not_Nil by (auto simp: claimants_def claims_def)

lemma claim_owner:
  assumes "\<And>q. q \<in> ps \<Longrightarrow> q \<noteq> []" and "platform \<noteq> []" and "assoc owners model = owner_of ps"
  shows "assoc (claim_model platform owners (m, target)) model =
    owner_of (if m = model \<and> concrete_model m \<and> trim_space target \<noteq> [] then insert platform ps else ps)"
  using assms(3) owner_of_insert [OF assms(1,2)]
  by (auto simp: claim_model_def assoc_put split: option.splits)

lemma claim_entries_owner:
  assumes "\<And>q. q \<in> ps \<Longrightarrow> q \<noteq> []" and "platform \<noteq> []" and "assoc owners model = owner_of ps"
  shows "assoc (foldl (claim_model platform) owners entries) model =
    owner_of (if concrete_model model \<and> (\<exists>target. (model, target) \<in> set entries \<and> trim_space target \<noteq> [])
              then insert platform ps else ps)"
  using assms
proof (induction entries arbitrary: owners ps)
  case Nil
  then show ?case by simp
next
  case (Cons e entries)
  obtain m target where e: "e = (m, target)" by fastforce
  let ?ps = "if m = model \<and> concrete_model m \<and> trim_space target \<noteq> [] then insert platform ps else ps"
  have "assoc (claim_model platform owners e) model = owner_of ?ps"
    using claim_owner [OF Cons.prems] by (simp add: e)
  then have "assoc (foldl (claim_model platform) (claim_model platform owners e) entries) model =
    owner_of (if concrete_model model \<and> (\<exists>target. (model, target) \<in> set entries \<and> trim_space target \<noteq> [])
              then insert platform ?ps else ?ps)"
    by (intro Cons.IH) (use Cons.prems in \<open>auto split: if_splits\<close>)
  moreover have "(if concrete_model model \<and> (\<exists>target. (model, target) \<in> set entries \<and> trim_space target \<noteq> [])
              then insert platform ?ps else ?ps) =
     (if concrete_model model \<and> (\<exists>target. (model, target) \<in> set (e # entries) \<and> trim_space target \<noteq> [])
              then insert platform ps else ps)"
    by (auto simp: e)
  ultimately show ?case by simp
qed

lemma claim_accounts_owner:
  assumes "each_with claim_account owners accounts = Inr owners'"
    and "assoc owners model = owner_of ps" and "\<And>q. q \<in> ps \<Longrightarrow> q \<noteq> []"
  shows "assoc owners' model = owner_of (ps \<union> claimants accounts model)"
  using assms
proof (induction accounts arbitrary: owners ps)
  case Nil
  then show ?case by (simp add: claimants_def)
next
  case (Cons a accounts)
  obtain platform mapping where a: "a = (platform, mapping)" by fastforce
  from Cons.prems(1) obtain o1 where o1: "claim_account owners a = Inr o1"
    and rest: "each_with claim_account o1 accounts = Inr owners'"
    by (auto split: sum.splits)
  let ?ps = "if claims a model then insert platform ps else ps"
  have "assoc o1 model = owner_of ?ps"
  proof (cases "supported_platform platform")
    case True
    then obtain entries where "mapping = Some entries" "o1 = foldl (claim_model platform) owners entries"
      using o1 by (auto simp: claim_account_def a split: option.splits)
    then show ?thesis
      using claim_entries_owner [OF Cons.prems(3) supported_not_Nil [OF True] Cons.prems(2), of entries] True
      by (simp add: claims_def a)
  next
    case False
    then show ?thesis using o1 Cons.prems(2) by (simp add: claim_account_def claims_def a)
  qed
  moreover have "q \<noteq> []" if "q \<in> ?ps" for q
    using that Cons.prems(3) supported_not_Nil by (auto simp: claims_def a split: if_splits)
  ultimately have "assoc owners' model = owner_of (?ps \<union> claimants accounts model)"
    using Cons.IH [OF rest] by blast
  moreover have "?ps \<union> claimants accounts model = ps \<union> claimants (a # accounts) model"
    by (simp add: claimants_Cons a)
  ultimately show ?case by simp
qed

text \<open>In a loaded snapshot a platform owns a model alias exactly when it is the only
  supported platform of which an active account maps that concrete name to a non-blank target;
  with several claiming platforms the alias is ambiguous, however the accounts are ordered.\<close>

lemma composite_owners_exact:
  assumes "load_composite table accounts gid = Inr c"
  shows "(assoc (cc_owners c) model = None) = (claimants accounts model = {}) \<and>
    (p \<noteq> [] \<longrightarrow> (assoc (cc_owners c) model = Some p) = (claimants accounts model = {p})) \<and>
    (assoc (cc_owners c) model = Some []) =
      (\<exists>p q. p \<noteq> q \<and> p \<in> claimants accounts model \<and> q \<in> claimants accounts model)"
proof -
  from assms have "each_with claim_account [] accounts = Inr (cc_owners c)"
    by (auto simp: load_composite_def split: sum.splits)
  then have "assoc (cc_owners c) model = owner_of ({} \<union> claimants accounts model)"
    by (rule claim_accounts_owner) (simp_all add: owner_of_def)
  then show ?thesis
    using owner_of_cases [of "claimants accounts model" p] claimants_not_Nil by simp
qed


section \<open>Decisions stay within the supported platforms\<close>

lemma detect_supported: "detect_model_platform m = [] \<or> supported_platform (detect_model_platform m)"
proof -
  have provider: "\<forall>p. provider_platform q = Some p \<longrightarrow> p = [] \<or> supported_platform p" for q
    by (auto simp: provider_platform_def supported_platform_def)
  have rows: "\<forall>row \<in> set platform_prefixes. supported_platform (fst row)"
    by (simp add: platform_prefixes_def supported_platform_def)
  have names: "detect_by_name n = [] \<or> supported_platform (detect_by_name n)" for n
  proof (cases "find (\<lambda>row. list_ex (has_prefix n) (snd row)) platform_prefixes")
    case None
    then show ?thesis by (auto simp: detect_by_name_def supported_platform_def)
  next
    case (Some row)
    then have "row \<in> set platform_prefixes" by (auto simp: find_Some_iff)
    with Some rows show ?thesis by (simp add: detect_by_name_def)
  qed
  show ?thesis
    using provider names
    by (auto simp: detect_model_platform_def Let_def split: option.splits prod.splits)
qed

lemma owner_supported:
  assumes "load_composite table accounts gid = Inr c" and "assoc (cc_owners c) model = Some p" and "p \<noteq> []"
  shows "supported_platform p"
proof -
  from assms(1) have "each_with claim_account [] accounts = Inr (cc_owners c)"
    by (auto simp: load_composite_def split: sum.splits)
  then have "assoc (cc_owners c) model = owner_of ({} \<union> claimants accounts model)"
    by (rule claim_accounts_owner) (simp_all add: owner_of_def)
  then have "claimants accounts model = {p}"
    using owner_of_cases [of "claimants accounts model" p] claimants_not_Nil assms(2,3) by simp
  then have "p \<in> claimants accounts model" by simp
  then show ?thesis by (auto simp: claimants_def claims_def)
qed

text \<open>Property C30: A decision that matches names a supported platform, and when it rests on a
  route, that route is enabled, covers the model and the endpoint, and no other route that does is
  preferred to it.\<close>
theorem composite_decision_sound:
  assumes "load_composite table accounts gid = Inr c"
    and "resolve_composite c gid model endpoint = d" and "d_matched d"
  shows "supported_platform (d_platform d) \<and>
    (\<forall>r. d_route d = Some r \<longrightarrow> r \<in> set (cc_routes c) \<and> route_matches model endpoint r \<and>
      d_platform d = cr_platform r \<and>
      (\<forall>q \<in> set (cc_routes c). route_matches model endpoint q \<longrightarrow> \<not> better_route endpoint q r))"
proof (cases "best_route (cc_routes c) model endpoint")
  case None
  then show ?thesis
    using assms owner_supported [OF assms(1)] detect_supported [of model]
    by (auto simp: resolve_composite_def undecided_def Let_def split: option.splits if_splits)
next
  case (Some r)
  then have "r \<in> set (cc_routes c) \<and> route_matches model endpoint r"
    by (rule best_route_matches)
  moreover have "\<not> better_route endpoint q r" if "q \<in> set (cc_routes c)" "route_matches model endpoint q" for q
    using that Some routes.fold_Some(3) unfolding best_route_def by blast
  ultimately show ?thesis
    using assms(2,3) Some
    by (auto simp: resolve_composite_def undecided_def Let_def split: if_splits)
qed


section \<open>The route table\<close>

definition route_ok :: "composite_route \<Rightarrow> bool" where
  "route_ok r \<longleftrightarrow> concrete_model (cr_public r) \<and> (cr_upstream r = [] \<or> concrete_model (cr_upstream r)) \<and>
     supported_platform (cr_platform r) \<and> composite_endpoint (cr_endpoint r) \<and>
     (cr_match r = ''prefix'' \<or> cr_match r = ''exact'' \<and> cr_upstream r \<noteq> [])"

definition routes_ok :: "composite_db \<Rightarrow> bool" where
  "routes_ok db \<longleftrightarrow> distinct (map cr_id (db_routes db)) \<and> list_all route_ok (db_routes db) \<and>
     list_all (\<lambda>r. cr_id r < db_next db) (db_routes db) \<and>
     list_all (\<lambda>a. cr_deleted a \<or> \<not> taken (db_routes db) a) (db_routes db)"

lemma concrete_not_Nil: "concrete_model m \<Longrightarrow> m \<noteq> []"
  by (auto simp: concrete_model_def valid_model_pattern_def)

lemma validate_route_ok: "validate_route inp = Inr r \<Longrightarrow> route_ok r \<and> \<not> cr_deleted r"
  unfolding validate_route_def Let_def if_Inl_Inr_iff
  by (auto simp: route_ok_def concrete_not_Nil)

lemma route_ok_place [simp]: "route_ok (r\<lparr>cr_id := i, cr_group := g\<rparr>) = route_ok r"
  "route_ok (r\<lparr>cr_deleted := b\<rparr>) = route_ok r"
  by (simp_all add: route_ok_def)

lemma same_slot_sym: "same_slot a b = same_slot b a"
  by (auto simp: same_slot_def)

lemma taken_iff: "taken table r \<longleftrightarrow> (\<exists>q \<in> set table. \<not> cr_deleted q \<and> cr_id q \<noteq> cr_id r \<and> same_slot q r)"
  by (auto simp: taken_def list_ex_iff)

lemma routes_ok_insert:
  assumes "routes_ok db" and "route_ok r" and "cr_id r = db_next db" and "\<not> taken (db_routes db) r"
  shows "routes_ok (db\<lparr>db_routes := db_routes db @ [r], db_next := db_next db + 1\<rparr>)"
proof -
  have old: "\<forall>q \<in> set (db_routes db). cr_id q < db_next db" "distinct (map cr_id (db_routes db))"
    "\<forall>q \<in> set (db_routes db). route_ok q"
    "\<forall>q \<in> set (db_routes db). cr_deleted q \<or> \<not> taken (db_routes db) q"
    using assms(1) by (auto simp: routes_ok_def list_all_iff)
  have "\<not> taken (db_routes db @ [r]) r" using assms(4) by (simp add: taken_iff)
  moreover have "cr_deleted q \<or> \<not> taken (db_routes db @ [r]) q" if "q \<in> set (db_routes db)" for q
  proof (cases "cr_deleted q \<or> cr_deleted r")
    case True
    then show ?thesis using old(4) that by (auto simp: taken_iff)
  next
    case False
    have "cr_id q \<noteq> cr_id r" using old(1) that assms(3) by auto
    then have "\<not> same_slot r q" using assms(4) that False by (auto simp: taken_iff same_slot_sym)
    then show ?thesis using old(4) that by (auto simp: taken_iff)
  qed
  ultimately show ?thesis
    using old assms(2,3) by (auto simp: routes_ok_def list_all_iff)
qed

lemma replace_route_ids [simp]: "map cr_id (replace_route r table) = map cr_id table"
  by (simp add: replace_route_def)

lemma routes_ok_replace:
  assumes "routes_ok db" and "route_ok r" and "cr_deleted r \<or> \<not> taken (db_routes db) r"
    and "\<exists>q \<in> set (db_routes db). cr_id q = cr_id r"
  shows "routes_ok (db\<lparr>db_routes := replace_route r (db_routes db)\<rparr>)"
proof -
  let ?new = "replace_route r (db_routes db)"
  have elems: "q \<in> set ?new \<Longrightarrow> q = r \<or> q \<in> set (db_routes db) \<and> cr_id q \<noteq> cr_id r" for q
    by (auto simp: replace_route_def)
  have old: "\<forall>q \<in> set (db_routes db). cr_id q < db_next db" "distinct (map cr_id (db_routes db))"
    "\<forall>q \<in> set (db_routes db). route_ok q"
    "\<forall>q \<in> set (db_routes db). cr_deleted q \<or> \<not> taken (db_routes db) q"
    using assms(1) by (auto simp: routes_ok_def list_all_iff)
  have "cr_deleted q \<or> \<not> taken ?new q" if "q \<in> set ?new" for q
  proof (cases "cr_deleted q")
    case False
    have "\<not> same_slot p q" if p: "p \<in> set ?new" "\<not> cr_deleted p" "cr_id p \<noteq> cr_id q" for p
    proof (cases "q = r")
      case True
      then have "p \<in> set (db_routes db)" using elems [OF p(1)] p(3) by auto
      then show ?thesis using True False assms(3) p by (auto simp: taken_iff)
    next
      case q: False
      then have qin: "q \<in> set (db_routes db)" "cr_id q \<noteq> cr_id r" using elems [OF \<open>q \<in> set ?new\<close>] by auto
      show ?thesis
      proof (cases "p = r")
        case True
        then show ?thesis using assms(3) p qin False by (auto simp: taken_iff same_slot_sym)
      next
        case False
        then have "p \<in> set (db_routes db)" using elems [OF p(1)] by auto
        then show ?thesis using old(4) qin p \<open>\<not> cr_deleted q\<close> by (auto simp: taken_iff)
      qed
    qed
    then show ?thesis by (auto simp: taken_iff)
  qed simp
  moreover have "cr_id q < db_next db" "route_ok q" if "q \<in> set ?new" for q
    using elems [OF that] old assms(2,4) by auto
  ultimately show ?thesis using old(2) by (simp add: routes_ok_def list_all_iff)
qed

lemma live_route_in: "live_route db gid rid = Some r \<Longrightarrow>
    r \<in> set (db_routes db) \<and> cr_id r = rid \<and> cr_group r = gid \<and> \<not> cr_deleted r"
  by (auto simp: live_route_def find_Some_iff)

text \<open>Property C31: Every change of the route table keeps it well formed: rows stay valid, IDs stay
  distinct and below the sequence, and no two live routes share group, endpoint, match type and
  model; a change only succeeds for a composite group that exists.\<close>
theorem route_table_invariant:
  assumes "routes_ok db" and "change_route db gid change = Inr (db', r)"
  shows "routes_ok db' \<and> r \<in> set (db_routes db') \<and> cr_group r = gid \<and>
    assoc (db_groups db') gid = Some ''composite''"
proof (cases change)
  case (PostRoute body)
  from assms(2) obtain inp r0 where v: "validate_route inp = Inr r0"
    and req: "require_composite db gid = Inr ()"
    and free: "\<not> taken (db_routes db) r" and r: "r = r0\<lparr>cr_id := db_next db, cr_group := gid\<rparr>"
    and db': "db' = db\<lparr>db_routes := db_routes db @ [r], db_next := db_next db + 1\<rparr>"
    by (auto simp: PostRoute change_route_def Let_def split: sum.splits if_splits)
  have "routes_ok db'"
    unfolding db' by (rule routes_ok_insert) (use assms(1) v free r validate_route_ok in auto)
  with req r db' show ?thesis by (auto simp: require_composite_def check_Inr_iff split: option.splits)
next
  case (PutRoute rid body)
  from assms(2) obtain i inp r0 old where v: "validate_route inp = Inr r0"
    and req: "require_composite db gid = Inr ()" and live: "live_route db gid i = Some old"
    and free: "\<not> taken (db_routes db) r" and r: "r = r0\<lparr>cr_id := i, cr_group := gid\<rparr>"
    and db': "db' = db\<lparr>db_routes := replace_route r (db_routes db)\<rparr>"
    by (auto simp: PutRoute change_route_def Let_def split: sum.splits if_splits option.splits)
  have "routes_ok db'"
    unfolding db' by (rule routes_ok_replace) (use assms(1) v free r live_route_in [OF live] validate_route_ok in auto)
  moreover have "r \<in> set (db_routes db')"
    using live_route_in [OF live] r by (auto simp: db' replace_route_def image_iff)
  ultimately show ?thesis
    using req r db' by (auto simp: require_composite_def check_Inr_iff split: option.splits)
next
  case (DeleteRoute rid)
  from assms(2) obtain i old where req: "require_composite db gid = Inr ()"
    and live: "live_route db gid i = Some old" and r: "r = old\<lparr>cr_deleted := True\<rparr>"
    and db': "db' = db\<lparr>db_routes := replace_route r (db_routes db)\<rparr>"
    by (auto simp: DeleteRoute change_route_def Let_def split: sum.splits if_splits option.splits)
  have "routes_ok db'"
    unfolding db' by (rule routes_ok_replace)
      (use assms(1) r live_route_in [OF live] in \<open>auto simp: routes_ok_def list_all_iff\<close>)
  moreover have "r \<in> set (db_routes db')"
    using live_route_in [OF live] r by (auto simp: db' replace_route_def image_iff)
  ultimately show ?thesis
    using req r live_route_in [OF live] db' by (auto simp: require_composite_def check_Inr_iff split: option.splits)
qed


section \<open>Witnesses\<close>

definition claude_route :: composite_route where
  "claude_route = \<lparr>cr_id = 1, cr_group = 5, cr_public = ''claude-'', cr_match = ''prefix'',
     cr_platform = ''anthropic'', cr_upstream = [], cr_endpoint = ''any'', cr_priority = 100,
     cr_enabled = True, cr_notes = [], cr_deleted = False\<rparr>"

definition opus_route :: composite_route where
  "opus_route = claude_route\<lparr>cr_id := 2, cr_public := ''claude-opus'', cr_match := ''exact'',
     cr_platform := ''openai'', cr_upstream := ''gpt-5''\<rparr>"

definition sample_accounts :: "(string \<times> (string \<times> string) list option) list" where
  "sample_accounts = [(''kimi'', Some [(''house'', ''k3''), (''both'', ''k3'')]),
     (''openai'', Some [(''both'', ''gpt-5'')])]"

definition sample_config :: composite_config where
  "sample_config = \<lparr>cc_routes = [claude_route, opus_route], cc_owners = [(''house'', ''kimi''), (''both'', [])]\<rparr>"

definition opus_decision :: composite_decision where
  "opus_decision = (undecided 5 ''claude-opus'' ''messages'')\<lparr>d_matched := True, d_source := ''route'',
     d_platform := ''openai'', d_upstream := ''gpt-5'', d_route := Some opus_route\<rparr>"

lemma sample_load: "load_composite [claude_route, opus_route] sample_accounts 5 = Inr sample_config"
  by code_simp

theorem composite_order_irrelevant_witness:
  "resolve_composite (sample_config\<lparr>cc_routes := [opus_route, claude_route]\<rparr>) 5 ''claude-opus'' ''messages'' =
   resolve_composite (sample_config\<lparr>cc_routes := [claude_route, opus_route]\<rparr>) 5 ''claude-opus'' ''messages''"
  by (rule composite_order_irrelevant) (auto simp: claude_route_def opus_route_def)

theorem composite_owners_exact_witness: "claimants sample_accounts ''house'' = {''kimi''}"
  using composite_owners_exact [OF sample_load, of "''house''" "''kimi''"]
  by (simp add: sample_config_def)

theorem composite_decision_sound_witness:
  "supported_platform ''openai'' \<and> \<not> better_route ''messages'' claude_route opus_route"
proof -
  have d: "resolve_composite sample_config 5 ''claude-opus'' ''messages'' = opus_decision" "d_matched opus_decision"
    "d_platform opus_decision = ''openai''" "d_route opus_decision = Some opus_route"
    "route_matches ''claude-opus'' ''messages'' claude_route"
    by code_simp+
  have "claude_route \<in> set (cc_routes sample_config)" by (simp add: sample_config_def)
  with composite_decision_sound [OF sample_load d(1,2)] d(3-5) show ?thesis by auto
qed

definition sample_db :: composite_db where
  "sample_db = \<lparr>db_groups = [(5, ''composite'')], db_routes = [claude_route, opus_route],
     db_accounts = [(5, sample_accounts)], db_next = 3\<rparr>"

theorem route_table_invariant_witness:
  "routes_ok (sample_db\<lparr>db_routes := [claude_route\<lparr>cr_deleted := True\<rparr>, opus_route]\<rparr>)"
proof -
  have ok: "routes_ok sample_db" by code_simp
  have run: "change_route sample_db 5 (DeleteRoute (Some 1)) =
    Inr (sample_db\<lparr>db_routes := [claude_route\<lparr>cr_deleted := True\<rparr>, opus_route]\<rparr>, claude_route\<lparr>cr_deleted := True\<rparr>)"
    by code_simp
  from route_table_invariant [OF ok run] show ?thesis by blast
qed

end
