(* ===== verification/Proxies.thy ===== *)
theory Proxies
  imports Prelude
begin

text \<open>
  Outbound proxies and their fallbacks: \<open>internal/app/proxies.go\<close> (validation, \<open>saveProxy\<close>,
  \<open>deleteProxy\<close>) and \<open>internal/app/proxy_fallback.go\<close> (\<open>resolveProxyTarget\<close>, the invalidation of
  measurements, \<open>expireProxies\<close>, \<open>revertProxyFallback\<close>). The state is the two tables the code reads
  and writes, proxies and accounts; every operation runs in one transaction under one advisory lock,
  so an operation is a function on the state and an error leaves the state as it was. Of an
  account's \<open>extra\<close> only the presence of proxy-dependent measurements is kept. Times are Unix
  seconds; \<open>now\<close> is a parameter. Parameters: \<open>resolve_host\<close> for \<open>resolveUpstream\<close> (DNS) and
  \<open>is_ip\<close> for \<open>net.ParseIP\<close>. The idempotency record of a creation is modelled in
  \<open>Idempotency\<close>.
\<close>

record proxy =
  px_id :: int
  px_name :: string
  px_protocol :: string
  px_host :: string
  px_port :: int
  px_username :: "string option"
  px_password :: "string option"
  px_status :: string
  px_expires :: "int option"
  px_mode :: string
  px_backup :: "int option"
  px_warn_days :: int
  px_deleted :: bool

record proxy_account =
  pa_id :: int
  pa_proxy :: "int option"
  pa_origin :: "int option"
  pa_measured :: bool
  pa_deleted :: bool

record proxy_db =
  pd_proxies :: "proxy list"
  pd_accounts :: "proxy_account list"
  pd_search :: "int option list"
  pd_next :: int

definition find_proxy :: "proxy list \<Rightarrow> int \<Rightarrow> proxy option" where
  "find_proxy ps i = find (\<lambda>p. px_id p = i \<and> \<not> px_deleted p) ps"


section \<open>Resolution\<close>

definition usable :: "int \<Rightarrow> proxy \<Rightarrow> bool" where
  "usable now p \<longleftrightarrow> px_status p = ''active'' \<and>
     (case px_expires p of None \<Rightarrow> True | Some e \<Rightarrow> now < e)"

text \<open>The loop: \<open>seen\<close> holds the proxies visited so far, at most nine.\<close>

function resolve_from :: "proxy list \<Rightarrow> int \<Rightarrow> int list \<Rightarrow> int \<Rightarrow> proxy option result" where
  "resolve_from ps now seen i =
     (if 9 \<le> length seen then Inl (bad ''proxy fallback chain is too long'')
      else if List.member seen i then Inl (bad ''proxy fallback cycle'')
      else (case find_proxy ps i of
         None \<Rightarrow> Inl (bad ''proxy is unavailable'')
       | Some p \<Rightarrow>
           (if seen = [] \<and> px_status p \<noteq> ''active'' \<and> px_status p \<noteq> ''expired''
              then Inl (bad ''proxy is inactive'')
            else if usable now p then Inr (Some p)
            else if px_mode p = ''direct'' then Inr None
            else if px_mode p = ''proxy'' then
              (case px_backup p of
                 Some b \<Rightarrow> resolve_from ps now (i # seen) b
               | None \<Rightarrow> Inl (bad ''proxy fallback is unavailable''))
            else Inl (bad ''proxy fallback is unavailable''))))"
  by pat_completeness auto
termination
  by (relation "measure (\<lambda>(ps, now, seen, i). 9 - length seen)") auto

declare resolve_from.simps [simp del]

definition resolve_proxy :: "proxy list \<Rightarrow> int \<Rightarrow> int \<Rightarrow> proxy option result" where
  "resolve_proxy ps i now = resolve_from ps now [] i"


section \<open>Invalidation of measurements\<close>

text \<open>The recursive query: the proxy, and every live proxy whose backup is affected.\<close>

definition dependents :: "proxy list \<Rightarrow> int list \<Rightarrow> int list" where
  "dependents ps ids = remdups (map px_id (filter (\<lambda>p. \<not> px_deleted p \<and> px_id p \<notin> set ids \<and>
     (case px_backup p of None \<Rightarrow> False | Some b \<Rightarrow> b \<in> set ids)) ps))"

lemma dependents_new: "i \<in> set (dependents ps ids) \<Longrightarrow> i \<notin> set ids \<and> i \<in> px_id ` set ps"
  by (auto simp: dependents_def)

function affected :: "proxy list \<Rightarrow> int list \<Rightarrow> int list" where
  "affected ps ids = (if dependents ps ids = [] then ids else affected ps (ids @ dependents ps ids))"
  by pat_completeness auto
termination
proof (relation "measure (\<lambda>(ps, ids). card (px_id ` set ps - set ids))")
  fix ps ids assume "dependents ps ids \<noteq> []"
  then obtain i where i: "i \<in> set (dependents ps ids)" by (cases "dependents ps ids") auto
  then have "px_id ` set ps - set (ids @ dependents ps ids) \<subset> px_id ` set ps - set ids"
    using dependents_new [OF i] by auto
  then have "card (px_id ` set ps - set (ids @ dependents ps ids)) < card (px_id ` set ps - set ids)"
    by (intro psubset_card_mono) auto
  then show "((ps, ids @ dependents ps ids), ps, ids)
      \<in> measure (\<lambda>(ps, ids). card (px_id ` set ps - set ids))" by simp
qed simp

declare affected.simps [simp del]

definition invalidate :: "proxy_db \<Rightarrow> int \<Rightarrow> proxy_db" where
  "invalidate db i = (let ids = affected (pd_proxies db) [i] in
     db\<lparr>pd_accounts := map (\<lambda>a.
       if \<not> pa_deleted a \<and> (case pa_proxy a of None \<Rightarrow> False | Some p \<Rightarrow> p \<in> set ids)
       then a\<lparr>pa_measured := False\<rparr> else a) (pd_accounts db)\<rparr>)"


section \<open>Creating and updating\<close>

datatype nullable_int = NotGiven | Given "int option"

record proxy_input =
  pi_name :: "string option"
  pi_protocol :: "string option"
  pi_host :: "string option"
  pi_port :: "int option"
  pi_username :: "string option"
  pi_password :: "string option"
  pi_status :: "string option"
  pi_expires :: nullable_int
  pi_fallback :: "string option"
  pi_backup :: nullable_int
  pi_warn_days :: "int option"

definition opt_all :: "('a \<Rightarrow> bool) \<Rightarrow> 'a option \<Rightarrow> bool" where
  "opt_all P x = (case x of None \<Rightarrow> True | Some a \<Rightarrow> P a)"

definition nullable_all :: "(int \<Rightarrow> bool) \<Rightarrow> nullable_int \<Rightarrow> bool" where
  "nullable_all P n = (case n of Given (Some v) \<Rightarrow> P v | _ \<Rightarrow> True)"

definition valid_proxy_host :: "(string \<Rightarrow> bool) \<Rightarrow> string \<Rightarrow> bool" where
  "valid_proxy_host is_ip h \<longleftrightarrow> length h \<le> 255 \<and>
     \<not> contains_any h [CHR ''/'', CHR ''@'', CHR ''?'', CHR ''#'', CHR 0x5C, CHR 0x0D, CHR 0x0A, CHR '' ''] \<and>
     h \<noteq> [] \<and> (\<not> contains h '':'' \<or> is_ip h)"

definition valid_proxy_credential :: "string \<Rightarrow> bool" where
  "valid_proxy_credential v \<longleftrightarrow> rune_count v \<le> 100 \<and> \<not> contains_any v [CHR 0x0D, CHR 0x0A]"

definition validate_proxy :: "(string \<Rightarrow> bool) \<Rightarrow> bool \<Rightarrow> proxy_input \<Rightarrow> unit result" where
  "validate_proxy is_ip create inp =
     (if create \<and> (pi_name inp = None \<or> pi_protocol inp = None \<or> pi_host inp = None \<or> pi_port inp = None)
        then Inl (bad ''name, protocol, host and port are required'')
      else if \<not> opt_all (\<lambda>n. trim_space n \<noteq> [] \<and> rune_count n \<le> 100) (pi_name inp)
        then Inl (bad ''invalid proxy name'')
      else if \<not> opt_all (List.member [''http'', ''https'', ''socks5'', ''socks5h'']) (pi_protocol inp)
        then Inl (bad ''invalid proxy protocol'')
      else if \<not> opt_all (valid_proxy_host is_ip) (pi_host inp) then Inl (bad ''invalid proxy host'')
      else if \<not> opt_all (\<lambda>p. 1 \<le> p \<and> p \<le> 65535) (pi_port inp) then Inl (bad ''invalid proxy port'')
      else if \<not> opt_all valid_proxy_credential (pi_username inp) \<or> \<not> opt_all valid_proxy_credential (pi_password inp)
        then Inl (bad ''invalid proxy credentials'')
      else if \<not> opt_all (List.member [''active'', ''inactive'']) (pi_status inp)
        then Inl (bad ''invalid proxy status'')
      else if \<not> opt_all (List.member [''none'', ''direct'', ''proxy'']) (pi_fallback inp)
        then Inl (bad ''invalid fallback_mode'')
      else if \<not> nullable_all (\<lambda>v. 0 \<le> v \<and> v \<le> 253402300799) (pi_expires inp)
        then Inl (bad ''invalid expires_at'')
      else if \<not> nullable_all (\<lambda>v. 0 < v) (pi_backup inp) then Inl (bad ''invalid backup_proxy_id'')
      else check (opt_all (\<lambda>d. 0 \<le> d \<and> d \<le> 3650) (pi_warn_days inp)) (bad ''invalid expiry_warn_days''))"

text \<open>The check of a backup chain against cycles and excessive length.\<close>

function backup_chain :: "proxy list \<Rightarrow> int list \<Rightarrow> int option \<Rightarrow> unit result" where
  "backup_chain ps seen next = (case next of
     None \<Rightarrow> Inr ()
   | Some n \<Rightarrow>
       (if List.member seen n \<or> 8 < length seen
        then Inl (bad ''proxy fallback cycle or excessive chain'')
        else (case find_proxy ps n of
           None \<Rightarrow> Inl (bad ''backup proxy does not exist'')
         | Some q \<Rightarrow> if px_mode q \<noteq> ''proxy'' then Inr () else backup_chain ps (n # seen) (px_backup q))))"
  by pat_completeness auto
termination
  by (relation "measure (\<lambda>(ps, seen, next). 9 - length seen)") auto

declare backup_chain.simps [simp del]

definition or_old :: "'a \<Rightarrow> 'a option \<Rightarrow> 'a" where
  "or_old old x = (case x of None \<Rightarrow> old | Some a \<Rightarrow> a)"

definition stored_expiry :: "int option \<Rightarrow> nullable_int \<Rightarrow> int option" where
  "stored_expiry old n = (case n of
     NotGiven \<Rightarrow> old | Given None \<Rightarrow> None | Given (Some v) \<Rightarrow> if 0 < v then Some v else None)"

definition stored_backup :: "int option \<Rightarrow> nullable_int \<Rightarrow> int option" where
  "stored_backup old n = (case n of NotGiven \<Rightarrow> old | Given v \<Rightarrow> v)"

text \<open>The given fields over an existing row, or over the defaults of the table.\<close>

definition merge_proxy :: "proxy_input \<Rightarrow> proxy \<Rightarrow> proxy" where
  "merge_proxy inp p = p\<lparr>
     px_name := or_old (px_name p) (pi_name inp),
     px_protocol := or_old (px_protocol p) (pi_protocol inp),
     px_host := or_old (px_host p) (pi_host inp),
     px_port := or_old (px_port p) (pi_port inp),
     px_username := (case pi_username inp of None \<Rightarrow> px_username p | Some v \<Rightarrow> Some v),
     px_password := (case pi_password inp of None \<Rightarrow> px_password p | Some v \<Rightarrow> Some v),
     px_status := or_old (px_status p) (pi_status inp),
     px_expires := stored_expiry (px_expires p) (pi_expires inp),
     px_mode := or_old (px_mode p) (pi_fallback inp),
     px_backup := stored_backup (px_backup p) (pi_backup inp),
     px_warn_days := or_old (px_warn_days p) (pi_warn_days inp)\<rparr>"

definition new_proxy :: "int \<Rightarrow> proxy" where
  "new_proxy i = \<lparr>px_id = i, px_name = [], px_protocol = [], px_host = [], px_port = 0,
     px_username = None, px_password = None, px_status = ''active'', px_expires = None,
     px_mode = ''none'', px_backup = None, px_warn_days = 7, px_deleted = False\<rparr>"

definition replace_proxy :: "proxy \<Rightarrow> proxy list \<Rightarrow> proxy list" where
  "replace_proxy p ps = map (\<lambda>q. if px_id q = px_id p \<and> \<not> px_deleted q then p else q) ps"

definition save_proxy ::
  "(string \<Rightarrow> bool) \<Rightarrow> (string \<Rightarrow> unit result) \<Rightarrow> proxy_db \<Rightarrow> int option \<Rightarrow> proxy_input \<Rightarrow> proxy_db result" where
  "save_proxy is_ip resolve_host db target inp =
     and_then (validate_proxy is_ip (target = None) inp) (\<lambda>_.
     and_then (case pi_host inp of None \<Rightarrow> Inr () | Some h \<Rightarrow> resolve_host h) (\<lambda>_.
     and_then (case target of
         None \<Rightarrow> Inr (new_proxy (pd_next db))
       | Some i \<Rightarrow> (case find_proxy (pd_proxies db) i of None \<Rightarrow> Inl missing | Some p \<Rightarrow> Inr p)) (\<lambda>old.
       (let p = merge_proxy inp old; self = (case target of None \<Rightarrow> 0 | Some i \<Rightarrow> i) in
        if px_mode p = ''proxy'' \<and> px_backup p = None
          then Inl (bad ''proxy fallback requires backup_proxy_id'')
        else and_then (backup_chain (pd_proxies db) [self] (px_backup p)) (\<lambda>_.
          (case target of
             None \<Rightarrow> Inr (db\<lparr>pd_proxies := pd_proxies db @ [p], pd_next := pd_next db + 1\<rparr>)
           | Some i \<Rightarrow> Inr (invalidate (db\<lparr>pd_proxies := replace_proxy p (pd_proxies db)\<rparr>) i)))))))"

definition delete_proxy :: "proxy_db \<Rightarrow> int \<Rightarrow> proxy_db result" where
  "delete_proxy db i =
     (if list_ex (\<lambda>a. \<not> pa_deleted a \<and> (pa_proxy a = Some i \<or> pa_origin a = Some i)) (pd_accounts db) \<or>
         list_ex (\<lambda>p. \<not> px_deleted p \<and> px_backup p = Some i) (pd_proxies db)
        then Inl (conflict ''proxy is referenced by an account or fallback'')
      else if List.member (pd_search db) (Some i)
        then Inl (conflict ''proxy is referenced by a search provider'')
      else (case find_proxy (pd_proxies db) i of
              None \<Rightarrow> Inl missing
            | Some p \<Rightarrow> Inr (db\<lparr>pd_proxies :=
                replace_proxy (p\<lparr>px_deleted := True, px_status := ''inactive''\<rparr>) (pd_proxies db)\<rparr>)))"


section \<open>Expiry and revert\<close>

definition due :: "proxy_db \<Rightarrow> int \<Rightarrow> int list" where
  "due db now = take 100 (map px_id (sort_key (\<lambda>p. case px_expires p of None \<Rightarrow> 0 | Some e \<Rightarrow> e)
     (sort_key px_id (filter (\<lambda>p. \<not> px_deleted p \<and> px_status p = ''active'' \<and>
        (case px_expires p of None \<Rightarrow> False | Some e \<Rightarrow> e \<le> now)) (pd_proxies db)))))"

definition mark_expired :: "int \<Rightarrow> proxy list \<Rightarrow> proxy list" where
  "mark_expired i ps = map (\<lambda>p. if px_id p = i then p\<lparr>px_status := ''expired''\<rparr> else p) ps"

definition move_account :: "int \<Rightarrow> int option \<Rightarrow> proxy_account \<Rightarrow> proxy_account" where
  "move_account i target a =
     (if pa_proxy a = Some i \<and> \<not> pa_deleted a
      then a\<lparr>pa_proxy := target, pa_origin := (case pa_origin a of None \<Rightarrow> Some i | Some old \<Rightarrow> Some old),
             pa_measured := False\<rparr>
      else a)"

definition expire_one :: "int \<Rightarrow> proxy_db \<Rightarrow> int \<Rightarrow> proxy_db" where
  "expire_one now db i =
     (let target = resolve_proxy (pd_proxies db) i now;
          db = invalidate (db\<lparr>pd_proxies := mark_expired i (pd_proxies db)\<rparr>) i
      in case target of
           Inl _ \<Rightarrow> db
         | Inr t \<Rightarrow> db\<lparr>pd_accounts := map (move_account i (map_option px_id t)) (pd_accounts db)\<rparr>)"

definition expire_proxies :: "proxy_db \<Rightarrow> int \<Rightarrow> proxy_db" where
  "expire_proxies db now = foldl (expire_one now) db (due db now)"

definition revert_proxy_fallback :: "proxy_db \<Rightarrow> int \<Rightarrow> int \<Rightarrow> proxy_db result" where
  "revert_proxy_fallback db account now =
     (case find (\<lambda>a. pa_id a = account \<and> \<not> pa_deleted a) (pd_accounts db) of
        None \<Rightarrow> Inl missing
      | Some a \<Rightarrow> (case pa_origin a of
          None \<Rightarrow> Inl (conflict ''account is not using a proxy fallback'')
        | Some origin \<Rightarrow>
            (if \<not> list_ex (\<lambda>p. px_id p = origin \<and> \<not> px_deleted p \<and> usable now p) (pd_proxies db)
             then Inl (conflict ''renew and activate the original proxy before reverting'')
             else Inr (db\<lparr>pd_accounts := map (\<lambda>b. if pa_id b = account
               then b\<lparr>pa_proxy := pa_origin b, pa_origin := None, pa_measured := False\<rparr> else b)
               (pd_accounts db)\<rparr>))))"

end
