(* ===== verification/Proxy_Facts.thy ===== *)
theory Proxy_Facts
  imports Proxies
begin

text \<open>
  Guarantees of proxy fallback: the graph of fallbacks that are followed stays acyclic under every
  edit, so resolution never runs into a cycle and ends in a usable proxy, a direct connection or a
  refusal; an edit clears the measurements of every account that could have used the proxy; and the
  expiry worker, which treats due proxies one after the other, moves each account once, as if it
  had treated them all at the same time.
\<close>

section \<open>The fallback graph\<close>

definition fallback_edges :: "proxy list \<Rightarrow> (int \<times> int) set" where
  "fallback_edges ps = {(px_id p, b) |p b. p \<in> set ps \<and> \<not> px_deleted p \<and> px_mode p = ''proxy'' \<and>
     px_backup p = Some b}"

definition backup_edges :: "proxy list \<Rightarrow> (int \<times> int) set" where
  "backup_edges ps = {(px_id p, b) |p b. p \<in> set ps \<and> \<not> px_deleted p \<and> px_backup p = Some b}"

definition proxies_ok :: "proxy_db \<Rightarrow> bool" where
  "proxies_ok db \<longleftrightarrow> distinct (map px_id (pd_proxies db)) \<and>
     (\<forall>p \<in> set (pd_proxies db). 0 < px_id p \<and> px_id p < pd_next db) \<and> 0 < pd_next db \<and>
     (\<forall>p \<in> set (pd_proxies db). \<forall>b. px_backup p = Some b \<longrightarrow> b \<in> px_id ` set (pd_proxies db)) \<and>
     acyclic (fallback_edges (pd_proxies db))"

lemma fallback_sub_backup: "fallback_edges ps \<subseteq> backup_edges ps"
  by (auto simp: fallback_edges_def backup_edges_def)

lemma find_proxy_Some:
  "find_proxy ps i = Some p \<Longrightarrow> p \<in> set ps \<and> \<not> px_deleted p \<and> px_id p = i"
  by (auto simp: find_proxy_def find_Some_iff)

lemma find_proxy_in:
  assumes "distinct (map px_id ps)" "p \<in> set ps" "\<not> px_deleted p"
  shows "find_proxy ps (px_id p) = Some p"
  unfolding find_proxy_def
  by (rule find_unique) (use assms in \<open>auto simp: distinct_map inj_on_def\<close>)

lemma backup_chain_first: "backup_chain ps seen (Some n) = Inr u \<Longrightarrow> \<exists>q. find_proxy ps n = Some q"
  by (subst (asm) backup_chain.simps) (auto split: if_splits option.splits)

text \<open>A chain that passes the check never comes back to a proxy it has seen.\<close>

lemma backup_chain_avoids:
  assumes "backup_chain ps seen next = Inr ()" and "distinct (map px_id ps)"
    and "i \<in> set seen" and "next = Some n"
  shows "(n, i) \<notin> (fallback_edges ps)\<^sup>*"
  using assms
proof (induction ps seen "next" arbitrary: n rule: backup_chain.induct)
  case (1 ps seen "next")
  show ?case
  proof
    assume path: "(n, i) \<in> (fallback_edges ps)\<^sup>*"
    have nseen: "\<not> (List.member seen n \<or> 8 < length seen)"
      using "1.prems" by (subst (asm) backup_chain.simps) (auto split: if_splits)
    from path show False
    proof (cases rule: converse_rtranclE)
      case base
      then show ?thesis using nseen "1.prems"(3) by simp
    next
      case (step m)
      then obtain q where q: "q \<in> set ps" "\<not> px_deleted q" "px_id q = n" "px_mode q = ''proxy''"
        "px_backup q = Some m"
        by (auto simp: fallback_edges_def)
      then have fq: "find_proxy ps n = Some q" using find_proxy_in "1.prems"(2) by blast
      have "backup_chain ps (n # seen) (px_backup q) = Inr ()"
        using "1.prems"(1,4) nseen fq q(4) by (subst (asm) backup_chain.simps) auto
      then have "(m, i) \<notin> (fallback_edges ps)\<^sup>*"
        using "1.IH" [OF "1.prems"(4) nseen fq _ _ "1.prems"(2) _ q(5)] q(4) "1.prems"(3) by simp
      with step show ?thesis by simp
    qed
  qed
qed

lemma merge_proxy_id [simp]: "px_id (merge_proxy inp p) = px_id p" "px_deleted (merge_proxy inp p) = px_deleted p"
  by (simp_all add: merge_proxy_def)

lemma replace_proxy_ids [simp]: "map px_id (replace_proxy p ps) = map px_id ps"
  by (simp add: replace_proxy_def)

lemma replace_proxy_set: "q \<in> set (replace_proxy p ps) \<Longrightarrow> q = p \<or> q \<in> set ps \<and> (px_id q \<noteq> px_id p \<or> px_deleted q)"
  by (auto simp: replace_proxy_def split: if_splits)

lemma image_replace_ids: "px_id ` set (replace_proxy p ps) = px_id ` set ps"
  by (metis list.set_map replace_proxy_ids)

text \<open>Replacing a row by one whose own edge does not close a cycle.\<close>

lemma acyclic_replace:
  assumes "acyclic (fallback_edges ps)"
    and new: "\<And>b. px_mode p = ''proxy'' \<Longrightarrow> px_backup p = Some b \<Longrightarrow> (b, px_id p) \<notin> (fallback_edges ps)\<^sup>*"
    and sub: "\<And>q. q \<in> set ps' \<Longrightarrow> q = p \<or> q \<in> set ps"
  shows "acyclic (fallback_edges ps')"
proof -
  have sub_edges: "fallback_edges ps' \<subseteq> fallback_edges ps \<union>
      {(px_id p, b) |b. px_mode p = ''proxy'' \<and> px_backup p = Some b}"
    using sub by (fastforce simp: fallback_edges_def)
  show ?thesis
  proof (cases "px_mode p = ''proxy'' \<and> px_backup p \<noteq> None")
    case True
    then obtain b where b: "px_mode p = ''proxy''" "px_backup p = Some b" by auto
    then have "fallback_edges ps' \<subseteq> insert (px_id p, b) (fallback_edges ps)" using sub_edges by auto
    moreover have "acyclic (insert (px_id p, b) (fallback_edges ps))"
      using assms(1) new [OF b] by (simp add: acyclic_insert)
    ultimately show ?thesis by (rule acyclic_subset [rotated])
  next
    case False
    then have "fallback_edges ps' \<subseteq> fallback_edges ps" using sub_edges by auto
    then show ?thesis using assms(1) acyclic_subset by blast
  qed
qed

lemma pd_invalidate [simp]: "pd_proxies (invalidate db i) = pd_proxies db" "pd_next (invalidate db i) = pd_next db"
  by (simp_all add: invalidate_def Let_def)

lemma proxies_ok_cong:
  "pd_proxies db' = pd_proxies db \<Longrightarrow> pd_next db' = pd_next db \<Longrightarrow> proxies_ok db' = proxies_ok db"
  by (simp add: proxies_ok_def)

lemma save_proxy_cases:
  assumes "save_proxy is_ip resolve_host db target inp = Inr db'"
  obtains (create) p where "target = None" "p = merge_proxy inp (new_proxy (pd_next db))"
      "backup_chain (pd_proxies db) [0] (px_backup p) = Inr ()"
      "db' = db\<lparr>pd_proxies := pd_proxies db @ [p], pd_next := pd_next db + 1\<rparr>"
    | (update) i old p where "target = Some i" "find_proxy (pd_proxies db) i = Some old"
      "p = merge_proxy inp old" "backup_chain (pd_proxies db) [i] (px_backup p) = Inr ()"
      "db' = invalidate (db\<lparr>pd_proxies := replace_proxy p (pd_proxies db)\<rparr>) i"
  using assms
  by (cases target) (auto simp: save_proxy_def Let_def split: sum.splits if_splits option.splits)

lemma save_proxy_ok:
  assumes "proxies_ok db" and "save_proxy is_ip resolve_host db target inp = Inr db'"
  shows "proxies_ok db'"
proof -
  have dist: "distinct (map px_id (pd_proxies db))"
    and ids: "\<forall>p \<in> set (pd_proxies db). 0 < px_id p \<and> px_id p < pd_next db" "0 < pd_next db"
    and fk: "\<forall>p \<in> set (pd_proxies db). \<forall>b. px_backup p = Some b \<longrightarrow> b \<in> px_id ` set (pd_proxies db)"
    and acyc: "acyclic (fallback_edges (pd_proxies db))"
    using assms(1) by (auto simp: proxies_ok_def)
  from assms(2) show ?thesis
  proof (cases rule: save_proxy_cases)
    case (create p)
    have pid: "px_id p = pd_next db" by (simp add: create(2) new_proxy_def)
    have backup: "b \<in> px_id ` set (pd_proxies db)" if "px_backup p = Some b" for b
      using backup_chain_first create(3) that find_proxy_Some by fastforce
    have "acyclic (fallback_edges (pd_proxies db @ [p]))"
    proof (rule acyclic_replace [OF acyc])
      fix b assume "px_backup p = Some b"
      then have b: "b \<noteq> pd_next db" using backup ids(1) by fastforce
      show "(b, px_id p) \<notin> (fallback_edges (pd_proxies db))\<^sup>*"
      proof
        assume "(b, px_id p) \<in> (fallback_edges (pd_proxies db))\<^sup>*"
        then obtain m where "(m, px_id p) \<in> fallback_edges (pd_proxies db)"
          using b pid by (auto elim: rtranclE)
        then have "pd_next db \<in> px_id ` set (pd_proxies db)"
          using fk pid by (auto simp: fallback_edges_def)
        then show False using ids(1) by fastforce
      qed
    qed auto
    then show ?thesis
      using dist ids fk backup pid by (fastforce simp: create(4) proxies_ok_def)
  next
    case (update i old p)
    have old: "old \<in> set (pd_proxies db)" "\<not> px_deleted old" "px_id old = i"
      using find_proxy_Some [OF update(2)] by auto
    have pid: "px_id p = i" using old by (simp add: update(3))
    have backup: "b \<in> px_id ` set (pd_proxies db)" if "px_backup p = Some b" for b
      using backup_chain_first update(4) that find_proxy_Some by fastforce
    have acyc': "acyclic (fallback_edges (replace_proxy p (pd_proxies db)))"
    proof (rule acyclic_replace [OF acyc])
      fix b assume "px_backup p = Some b"
      then show "(b, px_id p) \<notin> (fallback_edges (pd_proxies db))\<^sup>*"
        using backup_chain_avoids [OF update(4) dist] pid by simp
    qed (use replace_proxy_set in blast)
    have "0 < px_id q \<and> px_id q < pd_next db" if "q \<in> set (replace_proxy p (pd_proxies db))" for q
      using replace_proxy_set [OF that] ids(1) old pid by auto
    moreover have "b \<in> px_id ` set (pd_proxies db)"
      if "q \<in> set (replace_proxy p (pd_proxies db))" "px_backup q = Some b" for q b
      using replace_proxy_set [OF that(1)] fk backup that(2) by auto
    ultimately show ?thesis
      using dist ids(2) acyc' by (simp add: update(5) proxies_ok_def image_replace_ids)
  qed
qed

lemma delete_proxy_ok:
  assumes "proxies_ok db" and "delete_proxy db i = Inr db'"
  shows "proxies_ok db'"
proof -
  from assms(2) obtain p where p: "find_proxy (pd_proxies db) i = Some p"
    and db': "db' = db\<lparr>pd_proxies :=
      replace_proxy (p\<lparr>px_deleted := True, px_status := ''inactive''\<rparr>) (pd_proxies db)\<rparr>"
    by (auto simp: delete_proxy_def split: if_splits option.splits)
  let ?d = "p\<lparr>px_deleted := True, px_status := ''inactive''\<rparr>"
  note pin = find_proxy_Some [OF p]
  have "fallback_edges (replace_proxy ?d (pd_proxies db)) \<subseteq> fallback_edges (pd_proxies db)"
    using replace_proxy_set by (fastforce simp: fallback_edges_def)
  then have acyc: "acyclic (fallback_edges (replace_proxy ?d (pd_proxies db)))"
    using assms(1) acyclic_subset by (auto simp: proxies_ok_def)
  have ids: "0 < px_id q \<and> px_id q < pd_next db" "px_backup q = Some b \<Longrightarrow> b \<in> px_id ` set (pd_proxies db)"
    if "q \<in> set (replace_proxy ?d (pd_proxies db))" for q b
    using replace_proxy_set [OF that] pin assms(1) by (auto simp: proxies_ok_def)
  then show ?thesis
    using assms(1) acyc by (simp add: proxies_ok_def db' image_replace_ids)
qed

text \<open>Property C32: Editing proxies keeps the fallback graph well formed: whatever sequence of
  creations, updates and deletions succeeds, no chain of followed fallbacks is a cycle, every
  backup refers to an existing row, and IDs stay distinct.\<close>
theorem proxy_graph_invariant:
  assumes "proxies_ok db"
    and "save_proxy is_ip resolve_host db target inp = Inr db' \<or> delete_proxy db i = Inr db'"
  shows "proxies_ok db'"
  using assms save_proxy_ok delete_proxy_ok by blast


section \<open>Resolution\<close>

lemma resolve_no_cycle:
  assumes "acyclic (fallback_edges ps)" and "\<forall>s \<in> set seen. (s, i) \<in> (fallback_edges ps)\<^sup>+"
  shows "resolve_from ps now seen i \<noteq> Inl (bad ''proxy fallback cycle'')"
  using assms
proof (induction ps now seen i rule: resolve_from.induct)
  case (1 ps now seen i)
  have "i \<notin> set seen" using "1.prems" by (auto simp: acyclic_def)
  moreover have "resolve_from ps now (i # seen) b \<noteq> Inl (bad ''proxy fallback cycle'')"
    if step: "\<not> 9 \<le> length seen" "find_proxy ps i = Some p"
      "\<not> (seen = [] \<and> px_status p \<noteq> ''active'' \<and> px_status p \<noteq> ''expired'')"
      "\<not> usable now p" "px_mode p \<noteq> ''direct''" "px_mode p = ''proxy''" "px_backup p = Some b" for p b
  proof -
    have edge: "(i, b) \<in> fallback_edges ps"
      using find_proxy_Some [OF step(2)] step(6,7) by (auto simp: fallback_edges_def)
    then have "\<forall>s \<in> set (i # seen). (s, b) \<in> (fallback_edges ps)\<^sup>+"
      using "1.prems"(2) by (auto intro: trancl.trancl_into_trancl)
    then show ?thesis
      using "1.IH" step \<open>i \<notin> set seen\<close> "1.prems"(1) by simp
  qed
  ultimately show ?case
    by (subst resolve_from.simps) (auto simp: bad_def split: option.splits)
qed

lemma resolve_usable:
  "resolve_from ps now seen i = Inr (Some p) \<Longrightarrow>
   p \<in> set ps \<and> \<not> px_deleted p \<and> usable now p \<and> (i, px_id p) \<in> (fallback_edges ps)\<^sup>*"
proof (induction ps now seen i rule: resolve_from.induct)
  case (1 ps now seen i)
  from "1.prems" obtain q where q: "find_proxy ps i = Some q" "\<not> 9 \<le> length seen" "\<not> List.member seen i"
    and root: "\<not> (seen = [] \<and> px_status q \<noteq> ''active'' \<and> px_status q \<noteq> ''expired'')"
    by (subst (asm) resolve_from.simps) (auto split: if_splits option.splits)
  show ?case
  proof (cases "usable now q")
    case True
    then have "p = q" using "1.prems" q root by (subst (asm) resolve_from.simps) auto
    then show ?thesis using find_proxy_Some [OF q(1)] True by auto
  next
    case False
    then obtain b where b: "px_mode q = ''proxy''" "px_backup q = Some b"
        "resolve_from ps now (i # seen) b = Inr (Some p)"
      using "1.prems" q root by (subst (asm) resolve_from.simps) (auto split: if_splits option.splits)
    have "(i, b) \<in> fallback_edges ps"
      using find_proxy_Some [OF q(1)] b by (auto simp: fallback_edges_def)
    moreover have "p \<in> set ps \<and> \<not> px_deleted p \<and> usable now p \<and> (b, px_id p) \<in> (fallback_edges ps)\<^sup>*"
      using "1.IH" [OF q(2,3,1) root False _ b(1,2) b(3)] b(1) by simp
    ultimately show ?thesis by (auto intro: converse_rtrancl_into_rtrancl)
  qed
qed

text \<open>Property C33: On a well-formed table resolution never reports a cycle, and a proxy it returns
  is live, active, not expired and reachable by the configured fallbacks.\<close>
theorem resolve_proxy_sound:
  assumes "proxies_ok db"
  shows "(case resolve_proxy (pd_proxies db) i now of
      Inl e \<Rightarrow> e \<noteq> bad ''proxy fallback cycle'' \<and> failure_status e = 400
    | Inr None \<Rightarrow> \<exists>p \<in> set (pd_proxies db). px_mode p = ''direct'' \<and> \<not> usable now p
    | Inr (Some p) \<Rightarrow> p \<in> set (pd_proxies db) \<and> \<not> px_deleted p \<and> usable now p \<and>
        (i, px_id p) \<in> (fallback_edges (pd_proxies db))\<^sup>*)"
proof -
  have status: "resolve_from ps now seen j = Inl e \<Longrightarrow> failure_status e = 400" for ps seen j e
    by (induction ps now seen j rule: resolve_from.induct)
      (subst (asm) (2) resolve_from.simps, auto simp: bad_def split: if_splits option.splits)
  have direct: "resolve_from ps now seen j = Inr None \<Longrightarrow> \<exists>p \<in> set ps. px_mode p = ''direct'' \<and> \<not> usable now p"
    for ps seen j
  proof (induction ps now seen j rule: resolve_from.induct)
    case (1 ps now seen i)
    show ?case
      using "1.prems" "1.IH" find_proxy_Some
      by (subst (asm) resolve_from.simps) (fastforce split: if_splits option.splits)
  qed
  have "resolve_proxy (pd_proxies db) i now \<noteq> Inl (bad ''proxy fallback cycle'')"
    using resolve_no_cycle assms by (auto simp: resolve_proxy_def proxies_ok_def)
  then show ?thesis
    using resolve_usable status direct
    by (auto simp: resolve_proxy_def split: sum.splits option.splits)
qed


section \<open>Measurements\<close>

lemma dependents_iff: "i \<in> set (dependents ps ids) \<longleftrightarrow> i \<notin> set ids \<and> (\<exists>b \<in> set ids. (i, b) \<in> backup_edges ps)"
  by (auto simp: dependents_def backup_edges_def split: option.splits)

lemma affected_closed:
  "set ids \<subseteq> set (affected ps ids) \<and> (\<forall>b \<in> set (affected ps ids). \<forall>i. (i, b) \<in> backup_edges ps \<longrightarrow> i \<in> set (affected ps ids))"
proof (induction ps ids rule: affected.induct)
  case (1 ps ids)
  show ?case
  proof (cases "dependents ps ids = []")
    case True
    then have none: "i \<notin> set (dependents ps ids)" for i by simp
    show ?thesis using none [unfolded dependents_iff] True by (auto simp: affected.simps [of ps ids])
  next
    case False
    then show ?thesis using "1.IH" by (simp add: affected.simps [of ps ids])
  qed
qed

text \<open>Every proxy that reaches the changed one by backups is affected.\<close>

lemma affected_reaches: "(j, i) \<in> (backup_edges ps)\<^sup>* \<Longrightarrow> j \<in> set (affected ps [i])"
proof (induction rule: converse_rtrancl_induct)
  case base
  show ?case using affected_closed [of "[i]" ps] by simp
next
  case (step j k)
  then show ?case using affected_closed [of "[i]" ps] by blast
qed

text \<open>After an update of a proxy no live account whose proxy can reach the updated one
  by backups, followed or not, keeps measurements taken through it.\<close>

lemma update_clears_measurements:
  assumes "save_proxy is_ip resolve_host db (Some i) inp = Inr db'"
    and "a \<in> set (pd_accounts db')" and "\<not> pa_deleted a"
    and "pa_proxy a = Some j" and "(j, i) \<in> (backup_edges (pd_proxies db'))\<^sup>*"
  shows "\<not> pa_measured a"
  using assms(1)
proof (cases rule: save_proxy_cases)
  case (update k old p)
  let ?db = "db\<lparr>pd_proxies := replace_proxy p (pd_proxies db)\<rparr>"
  have db': "db' = invalidate ?db i" using update(1,5) by simp
  have "j \<in> set (affected (pd_proxies ?db) [i])"
    by (rule affected_reaches) (use assms(5) db' in simp)
  then show ?thesis
    using assms(2,3,4) by (auto simp: db' invalidate_def Let_def split: if_splits)
qed simp


section \<open>Expiry\<close>

lemma mark_expired_ids [simp]: "map px_id (mark_expired d ps) = map px_id ps"
  by (simp add: mark_expired_def)

lemma find_mark_expired:
  "find_proxy (mark_expired d ps) i =
     map_option (\<lambda>p. if i = d then p\<lparr>px_status := ''expired''\<rparr> else p) (find_proxy ps i)"
proof (induction ps)
  case Nil
  then show ?case by (simp add: find_proxy_def mark_expired_def)
next
  case (Cons p ps)
  then show ?case by (auto simp: find_proxy_def mark_expired_def)
qed

definition out_of_use :: "int \<Rightarrow> proxy list \<Rightarrow> int \<Rightarrow> bool" where
  "out_of_use now ps d \<longleftrightarrow> (\<forall>p \<in> set ps. px_id p = d \<longrightarrow> \<not> usable now p \<and>
     (px_status p = ''active'' \<or> px_status p = ''expired''))"

text \<open>Marking a proxy that is out of use does not change what any other request resolves to.\<close>

lemma resolve_mark_expired:
  assumes "out_of_use now ps d"
  shows "resolve_from (mark_expired d ps) now seen i = resolve_from ps now seen i"
  using assms
proof (induction ps now seen i rule: resolve_from.induct)
  case (1 ps now seen i)
  show ?case
  proof (cases "find_proxy ps i")
    case None
    then show ?thesis
      by (simp add: resolve_from.simps [of _ now seen i] find_mark_expired)
  next
    case (Some p)
    define p' where "p' = (if i = d then p\<lparr>px_status := ''expired''\<rparr> else p)"
    note pin = find_proxy_Some [OF Some]
    have same: "usable now p' = usable now p" "px_mode p' = px_mode p" "px_backup p' = px_backup p"
      "(px_status p' \<noteq> ''active'' \<and> px_status p' \<noteq> ''expired'') = (px_status p \<noteq> ''active'' \<and> px_status p \<noteq> ''expired'')"
      using "1.prems" pin by (auto simp: p'_def out_of_use_def usable_def)
    have res: "usable now p \<Longrightarrow> p' = p"
      using "1.prems" pin by (auto simp: p'_def out_of_use_def)
    have rec: "resolve_from (mark_expired d ps) now (i # seen) b = resolve_from ps now (i # seen) b"
      if "\<not> 9 \<le> length seen" "\<not> List.member seen i"
        "\<not> (seen = [] \<and> px_status p \<noteq> ''active'' \<and> px_status p \<noteq> ''expired'')" "\<not> usable now p"
        "px_mode p \<noteq> ''direct''" "px_mode p = ''proxy''" "px_backup p = Some b" for b
      using "1.IH" [OF that(1,2) Some that(3-7)] "1.prems" by simp
    have find': "find_proxy (mark_expired d ps) i = Some p'"
      by (simp add: find_mark_expired Some p'_def)
    show ?thesis
      unfolding resolve_from.simps [of _ now seen i] find' Some option.case same
      using res rec by (auto split: option.splits)
  qed
qed

lemma out_of_use_mark: "out_of_use now ps e \<Longrightarrow> out_of_use now (mark_expired d ps) e"
  by (auto simp: out_of_use_def mark_expired_def usable_def split: if_splits)

text \<open>What the worker may change in an account, and the simultaneous move of all accounts.\<close>

definition binding :: "proxy_account \<Rightarrow> int \<times> int option \<times> int option \<times> bool" where
  "binding a = (pa_id a, pa_proxy a, pa_origin a, pa_deleted a)"

definition moved :: "proxy list \<Rightarrow> int \<Rightarrow> int list \<Rightarrow> proxy_account \<Rightarrow> proxy_account" where
  "moved ps now expired a = (case pa_proxy a of
     None \<Rightarrow> a
   | Some i \<Rightarrow> (if i \<in> set expired
       then (case resolve_proxy ps i now of
               Inl _ \<Rightarrow> a | Inr t \<Rightarrow> move_account i (map_option px_id t) a)
       else a))"

lemma binding_move_cong: "binding a = binding b \<Longrightarrow> binding (move_account i t a) = binding (move_account i t b)"
  by (auto simp: binding_def move_account_def)

lemma binding_moved_cong: "binding a = binding b \<Longrightarrow> binding (moved ps now is a) = binding (moved ps now is b)"
proof -
  assume b: "binding a = binding b"
  then have "pa_proxy a = pa_proxy b" by (simp add: binding_def)
  then show ?thesis using b binding_move_cong [OF b]
    by (auto simp: moved_def split: option.splits sum.splits)
qed

lemma invalidate_binding: "map binding (pd_accounts (invalidate db i)) = map binding (pd_accounts db)"
  by (simp add: invalidate_def Let_def binding_def)

lemma expire_one_proxies: "pd_proxies (expire_one now db i) = mark_expired i (pd_proxies db)"
  by (simp add: expire_one_def Let_def split: sum.splits)

lemma map_binding_map:
  assumes "map binding xs = map binding ys" and "\<And>a b. binding a = binding b \<Longrightarrow> binding (f a) = binding (f b)"
  shows "map (binding \<circ> f) xs = map (binding \<circ> f) ys"
  using assms(1)
proof (induction xs arbitrary: ys)
  case Nil
  then show ?case by simp
next
  case (Cons x xs)
  then obtain y zs where ys: "ys = y # zs" "binding x = binding y" "map binding xs = map binding zs"
    by (cases ys) auto
  then show ?case using assms(2) [OF ys(2)] Cons.IH [OF ys(3)] by simp
qed

lemma expire_one_accounts:
  "map binding (pd_accounts (expire_one now db i)) = map (binding \<circ> moved (pd_proxies db) now [i]) (pd_accounts db)"
proof (cases "resolve_proxy (pd_proxies db) i now")
  case (Inl e)
  have "moved (pd_proxies db) now [i] a = a" for a
    by (simp add: moved_def Inl split: option.splits)
  then show ?thesis
    by (simp add: expire_one_def Let_def Inl invalidate_binding comp_def)
next
  case (Inr t)
  have moved: "moved (pd_proxies db) now [i] a = move_account i (map_option px_id t) a" for a
    by (auto simp: moved_def Inr move_account_def split: option.splits)
  let ?db = "invalidate (db\<lparr>pd_proxies := mark_expired i (pd_proxies db)\<rparr>) i"
  have "map (binding \<circ> move_account i (map_option px_id t)) (pd_accounts ?db) =
      map (binding \<circ> move_account i (map_option px_id t)) (pd_accounts db)"
    by (rule map_binding_map [OF _ binding_move_cong]) (simp_all add: invalidate_binding)
  then show ?thesis
    by (simp add: expire_one_def Let_def Inr moved comp_def)
qed

lemma moved_Cons:
  assumes "out_of_use now ps i" and "\<forall>j \<in> set is. out_of_use now ps j" and "i \<notin> set is"
  shows "moved (mark_expired i ps) now is (moved ps now [i] a) = moved ps now (i # is) a"
proof -
  have res: "resolve_proxy (mark_expired i ps) j now = resolve_proxy ps j now" for j
    by (simp add: resolve_proxy_def resolve_mark_expired [OF assms(1)])
  have target: "px_id p \<notin> set is" if "resolve_proxy ps i now = Inr (Some p)" for p
    using resolve_usable [OF that [unfolded resolve_proxy_def]] assms(2) by (auto simp: out_of_use_def)
  show ?thesis
  proof (cases "pa_proxy a = Some i")
    case True
    then show ?thesis
      using target assms(3)
      by (auto simp: moved_def res move_account_def split: sum.splits option.splits)
  next
    case False
    then have "moved ps now [i] a = a" by (auto simp: moved_def split: option.splits)
    then show ?thesis using False by (auto simp: moved_def res split: option.splits)
  qed
qed

lemma expire_fold:
  assumes "distinct is" and "\<forall>i \<in> set is. out_of_use now (pd_proxies db) i"
  shows "map binding (pd_accounts (foldl (expire_one now) db is)) =
    map (binding \<circ> moved (pd_proxies db) now is) (pd_accounts db)"
  using assms
proof (induction "is" arbitrary: db)
  case Nil
  have "moved ps now [] a = a" for ps a by (simp add: moved_def split: option.splits)
  then show ?case by (simp add: comp_def)
next
  case (Cons i "is")
  let ?db = "expire_one now db i" and ?ps = "mark_expired i (pd_proxies db)"
  have "map binding (pd_accounts (foldl (expire_one now) ?db is)) =
      map (binding \<circ> moved ?ps now is) (pd_accounts ?db)"
    using Cons.prems out_of_use_mark by (subst Cons.IH) (auto simp: expire_one_proxies)
  also have "\<dots> = map (binding \<circ> moved ?ps now is) (map (moved (pd_proxies db) now [i]) (pd_accounts db))"
    by (rule map_binding_map [OF _ binding_moved_cong]) (simp_all add: expire_one_accounts)
  also have "\<dots> = map (binding \<circ> moved (pd_proxies db) now (i # is)) (pd_accounts db)"
    using moved_Cons [of now "pd_proxies db" i "is"] Cons.prems by (simp add: comp_def)
  finally show ?case by simp
qed

lemma due_out_of_use:
  assumes "distinct (map px_id (pd_proxies db))"
  shows "distinct (due db now) \<and> (\<forall>i \<in> set (due db now). out_of_use now (pd_proxies db) i)"
proof
  show "distinct (due db now)"
    using assms by (auto simp: due_def distinct_map inj_on_def intro!: distinct_take)
next
  show "\<forall>i \<in> set (due db now). out_of_use now (pd_proxies db) i"
  proof
    fix i assume "i \<in> set (due db now)"
    then obtain p where p: "p \<in> set (pd_proxies db)" "px_id p = i" "px_status p = ''active''"
        "case px_expires p of None \<Rightarrow> False | Some e \<Rightarrow> e \<le> now"
      by (auto simp: due_def dest!: in_set_takeD)
    show "out_of_use now (pd_proxies db) i"
      unfolding out_of_use_def
    proof (intro ballI impI)
      fix q assume "q \<in> set (pd_proxies db)" "px_id q = i"
      then have "q = p" using p(1,2) assms by (auto simp: distinct_map inj_on_def)
      then show "\<not> usable now q \<and> (px_status q = ''active'' \<or> px_status q = ''expired'')"
        using p by (auto simp: usable_def split: option.splits)
    qed
  qed
qed

text \<open>One run of the expiry worker equals the simultaneous treatment of all due
  proxies on the table it started from: an account is moved at most once, exactly when its proxy is
  due and its fallback resolves; it remembers the first proxy it left, and it never lands on a
  proxy that expires in the same run.\<close>

lemma expiry_moves_once:
  assumes "proxies_ok db"
  shows "map binding (pd_accounts (expire_proxies db now)) =
    map (binding \<circ> moved (pd_proxies db) now (due db now)) (pd_accounts db)"
  using expire_fold due_out_of_use assms by (simp add: expire_proxies_def proxies_ok_def)


section \<open>Witnesses\<close>

definition plain_proxy :: "int \<Rightarrow> proxy" where
  "plain_proxy i = (new_proxy i)\<lparr>px_name := ''p'', px_protocol := ''http'', px_host := ''proxy.test'', px_port := 8080\<rparr>"

definition sample_proxies :: proxy_db where
  "sample_proxies = \<lparr>pd_proxies = [(plain_proxy 1)\<lparr>px_expires := Some 50, px_mode := ''proxy'', px_backup := Some 2\<rparr>,
      plain_proxy 2],
     pd_accounts = [\<lparr>pa_id = 7, pa_proxy = Some 1, pa_origin = None, pa_measured = True, pa_deleted = False\<rparr>],
     pd_search = [], pd_next = 3\<rparr>"

definition no_proxy_input :: proxy_input where
  "no_proxy_input = \<lparr>pi_name = None, pi_protocol = None, pi_host = None, pi_port = None, pi_username = None,
     pi_password = None, pi_status = None, pi_expires = NotGiven, pi_fallback = None, pi_backup = NotGiven,
     pi_warn_days = None\<rparr>"

lemma sample_proxies_ok: "proxies_ok sample_proxies"
proof -
  have "fallback_edges (pd_proxies sample_proxies) \<subseteq> {(1, 2)}"
    by (auto simp: fallback_edges_def sample_proxies_def plain_proxy_def new_proxy_def)
  moreover have "acyclic {(1::int, 2::int)}" by (simp add: acyclic_insert) (simp add: acyclic_def)
  ultimately have "acyclic (fallback_edges (pd_proxies sample_proxies))"
    by (rule acyclic_subset [rotated])
  then show ?thesis
    by (simp add: proxies_ok_def sample_proxies_def plain_proxy_def new_proxy_def)
qed

lemma sample_save:
  "ok (save_proxy (\<lambda>_. False) (\<lambda>_. Inr ()) sample_proxies (Some 2) (no_proxy_input\<lparr>pi_port := Some 3128\<rparr>))"
  by code_simp

theorem proxy_graph_invariant_witness:
  "\<exists>db'. save_proxy (\<lambda>_. False) (\<lambda>_. Inr ()) sample_proxies (Some 2) (no_proxy_input\<lparr>pi_port := Some 3128\<rparr>) = Inr db' \<and>
     proxies_ok db'"
  using sample_save proxy_graph_invariant [OF sample_proxies_ok] by (metis ok_iff)

theorem resolve_proxy_sound_witness:
  "resolve_proxy (pd_proxies sample_proxies) 1 60 = Inr (Some (plain_proxy 2)) \<and> usable 60 (plain_proxy 2)"
proof
  show r: "resolve_proxy (pd_proxies sample_proxies) 1 60 = Inr (Some (plain_proxy 2))" by code_simp
  show "usable 60 (plain_proxy 2)"
    using resolve_proxy_sound [OF sample_proxies_ok, where i = 1 and now = 60] by (simp add: r)
qed

definition saved_proxies :: proxy_db where
  "saved_proxies = (case save_proxy (\<lambda>_. False) (\<lambda>_. Inr ()) sample_proxies (Some 2)
     (no_proxy_input\<lparr>pi_port := Some 3128\<rparr>) of Inl _ \<Rightarrow> sample_proxies | Inr db \<Rightarrow> db)"

theorem update_clears_measurements_witness:
  "list_all (\<lambda>a. \<not> pa_measured a) (pd_accounts saved_proxies) \<and> length (pd_accounts saved_proxies) = 1"
proof -
  have run: "save_proxy (\<lambda>_. False) (\<lambda>_. Inr ()) sample_proxies (Some 2) (no_proxy_input\<lparr>pi_port := Some 3128\<rparr>) =
      Inr saved_proxies"
    using sample_save by (auto simp: saved_proxies_def ok_iff)
  have accounts: "map (\<lambda>a. (pa_deleted a, pa_proxy a)) (pd_accounts saved_proxies) = [(False, Some 1)]"
    by code_simp
  have edges: "list_ex (\<lambda>p. \<not> px_deleted p \<and> px_id p = 1 \<and> px_backup p = Some 2) (pd_proxies saved_proxies)"
    by code_simp
  then have "(1, 2) \<in> backup_edges (pd_proxies saved_proxies)"
    by (auto simp: backup_edges_def list_ex_iff)
  then have path: "(1, 2) \<in> (backup_edges (pd_proxies saved_proxies))\<^sup>*" by blast
  obtain a where a: "pd_accounts saved_proxies = [a]" "\<not> pa_deleted a" "pa_proxy a = Some 1"
    using accounts by (auto simp: map_eq_Cons_conv)
  then have "\<not> pa_measured a"
    by (intro update_clears_measurements [OF run _ _ _ path]) auto
  with a show ?thesis by simp
qed

theorem expiry_moves_once_witness:
  "map binding (pd_accounts (expire_proxies sample_proxies 60)) = [(7, Some 2, Some 1, False)]"
  unfolding expiry_moves_once [OF sample_proxies_ok] by code_simp

end
