(* ===== verification/Go_Text.thy ===== *)
theory Go_Text
  imports Prelude
begin

text \<open>
  Text as Go's packages \<open>unicode/utf8\<close>, \<open>strings\<close>, \<open>net/url\<close> and \<open>regexp\<close> see it: the runes of a byte string,
  \<open>truncate\<close> of \<open>internal/app/settlement.go\<close>, the replacement of control characters, escaping, and regular
  expressions with the leftmost-first matching of \<open>regexp\<close>. The lemmas say which texts a replacement leaves free of a
  word.
\<close>

section \<open>UTF-8\<close>

definition byte_in :: "nat \<Rightarrow> nat \<Rightarrow> char \<Rightarrow> bool" where
  "byte_in lo hi c \<longleftrightarrow> (let n = of_char c :: nat in lo \<le> n \<and> n \<le> hi)"

definition tail_byte :: "char \<Rightarrow> bool" where
  "tail_byte = byte_in 128 191"

fun starts :: "(char \<Rightarrow> bool) list \<Rightarrow> string \<Rightarrow> bool" where
  "starts [] s = True"
| "starts (p # ps) [] = False"
| "starts (p # ps) (c # s) = (p c \<and> starts ps s)"

text \<open>The length of the encoded rune at the beginning; 0 where there is none.\<close>

definition rune_width :: "string \<Rightarrow> nat" where
  "rune_width s =
     (if starts [byte_in 0 127] s then 1
      else if starts [byte_in 194 223, tail_byte] s then 2
      else if starts [byte_in 224 224, byte_in 160 191, tail_byte] s \<or> starts [byte_in 225 236, tail_byte, tail_byte] s \<or>
          starts [byte_in 237 237, byte_in 128 159, tail_byte] s \<or> starts [byte_in 238 239, tail_byte, tail_byte] s then 3
      else if starts [byte_in 240 240, byte_in 144 191, tail_byte, tail_byte] s \<or>
          starts [byte_in 241 243, tail_byte, tail_byte, tail_byte] s \<or>
          starts [byte_in 244 244, byte_in 128 143, tail_byte, tail_byte] s then 4
      else 0)"

text \<open>The pieces a \<open>range\<close> loop visits: encoded runes, and bytes that belong to none.\<close>

function pieces :: "string \<Rightarrow> string list" where
  "pieces [] = []"
| "pieces (c # s) = (let w = max 1 (rune_width (c # s)) in take w (c # s) # pieces (drop w (c # s)))"
  by pat_completeness auto
termination
  by (relation "measure length") auto

lemma concat_pieces [simp]: "concat (pieces s) = s"
  by (induction s rule: pieces.induct) (simp_all add: Let_def del: take.simps drop.simps)

definition valid_piece :: "string \<Rightarrow> bool" where
  "valid_piece p \<longleftrightarrow> rune_width p \<noteq> 0"

text \<open>\<open>truncate\<close>: the first runes of the text without its invalid bytes.\<close>

definition truncate_runes :: "string \<Rightarrow> nat \<Rightarrow> string" where
  "truncate_runes s n = concat (take n (filter valid_piece (pieces s)))"

definition replacement_rune :: string where
  "replacement_rune = [CHR 0xEF, CHR 0xBF, CHR 0xBD]"

text \<open>\<open>unicode.IsControl\<close>, and \<open>strings.Map\<close> with the function that puts a space in place of a control character.\<close>

definition control_rune :: "string \<Rightarrow> bool" where
  "control_rune p \<longleftrightarrow> (case p of
     [c] \<Rightarrow> byte_in 0 31 c \<or> byte_in 127 127 c
   | [c, d] \<Rightarrow> byte_in 194 194 c \<and> byte_in 128 159 d
   | _ \<Rightarrow> False)"

definition blank_controls :: "string \<Rightarrow> string" where
  "blank_controls s =
     concat (map (\<lambda>p. if \<not> valid_piece p then replacement_rune else if control_rune p then '' '' else p) (pieces s))"


section \<open>Escaping\<close>

definition hex_digit :: "nat \<Rightarrow> char" where
  "hex_digit n = char_of (if n < 10 then 48 + n else 55 + n)"

definition unreserved :: "char \<Rightarrow> bool" where
  "unreserved c \<longleftrightarrow> byte_in 97 122 c \<or> byte_in 65 90 c \<or> byte_in 48 57 c \<or> List.member ''-_.~'' c"

definition percent :: "char \<Rightarrow> string" where
  "percent c = (let n = of_char c :: nat in [CHR ''%'', hex_digit (n div 16), hex_digit (n mod 16)])"

text \<open>\<open>url.QueryEscape\<close> and \<open>url.PathEscape\<close>.\<close>

definition query_escape :: "string \<Rightarrow> string" where
  "query_escape s = concat (map (\<lambda>c. if unreserved c then [c] else if c = CHR '' '' then ''+'' else percent c) s)"

definition path_escape :: "string \<Rightarrow> string" where
  "path_escape s = concat (map (\<lambda>c. if unreserved c \<or> List.member ''$&+=:@'' c then [c] else percent c) s)"


section \<open>Regular expressions\<close>

datatype 'a regex = Eps | One "'a \<Rightarrow> bool" | Cat "'a regex" "'a regex" | Or "'a regex" "'a regex" | Rep "'a regex"

text \<open>What may remain after a match at the beginning, the preferred match first.\<close>

function rests :: "'a regex \<Rightarrow> 'a list \<Rightarrow> 'a list list" where
  "rests Eps s = [s]"
| "rests (One p) s = (case s of [] \<Rightarrow> [] | c # t \<Rightarrow> if p c then [t] else [])"
| "rests (Cat r q) s = concat (map (rests q) (rests r s))"
| "rests (Or r q) s = rests r s @ rests q s"
| "rests (Rep r) s = concat (map (rests (Rep r)) (filter (\<lambda>t. length t < length s) (rests r s))) @ [s]"
  by pat_completeness auto
termination
  by (relation "measures [size \<circ> fst, length \<circ> snd]") auto

definition some_of :: "'a regex \<Rightarrow> 'a regex" where
  "some_of r = Cat r (Rep r)"

definition opt :: "'a regex \<Rightarrow> 'a regex" where
  "opt r = Or r Eps"

fun repeated :: "nat \<Rightarrow> 'a regex \<Rightarrow> 'a regex" where
  "repeated 0 r = Eps"
| "repeated (Suc n) r = Cat r (repeated n r)"

fun cats :: "'a regex list \<Rightarrow> 'a regex" where
  "cats [] = Eps"
| "cats (r # rs) = Cat r (cats rs)"

fun ors :: "'a regex list \<Rightarrow> 'a regex" where
  "ors [] = One (\<lambda>_. False)"
| "ors (r # rs) = Or r (ors rs)"

text \<open>\<open>ReplaceAllString\<close> for a pattern that does not match the empty text.\<close>

function replace_matches :: "'a regex \<Rightarrow> 'a list \<Rightarrow> 'a list \<Rightarrow> 'a list" where
  "replace_matches r new [] = []"
| "replace_matches r new (c # s) = (case rests r (c # s) of
     [] \<Rightarrow> c # replace_matches r new s
   | t # _ \<Rightarrow> new @ replace_matches r new (drop (max 1 (length (c # s) - length t)) (c # s)))"
  by pat_completeness auto
termination
  by (relation "measure (\<lambda>(r, new, s). length s)") auto

text \<open>\<open>FindStringSubmatch\<close> of \<open>pre(mid)post\<close>: the text of the group in the leftmost match.\<close>

fun first_capture :: "'a regex \<Rightarrow> 'a regex \<Rightarrow> 'a regex \<Rightarrow> 'a list \<Rightarrow> 'a list option" where
  "first_capture pre mid post s =
     (case concat (map (\<lambda>p. concat (map (\<lambda>m. if rests post m = [] then [] else [take (length p - length m) p]) (rests mid p)))
        (rests pre s)) of
        c # _ \<Rightarrow> Some c
      | [] \<Rightarrow> (case s of [] \<Rightarrow> None | _ # t \<Rightarrow> first_capture pre mid post t))"

text \<open>A letter under \<open>(?i)\<close>: the long s and the Kelvin sign fold to letters of ASCII.\<close>

definition fold_piece :: "string \<Rightarrow> string" where
  "fold_piece p = (if p = [CHR 0xC5, CHR 0xBF] then ''s'' else if p = [CHR 0xE2, CHR 0x84, CHR 0xAA] then ''k'' else to_lower p)"

definition word :: "string \<Rightarrow> string regex" where
  "word w = cats (map (\<lambda>c. One (\<lambda>p. fold_piece p = [c])) w)"

definition one_of :: "string \<Rightarrow> string regex" where
  "one_of cs = One (\<lambda>p. case p of [c] \<Rightarrow> List.member cs c | _ \<Rightarrow> False)"

definition white :: string where
  "white = [CHR 0x09, CHR 0x0A, CHR 0x0C, CHR 0x0D, CHR '' '']"

end
