(* ===== verification/Group_Fallback.thy ===== *)
theory Group_Fallback
  imports Pricing Json Go_Text
begin

text \<open>
  Groups that only serve Claude Code clients, and the groups they fall back to:
  \<open>internal/app/group_fallback.go\<close>, with the write paths of \<open>internal/app/groups.go\<close> that create,
  change or delete a group as far as the fallback graph is concerned. The state is the table of
  groups; every edit runs under an advisory lock in one transaction, and the validation at its end
  rolls the edit back when it fails. The resolution of a request reads the same table. Also here:
  the classification of a client from its headers and prompt. The prompt similarity is a quotient
  of integers that is only compared with one half, so it is a rational number here; a JSON number
  decoded into a \<open>float64\<close> is read exactly.
\<close>

record fallback_group =
  fg_id :: int
  fg_platform :: string
  fg_subscription :: string
  fg_oauth_only :: bool
  fg_code_only :: bool
  fg_fallback :: "int option"
  fg_status :: string
  fg_deleted :: bool

definition find_group :: "fallback_group list \<Rightarrow> int \<Rightarrow> fallback_group option" where
  "find_group gs i = find (\<lambda>g. fg_id g = i) gs"

definition live_group :: "fallback_group list \<Rightarrow> int \<Rightarrow> fallback_group option" where
  "live_group gs i = find (\<lambda>g. fg_id g = i \<and> \<not> fg_deleted g) gs"

definition serving_platform :: "string \<Rightarrow> bool" where
  "serving_platform p \<longleftrightarrow> supported_platform p \<or> p = ''composite''"


section \<open>Validation at write time\<close>

function check_chain :: "fallback_group list \<Rightarrow> int list \<Rightarrow> int option \<Rightarrow> unit result" where
  "check_chain gs seen next = (case next of
     None \<Rightarrow> Inr ()
   | Some n \<Rightarrow>
       (if List.member seen n \<or> 32 < length seen
        then Inl (bad ''fallback group cycle or excessive chain'')
        else (case live_group gs n of
           None \<Rightarrow> Inl (bad ''fallback group does not exist'')
         | Some g \<Rightarrow>
             (if \<not> serving_platform (fg_platform g) \<or> fg_subscription g \<noteq> ''standard'' \<or> fg_oauth_only g \<or>
                 fg_code_only g
              then Inl (bad ''fallback must be a supported API key group without claude_code_only'')
              else check_chain gs (n # seen) (fg_fallback g)))))"
  by pat_completeness auto
termination
  by (relation "measure (\<lambda>(gs, seen, next). 33 - length seen)") auto

declare check_chain.simps [simp del]

definition validate_group_fallback :: "fallback_group list \<Rightarrow> int \<Rightarrow> bool \<Rightarrow> unit result" where
  "validate_group_fallback gs i check_target =
     (case find_group gs i of
        None \<Rightarrow> Inl missing
      | Some g \<Rightarrow>
          (if fg_code_only g \<and> list_ex (\<lambda>h. \<not> fg_deleted h \<and> fg_fallback h = Some i) gs
             then Inl (bad ''a fallback target cannot enable claude_code_only'')
           else if \<not> check_target then Inr ()
           else check_chain gs [i] (fg_fallback g)))"

text \<open>The edits: of the fields of a group only those of the graph appear. A fallback of zero or less
  clears the column; an absent one leaves it.\<close>

definition positive_id :: "int option \<Rightarrow> int option" where
  "positive_id x = (case x of None \<Rightarrow> None | Some i \<Rightarrow> if 0 < i then Some i else None)"

definition create_group ::
  "fallback_group list \<Rightarrow> int \<Rightarrow> string \<Rightarrow> string \<Rightarrow> bool option \<Rightarrow> int option \<Rightarrow> fallback_group list result" where
  "create_group gs new_id platform status code_only fallback =
     (let g = \<lparr>fg_id = new_id, fg_platform = platform, fg_subscription = ''standard'', fg_oauth_only = False,
               fg_code_only = (code_only = Some True), fg_fallback = positive_id fallback,
               fg_status = status, fg_deleted = False\<rparr>;
          gs' = gs @ [g]
      in and_then (validate_group_fallback gs' new_id True) (\<lambda>_. Inr gs'))"

text \<open>What a change sets, and the transaction that sets it: nothing is found, or the graph is validated again.\<close>

definition edited_group :: "string option \<Rightarrow> bool option \<Rightarrow> int option \<Rightarrow> fallback_group \<Rightarrow> fallback_group" where
  "edited_group status code_only fallback g =
     g\<lparr>fg_status := (case status of None \<Rightarrow> fg_status g | Some s \<Rightarrow> s),
       fg_code_only := (case code_only of None \<Rightarrow> fg_code_only g | Some b \<Rightarrow> b),
       fg_fallback := (case fallback of None \<Rightarrow> fg_fallback g | Some f \<Rightarrow> positive_id (Some f))\<rparr>"

definition update_group ::
  "fallback_group list \<Rightarrow> int \<Rightarrow> string option \<Rightarrow> bool option \<Rightarrow> int option \<Rightarrow> fallback_group list result" where
  "update_group gs i status code_only fallback =
     (if live_group gs i = None then Inl missing
      else (let gs' = map (\<lambda>g. if fg_id g = i \<and> \<not> fg_deleted g then edited_group status code_only fallback g else g) gs
        in and_then (validate_group_fallback gs' i (case fallback of None \<Rightarrow> False | Some f \<Rightarrow> 0 < f))
             (\<lambda>_. Inr gs')))"

definition delete_group :: "fallback_group list \<Rightarrow> int \<Rightarrow> fallback_group list result" where
  "delete_group gs i =
     (if live_group gs i = None then Inl missing
      else Inr (map (\<lambda>g. if fg_id g = i \<and> \<not> fg_deleted g
                         then g\<lparr>fg_status := ''inactive'', fg_deleted := True\<rparr> else g) gs))"


section \<open>Resolution at request time\<close>

definition audio_protocol :: "string \<Rightarrow> bool" where
  "audio_protocol protocol \<longleftrightarrow> protocol = ''tts'' \<or> protocol = ''stt''"

definition grok_search_protocol :: "string \<Rightarrow> bool" where
  "grok_search_protocol protocol \<longleftrightarrow> protocol = ''web_search'' \<or> protocol = ''x_search''"

definition voice_protocol :: "string \<Rightarrow> bool" where
  "voice_protocol protocol \<longleftrightarrow> audio_protocol protocol \<or> protocol = ''realtime''"

definition excluded_protocol :: "string \<Rightarrow> bool" where
  "excluded_protocol protocol \<longleftrightarrow> List.member
     [''videos'', ''seedance'', ''chat_completions'', ''responses'', ''embeddings'', ''alpha_search'']
       protocol \<or> grok_search_protocol protocol \<or> voice_protocol protocol \<or> protocol = ''custom-voices''"

text \<open>The group that routes the request, when the client may not use its own; \<open>None\<close> keeps the own.\<close>

function follow_fallback :: "fallback_group list \<Rightarrow> int list \<Rightarrow> fallback_group \<Rightarrow> fallback_group result" where
  "follow_fallback gs seen g =
     (if \<not> fg_code_only g then Inr g
      else (case fg_fallback g of
         None \<Rightarrow> Inl (ApiError 403 ''this group only allows Claude Code clients'')
       | Some i \<Rightarrow>
           (if List.member seen i \<or> 32 < length seen then Inl (ApiError 503 ''invalid fallback group chain'')
            else (case find (\<lambda>g. fg_id g = i \<and> \<not> fg_deleted g \<and> fg_status g = ''active'' \<and>
                        fg_subscription g = ''standard'' \<and> \<not> fg_oauth_only g) gs of
               None \<Rightarrow> Inl (ApiError 503 ''fallback group is unavailable'')
             | Some h \<Rightarrow>
                 (if \<not> serving_platform (fg_platform h)
                  then Inl (ApiError 503 ''unsupported fallback group platform'')
                  else follow_fallback gs (i # seen) h)))))"
  by pat_completeness auto
termination
  by (relation "measure (\<lambda>(gs, seen, g). 33 - length seen)") auto

declare follow_fallback.simps [simp del]

text \<open>\<open>policy\<close> is the client policy of the request context, when there is one: the protocol and
  whether the client is Claude Code.\<close>

definition resolve_client_group ::
  "fallback_group list \<Rightarrow> (string \<times> bool) option \<Rightarrow> fallback_group \<Rightarrow>
   fallback_group option result" where
  "resolve_client_group gs policy g =
     (case policy of
        None \<Rightarrow> Inr None
      | Some (protocol, code) \<Rightarrow>
          (if \<not> fg_code_only g then Inr None
           else if excluded_protocol protocol
             then Inl (ApiError 403 ''this group requires the Claude Code Messages endpoint'')
           else if code then Inr None
           else and_then (follow_fallback gs [fg_id g] g) (\<lambda>h. Inr (Some h))))"

text \<open>\<open>dispatchGroup\<close>: the routing group when there is one, else the own group.\<close>

definition dispatch_group :: "fallback_group option \<Rightarrow> fallback_group \<Rightarrow> fallback_group" where
  "dispatch_group routing own = (case routing of None \<Rightarrow> own | Some g \<Rightarrow> g)"


section \<open>The client\<close>

definition words :: "string \<Rightarrow> string list" where
  "words s = fields_func is_space s"

fun join :: "string \<Rightarrow> string list \<Rightarrow> string" where
  "join sep [] = []"
| "join sep [s] = s"
| "join sep (s # t # ss) = s @ sep @ join sep (t # ss)"

definition bigrams :: "'a list \<Rightarrow> ('a \<times> 'a) list" where
  "bigrams s = zip s (tl s)"

text \<open>The loop over the second text, with the pairs of the first that are still unmatched.\<close>

fun common_pairs :: "('a \<times> 'a) list \<Rightarrow> ('a \<times> 'a) list \<Rightarrow> nat" where
  "common_pairs pairs [] = 0"
| "common_pairs pairs (p # ps) =
     (if List.member pairs p then Suc (common_pairs (remove1 p pairs) ps) else common_pairs pairs ps)"

definition normal_prompt :: "string \<Rightarrow> string" where
  "normal_prompt s = to_lower (join '' '' (words s))"

text \<open>The code points of a text; a byte that starts none stands for the replacement character.\<close>

definition prompt_runes :: "string \<Rightarrow> string list" where
  "prompt_runes s = map (\<lambda>p. if valid_piece p then p else replacement_rune) (pieces (normal_prompt s))"

definition prompt_similarity :: "string \<Rightarrow> string \<Rightarrow> rat" where
  "prompt_similarity a b =
     (let left = prompt_runes a; right = prompt_runes b in
      if length left < 2 \<or> length right < 2 then 0
      else of_nat (2 * common_pairs (bigrams left) (bigrams right)) / of_nat (length left + length right - 2))"

text \<open>The expression \<open>(?i)^claude-cli/\d+\.\d+\.\d+\<close>.\<close>

definition claude_client_ua :: "string \<Rightarrow> bool" where
  "claude_client_ua ua =
     (let s = to_lower ua; v = drop 11 s; r1 = dropWhile is_digit v; r2 = dropWhile is_digit (tl r1) in
      has_prefix s ''claude-cli/'' \<and> takeWhile is_digit v \<noteq> [] \<and> has_prefix r1 ''.'' \<and>
      takeWhile is_digit (tl r1) \<noteq> [] \<and> has_prefix r2 ''.'' \<and> takeWhile is_digit (tl r2) \<noteq> [])"

text \<open>Decoding a string field of a struct: names match in any case, a wrong type is an error.\<close>

fun struct_string :: "string \<Rightarrow> string \<Rightarrow> fields \<Rightarrow> string option" where
  "struct_string name cur [] = Some cur"
| "struct_string name cur ((k, v) # kvs) =
     (if equal_fold k name then
        (case v of JStr s \<Rightarrow> struct_string name s kvs
         | JNull \<Rightarrow> struct_string name cur kvs
         | _ \<Rightarrow> None)
      else struct_string name cur kvs)"

definition system_entry :: "json \<Rightarrow> (string \<times> string) option" where
  "system_entry j = (case j of
     JNull \<Rightarrow> Some ([], [])
   | JObj kvs \<Rightarrow> (case (struct_string ''type'' [] kvs, struct_string ''text'' [] kvs) of
       (Some t, Some x) \<Rightarrow> Some (t, x) | _ \<Rightarrow> None)
   | _ \<Rightarrow> None)"

fun system_entries :: "json list \<Rightarrow> (string \<times> string) list option" where
  "system_entries [] = Some []"
| "system_entries (j # js) = (case (system_entry j, system_entries js) of
     (Some e, Some es) \<Rightarrow> Some (e # es) | _ \<Rightarrow> None)"

definition decode_system :: "json option \<Rightarrow> (string \<times> string) list option" where
  "decode_system j = (case j of
     Some JNull \<Rightarrow> Some [] | Some (JArr js) \<Rightarrow> system_entries js | _ \<Rightarrow> None)"

definition monitor_markers :: "string list" where
  "monitor_markers = [''## Threat Model'', ''- `<transcript>`:'', ''## HARD BLOCK'', ''## SOFT BLOCK'',
     ''## Classification Process'', ''## Output Format'', ''<block>yes</block>'', ''<block>no</block>'']"

definition code_templates :: "string list" where
  "code_templates =
    [''You are Claude Code, Anthropic'' @ [CHR 0x27] @ ''s official CLI for Claude.'',
     ''You are a Claude agent, built on Anthropic'' @ [CHR 0x27] @ ''s Claude Agent SDK.'',
     ''You are Claude Code, Anthropic'' @ [CHR 0x27] @ ''s official CLI for Claude, running within the Claude Agent SDK.'',
     ''You are a file search specialist for Claude Code, Anthropic'' @ [CHR 0x27] @ ''s official CLI for Claude.'',
     ''You are a helpful AI assistant tasked with summarizing conversations.'',
     ''You are an interactive CLI tool that helps users'']"

definition code_entry :: "string \<times> string \<Rightarrow> bool" where
  "code_entry entry = (case entry of (kind, text) \<Rightarrow>
     has_prefix text ''x-anthropic-billing-header'' \<and> contains text ''cc_entrypoint='' \<or>
     kind = ''text'' \<and> 10000 \<le> length text \<and>
       has_prefix text ''You are a security monitor for autonomous AI coding agents.'' \<and>
       list_all (contains text) monitor_markers \<or>
     list_ex (\<lambda>template. 1 / 2 \<le> prompt_similarity text template) code_templates)"

text \<open>\<open>session\<close> is what \<open>anthropicMetadataSession\<close> of sticky.go reads from the body.\<close>

definition claude_code_client ::
  "string \<Rightarrow> string \<Rightarrow> (string \<Rightarrow> string) \<Rightarrow> string \<Rightarrow> fields \<Rightarrow> bool" where
  "claude_code_client ua path headers session body =
     (if \<not> claude_client_ua ua then False
      else if \<not> contains path ''messages'' \<or> has_suffix path ''/messages/count_tokens'' then True
      else if (case assoc body ''max_tokens'' of Some (JNum n) \<Rightarrow> rat_of n = Some 1 | _ \<Rightarrow> False) then True
      else if headers ''X-App'' = [] \<or> headers ''Anthropic-Beta'' = [] \<or> headers ''Anthropic-Version'' = [] \<or>
              session = [] then False
      else if as_string (assoc body ''model'') = None then False
      else (case decode_system (assoc body ''system'') of
              None \<Rightarrow> False
            | Some entries \<Rightarrow> list_ex code_entry entries))"

end
