(* ===== verification/Group_Fallback_Facts.thy ===== *)
theory Group_Fallback_Facts
  imports Group_Fallback "HOL-Library.Multiset"
begin

text \<open>
  Guarantees of group fallback: no edit makes a fallback target refuse the clients it is there for,
  so a request is routed in one step and never runs into an invalid chain; and the prompt
  similarity is the Dice coefficient of the character pairs of two texts.
\<close>

section \<open>The fallback graph\<close>

definition groups_ok :: "fallback_group list \<Rightarrow> bool" where
  "groups_ok gs \<longleftrightarrow> distinct (map fg_id gs) \<and>
     (\<forall>h \<in> set gs. \<forall>g \<in> set gs. \<not> fg_deleted h \<longrightarrow> \<not> fg_deleted g \<longrightarrow>
        fg_fallback h = Some (fg_id g) \<longrightarrow> \<not> fg_code_only g)"

lemma find_group_in: "distinct (map fg_id gs) \<Longrightarrow> g \<in> set gs \<Longrightarrow> find_group gs (fg_id g) = Some g"
  unfolding find_group_def by (rule find_unique) (auto simp: distinct_map inj_on_def)

lemma live_group_Some: "live_group gs i = Some g \<Longrightarrow> g \<in> set gs \<and> fg_id g = i \<and> \<not> fg_deleted g"
  by (auto simp: live_group_def find_Some_iff)

lemma check_chain_first:
  "check_chain gs seen (Some n) = Inr u \<Longrightarrow> \<exists>g. live_group gs n = Some g \<and> \<not> fg_code_only g \<and>
     serving_platform (fg_platform g) \<and> fg_subscription g = ''standard'' \<and> \<not> fg_oauth_only g"
  by (subst (asm) check_chain.simps) (auto split: if_splits option.splits)

text \<open>What a passed validation of one group says.\<close>

lemma validate_group_fallback_Inr:
  assumes "validate_group_fallback gs i strict = Inr ()" and "distinct (map fg_id gs)"
    and "g \<in> set gs" and "fg_id g = i"
  shows "fg_code_only g \<Longrightarrow> h \<in> set gs \<Longrightarrow> \<not> fg_deleted h \<Longrightarrow> fg_fallback h \<noteq> Some i"
    and "strict \<Longrightarrow> fg_fallback g = Some n \<Longrightarrow> t \<in> set gs \<Longrightarrow> \<not> fg_deleted t \<Longrightarrow> fg_id t = n \<Longrightarrow> \<not> fg_code_only t"
proof -
  have g: "find_group gs i = Some g" using find_group_in assms(2-4) by blast
  { assume "fg_code_only g" "h \<in> set gs" "\<not> fg_deleted h"
    then show "fg_fallback h \<noteq> Some i"
      using assms(1) g by (auto simp: validate_group_fallback_def list_ex_iff split: if_splits) }
  { assume c: "strict" "fg_fallback g = Some n" and t: "t \<in> set gs" "\<not> fg_deleted t" "fg_id t = n"
    then have "check_chain gs [i] (Some n) = Inr ()"
      using assms(1) g by (auto simp: validate_group_fallback_def split: if_splits)
    then obtain t' where "live_group gs n = Some t'" "\<not> fg_code_only t'" using check_chain_first by blast
    moreover have "t' = t"
      using live_group_Some [OF calculation(1)] t assms(2) by (auto simp: distinct_map inj_on_def)
    ultimately show "\<not> fg_code_only t" by simp }
qed

lemma create_group_ok:
  assumes "groups_ok gs" and "new_id \<notin> fg_id ` set gs"
    and "create_group gs new_id platform status code_only fallback = Inr gs'"
  shows "groups_ok gs'"
proof -
  from assms(3) obtain g where gs': "gs' = gs @ [g]" and gid: "fg_id g = new_id"
    and v: "validate_group_fallback gs' new_id True = Inr ()"
    by (auto simp: create_group_def Let_def split: sum.splits)
  have dist: "distinct (map fg_id gs')" using assms(1,2) gid by (auto simp: gs' groups_ok_def)
  have gin: "g \<in> set gs'" by (simp add: gs')
  note v' = validate_group_fallback_Inr [OF v dist gin gid]
  have "\<not> fg_code_only t"
    if "h \<in> set gs'" "t \<in> set gs'" "\<not> fg_deleted h" "\<not> fg_deleted t" "fg_fallback h = Some (fg_id t)" for h t
  proof (cases "t = g \<or> h = g")
    case True
    then show ?thesis using v'(1) [of h] v'(2) [of "fg_id t" t] that gid by auto
  next
    case False
    then show ?thesis using assms(1) that by (auto simp: gs' groups_ok_def)
  qed
  with dist show ?thesis by (simp add: groups_ok_def)
qed

lemma update_group_ok:
  assumes "groups_ok gs" and "update_group gs i status code_only fallback = Inr gs'"
  shows "groups_ok gs'"
proof -
  define edit where "edit g = (if fg_id g = i \<and> \<not> fg_deleted g then edited_group status code_only fallback g else g)" for g
  from assms(2) obtain old where live: "live_group gs i = Some old" and gs': "gs' = map edit gs"
    and v: "validate_group_fallback gs' i (case fallback of None \<Rightarrow> False | Some f \<Rightarrow> 0 < f) = Inr ()"
    by (auto simp: update_group_def Let_def edit_def [abs_def] split: if_splits sum.splits)
  have eid: "fg_id (edit g) = fg_id g" "fg_deleted (edit g) = fg_deleted g" for g by (simp_all add: edit_def edited_group_def)
  have other: "fg_id g \<noteq> i \<Longrightarrow> edit g = g" for g by (simp add: edit_def)
  have "map fg_id gs' = map fg_id gs" by (simp add: gs' eid)
  then have dist: "distinct (map fg_id gs')" using assms(1) by (simp add: groups_ok_def)
  note old = live_group_Some [OF live]
  have g: "edit old \<in> set gs'" "fg_id (edit old) = i" using old by (auto simp: gs' eid)
  note v' = validate_group_fallback_Inr [OF v dist g]
  have same: "x = edit old" if "x \<in> set gs'" "fg_id x = i" for x
    using that g dist by (auto simp: distinct_map inj_on_def)
  have "\<not> fg_code_only t"
    if ht: "h \<in> set gs'" "t \<in> set gs'" "\<not> fg_deleted h" "\<not> fg_deleted t" "fg_fallback h = Some (fg_id t)" for h t
  proof (cases "fg_id t = i")
    case True
    then show ?thesis using v'(1) [of h] same [OF ht(2)] ht by auto
  next
    case t: False
    from ht obtain h0 t0 where h0: "h0 \<in> set gs" "h = edit h0" and t0: "t0 \<in> set gs" "t = edit t0"
      by (auto simp: gs')
    have tt: "t = t0" using t t0 by (simp add: other eid)
    show ?thesis
    proof (cases "fg_id h = i \<and> fallback \<noteq> None")
      case True
      then have h: "h = edit old" using same ht(1) by simp
      then have "(case fallback of None \<Rightarrow> False | Some f \<Rightarrow> 0 < f)"
        using ht(5) True old by (auto simp: edited_group_def edit_def positive_id_def split: if_splits)
      then show ?thesis using v'(2) ht h by blast
    next
      case False
      then have "fg_fallback h0 = Some (fg_id t0)"
        using ht(5) h0 tt by (auto simp: edited_group_def edit_def split: if_splits)
      then show ?thesis using assms(1) h0 t0 ht tt by (auto simp: groups_ok_def eid)
    qed
  qed
  with dist show ?thesis by (simp add: groups_ok_def)
qed

lemma delete_group_ok:
  assumes "groups_ok gs" and "delete_group gs i = Inr gs'"
  shows "groups_ok gs'"
proof -
  define del where "del g = (if fg_id g = i \<and> \<not> fg_deleted g
    then g\<lparr>fg_status := ''inactive'', fg_deleted := True\<rparr> else g)" for g :: fallback_group
  have gs': "gs' = map del gs"
    using assms(2) by (auto simp: delete_group_def del_def [abs_def] split: if_splits)
  have "fg_id (del g) = fg_id g" "fg_fallback (del g) = fg_fallback g" "fg_code_only (del g) = fg_code_only g"
    "\<not> fg_deleted (del g) \<Longrightarrow> \<not> fg_deleted g" for g
    by (auto simp: del_def split: if_splits)
  then show ?thesis using assms(1) by (auto simp: groups_ok_def gs' comp_def)
qed

text \<open>Property C40: No edit lets a live group fall back to a live group that itself only serves
  Claude Code clients: creating, updating and deleting groups keep that, in any order.\<close>
theorem fallback_targets_stay_open:
  assumes "groups_ok gs"
    and "create_group gs new_id platform status code_only fallback = Inr gs' \<and> new_id \<notin> fg_id ` set gs \<or>
      update_group gs i status' code_only fallback = Inr gs' \<or> delete_group gs i = Inr gs'"
  shows "groups_ok gs'"
  using assms create_group_ok update_group_ok delete_group_ok by blast

text \<open>On such a table the routing of a request takes at most one step: the error for
  an invalid fallback chain cannot occur, and a routing group is the configured fallback of the
  key's group, active, standard, of a serving platform and open to every client.\<close>

lemma client_group_in_one_step:
  assumes "groups_ok gs" and "g \<in> set gs" and "\<not> fg_deleted g"
  shows "(case resolve_client_group gs policy g of
      Inl e \<Rightarrow> e \<noteq> ApiError 503 ''invalid fallback group chain''
    | Inr None \<Rightarrow> True
    | Inr (Some h) \<Rightarrow> fg_fallback g = Some (fg_id h) \<and> h \<in> set gs \<and> \<not> fg_code_only h \<and>
        fg_status h = ''active'' \<and> fg_subscription h = ''standard'' \<and> \<not> fg_oauth_only h \<and>
        serving_platform (fg_platform h))"
proof -
  have open_target: "\<not> fg_code_only h"
    if "h \<in> set gs" "\<not> fg_deleted h" "fg_fallback g = Some (fg_id h)" for h
    using assms that by (auto simp: groups_ok_def)
  have step: "(case follow_fallback gs [fg_id g] g of
      Inl e \<Rightarrow> e \<noteq> ApiError 503 ''invalid fallback group chain''
    | Inr h \<Rightarrow> fg_fallback g = Some (fg_id h) \<and> h \<in> set gs \<and> \<not> fg_code_only h \<and>
        fg_status h = ''active'' \<and> fg_subscription h = ''standard'' \<and> \<not> fg_oauth_only h \<and>
        serving_platform (fg_platform h))" if code: "fg_code_only g"
  proof (cases "fg_fallback g")
    case None
    then show ?thesis using code by (subst follow_fallback.simps) simp
  next
    case (Some i)
    then have i: "i \<noteq> fg_id g" using open_target [of g] assms(2,3) code by auto
    show ?thesis
    proof (cases "find (\<lambda>g. fg_id g = i \<and> \<not> fg_deleted g \<and> fg_status g = ''active'' \<and>
                        fg_subscription g = ''standard'' \<and> \<not> fg_oauth_only g) gs")
      case None
      then show ?thesis using code Some i by (subst follow_fallback.simps) simp
    next
      case (Some h)
      then have h: "h \<in> set gs" "fg_id h = i" "\<not> fg_deleted h" "fg_status h = ''active''"
        "fg_subscription h = ''standard''" "\<not> fg_oauth_only h"
        by (auto simp: find_Some_iff)
      then have "\<not> fg_code_only h" using open_target \<open>fg_fallback g = Some i\<close> by simp
      then have "follow_fallback gs [i, fg_id g] h = Inr h"
        by (subst follow_fallback.simps) simp
      then show ?thesis
        using code \<open>fg_fallback g = Some i\<close> i Some h \<open>\<not> fg_code_only h\<close>
        by (subst follow_fallback.simps) simp
    qed
  qed
  show ?thesis
    using step
    by (cases "follow_fallback gs [fg_id g] g") (auto simp: resolve_client_group_def split: option.splits)
qed


section \<open>Prompt similarity\<close>

lemma common_pairs_mset: "common_pairs ps qs = size (mset ps \<inter># mset qs)"
proof (induction qs arbitrary: ps)
  case Nil
  then show ?case by simp
next
  case (Cons q qs)
  show ?case
  proof (cases "q \<in> set ps")
    case True
    then have "mset ps \<inter># mset (q # qs) = add_mset q (mset (remove1 q ps) \<inter># mset qs)"
      by (simp add: inter_add_right2)
    with True Cons show ?thesis by simp
  next
    case False
    then have "mset ps \<inter># mset (q # qs) = mset ps \<inter># mset qs"
      by (simp add: inter_add_right1)
    with False Cons show ?thesis by simp
  qed
qed

lemma length_bigrams: "2 \<le> length s \<Longrightarrow> length (bigrams s) = length s - 1"
  by (simp add: bigrams_def)

text \<open>The prompt similarity is the Dice coefficient of the multisets of adjacent
  character pairs of the normalised texts: it is symmetric, lies between zero and one, and is one
  for texts that agree after normalisation.\<close>

lemma prompt_similarity_dice:
  "prompt_similarity a b = prompt_similarity b a \<and> 0 \<le> prompt_similarity a b \<and> prompt_similarity a b \<le> 1 \<and>
   prompt_similarity a b =
     (let left = prompt_runes a; right = prompt_runes b in
      if length left < 2 \<or> length right < 2 then 0
      else of_nat (2 * size (mset (bigrams left) \<inter># mset (bigrams right))) /
           of_nat (length (bigrams left) + length (bigrams right)))"
proof -
  have sym: "prompt_similarity a b = prompt_similarity b a" for a b
    using subset_mset.inf_commute [of "mset (bigrams (prompt_runes a))"]
    by (auto simp: prompt_similarity_def Let_def common_pairs_mset add.commute)
  have bound: "2 * size (mset ps \<inter># mset qs) \<le> length ps + length qs" for ps qs :: "(string \<times> string) list"
  proof -
    have "size (mset ps \<inter># mset qs) \<le> size (mset ps)" "size (mset ps \<inter># mset qs) \<le> size (mset qs)"
      by (intro size_mset_mono; simp)+
    then show ?thesis by simp
  qed
  have dice: "prompt_similarity a b =
     (let left = prompt_runes a; right = prompt_runes b in
      if length left < 2 \<or> length right < 2 then 0
      else of_nat (2 * size (mset (bigrams left) \<inter># mset (bigrams right))) /
           of_nat (length (bigrams left) + length (bigrams right)))"
    by (auto simp: prompt_similarity_def Let_def common_pairs_mset length_bigrams)
  have "prompt_similarity a b \<le> 1"
  proof (cases "length (prompt_runes a) < 2 \<or> length (prompt_runes b) < 2")
    case False
    let ?n = "length (bigrams (prompt_runes a)) + length (bigrams (prompt_runes b))"
    let ?k = "2 * size (mset (bigrams (prompt_runes a)) \<inter># mset (bigrams (prompt_runes b)))"
    have "(0::rat) < of_nat ?n" using False by (simp only: of_nat_0_less_iff) (simp add: length_bigrams)
    moreover have "(of_nat ?k :: rat) \<le> of_nat ?n" by (rule of_nat_mono [OF bound])
    ultimately have "(of_nat ?k :: rat) / of_nat ?n \<le> 1" by (simp only: divide_le_eq_1_pos)
    then show ?thesis using False by (simp only: dice Let_def if_False)
  qed (auto simp: prompt_similarity_def Let_def)
  moreover have "0 \<le> prompt_similarity a b" by (simp add: prompt_similarity_def Let_def)
  ultimately show ?thesis using sym dice by simp
qed

section \<open>Witnesses\<close>

definition open_group :: fallback_group where
  "open_group = \<lparr>fg_id = 2, fg_platform = ''anthropic'', fg_subscription = ''standard'', fg_oauth_only = False,
     fg_code_only = False, fg_fallback = None, fg_status = ''active'', fg_deleted = False\<rparr>"

definition code_group :: fallback_group where
  "code_group = open_group\<lparr>fg_id := 1, fg_code_only := True, fg_fallback := Some 2\<rparr>"

lemma sample_groups_ok: "groups_ok [code_group, open_group]"
  by (simp add: groups_ok_def code_group_def open_group_def)

theorem fallback_targets_stay_open_witness: "groups_ok [code_group, open_group\<lparr>fg_status := ''inactive''\<rparr>]"
proof (rule fallback_targets_stay_open [OF sample_groups_ok])
  have "update_group [code_group, open_group] 2 (Some ''inactive'') None None =
      Inr [code_group, open_group\<lparr>fg_status := ''inactive''\<rparr>]" by code_simp
  then show "create_group [code_group, open_group] 3 [] [] None None =
        Inr [code_group, open_group\<lparr>fg_status := ''inactive''\<rparr>] \<and> 3 \<notin> fg_id ` set [code_group, open_group] \<or>
      update_group [code_group, open_group] 2 (Some ''inactive'') None None =
        Inr [code_group, open_group\<lparr>fg_status := ''inactive''\<rparr>] \<or>
      delete_group [code_group, open_group] 2 = Inr [code_group, open_group\<lparr>fg_status := ''inactive''\<rparr>]"
    by blast
qed

theorem client_group_in_one_step_witness:
  "resolve_client_group [code_group, open_group] (Some (''messages'', False)) code_group = Inr (Some open_group) \<and>
   \<not> fg_code_only open_group"
proof
  show run: "resolve_client_group [code_group, open_group] (Some (''messages'', False)) code_group =
    Inr (Some open_group)" by code_simp
  show "\<not> fg_code_only open_group"
    using client_group_in_one_step [OF sample_groups_ok, of code_group "Some (''messages'', False)"]
    by (simp add: run) (simp add: code_group_def open_group_def)
qed

end
