(* ===== verification/Gateway.thy ===== *)
theory Gateway
  imports Pricing Json Reasoning "HOL-Library.Product_Lexorder" "HOL-Library.List_Lexorder" "HOL-Library.Char_ord"
begin

text \<open>
  The data the gateway decides on and the decisions that need nothing else: the identity of a
  request (\<open>gatewayKey\<close>, \<open>gatewayGroup\<close>, \<open>gatewayIdentity\<close> of \<open>internal/app/gateway.go\<close>), model
  allowlists and routing pools, the Messages dispatch of \<open>internal/app/messages_dispatch.go\<close>, the
  protocol and the model mapping of an upstream account (\<open>internal/app/upstream.go\<close>), and the profit
  gate of \<open>internal/app/profit_control.go\<close>. A Go map is an association list in the order in which the
  code happens to iterate. Of a group the image, audio and video prices and the manifest are kept as
  one JSON value, since the code here only compares them.
\<close>

section \<open>Data\<close>

record allowlist =
  al_enabled :: bool
  al_models :: "string list"

record dispatch_config =
  md_opus :: string
  md_sonnet :: string
  md_haiku :: string
  md_exact :: "(string \<times> string) list"

record profit_policy =
  pp_enabled :: bool
  pp_margin :: json_number
  pp_buffer :: json_number

record gateway_key =
  gk_id :: int
  gk_user :: int
  gk_group :: int
  gk_quota :: json_number
  gk_limit_5h :: json_number
  gk_limit_1d :: json_number
  gk_limit_7d :: json_number
  gk_whitelist :: "string list"
  gk_blacklist :: "string list"

record gateway_group =
  gg_id :: int
  gg_platform :: string
  gg_rate :: json_number
  gg_rpm :: int
  gg_reasoning :: reasoning_policy
  gg_profit :: profit_policy
  gg_allow_messages :: bool
  gg_messages :: dispatch_config
  gg_force_fast :: bool
  gg_free_fast :: bool
  gg_long_context :: bool
  gg_allowlist :: allowlist
  gg_pricing :: "model_price list"
  gg_routing :: "(string \<times> int list) list"
  gg_routing_enabled :: bool
  gg_code_only :: bool
  gg_fallback :: "int option"
  gg_web_search_price :: "json_number option"
  gg_search_price :: "json_number option"
  gg_allow_image :: bool
  gg_other :: json

record gateway_identity =
  gi_key :: gateway_key
  gi_group :: gateway_group
  gi_user :: int
  gi_concurrency :: int
  gi_rpm :: int
  gi_routing :: "gateway_group option"
  gi_source :: string

definition routing_group :: "gateway_identity \<Rightarrow> gateway_group" where
  "routing_group g = (case gi_routing g of None \<Rightarrow> gi_group g | Some r \<Rightarrow> r)"

definition same_routing_group :: "gateway_identity \<Rightarrow> gateway_identity \<Rightarrow> bool" where
  "same_routing_group a b \<longleftrightarrow> gi_routing a = gi_routing b"


section \<open>Allowlists and routing pools\<close>

fun clean_models :: "string list \<Rightarrow> string list \<Rightarrow> string list result" where
  "clean_models seen [] = Inr []"
| "clean_models seen (m # ms) =
     (let model = trim_space m; k = to_lower model in
      if model = [] then clean_models seen ms
      else if \<not> valid_model_pattern model then Inl (bad ''invalid model allowlist'')
      else if List.member seen k then clean_models seen ms
      else and_then (clean_models (k # seen) ms) (\<lambda>ms'. Inr (model # ms')))"

definition validate_allowlist :: "allowlist \<Rightarrow> allowlist result" where
  "validate_allowlist a =
     (if 1000 < length (al_models a) then Inl (bad ''too many allowlist models'')
      else and_then (clean_models [] (al_models a)) (\<lambda>models.
        if al_enabled a \<and> models = [] then Inl (bad ''enabled model allowlist must not be empty'')
        else Inr (a\<lparr>al_models := models\<rparr>)))"

definition allows :: "gateway_group \<Rightarrow> string \<Rightarrow> bool" where
  "allows g model \<longleftrightarrow> \<not> al_enabled (gg_allowlist g) \<or>
     list_ex (\<lambda>pattern. pattern_matches pattern model) (al_models (gg_allowlist g))"

definition covers :: "string \<Rightarrow> string \<times> int list \<Rightarrow> bool" where
  "covers model entry \<longleftrightarrow> snd entry \<noteq> [] \<and> has_suffix (fst entry) ''*'' \<and>
     has_prefix model (trim_suffix (fst entry) ''*'')"

definition longer_pattern :: "string \<times> int list \<Rightarrow> string \<times> int list \<Rightarrow> bool" where
  "longer_pattern a b \<longleftrightarrow> length (fst b) < length (fst a)"

definition routing_accounts :: "gateway_group \<Rightarrow> string \<Rightarrow> string \<Rightarrow> int list" where
  "routing_accounts g model platform =
     (if \<not> gg_routing_enabled g \<or> platform \<noteq> ''openai'' \<and> platform \<noteq> ''anthropic'' then []
      else (case assoc (gg_routing g) model of
         Some (i # is) \<Rightarrow> i # is
       | _ \<Rightarrow> (case foldl (keep_best (covers model) longer_pattern) None (gg_routing g) of
            Some entry \<Rightarrow> snd entry
          | None \<Rightarrow> (case assoc (gg_routing g) [] of None \<Rightarrow> [] | Some ids \<Rightarrow> ids))))"


section \<open>Messages dispatch\<close>

fun last_slash :: "string \<Rightarrow> string \<Rightarrow> string" where
  "last_slash cur [] = cur"
| "last_slash cur (c # s) = (if c = CHR ''/'' then last_slash s s else last_slash cur s)"

fun join_dash :: "string list \<Rightarrow> string" where
  "join_dash [] = []"
| "join_dash [p] = p"
| "join_dash (p # q # ps) = p @ ''-'' @ join_dash (q # ps)"

definition gpt_suffixes :: "string list" where
  "gpt_suffixes = [''none'', ''minimal'', ''low'', ''medium'', ''high'', ''xhigh'', ''extrahigh'']"

definition gpt_families :: "string list" where
  "gpt_families = [''gpt-5.6-sol'', ''gpt-5.6-terra'', ''gpt-5.6-luna'', ''gpt-5.5-pro'', ''gpt-5.5'',
     ''gpt-5.4-mini'', ''gpt-5.4-nano'', ''gpt-5.4'', ''gpt-5.2'', ''gpt-5.3-codex-spark'', ''gpt-5.3-codex'']"

definition gpt_spellings :: "(string \<times> string) list" where
  "gpt_spellings = [(''gpt-5.4mini'', ''gpt-5.4-mini''), (''gpt-5.4nano'', ''gpt-5.4-nano''),
     (''gpt-5.3-codexspark'', ''gpt-5.3-codex-spark''), (''gpt-5.3codexspark'', ''gpt-5.3-codex-spark''),
     (''gpt-5.3codex'', ''gpt-5.3-codex'')]"

definition gpt_family :: "string \<Rightarrow> string \<Rightarrow> string option" where
  "gpt_family raw effort =
     (case find (contains raw) gpt_families of
        Some family \<Rightarrow> Some family
      | None \<Rightarrow>
          (if trim_suffix raw (''-'' @ effort) = ''gpt-5.6'' then Some ''gpt-5.6-sol''
           else if has_prefix raw ''gpt-5.6-'' then None
           else if contains raw ''gpt-5.3'' \<or> contains raw ''codex'' then Some ''gpt-5.3-codex''
           else if contains raw ''gpt-5'' then Some ''gpt-5.4''
           else None))"

definition normalize_dispatch_model :: "string \<Rightarrow> string" where
  "normalize_dispatch_model m =
     (let model = trim_space m; raw = last_slash model model;
          parts = fields_func (\<lambda>c. c = CHR ''-'' \<or> c = CHR ''_'' \<or> c = CHR '' '') (to_lower raw)
      in if \<not> has_prefix (to_lower raw) ''gpt-'' \<or> length parts < 2 \<or> \<not> List.member gpt_suffixes (last parts)
         then model
         else (case gpt_family (replace_pairs gpt_spellings (join_dash parts)) (last parts) of
                 None \<Rightarrow> model | Some family \<Rightarrow> family))"

definition valid_dispatch_name :: "string \<Rightarrow> bool" where
  "valid_dispatch_name v \<longleftrightarrow> v = [] \<or> length v \<le> 100 \<and> valid_model_pattern v \<and> \<not> contains v ''*''"

definition normalize_exact ::
  "(string \<times> string) list \<Rightarrow> string \<times> string \<Rightarrow> (string \<times> string) list result" where
  "normalize_exact done entry =
     (let from = trim_space (fst entry); to = normalize_dispatch_model (snd entry) in
      if from = [] \<or> to = [] then Inr done
      else if \<not> valid_dispatch_name from \<or> \<not> valid_dispatch_name to
        then Inl (bad ''invalid Messages dispatch mapping'')
      else if (case assoc done from of None \<Rightarrow> False | Some previous \<Rightarrow> previous \<noteq> to)
        then Inl (bad ''conflicting Messages dispatch mappings'')
      else Inr (put from to done))"

definition normalize_dispatch :: "dispatch_config \<Rightarrow> dispatch_config result" where
  "normalize_dispatch c =
     (let opus = normalize_dispatch_model (md_opus c); sonnet = normalize_dispatch_model (md_sonnet c);
          haiku = normalize_dispatch_model (md_haiku c)
      in if \<not> list_all valid_dispatch_name [opus, sonnet, haiku] then Inl (bad ''invalid Messages dispatch model'')
         else if 1000 < length (md_exact c) then Inl (bad ''too many Messages dispatch mappings'')
         else and_then (each_with normalize_exact [] (md_exact c)) (\<lambda>exact.
           Inr \<lparr>md_opus = opus, md_sonnet = sonnet, md_haiku = haiku, md_exact = exact\<rparr>))"

definition resolve_dispatch :: "dispatch_config \<Rightarrow> string \<Rightarrow> string" where
  "resolve_dispatch c m =
     (let model = trim_space m; lower = to_lower model in
      case assoc (md_exact c) model of
        Some (t # target) \<Rightarrow> t # target
      | _ \<Rightarrow>
          (if has_prefix lower ''claude'' then
             (case find (\<lambda>(name, configured, fallback). contains lower name)
                [(''opus'', md_opus c, ''gpt-5.4''), (''sonnet'', md_sonnet c, ''gpt-5.3-codex''),
                 (''haiku'', md_haiku c, ''gpt-5.4-mini'')] of
                None \<Rightarrow> []
              | Some (name, configured, fallback) \<Rightarrow> if configured \<noteq> [] then configured else fallback)
           else []))"

definition messages_dispatch :: "gateway_identity \<Rightarrow> string \<Rightarrow> string \<Rightarrow> string result" where
  "messages_dispatch g protocol model =
     (if protocol \<noteq> ''anthropic'' \<or> gg_platform (gi_group g) \<noteq> ''openai'' then Inr []
      else if \<not> gg_allow_messages (routing_group g)
        then Inl (ApiError 403 ''this group does not allow Messages dispatch'')
      else Inr (resolve_dispatch (gg_messages (routing_group g)) model))"

text \<open>The stored switches of a group: OpenAI groups hold all three, composite groups the first.\<close>

definition store_dispatch ::
  "bool option \<Rightarrow> string option \<Rightarrow> dispatch_config option \<Rightarrow> string \<Rightarrow> bool \<times> string \<times> dispatch_config option \<Rightarrow>
   (bool \<times> string \<times> dispatch_config option) result" where
  "store_dispatch allow default_model config platform stored =
     (case stored of (allow0, default0, config0) \<Rightarrow>
       (if allow = None \<and> default_model = None \<and> config = None then Inr stored
        else if (case default_model of None \<Rightarrow> False
                 | Some d \<Rightarrow> 100 < length d \<or> contains_any d [CHR 0x0D, CHR 0x0A, CHR 0x00])
          then Inl (bad ''invalid default_mapped_model'')
        else and_then (case config of None \<Rightarrow> Inr None
                       | Some c \<Rightarrow> and_then (normalize_dispatch c) (\<lambda>c'. Inr (Some c'))) (\<lambda>c.
          Inr ((platform = ''openai'' \<or> platform = ''composite'') \<and> (case allow of None \<Rightarrow> allow0 | Some b \<Rightarrow> b),
               (if platform = ''openai'' then (case default_model of None \<Rightarrow> default0 | Some d \<Rightarrow> d) else []),
               (if platform = ''openai'' then (case c of None \<Rightarrow> config0 | Some x \<Rightarrow> Some x) else None)))))"


section \<open>Upstream accounts\<close>

record upstream_account =
  ua_id :: int
  ua_platform :: string
  ua_type :: string
  ua_credentials :: fields
  ua_extra :: fields

definition account_protocol :: "upstream_account \<Rightarrow> string" where
  "account_protocol u =
     (if ua_platform u = ''gemini'' then ''gemini''
      else if ua_platform u = ''anthropic'' then ''anthropic''
      else (let protocol = credential_string (ua_credentials u) ''api_protocol'' in
        if protocol = ''anthropic'' \<or> protocol = ''responses'' then protocol else ''chat_completions''))"

text \<open>\<open>loadAccount\<close>: the checks between the row and a usable account.\<close>

definition check_account :: "upstream_account \<Rightarrow> upstream_account result" where
  "check_account u =
     (if \<not> supported_platform (ua_platform u) \<or> ua_type u \<noteq> ''apikey''
        then Inl (bad ''account type or platform is unsupported'')
      else (let mode = credential_string (ua_credentials u) ''account_mode'' in
        if mode \<noteq> [] \<and> mode \<noteq> ''payg'' then Inl (bad ''only pay-as-you-go accounts are supported'')
        else if credential_string (ua_credentials u) ''api_key'' = [] then Inl (bad ''account has no API key'')
        else Inr u))"

definition base_url :: "upstream_account \<Rightarrow> string result" where
  "base_url u =
     (let base = credential_string (ua_credentials u) ''base_url''; p = ua_platform u;
          anthropic = (account_protocol u = ''anthropic'')
      in if base \<noteq> [] then Inr base
         else if p = ''openai'' then Inr ''https://api.openai.com''
         else if p = ''anthropic'' then Inr ''https://api.anthropic.com''
         else if p = ''gemini'' then Inr ''https://generativelanguage.googleapis.com''
         else if p = ''grok'' then Inr ''https://api.x.ai''
         else if p = ''kimi'' then Inr (if anthropic then ''https://api.moonshot.cn/anthropic''
                                        else ''https://api.moonshot.cn'')
         else if p = ''zhipu'' then Inr (if anthropic then ''https://open.bigmodel.cn/api/anthropic''
                                         else ''https://open.bigmodel.cn/api/paas/v4'')
         else if p = ''deepseek'' then Inr (if anthropic then ''https://api.deepseek.com/anthropic''
                                            else ''https://api.deepseek.com'')
         else if p = ''minimax'' then Inr (if anthropic then ''https://api.minimaxi.com/anthropic''
                                           else ''https://api.minimaxi.com'')
         else Inl (bad ''unsupported platform''))"

text \<open>A decoded model mapping: \<open>None\<close> is a value that does not decode into strings.\<close>

fun mapping_entries :: "fields \<Rightarrow> (string \<times> string) list option" where
  "mapping_entries [] = Some []"
| "mapping_entries ((k, v) # kvs) = (case (as_string (Some v), mapping_entries kvs) of
     (Some s, Some es) \<Rightarrow> Some (put k s es) | _ \<Rightarrow> None)"

definition decode_mapping :: "json option \<Rightarrow> (string \<times> string) list option" where
  "decode_mapping j = (case j of
     None \<Rightarrow> Some []
   | Some raw \<Rightarrow> (case as_object (Some raw) of
       None \<Rightarrow> None | Some None \<Rightarrow> Some [] | Some (Some kvs) \<Rightarrow> mapping_entries kvs))"

definition star_patterns :: "(string \<times> string) list \<Rightarrow> string list" where
  "star_patterns mapping =
     sort_key (\<lambda>p. (- int (length p), p)) (filter (\<lambda>p. has_suffix p ''*'') (map fst mapping))"

definition map_name ::
  "(string \<times> string) list \<Rightarrow> string \<Rightarrow> bool \<Rightarrow> (string \<times> bool) result" where
  "map_name mapping name strict =
     (if mapping = [] then Inr (name, False)
      else (case assoc mapping name of
         Some v \<Rightarrow> Inr (if v = [] then name else v, True)
       | None \<Rightarrow>
           (case find (\<lambda>p. has_prefix name (trim_suffix p ''*'')) (star_patterns mapping) of
              Some p \<Rightarrow> (let v = (case assoc mapping p of None \<Rightarrow> [] | Some v \<Rightarrow> v) in
                Inr (if v = [] \<or> v = ''*'' then name else v, True))
            | None \<Rightarrow>
                (if strict then Inl (bad ''model is not allowed by this account'') else Inr (name, False)))))"

definition map_raw :: "json option \<Rightarrow> string \<Rightarrow> bool \<Rightarrow> (string \<times> bool) result" where
  "map_raw raw name strict = (case decode_mapping raw of
     None \<Rightarrow> Inl (bad ''invalid model mapping'')
   | Some mapping \<Rightarrow> map_name mapping name strict)"

definition resolve_model_mapping :: "fields \<Rightarrow> string \<Rightarrow> bool \<Rightarrow> (string \<times> bool) result" where
  "resolve_model_mapping credentials model compaction =
     (let mapping = assoc credentials ''model_mapping''; cmapping = assoc credentials ''compact_model_mapping'';
          usual = (case map_raw mapping model True of
            Inl e \<Rightarrow> Inl e
          | Inr (mapped, matched) \<Rightarrow>
              (if \<not> compaction then Inr (mapped, matched)
               else (case map_raw cmapping mapped False of
                       Inl e \<Rightarrow> Inl e
                     | Inr (again, m) \<Rightarrow> if m then Inr (again, True) else Inr (mapped, matched))))
      in if compaction then
           (case map_raw cmapping model False of
              Inl e \<Rightarrow> Inl e
            | Inr (mapped, matched) \<Rightarrow> if matched then Inr (mapped, True) else usual)
         else usual)"

definition api_key_request_credentials :: "fields \<Rightarrow> string \<Rightarrow> fields" where
  "api_key_request_credentials source protocol =
     (let pick = (\<lambda>key. case assoc source key of None \<Rightarrow> [] | Some v \<Rightarrow> [(key, v)]) in
      [(''api_key'', case assoc source ''api_key'' of None \<Rightarrow> JNull | Some v \<Rightarrow> v),
       (''base_url'', case assoc source ''base_url'' of None \<Rightarrow> JNull | Some v \<Rightarrow> v),
       (''api_protocol'', JStr protocol)] @ pick ''header_override_enabled'' @ pick ''header_overrides'')"


section \<open>The profit gate\<close>

definition profit_platform :: "string \<Rightarrow> bool" where
  "profit_platform platform = List.member [''openai'', ''anthropic'', ''gemini'', ''grok''] platform"

definition valid_profit_ratio :: "json_number \<Rightarrow> bool" where
  "valid_profit_ratio n \<longleftrightarrow> valid_price (Some n) 1 4 \<and> rat_val n < 1"

definition store_profit ::
  "bool option \<Rightarrow> json_number option \<Rightarrow> json_number option \<Rightarrow> string \<Rightarrow> bool \<Rightarrow> profit_policy \<Rightarrow>
   profit_policy result" where
  "store_profit enabled margin buffer platform create stored =
     (if enabled = None \<and> margin = None \<and> buffer = None then Inr stored
      else (let p = \<lparr>pp_enabled = (case enabled of None \<Rightarrow> pp_enabled stored | Some b \<Rightarrow> b),
                     pp_margin = (case margin of None \<Rightarrow> pp_margin stored | Some n \<Rightarrow> n),
                     pp_buffer = (case buffer of None \<Rightarrow> pp_buffer stored | Some n \<Rightarrow> n)\<rparr> in
        if \<not> profit_platform platform then
          (if create \<and> pp_enabled p
           then Inl (bad ''profit control requires an OpenAI, Anthropic, Gemini or Grok group'')
           else Inr \<lparr>pp_enabled = False, pp_margin = ''0'', pp_buffer = ''0''\<rparr>)
        else if pp_enabled p then
          (if \<not> valid_profit_ratio (pp_margin p) \<or> \<not> valid_profit_ratio (pp_buffer p) \<or>
              1 \<le> rat_val (pp_margin p) + rat_val (pp_buffer p)
           then Inl (bad ''profit margin and buffer must be nonnegative decimals with at most four places and sum below one'')
           else Inr p)
        else Inr (p\<lparr>pp_margin := (if valid_profit_ratio (pp_margin p) then pp_margin p else ''0''),
                    pp_buffer := (if valid_profit_ratio (pp_buffer p) then pp_buffer p else ''0'')\<rparr>)))"

text \<open>The highest upstream rate a request accepts; \<open>None\<close> accepts every rate.\<close>

definition profit_threshold :: "gateway_identity \<Rightarrow> string \<Rightarrow> bool \<Rightarrow> rat option" where
  "profit_threshold g protocol count_only =
     (if count_only \<or> \<not> List.member [''responses'', ''chat_completions'', ''anthropic'', ''gemini''] protocol then None
      else (let routing = routing_group g;
                platform = (if gi_routing g = None \<and> gi_source g \<noteq> [] then gi_source g else gg_platform routing)
        in if \<not> pp_enabled (gg_profit routing) \<or> \<not> profit_platform platform then None
           else (case (rat_of (pp_margin (gg_profit routing)), rat_of (pp_buffer (gg_profit routing)),
                       rat_of (gg_rate (gi_group g))) of
                   (Some margin, Some buffer, Some rate) \<Rightarrow> Some (max 0 ((1 - (margin + buffer)) * rate))
                 | _ \<Rightarrow> Some 0)))"

definition profit_allows :: "rat option \<Rightarrow> json_number \<Rightarrow> bool" where
  "profit_allows threshold rate = (case threshold of
     None \<Rightarrow> True
   | Some t \<Rightarrow> (case rat_of rate of None \<Rightarrow> False | Some upstream \<Rightarrow> 0 \<le> upstream \<and> upstream \<le> t))"

end
