(* ===== verification/Gateway_Facts.thy ===== *)
theory Gateway_Facts
  imports Gateway
begin

text \<open>
  Guarantees of the gateway's local decisions: cleaning an allowlist keeps its meaning, routing pools
  and model mappings pick the most specific entry whatever order a Go map iterates in, normalising a
  dispatch target is idempotent, and an account the profit gate lets pass keeps the margin.
\<close>

section \<open>Allowlists\<close>

lemma pattern_matches_lower: "to_lower p = to_lower q \<Longrightarrow> pattern_matches p model = pattern_matches q model"
  by (simp add: pattern_matches_def)

lemma clean_models_meaning:
  "clean_models seen ms = Inr ms' \<Longrightarrow>
   (\<exists>p \<in> set ms'. pattern_matches p model) \<or>
     (\<exists>p \<in> set ms. List.member seen (to_lower (trim_space p)) \<and> pattern_matches (trim_space p) model) \<longleftrightarrow>
   (\<exists>p \<in> set ms. trim_space p \<noteq> [] \<and> pattern_matches (trim_space p) model) \<or>
     (\<exists>p \<in> set ms. List.member seen (to_lower (trim_space p)) \<and> pattern_matches (trim_space p) model)"
proof (induction ms arbitrary: seen ms')
  case Nil
  then show ?case by simp
next
  case (Cons m ms)
  show ?case
  proof (cases "trim_space m = [] \<or> List.member seen (to_lower (trim_space m))")
    case True
    then have "clean_models seen ms = Inr ms'"
      using Cons.prems by (auto simp: Let_def split: if_splits)
    from Cons.IH [OF this] show ?thesis using True by auto
  next
    case False
    then obtain rest where rest: "clean_models (to_lower (trim_space m) # seen) ms = Inr rest"
        "ms' = trim_space m # rest"
      using Cons.prems by (auto simp: Let_def split: if_splits sum.splits)
    show ?thesis
    proof (cases "pattern_matches (trim_space m) model")
      case True
      then show ?thesis using rest(2) False by auto
    next
      case no: False
      have "(\<exists>p \<in> set ms. List.member (to_lower (trim_space m) # seen) (to_lower (trim_space p)) \<and>
            pattern_matches (trim_space p) model) =
          (\<exists>p \<in> set ms. List.member seen (to_lower (trim_space p)) \<and> pattern_matches (trim_space p) model)"
        using no pattern_matches_lower by (metis List.member_iff list.set_intros(2) set_ConsD)
      then show ?thesis using Cons.IH [OF rest(1)] rest(2) False no by simp
    qed
  qed
qed

text \<open>Validating an allowlist keeps its meaning: the cleaned list admits a model exactly
  when the given list, blank entries apart and white space trimmed, has a pattern that matches it.\<close>

lemma allowlist_meaning_kept:
  assumes "validate_allowlist a = Inr a'"
  shows "allows (g\<lparr>gg_allowlist := a'\<rparr>) model =
    (\<not> al_enabled a \<or> list_ex (\<lambda>p. trim_space p \<noteq> [] \<and> pattern_matches (trim_space p) model) (al_models a))"
proof -
  from assms obtain ms where ms: "clean_models [] (al_models a) = Inr ms" "a' = a\<lparr>al_models := ms\<rparr>"
    by (auto simp: validate_allowlist_def split: if_splits sum.splits)
  have "(\<exists>p \<in> set ms. pattern_matches p model) =
      (\<exists>p \<in> set (al_models a). trim_space p \<noteq> [] \<and> pattern_matches (trim_space p) model)"
    using clean_models_meaning [OF ms(1), of model] by simp
  then show ?thesis by (simp add: allows_def ms(2) list_ex_iff)
qed


section \<open>Most specific entries\<close>

lemma star_prefix_eq:
  assumes "has_suffix p ''*''" "has_prefix m (trim_suffix p ''*'')"
    and "has_suffix q ''*''" "has_prefix m (trim_suffix q ''*'')" and "length p = length q"
  shows "p = q"
proof -
  obtain p' q' where pq: "p = p' @ ''*''" "q = q' @ ''*''"
    using assms(1,3) by (auto simp: go_string suffix_def)
  then have "prefix p' m" "prefix q' m" using assms(2,4) by (simp_all add: has_prefix_iff_prefix)
  moreover have "length p' = length q'" using assms(5) pq by simp
  ultimately have "p' = q'" by (metis prefix_length_prefix prefix_order.antisym order_refl)
  then show ?thesis using pq by simp
qed

interpretation pool: best_choice "covers model" longer_pattern "\<lambda>e. - int (length (fst e))" for model
  by unfold_locales (simp add: longer_pattern_def)

lemma pool_key_inj:
  assumes "distinct (map fst es)"
  shows "inj_on (\<lambda>e. - int (length (fst e))) {e \<in> set es. covers model e}"
proof (rule inj_onI)
  fix a b assume a: "a \<in> {e \<in> set es. covers model e}" and b: "b \<in> {e \<in> set es. covers model e}"
    and "- int (length (fst a)) = - int (length (fst b))"
  then have "fst a = fst b" by (auto simp: covers_def intro!: star_prefix_eq [of _ model])
  then show "a = b" using a b assms by (auto simp: distinct_map inj_on_def)
qed

lemma assoc_set_eq:
  assumes "distinct (map fst xs)" "set xs = set ys" "distinct (map fst ys)"
  shows "assoc xs k = assoc ys k"
  using assms map_of_eqI [of xs ys] map_of_inject_set by (metis assoc_eq_map_of)

text \<open>The preferred pool of a model does not depend on the order in which Go iterates
  over the routing map: an exact entry wins, else the longest matching prefix pattern.\<close>

lemma routing_pool_order_irrelevant:
  assumes "distinct (map fst es)" and "distinct (map fst es')" and "set es' = set es"
  shows "routing_accounts (g\<lparr>gg_routing := es'\<rparr>) model platform =
    routing_accounts (g\<lparr>gg_routing := es\<rparr>) model platform"
proof -
  have look: "assoc es' k = assoc es k" for k
    using assoc_set_eq assms by metis
  have "foldl (keep_best (covers model) longer_pattern) None es' =
      foldl (keep_best (covers model) longer_pattern) None es"
    by (rule pool.fold_order_irrelevant) (use assms pool_key_inj in auto)
  then show ?thesis
    by (simp add: routing_accounts_def look cong: option.case_cong list.case_cong if_cong)
qed

lemma star_patterns_iff: "p \<in> set (star_patterns mapping) \<longleftrightarrow> p \<in> fst ` set mapping \<and> has_suffix p ''*''"
  by (auto simp: star_patterns_def)

lemma sorted_find_least:
  assumes "sorted (map f xs)" and "find P xs = Some x" and "y \<in> set xs" and "P y"
  shows "(f x :: 'b::linorder) \<le> f y"
  using assms by (induction xs) (auto split: if_splits)

lemma find_star_longest:
  assumes "find (\<lambda>p. has_prefix name (trim_suffix p ''*'')) (star_patterns mapping) = Some p"
    and "q \<in> fst ` set mapping" "has_suffix q ''*''" "has_prefix name (trim_suffix q ''*'')"
  shows "length q \<le> length p"
proof -
  have "sorted (map (\<lambda>p. (- int (length p), p)) (star_patterns mapping))"
    by (simp add: star_patterns_def)
  then have "(- int (length p), p) \<le> (- int (length q), q)"
    by (rule sorted_find_least [OF _ assms(1)]) (use assms star_patterns_iff in auto)
  then show ?thesis by auto
qed

text \<open>The model mapping of an account is deterministic: an exact entry wins, else the
  longest matching prefix pattern; a strict mapping refuses a name exactly when it is not empty and
  nothing in it matches, and an entry without a target keeps the name.\<close>

lemma model_mapping_most_specific:
  "(case map_name mapping name strict of
     Inl e \<Rightarrow> strict \<and> mapping \<noteq> [] \<and> assoc mapping name = None \<and>
       (\<nexists>p. p \<in> fst ` set mapping \<and> has_suffix p ''*'' \<and> has_prefix name (trim_suffix p ''*''))
   | Inr (mapped, False) \<Rightarrow> mapped = name
   | Inr (mapped, True) \<Rightarrow>
       (\<exists>p. p \<in> fst ` set mapping \<and> (assoc mapping p = Some mapped \<or> mapped = name) \<and>
         (if assoc mapping name \<noteq> None then p = name
          else has_suffix p ''*'' \<and> has_prefix name (trim_suffix p ''*'') \<and>
            (\<nexists>q. q \<in> fst ` set mapping \<and> has_suffix q ''*'' \<and> has_prefix name (trim_suffix q ''*'') \<and>
               length p < length q))))"
proof -
  have dom: "assoc mapping k = Some v \<Longrightarrow> k \<in> fst ` set mapping" for k v
    by (auto simp: assoc_eq_map_of dest!: map_of_SomeD intro: rev_image_eqI)
  consider "mapping = []" | v where "mapping \<noteq> []" "assoc mapping name = Some v"
    | "mapping \<noteq> []" "assoc mapping name = None"
    by (cases "assoc mapping name") auto
  then show ?thesis
  proof cases
    case 1
    then show ?thesis by (simp add: map_name_def)
  next
    case (2 v)
    then show ?thesis using dom by (auto simp: map_name_def intro!: exI [of _ name])
  next
    case 3
    show ?thesis
    proof (cases "find (\<lambda>p. has_prefix name (trim_suffix p ''*'')) (star_patterns mapping)")
      case None
      then have "\<nexists>p. p \<in> fst ` set mapping \<and> has_suffix p ''*'' \<and> has_prefix name (trim_suffix p ''*'')"
        by (auto simp: find_None_iff star_patterns_iff)
      with 3 None show ?thesis by (simp add: map_name_def)
    next
      case (Some p)
      then have "p \<in> set (star_patterns mapping)" "has_prefix name (trim_suffix p ''*'')"
        by (auto simp: find_Some_iff)
      then have p: "p \<in> fst ` set mapping" "has_suffix p ''*''" "has_prefix name (trim_suffix p ''*'')"
        unfolding star_patterns_iff by simp_all
      have longest: "\<nexists>q. q \<in> fst ` set mapping \<and> has_suffix q ''*'' \<and> has_prefix name (trim_suffix q ''*'') \<and>
               length p < length q"
        using find_star_longest [OF Some] by (meson not_less)
      obtain v where v: "assoc mapping p = Some v"
        using p(1) by (cases "assoc mapping p") (auto simp: assoc_eq_map_of map_of_eq_None_iff)
      have run: "map_name mapping name strict = Inr (if v = [] \<or> v = ''*'' then name else v, True)"
        using 3 Some v by (simp add: map_name_def)
      have "\<exists>p. p \<in> fst ` set mapping \<and>
          (assoc mapping p = Some (if v = [] \<or> v = ''*'' then name else v) \<or>
            (if v = [] \<or> v = ''*'' then name else v) = name) \<and>
          has_suffix p ''*'' \<and> has_prefix name (trim_suffix p ''*'') \<and>
          (\<nexists>q. q \<in> fst ` set mapping \<and> has_suffix q ''*'' \<and> has_prefix name (trim_suffix q ''*'') \<and>
             length p < length q)"
        by (rule exI [of _ p]) (intro conjI p longest, simp add: v)
      then show ?thesis unfolding run by (simp add: 3)
    qed
  qed
qed


section \<open>Dispatch targets\<close>

lemma gpt_family_fixed: "gpt_family raw effort = Some f \<Longrightarrow> normalize_dispatch_model f = f"
proof -
  have "list_all (\<lambda>f. normalize_dispatch_model f = f) gpt_families" by code_simp
  then have fam: "f \<in> set gpt_families \<Longrightarrow> normalize_dispatch_model f = f" for f
    by (simp add: list_all_iff)
  have "set [''gpt-5.6-sol'', ''gpt-5.3-codex'', ''gpt-5.4''] \<subseteq> set gpt_families"
    by (simp add: gpt_families_def)
  moreover assume "gpt_family raw effort = Some f"
  then have "f \<in> set gpt_families \<or> f \<in> set [''gpt-5.6-sol'', ''gpt-5.3-codex'', ''gpt-5.4'']"
    by (auto simp: gpt_family_def find_Some_iff split: option.splits if_splits)
  ultimately show ?thesis using fam by blast
qed

lemma normalize_dispatch_cases:
  "normalize_dispatch_model m = trim_space m \<or> (\<exists>raw effort. gpt_family raw effort = Some (normalize_dispatch_model m))"
  by (auto simp: normalize_dispatch_model_def Let_def split: option.splits)

lemma normalize_trim: "normalize_dispatch_model (trim_space m) = normalize_dispatch_model m"
  by (simp add: normalize_dispatch_model_def)

text \<open>Normalising a dispatch target is idempotent: a stored target is never rewritten
  again, whether it kept its spelling or was replaced by a model family.\<close>

lemma normalize_dispatch_idempotent:
  "normalize_dispatch_model (normalize_dispatch_model m) = normalize_dispatch_model m"
  using normalize_dispatch_cases [of m] normalize_trim [of m] gpt_family_fixed by metis


section \<open>The profit gate\<close>

text \<open>An account the profit gate lets pass keeps the promised margin: with an enabled and
  valid policy and a valid billing rate, an admitted upstream rate is at most the billed rate less
  the margin and the safety buffer, both taken from the billed rate.\<close>

lemma profit_gate_keeps_margin:
  assumes "profit_threshold g protocol count_only = Some t" and "profit_allows (Some t) rate"
    and "store_profit (Some True) (Some margin) (Some buffer) platform create stored = Inr (gg_profit (routing_group g))"
    and "profit_platform platform" and "valid_price (Some (gg_rate (gi_group g))) 6 4"
  shows "0 \<le> rat_val rate \<and>
    rat_val rate + (rat_val margin + rat_val buffer) * rat_val (gg_rate (gi_group g)) \<le> rat_val (gg_rate (gi_group g))"
proof -
  from assms(3,4) have pol: "gg_profit (routing_group g) = \<lparr>pp_enabled = True, pp_margin = margin, pp_buffer = buffer\<rparr>"
    and valid: "valid_profit_ratio margin" "valid_profit_ratio buffer" "rat_val margin + rat_val buffer < 1"
    by (auto simp: store_profit_def Let_def split: if_splits)
  have vals: "rat_of margin = Some (rat_val margin)" "rat_of buffer = Some (rat_val buffer)"
    "rat_of (gg_rate (gi_group g)) = Some (rat_val (gg_rate (gi_group g)))"
    using valid assms(5) by (auto simp: valid_profit_ratio_def intro: valid_price_value)
  have "0 \<le> rat_val (gg_rate (gi_group g))" using assms(5) by (rule rat_val_nonneg_if_valid)
  then have nn: "0 \<le> (1 - (rat_val margin + rat_val buffer)) * rat_val (gg_rate (gi_group g))"
    using valid(3) by simp
  have t: "t = (1 - (rat_val margin + rat_val buffer)) * rat_val (gg_rate (gi_group g))"
    using assms(1) pol vals nn by (auto simp: profit_threshold_def Let_def split: if_splits)
  from assms(2) have "0 \<le> rat_val rate" "rat_val rate \<le> t"
    by (auto simp: profit_allows_def rat_val_def split: option.splits)
  then show ?thesis by (simp add: t algebra_simps)
qed


section \<open>Witnesses\<close>

definition sample_group :: gateway_group where
  "sample_group = \<lparr>gg_id = 3, gg_platform = ''openai'', gg_rate = ''1.5'', gg_rpm = 0,
     gg_reasoning = \<lparr>rp_max = [], rp_over = ''downgrade'', rp_mappings = []\<rparr>,
     gg_profit = \<lparr>pp_enabled = True, pp_margin = ''0.2'', pp_buffer = ''0.05''\<rparr>,
     gg_allow_messages = True,
     gg_messages = \<lparr>md_opus = [], md_sonnet = [], md_haiku = [], md_exact = []\<rparr>,
     gg_force_fast = False, gg_free_fast = False, gg_long_context = True,
     gg_allowlist = \<lparr>al_enabled = True, al_models = [''gpt-5*'']\<rparr>, gg_pricing = [],
     gg_routing = [(''gpt-*'', [1]), (''gpt-5*'', [2])], gg_routing_enabled = True, gg_code_only = False,
     gg_fallback = None, gg_web_search_price = None, gg_search_price = None, gg_allow_image = False,
     gg_other = JNull\<rparr>"

definition sample_identity :: gateway_identity where
  "sample_identity = \<lparr>gi_key = \<lparr>gk_id = 9, gk_user = 4, gk_group = 3, gk_quota = ''0'', gk_limit_5h = ''0'',
       gk_limit_1d = ''0'', gk_limit_7d = ''0'', gk_whitelist = [], gk_blacklist = []\<rparr>,
     gi_group = sample_group, gi_user = 4, gi_concurrency = 2, gi_rpm = 0, gi_routing = None,
     gi_source = ''openai''\<rparr>"

theorem allowlist_meaning_kept_witness:
  "allows (sample_group\<lparr>gg_allowlist := \<lparr>al_enabled = True, al_models = [''gpt-5*'']\<rparr>\<rparr>) ''GPT-5-mini''"
proof -
  have v: "validate_allowlist \<lparr>al_enabled = True, al_models = ['' gpt-5*'', '' '', ''GPT-5*'']\<rparr> =
      Inr \<lparr>al_enabled = True, al_models = [''gpt-5*'']\<rparr>" by code_simp
  show ?thesis
    unfolding allowlist_meaning_kept [OF v] by code_simp
qed

theorem routing_pool_order_irrelevant_witness:
  "routing_accounts (sample_group\<lparr>gg_routing := [(''gpt-5*'', [2]), (''gpt-*'', [1])]\<rparr>) ''gpt-5-mini'' ''openai'' = [2]"
proof -
  have "routing_accounts (sample_group\<lparr>gg_routing := [(''gpt-5*'', [2]), (''gpt-*'', [1])]\<rparr>) ''gpt-5-mini'' ''openai'' =
      routing_accounts (sample_group\<lparr>gg_routing := [(''gpt-*'', [1]), (''gpt-5*'', [2])]\<rparr>) ''gpt-5-mini'' ''openai''"
    by (rule routing_pool_order_irrelevant) auto
  also have "\<dots> = [2]" by code_simp
  finally show ?thesis .
qed

theorem profit_gate_keeps_margin_witness:
  "rat_val ''1.125'' + (rat_val ''0.2'' + rat_val ''0.05'') * rat_val ''1.5'' \<le> rat_val ''1.5''"
proof -
  have t: "profit_threshold sample_identity ''responses'' False = Some (9 / 8)" by code_simp
  have allowed: "profit_allows (Some (9 / 8)) ''1.125''" by code_simp
  have stored: "store_profit (Some True) (Some ''0.2'') (Some ''0.05'') ''openai'' False
      \<lparr>pp_enabled = False, pp_margin = ''0'', pp_buffer = ''0''\<rparr> = Inr (gg_profit (routing_group sample_identity))"
    by code_simp
  have rate: "gg_rate (gi_group sample_identity) = ''1.5''" by code_simp
  have valid: "valid_price (Some (gg_rate (gi_group sample_identity))) 6 4" by code_simp
  have "profit_platform ''openai''" by code_simp
  from profit_gate_keeps_margin [OF t allowed stored this valid] show ?thesis by (simp add: rate)
qed

end
