(* ===== verification/Admission.thy ===== *)
theory Admission
  imports Gateway Composite
begin

text \<open>
  Admission of requests, \<open>internal/app/concurrency.go\<close> with the slot counters of
  \<open>internal/app/gateway.go\<close>: counters of active requests per resource, the bounded wait queues, the
  wake-up channel that a release replaces, the stop of admission, the attempt of a user slot and the
  check of a request that has waited. The counters and queues are one record; every critical
  section of \<open>gatewayMu\<close> is one function on it. A wake-up channel is a number: closing the channel
  and making a new one is taking the next number, so a channel below the current number is closed.
  The interleaving of the waiting goroutines is the step relation at the end, with one step per
  critical section. The keys \<open>kind:id\<close> of the Go maps are pairs.
\<close>

type_synonym resource = "string \<times> int"

record slots =
  sl_active :: "(resource \<times> int) list"
  sl_waiting :: "(resource \<times> int) list"
  sl_queued :: int
  sl_stopped :: bool
  sl_lost :: bool
  sl_wake :: nat

definition tally_of :: "(resource \<times> int) list \<Rightarrow> resource \<Rightarrow> int" where
  "tally_of m k = (case assoc m k of None \<Rightarrow> 0 | Some n \<Rightarrow> n)"

definition active :: "slots \<Rightarrow> resource \<Rightarrow> int" where
  "active s k = tally_of (sl_active s) k"

definition waiting :: "slots \<Rightarrow> resource \<Rightarrow> int" where
  "waiting s k = tally_of (sl_waiting s) k"


section \<open>Critical sections\<close>

definition take_slot :: "slots \<Rightarrow> resource \<Rightarrow> int \<Rightarrow> bool \<times> slots" where
  "take_slot s k limit =
     (if sl_stopped s \<or> sl_lost s \<or> limit \<le> 0 \<or> limit \<le> active s k then (False, s)
      else (True, s\<lparr>sl_active := put k (active s k + 1) (sl_active s)\<rparr>))"

definition wake :: "slots \<Rightarrow> slots" where
  "wake s = s\<lparr>sl_wake := sl_wake s + 1\<rparr>"

definition release_slot :: "slots \<Rightarrow> resource \<Rightarrow> slots" where
  "release_slot s k =
     (let n = active s k - 1 in
      wake (s\<lparr>sl_active := (if n \<le> 0 then remove k (sl_active s) else put k n (sl_active s))\<rparr>))"

definition track_key_slot :: "slots \<Rightarrow> int \<Rightarrow> slots" where
  "track_key_slot s i = s\<lparr>sl_active := put (''key'', i) (active s (''key'', i) + 1) (sl_active s)\<rparr>"

definition stop_admission :: "slots \<Rightarrow> slots" where
  "stop_admission s = wake (s\<lparr>sl_stopped := True\<rparr>)"

definition admission_wake :: "slots \<Rightarrow> nat result" where
  "admission_wake s =
     (if sl_stopped s \<or> sl_lost s
      then Inl (ApiError 503 ''gateway is stopping or has lost its instance lock'')
      else Inr (sl_wake s))"

definition queue_limit :: "string \<Rightarrow> int" where
  "queue_limit kind = (if kind = ''user'' then 20 else 100)"

text \<open>Joining and leaving the queue of a resource; \<open>None\<close> when the queue is full.\<close>

definition join_queue :: "slots \<Rightarrow> resource \<Rightarrow> slots option" where
  "join_queue s k =
     (if queue_limit (fst k) \<le> waiting s k \<or> 128 \<le> sl_queued s then None
      else Some (s\<lparr>sl_waiting := put k (waiting s k + 1) (sl_waiting s), sl_queued := sl_queued s + 1\<rparr>))"

definition leave_queue :: "slots \<Rightarrow> resource \<Rightarrow> slots" where
  "leave_queue s k =
     (let n = waiting s k - 1 in
      s\<lparr>sl_waiting := (if n = 0 then remove k (sl_waiting s) else put k n (sl_waiting s)),
        sl_queued := sl_queued s - 1\<rparr>)"


section \<open>The attempt of a user slot\<close>

text \<open>
  The callback of \<open>acquireGatewayUser\<close>. After a wait the identity is fetched again: \<open>fresh\<close> is what
  \<open>checkInstance\<close> and \<open>gatewayAuth\<close> return, \<open>None\<close> on the first attempt. \<open>canceled_before\<close> and
  \<open>canceled_after\<close> are the state of the context before and after the slot was taken.
\<close>

definition refreshed_identity ::
  "gateway_identity \<Rightarrow> gateway_identity result option \<Rightarrow> gateway_identity result" where
  "refreshed_identity initial fresh = (case fresh of
     None \<Rightarrow> Inr initial
   | Some (Inl e) \<Rightarrow> Inl e
   | Some (Inr g) \<Rightarrow>
       (if gk_id (gi_key g) \<noteq> gk_id (gi_key initial) \<or> gk_group (gi_key g) \<noteq> gk_group (gi_key initial) \<or>
           gi_user g \<noteq> gi_user initial \<or> \<not> same_routing_group g initial
        then Inl (conflict ''API key assignment changed while queued; retry the request'') else Inr g))"

definition canceled :: failure where
  "canceled = Internal ''context canceled''"

definition attempt_user ::
  "slots \<Rightarrow> gateway_identity \<Rightarrow> gateway_identity result option \<Rightarrow> string \<Rightarrow> bool \<Rightarrow> bool \<Rightarrow>
   slots \<times> gateway_identity option result" where
  "attempt_user s initial fresh model canceled_before canceled_after =
     (case refreshed_identity initial fresh of
        Inl e \<Rightarrow> (s, Inl e)
      | Inr g \<Rightarrow>
          (if \<not> allows (gi_group g) model then (s, Inl denied)
           else if gi_concurrency g \<le> 0 then (s, Inl (ApiError 429 ''user concurrency is disabled''))
           else if canceled_before then (s, Inl canceled)
           else (case take_slot s (''user'', gi_user g) (gi_concurrency g) of
                   (ready, s') \<Rightarrow>
                     (if ready \<and> canceled_after then (release_slot s' (''user'', gi_user g), Inl canceled)
                      else (s', Inr (if ready then Some g else None))))))"

text \<open>
  \<open>revalidateQueuedRequest\<close>: \<open>policy\<close> is the policy the request was admitted under, \<open>endpoint\<close> and
  \<open>routing_model\<close> what its composite route was resolved from and to. \<open>fresh\<close>, \<open>config\<close> and \<open>quota\<close> are
  the results of \<open>gatewayAuth\<close>, \<open>loadComposite\<close> and \<open>checkPlatformQuota\<close>.
\<close>

definition revalidate_queued ::
  "slots \<Rightarrow> gateway_identity \<Rightarrow> gateway_group \<Rightarrow> string \<Rightarrow> string \<Rightarrow> string \<Rightarrow> unit result \<Rightarrow>
   gateway_identity result \<Rightarrow> (int \<Rightarrow> composite_config result) \<Rightarrow> unit result \<Rightarrow> gateway_identity result" where
  "revalidate_queued s g policy model endpoint routing_model inst fresh config quota =
     and_then inst (\<lambda>_. and_then fresh (\<lambda>f.
       if gk_id (gi_key f) \<noteq> gk_id (gi_key g) \<or> gk_group (gi_key f) \<noteq> gk_group (gi_key g) \<or>
          gi_user f \<noteq> gi_user g \<or> gi_group f \<noteq> policy \<or> \<not> same_routing_group f g
         then Inl (conflict ''gateway policy changed while queued; retry the request'')
       else if \<not> allows (gi_group f) model then Inl denied
       else (let routing = routing_group f in
         and_then (if gg_platform routing = ''composite'' then
             and_then (config (gg_id routing)) (\<lambda>c.
               (let d = resolve_composite c (gg_id routing) model endpoint in
                if \<not> d_matched d \<or> d_platform d \<noteq> gg_platform (gi_group g) \<or> d_upstream d \<noteq> routing_model
                then Inl (conflict ''composite route changed while queued; retry the request'') else Inr ()))
           else Inr ()) (\<lambda>_.
         and_then (if gg_platform (gi_group f) = ''composite'' then quota else Inr ()) (\<lambda>_.
           if gi_concurrency f \<le> 0 \<or> gi_concurrency f < active s (''user'', gi_user g)
             then Inl (ApiError 429 ''user concurrency limit changed while queued'')
           else Inr (g\<lparr>gi_key := gi_key f, gi_concurrency := gi_concurrency f, gi_rpm := gi_rpm f\<rparr>))))))"

text \<open>\<open>gatewayRPM\<close>: the script counts a request in both windows or in none.\<close>

definition request_windows :: "int \<Rightarrow> int \<Rightarrow> int \<times> int \<Rightarrow> bool \<times> int \<times> int" where
  "request_windows user_limit group_limit counts = (case counts of (u, g) \<Rightarrow>
     (if 0 < user_limit \<and> user_limit \<le> u \<or> 0 < group_limit \<and> group_limit \<le> g then (False, u, g)
      else (True, u + 1, g + 1)))"


section \<open>Interleaving\<close>

text \<open>
  A goroutine waits in the queue \<open>w_queue\<close> of one resource. Each attempt goes through a list of
  resources with the limits it has read: the user itself for \<open>acquireGatewayUser\<close>, the candidates of
  \<open>chooseAccount\<close> for an upstream slot, where the queue is the one of the account that was reported
  busy and the slot may be of any account. \<open>w_tried\<close> are the resources this attempt has found full.
  Once a user slot is held, the request is counted for its key (\<open>trackKeySlot\<close>), which neither checks
  a limit nor the stop; the counter is given back before the slot.
\<close>

datatype outcome = Admitted resource | Refused failure

datatype phase =
    Checking
  | Attempting nat "(resource \<times> int) list"
  | Undoing resource
  | Joining nat
  | Sleeping nat
  | Leaving outcome
  | Finished outcome

record waiter =
  w_queue :: resource
  w_tried :: "(resource \<times> int) list"
  w_tracked :: "int option"
  w_queued :: bool
  w_phase :: phase

type_synonym system = "slots \<times> (nat \<rightharpoonup> waiter)"

definition newcomer :: "resource \<Rightarrow> waiter" where
  "newcomer k = \<lparr>w_queue = k, w_tried = [], w_tracked = None, w_queued = False, w_phase = Checking\<rparr>"

text \<open>
  One step of one goroutine in \<open>waitAdmission\<close>, or of the process. \<open>cap k\<close> is the highest limit that
  is ever configured for the resource \<open>k\<close>; the limit an attempt uses is read anew each time and is any
  number up to it. A sleeper may wake at any time: the ticker, the heartbeat and the end of the
  context wake it as well as the channel. A goroutine that holds a slot leaves the queue first and
  releases the slot when its request has ended. The first choice of an account is made before
  \<open>waitAdmission\<close>; it is an attempt that is cut off when every account is busy.
\<close>

inductive step :: "(resource \<Rightarrow> int) \<Rightarrow> system \<Rightarrow> system \<Rightarrow> bool" for cap where
  arrive: "ws t = None \<Longrightarrow> step cap (s, ws) (s, ws(t \<mapsto> newcomer k))"
| expired: "ws t = Some w \<Longrightarrow> w_phase w = Checking \<Longrightarrow>
    step cap (s, ws) (s, ws(t \<mapsto> w\<lparr>w_phase := Leaving (Refused e)\<rparr>))"
| turned_away: "ws t = Some w \<Longrightarrow> w_phase w = Checking \<Longrightarrow> admission_wake s = Inl e \<Longrightarrow>
    step cap (s, ws) (s, ws(t \<mapsto> w\<lparr>w_phase := Leaving (Refused e)\<rparr>))"
| look: "ws t = Some w \<Longrightarrow> w_phase w = Checking \<Longrightarrow> admission_wake s = Inr ch \<Longrightarrow>
    (\<forall>(k, l) \<in> set todo. l \<le> cap k \<and> fst k \<noteq> ''key'') \<Longrightarrow>
    step cap (s, ws) (s, ws(t \<mapsto> w\<lparr>w_tried := [], w_phase := Attempting ch todo\<rparr>))"
| refuse: "ws t = Some w \<Longrightarrow> w_phase w = Attempting ch todo \<Longrightarrow>
    step cap (s, ws) (s, ws(t \<mapsto> w\<lparr>w_phase := Leaving (Refused e)\<rparr>))"
| cut_off: "ws t = Some w \<Longrightarrow> w_phase w = Attempting ch todo \<Longrightarrow>
    step cap (s, ws) (s, ws(t \<mapsto> w\<lparr>w_phase := Checking\<rparr>))"
| take: "ws t = Some w \<Longrightarrow> w_phase w = Attempting ch ((k, l) # todo) \<Longrightarrow> take_slot s k l = (True, s') \<Longrightarrow>
    step cap (s, ws) (s', ws(t \<mapsto> w\<lparr>w_phase := Leaving (Admitted k)\<rparr>))"
| take_late: "ws t = Some w \<Longrightarrow> w_phase w = Attempting ch ((k, l) # todo) \<Longrightarrow> take_slot s k l = (True, s') \<Longrightarrow>
    step cap (s, ws) (s', ws(t \<mapsto> w\<lparr>w_phase := Undoing k\<rparr>))"
| undo: "ws t = Some w \<Longrightarrow> w_phase w = Undoing k \<Longrightarrow>
    step cap (s, ws) (release_slot s k, ws(t \<mapsto> w\<lparr>w_phase := Checking\<rparr>))"
| next_one: "ws t = Some w \<Longrightarrow> w_phase w = Attempting ch ((k, l) # todo) \<Longrightarrow> take_slot s k l = (False, s') \<Longrightarrow>
    step cap (s, ws) (s', ws(t \<mapsto> w\<lparr>w_tried := (k, l) # w_tried w, w_phase := Attempting ch todo\<rparr>))"
| busy: "ws t = Some w \<Longrightarrow> w_phase w = Attempting ch [] \<Longrightarrow>
    step cap (s, ws) (s, ws(t \<mapsto> w\<lparr>w_phase := (if w_queued w then Sleeping ch else Joining ch)\<rparr>))"
| join: "ws t = Some w \<Longrightarrow> w_phase w = Joining ch \<Longrightarrow> join_queue s (w_queue w) = Some s' \<Longrightarrow>
    step cap (s, ws) (s', ws(t \<mapsto> w\<lparr>w_queued := True, w_phase := Sleeping ch\<rparr>))"
| full: "ws t = Some w \<Longrightarrow> w_phase w = Joining ch \<Longrightarrow> join_queue s (w_queue w) = None \<Longrightarrow>
    step cap (s, ws) (s, ws(t \<mapsto> w\<lparr>w_phase := Leaving (Refused (ApiError 429 (fst (w_queue w) @ '' concurrency queue is full'')))\<rparr>))"
| woken: "ws t = Some w \<Longrightarrow> w_phase w = Sleeping ch \<Longrightarrow>
    step cap (s, ws) (s, ws(t \<mapsto> w\<lparr>w_phase := Checking\<rparr>))"
| ping_failed: "ws t = Some w \<Longrightarrow> w_phase w = Sleeping ch \<Longrightarrow>
    step cap (s, ws) (s, ws(t \<mapsto> w\<lparr>w_phase := Leaving (Refused e)\<rparr>))"
| leave: "ws t = Some w \<Longrightarrow> w_phase w = Leaving r \<Longrightarrow>
    step cap (s, ws) (if w_queued w then leave_queue s (w_queue w) else s,
      ws(t \<mapsto> w\<lparr>w_queued := False, w_phase := Finished r\<rparr>))"
| track: "ws t = Some w \<Longrightarrow> w_phase w = Finished (Admitted (''user'', u)) \<Longrightarrow> w_tracked w = None \<Longrightarrow>
    step cap (s, ws) (track_key_slot s i, ws(t \<mapsto> w\<lparr>w_tracked := Some i\<rparr>))"
| untrack: "ws t = Some w \<Longrightarrow> w_tracked w = Some i \<Longrightarrow>
    step cap (s, ws) (release_slot s (''key'', i), ws(t \<mapsto> w\<lparr>w_tracked := None\<rparr>))"
| finish: "ws t = Some w \<Longrightarrow> w_phase w = Finished (Admitted k) \<Longrightarrow> w_tracked w = None \<Longrightarrow>
    step cap (s, ws) (release_slot s k, ws(t := None))"
| gone: "ws t = Some w \<Longrightarrow> w_phase w = Finished (Refused e) \<Longrightarrow> step cap (s, ws) (s, ws(t := None))"
| stop: "step cap (s, ws) (stop_admission s, ws)"
| lost: "step cap (s, ws) (s\<lparr>sl_lost := True\<rparr>, ws)"

definition fresh_slots :: slots where
  "fresh_slots = \<lparr>sl_active = [], sl_waiting = [], sl_queued = 0, sl_stopped = False, sl_lost = False, sl_wake = 0\<rparr>"

inductive reachable :: "(resource \<Rightarrow> int) \<Rightarrow> system \<Rightarrow> bool" for cap where
  init: "reachable cap (fresh_slots, \<lambda>_. None)"
| next_step: "reachable cap x \<Longrightarrow> step cap x y \<Longrightarrow> reachable cap y"

inductive_cases step_cases: "step cap (s, ws) y"

end
