(* ===== verification/Admission_Facts.thy ===== *)
theory Admission_Facts
  imports Admission Gateway_Facts
begin

text \<open>
  Guarantees of admission. The slot counters are an instance of a small interface (taking and
  releasing counted resources), from which the balance of every user of slots follows. Over all
  interleavings: a counter is the number of holders and never exceeds its limit, the queues stay
  within their bounds, no waiter sleeps on an open channel while its resource is free, and no slot
  is taken after the stop.
\<close>

section \<open>Counted resources\<close>

locale counted_resources =
  fixes count :: "'s \<Rightarrow> 'k \<Rightarrow> int" and take :: "'s \<Rightarrow> 'k \<Rightarrow> int \<Rightarrow> bool \<times> 's" and release :: "'s \<Rightarrow> 'k \<Rightarrow> 's"
  assumes take_True: "take s k l = (True, s') \<Longrightarrow> count s k < l \<and> 0 < l \<and>
      count s' j = count s j + (if j = k then 1 else 0)"
    and take_False: "take s k l = (False, s') \<Longrightarrow> s' = s"
    and release_count: "0 < count s k \<Longrightarrow> count (release s k) j = count s j - (if j = k then 1 else 0)"
begin

lemma take_release:
  assumes "take s k l = (True, s')" "0 \<le> count s k"
  shows "count (release s' k) j = count s j"
proof -
  have "count s' k = count s k + 1" using take_True [OF assms(1), of k] by simp
  then have "0 < count s' k" using assms(2) by simp
  from release_count [OF this, of j] take_True [OF assms(1), of j] show ?thesis by simp
qed

lemma take_within:
  assumes "take s k l = (b, s')" "count s j \<le> m" "j = k \<Longrightarrow> l \<le> m"
  shows "count s' j \<le> m"
proof (cases b)
  case True
  then have "take s k l = (True, s')" using assms(1) by simp
  from take_True [OF this, of j] assms(2,3) show ?thesis by (cases "j = k") auto
next
  case False
  then show ?thesis using take_False [of s k l s'] assms by simp
qed

end

lemma tally_put: "tally_of (put k n m) j = (if j = k then n else tally_of m j)"
  by (simp add: tally_of_def assoc_put)

lemma tally_remove: "tally_of (remove k m) j = (if j = k then 0 else tally_of m j)"
  by (simp add: tally_of_def assoc_remove)

lemma take_slot_True:
  "take_slot s k l = (True, s') \<Longrightarrow> active s k < l \<and> 0 < l \<and> active s' j = active s j + (if j = k then 1 else 0) \<and>
     \<not> sl_stopped s \<and> \<not> sl_lost s \<and> s' = s\<lparr>sl_active := sl_active s'\<rparr>"
  by (auto simp: take_slot_def active_def tally_put split: if_splits)

lemma take_slot_False:
  "take_slot s k l = (False, s') \<Longrightarrow> s' = s \<and> (sl_stopped s \<or> sl_lost s \<or> l \<le> max 0 (active s k))"
  by (auto simp: take_slot_def split: if_splits)

lemma release_slot_active:
  "0 < active s k \<Longrightarrow> active (release_slot s k) j = active s j - (if j = k then 1 else 0)"
  by (auto simp: release_slot_def active_def wake_def Let_def tally_put tally_remove)

interpretation slots: counted_resources active take_slot release_slot
proof unfold_locales
  fix s s' k l j
  assume t: "take_slot s k l = (True, s')"
  show "active s k < l \<and> 0 < l \<and> active s' j = active s j + (if j = k then 1 else 0)"
    using take_slot_True [OF t] by blast
next
  fix s s' k l
  assume "take_slot s k l = (False, s')"
  then show "s' = s" using take_slot_False by blast
next
  fix s k j
  assume "0 < active s k"
  then show "active (release_slot s k) j = active s j - (if j = k then 1 else 0)"
    by (rule release_slot_active)
qed

text \<open>Property C4: An attempt of a user slot leaves the counters as they were unless it succeeds:
  errors, a busy user and a cancellation in between retain no slot. When it succeeds the identity
  is allowed to use the model and the user holds at most the configured number of slots.\<close>
theorem attempt_retains_nothing:
  assumes "attempt_user s initial fresh model before after = (s', r)" and "0 \<le> active s (''user'', u)"
    and "\<And>g. refreshed_identity initial fresh = Inr g \<Longrightarrow> gi_user g = u"
  shows "case r of
      Inr (Some g) \<Rightarrow> gi_user g = u \<and> allows (gi_group g) model \<and>
        active s' (''user'', u) = active s (''user'', u) + 1 \<and> active s' (''user'', u) \<le> gi_concurrency g
    | _ \<Rightarrow> active s' j = active s j"
proof (cases "refreshed_identity initial fresh")
  case (Inl e)
  then show ?thesis using assms(1) by (auto simp: attempt_user_def)
next
  case (Inr g)
  have u: "gi_user g = u" using assms(3) Inr by blast
  obtain ready s1 where t: "take_slot s (''user'', u) (gi_concurrency g) = (ready, s1)" by fastforce
  show ?thesis
  proof (cases "ready \<and> allows (gi_group g) model \<and> 0 < gi_concurrency g \<and> \<not> before")
    case True
    have "active (release_slot s1 (''user'', u)) j = active s j"
      using True t assms(2) by (intro slots.take_release) auto
    then show ?thesis
      using assms(1) Inr u t True take_slot_True [of s "(''user'', u)" "gi_concurrency g" s1 "(''user'', u)"]
      by (auto simp: attempt_user_def split: if_splits)
  next
    case False
    then show ?thesis
      using assms(1) Inr u t take_slot_False [of s "(''user'', u)" "gi_concurrency g" s1]
      by (auto simp: attempt_user_def split: if_splits prod.splits)
  qed
qed


section \<open>Counting waiters\<close>

definition number :: "(waiter \<Rightarrow> bool) \<Rightarrow> (nat \<rightharpoonup> waiter) \<Rightarrow> int" where
  "number P ws = int (card {t. \<exists>w. ws t = Some w \<and> P w})"

definition counts :: "(waiter \<Rightarrow> bool) \<Rightarrow> waiter option \<Rightarrow> int" where
  "counts P x = (case x of None \<Rightarrow> 0 | Some w \<Rightarrow> if P w then 1 else 0)"

lemma number_upd:
  assumes "finite (dom ws)"
  shows "number P (ws(t := x)) = number P ws + counts P x - counts P (ws t)"
proof -
  define S where "S = {u. u \<noteq> t \<and> (\<exists>w. ws u = Some w \<and> P w)}"
  have "S \<subseteq> dom ws" by (auto simp: S_def)
  then have fin: "finite S" using assms finite_subset by blast
  have notin: "t \<notin> S" by (simp add: S_def)
  have "number P (ws(t := y)) = int (card S) + counts P y" for y
  proof (cases "\<exists>w. y = Some w \<and> P w")
    case True
    then have "{u. \<exists>w. (ws(t := y)) u = Some w \<and> P w} = insert t S" by (auto simp: S_def)
    then show ?thesis using True fin notin by (auto simp: number_def counts_def)
  next
    case False
    then have "{u. \<exists>w. (ws(t := y)) u = Some w \<and> P w} = S" by (auto simp: S_def)
    then show ?thesis using False by (auto simp: number_def counts_def split: option.splits)
  qed
  from this [of x] this [of "ws t"] show ?thesis by simp
qed

lemma number_empty [simp]: "number P (\<lambda>_. None) = 0"
  by (simp add: number_def)

lemma number_nonneg: "0 \<le> number P ws"
  by (simp add: number_def)

lemma number_pos:
  assumes "finite (dom ws)" "ws t = Some w" "P w"
  shows "0 < number P ws"
proof -
  have "number P (ws(t := None)) = number P ws - 1"
    using number_upd [OF assms(1), of P t None] assms(2,3) by (simp add: counts_def)
  then show ?thesis using number_nonneg [of P "ws(t := None)"] by simp
qed

text \<open>The slot a waiter holds, and the counters it has raised: that of the slot and that of the key
  its request is counted for.\<close>

definition slot_of :: "waiter \<Rightarrow> resource option" where
  "slot_of w = (case w_phase w of
     Leaving (Admitted k) \<Rightarrow> Some k | Finished (Admitted k) \<Rightarrow> Some k | Undoing k \<Rightarrow> Some k | _ \<Rightarrow> None)"

definition holds :: "resource \<Rightarrow> waiter \<Rightarrow> bool" where
  "holds k w \<longleftrightarrow> slot_of w = Some k \<or> (\<exists>i. w_tracked w = Some i \<and> k = (''key'', i))"

definition queued_for :: "resource \<Rightarrow> waiter \<Rightarrow> bool" where
  "queued_for k w \<longleftrightarrow> w_queue w = k \<and> w_queued w"

text \<open>A waiter is where its phase says: only sleepers are known to be queued, a joiner is not yet,
  and one that is through is not any more. It tries and holds slots of users and accounts within
  their limits, and is counted for a key only while it holds its slot.\<close>

definition in_place :: "(resource \<Rightarrow> int) \<Rightarrow> waiter \<Rightarrow> bool" where
  "in_place cap w \<longleftrightarrow>
     (case w_phase w of
        Attempting ch todo \<Rightarrow> (\<forall>(k, l) \<in> set todo. l \<le> cap k \<and> fst k \<noteq> ''key'')
      | Joining ch \<Rightarrow> \<not> w_queued w | Sleeping ch \<Rightarrow> w_queued w | Finished r \<Rightarrow> \<not> w_queued w | _ \<Rightarrow> True) \<and>
     (\<forall>k. slot_of w = Some k \<longrightarrow> fst k \<noteq> ''key'') \<and>
     (w_tracked w = None \<or> (\<exists>k. w_phase w = Finished (Admitted k)))"

text \<open>The channel a waiter has looked at before the attempt it is making or has made in vain.\<close>

definition watched :: "waiter \<Rightarrow> nat option" where
  "watched w = (case w_phase w of
     Attempting ch todo \<Rightarrow> Some ch | Joining ch \<Rightarrow> Some ch | Sleeping ch \<Rightarrow> Some ch | _ \<Rightarrow> None)"

definition waiter_ok :: "(resource \<Rightarrow> int) \<Rightarrow> slots \<Rightarrow> waiter \<Rightarrow> bool" where
  "waiter_ok cap s w \<longleftrightarrow> in_place cap w \<and> (\<forall>ch. watched w = Some ch \<longrightarrow> ch \<le> sl_wake s) \<and>
     (watched w = Some (sl_wake s) \<longrightarrow> \<not> sl_stopped s \<longrightarrow> \<not> sl_lost s \<longrightarrow>
       (\<forall>(k, l) \<in> set (w_tried w). l \<le> max 0 (active s k)))"

definition admission_inv :: "(resource \<Rightarrow> int) \<Rightarrow> system \<Rightarrow> bool" where
  "admission_inv cap x \<longleftrightarrow> (case x of (s, ws) \<Rightarrow>
     finite (dom ws) \<and>
     (\<forall>k. active s k = number (holds k) ws) \<and>
     (\<forall>k. fst k \<noteq> ''key'' \<longrightarrow> active s k \<le> max 0 (cap k)) \<and>
     (\<forall>k. waiting s k = number (queued_for k) ws \<and> waiting s k \<le> queue_limit (fst k)) \<and>
     sl_queued s = number w_queued ws \<and> sl_queued s \<le> 128 \<and>
     (\<forall>t w. ws t = Some w \<longrightarrow> waiter_ok cap s w))"

lemma admission_invD:
  assumes "admission_inv cap (s, ws)"
  shows "finite (dom ws)" "active s k = number (holds k) ws" "fst k \<noteq> ''key'' \<Longrightarrow> active s k \<le> max 0 (cap k)"
    "waiting s k = number (queued_for k) ws" "waiting s k \<le> queue_limit (fst k)"
    "sl_queued s = number w_queued ws" "sl_queued s \<le> 128" "ws t = Some w \<Longrightarrow> waiter_ok cap s w"
  using assms unfolding admission_inv_def by blast+

lemma waiter_ok_mono:
  assumes ok: "waiter_ok cap s w" and le: "sl_wake s \<le> sl_wake s'"
    and more: "sl_wake s' = sl_wake s \<Longrightarrow> (\<forall>k. active s k \<le> active s' k) \<and> (sl_stopped s \<longrightarrow> sl_stopped s') \<and> (sl_lost s \<longrightarrow> sl_lost s')"
  shows "waiter_ok cap s' w"
proof -
  have seen: "watched w = Some ch \<Longrightarrow> ch \<le> sl_wake s'" for ch
    using ok le order_trans unfolding waiter_ok_def by blast
  have "\<forall>(k, l) \<in> set (w_tried w). l \<le> max 0 (active s' k)"
    if "watched w = Some (sl_wake s')" "\<not> sl_stopped s'" "\<not> sl_lost s'"
  proof -
    have same: "sl_wake s' = sl_wake s" using ok that(1) le unfolding waiter_ok_def by (simp add: antisym)
    have "\<forall>(k, l) \<in> set (w_tried w). l \<le> max 0 (active s k)"
      using ok that same more unfolding waiter_ok_def by auto
    then show ?thesis using more [OF same] by (fastforce intro: order_trans)
  qed
  then show ?thesis using ok seen unfolding waiter_ok_def by blast
qed

text \<open>One waiter changes: what has to be checked.\<close>

lemma admission_inv_upd:
  assumes inv: "admission_inv cap (s, ws)"
    and act: "\<And>k. active s' k = active s k + counts (holds k) y - counts (holds k) (ws t)"
    and act_cap: "\<And>k. fst k \<noteq> ''key'' \<Longrightarrow> active s' k \<le> max 0 (cap k)"
    and wait: "\<And>k. waiting s' k = waiting s k + counts (queued_for k) y - counts (queued_for k) (ws t)"
    and wait_cap: "\<And>k. waiting s' k \<le> queue_limit (fst k)"
    and queue: "sl_queued s' = sl_queued s + counts w_queued y - counts w_queued (ws t)" "sl_queued s' \<le> 128"
    and mono: "sl_wake s \<le> sl_wake s'"
      "sl_wake s' = sl_wake s \<Longrightarrow> (\<forall>k. active s k \<le> active s' k) \<and> (sl_stopped s \<longrightarrow> sl_stopped s') \<and> (sl_lost s \<longrightarrow> sl_lost s')"
    and local: "\<And>w. y = Some w \<Longrightarrow> waiter_ok cap s' w"
  shows "admission_inv cap (s', ws(t := y))"
proof -
  note inv' = admission_invD [OF inv]
  have fin: "finite (dom (ws(t := y)))" using inv'(1) by (simp add: dom_fun_upd)
  have num: "number P (ws(t := y)) = number P ws + counts P y - counts P (ws t)" for P
    by (rule number_upd [OF inv'(1)])
  have each: "waiter_ok cap s' w" if "(ws(t := y)) u = Some w" for u w
    using that local inv'(8) [of u w] waiter_ok_mono [OF _ mono] by (cases "u = t") auto
  show ?thesis
    unfolding admission_inv_def prod.case
    using fin act act_cap wait wait_cap queue num inv'(2,4,6) each by simp
qed

lemma counts_simps [simp]:
  "counts P None = 0" "counts P (Some w) = (if P w then 1 else 0)"
  by (simp_all add: counts_def)

lemma slots_parts [simp]:
  "active (s\<lparr>sl_lost := b\<rparr>) k = active s k" "waiting (s\<lparr>sl_lost := b\<rparr>) k = waiting s k"
  "active (stop_admission s) k = active s k" "waiting (stop_admission s) k = waiting s k"
  "waiting (release_slot s k') k = waiting s k" "sl_queued (release_slot s k') = sl_queued s"
  "sl_wake (release_slot s k') = Suc (sl_wake s)" "sl_wake (stop_admission s) = Suc (sl_wake s)"
  "sl_queued (stop_admission s) = sl_queued s"
  "active (leave_queue s k') k = active s k" "sl_wake (leave_queue s k') = sl_wake s"
  "sl_stopped (leave_queue s k') = sl_stopped s" "sl_lost (leave_queue s k') = sl_lost s"
  "waiting (leave_queue s k') k = waiting s k - (if k = k' then 1 else 0)"
  "sl_queued (leave_queue s k') = sl_queued s - 1"
  "sl_stopped (release_slot s k') = sl_stopped s" "sl_lost (release_slot s k') = sl_lost s"
  by (auto simp: active_def waiting_def stop_admission_def wake_def release_slot_def leave_queue_def Let_def
      tally_put tally_remove)

lemma join_queue_Some:
  "join_queue s k = Some s' \<Longrightarrow> waiting s k < queue_limit (fst k) \<and> sl_queued s < 128 \<and>
     waiting s' j = waiting s j + (if j = k then 1 else 0) \<and> sl_queued s' = sl_queued s + 1 \<and>
     active s' j = active s j \<and> sl_wake s' = sl_wake s \<and> sl_stopped s' = sl_stopped s \<and> sl_lost s' = sl_lost s"
  by (auto simp: join_queue_def waiting_def active_def tally_put split: if_splits)

lemma admission_wake_Inr: "admission_wake s = Inr ch \<Longrightarrow> ch = sl_wake s"
  by (auto simp: admission_wake_def split: if_splits)

lemmas waiter_defs = holds_def slot_of_def queued_for_def in_place_def watched_def waiter_ok_def

text \<open>A step that touches no counter.\<close>

lemma admission_inv_local:
  assumes "admission_inv cap (s, ws)"
    and "\<And>k. counts (holds k) y = counts (holds k) (ws t)"
    and "\<And>k. counts (queued_for k) y = counts (queued_for k) (ws t)"
    and "counts w_queued y = counts w_queued (ws t)"
    and "\<And>w. y = Some w \<Longrightarrow> waiter_ok cap s w"
  shows "admission_inv cap (s, ws(t := y))"
  by (rule admission_inv_upd [OF assms(1)]) (use assms(2-5) admission_invD [OF assms(1)] in simp_all)

lemma admission_inv_same:
  assumes "admission_inv cap (s, ws)" "ws t = Some w" "w_queue v = w_queue w" "w_queued v = w_queued w"
    "slot_of v = slot_of w" "w_tracked v = w_tracked w" "waiter_ok cap s v"
  shows "admission_inv cap (s, ws(t \<mapsto> v))"
  by (rule admission_inv_local [OF assms(1)]) (use assms(2-7) in \<open>simp_all add: queued_for_def holds_def\<close>)

text \<open>A counter is lowered with the waiter that had raised it.\<close>

lemma admission_inv_release:
  assumes inv: "admission_inv cap (s, ws)" and w: "ws t = Some w"
    and h: "\<And>k. counts (holds k) (Some w) = counts (holds k) y + (if k = j then 1 else 0)"
    and same: "\<And>k. counts (queued_for k) y = counts (queued_for k) (Some w)" "counts w_queued y = counts w_queued (Some w)"
    and y: "\<And>v. y = Some v \<Longrightarrow> in_place cap v \<and> watched v = None"
  shows "admission_inv cap (release_slot s j, ws(t := y))"
proof -
  note inv' = admission_invD [OF inv]
  have "0 \<le> counts (holds j) y" by (simp add: counts_def split: option.splits)
  then have "holds j w" using h [of j] by (simp split: if_splits)
  then have pos: "0 < active s j" using number_pos [where P = "holds j", OF inv'(1) w] inv'(2) by simp
  have act: "active (release_slot s j) k = active s k - (if k = j then 1 else 0)" for k
    by (rule release_slot_active [OF pos])
  show ?thesis
  proof (rule admission_inv_upd [OF inv])
    fix k :: resource
    show "active (release_slot s j) k = active s k + counts (holds k) y - counts (holds k) (ws t)"
      using act [of k] h [of k] w by simp
    show "fst k \<noteq> ''key'' \<Longrightarrow> active (release_slot s j) k \<le> max 0 (cap k)"
      using act [of k] inv'(3) [of k] by (simp split: if_splits)
    show "waiting (release_slot s j) k = waiting s k + counts (queued_for k) y - counts (queued_for k) (ws t)"
      using same w by simp
    show "waiting (release_slot s j) k \<le> queue_limit (fst k)" using inv'(5) by simp
  next
    fix v assume "y = Some v"
    then show "waiter_ok cap (release_slot s j) v" using y by (simp add: waiter_ok_def)
  qed (use same w inv'(7) in simp_all)
qed

lemma admission_inv_take:
  assumes inv: "admission_inv cap (s, ws)" and w: "ws t = Some w" and ph: "w_phase w = Attempting ch ((k, l) # todo)"
    and tk: "take_slot s k l = (True, s')" and p: "p = Leaving (Admitted k) \<or> p = Undoing k"
  shows "admission_inv cap (s', ws(t \<mapsto> w\<lparr>w_phase := p\<rparr>))"
proof -
  note inv' = admission_invD [OF inv]
  note tk' = take_slot_True [OF tk]
  have ok: "in_place cap w" using inv'(8) [OF w] by (simp add: waiter_ok_def)
  have kl: "l \<le> cap k" "fst k \<noteq> ''key''" "w_tracked w = None" using ok ph by (auto simp: in_place_def)
  have s': "s' = s\<lparr>sl_active := sl_active s'\<rparr>" using tk' by blast
  have parts: "sl_wake s' = sl_wake s" "sl_stopped s' = sl_stopped s" "sl_lost s' = sl_lost s"
    "waiting s' j = waiting s j" "sl_queued s' = sl_queued s" for j
    by (subst s', simp add: waiting_def)+
  have act: "active s' j = active s j + (if j = k then 1 else 0)" for j using tk' by blast
  have lim: "active s k < l" using tk' by blast
  have new: "slot_of (w\<lparr>w_phase := p\<rparr>) = Some k" "slot_of w = None" using p ph by (auto simp: slot_of_def)
  show ?thesis
  proof (rule admission_inv_upd [OF inv])
    fix j :: resource
    show "active s' j = active s j + counts (holds j) (Some (w\<lparr>w_phase := p\<rparr>)) - counts (holds j) (ws t)"
      using act [of j] w new kl(3) by (auto simp: holds_def)
    show "fst j \<noteq> ''key'' \<Longrightarrow> active s' j \<le> max 0 (cap j)"
      using act [of j] inv'(3) [of j] lim kl(1) by (simp split: if_splits)
    show "waiting s' j = waiting s j + counts (queued_for j) (Some (w\<lparr>w_phase := p\<rparr>)) - counts (queued_for j) (ws t)"
      using w by (simp add: parts queued_for_def)
    show "waiting s' j \<le> queue_limit (fst j)" using inv'(5) by (simp add: parts)
  next
    fix v assume "Some (w\<lparr>w_phase := p\<rparr>) = Some v"
    then have "v = w\<lparr>w_phase := p\<rparr>" by simp
    then show "waiter_ok cap s' v"
      using p new kl by (auto simp: waiter_ok_def in_place_def watched_def)
  qed (use inv'(7) act w in \<open>simp_all add: parts\<close>)
qed

lemma admission_inv_track:
  assumes inv: "admission_inv cap (s, ws)" and w: "ws t = Some w" and ph: "w_phase w = Finished (Admitted k)"
    and free: "w_tracked w = None"
  shows "admission_inv cap (track_key_slot s i, ws(t \<mapsto> w\<lparr>w_tracked := Some i\<rparr>))"
proof -
  note inv' = admission_invD [OF inv]
  have ok: "in_place cap w" using inv'(8) [OF w] by (simp add: waiter_ok_def)
  have sl: "slot_of w = Some k" "slot_of (w\<lparr>w_tracked := Some i\<rparr>) = Some k" using ph by (simp_all add: slot_of_def)
  have nk: "fst k \<noteq> ''key''" using ok sl by (simp add: in_place_def)
  have act: "active (track_key_slot s i) j = active s j + (if j = (''key'', i) then 1 else 0)" for j
    by (simp add: track_key_slot_def active_def tally_put)
  have parts: "waiting (track_key_slot s i) j = waiting s j" "sl_queued (track_key_slot s i) = sl_queued s"
    "sl_wake (track_key_slot s i) = sl_wake s" "sl_stopped (track_key_slot s i) = sl_stopped s"
    "sl_lost (track_key_slot s i) = sl_lost s" for j
    by (simp_all add: track_key_slot_def waiting_def)
  show ?thesis
  proof (rule admission_inv_upd [OF inv])
    fix j :: resource
    show "active (track_key_slot s i) j = active s j + counts (holds j) (Some (w\<lparr>w_tracked := Some i\<rparr>)) - counts (holds j) (ws t)"
      using act [of j] w sl nk free by (auto simp: holds_def)
    show "fst j \<noteq> ''key'' \<Longrightarrow> active (track_key_slot s i) j \<le> max 0 (cap j)"
      using act [of j] inv'(3) [of j] by (auto split: if_splits)
    show "waiting (track_key_slot s i) j = waiting s j + counts (queued_for j) (Some (w\<lparr>w_tracked := Some i\<rparr>)) - counts (queued_for j) (ws t)"
      using w by (simp add: parts queued_for_def)
    show "waiting (track_key_slot s i) j \<le> queue_limit (fst j)" using inv'(5) by (simp add: parts)
  next
    fix v assume "Some (w\<lparr>w_tracked := Some i\<rparr>) = Some v"
    then show "waiter_ok cap (track_key_slot s i) v"
      using ok ph sl nk by (auto simp: waiter_ok_def in_place_def watched_def)
  qed (use inv'(7) act w in \<open>simp_all add: parts\<close>)
qed

lemma admission_inv_join:
  assumes inv: "admission_inv cap (s, ws)" and w: "ws t = Some w" and ph: "w_phase w = Joining ch"
    and j: "join_queue s (w_queue w) = Some s'"
  shows "admission_inv cap (s', ws(t \<mapsto> w\<lparr>w_queued := True, w_phase := Sleeping ch\<rparr>))"
proof -
  let ?v = "w\<lparr>w_queued := True, w_phase := Sleeping ch\<rparr>"
  note inv' = admission_invD [OF inv]
  note j' = join_queue_Some [OF j]
  have ok: "waiter_ok cap s w" using inv'(8) [OF w] .
  have out: "\<not> w_queued w" using ok ph by (simp add: waiter_ok_def in_place_def)
  have parts: "sl_wake s' = sl_wake s" "sl_stopped s' = sl_stopped s" "sl_lost s' = sl_lost s"
    "active s' k = active s k" "sl_queued s' = sl_queued s + 1" "sl_queued s < 128"
    "waiting s' k = waiting s k + (if k = w_queue w then 1 else 0)" "waiting s (w_queue w) < queue_limit (fst (w_queue w))" for k
    using j' by blast+
  have slot: "slot_of ?v = slot_of w" using ph by (simp add: slot_of_def)
  show ?thesis
  proof (rule admission_inv_upd [OF inv])
    fix k :: resource
    show "waiting s' k = waiting s k + counts (queued_for k) (Some ?v) - counts (queued_for k) (ws t)"
      using w out by (auto simp: parts queued_for_def)
    show "waiting s' k \<le> queue_limit (fst k)"
      using parts(7) [of k] parts(8) inv'(5) [of k] by (simp split: if_splits)
    show "active s' k = active s k + counts (holds k) (Some ?v) - counts (holds k) (ws t)"
      using w slot by (simp add: parts holds_def)
    show "fst k \<noteq> ''key'' \<Longrightarrow> active s' k \<le> max 0 (cap k)" using inv'(3) by (simp add: parts)
  next
    fix v assume "Some ?v = Some v"
    then show "waiter_ok cap s' v"
      using ok ph slot by (auto simp: waiter_ok_def in_place_def watched_def parts)
  qed (use parts w out in simp_all)
qed

lemma admission_inv_leave:
  assumes inv: "admission_inv cap (s, ws)" and w: "ws t = Some w" and ph: "w_phase w = Leaving r" and q: "w_queued w"
  shows "admission_inv cap (leave_queue s (w_queue w), ws(t \<mapsto> w\<lparr>w_queued := False, w_phase := Finished r\<rparr>))"
proof (rule admission_inv_upd [OF inv])
  let ?v = "w\<lparr>w_queued := False, w_phase := Finished r\<rparr>"
  note inv' = admission_invD [OF inv]
  have slot: "slot_of ?v = slot_of w" using ph by (simp add: slot_of_def)
  fix k :: resource
  show "active (leave_queue s (w_queue w)) k = active s k + counts (holds k) (Some ?v) - counts (holds k) (ws t)"
    using w slot by (simp add: holds_def)
  show "waiting (leave_queue s (w_queue w)) k = waiting s k + counts (queued_for k) (Some ?v) - counts (queued_for k) (ws t)"
    using w q by (auto simp: queued_for_def)
  show "fst k \<noteq> ''key'' \<Longrightarrow> active (leave_queue s (w_queue w)) k \<le> max 0 (cap k)" using inv'(3) by simp
  show "waiting (leave_queue s (w_queue w)) k \<le> queue_limit (fst k)" using inv'(5) [of k] by (cases "k = w_queue w") auto
  fix v assume "Some ?v = Some v"
  then show "waiter_ok cap (leave_queue s (w_queue w)) v"
    using admission_invD(8) [OF inv w] slot ph by (auto simp: waiter_ok_def in_place_def watched_def)
qed (use w q admission_invD(7) [OF inv] in simp_all)

lemma admission_inv_stop:
  assumes inv: "admission_inv cap (s, ws)"
  shows "admission_inv cap (stop_admission s, ws)" "admission_inv cap (s\<lparr>sl_lost := True\<rparr>, ws)"
proof -
  note inv' = admission_invD [OF inv]
  have "sl_stopped (stop_admission s)" by (simp add: stop_admission_def wake_def)
  moreover have "ws t = Some w \<Longrightarrow> waiter_ok cap (stop_admission s) w" for t w
    using waiter_ok_mono [OF inv'(8) [of t w], of "stop_admission s"] by simp
  ultimately show "admission_inv cap (stop_admission s, ws)"
    unfolding admission_inv_def prod.case using inv'(1-7) by simp
  have "ws t = Some w \<Longrightarrow> waiter_ok cap (s\<lparr>sl_lost := True\<rparr>) w" for t w
    using waiter_ok_mono [OF inv'(8) [of t w], of "s\<lparr>sl_lost := True\<rparr>"] by simp
  then show "admission_inv cap (s\<lparr>sl_lost := True\<rparr>, ws)"
    unfolding admission_inv_def prod.case using inv'(1-7) by simp
qed

lemma admission_inv_step:
  "step cap x y \<Longrightarrow> admission_inv cap x \<Longrightarrow> admission_inv cap y"
proof (induction rule: step.induct)
  case (arrive ws t s k)
  then show ?case
    by (intro admission_inv_local) (auto simp: waiter_defs newcomer_def)
next
  case (look ws t w s ch todo)
  then have "ch = sl_wake s" using admission_wake_Inr by blast
  with look admission_invD(8) [OF look(5,1)] show ?case
    by (intro admission_inv_same [OF look(5,1)]) (auto simp: waiter_defs)
next
  case (take ws t w ch k l todo s s')
  show ?case by (rule admission_inv_take [OF take(4) take(1,2,3)]) simp
next
  case (take_late ws t w ch k l todo s s')
  show ?case by (rule admission_inv_take [OF take_late(4) take_late(1,2,3)]) simp
next
  case (undo ws t w k s)
  then have "in_place cap w" using admission_invD(8) by (auto simp: waiter_ok_def)
  then show ?case using undo(2) by (intro admission_inv_release [OF undo(3,1)]) (auto simp: waiter_defs)
next
  case (next_one ws t w ch k l todo s s')
  have s': "s' = s" and full: "sl_stopped s \<or> sl_lost s \<or> l \<le> max 0 (active s k)"
    using take_slot_False [OF next_one(3)] by simp_all
  show ?case unfolding s' using full next_one(2) admission_invD(8) [OF next_one(4,1)]
    by (intro admission_inv_same [OF next_one(4,1)]) (auto simp: waiter_defs)
next
  case (busy ws t w ch s)
  then show ?case using admission_invD(8) [OF busy(3,1)]
    by (cases "w_queued w"; intro admission_inv_same [OF busy(3,1)]) (auto simp: waiter_defs)
next
  case (join ws t w ch s s')
  show ?case by (rule admission_inv_join [OF join(4,1,2,3)])
next
  case (leave ws t w r s)
  show ?case
  proof (cases "w_queued w")
    case True
    then show ?thesis using admission_inv_leave [OF leave(3,1,2)] by simp
  next
    case False
    then show ?thesis using leave(2) admission_invD(8) [OF leave(3,1)]
      by (auto simp: waiter_defs intro!: admission_inv_same [OF leave(3,1)] split: outcome.splits)
  qed
next
  case (track ws t w u s i)
  show ?case by (rule admission_inv_track [OF track(4,1,2,3)])
next
  case (untrack ws t w i s)
  have ok: "in_place cap w" using admission_invD(8) [OF untrack(3,1)] by (simp add: waiter_ok_def)
  then obtain k where ph: "w_phase w = Finished (Admitted k)" using untrack(2) by (auto simp: in_place_def)
  have "fst k \<noteq> ''key''" using ok ph by (auto simp: in_place_def slot_of_def)
  then show ?case using untrack(2) ok ph
    by (intro admission_inv_release [OF untrack(3,1)]) (auto simp: waiter_defs)
next
  case (finish ws t w k s)
  have ok: "in_place cap w" using admission_invD(8) [OF finish(4,1)] by (simp add: waiter_ok_def)
  show ?case using finish(2,3) ok
    by (intro admission_inv_release [OF finish(4,1)]) (auto simp: waiter_defs)
next
  case (gone ws t w e s)
  then show ?case using admission_invD(8) [OF gone(3,1)]
    by (intro admission_inv_local [OF gone(3)]) (auto simp: waiter_defs)
next
  case (stop s ws)
  then show ?case by (rule admission_inv_stop(1))
next
  case (lost s ws)
  then show ?case by (rule admission_inv_stop(2))
next
  case (expired ws t w s e)
  then show ?case using admission_invD(8) [OF expired(3,1)]
    by (intro admission_inv_same [OF expired(3,1)]) (auto simp: waiter_defs)
next
  case (turned_away ws t w s e)
  then show ?case using admission_invD(8) [OF turned_away(4,1)]
    by (intro admission_inv_same [OF turned_away(4,1)]) (auto simp: waiter_defs)
next
  case (refuse ws t w ch todo s e)
  then show ?case using admission_invD(8) [OF refuse(3,1)]
    by (intro admission_inv_same [OF refuse(3,1)]) (auto simp: waiter_defs)
next
  case (cut_off ws t w ch todo s)
  then show ?case using admission_invD(8) [OF cut_off(3,1)]
    by (intro admission_inv_same [OF cut_off(3,1)]) (auto simp: waiter_defs)
next
  case (full ws t w ch s)
  then show ?case using admission_invD(8) [OF full(4,1)]
    by (intro admission_inv_same [OF full(4,1)]) (auto simp: waiter_defs)
next
  case (woken ws t w ch s)
  then show ?case using admission_invD(8) [OF woken(3,1)]
    by (intro admission_inv_same [OF woken(3,1)]) (auto simp: waiter_defs)
next
  case (ping_failed ws t w ch s e)
  then show ?case using admission_invD(8) [OF ping_failed(3,1)]
    by (intro admission_inv_same [OF ping_failed(3,1)]) (auto simp: waiter_defs)
qed

lemma admission_inv_reachable:
  "reachable cap x \<Longrightarrow> admission_inv cap x"
proof (induction rule: reachable.induct)
  case init
  show ?case
    by (simp add: admission_inv_def fresh_slots_def active_def waiting_def tally_of_def queue_limit_def)
next
  case (next_step x y)
  then show ?case using admission_inv_step by (cases x) auto
qed

section \<open>What every interleaving guarantees\<close>

section \<open>What every interleaving guarantees\<close>

text \<open>Property C1: However the goroutines interleave, the counter of a user, an account or a key is
  the number of goroutines that hold it, and the counter of a user or an account never exceeds the
  highest limit configured for it (keys are counted without a limit); the queue of a resource and
  the queue of the process hold exactly the waiters that wait and stay within 20 per user, 100 per
  account and 128 in all.\<close>
theorem slots_never_exceed_limits:
  assumes "reachable cap (s, ws)"
  shows "active s k = int (card {t. \<exists>w. ws t = Some w \<and> holds k w}) \<and> (fst k = ''key'' \<or> active s k \<le> max 0 (cap k)) \<and>
    waiting s k = int (card {t. \<exists>w. ws t = Some w \<and> queued_for k w}) \<and> waiting s k \<le> queue_limit (fst k) \<and>
    sl_queued s = int (card {t. \<exists>w. ws t = Some w \<and> w_queued w}) \<and> sl_queued s \<le> 128"
  using admission_invD(2-7) [OF admission_inv_reachable [OF assms], unfolded number_def] by blast

text \<open>Property C2: No wake-up is lost. A waiter that sleeps while one of the resources its last
  attempt found full has a free slot, and admission is open, sleeps on a channel that a release has
  already closed, so it wakes and tries again; a waiter that is joining the queue will not sleep on
  an open channel either.\<close>
theorem no_lost_wakeup:
  assumes "reachable cap (s, ws)" "ws t = Some w" "w_phase w = Sleeping ch \<or> w_phase w = Joining ch"
    and "(k, l) \<in> set (w_tried w)" "active s k < l" "\<not> sl_stopped s" "\<not> sl_lost s"
  shows "ch < sl_wake s"
proof (rule ccontr)
  note inv = admission_inv_reachable [OF assms(1)]
  have ok: "waiter_ok cap s w" by (rule admission_invD(8) [OF inv assms(2)])
  have seen: "watched w = Some ch" using assms(3) by (auto simp: watched_def)
  assume "\<not> ch < sl_wake s"
  then have "ch = sl_wake s" using ok seen by (auto simp: waiter_ok_def)
  then have "l \<le> max 0 (active s k)" using ok seen assms(4,6,7) by (auto simp: waiter_ok_def)
  moreover have "0 \<le> active s k" using admission_invD(2) [OF inv] number_nonneg by simp
  ultimately show False using assms(5) by linarith
qed

definition slot_at :: "system \<Rightarrow> nat \<Rightarrow> resource option" where
  "slot_at x t = (case snd x t of None \<Rightarrow> None | Some w \<Rightarrow> slot_of w)"

definition shut :: "system \<Rightarrow> bool" where
  "shut x \<longleftrightarrow> sl_stopped (fst x) \<or> sl_lost (fst x)"

lemma release_slot_le:
  "0 \<le> active s j \<Longrightarrow> active (release_slot s j) k \<le> active s k"
  by (auto simp: release_slot_def wake_def Let_def active_def tally_put tally_remove)

lemma closed_step:
  "step cap x y \<Longrightarrow> (\<And>k. 0 \<le> active (fst x) k) \<Longrightarrow> shut x \<Longrightarrow>
     shut y \<and> (fst k \<noteq> ''key'' \<longrightarrow> active (fst y) k \<le> active (fst x) k) \<and>
     (slot_at y t = None \<or> slot_at y t = slot_at x t)"
proof (induction rule: step.induct)
  case (take ws t w ch k l todo s s')
  then show ?case using take_slot_True [OF take(3)] by (auto simp: shut_def)
next
  case (take_late ws t w ch k l todo s s')
  then show ?case using take_slot_True [OF take_late(3)] by (auto simp: shut_def)
next
  case (next_one ws t w ch k l todo s s')
  then show ?case using take_slot_False [OF next_one(3)] by (auto simp: slot_at_def slot_of_def shut_def)
next
  case (join ws t w ch s s')
  then show ?case using join_queue_Some [OF join(3), of k] by (auto simp: slot_at_def slot_of_def shut_def)
next
  case (undo ws t w j s)
  then show ?case using release_slot_le by (auto simp: slot_at_def slot_of_def shut_def)
next
  case (untrack ws t w i s)
  then show ?case using release_slot_le by (auto simp: slot_at_def slot_of_def shut_def)
next
  case (finish ws t w j s)
  then show ?case using release_slot_le by (auto simp: slot_at_def slot_of_def shut_def)
next
  case (track ws t w u s i)
  then show ?case by (auto simp: slot_at_def slot_of_def shut_def track_key_slot_def active_def tally_put)
next
  case (stop s ws)
  have "sl_stopped (stop_admission s)" by (simp add: stop_admission_def wake_def)
  then show ?case by (simp add: shut_def slot_at_def)
qed (auto simp: slot_at_def slot_of_def shut_def newcomer_def)

text \<open>Property C3: Once admission has stopped or the instance lock is lost it never opens again, and
  from then on no user slot and no account slot is taken: the counters of users and accounts do not
  grow, and every goroutine that holds a slot had it already at the stop. (A request admitted before
  may still be counted for its key.)\<close>
theorem nothing_admitted_after_stop:
  assumes "reachable cap x" "sl_stopped (fst x) \<or> sl_lost (fst x)" "(step cap)\<^sup>*\<^sup>* x y"
  shows "(sl_stopped (fst y) \<or> sl_lost (fst y)) \<and> (fst k = ''key'' \<or> active (fst y) k \<le> active (fst x) k) \<and>
    (slot_at y t = None \<or> slot_at y t = slot_at x t)"
proof -
  have "reachable cap y \<and> shut y \<and> (fst k \<noteq> ''key'' \<longrightarrow> active (fst y) k \<le> active (fst x) k) \<and>
    (slot_at y t = None \<or> slot_at y t = slot_at x t)"
    using assms(3)
  proof (induction rule: rtranclp_induct)
    case base
    then show ?case using assms(1,2) by (simp add: shut_def)
  next
    case (step y z)
    have r: "reachable cap z" using step(2,3) reachable.next_step by blast
    have pos: "0 \<le> active (fst y) j" for j
    proof -
      obtain s ws where y: "y = (s, ws)" by (cases y)
      then have "admission_inv cap (s, ws)" using step(3) admission_inv_reachable by simp
      from admission_invD(2) [OF this] show ?thesis using number_nonneg y by simp
    qed
    from closed_step [OF step(2) pos, where k = k and t = t] step(3) r show ?case by auto
  qed
  then show ?thesis unfolding shut_def by blast
qed


section \<open>A sample run\<close>

text \<open>Two requests of one user whose limit is one: the first is admitted, the second finds the slot
  taken and sleeps, and the end of the first closes the channel the second sleeps on.\<close>

definition one_slot :: "resource \<Rightarrow> int" where
  "one_slot k = 1"

definition sample_waiter :: "(resource \<times> int) list \<Rightarrow> bool \<Rightarrow> phase \<Rightarrow> waiter" where
  "sample_waiter tried queued p = (newcomer (''user'', 7))\<lparr>w_tried := tried, w_queued := queued, w_phase := p\<rparr>"

definition full_slots :: slots where
  "full_slots = fresh_slots\<lparr>sl_active := [((''user'', 7), 1)]\<rparr>"

definition first_admitted :: system where
  "first_admitted = (full_slots, [1 \<mapsto> sample_waiter [] False (Finished (Admitted (''user'', 7)))])"

definition second_sleeping :: system where
  "second_sleeping =
     (full_slots\<lparr>sl_waiting := [((''user'', 7), 1)], sl_queued := 1\<rparr>,
      [1 \<mapsto> sample_waiter [] False (Finished (Admitted (''user'', 7))),
       2 \<mapsto> sample_waiter [((''user'', 7), 1)] True (Sleeping 0)])"

definition slot_freed :: system where
  "slot_freed = (fresh_slots\<lparr>sl_waiting := [((''user'', 7), 1)], sl_queued := 1, sl_wake := 1\<rparr>,
      [2 \<mapsto> sample_waiter [((''user'', 7), 1)] True (Sleeping 0)])"

lemmas sample_defs = first_admitted_def second_sleeping_def slot_freed_def one_slot_def fresh_slots_def full_slots_def
  sample_waiter_def newcomer_def take_slot_def active_def waiting_def tally_of_def admission_wake_def join_queue_def
  queue_limit_def release_slot_def wake_def Let_def put_def remove_def

lemma sample_waiter_parts [simp]:
  "w_phase (sample_waiter tr q p) = p" "w_queued (sample_waiter tr q p) = q" "w_tried (sample_waiter tr q p) = tr"
  "w_queue (sample_waiter tr q p) = (''user'', 7)" "w_tracked (sample_waiter tr q p) = None"
  "(sample_waiter tr q p)\<lparr>w_phase := p'\<rparr> = sample_waiter tr q p'"
  "(sample_waiter tr q p)\<lparr>w_tried := tr', w_phase := p'\<rparr> = sample_waiter tr' q p'"
  "(sample_waiter tr q p)\<lparr>w_queued := q', w_phase := p'\<rparr> = sample_waiter tr q' p'"
  "newcomer (''user'', 7) = sample_waiter [] False Checking"
  by (simp_all add: sample_waiter_def newcomer_def)

lemma first_admitted_reachable: "reachable one_slot first_admitted"
proof -
  let ?k = "(''user'', 7) :: resource"
  have 1: "reachable one_slot (fresh_slots, [1 \<mapsto> sample_waiter [] False Checking])"
    using next_step [OF init arrive [where t = 1 and k = ?k]] by simp
  have 2: "reachable one_slot (fresh_slots, [1 \<mapsto> sample_waiter [] False (Attempting 0 [(?k, 1)])])"
    using next_step [OF 1 look [where t = 1 and ch = 0 and todo = "[(?k, 1)]" and w = "sample_waiter [] False Checking"]]
    by (simp add: one_slot_def fresh_slots_def admission_wake_def)
  have 3: "reachable one_slot (full_slots, [1 \<mapsto> sample_waiter [] False (Leaving (Admitted ?k))])"
    using next_step [OF 2 take [where t = 1 and s' = full_slots and w = "sample_waiter [] False (Attempting 0 [(?k, 1)])"]]
    by (simp add: full_slots_def fresh_slots_def take_slot_def active_def tally_of_def put_def)
  show ?thesis
    using next_step [OF 3 leave [where t = 1 and w = "sample_waiter [] False (Leaving (Admitted ?k))"]]
    by (simp add: first_admitted_def)
qed

lemma second_sleeping_reachable: "reachable one_slot second_sleeping"
proof -
  let ?k = "(''user'', 7) :: resource"
  let ?m = "[1 \<mapsto> sample_waiter [] False (Finished (Admitted ?k))]"
  have 1: "reachable one_slot (full_slots, ?m(2 \<mapsto> sample_waiter [] False Checking))"
    using next_step [OF first_admitted_reachable [unfolded first_admitted_def] arrive [where t = 2 and k = ?k]] by simp
  have 2: "reachable one_slot (full_slots, ?m(2 \<mapsto> sample_waiter [] False (Attempting 0 [(?k, 1)])))"
    using next_step [OF 1 look [where t = 2 and ch = 0 and todo = "[(?k, 1)]" and w = "sample_waiter [] False Checking"]]
    by (simp add: one_slot_def full_slots_def fresh_slots_def admission_wake_def)
  have 3: "reachable one_slot (full_slots, ?m(2 \<mapsto> sample_waiter [(?k, 1)] False (Attempting 0 [])))"
    using next_step [OF 2 next_one [where t = 2 and s' = full_slots and w = "sample_waiter [] False (Attempting 0 [(?k, 1)])"]]
    by (simp add: full_slots_def fresh_slots_def take_slot_def active_def tally_of_def put_def)
  have 4: "reachable one_slot (full_slots, ?m(2 \<mapsto> sample_waiter [(?k, 1)] False (Joining 0)))"
    using next_step [OF 3 busy [where t = 2 and w = "sample_waiter [(?k, 1)] False (Attempting 0 [])"]] by simp
  show ?thesis
    using next_step [OF 4 join [where t = 2 and w = "sample_waiter [(?k, 1)] False (Joining 0)" and
          s' = "full_slots\<lparr>sl_waiting := [(?k, 1)], sl_queued := 1\<rparr>"]]
    by (simp add: second_sleeping_def full_slots_def fresh_slots_def join_queue_def queue_limit_def waiting_def tally_of_def put_def)
qed

lemma slot_freed_reachable: "reachable one_slot slot_freed"
proof -
  let ?f = "sample_waiter [] False (Finished (Admitted (''user'', 7)))"
  have drop: "[1::nat \<mapsto> a, 2 \<mapsto> b](1 := None) = [2 \<mapsto> b]" for a b :: waiter
    by (auto simp: fun_eq_iff)
  show ?thesis
    using next_step [OF second_sleeping_reachable [unfolded second_sleeping_def] finish [where t = "1::nat" and w = ?f]]
    by (simp add: slot_freed_def full_slots_def fresh_slots_def release_slot_def wake_def Let_def active_def tally_of_def
        put_def remove_def drop fun_upd_twist)
qed

theorem slots_never_exceed_limits_witness:
  "active (fst second_sleeping) (''user'', 7) \<le> 1 \<and> waiting (fst second_sleeping) (''user'', 7) \<le> 20"
  using slots_never_exceed_limits [of one_slot "fst second_sleeping" "snd second_sleeping" "(''user'', 7)"]
    second_sleeping_reachable by (simp add: one_slot_def queue_limit_def)

theorem no_lost_wakeup_witness: "0 < sl_wake (fst slot_freed)"
proof -
  have w: "snd slot_freed 2 = Some (sample_waiter [((''user'', 7), 1)] True (Sleeping 0))" by (simp add: slot_freed_def)
  have free: "active (fst slot_freed) (''user'', 7) < 1" "\<not> sl_stopped (fst slot_freed)" "\<not> sl_lost (fst slot_freed)"
    by (simp_all add: slot_freed_def fresh_slots_def active_def tally_of_def)
  show ?thesis
    using no_lost_wakeup [of one_slot "fst slot_freed" "snd slot_freed", OF _ w _ _ free] slot_freed_reachable by simp
qed

theorem nothing_admitted_after_stop_witness:
  "active (stop_admission (fst first_admitted)) (''user'', 7) \<le> 1"
proof -
  have "step one_slot first_admitted (stop_admission (fst first_admitted), snd first_admitted)"
    using stop [of one_slot "fst first_admitted" "snd first_admitted"] by simp
  then have "reachable one_slot (stop_admission (fst first_admitted), snd first_admitted)"
    using next_step first_admitted_reachable by blast
  from nothing_admitted_after_stop [OF this _ rtranclp.rtrancl_refl, of "(''user'', 7)"]
  show ?thesis by (simp add: sample_defs stop_admission_def)
qed

theorem attempt_retains_nothing_witness:
  "active (fst (attempt_user fresh_slots sample_identity None ''gpt-5'' False True)) (''user'', 4) = 0"
proof -
  have same: "refreshed_identity sample_identity None = Inr sample_identity" "gi_user sample_identity = 4"
    by (simp_all add: refreshed_identity_def sample_identity_def)
  have out: "snd (attempt_user fresh_slots sample_identity None ''gpt-5'' False True) = Inl canceled" by code_simp
  have zero: "active fresh_slots (''user'', 4) = 0" by code_simp
  show ?thesis
    using attempt_retains_nothing [OF surjective_pairing, of fresh_slots 4 sample_identity None "''gpt-5''" False True
        "(''user'', 4)"] same out zero by simp
qed

end
