(* ===== verification/Civil_Time.thy ===== *)
theory Civil_Time
  imports Decimal
begin

text \<open>
  The part of Go's \<open>time\<close> package that the quota windows use. An instant is its number of nanoseconds
  since 1970-01-01T00:00:00Z. The theory models the proleptic Gregorian calendar, the formats
  \<open>time.RFC3339\<close> and \<open>time.RFC3339Nano\<close> of an instant in UTC, and \<open>time.Parse(time.RFC3339Nano, s)\<close>
  with the forms the general parser also takes (an hour of one digit, a comma before the fraction).
  The result proved here is that a formatted instant is parsed back. A time zone is what
  \<open>time.LoadLocation\<close> returns, seen through \<open>Time.In\<close> (the wall clock of an instant) and \<open>time.Date\<close>
  (the instant of a wall clock).
\<close>

type_synonym instant = int

definition second :: int where "second = 1000000000"

definition hour :: int where "hour = 3600 * second"

definition day :: int where "day = 24 * hour"

lemmas durations = day_def hour_def second_def


section \<open>Calendar\<close>

definition leap :: "int \<Rightarrow> bool" where
  "leap y \<longleftrightarrow> y mod 4 = 0 \<and> (y mod 100 \<noteq> 0 \<or> y mod 400 = 0)"

definition month_lengths :: "int \<Rightarrow> int list" where
  "month_lengths y = [31, if leap y then 29 else 28, 31, 30, 31, 30, 31, 31, 30, 31, 30, 31]"

text \<open>Days from 0000-01-01 to the first of January of a year.\<close>

definition days_before_year :: "int \<Rightarrow> int" where
  "days_before_year y = 365 * y + (y + 3) div 4 - (y + 99) div 100 + (y + 399) div 400"

definition epoch_day :: int where
  "epoch_day = 719528"

definition year_of :: "int \<Rightarrow> int" where
  "year_of n = (let g = n * 400 div 146097 in
     if days_before_year (g + 1) \<le> n then g + 1 else if n < days_before_year g then g - 1 else g)"

fun month_day :: "int list \<Rightarrow> nat \<Rightarrow> int \<Rightarrow> nat \<times> int" where
  "month_day [] m d = (m, d + 1)"
| "month_day (l # ls) m d = (if d < l then (m, d + 1) else month_day ls (Suc m) (d - l))"

text \<open>Year, month (from 0) and day of the month (from 1) of a day since the epoch, and back.\<close>

definition civil_of_day :: "int \<Rightarrow> int \<times> nat \<times> int" where
  "civil_of_day n = (let k = n + epoch_day; y = year_of k in
     (y, month_day (month_lengths y) 0 (k - days_before_year y)))"

definition day_of_civil :: "int \<Rightarrow> nat \<Rightarrow> int \<Rightarrow> int" where
  "day_of_civil y m d = days_before_year y + sum_list (take m (month_lengths y)) + d - 1 - epoch_day"

lemma days_before_year_bounds:
  "146097 * y - 400 \<le> 400 * days_before_year y \<and> 400 * days_before_year y \<le> 146097 * y + 800"
proof -
  define q c e where "q = (y + 3) div 4" and "c = (y + 99) div 100" and "e = (y + 399) div 400"
  have "4 * q \<le> y + 3" "y \<le> 4 * q" "100 * c \<le> y + 99" "y \<le> 100 * c" "400 * e \<le> y + 399" "y \<le> 400 * e"
    unfolding q_def c_def e_def by linarith+
  moreover have "days_before_year y = 365 * y + q - c + e"
    by (simp add: days_before_year_def q_def c_def e_def)
  ultimately show ?thesis by linarith
qed

lemma ceiling_div:
  assumes "0 < (k::int)"
  shows "(y + (k - 1)) div k = y div k + (if y mod k = 0 then 0 else 1)"
proof -
  have "y + (k - 1) = (y mod k + (k - 1)) + y div k * k" using div_mult_mod_eq [of y k] by linarith
  then have "(y + (k - 1)) div k = ((y mod k + (k - 1)) + y div k * k) div k" by (rule arg_cong)
  also have "\<dots> = y div k + (y mod k + (k - 1)) div k" using assms by (intro div_mult_self1) simp
  finally have eq: "(y + (k - 1)) div k = (y mod k + (k - 1)) div k + y div k" by (simp only: add.commute)
  have r: "0 \<le> y mod k" "y mod k < k" using assms by simp_all
  show ?thesis
  proof (cases "y mod k = 0")
    case True
    then show ?thesis using eq assms by simp
  next
    case False
    then have "(y mod k + (k - 1)) div k = 1" using r by (intro int_div_pos_eq [where r = "y mod k - 1"]) auto
    then show ?thesis using eq False by simp
  qed
qed

lemma div_steps:
  assumes "0 < (k::int)" and j: "j = k - 1"
  shows "(y + 1 + j) div k = (y + j) div k + (if y mod k = 0 then 1 else 0)"
proof -
  have "(y + 1 + j) div k = (y + 1 * k) div k" unfolding j by (simp add: algebra_simps)
  also have "\<dots> = y div k + 1" using assms(1) by (subst div_mult_self1) auto
  finally show ?thesis using ceiling_div [OF assms(1), of y] unfolding j by simp
qed

lemma year_length:
  "days_before_year (y + 1) = days_before_year y + (if leap y then 366 else 365)"
proof -
  have "y mod 400 = 0 \<Longrightarrow> y mod 100 = 0" "y mod 100 = 0 \<Longrightarrow> y mod 4 = 0"
    using dvd_trans [of 100 400 y] dvd_trans [of 4 100 y] by (simp_all add: mod_eq_0_iff_dvd)
  moreover have "days_before_year (y + 1) = days_before_year y +
      (365 + (if y mod 4 = 0 then 1 else 0) - (if y mod 100 = 0 then 1 else 0) + (if y mod 400 = 0 then 1 else 0))"
  proof -
    have add: "365 * (y + 1) + (q + a) - (c + b) + (e + d) = 365 * y + q - c + e + (365 + a - b + d)" for q a c b e d :: int
      by simp
    have eqs: "(y + 1 + 3) div 4 = (y + 3) div 4 + (if y mod 4 = 0 then 1 else 0)"
      "(y + 1 + 99) div 100 = (y + 99) div 100 + (if y mod 100 = 0 then 1 else 0)"
      "(y + 1 + 399) div 400 = (y + 399) div 400 + (if y mod 400 = 0 then 1 else 0)"
      by (rule div_steps; simp)+
    show ?thesis unfolding days_before_year_def eqs by (rule add)
  qed
  moreover have "365 + (if a then 1 else 0) - (if b then 1 else 0) + (if c then 1 else 0) =
      (if a \<and> (\<not> b \<or> c) then 366 else 365 :: int)" if "c \<Longrightarrow> b" "b \<Longrightarrow> a" for a b c
    using that by (cases a; cases b; cases c) simp_all
  ultimately show ?thesis unfolding leap_def by presburger
qed

lemma sum_month_lengths: "sum_list (month_lengths y) = (if leap y then 366 else 365)"
  by (simp add: month_lengths_def)

lemma year_of_bounds: "days_before_year (year_of n) \<le> n" "n < days_before_year (year_of n + 1)"
proof -
  define g where "g = n * 400 div 146097"
  have g: "146097 * g \<le> 400 * n" "400 * n < 146097 * g + 146097" unfolding g_def by linarith+
  have "days_before_year (g - 1) \<le> n"
    using days_before_year_bounds [of "g - 1"] g by simp
  moreover have "n < days_before_year (g + 2)"
    using days_before_year_bounds [of "g + 2"] g by simp
  ultimately show "days_before_year (year_of n) \<le> n" "n < days_before_year (year_of n + 1)"
    unfolding year_of_def Let_def g_def [symmetric] by (auto simp: add.commute)
qed

lemma month_day_bounds:
  assumes "0 \<le> d" "d < sum_list ls" "month_day ls m d = (m', d')"
  shows "m \<le> m' \<and> m' < m + length ls \<and> 1 \<le> d' \<and> d' \<le> ls ! (m' - m) \<and> sum_list (take (m' - m) ls) + d' - 1 = d"
  using assms
proof (induction ls m d rule: month_day.induct)
  case (1 m d)
  then show ?case by simp
next
  case (2 l ls m d)
  show ?case
  proof (cases "d < l")
    case True
    then show ?thesis using 2 by auto
  next
    case False
    with 2 have IH: "Suc m \<le> m' \<and> m' < Suc m + length ls \<and> 1 \<le> d' \<and> d' \<le> ls ! (m' - Suc m) \<and>
        sum_list (take (m' - Suc m) ls) + d' - 1 = d - l"
      by auto
    then have "m' - m = Suc (m' - Suc m)" by linarith
    then show ?thesis using IH by simp
  qed
qed

lemma civil_of_day_round_trip:
  assumes "civil_of_day n = (y, m, d)"
  shows "day_of_civil y m d = n \<and> m < 12 \<and> 1 \<le> d \<and> d \<le> month_lengths y ! m"
proof -
  define k where "k = n + epoch_day"
  have y: "y = year_of k" and md: "month_day (month_lengths y) 0 (k - days_before_year y) = (m, d)"
    using assms by (auto simp: civil_of_day_def Let_def k_def)
  have "0 \<le> k - days_before_year y" "k - days_before_year y < sum_list (month_lengths y)"
    using year_of_bounds [of k] y year_length [of y] by (simp_all add: sum_month_lengths)
  from month_day_bounds [OF this md]
  show ?thesis by (auto simp: day_of_civil_def k_def month_lengths_def)
qed


section \<open>Text\<close>

definition fixed_digits :: "nat \<Rightarrow> nat \<Rightarrow> string" where
  "fixed_digits k n = pad_zeros k (nat_text n)"

definition trim_zeros :: "string \<Rightarrow> string" where
  "trim_zeros s = rev (dropWhile (\<lambda>c. c = CHR ''0'') (rev s))"

definition fraction_text :: "int \<Rightarrow> string" where
  "fraction_text ns = (if ns = 0 then [] else CHR ''.'' # trim_zeros (fixed_digits 9 (nat ns)))"

definition year_text :: "int \<Rightarrow> string" where
  "year_text y = (if y < 0 then CHR ''-'' # fixed_digits 4 (nat (- y)) else fixed_digits 4 (nat y))"

text \<open>\<open>t.UTC().Format(time.RFC3339Nano)\<close>, and without the fraction \<open>time.RFC3339\<close>.\<close>

definition format_time :: "bool \<Rightarrow> instant \<Rightarrow> string" where
  "format_time nano t =
     (case civil_of_day (t div day) of (y, m, d) \<Rightarrow>
        (let r = t mod day in
         year_text y @ ''-'' @ fixed_digits 2 (Suc m) @ ''-'' @ fixed_digits 2 (nat d) @ ''T'' @
         fixed_digits 2 (nat (r div hour)) @ '':'' @ fixed_digits 2 (nat (r mod hour div (60 * second))) @ '':'' @
         fixed_digits 2 (nat (r mod (60 * second) div second)) @
         (if nano then fraction_text (r mod second) else []) @ ''Z''))"

definition read_digits :: "nat \<Rightarrow> string \<Rightarrow> (nat \<times> string) option" where
  "read_digits k s =
     (if length s < k \<or> \<not> list_all is_digit (take k s) then None else Some (text_nat (take k s), drop k s))"

definition read_char :: "char \<Rightarrow> string \<Rightarrow> string option" where
  "read_char c s = (case s of [] \<Rightarrow> None | x # r \<Rightarrow> if x = c then Some r else None)"

definition read_hour :: "string \<Rightarrow> (nat \<times> string) option" where
  "read_hour s = (case read_digits 2 s of Some r \<Rightarrow> Some r | None \<Rightarrow> read_digits 1 s)"

definition read_fraction :: "string \<Rightarrow> int \<times> string" where
  "read_fraction s = (case s of
     c # r \<Rightarrow> (let ds = takeWhile is_digit r in
       if c \<in> {CHR ''.'', CHR '',''} \<and> ds \<noteq> []
         then (int (text_nat (take 9 ds)) * 10 ^ (9 - length (take 9 ds)), dropWhile is_digit r) else (0, s))
   | [] \<Rightarrow> (0, s))"

text \<open>The offset of the zone in seconds; nothing may follow it.\<close>

definition read_zone :: "string \<Rightarrow> int option" where
  "read_zone s =
     (if s = ''Z'' then Some 0
      else case s of
        c # r \<Rightarrow>
          (if c \<noteq> CHR ''+'' \<and> c \<noteq> CHR ''-'' then None
           else Option.bind (read_digits 2 r) (\<lambda>(h, r). Option.bind (read_char (CHR '':'') r) (\<lambda>r.
             Option.bind (read_digits 2 r) (\<lambda>(m, r).
               if r \<noteq> [] \<or> 24 < h \<or> 60 < m then None
               else Some ((if c = CHR ''-'' then -1 else 1) * (int h * 3600 + int m * 60))))))
      | [] \<Rightarrow> None)"

definition instant_of :: "nat \<Rightarrow> nat \<Rightarrow> nat \<Rightarrow> nat \<Rightarrow> nat \<Rightarrow> nat \<Rightarrow> int \<Rightarrow> int \<Rightarrow> instant option" where
  "instant_of y mo d h mi s ns off =
     (if mo < 1 \<or> 12 < mo \<or> d < 1 \<or> month_lengths (int y) ! (mo - 1) < int d \<or> 24 \<le> h \<or> 60 \<le> mi \<or> 60 \<le> s then None
      else Some (day_of_civil (int y) (mo - 1) (int d) * day + int h * hour + int mi * (60 * second) +
        int s * second + ns - off * second))"

definition parse_time :: "string \<Rightarrow> instant option" where
  "parse_time s =
     Option.bind (read_digits 4 s) (\<lambda>(y, s). Option.bind (read_char (CHR ''-'') s) (\<lambda>s.
     Option.bind (read_digits 2 s) (\<lambda>(mo, s). Option.bind (read_char (CHR ''-'') s) (\<lambda>s.
     Option.bind (read_digits 2 s) (\<lambda>(d, s). Option.bind (read_char (CHR ''T'') s) (\<lambda>s.
     Option.bind (read_hour s) (\<lambda>(h, s). Option.bind (read_char (CHR '':'') s) (\<lambda>s.
     Option.bind (read_digits 2 s) (\<lambda>(mi, s). Option.bind (read_char (CHR '':'') s) (\<lambda>s.
     Option.bind (read_digits 2 s) (\<lambda>(sec, s). case read_fraction s of (ns, s) \<Rightarrow>
     Option.bind (read_zone s) (\<lambda>off. instant_of y mo d h mi sec ns off))))))))))))"


lemma fixed_digits_length: "0 < k \<Longrightarrow> n < 10 ^ k \<Longrightarrow> length (fixed_digits k n) = k"
  by (simp add: fixed_digits_def length_pad_zeros length_nat_text)

lemma fixed_digits_digits: "list_all is_digit (fixed_digits k n)"
  by (simp add: fixed_digits_def pad_zeros_digits nat_text_digits)

lemma text_nat_fixed_digits [simp]: "text_nat (fixed_digits k n) = n"
  by (simp add: fixed_digits_def)

lemma read_digits_fixed [simp]:
  "0 < k \<Longrightarrow> n < 10 ^ k \<Longrightarrow> read_digits k (fixed_digits k n @ s) = Some (n, s)"
  by (simp add: read_digits_def fixed_digits_length fixed_digits_digits)

lemma read_char_same [simp]: "read_char c (c # s) = Some s"
  by (simp add: read_char_def)

lemma trim_zeros_split: "\<exists>k. s = trim_zeros s @ replicate k (CHR ''0'')"
proof -
  have "s = rev (takeWhile (\<lambda>c. c = CHR ''0'') (rev s) @ dropWhile (\<lambda>c. c = CHR ''0'') (rev s))" by simp
  then have "s = trim_zeros s @ rev (takeWhile (\<lambda>c. c = CHR ''0'') (rev s))"
    unfolding trim_zeros_def rev_append .
  moreover have "takeWhile (\<lambda>c. c = CHR ''0'') (rev s) = replicate (length (takeWhile (\<lambda>c. c = CHR ''0'') (rev s))) (CHR ''0'')"
    by (rule replicate_length_same [symmetric]) (auto dest: set_takeWhileD)
  ultimately show ?thesis by (metis rev_replicate)
qed

lemma read_fraction_text:
  assumes "0 \<le> ns" "ns < second"
  shows "read_fraction (fraction_text ns @ ''Z'') = (ns, ''Z'')"
proof (cases "ns = 0")
  case True
  then show ?thesis by (simp add: fraction_text_def read_fraction_def)
next
  case False
  define ds where "ds = fixed_digits 9 (nat ns)"
  have small: "nat ns < 10 ^ 9" using assms by (simp add: second_def)
  have ds: "length ds = 9" "list_all is_digit ds" "text_nat ds = nat ns"
    using small by (simp_all add: ds_def fixed_digits_length fixed_digits_digits)
  obtain k where k: "ds = trim_zeros ds @ replicate k (CHR ''0'')" using trim_zeros_split by blast
  define e where "e = trim_zeros ds"
  have e: "list_all is_digit e" using ds(2) k unfolding e_def by (metis list_all_append)
  have len: "length e + k = 9" using ds(1) k unfolding e_def by (metis length_append length_replicate)
  have val: "text_nat e * 10 ^ k = nat ns"
    using ds(3) k unfolding e_def by (metis add.right_neutral length_replicate text_nat_append text_nat_replicate)
  have ne: "e \<noteq> []" using val False assms by (cases e) auto
  have tw: "takeWhile is_digit (e @ ''Z'') = e" "dropWhile is_digit (e @ ''Z'') = ''Z''"
    using takeWhile_digits [OF e, of "''Z''"] dropWhile_digits [OF e, of "''Z''"] by (simp_all add: is_digit_def)
  have "take 9 e = e" using len by simp
  moreover have "int (text_nat e) * 10 ^ (9 - length e) = ns"
  proof -
    have "9 - length e = k" using len by simp
    then have "int (text_nat e) * 10 ^ (9 - length e) = int (text_nat e * 10 ^ k)" by simp
    then show ?thesis unfolding val using assms by simp
  qed
  ultimately show ?thesis
    using False ne tw by (simp add: fraction_text_def read_fraction_def Let_def ds_def [symmetric] e_def [symmetric])
qed

lemma instant_of_civil:
  assumes "civil_of_day (t div day) = (y, m, d)" "0 \<le> y" "0 \<le> r" "r < day" "0 \<le> ns"
  shows "instant_of (nat y) (Suc m) (nat d) (nat (r div hour)) (nat (r mod hour div (60 * second)))
      (nat (r mod (60 * second) div second)) ns 0 = Some (t div day * day + (r - r mod second) + ns)"
proof -
  have c: "day_of_civil y m d = t div day" "m < 12" "1 \<le> d" "d \<le> month_lengths y ! m"
    using civil_of_day_round_trip [OF assms(1)] by simp_all
  have h: "0 \<le> r div hour" "r div hour < 24" using assms(3,4) by (simp_all add: durations)
  have mi: "0 \<le> r mod hour div (60 * second)" "r mod hour div (60 * second) < 60" by (simp_all add: durations)
  have se: "0 \<le> r mod (60 * second) div second" "r mod (60 * second) div second < 60" by (simp_all add: durations)
  have split: "r div hour * hour + r mod hour div (60 * second) * (60 * second) + r mod (60 * second) div second * second
      = r - r mod second"
  proof -
    have "r mod hour mod (60 * second) = r mod (60 * second)" "r mod (60 * second) mod second = r mod second"
      by (simp_all add: durations mod_mod_cancel)
    then show ?thesis by (simp add: minus_mod_eq_div_mult [symmetric])
  qed
  have "\<not> 24 \<le> nat (r div hour)" "\<not> 60 \<le> nat (r mod hour div (60 * second))" "\<not> 60 \<le> nat (r mod (60 * second) div second)"
    "\<not> nat d < 1" "\<not> 12 < Suc m"
    using h mi se c(2,3) by (simp_all add: nat_less_iff not_le)
  then show ?thesis
    unfolding instant_of_def using c h(1) mi(1) se(1) assms(2) split by (simp add: algebra_simps)
qed

text \<open>A formatted instant of a year with four digits is parsed back, cut to the second without the
  fraction.\<close>

lemma parse_format_time:
  assumes "civil_of_day (t div day) = (y, m, d)" "0 \<le> y" "y \<le> 9999"
  shows "parse_time (format_time nano t) = Some (if nano then t else t - t mod second)"
proof -
  define r where "r = t mod day"
  have r: "0 \<le> r" "r < day" by (simp_all add: r_def durations)
  have c: "m < 12" "1 \<le> d" "d \<le> month_lengths y ! m"
    using civil_of_day_round_trip [OF assms(1)] by simp_all
  have "month_lengths y ! m \<le> 31"
    using c(1) by (auto simp: month_lengths_def less_Suc_eq numeral_eq_Suc)
  then have sm: "nat y < 10 ^ 4" "Suc m < 10\<^sup>2" "nat d < 10\<^sup>2" "nat (r div hour) < 10\<^sup>2"
    "nat (r mod hour div (60 * second)) < 10\<^sup>2" "nat (r mod (60 * second) div second) < 10\<^sup>2"
    using c assms(2,3) r by (auto simp: nat_less_iff durations)
  have hr: "read_hour (fixed_digits 2 (nat (r div hour)) @ u) = Some (nat (r div hour), u)" for u
    using sm(4) by (simp add: read_hour_def)
  have modsec: "r mod second = t mod second"
    unfolding r_def durations by (simp add: mod_mod_cancel)
  have ns: "0 \<le> r mod second" "r mod second < second" by (simp_all add: second_def)
  have t: "t div day * day + r = t" by (simp add: r_def)
  have zone: "read_zone ''Z'' = Some 0" by (simp add: read_zone_def)
  have fin: "instant_of (nat y) (Suc m) (nat d) (nat (r div hour)) (nat (r mod hour div (60 * second)))
      (nat (r mod (60 * second) div second)) v 0 = Some (t - t mod second + v)" if "0 \<le> v" for v
    using instant_of_civil [OF assms(1,2) r that] t modsec by (simp add: algebra_simps)
  have fin': "instant_of (nat y) (Suc m) (nat d) (nat (r div hour)) (nat (r mod hour div (60 * second)))
      (nat (r mod (60 * second) div second)) (t mod second) 0 = Some t"
    using fin [OF ns(1)] modsec by simp
  have frac: "read_fraction ((if nano then fraction_text (r mod second) else []) @ ''Z'') = (if nano then r mod second else 0, ''Z'')"
  proof (cases nano)
    case True
    then show ?thesis using read_fraction_text [OF ns] by simp
  next
    case False
    then show ?thesis by (simp add: read_fraction_def)
  qed
  have written: "format_time nano t = fixed_digits 4 (nat y) @ CHR ''-'' # fixed_digits 2 (Suc m) @ CHR ''-'' # fixed_digits 2 (nat d) @
      CHR ''T'' # fixed_digits 2 (nat (r div hour)) @ CHR '':'' # fixed_digits 2 (nat (r mod hour div (60 * second))) @ CHR '':'' #
      fixed_digits 2 (nat (r mod (60 * second) div second)) @ ((if nano then fraction_text (r mod second) else []) @ ''Z'')"
    using assms(1,2) by (simp add: format_time_def year_text_def r_def Let_def)
  show ?thesis
    unfolding written parse_time_def using sm
    by (simp add: hr frac zone fin fin' modsec del: append_assoc append.simps(2) if_split_asm cong: prod.case_cong)
qed

text \<open>\<open>time.Parse\<close> with the layout \<open>2006-01-02\<close>.\<close>

definition valid_date :: "string \<Rightarrow> bool" where
  "valid_date s =
     (Option.bind (read_digits 4 s) (\<lambda>(y, s). Option.bind (read_char (CHR ''-'') s) (\<lambda>s.
      Option.bind (read_digits 2 s) (\<lambda>(mo, s). Option.bind (read_char (CHR ''-'') s) (\<lambda>s.
      Option.bind (read_digits 2 s) (\<lambda>(d, s). if s = [] then instant_of y mo d 0 0 0 0 0 else None))))) \<noteq> None)"

end
