(* ===== verification/Quotas.thy ===== *)
theory Quotas
  imports Civil_Time Composite "HOL-Library.List_Lexorder" "HOL-Library.Char_ord"
begin

text \<open>
  \<open>internal/app/quotas.go\<close>: the daily, weekly and monthly spending quotas of a user per platform,
  rows of the table \<open>user_platform_quotas\<close>, and the quotas of an account, which live in its \<open>extra\<close>
  document. A row is a record and the table a list of rows; a query is a function on the list with
  the conditions of its \<open>WHERE\<close> and \<open>CASE\<close>, where a comparison with a missing start is not true.
  The time zone of the platform windows (\<open>Asia/Shanghai\<close>) and the time zone database are
  parameters: a zone gives the wall clock of an instant and the instant of a wall clock.
\<close>

section \<open>Time zones\<close>

record zone =
  z_local :: "instant \<Rightarrow> int"
  z_date :: "int \<Rightarrow> instant"

definition add_days :: "zone \<Rightarrow> instant \<Rightarrow> int \<Rightarrow> instant" where
  "add_days z t n = z_date z (z_local z t + n * day)"

text \<open>\<open>time.Weekday\<close>: Sunday is 0 and the epoch was a Thursday.\<close>

definition weekday :: "zone \<Rightarrow> instant \<Rightarrow> int" where
  "weekday z t = (z_local z t div day + 4) mod 7"

definition day_at :: "zone \<Rightarrow> instant \<Rightarrow> int \<Rightarrow> instant" where
  "day_at z t h = z_date z (z_local z t div day * day + h * hour)"

definition quota_starts :: "zone \<Rightarrow> instant \<Rightarrow> instant \<times> instant" where
  "quota_starts z now =
     (let d = day_at z now 0; w = (weekday z now + 6) mod 7 in (d, add_days z d (- w)))"

definition fixed_zone :: "int \<Rightarrow> zone" where
  "fixed_zone offset = \<lparr>z_local = \<lambda>t. t + offset * second, z_date = \<lambda>w. w - offset * second\<rparr>"


section \<open>Platform quotas\<close>

record window =
  qw_limit :: "rat option"
  qw_usage :: rat
  qw_start :: "instant option"

record quota_row =
  qr_user :: int
  qr_platform :: string
  qr_deleted :: bool
  qr_daily :: window
  qr_weekly :: window
  qr_monthly :: window

definition month :: int where "month = 720 * hour"

definition live_quota :: "int \<Rightarrow> string \<Rightarrow> quota_row \<Rightarrow> bool" where
  "live_quota uid platform r \<longleftrightarrow> qr_user r = uid \<and> qr_platform r = platform \<and> \<not> qr_deleted r"

text \<open>What a window counts: the usage of a window that began at \<open>start\<close>, and of a monthly window that
  has not run out.\<close>

definition counted :: "instant \<Rightarrow> window \<Rightarrow> rat" where
  "counted start w = (if qw_start w = Some start then qw_usage w else 0)"

definition month_open :: "instant \<Rightarrow> window \<Rightarrow> bool" where
  "month_open now w = (case qw_start w of None \<Rightarrow> False | Some s \<Rightarrow> now < s + month)"

definition counted_month :: "instant \<Rightarrow> window \<Rightarrow> rat" where
  "counted_month now w = (if month_open now w then qw_usage w else 0)"

definition over :: "rat \<Rightarrow> window \<Rightarrow> bool" where
  "over usage w = (case qw_limit w of None \<Rightarrow> False | Some l \<Rightarrow> l \<le> usage)"

text \<open>\<open>now\<close> is the clock of the application, \<open>db_now\<close> the clock of the database.\<close>

definition check_platform_quota ::
  "zone \<Rightarrow> instant \<Rightarrow> instant \<Rightarrow> quota_row list \<Rightarrow> int \<Rightarrow> string \<Rightarrow> unit result" where
  "check_platform_quota z now db_now rows uid platform =
     (case quota_starts z now of (d, w) \<Rightarrow>
        if list_ex (\<lambda>r. live_quota uid platform r \<and>
             (over (counted d (qr_daily r)) (qr_daily r) \<or> over (counted w (qr_weekly r)) (qr_weekly r) \<or>
              over (counted_month db_now (qr_monthly r)) (qr_monthly r))) rows
        then Inl (ApiError 429 ''platform spending limit exceeded'') else Inr ())"

definition add_usage :: "instant \<Rightarrow> rat \<Rightarrow> window \<Rightarrow> window" where
  "add_usage start cost w = w\<lparr>qw_usage := counted start w + cost, qw_start := Some start\<rparr>"

definition add_month_usage :: "instant \<Rightarrow> rat \<Rightarrow> window \<Rightarrow> window" where
  "add_month_usage now cost w =
     w\<lparr>qw_usage := counted_month now w + cost, qw_start := (if month_open now w then qw_start w else Some now)\<rparr>"

definition charge_row :: "zone \<Rightarrow> instant \<Rightarrow> rat \<Rightarrow> quota_row \<Rightarrow> quota_row" where
  "charge_row z now cost r = (case quota_starts z now of (d, w) \<Rightarrow>
     r\<lparr>qr_daily := add_usage d cost (qr_daily r), qr_weekly := add_usage w cost (qr_weekly r),
       qr_monthly := add_month_usage now cost (qr_monthly r)\<rparr>)"

definition increment_platform_quota ::
  "zone \<Rightarrow> instant \<Rightarrow> quota_row list \<Rightarrow> int \<Rightarrow> string \<Rightarrow> json_number \<Rightarrow> quota_row list" where
  "increment_platform_quota z now rows uid platform cost =
     map (\<lambda>r. if live_quota uid platform r then charge_row z now (rat_val cost) r else r) rows"

text \<open>The view: a window that is over shows no usage, an unset start keeps the stored usage.\<close>

record window_view =
  wv_limit :: "rat option"
  wv_usage :: rat
  wv_resets :: "instant option"

definition view_window :: "instant \<Rightarrow> instant \<Rightarrow> window \<Rightarrow> window_view" where
  "view_window start reset w =
     \<lparr>wv_limit = qw_limit w,
      wv_usage = (case qw_start w of Some s \<Rightarrow> if s < start then 0 else qw_usage w | None \<Rightarrow> qw_usage w),
      wv_resets = (case qw_start w of Some s \<Rightarrow> if start \<le> s then Some reset else None | None \<Rightarrow> None)\<rparr>"

definition view_month :: "instant \<Rightarrow> window \<Rightarrow> window_view" where
  "view_month now w =
     \<lparr>wv_limit = qw_limit w,
      wv_usage = (case qw_start w of Some s \<Rightarrow> if s + month \<le> now then 0 else qw_usage w | None \<Rightarrow> qw_usage w),
      wv_resets = (case qw_start w of Some s \<Rightarrow> if now < s + month then Some (s + month) else None | None \<Rightarrow> None)\<rparr>"

definition platform_quotas ::
  "zone \<Rightarrow> instant \<Rightarrow> quota_row list \<Rightarrow> (int \<Rightarrow> bool) \<Rightarrow> int \<Rightarrow> (string \<times> window_view \<times> window_view \<times> window_view) list result" where
  "platform_quotas z now rows user_exists uid =
     (if \<not> user_exists uid then Inl missing
      else (case quota_starts z now of (d, w) \<Rightarrow>
        Inr (map (\<lambda>r. (qr_platform r, view_window d (add_days z d 1) (qr_daily r),
               view_window w (add_days z w 7) (qr_weekly r), view_month now (qr_monthly r)))
             (sort_key qr_platform (filter (\<lambda>r. qr_user r = uid \<and> \<not> qr_deleted r) rows)))))"

record quota_input =
  qi_platform :: string
  qi_daily :: "json_number option"
  qi_weekly :: "json_number option"
  qi_monthly :: "json_number option"

definition limited :: "quota_input \<Rightarrow> bool" where
  "limited q \<longleftrightarrow> qi_daily q \<noteq> None \<or> qi_weekly q \<noteq> None \<or> qi_monthly q \<noteq> None"

definition validate_quotas :: "quota_input list \<Rightarrow> string list result" where
  "validate_quotas quotas = each_with (\<lambda>seen q.
     if \<not> supported_platform (qi_platform q) \<or> qi_platform q \<in> set seen \<or> \<not> valid_price (qi_daily q) 10 10 \<or>
        \<not> valid_price (qi_weekly q) 10 10 \<or> \<not> valid_price (qi_monthly q) 10 10
     then Inl (bad ''invalid or duplicate platform quota'') else Inr (qi_platform q # seen)) [] quotas"

definition fresh_window :: "json_number option \<Rightarrow> window" where
  "fresh_window l = \<lparr>qw_limit = map_option rat_val l, qw_usage = 0, qw_start = None\<rparr>"

definition set_limits :: "quota_input \<Rightarrow> quota_row \<Rightarrow> quota_row" where
  "set_limits q r =
     r\<lparr>qr_daily := qr_daily r\<lparr>qw_limit := map_option rat_val (qi_daily q)\<rparr>,
       qr_weekly := qr_weekly r\<lparr>qw_limit := map_option rat_val (qi_weekly q)\<rparr>,
       qr_monthly := qr_monthly r\<lparr>qw_limit := map_option rat_val (qi_monthly q)\<rparr>\<rparr>"

definition upsert_quota :: "int \<Rightarrow> quota_row list \<Rightarrow> quota_input \<Rightarrow> quota_row list" where
  "upsert_quota uid rows q =
     (if list_ex (live_quota uid (qi_platform q)) rows
      then map (\<lambda>r. if live_quota uid (qi_platform q) r then set_limits q r else r) rows
      else rows @ [\<lparr>qr_user = uid, qr_platform = qi_platform q, qr_deleted = False,
             qr_daily = fresh_window (qi_daily q), qr_weekly = fresh_window (qi_weekly q),
             qr_monthly = fresh_window (qi_monthly q)\<rparr>])"

definition set_platform_quotas ::
  "quota_row list \<Rightarrow> (int \<Rightarrow> bool) \<Rightarrow> int \<Rightarrow> quota_input list option \<Rightarrow> quota_row list result" where
  "set_platform_quotas rows user_exists uid quotas = (case quotas of
     None \<Rightarrow> Inl (bad ''quotas array is required'')
   | Some qs \<Rightarrow>
       (if 8 < length qs then Inl (bad ''quotas array is required'')
        else and_then (validate_quotas qs) (\<lambda>_.
          if \<not> user_exists uid then Inl missing
          else (let kept = filter limited qs in
            Inr (foldl (upsert_quota uid)
              (map (\<lambda>r. if qr_user r = uid \<and> \<not> qr_deleted r \<and> qr_platform r \<notin> qi_platform ` set kept
                        then r\<lparr>qr_deleted := True\<rparr> else r) rows) kept)))))"

definition reset_window :: "string \<Rightarrow> instant \<Rightarrow> quota_row \<Rightarrow> quota_row" where
  "reset_window name start r =
     (if name = ''daily'' then r\<lparr>qr_daily := qr_daily r\<lparr>qw_usage := 0, qw_start := Some start\<rparr>\<rparr>
      else if name = ''weekly'' then r\<lparr>qr_weekly := qr_weekly r\<lparr>qw_usage := 0, qw_start := Some start\<rparr>\<rparr>
      else r\<lparr>qr_monthly := qr_monthly r\<lparr>qw_usage := 0, qw_start := Some start\<rparr>\<rparr>)"

definition reset_platform_quota ::
  "zone \<Rightarrow> instant \<Rightarrow> quota_row list \<Rightarrow> (int \<Rightarrow> bool) \<Rightarrow> int \<Rightarrow> string \<Rightarrow> string \<Rightarrow> quota_row list result" where
  "reset_platform_quota z now rows user_exists uid platform name =
     (if \<not> supported_platform platform then Inl (bad ''invalid platform'')
      else (case quota_starts z now of (d, w) \<Rightarrow>
        if name \<notin> {''daily'', ''weekly'', ''monthly''} then Inl (bad ''invalid quota window'')
        else if \<not> user_exists uid then Inl missing
        else if \<not> list_ex (live_quota uid platform) rows then Inl missing
        else (let start = (if name = ''daily'' then d else if name = ''weekly'' then w else now) in
          Inr (map (\<lambda>r. if live_quota uid platform r then reset_window name start r else r) rows))))"


section \<open>Account quotas\<close>

definition extra_number :: "fields \<Rightarrow> string \<Rightarrow> json_number" where
  "extra_number extra key = (case assoc extra key of
     Some (JNum n) \<Rightarrow> if valid_price (Some n) 12 12 then n else ''0''
   | Some (JStr n) \<Rightarrow> if valid_price (Some n) 12 12 then n else ''0''
   | _ \<Rightarrow> ''0'')"

text \<open>\<open>json.Number.Int64\<close> with its error ignored, for a number \<open>extraNumber\<close> returns.\<close>

definition number_int :: "json_number \<Rightarrow> int" where
  "number_int n = (if n \<noteq> [] \<and> list_all is_digit n then int (text_nat n) else 0)"

definition fixed_reset :: "fields \<Rightarrow> string \<Rightarrow> bool" where
  "fixed_reset extra w \<longleftrightarrow> credential_string extra (''quota_'' @ w @ ''_reset_mode'') = ''fixed''"

definition quota_expired :: "fields \<Rightarrow> string \<Rightarrow> instant \<Rightarrow> bool" where
  "quota_expired extra w now =
     (let fixed = fixed_reset extra w;
          key = (if fixed then ''quota_'' @ w @ ''_reset_at'' else ''quota_'' @ w @ ''_start'');
          duration = (if fixed then 0 else if w = ''weekly'' then 168 * hour else 24 * hour) in
      case parse_time (credential_string extra key) of
        None \<Rightarrow> True
      | Some start \<Rightarrow> start + duration \<le> now)"

definition account_quota_available :: "fields \<Rightarrow> instant \<Rightarrow> bool" where
  "account_quota_available extra now = list_all (\<lambda>w.
     let l = rat_val (extra_number extra (''quota_'' @ w @ ''limit'')) in
     l = 0 \<or> (w \<noteq> [] \<and> quota_expired extra (trim_suffix w ''_'') now) \<or>
     rat_val (extra_number extra (''quota_'' @ w @ ''used'')) < l) [[], ''daily_'', ''weekly_'']"

definition used_after :: "fields \<Rightarrow> string \<Rightarrow> bool \<Rightarrow> json_number \<Rightarrow> json" where
  "used_after extra key reset cost =
     JNum (float_string 8 ((if reset then 0 else rat_val (extra_number extra key)) + rat_val cost))"

text \<open>The next fixed reset of a window, from the wall clock of the zone of the account.\<close>

definition reset_schedule :: "fields \<Rightarrow> string \<Rightarrow> (int \<times> int) result" where
  "reset_schedule extra w =
     (let h = number_int (extra_number extra (''quota_'' @ w @ ''_reset_hour''));
          d = (case assoc extra ''quota_weekly_reset_day'' of
                 None \<Rightarrow> 1 | Some _ \<Rightarrow> number_int (extra_number extra ''quota_weekly_reset_day'')) in
      if h < 0 \<or> 23 < h \<or> d < 0 \<or> 6 < d then Inl (bad ''invalid quota reset schedule'') else Inr (h, d))"

definition next_reset :: "zone \<Rightarrow> string \<Rightarrow> int \<Rightarrow> int \<Rightarrow> instant \<Rightarrow> instant" where
  "next_reset z w h d now =
     (let today = day_at z now h;
          first = (if w = ''weekly'' then add_days z today ((d - weekday z now + 7) mod 7) else today) in
      if now < first then first else add_days z first (if w = ''weekly'' then 7 else 1))"

definition quota_zone :: "(string \<Rightarrow> zone option) \<Rightarrow> fields \<Rightarrow> zone result" where
  "quota_zone zones extra =
     (let name = credential_string extra ''quota_reset_timezone'' in
      case zones (if name = [] then ''UTC'' else name) of
        None \<Rightarrow> Inl (bad ''invalid quota reset timezone'')
      | Some z \<Rightarrow> Inr z)"

definition window_delta ::
  "(string \<Rightarrow> zone option) \<Rightarrow> fields \<Rightarrow> json_number \<Rightarrow> instant \<Rightarrow> fields \<Rightarrow> string \<Rightarrow> fields result" where
  "window_delta zones extra cost now delta w =
     (if rat_val (extra_number extra (''quota_'' @ w @ ''_limit'')) = 0 then Inr delta
      else (let reset = quota_expired extra w now;
                delta = put (''quota_'' @ w @ ''_used'') (used_after extra (''quota_'' @ w @ ''_used'') reset cost) delta in
        if \<not> reset then Inr delta
        else (let delta = put (''quota_'' @ w @ ''_start'') (JStr (format_time True now)) delta in
          if \<not> fixed_reset extra w then Inr delta
          else and_then (quota_zone zones extra) (\<lambda>z. and_then (reset_schedule extra w) (\<lambda>(h, d).
            Inr (put (''quota_'' @ w @ ''_reset_at'') (JStr (format_time False (next_reset z w h d now))) delta))))))"

definition account_quota_delta ::
  "(string \<Rightarrow> zone option) \<Rightarrow> fields \<Rightarrow> json_number \<Rightarrow> instant \<Rightarrow> fields result" where
  "account_quota_delta zones extra cost now =
     each_with (window_delta zones extra cost now) [(''quota_used'', used_after extra ''quota_used'' False cost)]
       [''daily'', ''weekly'']"

text \<open>\<open>extra || delta\<close> in the database: the keys of the delta win.\<close>

definition merge_extra :: "fields \<Rightarrow> fields \<Rightarrow> fields" where
  "merge_extra extra delta = foldl (\<lambda>m (k, v). put k v m) extra delta"

end
