(* ===== verification/Quota_Facts.thy ===== *)
theory Quota_Facts
  imports Quotas
begin

text \<open>
  Guarantees of the quotas. The windows of a platform quota are a ledger that keeps one start and one
  sum; the locale \<open>window_ledger\<close> shows that the kept sum is the sum of the charges of the current
  window, for every window function that does not run backwards, and its interpretations are the
  daily and the weekly windows of a zone with a fixed offset, which the zone of the code is.
\<close>

section \<open>Windows as ledgers\<close>

locale window_ledger =
  fixes key :: "instant \<Rightarrow> instant"
  assumes forward: "t \<le> t' \<Longrightarrow> key t \<le> key t'"
begin

lemma counted_charges:
  assumes "sorted (map fst events)" "\<forall>x \<in> set events. fst x \<le> now" "qw_start w = None"
  shows "counted (key now) (foldl (\<lambda>w (t, c). add_usage (key t) c w) w events) =
    sum_list (map snd (filter (\<lambda>(t, c). key t = key now) events))"
  using assms(1,2)
proof (induction events arbitrary: now rule: rev_induct)
  case Nil
  then show ?case using assms(3) by (simp add: counted_def)
next
  case (snoc x events)
  obtain t c where x: "x = (t, c)" by (cases x)
  have sorted: "sorted (map fst events)" and before: "\<forall>y \<in> set events. fst y \<le> t"
    using snoc.prems(1) x by (auto simp: sorted_append)
  have t: "t \<le> now" using snoc.prems(2) x by simp
  note IH = snoc.IH [OF sorted before]
  show ?case
  proof (cases "key t = key now")
    case True
    then show ?thesis using IH x by (simp add: add_usage_def counted_def)
  next
    case False
    have "key u \<noteq> key now" if "(u, d) \<in> set events" for u d
      using forward [of u t] before that forward [OF t] False by force
    then have "filter (\<lambda>(u, d). key u = key now) events = []" by (auto simp: filter_empty_conv)
    then show ?thesis using False x by (simp add: add_usage_def counted_def)
  qed
qed

end

lemma day_div_mono: "(t::int) \<le> t' \<Longrightarrow> t div day * day \<le> t' div day * day"
  by (simp add: durations zdiv_mono1)

lemma quota_starts_fixed:
  "quota_starts (fixed_zone off) t =
     ((t + off * second) div day * day - off * second, (((t + off * second) div day + 3) div 7 * 7 - 3) * day - off * second)"
proof -
  define n where "n = (t + off * second) div day"
  have "((n + 4) mod 7 + 6) mod 7 = (n + 3) mod 7" by presburger
  then have "n - ((n + 4) mod 7 + 6) mod 7 = (n + 3) div 7 * 7 - 3"
    using div_mult_mod_eq [of "n + 3" 7] by linarith
  then have "n * day + - (((n + 4) mod 7 + 6) mod 7) * day = ((n + 3) div 7 * 7 - 3) * day"
    by (metis (no_types) add_uminus_conv_diff distrib_right)
  then show ?thesis
    by (simp add: quota_starts_def day_at_def weekday_def add_days_def fixed_zone_def Let_def n_def)
qed

interpretation daily: window_ledger "\<lambda>t. fst (quota_starts (fixed_zone off) t)" for off
proof
  fix t t' :: instant
  assume "t \<le> t'"
  then show "fst (quota_starts (fixed_zone off) t) \<le> fst (quota_starts (fixed_zone off) t')"
    using day_div_mono [of "t + off * second" "t' + off * second"] by (simp add: quota_starts_fixed)
qed

interpretation weekly: window_ledger "\<lambda>t. snd (quota_starts (fixed_zone off) t)" for off
proof
  fix t t' :: instant
  assume "t \<le> t'"
  then have "(t + off * second) div day \<le> (t' + off * second) div day" by (simp add: zdiv_mono1 durations)
  then have "((t + off * second) div day + 3) div 7 * 7 - 3 \<le> ((t' + off * second) div day + 3) div 7 * 7 - 3"
    by (simp add: zdiv_mono1)
  then show "snd (quota_starts (fixed_zone off) t) \<le> snd (quota_starts (fixed_zone off) t')"
    by (simp add: quota_starts_fixed durations)
qed

text \<open>The rolling month is anchored at a charge: it holds at most what the last 720 hours held.\<close>

lemma month_charges:
  assumes "sorted (map fst events)" "\<forall>x \<in> set events. 0 \<le> (snd x :: rat)" "qw_start w = None"
    and "foldl (\<lambda>w (t, c). add_month_usage t c w) w events = w'" "qw_start w' = Some s"
  shows "qw_usage w' \<le> sum_list (map snd (filter (\<lambda>(t, c). s \<le> t) events)) \<and> (\<exists>c. (s, c) \<in> set events)"
  using assms(1,2,4,5)
proof (induction events arbitrary: w' s rule: rev_induct)
  case Nil
  then show ?case using assms(3) by simp
next
  case (snoc x events)
  obtain t c where x: "x = (t, c)" by (cases x)
  define v where "v = foldl (\<lambda>w (t, c). add_month_usage t c w) w events"
  have w': "w' = add_month_usage t c v" using snoc.prems(3) x v_def by simp
  have sorted: "sorted (map fst events)" and before: "\<forall>y \<in> set events. fst y \<le> t"
    using snoc.prems(1) x by (auto simp: sorted_append)
  have nonneg: "\<forall>x \<in> set events. 0 \<le> snd x" using snoc.prems(2) by simp
  show ?case
  proof (cases "month_open t v")
    case True
    then have s: "qw_start v = Some s" using w' snoc.prems(4) by (simp add: add_month_usage_def)
    have IH: "qw_usage v \<le> sum_list (map snd (filter (\<lambda>(t, c). s \<le> t) events))" "\<exists>c. (s, c) \<in> set events"
      using snoc.IH [OF sorted nonneg v_def [symmetric] s] by blast+
    then have "s \<le> t" using before by fastforce
    then show ?thesis using IH w' x True by (auto simp: add_month_usage_def counted_month_def)
  next
    case False
    then have "s = t" "qw_usage w' = c" using w' snoc.prems(4) by (auto simp: add_month_usage_def counted_month_def)
    moreover have "0 \<le> sum_list (map snd (filter (\<lambda>(u, d). t \<le> u) events))"
      using nonneg by (intro sum_list_nonneg) auto
    moreover have "0 \<le> c" using snoc.prems(2) x by simp
    ultimately show ?thesis using x by auto
  qed
qed

lemma sum_list_filter_mono:
  assumes "\<And>x. x \<in> set xs \<Longrightarrow> 0 \<le> (f x :: rat)" "\<And>x. x \<in> set xs \<Longrightarrow> P x \<Longrightarrow> Q x"
  shows "sum_list (map f (filter P xs)) \<le> sum_list (map f (filter Q xs))"
  using assms by (induction xs) (auto simp: add_increasing intro: add_mono)

lemma month_bound:
  assumes "sorted (map fst events)" "\<forall>x \<in> set events. 0 \<le> (snd x :: rat)" "qw_start w = None"
  shows "counted_month now (foldl (\<lambda>w (t, c). add_month_usage t c w) w events)
    \<le> sum_list (map snd (filter (\<lambda>(t, c). now < t + month) events))"
proof -
  define v where "v = foldl (\<lambda>w (t, c). add_month_usage t c w) w events"
  have nonneg: "0 \<le> snd x" if "x \<in> set events" for x using assms(2) that by simp
  show ?thesis
  proof (cases "month_open now v")
    case True
    then obtain s where s: "qw_start v = Some s" "now < s + month" by (auto simp: month_open_def split: option.splits)
    have "qw_usage v \<le> sum_list (map snd (filter (\<lambda>(t, c). s \<le> t) events))"
      using month_charges [OF assms v_def [symmetric] s(1)] by blast
    also have "\<dots> \<le> sum_list (map snd (filter (\<lambda>(t, c). now < t + month) events))"
      using nonneg s(2) by (intro sum_list_filter_mono) auto
    finally show ?thesis using True by (simp add: counted_month_def v_def [symmetric])
  next
    case False
    then show ?thesis using nonneg by (auto simp: counted_month_def v_def [symmetric] intro!: sum_list_nonneg)
  qed
qed


section \<open>Charging a table\<close>

definition charge_table :: "zone \<Rightarrow> int \<Rightarrow> string \<Rightarrow> (instant \<times> json_number) list \<Rightarrow> quota_row list \<Rightarrow> quota_row list" where
  "charge_table z uid platform events rows =
     foldl (\<lambda>rows (t, cost). increment_platform_quota z t rows uid platform cost) rows events"

definition charged_row :: "zone \<Rightarrow> (instant \<times> json_number) list \<Rightarrow> quota_row \<Rightarrow> quota_row" where
  "charged_row z events r = foldl (\<lambda>r (t, cost). charge_row z t (rat_val cost) r) r events"

lemma charge_row_live [simp]: "live_quota uid p (charge_row z t c r) = live_quota uid p r"
  by (simp add: charge_row_def live_quota_def split: prod.splits)

lemma charge_table_rows:
  "charge_table z uid p events rows = map (\<lambda>r. if live_quota uid p r then charged_row z events r else r) rows"
proof (induction events rule: rev_induct)
  case Nil
  show ?case by (induction rows) (auto simp: charge_table_def charged_row_def)
next
  case (snoc x events)
  have live: "live_quota uid p (charged_row z events r) = live_quota uid p r" for r
    by (induction events rule: rev_induct) (auto simp: charged_row_def)
  have "charge_table z uid p (events @ [x]) rows =
      increment_platform_quota z (fst x) (charge_table z uid p events rows) uid p (snd x)"
    by (simp add: charge_table_def case_prod_unfold)
  then show ?case
    using live by (auto simp: snoc increment_platform_quota_def charged_row_def case_prod_unfold)
qed

definition amounts :: "(instant \<times> json_number) list \<Rightarrow> (instant \<times> rat) list" where
  "amounts events = map (\<lambda>(t, cost). (t, rat_val cost)) events"

lemma charged_row_parts:
  "live_quota uid p (charged_row z events r) = live_quota uid p r"
  "qr_daily (charged_row z events r) = foldl (\<lambda>w (t, c). add_usage (fst (quota_starts z t)) c w) (qr_daily r) (amounts events)"
  "qr_weekly (charged_row z events r) = foldl (\<lambda>w (t, c). add_usage (snd (quota_starts z t)) c w) (qr_weekly r) (amounts events)"
  "qr_monthly (charged_row z events r) = foldl (\<lambda>w (t, c). add_month_usage t c w) (qr_monthly r) (amounts events)"
  by (induction events rule: rev_induct)
    (auto simp: charged_row_def amounts_def charge_row_def live_quota_def case_prod_unfold)

lemma limits_kept:
  "qw_limit (foldl (\<lambda>w (t, c). add_usage (f t) c w) w es) = qw_limit w"
  "qw_limit (foldl (\<lambda>w (t, c). add_month_usage t c w) w es) = qw_limit w"
  by (induction es rule: rev_induct) (auto simp: add_usage_def add_month_usage_def case_prod_unfold)

text \<open>What was spent in the day, the week and the last 720 hours of an instant.\<close>

definition spent :: "(instant \<Rightarrow> bool) \<Rightarrow> (instant \<times> json_number) list \<Rightarrow> rat" where
  "spent P events = sum_list (map (\<lambda>(t, cost). rat_val cost) (filter (\<lambda>(t, cost). P t) events))"

lemma spent_amounts: "sum_list (map snd (filter (\<lambda>(t, c). P t) (amounts events))) = spent P events"
  by (induction events) (auto simp: amounts_def spent_def)

definition reaches :: "rat \<Rightarrow> rat option \<Rightarrow> bool" where
  "reaches usage l = (case l of None \<Rightarrow> False | Some l \<Rightarrow> l \<le> usage)"

definition same_day :: "zone \<Rightarrow> instant \<Rightarrow> instant \<Rightarrow> bool" where
  "same_day z now t \<longleftrightarrow> fst (quota_starts z t) = fst (quota_starts z now)"

definition same_week :: "zone \<Rightarrow> instant \<Rightarrow> instant \<Rightarrow> bool" where
  "same_week z now t \<longleftrightarrow> snd (quota_starts z t) = snd (quota_starts z now)"

definition unused :: "quota_row \<Rightarrow> bool" where
  "unused r \<longleftrightarrow> qw_start (qr_daily r) = None \<and> qw_start (qr_weekly r) = None \<and> qw_start (qr_monthly r) = None"

lemma charged_row_usage:
  assumes "sorted (map fst events)" "\<forall>x \<in> set events. fst x \<le> now \<and> 0 \<le> rat_val (snd x)" "unused r"
    and z: "z = fixed_zone off"
  shows "over (counted (fst (quota_starts z now)) (qr_daily (charged_row z events r))) (qr_daily (charged_row z events r))
      = reaches (spent (same_day z now) events) (qw_limit (qr_daily r))"
    "over (counted (snd (quota_starts z now)) (qr_weekly (charged_row z events r))) (qr_weekly (charged_row z events r))
      = reaches (spent (same_week z now) events) (qw_limit (qr_weekly r))"
    "over (counted_month u (qr_monthly (charged_row z events r))) (qr_monthly (charged_row z events r))
      \<longrightarrow> reaches (spent (\<lambda>t. u < t + month) events) (qw_limit (qr_monthly r))"
proof -
  have s: "sorted (map fst (amounts events))"
    using assms(1) by (simp add: amounts_def case_prod_unfold comp_def)
  have b: "\<forall>x \<in> set (amounts events). fst x \<le> now" "\<forall>x \<in> set (amounts events). 0 \<le> snd x"
    using assms(2) by (auto simp: amounts_def)
  have none: "qw_start (qr_daily r) = None" "qw_start (qr_weekly r) = None" "qw_start (qr_monthly r) = None"
    using assms(3) by (simp_all add: unused_def)
  show "over (counted (fst (quota_starts z now)) (qr_daily (charged_row z events r))) (qr_daily (charged_row z events r))
      = reaches (spent (same_day z now) events) (qw_limit (qr_daily r))"
    using daily.counted_charges [OF s b(1) none(1), where off = off]
      spent_amounts [of "same_day z now" events]
    by (simp add: over_def reaches_def charged_row_parts limits_kept same_day_def z)
  show "over (counted (snd (quota_starts z now)) (qr_weekly (charged_row z events r))) (qr_weekly (charged_row z events r))
      = reaches (spent (same_week z now) events) (qw_limit (qr_weekly r))"
    using weekly.counted_charges [OF s b(1) none(2), where off = off]
      spent_amounts [of "same_week z now" events]
    by (simp add: over_def reaches_def charged_row_parts limits_kept same_week_def z)
  show "over (counted_month u (qr_monthly (charged_row z events r))) (qr_monthly (charged_row z events r))
      \<longrightarrow> reaches (spent (\<lambda>t. u < t + month) events) (qw_limit (qr_monthly r))"
    using month_bound [OF s b(2) none(3), of u] spent_amounts [of "\<lambda>t. u < t + month" events]
    by (auto simp: over_def reaches_def charged_row_parts limits_kept split: option.splits)
qed

text \<open>Property C29: Enforcement of the platform quotas refines a ledger of charges: whatever sequence of
  charges a fresh row has seen, a user is blocked as soon as what was spent in the current Shanghai
  day or week reaches its limit, and is blocked only when that, or the spend of the last 720 hours
  against the monthly limit, is so.\<close>
theorem platform_quota_blocks_on_window_spend:
  assumes "sorted (map fst events)" "\<forall>x \<in> set events. fst x \<le> now \<and> 0 \<le> rat_val (snd x)"
    and "\<forall>r \<in> set rows. live_quota uid p r \<longrightarrow> unused r" and z: "z = fixed_zone off"
  shows "((\<exists>r \<in> set rows. live_quota uid p r \<and> (reaches (spent (same_day z now) events) (qw_limit (qr_daily r)) \<or>
        reaches (spent (same_week z now) events) (qw_limit (qr_weekly r)))) \<longrightarrow>
      check_platform_quota z now db_now (charge_table z uid p events rows) uid p =
        Inl (ApiError 429 ''platform spending limit exceeded'')) \<and>
    (check_platform_quota z now db_now (charge_table z uid p events rows) uid p \<noteq> Inr () \<longrightarrow>
      (\<exists>r \<in> set rows. live_quota uid p r \<and> (reaches (spent (same_day z now) events) (qw_limit (qr_daily r)) \<or>
        reaches (spent (same_week z now) events) (qw_limit (qr_weekly r)) \<or>
        reaches (spent (\<lambda>t. db_now < t + month) events) (qw_limit (qr_monthly r)))))"
proof -
  let ?d = "fst (quota_starts z now)" and ?w = "snd (quota_starts z now)" and ?c = "charged_row z events"
  have blocked: "check_platform_quota z now db_now (charge_table z uid p events rows) uid p =
      (if \<exists>r \<in> set rows. live_quota uid p r \<and> (over (counted ?d (qr_daily (?c r))) (qr_daily (?c r)) \<or>
           over (counted ?w (qr_weekly (?c r))) (qr_weekly (?c r)) \<or>
           over (counted_month db_now (qr_monthly (?c r))) (qr_monthly (?c r)))
       then Inl (ApiError 429 ''platform spending limit exceeded'') else Inr ())"
    unfolding check_platform_quota_def charge_table_rows list_ex_iff
    by (auto simp: charged_row_parts(1) case_prod_unfold)
  note usage = charged_row_usage [OF assms(1,2) _ z]
  show ?thesis
    unfolding blocked using usage assms(3) by (simp split: if_splits) blast
qed


section \<open>Account quotas\<close>

locale steady_zone =
  fixes z :: zone
  assumes local_date: "z_local z (z_date z w) = w"
    and local_less: "z_local z t < z_local z t' \<longleftrightarrow> t < t'"
begin

lemma next_reset_local:
  assumes "0 \<le> h" "h \<le> 23"
  shows "now < next_reset z w h d now"
    "z_local z (next_reset z w h d now) \<le> z_local z now + (if w = ''weekly'' then 7 else 1) * day"
proof -
  define n where "n = z_local z now div day * day"
  have n: "n \<le> z_local z now" "z_local z now < n + day"
    using div_mult_mod_eq [of "z_local z now" day] pos_mod_bound [of day "z_local z now"] pos_mod_sign [of day "z_local z now"]
    by (simp_all add: n_def durations)
  have h: "0 \<le> h * hour" "h * hour \<le> 23 * hour" using assms by (simp_all add: durations)
  define k where "k = (d - weekday z now + 7) mod 7"
  have k: "0 \<le> k * day" "k * day \<le> 6 * day" by (simp_all add: k_def durations)
  have today: "z_local z (day_at z now h) = n + h * hour" by (simp add: day_at_def local_date n_def)
  have add: "z_local z (add_days z t m) = z_local z t + m * day" for t m by (simp add: add_days_def local_date)
  define first where "first = (if w = ''weekly'' then add_days z (day_at z now h) k else day_at z now h)"
  define m where "m = (if w = ''weekly'' then 7 else 1 :: int)"
  have first: "n \<le> z_local z first" "z_local z first < n + m * day"
    using h k by (simp_all add: first_def m_def today add durations)
  have nr: "next_reset z w h d now = (if now < first then first else add_days z first m)"
    by (simp add: next_reset_def Let_def first_def m_def k_def)
  have m: "day \<le> m * day" by (simp add: m_def durations)
  have "z_local z now < z_local z (next_reset z w h d now) \<and> z_local z (next_reset z w h d now) \<le> z_local z now + m * day"
  proof (cases "now < first")
    case True
    then have "z_local z now < z_local z first" by (simp add: local_less)
    then show ?thesis using nr True first n by simp
  next
    case False
    then have "z_local z first \<le> z_local z now" using local_less not_less by blast
    moreover have "z_local z (next_reset z w h d now) = z_local z first + m * day" using nr False by (simp add: add)
    ultimately show ?thesis using first n m by linarith
  qed
  then show "now < next_reset z w h d now"
    "z_local z (next_reset z w h d now) \<le> z_local z now + (if w = ''weekly'' then 7 else 1) * day"
    by (simp_all add: local_less m_def)
qed

end

interpretation fixed: steady_zone "fixed_zone off" for off
  by unfold_locales (simp_all add: fixed_zone_def)

lemma next_reset_fixed:
  assumes "0 \<le> h" "h \<le> 23"
  shows "now < next_reset (fixed_zone off) w h d now" "next_reset (fixed_zone off) w h d now \<le> now + 7 * day"
    "next_reset (fixed_zone off) w h d now mod second = 0"
proof -
  show "now < next_reset (fixed_zone off) w h d now" by (rule fixed.next_reset_local [OF assms])
  show "next_reset (fixed_zone off) w h d now \<le> now + 7 * day"
    using fixed.next_reset_local(2) [OF assms, where off = off and now = now and w = w and d = d] by (auto simp: fixed_zone_def durations split: if_splits)
  have "second dvd day" "second dvd hour" by (simp_all add: durations)
  then have "second dvd n * day + h * hour - off * second + m * day" for n m by (intro dvd_add dvd_diff dvd_mult) auto
  note dv = this this [of _ 0]
  show "next_reset (fixed_zone off) w h d now mod second = 0"
    unfolding next_reset_def Let_def day_at_def add_days_def
    by (auto simp: fixed_zone_def mod_eq_0_iff_dvd dest: dvd_add intro!: dvd_add dvd_diff \<open>second dvd day\<close> \<open>second dvd hour\<close> dvd_mult)
qed

text \<open>Instants whose year has four digits.\<close>

definition calendar_end :: instant where
  "calendar_end = 2932896 * day"

lemma parse_format_calendar:
  assumes "0 \<le> t" "t < calendar_end"
  shows "parse_time (format_time nano t) = Some (if nano then t else t - t mod second)"
proof -
  define k where "k = t div day + epoch_day"
  have k: "epoch_day \<le> k" "k < 3652424"
    using assms by (simp_all add: k_def calendar_end_def epoch_day_def pos_imp_zdiv_nonneg_iff durations)
  obtain y m d where c: "civil_of_day (t div day) = (y, m, d)" by (metis prod_cases3)
  have y: "y = year_of k" using c by (auto simp: civil_of_day_def Let_def k_def)
  have "400 * days_before_year y \<le> 400 * k" using year_of_bounds(1) [of k] y by simp
  then have "146097 * y - 400 \<le> 400 * k" using days_before_year_bounds [of y] by linarith
  then have "y \<le> 9999" using k by linarith
  have "400 * k < 400 * days_before_year (y + 1)" using year_of_bounds(2) [of k] y by simp
  then have "400 * k < 146097 * (y + 1) + 800" using days_before_year_bounds [of "y + 1"] by linarith
  then have "0 \<le> y" using k by (simp add: epoch_day_def)
  show ?thesis by (rule parse_format_time [OF c \<open>0 \<le> y\<close> \<open>y \<le> 9999\<close>])
qed

definition window_keys :: "string \<Rightarrow> string set" where
  "window_keys w = {''quota_'' @ w @ ''_used'', ''quota_'' @ w @ ''_start'', ''quota_'' @ w @ ''_reset_at''}"

lemma put_keys: "distinct (map fst m) \<Longrightarrow> distinct (map fst (put k v m))"
  by (simp add: put_def distinct_update)

lemma merge_extra_assoc:
  "distinct (map fst delta) \<Longrightarrow>
     assoc (merge_extra extra delta) k = (case assoc delta k of None \<Rightarrow> assoc extra k | Some v \<Rightarrow> Some v)"
proof (induction delta arbitrary: extra)
  case Nil
  then show ?case by (simp add: merge_extra_def)
next
  case (Cons x delta)
  obtain k' v where x: "x = (k', v)" by (cases x)
  have "merge_extra extra (x # delta) = merge_extra (put k' v extra) delta" by (simp add: merge_extra_def x)
  moreover have "assoc delta k' = None" using Cons.prems x by (force simp: assoc_eq_map_of map_of_eq_None_iff)
  ultimately show ?case using Cons x by (cases "k = k'") (auto simp: assoc_put split: option.splits)
qed

text \<open>What one window adds to the delta.\<close>

lemma window_delta_result:
  assumes "window_delta zones extra cost now d w = Inr d'" "distinct (map fst d)"
  shows "distinct (map fst d')" "k \<notin> window_keys w \<Longrightarrow> assoc d' k = assoc d k"
  using assms by (auto simp: window_delta_def window_keys_def Let_def intro!: put_keys split: if_splits sum.splits prod.splits)

lemma window_delta_used:
  assumes "window_delta zones extra cost now d w = Inr d'" "rat_val (extra_number extra (''quota_'' @ w @ ''_limit'')) \<noteq> 0"
  shows "assoc d' (''quota_'' @ w @ ''_used'') = Some (used_after extra (''quota_'' @ w @ ''_used'') (quota_expired extra w now) cost)"
  using assms by (auto simp: window_delta_def Let_def assoc_put split: if_splits sum.splits prod.splits)

lemma window_delta_start:
  assumes "window_delta zones extra cost now d w = Inr d'" "rat_val (extra_number extra (''quota_'' @ w @ ''_limit'')) \<noteq> 0"
    "quota_expired extra w now" "\<not> fixed_reset extra w"
  shows "assoc d' (''quota_'' @ w @ ''_start'') = Some (JStr (format_time True now))"
  using assms by (auto simp: window_delta_def Let_def assoc_put)

lemma window_delta_reset_at:
  assumes "window_delta zones extra cost now d w = Inr d'" "rat_val (extra_number extra (''quota_'' @ w @ ''_limit'')) \<noteq> 0"
    "quota_expired extra w now" "fixed_reset extra w"
  obtains z h wd where "quota_zone zones extra = Inr z" "0 \<le> h" "h \<le> 23"
    "assoc d' (''quota_'' @ w @ ''_reset_at'') = Some (JStr (format_time False (next_reset z w h wd now)))"
proof -
  obtain z h wd where parts: "quota_zone zones extra = Inr z" "reset_schedule extra w = Inr (h, wd)"
    "assoc d' (''quota_'' @ w @ ''_reset_at'') = Some (JStr (format_time False (next_reset z w h wd now)))"
    using assms by (auto simp: window_delta_def Let_def assoc_put split: sum.splits)
  then have "0 \<le> h" "h \<le> 23" by (auto simp: reset_schedule_def Let_def split: if_splits)
  then show ?thesis using that parts by blast
qed

lemma window_delta_untouched:
  assumes "window_delta zones extra cost now d w = Inr d'" "\<not> quota_expired extra w now" "k \<noteq> ''quota_'' @ w @ ''_used''"
  shows "assoc d' k = assoc d k"
  using assms by (auto simp: window_delta_def Let_def assoc_put split: if_splits)

text \<open>The delta read back, window by window.\<close>

lemma account_delta_window:
  assumes "account_quota_delta zones extra cost now = Inr delta" "w \<in> {''daily'', ''weekly''}"
  obtains d d' where "window_delta zones extra cost now d w = Inr d'" "distinct (map fst delta)"
    "\<forall>k \<in> window_keys w. assoc d k = None" "\<forall>k \<in> window_keys w. assoc delta k = assoc d' k"
    "assoc delta (''quota_'' @ w @ ''_reset_mode'') = None"
proof -
  define d0 where "d0 = [(''quota_used'', used_after extra ''quota_used'' False cost)]"
  have d0: "distinct (map fst d0)" "k \<noteq> ''quota_used'' \<Longrightarrow> assoc d0 k = None" for k by (simp_all add: d0_def)
  obtain d1 where d1: "window_delta zones extra cost now d0 ''daily'' = Inr d1"
    and d2: "window_delta zones extra cost now d1 ''weekly'' = Inr delta"
    using assms(1) by (auto simp: account_quota_delta_def d0_def split: sum.splits)
  note r1 = window_delta_result [OF d1 d0(1)]
  note r2 = window_delta_result [OF d2 r1(1)]
  have mode: "assoc delta (''quota_'' @ w @ ''_reset_mode'') = None"
    using r1(2) r2(2) d0(2) assms(2) by (auto simp: window_keys_def)
  show ?thesis
  proof (cases "w = ''daily''")
    case True
    have "\<forall>k \<in> window_keys w. assoc delta k = assoc d1 k"
      using r2(2) True by (simp add: window_keys_def)
    moreover have "\<forall>k \<in> window_keys w. assoc d0 k = None"
      using d0(2) True by (simp add: window_keys_def)
    ultimately show ?thesis using that d1 r2(1) mode True by blast
  next
    case False
    then have w: "w = ''weekly''" using assms(2) by simp
    have "\<forall>k \<in> window_keys w. assoc d1 k = None"
      using r1(2) d0(2) w by (simp add: window_keys_def)
    then show ?thesis using that d2 r2(1) mode w by blast
  qed
qed

text \<open>Charging an account leaves each limited window open and exact: with the delta merged
  into the document the window has not run out, a window that had run out counts this charge only,
  any other counts what it did plus the charge, to eight digits; and where the window resets at a
  fixed hour the next reset lies in the future and at most a week away.\<close>

lemma account_charge_keeps_window_open:
  assumes "account_quota_delta zones extra cost now = Inr delta" "w \<in> {''daily'', ''weekly''}"
    and "rat_val (extra_number extra (''quota_'' @ w @ ''_limit'')) \<noteq> 0"
    and "\<And>name z. zones name = Some z \<Longrightarrow> \<exists>off. z = fixed_zone off"
    and "0 \<le> now" "now + 7 * day < calendar_end" and e': "e' = merge_extra extra delta"
  shows "\<not> quota_expired e' w now \<and>
    assoc e' (''quota_'' @ w @ ''_used'') = Some (JNum (float_string 8
      ((if quota_expired extra w now then 0 else rat_val (extra_number extra (''quota_'' @ w @ ''_used''))) + rat_val cost))) \<and>
    (fixed_reset extra w \<and> quota_expired extra w now \<longrightarrow>
      (\<exists>t. parse_time (credential_string e' (''quota_'' @ w @ ''_reset_at'')) = Some t \<and> now < t \<and> t \<le> now + 7 * day))"
proof -
  obtain d d' where wd: "window_delta zones extra cost now d w = Inr d'" and dist: "distinct (map fst delta)"
    and none: "\<forall>k \<in> window_keys w. assoc d k = None" and same: "\<forall>k \<in> window_keys w. assoc delta k = assoc d' k"
    and mode: "assoc delta (''quota_'' @ w @ ''_reset_mode'') = None"
    using account_delta_window [OF assms(1,2)] .
  have merged: "assoc e' k = (case assoc delta k of None \<Rightarrow> assoc extra k | Some v \<Rightarrow> Some v)" for k
    unfolding e' by (rule merge_extra_assoc [OF dist])
  have fixed: "fixed_reset e' w = fixed_reset extra w"
    using mode by (simp add: fixed_reset_def credential_string_def merged)
  have used: "assoc e' (''quota_'' @ w @ ''_used'') = Some (used_after extra (''quota_'' @ w @ ''_used'') (quota_expired extra w now) cost)"
    using window_delta_used [OF wd assms(3)] same by (simp add: merged window_keys_def)
  have long: "hour > 0" by (simp add: durations)
  show ?thesis
  proof (cases "quota_expired extra w now")
    case False
    have "assoc delta k = None" if "k = ''quota_'' @ w @ ''_start'' \<or> k = ''quota_'' @ w @ ''_reset_at''" for k
      using window_delta_untouched [OF wd False, of k] none same that by (auto simp: window_keys_def)
    then have "quota_expired e' w now = quota_expired extra w now"
      by (simp add: quota_expired_def fixed credential_string_def merged Let_def)
    then show ?thesis using False used by (simp add: used_after_def)
  next
    case True
    show ?thesis
    proof (cases "fixed_reset extra w")
      case False
      have "assoc e' (''quota_'' @ w @ ''_start'') = Some (JStr (format_time True now))"
        using window_delta_start [OF wd assms(3) True False] same by (simp add: merged window_keys_def)
      then have "parse_time (credential_string e' (''quota_'' @ w @ ''_start'')) = Some now"
        using parse_format_calendar [of now True] assms(5,6) by (simp add: credential_string_def durations)
      then show ?thesis using False used True long by (simp add: quota_expired_def fixed used_after_def Let_def)
    next
      case fx: True
      obtain z h dd where z: "quota_zone zones extra = Inr z" and h: "0 \<le> h" "h \<le> 23"
        and r: "assoc d' (''quota_'' @ w @ ''_reset_at'') = Some (JStr (format_time False (next_reset z w h dd now)))"
        using window_delta_reset_at [OF wd assms(3) True fx] .
      obtain off where off: "z = fixed_zone off"
        using z assms(4) by (auto simp: quota_zone_def Let_def split: option.splits)
      define n where "n = next_reset z w h dd now"
      have n: "now < n" "n \<le> now + 7 * day" "n mod second = 0"
        using next_reset_fixed [OF h, where off = off and now = now and w = w and d = dd] by (simp_all add: n_def off)
      have "credential_string e' (''quota_'' @ w @ ''_reset_at'') = format_time False n"
        using r same by (simp add: credential_string_def merged window_keys_def n_def)
      then have p: "parse_time (credential_string e' (''quota_'' @ w @ ''_reset_at'')) = Some n"
        using parse_format_calendar [of n False] n assms(5,6) by simp
      then have "\<not> quota_expired e' w now" using fx n(1) by (simp add: quota_expired_def fixed Let_def)
      then show ?thesis using used True p n by (simp add: used_after_def)
    qed
  qed
qed


section \<open>Samples\<close>

definition sample_quota :: quota_row where
  "sample_quota = \<lparr>qr_user = 7, qr_platform = ''openai'', qr_deleted = False,
     qr_daily = fresh_window (Some ''2''), qr_weekly = fresh_window (Some ''10''), qr_monthly = fresh_window None\<rparr>"

definition sample_charges :: "(instant \<times> json_number) list" where
  "sample_charges = [(0, ''5''), (20 * hour, ''1.5''), (21 * hour, ''0.5'')]"

theorem platform_quota_blocks_on_window_spend_witness:
  "check_platform_quota (fixed_zone 28800) (22 * hour) (22 * hour)
     (charge_table (fixed_zone 28800) 7 ''openai'' sample_charges [sample_quota]) 7 ''openai'' =
   Inl (ApiError 429 ''platform spending limit exceeded'')"
proof -
  have "sorted (map fst sample_charges)" "\<forall>x \<in> set sample_charges. fst x \<le> 22 * hour \<and> 0 \<le> rat_val (snd x)" by code_simp+
  moreover have "\<forall>r \<in> set [sample_quota]. live_quota 7 ''openai'' r \<longrightarrow> unused r" by code_simp
  moreover have "live_quota 7 ''openai'' sample_quota \<and>
      reaches (spent (same_day (fixed_zone 28800) (22 * hour)) sample_charges) (qw_limit (qr_daily sample_quota))" by code_simp
  ultimately show ?thesis
    using platform_quota_blocks_on_window_spend [of sample_charges "22 * hour" "[sample_quota]" 7 "''openai''" "fixed_zone 28800" 28800 "22 * hour"]
    by simp
qed

definition sample_extra :: fields where
  "sample_extra = [(''quota_daily_limit'', JNum ''10''), (''quota_daily_used'', JNum ''9.5''),
     (''quota_daily_reset_mode'', JStr ''fixed''), (''quota_daily_reset_hour'', JNum ''6''),
     (''quota_daily_reset_at'', JStr ''2023-11-14T06:00:00Z'')]"

theorem account_charge_keeps_window_open_witness:
  "\<exists>delta. account_quota_delta [''UTC'' \<mapsto> fixed_zone 0] sample_extra ''0.25'' (1700000000 * second) = Inr delta \<and>
     \<not> quota_expired (merge_extra sample_extra delta) ''daily'' (1700000000 * second) \<and>
     assoc (merge_extra sample_extra delta) ''quota_daily_used'' = Some (JNum ''0.25000000'')"
proof -
  define delta where "delta = (case account_quota_delta [''UTC'' \<mapsto> fixed_zone 0] sample_extra ''0.25'' (1700000000 * second) of
    Inr d \<Rightarrow> d | Inl _ \<Rightarrow> [])"
  have ok: "ok (account_quota_delta [''UTC'' \<mapsto> fixed_zone 0] sample_extra ''0.25'' (1700000000 * second))" by code_simp
  then have d: "account_quota_delta [''UTC'' \<mapsto> fixed_zone 0] sample_extra ''0.25'' (1700000000 * second) = Inr delta"
    by (auto simp: delta_def ok_iff)
  have zones: "\<exists>off. z = fixed_zone off" if "[''UTC'' \<mapsto> fixed_zone 0] name = Some z" for name z
    using that by (auto split: if_splits)
  have l: "rat_val (extra_number sample_extra ''quota_daily_limit'') \<noteq> 0" by code_simp
  have x: "quota_expired sample_extra ''daily'' (1700000000 * second)" by code_simp
  have v: "float_string 8 (0 + rat_val ''0.25'') = ''0.25000000''" by code_simp
  have window: "\<not> quota_expired (merge_extra sample_extra delta) ''daily'' (1700000000 * second) \<and>
      assoc (merge_extra sample_extra delta) ''quota_daily_used'' = Some (JNum (float_string 8 (0 + rat_val ''0.25'')))"
    using account_charge_keeps_window_open [where w = "''daily''", OF d _ _ zones _ _ refl] l x
    by (auto simp: durations calendar_end_def)
  show ?thesis using d window v by simp
qed

end
