(* ===== verification/Settlement.thy ===== *)
theory Settlement
  imports Quotas Gateway Group_Fallback Go_Text
begin

text \<open>
  Settlement of used requests, \<open>internal/app/settlement.go\<close> with the balance adjustment of
  \<open>internal/app/balance.go\<close>: the price of search calls, the fingerprint of a receipt, its application
  to the database and the replay of pending receipts. The database is a record with one list per
  table and a transaction is a function on it, whose error leaves the database as it was. The digest
  (SHA-256) is a parameter of the fingerprint; the time zones and clocks are those of \<open>Quotas\<close>.
\<close>

section \<open>Text\<close>

text \<open>\<open>utf8.ValidString\<close>.\<close>

fun valid_utf8 :: "string \<Rightarrow> bool" where
  "valid_utf8 [] = True"
| "valid_utf8 (a # s) =
     (if byte_in 0 127 a then valid_utf8 s
      else (case s of
        [] \<Rightarrow> False
      | b # s \<Rightarrow>
          (if byte_in 194 223 a then tail_byte b \<and> valid_utf8 s
           else (case s of
             [] \<Rightarrow> False
           | c # s \<Rightarrow>
               (if byte_in 224 239 a
                then byte_in (if of_char a = (224 :: nat) then 160 else 128) (if of_char a = (237 :: nat) then 159 else 191) b \<and>
                  tail_byte c \<and> valid_utf8 s
                else (case s of
                  [] \<Rightarrow> False
                | d # s \<Rightarrow> byte_in 240 244 a \<and>
                    byte_in (if of_char a = (240 :: nat) then 144 else 128) (if of_char a = (244 :: nat) then 143 else 191) b \<and>
                    tail_byte c \<and> tail_byte d \<and> valid_utf8 s))))))"

text \<open>The longest valid beginning that the loop keeps: it drops one byte at a time from the end.\<close>

fun shrink_valid :: "string \<Rightarrow> nat \<Rightarrow> string" where
  "shrink_valid s 0 = []"
| "shrink_valid s (Suc n) = (let t = take (Suc n) s in if valid_utf8 t then t else shrink_valid s n)"

definition clean_request_id :: "string \<Rightarrow> string" where
  "clean_request_id raw =
     (let i = trim_space raw in
      if \<not> valid_utf8 i \<or> contains_any i [CHR 0x00, CHR 0x0D, CHR 0x0A] then []
      else if 128 < length i then shrink_valid i 128 else i)"


section \<open>Search prices\<close>

definition standalone_search_cost :: "json_number option \<Rightarrow> json_number \<Rightarrow> bool \<Rightarrow> price_cost result" where
  "standalone_search_cost price rate per_thousand =
     (if \<not> valid_price price 12 8 \<or> \<not> valid_price (Some rate) 6 4
        then Inl (bad ''invalid search price or multiplier'')
      else (let base = decimal_or price (if per_thousand then ''5'' else ''0.01'');
                amount = (if per_thousand then base / 1000 else base);
                actual = amount * rat_val rate in
        Inr \<lparr>c_input = ''0'', c_output = ''0'', c_cache_write = ''0'', c_cache_read = ''0'', c_image_input = ''0'',
             c_image_output = ''0'', c_total = float_string 10 amount, c_actual = float_string 10 actual,
             c_debit = float_string 8 actual, c_total_value = amount\<rparr>))"

definition alpha_search_cost :: "json_number option \<Rightarrow> json_number \<Rightarrow> price_cost result" where
  "alpha_search_cost price rate = standalone_search_cost price rate False"

definition search_cost :: "gateway_group \<Rightarrow> string \<Rightarrow> price_cost result" where
  "search_cost g protocol =
     (if grok_search_protocol protocol then standalone_search_cost (gg_search_price g) (gg_rate g) True
      else alpha_search_cost (gg_web_search_price g) (gg_rate g))"

text \<open>\<open>addHostedSearchCost\<close>: the search calls are billed at the rate of the group, the rest at the
  rate it was priced with.\<close>

definition add_hosted_search_cost :: "price_cost \<Rightarrow> gateway_group \<Rightarrow> int \<Rightarrow> json_number \<Rightarrow> price_cost result" where
  "add_hosted_search_cost cost g calls base_rate =
     (if calls < 0 \<or> 10000 < calls then Inl (bad ''invalid search call count'')
      else and_then (search_cost g ''web_search'') (\<lambda>search.
        let extra = c_total_value search * of_int calls;
            actual = c_total_value cost * rat_val base_rate + extra * rat_val (gg_rate g);
            sum = c_total_value cost + extra in
        Inr (cost\<lparr>c_total_value := sum, c_total := float_string 10 sum, c_actual := float_string 10 actual,
                  c_debit := float_string 8 actual\<rparr>)))"


section \<open>Receipts\<close>

record receipt =
  rc_websocket :: bool
  rc_request :: string
  rc_payload :: string
  rc_fingerprint :: string
  rc_user :: int
  rc_key :: int
  rc_account :: int
  rc_group :: int
  rc_channel :: "int option"
  rc_platform :: string
  rc_model :: string
  rc_requested :: string
  rc_upstream_model :: string
  rc_response_model :: string
  rc_tier :: string
  rc_effort :: string
  rc_cost :: price_cost
  rc_user_rate :: string
  rc_account_rate :: string
  rc_account_raw :: string
  rc_account_debit :: string
  rc_account_stats :: "string option"
  rc_key_quota :: bool
  rc_key_windows :: bool
  rc_account_quota :: bool
  rc_usage :: price_usage
  rc_stream :: bool
  rc_native_compaction :: bool
  rc_duration :: int
  rc_first_token :: int
  rc_at :: instant
  rc_ip :: string
  rc_agent :: string
  rc_inbound :: string
  rc_upstream :: string
  rc_upstream_request :: string
  rc_billing_mode :: string
  rc_requested_effort :: "string option"

definition joined :: "string list \<Rightarrow> string" where
  "joined parts = (case parts of [] \<Rightarrow> [] | p # ps \<Rightarrow> p @ concat (map (\<lambda>q. CHR ''|'' # q) ps))"

definition sizes_text :: "int \<times> int \<times> int \<Rightarrow> string" where
  "sizes_text sizes = (case sizes of (a, b, c) \<Rightarrow>
     ''['' @ int_text a @ '' '' @ int_text b @ '' '' @ int_text c @ '']'')"

definition zero_cost :: string where
  "zero_cost = ''0.0000000000''"

definition fingerprint_text :: "receipt \<Rightarrow> string" where
  "fingerprint_text r =
     (let u = rc_usage r; actual = c_actual (rc_cost r) in
      joined [int_text (rc_user r), int_text (rc_account r), int_text (rc_key r), ''apikey'', trim_space (rc_model r),
        trim_space (rc_tier r), trim_space (rc_effort r), ''0'', int_text (u_input u), int_text (u_output u),
        int_text (u_cache_write u), int_text (u_cache_read u), ''0'', [], ''0'', actual, zero_cost,
        (if rc_key_quota r then actual else zero_cost), (if rc_key_windows r then actual else zero_cost),
        (if rc_account_quota r then rc_account_raw r else zero_cost)] @
      (if rc_payload r \<noteq> [] then ''|'' @ rc_payload r else []) @
      (if 0 < u_video_count u
       then ''|video|'' @ joined [int_text (u_video_count u), int_text (u_video_seconds u), u_video_resolution u] else []) @
      (if 0 < u_image_count u
       then ''|image|'' @ joined [int_text (u_image_count u), u_image_size u, int_text (u_image_input u), int_text (u_image_output u)] else []) @
      (if u_image_output_size u \<noteq> [] \<or> u_image_sizes u \<noteq> (0, 0, 0)
       then ''|image-output|'' @ joined [u_image_output_size u, sizes_text (u_image_sizes u)] else []) @
      (if 0 < u_search_calls u then ''|search|'' @ int_text (u_search_calls u) else []))"

definition fingerprint_of :: "(string \<Rightarrow> string) \<Rightarrow> receipt \<Rightarrow> string" where
  "fingerprint_of digest r = digest (fingerprint_text r)"

text \<open>\<open>imageSizeBreakdown\<close>: the sizes that occur, \<open>None\<close> when none does.\<close>

definition image_size_breakdown :: "int \<times> int \<times> int \<Rightarrow> (string \<times> int) list option" where
  "image_size_breakdown sizes = (case sizes of (a, b, c) \<Rightarrow>
     (let found = filter (\<lambda>(s, n). 0 < n) [(''1K'', a), (''2K'', b), (''4K'', c)] in
      if found = [] then None else Some found))"


section \<open>The database\<close>

record billed_key =
  bk_id :: int
  bk_quota :: rat
  bk_used :: rat
  bk_status :: string
  bk_usage_5h :: rat
  bk_usage_1d :: rat
  bk_usage_7d :: rat
  bk_start_5h :: "instant option"
  bk_start_1d :: "instant option"
  bk_start_7d :: "instant option"
  bk_last_used :: "instant option"

text \<open>The columns of a usage row that are not columns of the receipt.\<close>

record usage_row =
  ur_receipt :: receipt
  ur_upstream :: string
  ur_request_type :: int
  ur_upstream_request :: string
  ur_mismatch :: bool
  ur_sizes :: "(string \<times> int) list option"

type_synonym usage_key = "string \<times> int"

record billing_db =
  db_users :: "(int \<times> rat) list"
  db_keys :: "billed_key list"
  db_accounts :: "(int \<times> json) list"
  db_quotas :: "quota_row list"
  db_dedup :: "(usage_key \<times> string) list"
  db_archive :: "(usage_key \<times> string) list"
  db_usage :: "usage_row list"

definition request_key :: "receipt \<Rightarrow> usage_key" where
  "request_key r = (rc_request r, rc_key r)"

text \<open>The clocks and zones of one application: the application's clock, the database's clock, the
  zone of the platform quotas, the zone of the database session and the zone database.\<close>

record clocks =
  ck_now :: instant
  ck_db_now :: instant
  ck_quota_zone :: zone
  ck_db_zone :: zone
  ck_zones :: "string \<Rightarrow> zone option"

definition charge_key_quota :: "rat \<Rightarrow> billed_key \<Rightarrow> billed_key" where
  "charge_key_quota debit k =
     k\<lparr>bk_used := bk_used k + debit,
       bk_status := (if bk_status k = ''active'' \<and> 0 < bk_quota k \<and> bk_quota k \<le> bk_used k + debit
                     then ''quota_exhausted'' else bk_status k)\<rparr>"

text \<open>A window of a key: the usage and the start after a charge, with the start a new window gets.\<close>

definition charge_key_window ::
  "instant \<Rightarrow> int \<Rightarrow> instant \<Rightarrow> rat \<Rightarrow> rat \<Rightarrow> instant option \<Rightarrow> rat \<times> instant option" where
  "charge_key_window now len fresh debit usage start = (case start of
     None \<Rightarrow> (usage + debit, Some fresh)
   | Some s \<Rightarrow> if s + len \<le> now then (debit, Some fresh) else (usage + debit, Some s))"

definition charge_key_windows :: "clocks \<Rightarrow> rat \<Rightarrow> billed_key \<Rightarrow> billed_key" where
  "charge_key_windows ck debit k =
     (let now = ck_db_now ck; today = day_at (ck_db_zone ck) now 0;
          w5 = charge_key_window now (5 * hour) now debit (bk_usage_5h k) (bk_start_5h k);
          w1 = charge_key_window now (24 * hour) today debit (bk_usage_1d k) (bk_start_1d k);
          w7 = charge_key_window now (168 * hour) today debit (bk_usage_7d k) (bk_start_7d k) in
      k\<lparr>bk_usage_5h := fst w5, bk_start_5h := snd w5, bk_usage_1d := fst w1, bk_start_1d := snd w1,
        bk_usage_7d := fst w7, bk_start_7d := snd w7\<rparr>)"

definition charge_key :: "clocks \<Rightarrow> receipt \<Rightarrow> billed_key \<Rightarrow> billed_key" where
  "charge_key ck r k =
     (if bk_id k \<noteq> rc_key r then k
      else (let debit = rat_val (c_debit (rc_cost r));
                k = (if rc_key_quota r then charge_key_quota debit k else k);
                k = (if rc_key_windows r then charge_key_windows ck debit k else k) in
        k\<lparr>bk_last_used := Some (ck_db_now ck)\<rparr>))"

text \<open>\<open>extra || delta\<close> of PostgreSQL on the documents an account can have.\<close>

definition merge_document :: "json \<Rightarrow> fields \<Rightarrow> json" where
  "merge_document extra delta = (case extra of JObj kvs \<Rightarrow> JObj (rev (merge_extra (rev kvs) delta)) | j \<Rightarrow> JArr [j, JObj delta])"

definition charge_account :: "clocks \<Rightarrow> receipt \<Rightarrow> (int \<times> json) list \<Rightarrow> (int \<times> json) list result" where
  "charge_account ck r accounts =
     (if \<not> rc_account_quota r then Inr accounts
      else (case assoc accounts (rc_account r) of
        None \<Rightarrow> Inl missing
      | Some extra \<Rightarrow> (case as_object (Some extra) of
          None \<Rightarrow> Inl (Internal ''invalid account extra'')
        | Some m \<Rightarrow>
            and_then (account_quota_delta (ck_zones ck) (case m of None \<Rightarrow> [] | Some kvs \<Rightarrow> kvs) (rc_account_debit r) (ck_now ck))
              (\<lambda>delta. Inr (put (rc_account r) (merge_document extra delta) accounts)))))"

definition usage_of :: "receipt \<Rightarrow> usage_row" where
  "usage_of r =
     \<lparr>ur_receipt = r, ur_upstream = (if rc_upstream r = [] then ''/v1/chat/completions'' else rc_upstream r),
      ur_request_type = (if rc_websocket r then 3 else if rc_stream r then 2 else 1),
      ur_upstream_request = (if rc_websocket r then [] else clean_request_id (rc_upstream_request r)),
      ur_mismatch = (rc_response_model r \<noteq> [] \<and> rc_response_model r \<noteq> rc_upstream_model r),
      ur_sizes = image_size_breakdown (u_image_sizes (rc_usage r))\<rparr>"

definition charge_user :: "receipt \<Rightarrow> (int \<times> rat) list \<Rightarrow> (int \<times> rat) list result" where
  "charge_user r users = (case assoc users (rc_user r) of
     None \<Rightarrow> Inl (Internal ''billing user missing'')
   | Some balance \<Rightarrow> Inr (put (rc_user r) (balance - rat_val (c_debit (rc_cost r))) users))"

text \<open>The charge of a receipt that was not seen before.\<close>

definition charge_receipt :: "clocks \<Rightarrow> billing_db \<Rightarrow> receipt \<Rightarrow> billing_db result" where
  "charge_receipt ck db r =
     and_then (charge_user r (db_users db)) (\<lambda>users.
     and_then (charge_account ck r (db_accounts db)) (\<lambda>accounts.
     if list_ex (\<lambda>row. request_key (ur_receipt row) = request_key r) (db_usage db)
       then Inl (Internal ''duplicate key value violates unique constraint'')
     else Inr (db\<lparr>db_users := users, db_keys := map (charge_key ck r) (db_keys db), db_accounts := accounts,
       db_quotas := increment_platform_quota (ck_quota_zone ck) (ck_now ck) (db_quotas db) (rc_user r) (rc_platform r)
         (c_actual (rc_cost r)),
       db_dedup := put (request_key r) (rc_fingerprint r) (db_dedup db),
       db_usage := db_usage db @ [usage_of r]\<rparr>)))"

definition apply_receipt :: "clocks \<Rightarrow> billing_db \<Rightarrow> receipt \<Rightarrow> billing_db \<times> unit result" where
  "apply_receipt ck db r = (case assoc (db_dedup db) (request_key r) of
     Some f \<Rightarrow> (db, if f \<noteq> rc_fingerprint r then Inl (conflict ''billing fingerprint conflict'') else Inr ())
   | None \<Rightarrow> (case assoc (db_archive db) (request_key r) of
       Some f \<Rightarrow> (db, if f \<noteq> rc_fingerprint r then Inl (conflict ''archived billing fingerprint conflict'') else Inr ())
     | None \<Rightarrow> (case charge_receipt ck db r of
         Inl e \<Rightarrow> (db, Inl e)
       | Inr db' \<Rightarrow> (db', Inr ()))))"


section \<open>Pending receipts\<close>

text \<open>
  The hash \<open>gateway:pending-billing\<close> by request ID. \<open>stored\<close> and \<open>removed\<close> say whether the Redis commands
  succeed; the result of the removal is ignored by the code.
\<close>

type_synonym pending = "(string \<times> receipt) list"

definition save_receipt ::
  "clocks \<Rightarrow> bool \<Rightarrow> bool \<Rightarrow> billing_db \<Rightarrow> pending \<Rightarrow> receipt \<Rightarrow> billing_db \<times> pending \<times> unit result" where
  "save_receipt ck stored removed db pending r =
     (let pending' = (if stored then put (rc_request r) r pending else pending) in
      case apply_receipt ck db r of
        (db', Inl e) \<Rightarrow> (db', pending', Inl e)
      | (db', Inr _) \<Rightarrow> (db', if stored \<and> removed then remove (rc_request r) pending' else pending', Inr ()))"

definition recover_one ::
  "(string \<Rightarrow> string) \<Rightarrow> clocks \<Rightarrow> billing_db \<times> pending \<Rightarrow> string \<times> receipt \<Rightarrow> (billing_db \<times> pending) \<times> unit result" where
  "recover_one digest ck st entry = (case st of (db, pending) \<Rightarrow>
     let r = snd entry in
     if rc_request r \<noteq> fst entry \<or> rc_fingerprint r \<noteq> fingerprint_of digest r
       then ((db, pending), Inl (Internal ''invalid pending billing receipt''))
     else (case apply_receipt ck db r of
             (db', Inl e) \<Rightarrow> ((db', pending), Inl e)
           | (db', Inr _) \<Rightarrow> ((db', remove (rc_request r) pending), Inr ())))"

text \<open>The scan visits the entries in some order and stops at the first error.\<close>

fun recover_receipts ::
  "(string \<Rightarrow> string) \<Rightarrow> clocks \<Rightarrow> billing_db \<times> pending \<Rightarrow> (string \<times> receipt) list \<Rightarrow> (billing_db \<times> pending) \<times> unit result" where
  "recover_receipts digest ck st [] = (st, Inr ())"
| "recover_receipts digest ck st (entry # scan) =
     (case recover_one digest ck st entry of
        (st', Inl e) \<Rightarrow> (st', Inl e)
      | (st', Inr _) \<Rightarrow> recover_receipts digest ck st' scan)"

end
