(* ===== verification/Settlement_Facts.thy ===== *)
theory Settlement_Facts
  imports Settlement
begin

text \<open>
  Guarantees of settlement: every receipt is charged at most once whatever is retried, replayed or
  fails, and a receipt that reached the pending store is charged in the end.
\<close>

section \<open>One receipt\<close>

definition settled :: "billing_db \<Rightarrow> receipt \<Rightarrow> bool" where
  "settled db r \<longleftrightarrow> assoc (db_dedup db) (request_key r) \<noteq> None \<or> assoc (db_archive db) (request_key r) \<noteq> None"

definition balance_of :: "billing_db \<Rightarrow> int \<Rightarrow> rat option" where
  "balance_of db u = assoc (db_users db) u"

definition debit_of :: "receipt \<Rightarrow> rat" where
  "debit_of r = rat_val (c_debit (rc_cost r))"

text \<open>What a list of charged receipts costs a user, and adds to the used quota of a key.\<close>

definition charged_to :: "int \<Rightarrow> receipt list \<Rightarrow> rat" where
  "charged_to u rs = sum_list (map debit_of (filter (\<lambda>r. rc_user r = u) rs))"

definition quota_charged :: "int \<Rightarrow> receipt list \<Rightarrow> rat" where
  "quota_charged i rs = sum_list (map debit_of (filter (\<lambda>r. rc_key r = i \<and> rc_key_quota r) rs))"

lemma charged_to_simps [simp]:
  "charged_to u [] = 0" "charged_to u (rs @ [r]) = charged_to u rs + (if rc_user r = u then debit_of r else 0)"
  by (simp_all add: charged_to_def)

lemma quota_charged_simps [simp]:
  "quota_charged i [] = 0"
  "quota_charged i (rs @ [r]) = quota_charged i rs + (if rc_key r = i \<and> rc_key_quota r then debit_of r else 0)"
  by (simp_all add: quota_charged_def)

text \<open>The key usages of a table as pairs of the key and what it used.\<close>

definition key_usage :: "billing_db \<Rightarrow> (int \<times> rat) list" where
  "key_usage db = map (\<lambda>k. (bk_id k, bk_used k)) (db_keys db)"

lemma charge_key_parts:
  "bk_id (charge_key ck r k) = bk_id k"
  "bk_used (charge_key ck r k) = bk_used k + (if rc_key r = bk_id k \<and> rc_key_quota r then debit_of r else 0)"
  by (auto simp: charge_key_def charge_key_quota_def charge_key_windows_def debit_of_def Let_def)

lemma charge_receipt_Inr:
  assumes "charge_receipt ck db r = Inr db'"
  shows "db_usage db' = db_usage db @ [usage_of r] \<and> db_archive db' = db_archive db \<and>
    db_dedup db' = put (request_key r) (rc_fingerprint r) (db_dedup db) \<and>
    balance_of db' u = map_option (\<lambda>b. b - (if rc_user r = u then debit_of r else 0)) (balance_of db u) \<and>
    key_usage db' = map (\<lambda>(i, n). (i, n + (if rc_key r = i \<and> rc_key_quota r then debit_of r else 0))) (key_usage db)"
  using assms
  by (auto simp: charge_receipt_def charge_user_def balance_of_def debit_of_def key_usage_def assoc_put charge_key_parts
      option.map_ident split: sum.splits option.splits if_splits)

lemma apply_settled: "settled db r \<Longrightarrow> fst (apply_receipt ck db r) = db"
  by (auto simp: settled_def apply_receipt_def split: option.splits)

lemma apply_unsettled:
  "\<not> settled db r \<Longrightarrow> apply_receipt ck db r =
     (case charge_receipt ck db r of Inl e \<Rightarrow> (db, Inl e) | Inr db' \<Rightarrow> (db', Inr ()))"
  by (auto simp: settled_def apply_receipt_def)

lemma charge_settles:
  "charge_receipt ck db r = Inr db' \<Longrightarrow> settled db' r' \<longleftrightarrow> settled db r' \<or> request_key r' = request_key r"
  using charge_receipt_Inr [of ck db r db'] by (auto simp: settled_def assoc_put)


section \<open>Any number of attempts\<close>

definition apply_all :: "(clocks \<times> receipt) list \<Rightarrow> billing_db \<Rightarrow> billing_db" where
  "apply_all attempts db = foldl (\<lambda>db (ck, r). fst (apply_receipt ck db r)) db attempts"

definition charged_once :: "billing_db \<Rightarrow> receipt list \<Rightarrow> billing_db \<Rightarrow> bool" where
  "charged_once db ts db' \<longleftrightarrow> distinct (map request_key ts) \<and> (\<forall>r \<in> set ts. \<not> settled db r) \<and>
     db_usage db' = db_usage db @ map usage_of ts \<and>
     (\<forall>u. balance_of db' u = map_option (\<lambda>b. b - charged_to u ts) (balance_of db u)) \<and>
     key_usage db' = map (\<lambda>(i, n). (i, n + quota_charged i ts)) (key_usage db) \<and>
     (\<forall>r. settled db' r \<longleftrightarrow> settled db r \<or> request_key r \<in> request_key ` set ts)"

lemma charged_once_refl: "charged_once db [] db"
  by (auto simp: charged_once_def option.map_ident)

lemma charged_once_step:
  assumes "charged_once db ts db1"
  shows "charged_once db (if \<not> settled db1 r \<and> ok (charge_receipt ck db1 r) then ts @ [r] else ts) (fst (apply_receipt ck db1 r))"
proof (cases "\<not> settled db1 r \<and> ok (charge_receipt ck db1 r)")
  case False
  then have "fst (apply_receipt ck db1 r) = db1"
    using apply_settled [of db1 r ck] apply_unsettled [of db1 r ck]
    by (cases "charge_receipt ck db1 r"; cases "settled db1 r") auto
  then show ?thesis using False assms by (simp only: if_False)
next
  case True
  then obtain db2 where c: "charge_receipt ck db1 r = Inr db2" by (auto simp: ok_iff)
  have a: "fst (apply_receipt ck db1 r) = db2" using apply_unsettled [of db1 r ck] True c by simp
  note c' = charge_receipt_Inr [OF c]
  have "request_key r \<notin> request_key ` set ts" "\<not> settled db r" using True assms by (auto simp: charged_once_def)
  moreover have "balance_of db2 u = map_option (\<lambda>b. b - charged_to u (ts @ [r])) (balance_of db u)" for u
    using c' [of u] assms by (cases "balance_of db u") (auto simp: charged_once_def)
  moreover have "key_usage db2 = map (\<lambda>(i, n). (i, n + quota_charged i (ts @ [r]))) (key_usage db)"
    using c' assms by (auto simp: charged_once_def)
  moreover have "settled db2 r' \<longleftrightarrow> settled db r' \<or> request_key r' \<in> request_key ` set (ts @ [r])" for r'
    using charge_settles [OF c, of r'] assms by (auto simp: charged_once_def)
  moreover have "db_usage db2 = db_usage db @ map usage_of (ts @ [r])" using c' assms by (simp add: charged_once_def)
  ultimately show ?thesis using True a assms by (simp add: charged_once_def)
qed

text \<open>Property C19: Settlement charges every request at most once. Whatever receipts are applied, however
  often and in whatever order, and whichever attempts fail, there is a selection of them with pairwise
  different requests, none of which had been settled before, such that exactly these are in the usage
  log, each user's balance is lower by the sum of exactly their debits, and the used quota of each key
  is higher by exactly the debits that count against it.\<close>
theorem settled_exactly_once:
  "\<exists>ts. subseq ts (map snd attempts) \<and> charged_once db ts (apply_all attempts db)"
proof (induction attempts rule: rev_induct)
  case Nil
  show ?case using charged_once_refl by (auto simp: apply_all_def)
next
  case (snoc x attempts)
  obtain ck r where x: "x = (ck, r)" by (cases x)
  from snoc obtain ts where ts: "subseq ts (map snd attempts)" "charged_once db ts (apply_all attempts db)" by blast
  have "apply_all (attempts @ [x]) db = fst (apply_receipt ck (apply_all attempts db) r)"
    by (simp add: apply_all_def x)
  define us where "us = (if \<not> settled (apply_all attempts db) r \<and> ok (charge_receipt ck (apply_all attempts db) r)
      then ts @ [r] else ts)"
  have "subseq us (map snd (attempts @ [x]))"
    using ts(1) x by (cases "us = ts") (auto simp: us_def subseq_rev_drop_many)
  moreover have "charged_once db us (apply_all (attempts @ [x]) db)"
    unfolding us_def \<open>apply_all (attempts @ [x]) db = _\<close> by (rule charged_once_step [OF ts(2)])
  ultimately show ?case by (intro exI [of _ us] conjI)
qed


section \<open>Crashes and recovery\<close>

text \<open>What can happen to the pending store: a receipt is saved, a process dies between storing and
  applying it, or a recovery scans entries of the store. A removal that fails, or a crash before it,
  is a save whose removal does not happen.\<close>

datatype billing_event =
    Save clocks bool bool receipt
  | Store_Only receipt
  | Recover clocks "(string \<times> receipt) list"

fun billing_step :: "(string \<Rightarrow> string) \<Rightarrow> billing_db \<times> pending \<Rightarrow> billing_event \<Rightarrow> billing_db \<times> pending" where
  "billing_step digest (db, p) (Save ck stored removed r) =
     (case save_receipt ck stored removed db p r of (db', p', _) \<Rightarrow> (db', p'))"
| "billing_step digest (db, p) (Store_Only r) = (db, put (rc_request r) r p)"
| "billing_step digest (db, p) (Recover ck scan) = fst (recover_receipts digest ck (db, p) scan)"

fun stored_by :: "billing_event \<Rightarrow> receipt list" where
  "stored_by (Save ck stored removed r) = (if stored then [r] else [])"
| "stored_by (Store_Only r) = [r]"
| "stored_by (Recover ck scan) = []"

fun scanned_by :: "billing_event \<Rightarrow> receipt list" where
  "scanned_by (Recover ck scan) = map snd scan"
| "scanned_by (Save ck stored removed r) = [r]"
| "scanned_by (Store_Only r) = [r]"

definition kept :: "billing_db \<times> pending \<Rightarrow> receipt \<Rightarrow> bool" where
  "kept st r \<longleftrightarrow> assoc (snd st) (rc_request r) = Some r \<or> settled (fst st) r"

lemma apply_settles: "apply_receipt ck db r = (db', Inr u) \<Longrightarrow> settled db' r"
  using charge_settles [of ck db r] apply_unsettled [of db r ck] apply_settled [of db r ck]
  by (cases "settled db r") (auto split: sum.splits)

lemma apply_keeps: "settled db r' \<Longrightarrow> settled (fst (apply_receipt ck db r)) r'"
  using charge_settles [of ck db r] apply_unsettled [of db r ck] apply_settled [of db r ck]
  by (cases "settled db r") (auto split: sum.splits)

lemma apply_failed: "apply_receipt ck db r = (db', Inl e) \<Longrightarrow> db' = db"
  using apply_unsettled [of db r ck] apply_settled [of db r ck]
  by (cases "settled db r") (auto split: sum.splits)

text \<open>A receipt whose request ID belongs to no other receipt stays kept.\<close>

lemma kept_recover_one:
  assumes "kept st r" "rc_request (snd entry) = rc_request r \<Longrightarrow> snd entry = r"
  shows "kept (fst (recover_one digest ck st entry)) r"
proof -
  obtain db p where st: "st = (db, p)" by (cases st)
  obtain k r' where en: "entry = (k, r')" by (cases entry)
  obtain db' out where a: "apply_receipt ck db r' = (db', out)" by (cases "apply_receipt ck db r'")
  have keeps: "settled db r \<Longrightarrow> settled db' r" using apply_keeps [of db r ck r'] a by simp
  show ?thesis
  proof (cases out)
    case (Inl e)
    then show ?thesis using assms(1) apply_failed [of ck db r' db' e] a st en by (auto simp: recover_one_def kept_def)
  next
    case (Inr u)
    then have "settled db' r'" using apply_settles a by blast
    then show ?thesis
      using assms Inr a st en keeps by (cases "rc_request r' = rc_request r") (auto simp: recover_one_def kept_def assoc_remove)
  qed
qed

lemma kept_recover:
  assumes "kept st r" "\<And>r'. r' \<in> snd ` set scan \<Longrightarrow> rc_request r' = rc_request r \<Longrightarrow> r' = r"
  shows "kept (fst (recover_receipts digest ck st scan)) r"
  using assms
proof (induction digest ck st scan rule: recover_receipts.induct)
  case (1 digest ck st)
  then show ?case by simp
next
  case (2 digest ck st entry scan)
  obtain st' out where o: "recover_one digest ck st entry = (st', out)" by (cases "recover_one digest ck st entry")
  have k: "kept st' r" using kept_recover_one [OF 2(2), of entry digest ck] 2(3) [of "snd entry"] o by simp
  show ?case
  proof (cases out)
    case (Inl e)
    then show ?thesis using o k by simp
  next
    case (Inr u)
    then show ?thesis using 2(1) [OF o [symmetric]] 2(3) k o by simp
  qed
qed

lemma kept_save:
  assumes "save_receipt ck stored removed db p r' = (db', p', out)"
    and "rc_request r' = rc_request r \<Longrightarrow> r' = r" "kept (db, p) r \<or> stored \<and> r' = r"
  shows "kept (db', p') r"
proof -
  obtain db1 o1 where a: "apply_receipt ck db r' = (db1, o1)" by (cases "apply_receipt ck db r'")
  have keeps: "settled db r \<Longrightarrow> settled db1 r" using apply_keeps [of db r ck r'] a by simp
  show ?thesis
  proof (cases o1)
    case (Inl e)
    then show ?thesis using assms apply_failed [of ck db r' db1 e] a
      by (cases "rc_request r' = rc_request r") (auto simp: save_receipt_def kept_def Let_def split: if_splits)
  next
    case (Inr u)
    then have "settled db1 r'" using apply_settles a by blast
    then show ?thesis using assms Inr a keeps
      by (cases "rc_request r' = rc_request r")
        (auto simp: save_receipt_def kept_def Let_def assoc_remove split: if_splits)
  qed
qed

lemma recover_one_out:
  assumes "recover_one digest ck st entry = (st', out)"
  shows "settled (fst st) r \<Longrightarrow> settled (fst st') r" "out = Inr u \<Longrightarrow> settled (fst st') (snd entry)"
proof -
  obtain db p where st: "st = (db, p)" by (cases st)
  obtain db' o' where a: "apply_receipt ck db (snd entry) = (db', o')" by (cases "apply_receipt ck db (snd entry)")
  show "settled (fst st) r \<Longrightarrow> settled (fst st') r"
    using assms apply_keeps [of db r ck "snd entry"] a st by (auto simp: recover_one_def Let_def split: if_splits sum.splits)
  show "out = Inr u \<Longrightarrow> settled (fst st') (snd entry)"
    using assms apply_settles [of ck db "snd entry" db'] a st by (auto simp: recover_one_def Let_def split: if_splits sum.splits)
qed

lemma recover_keeps:
  "settled (fst st) r \<Longrightarrow> settled (fst (fst (recover_receipts digest ck st scan))) r"
proof (induction digest ck st scan rule: recover_receipts.induct)
  case (1 digest ck st)
  then show ?case by simp
next
  case (2 digest ck st entry scan)
  obtain st1 out where o: "recover_one digest ck st entry = (st1, out)" by (cases "recover_one digest ck st entry")
  then show ?case using 2 recover_one_out(1) [OF o] by (cases out) auto
qed

lemma recover_scanned:
  "entry \<in> set scan \<Longrightarrow> recover_receipts digest ck st scan = (st', Inr ()) \<Longrightarrow> settled (fst st') (snd entry)"
proof (induction digest ck st scan rule: recover_receipts.induct)
  case (1 digest ck st)
  then show ?case by simp
next
  case (2 digest ck st x scan)
  obtain st1 out where o: "recover_one digest ck st x = (st1, out)" by (cases "recover_one digest ck st x")
  then obtain u where u: "out = Inr u" using "2.prems"(2) by (cases out) auto
  have rest: "recover_receipts digest ck st1 scan = (st', Inr ())" using "2.prems"(2) o u by simp
  show ?case
  proof (cases "entry \<in> set scan")
    case True
    then show ?thesis using "2.IH" [OF o [symmetric] u True] rest by simp
  next
    case False
    then have "settled (fst st1) (snd entry)" using "2.prems"(1) recover_one_out(2) [OF o u] by simp
    then show ?thesis using recover_keeps [of st1 "snd entry" digest ck scan] rest by simp
  qed
qed

text \<open>Property C22: No charge is lost. When request IDs identify receipts, a receipt that was once stored as
  pending is, after any sequence of saves, crashes and recoveries, either still pending or charged;
  and a recovery that scans the whole store without an error leaves it charged.\<close>
theorem pending_receipt_survives:
  assumes "\<And>e r'. e \<in> set events \<Longrightarrow> r' \<in> set (scanned_by e) \<Longrightarrow> rc_request r' = rc_request r \<Longrightarrow> r' = r"
    and "e \<in> set events" "r \<in> set (stored_by e)" and "st = foldl (billing_step digest) (db, []) events"
  shows "(assoc (snd st) (rc_request r) = Some r \<or> settled (fst st) r) \<and>
    ((rc_request r, r) \<in> set scan \<and> recover_receipts digest ck st scan = (st', Inr ()) \<longrightarrow> settled (fst st') r)"
proof -
  have step: "kept (billing_step digest x e) r"
    if "e \<in> set events" "kept x r \<or> r \<in> set (stored_by e)" for x e
  proof -
    obtain db p where x: "x = (db, p)" by (cases x)
    show ?thesis
    proof (cases e)
      case (Save ck stored removed r')
      obtain db' p' out where s: "save_receipt ck stored removed db p r' = (db', p', out)" by (metis prod_cases3)
      show ?thesis using kept_save [OF s, of r] assms(1) [OF that(1), of r'] that(2) Save x s by (auto split: if_splits)
    next
      case (Store_Only r')
      then show ?thesis using that assms(1) [OF that(1), of r'] x by (auto simp: kept_def assoc_put)
    next
      case (Recover ck scan)
      then show ?thesis using that kept_recover [of x r scan digest ck] assms(1) [OF that(1)] x by auto
    qed
  qed
  have run: "kept (foldl (billing_step digest) x es) r"
    if "set es \<subseteq> set events" "kept x r \<or> (\<exists>e \<in> set es. r \<in> set (stored_by e))" for x es
    using that
  proof (induction es arbitrary: x)
    case Nil
    then show ?case by simp
  next
    case (Cons e es)
    then show ?case using step [of e x] by (cases "kept x r \<or> r \<in> set (stored_by e)") auto
  qed
  have "kept st r" unfolding assms(4) using run [of events "(db, [])"] assms(2,3) by blast
  moreover have "settled (fst st') r" if "(rc_request r, r) \<in> set scan" "recover_receipts digest ck st scan = (st', Inr ())"
    using recover_scanned [OF that] by simp
  ultimately show ?thesis unfolding kept_def by blast
qed


section \<open>A sample receipt\<close>

definition sample_cost :: price_cost where
  "sample_cost = \<lparr>c_input = ''0'', c_output = ''0'', c_cache_write = ''0'', c_cache_read = ''0'', c_image_input = ''0'',
     c_image_output = ''0'', c_total = ''0.0100000000'', c_actual = ''0.0100000000'', c_debit = ''0.01000000'', c_total_value = 1 / 100\<rparr>"

definition blank_usage :: price_usage where
  "blank_usage = \<lparr>u_image_request = False, u_image_count = 0, u_image_size = [], u_image_size_source = [], u_image_input_size = [],
     u_image_output_size = [], u_image_sizes = (0, 0, 0), u_video_count = 0, u_video_seconds = 0, u_video_resolution = [],
     u_audio_units = [], u_input = 0, u_output = 0, u_cache_write = 0, u_cache_write_5m = 0, u_cache_write_1h = 0,
     u_cache_read = 0, u_image_input = 0, u_image_output = 0, u_requests = 1, u_search_calls = 0\<rparr>"

definition sample_receipt :: receipt where
  "sample_receipt = (let r = \<lparr>rc_websocket = False, rc_request = ''req-1'', rc_payload = [], rc_fingerprint = [], rc_user = 7, rc_key = 9,
     rc_account = 3, rc_group = 1, rc_channel = None, rc_platform = ''openai'', rc_model = ''m'', rc_requested = ''m'',
     rc_upstream_model = ''m'', rc_response_model = [], rc_tier = [], rc_effort = [], rc_cost = sample_cost, rc_user_rate = ''1'',
     rc_account_rate = ''1'', rc_account_raw = ''0.0100000000'', rc_account_debit = ''0.01000000'', rc_account_stats = None,
     rc_key_quota = False, rc_key_windows = False, rc_account_quota = False, rc_usage = blank_usage, rc_stream = False,
     rc_native_compaction = False, rc_duration = 10, rc_first_token = 5, rc_at = 0, rc_ip = [], rc_agent = [], rc_inbound = [],
     rc_upstream = [], rc_upstream_request = [], rc_billing_mode = ''token'', rc_requested_effort = None\<rparr>
   in r\<lparr>rc_fingerprint := fingerprint_text r\<rparr>)"

definition sample_billing :: billing_db where
  "sample_billing = \<lparr>db_users = [(7, 1)], db_keys = [], db_accounts = [], db_quotas = [], db_dedup = [], db_archive = [], db_usage = []\<rparr>"

definition sample_clocks :: clocks where
  "sample_clocks = \<lparr>ck_now = 0, ck_db_now = 0, ck_quota_zone = fixed_zone 28800, ck_db_zone = fixed_zone 0, ck_zones = \<lambda>_. None\<rparr>"

theorem pending_receipt_survives_witness:
  "settled (fst (fst (recover_receipts id sample_clocks (foldl (billing_step id) (sample_billing, []) [Store_Only sample_receipt])
     [(''req-1'', sample_receipt)]))) sample_receipt"
proof -
  have id: "rc_request sample_receipt = ''req-1''" by (simp add: sample_receipt_def Let_def)
  have "snd (recover_receipts id sample_clocks (foldl (billing_step id) (sample_billing, []) [Store_Only sample_receipt])
      [(''req-1'', sample_receipt)]) = Inr ()" by code_simp
  then have r: "recover_receipts id sample_clocks (foldl (billing_step id) (sample_billing, []) [Store_Only sample_receipt])
      [(''req-1'', sample_receipt)] = (fst (recover_receipts id sample_clocks (foldl (billing_step id) (sample_billing, [])
        [Store_Only sample_receipt]) [(''req-1'', sample_receipt)]), Inr ())"
    by (metis prod.collapse)
  show ?thesis
    using pending_receipt_survives [where events = "[Store_Only sample_receipt]" and r = sample_receipt and e = "Store_Only sample_receipt"
        and scan = "[(''req-1'', sample_receipt)]", OF _ _ _ refl] r id by auto
qed

end
