(* ===== verification/Idempotency.thy ===== *)
theory Idempotency
  imports Civil_Time Json
begin

text \<open>
  Idempotency keys: \<open>internal/app/gateway_idempotency.go\<close>, where the claim of a request and its
  completion are two transactions with the upstream exchange between them, and
  \<open>internal/app/write_idempotency.go\<close>, where a change of the database and its replay record share one
  transaction. The table \<open>idempotency_records\<close> is an association list from the scope and the hashed
  key; the advisory lock makes each transaction one step. The digest is a parameter. A stored body
  is kept as the value the code encoded: the bytes of a response, or for synthesised speech its
  content type and bytes.
\<close>

type_synonym idem_key = "string \<times> string"

record 'b idem_row =
  ir_fingerprint :: string
  ir_status :: string
  ir_response :: "int option"
  ir_body :: "'b option"
  ir_expires :: instant

type_synonym 'b idem_table = "(idem_key \<times> 'b idem_row) list"

text \<open>The row a lookup finds: one that has not expired, or one still in progress.\<close>

definition live_row :: "instant \<Rightarrow> 'b idem_table \<Rightarrow> idem_key \<Rightarrow> 'b idem_row option" where
  "live_row now table k = (case assoc table k of
     None \<Rightarrow> None
   | Some row \<Rightarrow> if now < ir_expires row \<or> ir_status row = ''processing'' then Some row else None)"

definition printable_key :: "string \<Rightarrow> bool" where
  "printable_key key = list_all (\<lambda>c. let n = of_char c :: nat in 33 \<le> n \<and> n \<le> 126) key"

definition day_long :: int where
  "day_long = 24 * hour"


section \<open>Gateway requests\<close>

datatype stored_body = Plain string | Audio string string

datatype claim =
    Unkeyed
  | Claimed idem_key string
  | Replayed string int string

text \<open>\<open>audioResponseType\<close> of grok_audio.go; \<open>media\<close> is \<open>mime.ParseMediaType\<close>, without the parameters.\<close>

definition audio_response_type :: "(string \<Rightarrow> string option) \<Rightarrow> string \<Rightarrow> string \<Rightarrow> string result" where
  "audio_response_type media protocol content_type = (case media content_type of
     None \<Rightarrow> Inl (ApiError 502 ''invalid upstream audio content type'')
   | Some kind \<Rightarrow>
       (if protocol = ''tts'' \<and> (has_prefix kind ''audio/'' \<or> kind = ''application/octet-stream'') then Inr content_type
        else if protocol = ''stt'' \<and> kind = ''application/json'' then Inr content_type
        else Inl (ApiError 502 ''unexpected upstream audio content type'')))"

text \<open>
  The replay of a finished row. The operation is part of the scope and only speech with status 200 is
  stored as \<open>Audio\<close>, so the last branch is never taken.
\<close>

definition replay_gateway ::
  "(string \<Rightarrow> string option) \<Rightarrow> string \<Rightarrow> bool \<Rightarrow> stored_body idem_row \<Rightarrow> claim result" where
  "replay_gateway media operation stream row = (case ir_body row of
     None \<Rightarrow> Inl (conflict ''request already completed; response is too large to replay'')
   | Some body \<Rightarrow>
       (let status = (case ir_response row of None \<Rightarrow> 0 | Some n \<Rightarrow> n) in
        if operation = ''tts'' \<and> status = 200 then
          (case body of
             Plain _ \<Rightarrow> Inl (conflict ''stored audio response is invalid'')
           | Audio content_type bytes \<Rightarrow>
               (if ok (audio_response_type media ''tts'' content_type) then Inr (Replayed content_type status bytes)
                else Inl (conflict ''stored audio content type is invalid'')))
        else (case body of
          Plain text \<Rightarrow> Inr (Replayed (if stream \<and> status = 200 then ''text/event-stream'' else ''application/json'') status text)
        | Audio content_type bytes \<Rightarrow> Inl (Internal ''speech stored under another operation''))))"

definition gateway_scope :: "string \<Rightarrow> string \<Rightarrow> string" where
  "gateway_scope operation key_id = ''gateway.'' @ operation @ ''.'' @ key_id"

definition claim_gateway_request ::
  "(string \<Rightarrow> string) \<Rightarrow> (string \<Rightarrow> string option) \<Rightarrow> instant \<Rightarrow> stored_body idem_table \<Rightarrow> string \<Rightarrow> string \<Rightarrow> string \<Rightarrow>
   string \<Rightarrow> bool \<Rightarrow> stored_body idem_table \<times> claim result" where
  "claim_gateway_request digest media now table key operation key_id payload stream =
     (if key = [] then (table, Inr Unkeyed)
      else if 128 < length key \<or> \<not> printable_key key then (table, Inl (bad ''invalid Idempotency-Key''))
      else (let k = (gateway_scope operation key_id, digest key);
                fingerprint = digest (operation @ [CHR 0x0A] @ payload) in
        case live_row now table k of
          Some row \<Rightarrow>
            (table, if ir_fingerprint row \<noteq> fingerprint
                      then Inl (conflict ''Idempotency-Key reused with different request'')
                    else if ir_status row = ''processing''
                      then Inl (conflict ''request is in progress or requires review; it will not be sent twice'')
                    else replay_gateway media operation stream row)
        | None \<Rightarrow>
            (put k \<lparr>ir_fingerprint = fingerprint, ir_status = ''processing'', ir_response = None, ir_body = None,
                    ir_expires = now + day_long\<rparr> table,
             Inr (Claimed k fingerprint))))"

text \<open>What the response writer has collected when the handler is done.\<close>

record written =
  wr_status :: int
  wr_body :: string
  wr_oversized :: bool
  wr_succeeded :: bool
  wr_content_type :: string

text \<open>\<open>gatewayResponse.Write\<close>: a body of more than 16 MiB is not kept.\<close>

definition write_response :: "written \<Rightarrow> string \<Rightarrow> written" where
  "write_response w b =
     (let w = (if wr_status w = 0 then w\<lparr>wr_status := 200\<rparr> else w);
          w = (if 16777216 < length (wr_body w) + length b then w\<lparr>wr_oversized := True, wr_body := []\<rparr> else w) in
      if wr_oversized w then w else w\<lparr>wr_body := wr_body w @ b\<rparr>)"

definition write_header :: "written \<Rightarrow> int \<Rightarrow> written" where
  "write_header w status = (if wr_status w = 0 then w\<lparr>wr_status := status\<rparr> else w)"

definition finish_gateway_request ::
  "stored_body idem_table \<Rightarrow> idem_key \<Rightarrow> string \<Rightarrow> string \<Rightarrow> written \<Rightarrow> stored_body idem_table" where
  "finish_gateway_request table k fingerprint operation w =
     (let code = (if wr_status w = 0 then 500 else wr_status w);
          state = (if 200 \<le> code \<and> code < 300 \<and> wr_succeeded w then ''succeeded'' else ''failed'');
          body = (if wr_oversized w then None
                  else if operation = ''tts'' \<and> code = 200 \<and> wr_succeeded w then Some (Audio (wr_content_type w) (wr_body w))
                  else Some (Plain (wr_body w))) in
      case assoc table k of
        None \<Rightarrow> table
      | Some row \<Rightarrow>
          (if ir_fingerprint row = fingerprint \<and> ir_status row = ''processing''
           then put k (row\<lparr>ir_status := state, ir_response := Some code, ir_body := body\<rparr>) table
           else table))"


section \<open>Database writes\<close>

datatype 'b write_claim = Unguarded | Guarded idem_key string | Written 'b

definition write_idempotency ::
  "(string \<Rightarrow> string) \<Rightarrow> instant \<Rightarrow> 'b idem_table \<Rightarrow> string list \<Rightarrow> string \<Rightarrow> string \<Rightarrow> 'b write_claim result" where
  "write_idempotency digest now table headers scope request =
     (let key = trim_space (case headers of [] \<Rightarrow> [] | h # _ \<Rightarrow> h) in
      if 1 < length headers \<or> 128 < length key \<or> \<not> printable_key key then Inl (bad ''invalid Idempotency-Key'')
      else if key = [] then Inr Unguarded
      else (let k = (scope, digest key); fingerprint = digest request in
        case live_row now table k of
          None \<Rightarrow> Inr (Guarded k fingerprint)
        | Some row \<Rightarrow>
            (if ir_fingerprint row \<noteq> fingerprint then Inl (conflict ''Idempotency-Key reused with different request'')
             else (case ir_body row of
               Some body \<Rightarrow> if ir_status row \<noteq> ''succeeded'' then Inl (conflict ''previous write requires review'')
                             else Inr (Written body)
             | None \<Rightarrow> Inl (conflict ''previous write requires review'')))))"

text \<open>The text a fingerprint of a write is taken of.\<close>

definition write_request :: "string \<Rightarrow> string \<Rightarrow> string \<Rightarrow> string \<Rightarrow> string" where
  "write_request verb path actor payload =
     verb @ [CHR 0x0A] @ path @ [CHR 0x0A] @ actor @ [CHR 0x0A] @ payload"

definition finish_write :: "instant \<Rightarrow> 'b idem_table \<Rightarrow> 'b write_claim \<Rightarrow> 'b \<Rightarrow> 'b idem_table" where
  "finish_write now table c data = (case c of
     Guarded k fingerprint \<Rightarrow>
       put k \<lparr>ir_fingerprint = fingerprint, ir_status = ''succeeded'', ir_response = Some 200, ir_body = Some data,
              ir_expires = now + day_long\<rparr> table
   | _ \<Rightarrow> table)"

end
