(* ===== verification/Balance.thy ===== *)
theory Balance
  imports Idempotency
begin

text \<open>
  Balance adjustments by administrators, \<open>adjustBalance\<close> of \<open>internal/app/balance.go\<close>, and the ledger
  they write, \<open>recordBalance\<close> of \<open>internal/app/users.go\<close>. A balance is the rational of its column. The
  reply is the part of the user's view that the handler changes; \<open>request\<close> is the text the
  idempotency fingerprint is taken of.
\<close>

record balance_db =
  bl_users :: "(int \<times> rat) list"
  bl_deleted :: "int list"
  bl_ledger :: "(int \<times> rat \<times> string) list"
  bl_records :: "(int \<times> rat) idem_table"

record balance_request =
  br_headers :: "string list"
  br_user :: int
  br_amount :: json_number
  br_operation :: string
  br_notes :: string
  br_text :: string

definition balance_scope :: string where
  "balance_scope = ''admin.users.balance''"

definition record_balance :: "(int \<times> rat \<times> string) list \<Rightarrow> int \<Rightarrow> rat \<Rightarrow> string \<Rightarrow> (int \<times> rat \<times> string) list" where
  "record_balance ledger i delta notes = (if delta \<noteq> 0 then ledger @ [(i, delta, notes)] else ledger)"

definition new_balance :: "string \<Rightarrow> rat \<Rightarrow> rat \<Rightarrow> rat" where
  "new_balance operation old amount =
     (if operation = ''add'' then old + amount else if operation = ''subtract'' then old - amount else amount)"

text \<open>The change itself, under the claim \<open>c\<close> of the idempotency key.\<close>

definition change_balance ::
  "instant \<Rightarrow> balance_db \<Rightarrow> balance_request \<Rightarrow> (int \<times> rat) write_claim \<Rightarrow> balance_db \<times> (int \<times> rat) result" where
  "change_balance now db q c = (case assoc (bl_users db) (br_user q) of
     None \<Rightarrow> (db, Inl missing)
   | Some old \<Rightarrow>
       (let updated = new_balance (br_operation q) old (rat_val (br_amount q)) in
        if List.member (bl_deleted db) (br_user q) then (db, Inl missing)
        else if updated < 0 then (db, Inl (bad ''balance cannot become negative''))
        else (db\<lparr>bl_users := put (br_user q) updated (bl_users db),
                 bl_ledger := record_balance (bl_ledger db) (br_user q) (updated - old) (br_notes q),
                 bl_records := finish_write now (bl_records db) c (br_user q, updated)\<rparr>,
              Inr (br_user q, updated))))"

definition balance_operation :: "string \<Rightarrow> bool" where
  "balance_operation name = List.member [''set'', ''add'', ''subtract''] name"

definition adjust_balance ::
  "(string \<Rightarrow> string) \<Rightarrow> instant \<Rightarrow> balance_db \<Rightarrow> balance_request \<Rightarrow> balance_db \<times> (int \<times> rat) result" where
  "adjust_balance digest now db q =
     (if \<not> valid_decimal (br_amount q) 12 8 then (db, Inl (bad ''invalid balance''))
      else if \<not> balance_operation (br_operation q) then (db, Inl (bad ''invalid balance operation''))
      else (case write_idempotency digest now (bl_records db) (br_headers q) balance_scope (br_text q) of
        Inl e \<Rightarrow> (db, Inl e)
      | Inr c \<Rightarrow> (case c of Written data \<Rightarrow> (db, Inr data) | _ \<Rightarrow> change_balance now db q c)))"

end
