(* ===== verification/Balance_Facts.thy ===== *)
theory Balance_Facts
  imports Balance
begin

text \<open>
  Guarantees of the idempotency keys and of the balance adjustments that use them: a keyed gateway
  request is executed once within its 24 hours and never again before it has finished, a keyed
  adjustment takes effect once, and the ledger explains every balance.
\<close>

section \<open>Gateway requests\<close>

datatype event = Begun idem_key instant | Sent idem_key instant | Done idem_key

record gateway_run =
  gr_table :: "stored_body idem_table"
  gr_now :: instant
  gr_flight :: "(idem_key \<times> string \<times> string) list"
  gr_log :: "event list"

text \<open>
  Time passes, a request is claimed and its execution begins, a request that is not claimed changes
  nothing, an execution sends to a provider (the attempts of \<open>Dispatch\<close> may send to several accounts),
  it finishes, or its process dies before. The log has the newest event first.
\<close>

inductive run_step :: "(string \<Rightarrow> string) \<Rightarrow> (string \<Rightarrow> string option) \<Rightarrow> gateway_run \<Rightarrow> gateway_run \<Rightarrow> bool" for digest media where
  tick: "gr_now g \<le> t \<Longrightarrow> run_step digest media g (g\<lparr>gr_now := t\<rparr>)"
| claim: "claim_gateway_request digest media (gr_now g) (gr_table g) key op i payload stream = (table, Inr (Claimed k f)) \<Longrightarrow>
    run_step digest media g (g\<lparr>gr_table := table, gr_flight := (k, f, op) # gr_flight g, gr_log := Begun k (gr_now g) # gr_log g\<rparr>)"
| refuse: "claim_gateway_request digest media (gr_now g) (gr_table g) key op i payload stream = (table, r) \<Longrightarrow>
    (\<And>k f. r \<noteq> Inr (Claimed k f)) \<Longrightarrow> run_step digest media g (g\<lparr>gr_table := table\<rparr>)"
| send: "(k, f, op) \<in> set (gr_flight g) \<Longrightarrow> run_step digest media g (g\<lparr>gr_log := Sent k (gr_now g) # gr_log g\<rparr>)"
| finish: "gr_flight g = as @ (k, f, op) # bs \<Longrightarrow>
    run_step digest media g (g\<lparr>gr_table := finish_gateway_request (gr_table g) k f op w, gr_flight := as @ bs,
      gr_log := Done k # gr_log g\<rparr>)"
| crash: "gr_flight g = as @ x # bs \<Longrightarrow> run_step digest media g (g\<lparr>gr_flight := as @ bs\<rparr>)"

inductive run_reachable :: "(string \<Rightarrow> string) \<Rightarrow> (string \<Rightarrow> string option) \<Rightarrow> gateway_run \<Rightarrow> bool" for digest media where
  start: "run_reachable digest media \<lparr>gr_table = [], gr_now = t, gr_flight = [], gr_log = []\<rparr>"
| further: "run_reachable digest media g \<Longrightarrow> run_step digest media g g' \<Longrightarrow> run_reachable digest media g'"

fun about :: "idem_key \<Rightarrow> event \<Rightarrow> bool" where
  "about k (Begun k' t) \<longleftrightarrow> k' = k"
| "about k (Sent k' t) \<longleftrightarrow> False"
| "about k (Done k') \<longleftrightarrow> k' = k"

text \<open>Before every execution of a key the last one has finished and began at least 24 hours before; every sending
  belongs to the execution that began last and has not finished.\<close>

fun well_spaced :: "event list \<Rightarrow> bool" where
  "well_spaced [] \<longleftrightarrow> True"
| "well_spaced (Done k # es) \<longleftrightarrow> well_spaced es"
| "well_spaced (Sent k t # es) \<longleftrightarrow> well_spaced es \<and> (case find (about k) es of Some (Begun _ _) \<Rightarrow> True | _ \<Rightarrow> False)"
| "well_spaced (Begun k t # es) \<longleftrightarrow> well_spaced es \<and>
     (case find (about k) es of Some (Begun _ _) \<Rightarrow> False | _ \<Rightarrow> True) \<and> (\<forall>s. Begun k s \<in> set es \<longrightarrow> s + day_long \<le> t)"

definition row_explained :: "event list \<Rightarrow> idem_key \<Rightarrow> stored_body idem_row option \<Rightarrow> bool" where
  "row_explained es k row = (case row of
     None \<Rightarrow> \<not> list_ex (about k) es
   | Some row \<Rightarrow> (ir_status row = ''processing'' \<longleftrightarrow> (\<exists>t. find (about k) es = Some (Begun k t))) \<and>
       (\<forall>s. Begun k s \<in> set es \<longrightarrow> s + day_long \<le> ir_expires row))"

definition run_inv :: "gateway_run \<Rightarrow> bool" where
  "run_inv g \<longleftrightarrow> well_spaced (gr_log g) \<and> distinct (map fst (gr_flight g)) \<and>
     (\<forall>k. row_explained (gr_log g) k (assoc (gr_table g) k)) \<and>
     (\<forall>(k, f, op) \<in> set (gr_flight g). \<exists>row. assoc (gr_table g) k = Some row \<and> ir_status row = ''processing'' \<and> ir_fingerprint row = f)"

lemma run_invD:
  assumes "run_inv g"
  shows "well_spaced (gr_log g)" "distinct (map fst (gr_flight g))" "row_explained (gr_log g) k (assoc (gr_table g) k)"
    "(k, f, op) \<in> set (gr_flight g) \<Longrightarrow> \<exists>row. assoc (gr_table g) k = Some row \<and> ir_status row = ''processing'' \<and> ir_fingerprint row = f"
  using assms unfolding run_inv_def by blast+

lemma run_invI:
  assumes "well_spaced (gr_log g)" "distinct (map fst (gr_flight g))" "\<And>k. row_explained (gr_log g) k (assoc (gr_table g) k)"
    "\<And>k f op. (k, f, op) \<in> set (gr_flight g) \<Longrightarrow> \<exists>row. assoc (gr_table g) k = Some row \<and> ir_status row = ''processing'' \<and> ir_fingerprint row = f"
  shows "run_inv g"
  using assms unfolding run_inv_def by blast

lemma claim_Claimed:
  assumes "claim_gateway_request digest media now table key op i payload stream = (table', Inr (Claimed k f))"
  shows "live_row now table k = None"
    "table' = put k \<lparr>ir_fingerprint = f, ir_status = ''processing'', ir_response = None, ir_body = None, ir_expires = now + day_long\<rparr> table"
  using assms
  by (auto simp: claim_gateway_request_def replay_gateway_def Let_def split: if_splits option.splits stored_body.splits)

lemma claim_other:
  assumes "claim_gateway_request digest media now table key op i payload stream = (table', r)" "\<And>k f. r \<noteq> Inr (Claimed k f)"
  shows "table' = table"
  using assms by (auto simp: claim_gateway_request_def Let_def split: if_splits option.splits)

lemma find_about: "find (about k) es = Some e \<Longrightarrow> about k e"
  by (auto simp: find_Some_iff)

lemma find_about_None: "find (about k) es = None \<longleftrightarrow> \<not> list_ex (about k) es"
  by (auto simp: find_None_iff list_ex_iff)

text \<open>The row of one key changes together with the log.\<close>

lemma explained_other:
  "about k e \<Longrightarrow> k' \<noteq> k \<Longrightarrow> row_explained (e # es) k' row = row_explained es k' row"
  by (cases e) (auto simp: row_explained_def split: option.splits)

lemma run_inv_claim:
  assumes inv: "run_inv g" and claim: "claim_gateway_request digest media (gr_now g) (gr_table g) key op i payload stream = (table, Inr (Claimed k f))"
  shows "run_inv (g\<lparr>gr_table := table, gr_flight := (k, f, op) # gr_flight g, gr_log := Begun k (gr_now g) # gr_log g\<rparr>)"
proof -
  note c = claim_Claimed [OF claim]
  note inv' = run_invD [OF inv]
  have old: "row_explained (gr_log g) k (assoc (gr_table g) k)" by (rule inv'(3))
  have quiet: "assoc (gr_table g) k = None \<or> (\<exists>row. assoc (gr_table g) k = Some row \<and> ir_expires row \<le> gr_now g \<and> ir_status row \<noteq> ''processing'')"
    using c(1) by (auto simp: live_row_def split: option.splits if_splits)
  have last: "\<nexists>t. find (about k) (gr_log g) = Some (Begun k t)"
    using quiet old by (auto simp: row_explained_def find_None_iff list_ex_iff find_Some_iff)
  have spaced: "s + day_long \<le> gr_now g" if "Begun k s \<in> set (gr_log g)" for s
    using quiet old that by (fastforce simp: row_explained_def list_ex_iff)
  have "find (about k) (gr_log g) \<noteq> Some (Begun k' t)" for k' t
    using last find_about [of k "gr_log g" "Begun k' t"] by auto
  then have "case find (about k) (gr_log g) of Some (Begun k' t) \<Rightarrow> False | _ \<Rightarrow> True"
    by (auto split: option.split event.split)
  then have ws: "well_spaced (Begun k (gr_now g) # gr_log g)" using inv'(1) spaced by auto
  have notin: "k \<notin> fst ` set (gr_flight g)" using inv'(4) [of k] quiet by force
  have row: "row_explained (Begun k (gr_now g) # gr_log g) k' (assoc table k')" for k'
  proof (cases "k' = k")
    case True
    then show ?thesis using spaced by (fastforce simp: row_explained_def c(2) assoc_put day_long_def durations)
  next
    case False
    then show ?thesis using inv'(3) [of k'] explained_other [of k "Begun k (gr_now g)" k'] by (simp add: c(2) assoc_put)
  qed
  show ?thesis
  proof (rule run_invI)
    fix k' f' op'
    assume "(k', f', op') \<in> set (gr_flight (g\<lparr>gr_table := table, gr_flight := (k, f, op) # gr_flight g, gr_log := Begun k (gr_now g) # gr_log g\<rparr>))"
    then have "k' = k \<and> f' = f \<or> k' \<noteq> k \<and> (k', f', op') \<in> set (gr_flight g)" using notin by force
    then show "\<exists>row. assoc (gr_table (g\<lparr>gr_table := table, gr_flight := (k, f, op) # gr_flight g, gr_log := Begun k (gr_now g) # gr_log g\<rparr>)) k' = Some row \<and>
        ir_status row = ''processing'' \<and> ir_fingerprint row = f'"
      using inv'(4) [of k' f' op'] by (auto simp: c(2) assoc_put)
  qed (use ws notin row inv'(2) in simp_all)
qed

lemma finish_row:
  assumes "assoc table k = Some row" "ir_status row = ''processing''" "ir_fingerprint row = f"
  obtains row' where "finish_gateway_request table k f op w = put k row' table" "ir_status row' \<noteq> ''processing''"
    "ir_expires row' = ir_expires row"
  using assms by (auto simp: finish_gateway_request_def Let_def)

lemma run_inv_finish:
  assumes inv: "run_inv g" and fl: "gr_flight g = as @ (k, f, op) # bs"
  shows "run_inv (g\<lparr>gr_table := finish_gateway_request (gr_table g) k f op w, gr_flight := as @ bs, gr_log := Done k # gr_log g\<rparr>)"
proof -
  note inv' = run_invD [OF inv]
  obtain row where row: "assoc (gr_table g) k = Some row" "ir_status row = ''processing''" "ir_fingerprint row = f"
    using inv'(4) [of k f op] fl by auto
  obtain row' where t: "finish_gateway_request (gr_table g) k f op w = put k row' (gr_table g)" "ir_status row' \<noteq> ''processing''"
    "ir_expires row' = ir_expires row" using finish_row [OF row] .
  have ex: "row_explained (gr_log g) k (Some row)" using inv'(3) [of k] row(1) by simp
  have new: "row_explained (Done k # gr_log g) k' (assoc (put k row' (gr_table g)) k')" for k'
  proof (cases "k' = k")
    case True
    then show ?thesis using ex t by (simp add: row_explained_def)
  next
    case False
    then show ?thesis using inv'(3) [of k'] explained_other [of k "Done k" k'] by (simp add: assoc_put)
  qed
  have notin: "k \<notin> fst ` set (as @ bs)" using inv'(2) fl by auto
  show ?thesis
  proof (rule run_invI)
    fix k' f' op'
    assume "(k', f', op') \<in> set (gr_flight (g\<lparr>gr_table := finish_gateway_request (gr_table g) k f op w, gr_flight := as @ bs, gr_log := Done k # gr_log g\<rparr>))"
    then have "k' \<noteq> k" "(k', f', op') \<in> set (gr_flight g)" using notin fl by force+
    then show "\<exists>row. assoc (gr_table (g\<lparr>gr_table := finish_gateway_request (gr_table g) k f op w, gr_flight := as @ bs, gr_log := Done k # gr_log g\<rparr>)) k' = Some row \<and>
        ir_status row = ''processing'' \<and> ir_fingerprint row = f'"
      using inv'(4) [of k' f' op'] by (simp add: t(1) assoc_put)
  qed (use inv'(1,2) new t(1) fl in simp_all)
qed

lemma run_inv_step: "run_step digest media g g' \<Longrightarrow> run_inv g \<Longrightarrow> run_inv g'"
proof (induction rule: run_step.induct)
  case (tick g t)
  then show ?case by (intro run_invI) (use run_invD in auto)
next
  case (claim g key op i payload stream table k f)
  then show ?case using run_inv_claim by blast
next
  case (send k f op g)
  note inv = run_invD [OF send(2)]
  obtain row where "assoc (gr_table g) k = Some row" "ir_status row = ''processing''" using inv(4) [OF send(1)] by blast
  then obtain t where "find (about k) (gr_log g) = Some (Begun k t)" using inv(3) [of k] by (auto simp: row_explained_def)
  then have "well_spaced (Sent k (gr_now g) # gr_log g)" using inv(1) by simp
  moreover have "row_explained (Sent k (gr_now g) # es) k' row" if "row_explained es k' row" for es k' row
    using that by (simp add: row_explained_def split: option.splits)
  ultimately show ?case by (intro run_invI) (use inv in simp_all)
next
  case (refuse g key op i payload stream table r)
  have "table = gr_table g" using claim_other [OF refuse(1)] refuse(2) by blast
  then show ?case using refuse(3) by (intro run_invI) (use run_invD in auto)
next
  case (finish g as k f op bs w)
  then show ?case using run_inv_finish by blast
next
  case (crash g as x bs)
  note inv = run_invD [OF crash(2)]
  show ?case
  proof (rule run_invI)
    fix k f op
    assume "(k, f, op) \<in> set (gr_flight (g\<lparr>gr_flight := as @ bs\<rparr>))"
    then have "(k, f, op) \<in> set (gr_flight g)" using crash(1) by auto
    from inv(4) [OF this]
    show "\<exists>row. assoc (gr_table (g\<lparr>gr_flight := as @ bs\<rparr>)) k = Some row \<and> ir_status row = ''processing'' \<and> ir_fingerprint row = f"
      by simp
  qed (use inv(1-3) crash(1) in simp_all)
qed

lemma run_inv_reachable: "run_reachable digest media g \<Longrightarrow> run_inv g"
proof (induction rule: run_reachable.induct)
  case (start t)
  show ?case by (rule run_invI) (simp_all add: row_explained_def)
next
  case (further g g')
  then show ?case using run_inv_step by blast
qed

text \<open>Property C23: A keyed request is executed at most once: in every run with any interleaving of
  requests, sendings, completions, crashes and passing time, two executions of one key begin at least 24 hours
  apart and the first has finished before the second begins; whatever is sent to a provider under a key belongs to
  the execution that began last and has not finished; a request whose process died is never executed
  again, and no two requests of one key are in flight together. (One execution may send to several accounts.)\<close>
theorem keyed_request_executed_once:
  assumes "run_reachable digest media g"
  shows "well_spaced (gr_log g) \<and> distinct (map fst (gr_flight g))"
  using run_inv_reachable [OF assms] by (simp add: run_inv_def)


section \<open>Balance adjustments\<close>

definition ledger_of :: "balance_db \<Rightarrow> int \<Rightarrow> rat" where
  "ledger_of db u = sum_list (map (\<lambda>(i, v, _). v) (filter (\<lambda>(i, _, _). i = u) (bl_ledger db)))"

text \<open>An adjustment either changes nothing or sets a balance that is not negative and records the
  difference; the records only get the row of its own key.\<close>

lemma adjust_cases:
  assumes "adjust_balance digest now db q = (db', r)"
  obtains (same) "db' = db"
  | (changed) old new c where "assoc (bl_users db) (br_user q) = Some old" "0 \<le> new" "r = Inr (br_user q, new)"
      "bl_users db' = put (br_user q) new (bl_users db)"
      "bl_ledger db' = record_balance (bl_ledger db) (br_user q) (new - old) (br_notes q)"
      "write_idempotency digest now (bl_records db) (br_headers q) balance_scope (br_text q) = Inr c"
      "\<And>d. c \<noteq> Written d" "bl_records db' = finish_write now (bl_records db) c (br_user q, new)"
proof (cases "db' = db")
  case True
  then show ?thesis by (rule same)
next
  case False
  obtain c where c: "write_idempotency digest now (bl_records db) (br_headers q) balance_scope (br_text q) = Inr c"
    "\<And>d. c \<noteq> Written d" "change_balance now db q c = (db', r)"
    using assms False by (auto simp: adjust_balance_def split: if_splits sum.splits write_claim.splits)
  then show ?thesis
    using changed [OF _ _ _ _ _ c(1,2)] False
    by (auto simp: change_balance_def Let_def not_less split: option.splits if_splits)
qed

definition adjust_all :: "(string \<Rightarrow> string) \<Rightarrow> (instant \<times> balance_request) list \<Rightarrow> balance_db \<Rightarrow> balance_db" where
  "adjust_all digest qs db = foldl (\<lambda>db (now, q). fst (adjust_balance digest now db q)) db qs"

lemma adjust_explained:
  assumes "adjust_balance digest now db q = (db', r)" "assoc (bl_users db) u = Some b"
  shows "\<exists>b'. assoc (bl_users db') u = Some b' \<and> b' - b = ledger_of db' u - ledger_of db u \<and> (0 \<le> b \<longrightarrow> 0 \<le> b')"
  using assms(1)
proof (cases rule: adjust_cases)
  case same
  then show ?thesis using assms(2) by simp
next
  case (changed old new c)
  then show ?thesis using assms(2)
    by (cases "u = br_user q") (auto simp: assoc_put ledger_of_def record_balance_def)
qed

text \<open>Property C25: The ledger explains the balances: after any sequence of adjustments, each user's
  balance has changed by exactly the sum of the entries the adjustments recorded for them, and a
  balance that was not negative is not negative.\<close>
theorem ledger_explains_balance:
  assumes "assoc (bl_users db) u = Some b"
  shows "\<exists>b'. assoc (bl_users (adjust_all digest qs db)) u = Some b' \<and>
    b' - b = ledger_of (adjust_all digest qs db) u - ledger_of db u \<and> (0 \<le> b \<longrightarrow> 0 \<le> b')"
proof (induction qs rule: rev_induct)
  case Nil
  then show ?case using assms by (simp add: adjust_all_def)
next
  case (snoc x qs)
  obtain now q where x: "x = (now, q)" by (cases x)
  obtain b1 where b1: "assoc (bl_users (adjust_all digest qs db)) u = Some b1"
    "b1 - b = ledger_of (adjust_all digest qs db) u - ledger_of db u" "0 \<le> b \<longrightarrow> 0 \<le> b1" using snoc by blast
  have "adjust_all digest (qs @ [x]) db = fst (adjust_balance digest now (adjust_all digest qs db) q)"
    by (simp add: adjust_all_def x)
  then show ?case
    using adjust_explained [OF surjective_pairing b1(1), of digest now q] b1(2,3) by fastforce
qed

text \<open>A recorded adjustment stays recorded for its 24 hours.\<close>

lemma row_stays:
  assumes "assoc (bl_records db) k = Some row" "now < ir_expires row"
  shows "assoc (bl_records (fst (adjust_balance digest now db q))) k = Some row"
proof -
  obtain db' r where a: "adjust_balance digest now db q = (db', r)" by (cases "adjust_balance digest now db q")
  from a show ?thesis
  proof (cases rule: adjust_cases)
    case same
    then show ?thesis using a assms by simp
  next
    case (changed old new c)
    have "live_row now (bl_records db) k = Some row" using assms by (simp add: live_row_def)
    then have "c \<noteq> Guarded k f" for f
      using changed(6) by (auto simp: write_idempotency_def Let_def split: if_splits option.splits)
    then show ?thesis using changed(8) a assms(1) by (cases c) (auto simp: finish_write_def assoc_put)
  qed
qed

lemma write_guarded:
  assumes "write_idempotency digest now table headers scope text' = Inr c" "trim_space (hd headers) \<noteq> []" "headers \<noteq> []"
  shows "(\<exists>k. c = Guarded k (digest text') \<and> k = (scope, digest (trim_space (hd headers)))) \<or> (\<exists>d. c = Written d)"
  using assms by (auto simp: write_idempotency_def Let_def split: if_splits option.splits list.splits)

lemma write_replay:
  assumes "assoc table (scope, digest (trim_space (hd headers))) = Some row" "now < ir_expires row"
    and "ir_fingerprint row = digest text'" "ir_status row = ''succeeded''" "ir_body row = Some d"
    and "write_idempotency digest now' table' headers scope text'' = Inr c" "headers \<noteq> []" "trim_space (hd headers) \<noteq> []"
  shows "write_idempotency digest now table headers scope text' = Inr (Written d)"
  using assms by (auto simp: write_idempotency_def Let_def live_row_def split: if_splits list.splits)

text \<open>An adjustment under a key that has no stored answer leaves one behind.\<close>

lemma fresh_adjustment_changes:
  assumes "adjust_balance digest now db q = (db1, Inr data)"
    and "live_row now (bl_records db) (balance_scope, digest (trim_space (hd (br_headers q)))) = None"
    and "br_headers q \<noteq> []" "trim_space (hd (br_headers q)) \<noteq> []"
  shows "db1 \<noteq> db"
proof -
  let ?k = "(balance_scope, digest (trim_space (hd (br_headers q))))"
  obtain c where c: "write_idempotency digest now (bl_records db) (br_headers q) balance_scope (br_text q) = Inr c"
    using assms(1) by (auto simp: adjust_balance_def split: if_splits sum.splits)
  moreover have "c \<noteq> Written d" for d
    using c assms(2-4) by (auto simp: write_idempotency_def Let_def split: if_splits option.splits list.splits)
  ultimately have g: "c = Guarded ?k (digest (br_text q))" using write_guarded [OF c assms(4,3)] by blast
  then have "change_balance now db q c = (db1, Inr data)"
    using assms(1) c by (auto simp: adjust_balance_def split: if_splits)
  then obtain row where "bl_records db1 = put ?k row (bl_records db)" "ir_expires row = now + day_long"
    by (auto simp: change_balance_def Let_def finish_write_def g split: option.splits if_splits)
  then have "live_row now (bl_records db1) ?k \<noteq> None" by (simp add: live_row_def day_long_def durations)
  then show ?thesis using assms(2) by auto
qed

text \<open>Property C24: An adjustment with an idempotency key takes effect once: when no answer is stored for the key, and the
  adjustment has succeeded, the same request within 24 hours returns the same answer and changes nothing, whatever other
  adjustments, with or without keys, came in between.\<close>
theorem keyed_adjustment_once:
  assumes "adjust_balance digest now db q = (db1, Inr data)"
    and "live_row now (bl_records db) (balance_scope, digest (trim_space (hd (br_headers q)))) = None"
    and "\<forall>x \<in> set qs. fst x < now + day_long" "later < now + day_long"
    and "br_headers q \<noteq> []" "trim_space (hd (br_headers q)) \<noteq> []"
  shows "adjust_balance digest later (adjust_all digest qs db1) q = (adjust_all digest qs db1, Inr data)"
  using assms(1)
proof (cases rule: adjust_cases)
  case same
  then show ?thesis using fresh_adjustment_changes [OF assms(1,2,5,6)] by simp
next
  case (changed old new c)
  obtain k where k: "c = Guarded k (digest (br_text q))" "k = (balance_scope, digest (trim_space (hd (br_headers q))))"
    using write_guarded [OF changed(6) assms(6,5)] changed(7) by blast
  define row where "row = \<lparr>ir_fingerprint = digest (br_text q), ir_status = ''succeeded'', ir_response = Some 200,
    ir_body = Some data, ir_expires = now + day_long\<rparr>"
  have start: "assoc (bl_records db1) k = Some row"
    using changed(3,8) k(1) by (simp add: finish_write_def row_def)
  have stays: "assoc (bl_records (adjust_all digest qs db1)) k = Some row"
    using assms(3)
  proof (induction qs rule: rev_induct)
    case Nil
    then show ?case using start by (simp add: adjust_all_def)
  next
    case (snoc x qs)
    have "fst x < ir_expires row" using snoc.prems by (simp add: row_def)
    then show ?case using snoc row_stays [of "adjust_all digest qs db1" k row "fst x" digest "snd x"]
      by (simp add: adjust_all_def case_prod_unfold)
  qed
  have "write_idempotency digest later (bl_records (adjust_all digest qs db1)) (br_headers q) balance_scope (br_text q) = Inr (Written data)"
    by (rule write_replay [OF stays [unfolded k(2)] _ _ _ _ changed(6) assms(5,6)]) (use assms(4) in \<open>simp_all add: row_def\<close>)
  moreover have "valid_decimal (br_amount q) 12 8" "balance_operation (br_operation q)"
    using assms(1) by (auto simp: adjust_balance_def split: if_splits)
  ultimately show ?thesis by (simp add: adjust_balance_def)
qed


section \<open>Samples\<close>

definition sample_table :: "stored_body idem_table" where
  "sample_table = [((''gateway.responses.9'', ''once''),
     \<lparr>ir_fingerprint = ''responses'' @ [CHR 0x0A] @ ''body'', ir_status = ''processing'', ir_response = None, ir_body = None,
      ir_expires = 86400000000000\<rparr>)]"

theorem keyed_request_executed_once_witness:
  "well_spaced [Sent (''gateway.responses.9'', ''once'') 0, Begun (''gateway.responses.9'', ''once'') 0]"
proof -
  have "claim_gateway_request id (\<lambda>_. None) 0 [] ''once'' ''responses'' ''9'' ''body'' False =
      (sample_table, Inr (Claimed (''gateway.responses.9'', ''once'') (''responses'' @ [CHR 0x0A] @ ''body'')))"
    by code_simp
  then have "run_step id (\<lambda>_. None) \<lparr>gr_table = [], gr_now = 0, gr_flight = [], gr_log = []\<rparr>
      \<lparr>gr_table = sample_table, gr_now = 0,
       gr_flight = [((''gateway.responses.9'', ''once''), ''responses'' @ [CHR 0x0A] @ ''body'', ''responses'')],
       gr_log = [Begun (''gateway.responses.9'', ''once'') 0]\<rparr>"
    using run_step.claim [of id "\<lambda>_. None" "\<lparr>gr_table = [], gr_now = 0, gr_flight = [], gr_log = []\<rparr>"] by fastforce
  from run_step.send [of "(''gateway.responses.9'', ''once'')" "''responses'' @ [CHR 0x0A] @ ''body''" "''responses''" "gateway_run.make
      sample_table 0 [((''gateway.responses.9'', ''once''), ''responses'' @ [CHR 0x0A] @ ''body'', ''responses'')]
      [Begun (''gateway.responses.9'', ''once'') 0]" id "\<lambda>_. None"]
    further [OF start this]
  have "run_reachable id (\<lambda>_. None) \<lparr>gr_table = sample_table, gr_now = 0,
      gr_flight = [((''gateway.responses.9'', ''once''), ''responses'' @ [CHR 0x0A] @ ''body'', ''responses'')],
      gr_log = [Sent (''gateway.responses.9'', ''once'') 0, Begun (''gateway.responses.9'', ''once'') 0]\<rparr>"
    by (auto simp: gateway_run.defs intro: further)
  from keyed_request_executed_once [OF this] show ?thesis by simp
qed

definition sample_balance :: balance_db where
  "sample_balance = \<lparr>bl_users = [(7, 10)], bl_deleted = [], bl_ledger = [], bl_records = []\<rparr>"

definition sample_adjustment :: balance_request where
  "sample_adjustment = \<lparr>br_headers = [''key-1''], br_user = 7, br_amount = ''2.5'', br_operation = ''subtract'',
     br_notes = ''refund'', br_text = ''POST''\<rparr>"

theorem ledger_explains_balance_witness:
  "\<exists>b. assoc (bl_users (adjust_all id [(0, sample_adjustment), (5, sample_adjustment)] sample_balance)) 7 = Some b \<and>
     b - 10 = ledger_of (adjust_all id [(0, sample_adjustment), (5, sample_adjustment)] sample_balance) 7 \<and> 0 \<le> b"
proof -
  have b: "assoc (bl_users sample_balance) 7 = Some 10" and l: "ledger_of sample_balance 7 = 0"
    by (simp_all add: sample_balance_def ledger_of_def)
  show ?thesis using ledger_explains_balance [OF b, of id "[(0, sample_adjustment), (5, sample_adjustment)]"] l by auto
qed

theorem keyed_adjustment_once_witness:
  "snd (adjust_balance id (2 * hour) (adjust_all id [(hour, sample_adjustment\<lparr>br_headers := []\<rparr>)]
     (fst (adjust_balance id 0 sample_balance sample_adjustment))) sample_adjustment) = Inr (7, 15 / 2)"
proof -
  have a: "adjust_balance id 0 sample_balance sample_adjustment =
      (fst (adjust_balance id 0 sample_balance sample_adjustment), Inr (7, 15 / 2))"
  proof -
    have "snd (adjust_balance id 0 sample_balance sample_adjustment) = Inr (7, 15 / 2)" by code_simp
    then show ?thesis by (metis prod.collapse)
  qed
  have n: "live_row 0 (bl_records sample_balance) (balance_scope, id (trim_space (hd (br_headers sample_adjustment)))) = None"
    by code_simp
  have h: "br_headers sample_adjustment \<noteq> []" "trim_space (hd (br_headers sample_adjustment)) \<noteq> []" by code_simp+
  have later: "\<forall>x \<in> set [(hour, sample_adjustment\<lparr>br_headers := []\<rparr>)]. fst x < 0 + day_long" "2 * hour < 0 + day_long"
    by (simp_all add: day_long_def durations)
  from keyed_adjustment_once [where digest = id, OF a n later h] show ?thesis by simp
qed

end
