(* ===== verification/Reference_Prices.thy ===== *)
theory Reference_Prices
  imports Pricing Civil_Time Json
begin

text \<open>
  The price catalog of \<open>internal/app/reference_prices.go\<close>: the checks of \<open>parsePriceCatalog\<close> on the
  decoded document, the index by platform and name, the lookup of a model and the price a request
  is charged by, from the cards of the group, of the channel and of the catalog.

  The document is modelled after its decoding: \<open>raw\<close> is its text, of which the code takes the length
  and the hash. Parameters: \<open>tz\<close> is the time zone database of \<open>Pricing\<close>, \<open>digest\<close> the hash and
  \<open>set_string\<close> is \<open>big.Rat.SetString\<close>. The Go map is an association list from the pair of platform
  and name, which the code joins with a zero byte that no platform contains.
\<close>

section \<open>The catalog\<close>

record reference_price =
  rp_card :: model_price
  rp_fast_ratio :: string

record price_document =
  pd_as_of :: string
  pd_source :: string
  pd_prices :: "reference_price list"

type_synonym price_index = "((string \<times> string) \<times> model_price) list"

record price_catalog =
  pc_as_of :: string
  pc_source :: string
  pc_prices :: "model_price list"
  pc_hash :: string
  pc_index :: price_index

text \<open>\<open>fmt.Errorf\<close> around the error of a card.\<close>

fun failure_text :: "failure \<Rightarrow> string" where
  "failure_text (ApiError _ m) = m"
| "failure_text (Internal m) = m"

definition card_failure :: "nat \<Rightarrow> failure \<Rightarrow> failure" where
  "card_failure i e = Internal (''price catalog card '' @ nat_text i @ '': '' @ failure_text e)"

definition absolute_interval :: "price_interval \<Rightarrow> bool" where
  "absolute_interval iv \<longleftrightarrow> iv_input iv \<noteq> None \<or> iv_output iv \<noteq> None \<or> iv_cache_write iv \<noteq> None \<or>
     iv_cache_write_1h iv \<noteq> None \<or> iv_cache_read iv \<noteq> None \<or> iv_per_request iv \<noteq> None"

definition reference_ratio :: "(string \<Rightarrow> rat option) \<Rightarrow> string \<Rightarrow> rat option result" where
  "reference_ratio set_string ratio =
     (if ratio = [] then Inr None
      else if 50 < length ratio \<or> contains_any ratio ''eE'' then Inl (Internal ''invalid reference priority ratio'')
      else (case set_string ratio of
        None \<Rightarrow> Inl (Internal ''invalid reference priority ratio'')
      | Some v \<Rightarrow> if v \<le> 0 \<or> 1000000 \<le> v then Inl (Internal ''invalid reference priority ratio'') else Inr (Some v)))"

definition unpriced :: "model_price \<Rightarrow> bool" where
  "unpriced p \<longleftrightarrow> mp_input p = None \<and> mp_output p = None \<and> mp_image_input p = None \<and>
     mp_image_output p = None \<and> mp_per_request p = None \<and> mp_intervals p = []"

text \<open>The checks of one card, with the card as the validation left it and its ratio.\<close>

definition check_reference ::
  "tz_database \<Rightarrow> (string \<Rightarrow> rat option) \<Rightarrow> nat \<Rightarrow> reference_price \<Rightarrow> model_price result" where
  "check_reference tz set_string i rp =
     (if \<not> supported_platform (mp_platform (rp_card rp)) then Inl (Internal ''unsupported price catalog platform'')
      else (case validate_model_prices tz False [rp_card rp] of
        Inl e \<Rightarrow> Inl (card_failure i e)
      | Inr cards \<Rightarrow>
          (let p = hd cards in
           if mp_billing_mode p = ''token'' \<and> list_ex absolute_interval (mp_intervals p)
             then Inl (Internal ''reference token intervals must use multipliers'')
           else and_then (reference_ratio set_string (rp_fast_ratio rp)) (\<lambda>r.
             (let p = (case r of None \<Rightarrow> p | Some v \<Rightarrow> p\<lparr>mp_fast_ratio := Some v\<rparr>) in
              if unpriced p then Inl (Internal ''empty reference price card'') else Inr p)))))"

definition index_name :: "model_price \<Rightarrow> price_index \<Rightarrow> string \<Rightarrow> price_index result" where
  "index_name p index name =
     (if \<not> concrete_model name then Inl (Internal ''price catalog requires concrete model names'')
      else if assoc index (mp_platform p, pricing_name name) \<noteq> None then Inl (Internal ''duplicate price catalog model'')
      else Inr (put (mp_platform p, pricing_name name) p index))"

definition index_card ::
  "tz_database \<Rightarrow> (string \<Rightarrow> rat option) \<Rightarrow> model_price list \<times> price_index \<Rightarrow> reference_price \<Rightarrow>
   (model_price list \<times> price_index) result" where
  "index_card tz set_string st rp = (case st of (cards, index) \<Rightarrow>
     and_then (check_reference tz set_string (length cards) rp) (\<lambda>p.
     and_then (each_with (index_name p) index (mp_models p)) (\<lambda>index. Inr (cards @ [p], index))))"

definition parse_price_catalog ::
  "tz_database \<Rightarrow> (string \<Rightarrow> rat option) \<Rightarrow> (string \<Rightarrow> string) \<Rightarrow> (string \<Rightarrow> price_document option) \<Rightarrow> string \<Rightarrow>
   price_catalog result" where
  "parse_price_catalog tz set_string digest decode raw =
     (if 8388608 < length raw then Inl (Internal ''price catalog exceeds 8 MiB'')
      else (case decode raw of
        None \<Rightarrow> Inl (Internal ''invalid price catalog JSON'')
      | Some d \<Rightarrow>
          (if \<not> valid_date (pd_as_of d) \<or> pd_source d = [] \<or> 2000 < length (pd_source d) \<or>
              pd_prices d = [] \<or> 10000 < length (pd_prices d)
             then Inl (Internal ''invalid price catalog metadata or size'')
           else and_then (each_with (index_card tz set_string) ([], []) (pd_prices d)) (\<lambda>(cards, index).
             Inr \<lparr>pc_as_of = pd_as_of d, pc_source = pd_source d, pc_prices = cards, pc_hash = digest raw,
                  pc_index = index\<rparr>))))"

text \<open>
  \<open>reloadPrices\<close> with the text it has read: an unchanged text keeps the published catalog, a faulty one
  leaves it in place with an error.
\<close>

definition reload_prices ::
  "tz_database \<Rightarrow> (string \<Rightarrow> rat option) \<Rightarrow> (string \<Rightarrow> string) \<Rightarrow> (string \<Rightarrow> price_document option) \<Rightarrow>
   price_catalog option \<Rightarrow> string result \<Rightarrow> price_catalog option \<times> unit result" where
  "reload_prices tz set_string digest decode published source = (case source of
     Inl e \<Rightarrow> (published, Inl e)
   | Inr raw \<Rightarrow>
       (if (case published of None \<Rightarrow> False | Some old \<Rightarrow> pc_hash old = digest raw) then (published, Inr ())
        else (case parse_price_catalog tz set_string digest decode raw of
          Inl e \<Rightarrow> (published, Inl e)
        | Inr c \<Rightarrow> (Some c, Inr ()))))"


section \<open>Lookup\<close>

definition dashed_digits :: "string \<Rightarrow> string \<Rightarrow> bool" where
  "dashed_digits shape s \<longleftrightarrow>
     list_all2 (\<lambda>x c. if x = CHR ''-'' then c = CHR ''-'' else is_digit c) shape s"

text \<open>\<open>priceDateSuffix.ReplaceAllString(name, "")\<close>: both shapes end the name, so at most one matches.\<close>

definition strip_date :: "string \<Rightarrow> string" where
  "strip_date name =
     (let cut = (\<lambda>k. take (length name - k) name); end = (\<lambda>k. drop (length name - k) name) in
      if dashed_digits ''-dddd-dd-dd'' (end 11) then cut 11
      else if dashed_digits ''-dddddddd'' (end 9) then cut 9 else name)"

definition effort_suffixes :: "string list" where
  "effort_suffixes = [''-minimal'', ''-low'', ''-medium'', ''-high'', ''-xhigh'', ''-max'', ''-none'']"

definition price_names :: "string \<Rightarrow> string list" where
  "price_names name =
     (let name = pricing_name (trim_prefix (to_lower name) ''models/'') in
      [name, strip_date name] @
      (if has_prefix name ''gpt-''
       then map (trim_suffix name) (filter (has_suffix name) effort_suffixes) @
            (if name = ''gpt-5.6'' then [''gpt-5.6-sol''] else []) @
            (if name = ''gpt-6'' then [''gpt-6-astra''] else [])
       else []))"

definition providers :: "string list" where
  "providers = [''openai'', ''anthropic'', ''gemini'', ''grok'', ''kimi'', ''zhipu'', ''deepseek'', ''minimax'']"

fun lookup_names :: "price_index \<Rightarrow> string \<Rightarrow> string list \<Rightarrow> model_price option" where
  "lookup_names index platform [] = None"
| "lookup_names index platform (candidate # names) =
     (if platform \<noteq> [] then
        (case assoc index (platform, candidate) of
           Some p \<Rightarrow> Some p
         | None \<Rightarrow> lookup_names index platform names)
      else (case List.map_filter (\<lambda>provider. assoc index (provider, candidate)) providers of
           [] \<Rightarrow> lookup_names index platform names
         | [p] \<Rightarrow> Some p
         | _ \<Rightarrow> None))"

definition lookup_price :: "price_catalog option \<Rightarrow> string \<Rightarrow> string \<Rightarrow> model_price option" where
  "lookup_price c platform name = (case c of
     None \<Rightarrow> None
   | Some c \<Rightarrow> lookup_names (pc_index c) platform (price_names name))"

definition card_matches :: "string \<Rightarrow> string \<Rightarrow> model_price \<Rightarrow> bool" where
  "card_matches platform name p \<longleftrightarrow>
     mp_platform p = platform \<and> list_ex (\<lambda>pattern. pattern_matches (pricing_name pattern) name) (mp_models p)"

definition match_price :: "model_price list \<Rightarrow> string \<Rightarrow> string \<Rightarrow> model_price option" where
  "match_price prices platform model = find_map (\<lambda>name. find (card_matches platform name) prices) (price_names model)"


section \<open>The price of a request\<close>

definition or_else :: "'a option \<Rightarrow> 'a option \<Rightarrow> 'a option" where
  "or_else a b = (case a of None \<Rightarrow> b | Some x \<Rightarrow> Some x)"

text \<open>A token card completed by the reference card: omitted text components inherit.\<close>

definition inherit_price :: "model_price \<Rightarrow> model_price \<Rightarrow> model_price" where
  "inherit_price base custom =
     custom\<lparr>mp_fast_ratio := mp_fast_ratio base,
       mp_input := or_else (mp_input custom) (mp_input base),
       mp_output := or_else (mp_output custom) (mp_output base),
       mp_cache_write := or_else (mp_cache_write custom) (mp_cache_write base),
       mp_cache_read := or_else (mp_cache_read custom) (mp_cache_read base),
       mp_fast := or_else (mp_fast custom) (mp_fast base),
       mp_cache_write_1h := or_else (mp_cache_write_1h custom)
         (or_else (mp_cache_write custom) (mp_cache_write_1h base)),
       mp_intervals := (if mp_intervals custom = [] then mp_intervals base else mp_intervals custom)\<rparr>"

definition reference_for :: "price_catalog option \<Rightarrow> string \<Rightarrow> string \<Rightarrow> model_price option" where
  "reference_for c platform model =
     map_option (\<lambda>p. p\<lparr>mp_platform := platform\<rparr>) (or_else (lookup_price c platform model) (lookup_price c [] model))"

definition token_card :: "model_price \<Rightarrow> bool" where
  "token_card p \<longleftrightarrow> mp_billing_mode p = ''token'' \<or> mp_billing_mode p = []"

definition resolved_model_price ::
  "price_catalog option \<Rightarrow> model_price list \<Rightarrow> string \<Rightarrow> string \<Rightarrow> bool \<Rightarrow> model_price result" where
  "resolved_model_price c configured platform model restrict = (case match_price configured platform model of
     None \<Rightarrow>
       (if restrict then Inl denied
        else (case reference_for c platform model of
          Some base \<Rightarrow> Inr base
        | None \<Rightarrow> Inl (ApiError 503 ''model price is not configured'')))
   | Some custom \<Rightarrow> (case reference_for c platform model of
       None \<Rightarrow> Inr custom
     | Some base \<Rightarrow>
         (if \<not> token_card custom \<or> mp_billing_mode base \<noteq> ''token'' then Inr custom
          else Inr (inherit_price base custom))))"

fun first_wildcard :: "string \<Rightarrow> (string \<times> model_price) list \<Rightarrow> model_price option \<Rightarrow> model_price option" where
  "first_wildcard model [] matched = matched"
| "first_wildcard model ((pattern, p) # ps) matched =
     (if pricing_name pattern = pricing_name model then Some p
      else if matched = None \<and> pattern_matches (pricing_name pattern) (pricing_name model)
        then first_wildcard model ps (Some p)
      else first_wildcard model ps matched)"

definition group_model_price :: "model_price list \<Rightarrow> string \<Rightarrow> model_price option" where
  "group_model_price cards model =
     first_wildcard model (concat (map (\<lambda>p. map (\<lambda>pattern. (pattern, p)) (mp_models p)) cards)) None"

definition effective_model_price ::
  "price_catalog option \<Rightarrow> model_price list \<Rightarrow> model_price list \<Rightarrow> string \<Rightarrow> string \<Rightarrow> bool \<Rightarrow> model_price result" where
  "effective_model_price c cards channel platform model restrict =
     (if restrict \<and> match_price channel platform model = None then Inl denied
      else (case group_model_price cards model of
        None \<Rightarrow> resolved_model_price c channel platform model False
      | Some p \<Rightarrow>
          (let p = p\<lparr>mp_platform := platform, mp_models := [model]\<rparr>;
               p = (if token_card p then p\<lparr>mp_intervals := []\<rparr> else p) in
           resolved_model_price c [p] platform model False)))"

end
