(* ===== verification/Reference_Price_Facts.thy ===== *)
theory Reference_Price_Facts
  imports Reference_Prices
begin

text \<open>
  The index of a published catalog answers exactly its cards, and the price of a request is the card of
  the group, else of the channel, completed from the catalog.
\<close>

section \<open>The index\<close>

definition card_key :: "model_price \<Rightarrow> string \<Rightarrow> string \<times> string" where
  "card_key p name = (mp_platform p, pricing_name name)"

definition indexed :: "model_price list \<Rightarrow> price_index \<Rightarrow> bool" where
  "indexed cards index \<longleftrightarrow>
     (\<forall>k p. assoc index k = Some p \<longleftrightarrow> p \<in> set cards \<and> k \<in> card_key p ` set (mp_models p)) \<and>
     (\<forall>p \<in> set cards. supported_platform (mp_platform p))"

lemma indexedD:
  assumes "indexed cards index"
  shows "assoc index k = Some p \<longleftrightarrow> p \<in> set cards \<and> k \<in> card_key p ` set (mp_models p)"
    and "p \<in> set cards \<Longrightarrow> supported_platform (mp_platform p)"
  using assms unfolding indexed_def by blast+

lemma indexed_Nil: "indexed [] []"
  by (simp add: indexed_def)

lemma index_names:
  "each_with (index_name p) index names = Inr index' \<Longrightarrow>
     (\<forall>k. assoc index' k = (if k \<in> card_key p ` set names then Some p else assoc index k)) \<and>
     (\<forall>k \<in> card_key p ` set names. assoc index k = None)"
proof (induction names arbitrary: index)
  case Nil
  then show ?case by simp
next
  case (Cons name names)
  let ?k = "card_key p name"
  from Cons.prems have free: "assoc index ?k = None"
    and rest: "each_with (index_name p) (put ?k p index) names = Inr index'"
    by (auto simp: index_name_def [of p index] card_key_def result_iff)
  note ih = Cons.IH [OF rest]
  have "assoc index k = None" if "k \<in> card_key p ` set names" for k
    using ih that by (auto simp: assoc_put split: if_splits)
  with ih free show ?case by (auto simp: assoc_put)
qed

lemma index_namesD:
  assumes "each_with (index_name p) index names = Inr index'"
  shows "k \<in> card_key p ` set names \<Longrightarrow> assoc index' k = Some p"
    and "k \<in> card_key p ` set names \<Longrightarrow> assoc index k = None"
    and "k \<notin> card_key p ` set names \<Longrightarrow> assoc index' k = assoc index k"
proof -
  note index = index_names [OF assms]
  note all = index [THEN conjunct1, THEN spec, of k] and free = index [THEN conjunct2, THEN bspec, of k]
  show "k \<in> card_key p ` set names \<Longrightarrow> assoc index' k = Some p" by (simp only: all if_True)
  show "k \<in> card_key p ` set names \<Longrightarrow> assoc index k = None" by (rule free)
  show "k \<notin> card_key p ` set names \<Longrightarrow> assoc index' k = assoc index k" by (simp only: all if_False)
qed

lemma check_reference_platform:
  assumes "check_reference tz set_string i rp = Inr p"
  shows "supported_platform (mp_platform p)"
proof -
  obtain cards r where ok: "supported_platform (mp_platform (rp_card rp))"
      "validate_model_prices tz False [rp_card rp] = Inr cards"
      "p = (case r of None \<Rightarrow> hd cards | Some v \<Rightarrow> hd cards\<lparr>mp_fast_ratio := Some v\<rparr>)"
    using assms by (auto simp: check_reference_def Let_def result_iff split: sum.splits if_splits)
  have "cards = [with_card_defaults (rp_card rp)]"
    using ok(2) by (auto simp: validate_model_prices_def validate_card_def Let_def result_iff split: sum.splits if_splits)
  then have "mp_platform p = mp_platform (rp_card rp)"
    using ok(1,3) by (auto simp: with_card_defaults_def supported_platform_def split: option.splits)
  then show ?thesis using ok(1) by simp
qed

lemma index_card_keeps:
  assumes "index_card tz set_string (cards, index) rp = Inr (cards', index')" "indexed cards index"
  shows "indexed cards' index'"
proof -
  obtain p where p: "check_reference tz set_string (length cards) rp = Inr p"
      "each_with (index_name p) index (mp_models p) = Inr index'" "cards' = cards @ [p]"
    using assms(1) by (auto simp: index_card_def result_iff)
  note new = index_namesD [OF p(2)] and old = indexedD [OF assms(2)]
  have "assoc index' k = Some q \<longleftrightarrow> q \<in> set cards' \<and> k \<in> card_key q ` set (mp_models q)" for k q
  proof (cases "k \<in> card_key p ` set (mp_models p)")
    case True
    then have "assoc index k = None" "assoc index' k = Some p" by (rule new(2), rule new(1))
    then have "\<not> (q \<in> set cards \<and> k \<in> card_key q ` set (mp_models q))" using old(1) [of k q] by simp
    with True \<open>assoc index' k = Some p\<close> show ?thesis by (auto simp: p(3))
  next
    case False
    then have "assoc index' k = assoc index k" by (rule new(3))
    with False old(1) [of k q] show ?thesis by (auto simp: p(3))
  qed
  moreover have "supported_platform (mp_platform q)" if "q \<in> set cards'" for q
    using that old(2) check_reference_platform [OF p(1)] by (auto simp: p(3))
  ultimately show ?thesis by (simp add: indexed_def)
qed

lemma parsed_indexed:
  assumes "parse_price_catalog tz set_string digest decode raw = Inr c"
  shows "indexed (pc_prices c) (pc_index c)"
proof -
  obtain d where d: "decode raw = Some d"
    using assms by (auto simp: parse_price_catalog_def split: option.splits if_splits)
  with assms have d: "each_with (index_card tz set_string) ([], []) (pd_prices d) = Inr (pc_prices c, pc_index c)"
    by (auto simp: parse_price_catalog_def result_iff split: if_splits)
  have "case (pc_prices c, pc_index c) of (cards, index) \<Rightarrow> indexed cards index"
    by (rule each_with_invariant [OF d]) (auto simp: indexed_Nil intro: index_card_keeps)
  then show ?thesis by simp
qed

section \<open>Lookup\<close>

lemma hd_price_names:
  "\<not> has_prefix (to_lower name) ''models/'' \<Longrightarrow> \<exists>ns. price_names name = pricing_name name # ns"
  by (simp add: price_names_def Let_def trim_prefix_def pricing_name_def trim_space_to_lower [symmetric])

lemma lookup_names_platform:
  "platform \<noteq> [] \<Longrightarrow> lookup_names index platform names = find_map (\<lambda>n. assoc index (platform, n)) names"
  by (induction names) (auto split: option.splits)

lemma map_filter_singleton:
  "List.map_filter f xs = [p] \<Longrightarrow> \<exists>x \<in> set xs. f x = Some p \<and> (\<forall>y \<in> set xs. y \<noteq> x \<longrightarrow> f y = None)"
proof (induction xs)
  case Nil
  then show ?case by (simp add: List.map_filter_simps)
next
  case (Cons x xs)
  show ?case
  proof (cases "f x")
    case None
    with Cons show ?thesis by (auto simp: List.map_filter_simps)
  next
    case (Some q)
    with Cons.prems have "q = p" "List.map_filter f xs = []" by (auto simp: List.map_filter_simps)
    then show ?thesis using Some
      by (auto simp: List.map_filter_def filter_empty_conv)
  qed
qed

lemma lookup_names_any:
  "lookup_names index [] names = Some p \<Longrightarrow> \<exists>n \<in> set names. \<exists>provider \<in> set providers.
     assoc index (provider, n) = Some p \<and> (\<forall>other \<in> set providers. other \<noteq> provider \<longrightarrow> assoc index (other, n) = None)"
proof (induction names)
  case Nil
  then show ?case by simp
next
  case (Cons n names)
  show ?case
  proof (cases "List.map_filter (\<lambda>provider. assoc index (provider, n)) providers")
    case Nil
    with Cons show ?thesis by auto
  next
    case (Cons q qs)
    with Cons.prems have "List.map_filter (\<lambda>provider. assoc index (provider, n)) providers = [p]"
      by (auto split: list.splits)
    from map_filter_singleton [OF this] show ?thesis by auto
  qed
qed

text \<open>A published catalog answers exactly its cards. A name of a card that does not
  start with \<open>models/\<close> is found under the card's platform, and what a lookup under a platform returns is a
  card of that platform whose name is one of the spellings tried. A lookup without a platform returns a card
  only when no other provider offers the spelling.\<close>

lemma catalog_lookup_exact:
  assumes "parse_price_catalog tz set_string digest decode raw = Inr c"
  shows "(p \<in> set (pc_prices c) \<and> name \<in> set (mp_models p) \<and> \<not> has_prefix (to_lower name) ''models/'' \<longrightarrow>
      lookup_price (Some c) (mp_platform p) name = Some p) \<and>
    (platform \<noteq> [] \<and> lookup_price (Some c) platform name = Some p \<longrightarrow> p \<in> set (pc_prices c) \<and>
      mp_platform p = platform \<and> (\<exists>n \<in> set (mp_models p). pricing_name n \<in> set (price_names name))) \<and>
    (lookup_price (Some c) [] name = Some p \<longrightarrow> p \<in> set (pc_prices c) \<and>
      (\<exists>n \<in> set (mp_models p). pricing_name n \<in> set (price_names name) \<and>
        (\<forall>q \<in> set (pc_prices c). \<forall>m \<in> set (mp_models q). pricing_name m = pricing_name n \<longrightarrow> q = p)))"
proof -
  note index = indexedD [OF parsed_indexed [OF assms]]
  have found: "lookup_price (Some c) (mp_platform p) name = Some p"
    if p: "p \<in> set (pc_prices c)" "name \<in> set (mp_models p)" "\<not> has_prefix (to_lower name) ''models/''"
  proof -
    have "assoc (pc_index c) (mp_platform p, pricing_name name) = Some p"
      using index(1) p by (auto simp: card_key_def)
    moreover have "mp_platform p \<noteq> []" using index(2) [OF p(1)] by (auto simp: supported_platform_def)
    ultimately show ?thesis using hd_price_names [OF p(3)] by (auto simp: lookup_price_def)
  qed
  have card: "p \<in> set (pc_prices c) \<and> mp_platform p = platform \<and> (\<exists>n \<in> set (mp_models p). pricing_name n \<in> set (price_names name))"
    if "platform \<noteq> []" "lookup_price (Some c) platform name = Some p"
    using that index(1) by (auto simp: lookup_price_def lookup_names_platform card_key_def dest!: find_map_SomeD)
  have unique: "p \<in> set (pc_prices c) \<and> (\<exists>n \<in> set (mp_models p). pricing_name n \<in> set (price_names name) \<and>
        (\<forall>q \<in> set (pc_prices c). \<forall>m \<in> set (mp_models q). pricing_name m = pricing_name n \<longrightarrow> q = p))"
    if any: "lookup_price (Some c) [] name = Some p"
  proof -
    obtain x provider where x: "x \<in> set (price_names name)" "assoc (pc_index c) (provider, x) = Some p"
        "\<And>other. other \<in> set providers \<Longrightarrow> other \<noteq> provider \<Longrightarrow> assoc (pc_index c) (other, x) = None"
      using lookup_names_any [of "pc_index c"] any unfolding lookup_price_def option.case by blast
    then obtain n where n: "p \<in> set (pc_prices c)" "n \<in> set (mp_models p)" "provider = mp_platform p" "x = pricing_name n"
      using index(1) by (auto simp: card_key_def)
    have "q = p" if q: "q \<in> set (pc_prices c)" "m \<in> set (mp_models q)" "pricing_name m = x" for q m
    proof -
      have "assoc (pc_index c) (mp_platform q, x) = Some q" using index(1) q by (auto simp: card_key_def)
      moreover have "mp_platform q \<in> set providers"
        using index(2) [OF q(1)] by (auto simp: supported_platform_def providers_def)
      ultimately have "mp_platform q = provider" using x(3) [of "mp_platform q"] by fastforce
      with x(2) \<open>assoc (pc_index c) (mp_platform q, x) = Some q\<close> show ?thesis by simp
    qed
    with n x(1) show ?thesis by blast
  qed
  show ?thesis using found card unique by blast
qed

section \<open>The price of a request\<close>

lemma reference_for_platform: "reference_for c platform model = Some base \<Longrightarrow> mp_platform base = platform"
  by (auto simp: reference_for_def)

lemma match_own_name:
  assumes "mp_platform p = platform" "mp_models p = [model]" "\<not> has_prefix (to_lower model) ''models/''"
  shows "match_price [p] platform model = Some p"
proof -
  have "pattern_matches (pricing_name model) (pricing_name model)"
    by (auto simp: pattern_matches_def Let_def trim_suffix_def go_string take_is_prefix)
  then have "card_matches platform (pricing_name model) p" using assms(1,2) by (simp add: card_matches_def)
  moreover obtain ns where "price_names model = pricing_name model # ns" using hd_price_names [OF assms(3)] by blast
  ultimately show ?thesis by (simp add: match_price_def)
qed

text \<open>A token card of the group decides the price of a request. The components it
  sets are charged, an explicit zero included, those it leaves out come from the catalog and never from the
  channel, and the only context tiers are those of the catalog. The channel is still asked whether a
  restricted model may be used.\<close>

lemma group_card_decides_price:
  assumes "effective_model_price c cards channel platform model restrict = Inr p"
    and "group_model_price cards model = Some g" "token_card g" "\<not> has_prefix (to_lower model) ''models/''"
    and "reference_for c platform model = Some base" "mp_billing_mode base = ''token''"
  shows "(restrict \<longrightarrow> match_price channel platform model \<noteq> None) \<and>
    mp_platform p = platform \<and> mp_models p = [model] \<and>
    mp_input p = or_else (mp_input g) (mp_input base) \<and> mp_output p = or_else (mp_output g) (mp_output base) \<and>
    mp_cache_read p = or_else (mp_cache_read g) (mp_cache_read base) \<and>
    mp_cache_write p = or_else (mp_cache_write g) (mp_cache_write base) \<and>
    mp_cache_write_1h p = or_else (mp_cache_write_1h g) (or_else (mp_cache_write g) (mp_cache_write_1h base)) \<and>
    mp_image_output p = mp_image_output g \<and> mp_intervals p = mp_intervals base"
proof -
  define card where "card = g\<lparr>mp_platform := platform, mp_models := [model], mp_intervals := []\<rparr>"
  have own: "match_price [card] platform model = Some card"
    by (rule match_own_name) (simp_all add: card_def assms(4))
  have "token_card (g\<lparr>mp_platform := platform, mp_models := [model]\<rparr>)" using assms(3) by (simp add: token_card_def)
  then have effective: "effective_model_price c cards channel platform model restrict =
      (if restrict \<and> match_price channel platform model = None then Inl denied
       else resolved_model_price c [card] platform model False)"
    using assms(2) by (simp add: effective_model_price_def Let_def card_def)
  have "token_card card" using assms(3) by (simp add: card_def token_card_def)
  then have "resolved_model_price c [card] platform model False = Inr (inherit_price base card)"
    using own assms(5,6) by (simp add: resolved_model_price_def)
  then have p: "p = inherit_price base card" and "restrict \<longrightarrow> match_price channel platform model \<noteq> None"
    using assms(1) effective by (auto split: if_splits)
  then show ?thesis by (simp add: p inherit_price_def card_def)
qed

section \<open>An example\<close>

definition plain_card :: model_price where
  "plain_card = \<lparr>mp_fast_ratio = None, mp_platform = ''openai'', mp_models = [''gpt-5''], mp_billing_mode = ''token'',
     mp_input = Some ''0.00000125'', mp_output = Some ''0.00001'', mp_cache_write = None, mp_cache_write_1h = None,
     mp_cache_read = None, mp_image_input = None, mp_image_output = None, mp_per_request = None, mp_fast = None,
     mp_flex = None, mp_reasoning = [], mp_intervals = [], mp_time_pricing = None\<rparr>"

definition free_card :: model_price where
  "free_card = plain_card\<lparr>mp_models := [''*''], mp_input := Some ''0'', mp_output := None\<rparr>"

definition sample_document :: price_document where
  "sample_document = \<lparr>pd_as_of = ''2026-02-28'', pd_source = ''list'', pd_prices =
     [\<lparr>rp_card = plain_card, rp_fast_ratio = []\<rparr>,
      \<lparr>rp_card = plain_card\<lparr>mp_models := [''gpt-5-mini'', ''o3'']\<rparr>, rp_fast_ratio = ''1.5''\<rparr>]\<rparr>"

definition published :: price_catalog where
  "published = (case parse_price_catalog (\<lambda>_. None) rat_of id (\<lambda>_. Some sample_document) ''{}'' of
     Inr c \<Rightarrow> c | Inl _ \<Rightarrow> \<lparr>pc_as_of = [], pc_source = [], pc_prices = [], pc_hash = [], pc_index = []\<rparr>)"

lemma published_parsed:
  "parse_price_catalog (\<lambda>_. None) rat_of id (\<lambda>_. Some sample_document) ''{}'' = Inr published"
proof -
  have "ok (parse_price_catalog (\<lambda>_. None) rat_of id (\<lambda>_. Some sample_document) ''{}'')" by code_simp
  then show ?thesis by (auto simp: published_def ok_iff)
qed

lemma published_first: "pc_prices published ! 0 = plain_card \<and> 0 < length (pc_prices published)"
  by code_simp

theorem catalog_lookup_exact_witness: "lookup_price (Some published) ''openai'' ''gpt-5'' = Some plain_card"
proof -
  have "plain_card \<in> set (pc_prices published)" using published_first nth_mem by metis
  moreover have "''gpt-5'' \<in> set (mp_models plain_card)" by (simp add: plain_card_def)
  moreover have "\<not> has_prefix (to_lower ''gpt-5'') ''models/''" by code_simp
  ultimately have "lookup_price (Some published) (mp_platform plain_card) ''gpt-5'' = Some plain_card"
    using catalog_lookup_exact [OF published_parsed, THEN conjunct1] by blast
  then show ?thesis by (simp add: plain_card_def)
qed

theorem group_card_decides_price_witness:
  "\<exists>p. effective_model_price (Some published) [free_card] [] ''openai'' ''GPT-5-2026-01-31'' False = Inr p \<and>
     mp_input p = Some ''0'' \<and> mp_output p = Some ''0.00001''"
proof -
  let ?price = "effective_model_price (Some published) [free_card] [] ''openai'' ''GPT-5-2026-01-31'' False"
  let ?base = "reference_for (Some published) ''openai'' ''GPT-5-2026-01-31''"
  have "ok ?price" by code_simp
  then obtain p where p: "?price = Inr p" by (auto simp: ok_iff)
  have group: "group_model_price [free_card] ''GPT-5-2026-01-31'' = Some free_card" "token_card free_card"
    "\<not> has_prefix (to_lower ''GPT-5-2026-01-31'') ''models/''" by code_simp+
  have base: "?base = Some plain_card" by code_simp
  have "mp_billing_mode plain_card = ''token''" by (simp add: plain_card_def)
  from group_card_decides_price [OF p group base this] p show ?thesis
    by (simp add: free_card_def plain_card_def or_else_def)
qed

text \<open>
  The card of the group is matched with the name as it was sent, but looked up again under the spellings
  of \<open>price_names\<close>, which never start with \<open>models/\<close>. So a request for \<open>models/gpt-5\<close> is charged the
  reference price although a card of the group makes every model free.
\<close>

lemma group_card_lost_for_prefixed_name:
  "group_model_price [free_card] ''models/gpt-5'' = Some free_card \<and> mp_input free_card = Some ''0'' \<and>
   effective_model_price (Some published) [free_card] [] ''openai'' ''models/gpt-5'' False = Inr plain_card \<and>
   mp_input plain_card = Some ''0.00000125''"
  by code_simp

end
