(* ===== verification/Account_Config.thy ===== *)
theory Account_Config
  imports Gateway
begin

text \<open>
  What the credentials and settings of an upstream account allow: header overrides
  (\<open>internal/app/accounts.go\<close>, \<open>internal/app/upstream.go\<close>), OpenAI capabilities
  (\<open>internal/app/video_tasks.go\<close>), grants of provider resources to groups
  (\<open>internal/app/response_files.go\<close>), the target a grant is tied to (\<open>responseTarget\<close> of
  \<open>internal/app/responses.go\<close>) and the WebSocket mode (\<open>internal/app/responses_ws.go\<close>). Parameters:
  \<open>digest\<close> is the hash, \<open>marshal\<close> is \<open>json.Marshal\<close> of a header map, whose keys it writes in order.
\<close>

section \<open>Decoding\<close>

text \<open>\<open>json.Unmarshal\<close> into a \<open>bool\<close> that was false, and into a \<open>[]string\<close>.\<close>

fun as_bool :: "json option \<Rightarrow> bool option" where
  "as_bool (Some JNull) = Some False"
| "as_bool (Some (JBool b)) = Some b"
| "as_bool _ = None"

fun strings_of :: "json list \<Rightarrow> string list option" where
  "strings_of [] = Some []"
| "strings_of (j # js) = (case (as_string (Some j), strings_of js) of
     (Some s, Some ss) \<Rightarrow> Some (s # ss) | _ \<Rightarrow> None)"

fun as_strings :: "json option \<Rightarrow> string list option" where
  "as_strings (Some JNull) = Some []"
| "as_strings (Some (JArr js)) = strings_of js"
| "as_strings _ = None"

text \<open>Into a map whose values decode with \<open>f\<close>; the outer \<open>None\<close> is an error, the inner one the nil map.\<close>

fun entries_with :: "(json option \<Rightarrow> 'a option) \<Rightarrow> fields \<Rightarrow> (string \<times> 'a) list option" where
  "entries_with f [] = Some []"
| "entries_with f ((k, v) # kvs) = (case (f (Some v), entries_with f kvs) of
     (Some x, Some es) \<Rightarrow> Some (put k x es) | _ \<Rightarrow> None)"

definition as_map :: "(json option \<Rightarrow> 'a option) \<Rightarrow> json option \<Rightarrow> (string \<times> 'a) list option option" where
  "as_map f j = (case as_object j of
     None \<Rightarrow> None
   | Some None \<Rightarrow> Some None
   | Some (Some kvs) \<Rightarrow> map_option Some (entries_with f kvs))"

definition credential_bool :: "fields \<Rightarrow> string \<Rightarrow> bool" where
  "credential_bool m key \<longleftrightarrow> as_bool (assoc m key) = Some True"


section \<open>Header overrides\<close>

definition max_header_overrides :: nat where
  "max_header_overrides = 64"

definition blocked_header_overrides :: "string list" where
  "blocked_header_overrides =
     [''host'', ''content-length'', ''content-type'', ''transfer-encoding'',
      ''connection'', ''keep-alive'', ''upgrade'', ''te'', ''trailer'',
      ''proxy-authenticate'', ''proxy-connection'', ''accept-encoding'',
      ''sec-websocket-key'', ''sec-websocket-version'', ''sec-websocket-extensions'',
      ''sec-websocket-protocol'', ''sec-websocket-accept'',
      ''authorization'', ''proxy-authorization'', ''cookie'',
      ''x-api-key'', ''x-goog-api-key'', ''session_id'', ''conversation_id'',
      ''x-codex-turn-state'', ''x-codex-turn-metadata'', ''chatgpt-account-id'',
      ''x-claude-code-session-id'', ''x-client-request-id'', ''x-grok-conv-id'']"

definition is_lower :: "char \<Rightarrow> bool" where
  "is_lower c = (let n = of_char c :: nat in 97 \<le> n \<and> n \<le> 122)"

definition is_upper :: "char \<Rightarrow> bool" where
  "is_upper c = (let n = of_char c :: nat in 65 \<le> n \<and> n \<le> 90)"

definition header_punctuation :: string where
  "header_punctuation = ''!#$%&'' @ [CHR 0x27] @ ''*+-.^_`|~''"

definition override_char :: "char \<Rightarrow> bool" where
  "override_char c \<longleftrightarrow> is_lower c \<or> is_digit c \<or> List.member header_punctuation c"

definition header_value_char :: "char \<Rightarrow> bool" where
  "header_value_char c = (let n = of_char c :: nat in \<not> (n < 32 \<and> n \<noteq> 9 \<or> n = 127))"

definition normalize_header_override :: "string \<Rightarrow> string \<Rightarrow> (string \<times> string) result" where
  "normalize_header_override name val =
     (let name = to_lower (trim_space name); val = trim_space val in
      if name = [] \<and> val = [] then Inr ([], [])
      else if name = [] then Inl (bad ''header name must not be empty'')
      else if 200 < length name \<or> List.member blocked_header_overrides name
        then Inl (bad ''header is not allowed to be overridden'')
      else if \<not> list_all override_char name then Inl (bad ''invalid header override name'')
      else if 8192 < length val then Inl (bad ''invalid header override value'')
      else if \<not> list_all header_value_char val then Inl (bad ''invalid header override value'')
      else Inr (name, val))"

definition normalize_entry :: "(string \<times> string) list \<Rightarrow> string \<times> json \<Rightarrow> (string \<times> string) list result" where
  "normalize_entry done entry = (case snd entry of
     JStr s \<Rightarrow> and_then (normalize_header_override (fst entry) s) (\<lambda>(name, val).
       if name = [] then Inr done
       else if assoc done name \<noteq> None then Inl (bad ''duplicate header override name'')
       else Inr (put name val done))
   | _ \<Rightarrow> Inl (bad ''header override values must be strings''))"

definition normalize_header_overrides :: "json \<Rightarrow> json result" where
  "normalize_header_overrides raw = (case raw of
     JNull \<Rightarrow> Inr JNull
   | _ \<Rightarrow> (case as_map (\<lambda>j. j) (Some raw) of
       Some (Some entries) \<Rightarrow>
         (if max_header_overrides < length entries
          then Inl (bad ''header_overrides must be an object with at most 64 entries'')
          else and_then (each_with normalize_entry [] entries) (\<lambda>done.
            Inr (JObj (map (\<lambda>(k, v). (k, JStr v)) done))))
     | _ \<Rightarrow> Inl (bad ''header_overrides must be an object with at most 64 entries'')))"

text \<open>\<open>http.Header\<close>: a map from canonical names to values; \<open>Set\<close> writes the canonical name.\<close>

type_synonym headers = "(string \<times> string list) list"

definition upper_char :: "char \<Rightarrow> char" where
  "upper_char c = (let n = of_char c :: nat in if 97 \<le> n \<and> n \<le> 122 then char_of (n - 32) else c)"

fun canonical_from :: "bool \<Rightarrow> string \<Rightarrow> string" where
  "canonical_from start [] = []"
| "canonical_from start (c # s) =
     (if start then upper_char c else lower_char c) # canonical_from (c = CHR ''-'') s"

definition canonical_header :: "string \<Rightarrow> string" where
  "canonical_header name = canonical_from True name"

definition header_override_eligible :: "string \<Rightarrow> bool" where
  "header_override_eligible platform = List.member
     [''openai'', ''anthropic'', ''grok'', ''kimi'', ''zhipu'', ''deepseek'', ''minimax''] platform"

definition override_header :: "headers \<Rightarrow> string \<times> string \<Rightarrow> headers" where
  "override_header headers entry = (case normalize_header_override (fst entry) (snd entry) of
     Inl _ \<Rightarrow> headers
   | Inr (name, val) \<Rightarrow>
       (if name = [] \<or> val = [] then headers
        else put (canonical_header name) [val] (filter (\<lambda>h. \<not> equal_fold (fst h) name) headers)))"

definition apply_header_overrides :: "headers \<Rightarrow> upstream_account \<Rightarrow> headers" where
  "apply_header_overrides headers u =
     (if \<not> header_override_eligible (ua_platform u) \<or> ua_type u \<noteq> ''apikey'' \<or>
         \<not> credential_bool (ua_credentials u) ''header_override_enabled'' then headers
      else (case as_map as_string (assoc (ua_credentials u) ''header_overrides'') of
        Some (Some overrides) \<Rightarrow>
          (if max_header_overrides < length overrides then headers
           else foldl override_header headers overrides)
      | _ \<Rightarrow> headers))"

text \<open>\<open>validRequestIDHeader\<close>.\<close>

definition valid_request_id_header :: "string \<Rightarrow> bool" where
  "valid_request_id_header name \<longleftrightarrow> name \<noteq> [] \<and> length name \<le> 64 \<and>
     list_all (\<lambda>c. override_char c \<or> is_upper c) name"


section \<open>OpenAI capabilities\<close>

definition capability_names :: "string list" where
  "capability_names = [''chat_completions'', ''embeddings'', ''alpha_search'', ''seedance'']"

definition decode_capabilities :: "json option \<Rightarrow> (string \<times> bool) list result" where
  "decode_capabilities raw = (case raw of
     Some (JArr js) \<Rightarrow> (case strings_of js of
       None \<Rightarrow> Inl (bad ''invalid openai_capabilities'')
     | Some names \<Rightarrow> Inr (foldl (\<lambda>m n. put n True m) [] names))
   | _ \<Rightarrow> (case as_map as_bool raw of
       Some (Some m) \<Rightarrow> Inr m
     | _ \<Rightarrow> Inl (bad ''invalid openai_capabilities'')))"

definition openai_capabilities :: "json option \<Rightarrow> ((string \<times> bool) list \<times> bool) result" where
  "openai_capabilities raw =
     (if raw = None \<or> raw = Some JNull then Inr ([], False)
      else and_then (decode_capabilities raw) (\<lambda>caps.
        if \<not> list_all (\<lambda>c. List.member capability_names (fst c)) caps
          then Inl (bad ''unsupported OpenAI capability'')
        else Inr (caps, caps \<noteq> [])))"

definition has_capability :: "(string \<times> bool) list \<Rightarrow> string \<Rightarrow> bool" where
  "has_capability caps name \<longleftrightarrow> assoc caps name = Some True"

definition supports_seedance :: "upstream_account \<Rightarrow> bool" where
  "supports_seedance u = (case openai_capabilities (assoc (ua_credentials u) ''openai_capabilities'') of
     Inl _ \<Rightarrow> False
   | Inr (caps, _) \<Rightarrow> has_capability caps ''seedance'' \<and> ua_platform u = ''openai'' \<and> ua_type u = ''apikey'' \<and>
       credential_string (ua_credentials u) ''base_url'' \<noteq> [])"

definition allows_openai_protocol :: "upstream_account \<Rightarrow> string \<Rightarrow> bool" where
  "allows_openai_protocol u protocol =
     (if ua_platform u \<noteq> ''openai'' then True
      else (case openai_capabilities (assoc (ua_credentials u) ''openai_capabilities'') of
        Inl _ \<Rightarrow> False
      | Inr (caps, is_set) \<Rightarrow>
          (if \<not> is_set then protocol \<noteq> ''seedance''
           else if List.member [''chat_completions'', ''responses'', ''anthropic''] protocol
             then has_capability caps ''chat_completions''
           else if protocol = ''embeddings'' then has_capability caps ''embeddings''
           else if protocol = ''alpha_search''
             then has_capability caps ''alpha_search'' \<or> has_capability caps ''chat_completions''
           else if protocol = ''seedance'' then has_capability caps ''seedance''
           else True)))"


section \<open>Resource grants\<close>

definition valid_response_id :: "string \<Rightarrow> bool" where
  "valid_response_id i \<longleftrightarrow> i \<noteq> [] \<and> length i \<le> 256 \<and>
     list_all (\<lambda>c. is_lower c \<or> is_upper c \<or> is_digit c \<or> c = CHR ''_'' \<or> c = CHR ''-'') i"

text \<open>A positive \<open>int64\<close> in canonical decimal notation.\<close>

definition canonical_id :: "string \<Rightarrow> bool" where
  "canonical_id s \<longleftrightarrow> s \<noteq> [] \<and> list_all is_digit s \<and> hd s \<noteq> CHR ''0'' \<and> text_nat s \<le> 9223372036854775807"

fun check_ids :: "string list \<Rightarrow> string list \<Rightarrow> unit result" where
  "check_ids seen [] = Inr ()"
| "check_ids seen (i # is) =
     (if \<not> valid_response_id i \<or> List.member seen i then Inl (bad ''invalid or duplicate resource ID'')
      else check_ids (i # seen) is)"

definition parse_resource_grants :: "json option \<Rightarrow> (string \<times> string list) list result" where
  "parse_resource_grants raw = (case as_map as_strings raw of
     Some (Some grants) \<Rightarrow>
       (if 1000 < length grants then Inl (bad ''resource grants must map group IDs to resource ID lists'')
        else and_then (each (\<lambda>(i, ids).
            if \<not> canonical_id i \<or> 100 < length ids then Inl (bad ''invalid resource group grant'')
            else check_ids [] ids) grants) (\<lambda>_. Inr grants))
   | _ \<Rightarrow> Inl (bad ''resource grants must map group IDs to resource ID lists''))"

definition response_target ::
  "(string \<Rightarrow> string) \<Rightarrow> (headers \<Rightarrow> string) \<Rightarrow> upstream_account \<Rightarrow> string" where
  "response_target digest marshal u =
     (let base = (case base_url u of Inl _ \<Rightarrow> [] | Inr b \<Rightarrow> b); nl = [CHR 0x0A];
          target = ua_platform u @ nl @ account_protocol u @ nl @ base @ nl @
            credential_string (ua_credentials u) ''api_key'';
          headers = apply_header_overrides [] u
      in digest (if headers \<noteq> [] then target @ nl @ marshal (sort_key fst headers) else target))"

definition allows_response_resources ::
  "(string \<Rightarrow> string) \<Rightarrow> (headers \<Rightarrow> string) \<Rightarrow> upstream_account \<Rightarrow> string \<Rightarrow> int \<Rightarrow> string list \<Rightarrow> bool" where
  "allows_response_resources digest marshal u key gid ids =
     (if ids = [] then True
      else if credential_string (ua_extra u) (key @ ''_target'') \<noteq> response_target digest marshal u then False
      else (case parse_resource_grants (assoc (ua_extra u) key) of
        Inl _ \<Rightarrow> False
      | Inr grants \<Rightarrow> list_all (\<lambda>i. case assoc grants (int_text gid) of
            None \<Rightarrow> False | Some granted \<Rightarrow> List.member granted i) ids))"

definition resource_keys :: "string list" where
  "resource_keys = [''response_vector_stores'', ''response_files'', ''response_skills'']"

text \<open>\<open>bindResponseResourceGrants\<close> on the submitted settings.\<close>

definition bind_resource_grants ::
  "(string \<Rightarrow> string) \<Rightarrow> (headers \<Rightarrow> string) \<Rightarrow> upstream_account \<Rightarrow> fields \<Rightarrow> fields result" where
  "bind_resource_grants digest marshal u extra = each_with (\<lambda>extra key.
     if assoc extra key = None then Inr extra
     else if ua_platform u \<noteq> ''openai'' \<or> account_protocol u \<noteq> ''responses'' \<and>
             (key \<noteq> ''response_files'' \<or> account_protocol u \<noteq> ''chat_completions'')
       then Inl (bad ''resource grants require a compatible OpenAI account'')
     else Inr (put (key @ ''_target'') (JStr (response_target digest marshal u)) extra)) extra resource_keys"


section \<open>WebSocket modes\<close>

definition socket_flags :: "string list" where
  "socket_flags = [''openai_apikey_responses_websockets_v2_enabled'', ''responses_websockets_v2_enabled'', ''openai_ws_enabled'']"

definition response_socket_mode :: "upstream_account \<Rightarrow> string" where
  "response_socket_mode u =
     (if account_protocol u \<noteq> ''responses'' \<or> ua_platform u \<noteq> ''openai'' \<and> ua_platform u \<noteq> ''grok'' then ''off''
      else if credential_bool (ua_extra u) ''openai_ws_force_http'' then ''off''
      else (case assoc (ua_extra u) ''openai_apikey_responses_websockets_v2_mode'' of
        Some raw \<Rightarrow> (case as_string (Some raw) of
            Some mode \<Rightarrow> if mode = ''passthrough'' \<or> mode = ''http_bridge'' \<and> ua_platform u = ''openai''
                          then mode else ''off''
          | None \<Rightarrow> ''off'')
      | None \<Rightarrow> (case find_map (\<lambda>name. assoc (ua_extra u) name) socket_flags of
            Some raw \<Rightarrow> if as_bool (Some raw) = Some True then ''passthrough'' else ''off''
          | None \<Rightarrow> ''off'')))"

record response_binding =
  rb_account :: int
  rb_target :: string

record response_socket =
  rs_mode :: string
  rs_binding :: "response_binding option"

definition socket_eligible ::
  "(string \<Rightarrow> string) \<Rightarrow> (headers \<Rightarrow> string) \<Rightarrow> response_socket \<Rightarrow> upstream_account \<Rightarrow> bool" where
  "socket_eligible digest marshal s u \<longleftrightarrow> response_socket_mode u \<noteq> ''off'' \<and>
     (rs_mode s = [] \<or> rs_mode s = response_socket_mode u) \<and>
     (case rs_binding s of None \<Rightarrow> True
      | Some b \<Rightarrow> rb_account b = ua_id u \<and> rb_target b = response_target digest marshal u)"

text \<open>\<open>responseCompactionPath\<close>: the response a compaction names and whether the path is one.\<close>

definition response_compaction_path :: "string \<Rightarrow> string \<times> bool" where
  "response_compaction_path action =
     (let path = trim_prefix action ''/''; compaction = (\<lambda>p. p = ''compact'' \<or> has_prefix p ''compact/'') in
      if compaction path then ([], True)
      else (case cut_at ''/'' path of
        Some (i, rest) \<Rightarrow> if i \<noteq> ''input_tokens'' \<and> valid_response_id i \<and> compaction rest then (i, True) else ([], False)
      | None \<Rightarrow> ([], False)))"

end
