(* ===== verification/Accounts.thy ===== *)
theory Accounts
  imports Account_Config Proxies Quotas Idempotency
begin

text \<open>
  The administration of upstream accounts, \<open>internal/app/accounts.go\<close> with the billing switches of
  \<open>internal/app/billing_probe.go\<close>: validation of the submitted fields, creation, update, deletion and the
  changes of state, on the tables \<open>accounts\<close>, \<open>account_groups\<close> and \<open>idempotency_records\<close>. A reply is the account's ID, in
  place of its view; \<open>request\<close> is the text an idempotency fingerprint is taken of.

  Parameters: \<open>parse_url\<close> is \<open>url.Parse\<close>; \<open>resolve\<close> is the lookup of a host name with the address policy, and
  says whether the address is private or a loopback; \<open>zones\<close> says which time zones exist; \<open>open_group\<close> gives the
  platform of a group that takes accounts (it is not deleted, of type standard and does not require OAuth).
  \<open>now\<close> is an instant.
\<close>

record account_input =
  ai_name :: "string option"
  ai_platform :: "string option"
  ai_type :: "string option"
  ai_notes :: "string option"
  ai_status :: "string option"
  ai_credentials :: "fields option"
  ai_extra :: "fields option"
  ai_proxy :: "int option"
  ai_concurrency :: "int option"
  ai_priority :: "int option"
  ai_rate :: "json_number option"
  ai_load_factor :: "int option"
  ai_groups :: "int list option"
  ai_expires :: "int option"
  ai_auto_pause :: "bool option"
  ai_probe :: "bool option"
  ai_rate_sync :: "bool option"

record account_row =
  ac_id :: int
  ac_name :: string
  ac_platform :: string
  ac_type :: string
  ac_credentials :: fields
  ac_extra :: fields
  ac_proxy :: "int option"
  ac_origin :: "int option"
  ac_concurrency :: int
  ac_priority :: int
  ac_rate :: json_number
  ac_status :: string
  ac_notes :: string
  ac_expires :: "instant option"
  ac_auto_pause :: bool
  ac_load_factor :: "int option"
  ac_schedulable :: bool
  ac_deleted :: bool
  ac_rate_limited :: "instant option"
  ac_rate_reset :: "instant option"
  ac_overload :: "instant option"
  ac_temp_until :: "instant option"
  ac_temp_reason :: "string option"
  ac_error :: "string option"
  ac_last_used :: "instant option"

record account_db =
  ad_accounts :: "account_row list"
  ad_groups :: "(int \<times> int \<times> int) list"
  ad_plans :: "(int \<times> bool) list"
  ad_next :: int
  ad_records :: "int idem_table"

definition upstream_of :: "account_row \<Rightarrow> upstream_account" where
  "upstream_of r = \<lparr>ua_id = ac_id r, ua_platform = ac_platform r, ua_type = ac_type r,
     ua_credentials = ac_credentials r, ua_extra = ac_extra r\<rparr>"


section \<open>URLs\<close>

record url =
  url_scheme :: string
  url_host :: string
  url_port :: string
  url_path :: string
  url_user :: bool
  url_query :: string
  url_fragment :: string
  url_opaque :: string

definition parse_upstream_url :: "(string \<Rightarrow> url option) \<Rightarrow> string \<Rightarrow> url result" where
  "parse_upstream_url parse_url raw = (case parse_url raw of
     None \<Rightarrow> Inl (bad ''invalid upstream URL'')
   | Some u \<Rightarrow>
       (if url_host u = [] \<or> url_scheme u \<noteq> ''https'' \<and> url_scheme u \<noteq> ''http'' \<or> url_user u \<or>
           url_query u \<noteq> [] \<or> url_fragment u \<noteq> [] \<or> url_opaque u \<noteq> []
          then Inl (bad ''invalid upstream URL'')
        else if url_port u \<noteq> [] \<and>
            (\<not> list_all is_digit (url_port u) \<or> text_nat (url_port u) < 1 \<or> 65535 < text_nat (url_port u))
          then Inl (bad ''invalid upstream port'')
        else if contains (url_path u) ''..'' \<or> contains_any raw [CHR 0x0D, CHR 0x0A, CHR 0x5C]
          then Inl (bad ''invalid upstream path'')
        else Inr u))"

definition validate_upstream ::
  "(string \<Rightarrow> url option) \<Rightarrow> (string \<Rightarrow> bool result) \<Rightarrow> string \<Rightarrow> unit result" where
  "validate_upstream parse_url resolve raw =
     and_then (parse_upstream_url parse_url raw) (\<lambda>u.
     and_then (resolve (url_host u)) (\<lambda>inner.
       if url_scheme u = ''http'' \<and> \<not> inner then Inl (bad ''public upstreams require HTTPS'') else Inr ()))"

text \<open>\<open>proxyURL\<close>: what can fail before the address is used.\<close>

definition proxy_url_ok :: "(string \<Rightarrow> bool result) \<Rightarrow> proxy \<Rightarrow> unit result" where
  "proxy_url_ok resolve p =
     (if \<not> List.member [''http'', ''https'', ''socks5'', ''socks5h''] (px_protocol p)
        then Inl (bad ''unsupported proxy protocol'')
      else and_then (resolve (px_host p)) (\<lambda>_. Inr ()))"


section \<open>Validation\<close>

definition billing_enabled :: string where
  "billing_enabled = ''upstream_billing_probe_enabled''"

definition billing_sync :: string where
  "billing_sync = ''upstream_billing_rate_sync_enabled''"

text \<open>One switch: the value of the settings and of its own field must agree.\<close>

definition billing_switch :: "bool \<Rightarrow> fields option \<Rightarrow> string \<Rightarrow> bool option \<Rightarrow> bool option result" where
  "billing_switch create extra key flag = (case (case extra of None \<Rightarrow> None | Some m \<Rightarrow> assoc m key) of
     None \<Rightarrow> Inr flag
   | Some raw \<Rightarrow> (case as_bool (Some raw) of
       None \<Rightarrow> Inl (bad ''invalid or conflicting billing probe switch'')
     | Some enabled \<Rightarrow>
         (if create \<or> raw = JNull \<or> flag \<noteq> None \<and> flag \<noteq> Some enabled
          then Inl (bad ''invalid or conflicting billing probe switch'') else Inr (Some enabled))))"

definition store_switch :: "string \<Rightarrow> bool option \<Rightarrow> fields option \<Rightarrow> fields option" where
  "store_switch key flag extra = (case flag of
     None \<Rightarrow> extra
   | Some b \<Rightarrow> Some (put key (JBool b) (case extra of None \<Rightarrow> [] | Some m \<Rightarrow> m)))"

definition normalize_billing_flags :: "bool \<Rightarrow> account_input \<Rightarrow> account_input result" where
  "normalize_billing_flags create inp =
     and_then (billing_switch create (ai_extra inp) billing_enabled (ai_probe inp)) (\<lambda>probe.
     and_then (billing_switch create (ai_extra inp) billing_sync (ai_rate_sync inp)) (\<lambda>sync.
       if create \<and> sync = Some True then Inl (bad ''enable rate sync after creating the account'')
       else if sync = Some True \<and> probe = Some False then Inl (bad ''billing rate sync requires billing probes'')
       else (let probe = (if sync = Some True then Some True else probe);
                 sync = (if probe = Some False then Some False else sync) in
         Inr (inp\<lparr>ai_probe := probe, ai_rate_sync := sync,
           ai_extra := store_switch billing_sync sync (store_switch billing_enabled probe (ai_extra inp))\<rparr>))))"

definition valid_mapping_entry :: "string \<times> string \<Rightarrow> bool" where
  "valid_mapping_entry e \<longleftrightarrow> fst e \<noteq> [] \<and> length (fst e) \<le> 200 \<and> length (snd e) \<le> 200 \<and>
     \<not> contains_any (fst e @ snd e) [CHR 0x0D, CHR 0x0A]"

definition validate_account_mapping :: "json \<Rightarrow> string \<Rightarrow> unit result" where
  "validate_account_mapping raw field = (case as_map as_string (Some raw) of
     Some (Some mapping) \<Rightarrow>
       (if 10000 < length mapping then Inl (bad (''invalid '' @ field))
        else check (list_all valid_mapping_entry mapping) (bad (''invalid '' @ field @ '' entry'')))
   | _ \<Rightarrow> Inl (bad (''invalid '' @ field)))"

text \<open>One credential: the value to store. \<open>text\<close> is \<open>credentialString\<close> of the value.\<close>

definition check_credential :: "(string \<Rightarrow> url option) \<Rightarrow> string \<times> json \<Rightarrow> json result" where
  "check_credential parse_url entry = (case entry of (key, raw) \<Rightarrow>
     let s = as_string (Some raw); text = (case s of None \<Rightarrow> [] | Some t \<Rightarrow> t) in
     if key = ''tier_id'' then
       (if raw = JNull \<or> s = None \<or> \<not> List.member [[], ''aistudio_free'', ''aistudio_paid''] text
        then Inl (bad ''unsupported API key quota tier'') else Inr raw)
     else if key = ''openai_capabilities'' then and_then (openai_capabilities (Some raw)) (\<lambda>_. Inr raw)
     else if key = ''api_key'' then
       (if s = None \<or> text = [] \<or> 8192 < length text \<or> contains_any text [CHR 0x0D, CHR 0x0A]
        then Inl (bad ''invalid upstream API key'') else Inr raw)
     else if key = ''base_url'' then
       (if s = None then Inl (bad ''invalid base_url'')
        else if text \<noteq> [] then and_then (parse_upstream_url parse_url text) (\<lambda>_. Inr raw) else Inr raw)
     else if key = ''account_mode'' then
       (if text \<noteq> ''payg'' then Inl (bad ''only pay-as-you-go accounts are supported'') else Inr raw)
     else if key = ''api_protocol'' then
       (if \<not> List.member [''chat_completions'', ''responses'', ''anthropic''] text
        then Inl (bad ''unsupported API protocol'') else Inr raw)
     else if key = ''model_mapping'' \<or> key = ''compact_model_mapping'' then
       and_then (validate_account_mapping raw key) (\<lambda>_. Inr raw)
     else if key = ''header_override_enabled'' then
       (if as_bool (Some raw) = None then Inl (bad ''header_override_enabled must be a boolean'') else Inr raw)
     else if key = ''header_overrides'' then normalize_header_overrides raw
     else Inl (bad (''unsupported credential field: '' @ key)))"

definition web_search_feature :: string where
  "web_search_feature = ''web_search_emulation''"

definition request_id_header_key :: string where
  "request_id_header_key = ''upstream_request_id_header''"

text \<open>One setting: the value to store, \<open>None\<close> when the entry is dropped.\<close>

definition check_setting :: "(string \<Rightarrow> bool) \<Rightarrow> bool \<Rightarrow> string \<times> json \<Rightarrow> json option result" where
  "check_setting zones create entry = (case entry of (key, raw) \<Rightarrow>
     let s = as_string (Some raw); text = (case s of None \<Rightarrow> [] | Some t \<Rightarrow> t); keep = Inr (Some raw) in
     if key = request_id_header_key then
       (case s of
          None \<Rightarrow> Inl (bad ''upstream_request_id_header must be a string'')
        | Some name \<Rightarrow>
            (let name = trim_space name in
             if name \<noteq> [] \<and> \<not> valid_request_id_header name then Inl (bad ''invalid upstream_request_id_header'')
             else if name \<noteq> [] then Inr (Some (JStr name))
             else Inr (if create then None else Some JNull)))
     else if List.member resource_keys key then and_then (parse_resource_grants (Some raw)) (\<lambda>_. keep)
     else if key = web_search_feature then
       (if raw \<noteq> JBool True \<and> raw \<noteq> JBool False \<and>
           (s = None \<or> \<not> List.member [''default'', ''enabled'', ''disabled''] text)
        then Inl (bad ''invalid web_search_emulation mode'') else keep)
     else if key = billing_enabled \<or> key = billing_sync then
       (if raw = JNull \<or> as_bool (Some raw) = None then Inl (bad ''invalid billing probe switch'') else keep)
     else if List.member (socket_flags @ [''openai_ws_force_http'']) key then
       (if raw = JNull \<or> as_bool (Some raw) = None then Inl (bad ''invalid WebSocket setting'') else keep)
     else if key = ''openai_apikey_responses_websockets_v2_mode'' then
       (if \<not> List.member [''off'', ''passthrough'', ''http_bridge''] text
        then Inl (bad ''supported WebSocket modes are off, passthrough and http_bridge'') else keep)
     else if key = ''quota_daily_reset_mode'' \<or> key = ''quota_weekly_reset_mode'' then
       (if text \<noteq> ''rolling'' \<and> text \<noteq> ''fixed'' then Inl (bad ''invalid quota reset mode'') else keep)
     else if key = ''quota_reset_timezone'' then
       (if text = [] \<or> text = ''Local'' \<or> \<not> zones text then Inl (bad ''invalid quota timezone'') else keep)
     else if List.member [''quota_daily_reset_hour'', ''quota_weekly_reset_hour'', ''quota_weekly_reset_day''] key then
       (case as_int raw of
          None \<Rightarrow> Inl (bad ''invalid quota reset schedule'')
        | Some n \<Rightarrow> if n < 0 \<or> 23 < n \<or> key = ''quota_weekly_reset_day'' \<and> 6 < n
                     then Inl (bad ''invalid quota reset schedule'') else keep)
     else if List.member [''quota_limit'', ''quota_daily_limit'', ''quota_weekly_limit''] key then
       (case as_number raw of
          None \<Rightarrow> Inl (bad ''invalid account quota'')
        | Some n \<Rightarrow> if valid_decimal n 12 8 then keep else Inl (bad ''invalid account quota''))
     else Inl (bad (''unsupported account setting: '' @ key)))"

definition check_credentials :: "(string \<Rightarrow> url option) \<Rightarrow> fields \<Rightarrow> fields result" where
  "check_credentials parse_url creds = each_with (\<lambda>done entry.
     and_then (check_credential parse_url entry) (\<lambda>v. Inr (done @ [(fst entry, v)]))) [] creds"

definition check_settings :: "(string \<Rightarrow> bool) \<Rightarrow> bool \<Rightarrow> fields \<Rightarrow> fields result" where
  "check_settings zones create extra = each_with (\<lambda>done entry.
     and_then (check_setting zones create entry) (\<lambda>v.
       Inr (done @ (case v of None \<Rightarrow> [] | Some x \<Rightarrow> [(fst entry, x)])))) [] extra"

definition opt_ok :: "('a \<Rightarrow> bool) \<Rightarrow> 'a option \<Rightarrow> bool" where
  "opt_ok P v = (case v of None \<Rightarrow> True | Some x \<Rightarrow> P x)"

definition check_fields :: "bool \<Rightarrow> account_input \<Rightarrow> unit result" where
  "check_fields create inp =
     (if create \<and> (ai_name inp = None \<or> ai_platform inp = None \<or> ai_type inp = None \<or> ai_credentials inp = None)
        then Inl (bad ''name, platform, type and credentials are required'')
      else if \<not> opt_ok (\<lambda>n. trim_space n \<noteq> [] \<and> rune_count n \<le> 100) (ai_name inp) then Inl (bad ''invalid account name'')
      else if \<not> opt_ok supported_platform (ai_platform inp) then Inl (bad ''unsupported platform'')
      else if \<not> opt_ok (\<lambda>t. t = ''apikey'') (ai_type inp) then Inl (bad ''only API key accounts are supported'')
      else if \<not> opt_ok (List.member [''active'', ''inactive'', ''error'']) (ai_status inp)
        then Inl (bad ''invalid account status'')
      else if \<not> opt_ok (\<lambda>n. 1 \<le> n \<and> n \<le> 10000) (ai_concurrency inp) then Inl (bad ''invalid concurrency'')
      else if \<not> opt_ok (\<lambda>n. 0 \<le> n \<and> n \<le> 1000000) (ai_priority inp) then Inl (bad ''invalid priority'')
      else if \<not> opt_ok (\<lambda>n. n \<le> 10000) (ai_load_factor inp) then Inl (bad ''invalid load_factor'')
      else if \<not> opt_ok (\<lambda>n. 0 \<le> n) (ai_proxy inp) then Inl (bad ''invalid proxy_id'')
      else if \<not> opt_ok (\<lambda>n. valid_decimal n 6 4) (ai_rate inp) then Inl (bad ''invalid rate_multiplier'')
      else if \<not> opt_ok (\<lambda>n. 0 \<le> n \<and> n \<le> 253402300799) (ai_expires inp) then Inl (bad ''invalid expiry'')
      else Inr ())"

definition validate_account ::
  "(string \<Rightarrow> url option) \<Rightarrow> (string \<Rightarrow> bool) \<Rightarrow> bool \<Rightarrow> account_input \<Rightarrow> account_input result" where
  "validate_account parse_url zones create inp0 =
     and_then (normalize_billing_flags create inp0) (\<lambda>inp.
     and_then (check_fields create inp) (\<lambda>_.
     and_then (check_credentials parse_url (case ai_credentials inp of None \<Rightarrow> [] | Some m \<Rightarrow> m)) (\<lambda>creds.
     and_then (check_settings zones create (case ai_extra inp of None \<Rightarrow> [] | Some m \<Rightarrow> m)) (\<lambda>extra.
       Inr (inp\<lparr>ai_credentials := map_option (\<lambda>_. creds) (ai_credentials inp),
                ai_extra := map_option (\<lambda>_. extra) (ai_extra inp)\<rparr>)))))"

text \<open>The settings that need a platform.\<close>

definition check_platform_fields :: "string \<Rightarrow> account_input \<Rightarrow> unit result" where
  "check_platform_fields platform inp =
     (let has = (\<lambda>m key. case m of None \<Rightarrow> False | Some kvs \<Rightarrow> assoc kvs key \<noteq> None) in
      if platform \<noteq> ''anthropic'' \<and> has (ai_extra inp) web_search_feature
        then Inl (bad ''web_search_emulation requires an Anthropic account'')
      else check (\<not> (platform \<noteq> ''gemini'' \<and> has (ai_credentials inp) ''tier_id''))
        (bad ''tier_id requires a Gemini account''))"

definition validate_proxy_assignment :: "proxy list \<Rightarrow> int option \<Rightarrow> unit result" where
  "validate_proxy_assignment proxies target = (case target of
     None \<Rightarrow> Inr ()
   | Some i \<Rightarrow>
       (if i = 0 then Inr ()
        else check (list_ex (\<lambda>p. px_id p = i \<and> \<not> px_deleted p \<and> px_status p = ''active'') proxies)
          (bad ''proxy is unavailable'')))"

text \<open>The groups of an account: the old rows go, a repeated group is ignored.\<close>

definition set_account_groups ::
  "(int \<Rightarrow> string option) \<Rightarrow> (int \<times> int \<times> int) list \<Rightarrow> int \<Rightarrow> string \<Rightarrow> int list \<Rightarrow> int \<Rightarrow>
   (int \<times> int \<times> int) list result" where
  "set_account_groups open_group rows i platform gids priority =
     (if 1000 < length gids then Inl (bad ''too many groups'')
      else each_with (\<lambda>rows gid.
        if open_group gid \<noteq> Some platform \<and> open_group gid \<noteq> Some ''composite''
          then Inl (bad ''account and group platforms must match'')
        else if list_ex (\<lambda>r. fst r = i \<and> fst (snd r) = gid) rows then Inr rows
        else Inr (rows @ [(i, gid, priority)])) (filter (\<lambda>r. fst r \<noteq> i) rows) gids)"

definition positive_or_none :: "int option \<Rightarrow> int option" where
  "positive_or_none v = (case v of None \<Rightarrow> None | Some n \<Rightarrow> if 0 < n then Some n else None)"

definition expiry_of :: "int option \<Rightarrow> instant option" where
  "expiry_of v = map_option (\<lambda>n. n * second) (positive_or_none v)"


section \<open>Creation, update and deletion\<close>

text \<open>Everything a handler reads besides the tables of accounts.\<close>

record account_env =
  ae_digest :: "string \<Rightarrow> string"
  ae_marshal :: "headers \<Rightarrow> string"
  ae_parse :: "string \<Rightarrow> url option"
  ae_resolve :: "string \<Rightarrow> bool result"
  ae_zones :: "string \<Rightarrow> bool"
  ae_open_group :: "int \<Rightarrow> string option"
  ae_proxies :: "proxy list"
  ae_now :: int
  ae_clock :: instant

definition target_of :: "account_env \<Rightarrow> upstream_account \<Rightarrow> string" where
  "target_of env u = response_target (ae_digest env) (ae_marshal env) u"

definition bind_grants :: "account_env \<Rightarrow> upstream_account \<Rightarrow> account_input \<Rightarrow> account_input result" where
  "bind_grants env u inp = (case ai_extra inp of
     None \<Rightarrow> Inr inp
   | Some extra \<Rightarrow> and_then (bind_resource_grants (ae_digest env) (ae_marshal env) u extra)
       (\<lambda>extra. Inr (inp\<lparr>ai_extra := Some extra\<rparr>)))"

definition check_proxy :: "account_env \<Rightarrow> int option \<Rightarrow> unit result" where
  "check_proxy env target = (case positive_or_none target of
     None \<Rightarrow> Inr ()
   | Some i \<Rightarrow> and_then (resolve_proxy (ae_proxies env) i (ae_now env)) (\<lambda>p. case p of
       None \<Rightarrow> Inr () | Some p \<Rightarrow> proxy_url_ok (ae_resolve env) p))"

definition check_base :: "account_env \<Rightarrow> upstream_account \<Rightarrow> unit result" where
  "check_base env u = and_then (base_url u) (validate_upstream (ae_parse env) (ae_resolve env))"

definition new_account :: "int \<Rightarrow> account_input \<Rightarrow> account_row" where
  "new_account i inp =
     \<lparr>ac_id = i, ac_name = given (ai_name inp) [], ac_platform = given (ai_platform inp) [],
      ac_type = ''apikey'', ac_credentials = given (ai_credentials inp) [], ac_extra = given (ai_extra inp) [],
      ac_proxy = positive_or_none (ai_proxy inp), ac_origin = None, ac_concurrency = given (ai_concurrency inp) 3,
      ac_priority = given (ai_priority inp) 50, ac_rate = given (ai_rate inp) ''1'',
      ac_status = given (ai_status inp) ''active'', ac_notes = given (ai_notes inp) [],
      ac_expires = expiry_of (ai_expires inp), ac_auto_pause = given (ai_auto_pause inp) True,
      ac_load_factor = positive_or_none (ai_load_factor inp), ac_schedulable = True, ac_deleted = False,
      ac_rate_limited = None, ac_rate_reset = None, ac_overload = None, ac_temp_until = None,
      ac_temp_reason = None, ac_error = None, ac_last_used = None\<rparr>"

definition assign_groups ::
  "account_env \<Rightarrow> account_db \<Rightarrow> int \<Rightarrow> string \<Rightarrow> int list option \<Rightarrow> int \<Rightarrow> account_db result" where
  "assign_groups env db i platform gids priority = (case gids of
     None \<Rightarrow> Inr db
   | Some gids \<Rightarrow> and_then (set_account_groups (ae_open_group env) (ad_groups db) i platform gids priority)
       (\<lambda>rows. Inr (db\<lparr>ad_groups := rows\<rparr>)))"

definition insert_account :: "account_env \<Rightarrow> account_db \<Rightarrow> account_input \<Rightarrow> account_db result" where
  "insert_account env db inp =
     (let row = new_account (ad_next db) inp in
      assign_groups env (db\<lparr>ad_accounts := ad_accounts db @ [row], ad_next := ad_next db + 1\<rparr>)
        (ad_next db) (ac_platform row) (ai_groups inp) (ac_priority row))"

definition create_account ::
  "account_env \<Rightarrow> account_db \<Rightarrow> string list \<Rightarrow> string \<Rightarrow> account_input \<Rightarrow> (account_db \<times> int) result" where
  "create_account env db headers request inp0 =
     and_then (validate_account (ae_parse env) (ae_zones env) True inp0) (\<lambda>inp.
     if credential_string (given (ai_credentials inp) []) ''api_key'' = []
       then Inl (bad ''credentials.api_key is required'')
     else (let platform = given (ai_platform inp) [];
               u = \<lparr>ua_id = 0, ua_platform = platform, ua_type = ''apikey'',
                    ua_credentials = given (ai_credentials inp) [], ua_extra = []\<rparr> in
       and_then (bind_grants env u inp) (\<lambda>inp.
       and_then (check_platform_fields platform inp) (\<lambda>_.
       and_then (write_idempotency (ae_digest env) (ae_clock env) (ad_records db) headers ''admin.accounts.create'' request)
         (\<lambda>c. case c of Written i \<Rightarrow> Inr (db, i) | _ \<Rightarrow>
       and_then (check_base env u) (\<lambda>_.
       and_then (check_proxy env (ai_proxy inp)) (\<lambda>_.
       and_then (validate_proxy_assignment (ae_proxies env) (ai_proxy inp)) (\<lambda>_.
       and_then (insert_account env db inp) (\<lambda>db'.
         Inr (db'\<lparr>ad_records := finish_write (ae_clock env) (ad_records db) c (ad_next db)\<rparr>, ad_next db))))))))))"

definition find_account :: "account_db \<Rightarrow> int \<Rightarrow> account_row option" where
  "find_account db i = find (\<lambda>r. ac_id r = i \<and> \<not> ac_deleted r) (ad_accounts db)"

definition load_account :: "account_db \<Rightarrow> int \<Rightarrow> account_row result" where
  "load_account db i = (case find_account db i of
     None \<Rightarrow> Inl missing
   | Some r \<Rightarrow> and_then (check_account (upstream_of r)) (\<lambda>_. Inr r))"

definition snapshot_keys :: "string list" where
  "snapshot_keys = [''upstream_model_metadata'', ''upstream_billing_probe'', ''grok_usage_snapshot'']"

definition remove_keys :: "string list \<Rightarrow> fields \<Rightarrow> fields" where
  "remove_keys keys m = foldl (\<lambda>m k. remove k m) m keys"

text \<open>The stored settings after an update; \<open>moved\<close> says that the target or the proxy changed.\<close>

definition updated_extra :: "bool \<Rightarrow> fields \<Rightarrow> fields option \<Rightarrow> fields" where
  "updated_extra moved stored submitted =
     (let extra = (case submitted of
            None \<Rightarrow> stored
          | Some m \<Rightarrow> (let merged = merge_extra stored m in
              if assoc m request_id_header_key = Some JNull then remove request_id_header_key merged else merged))
      in if moved then remove_keys snapshot_keys extra else extra)"

definition updated_row :: "account_row \<Rightarrow> account_input \<Rightarrow> bool \<Rightarrow> account_row" where
  "updated_row r inp moved =
     r\<lparr>ac_name := given (ai_name inp) (ac_name r), ac_notes := given (ai_notes inp) (ac_notes r),
       ac_status := given (ai_status inp) (ac_status r),
       ac_concurrency := given (ai_concurrency inp) (ac_concurrency r),
       ac_priority := given (ai_priority inp) (ac_priority r), ac_rate := given (ai_rate inp) (ac_rate r),
       ac_load_factor := (if ai_load_factor inp = None then ac_load_factor r else positive_or_none (ai_load_factor inp)),
       ac_auto_pause := given (ai_auto_pause inp) (ac_auto_pause r),
       ac_proxy := (if ai_proxy inp = None then ac_proxy r else positive_or_none (ai_proxy inp)),
       ac_origin := (if ai_proxy inp = None then ac_origin r else None),
       ac_expires := (if ai_expires inp = None then ac_expires r else expiry_of (ai_expires inp)),
       ac_credentials := merge_extra (ac_credentials r) (given (ai_credentials inp) []),
       ac_extra := updated_extra moved (ac_extra r) (ai_extra inp)\<rparr>"

definition replace_account :: "account_row \<Rightarrow> account_row list \<Rightarrow> account_row list" where
  "replace_account r rows = map (\<lambda>q. if ac_id q = ac_id r \<and> \<not> ac_deleted q then r else q) rows"

text \<open>A rate cannot be set by hand while it is taken from the upstream.\<close>

definition rate_locked :: "account_row \<Rightarrow> account_input \<Rightarrow> bool" where
  "rate_locked r inp \<longleftrightarrow> ai_rate inp \<noteq> None \<and>
     (let flags = merge_extra (ac_extra r) (given (ai_extra inp) []) in
      credential_bool flags billing_enabled \<and> credential_bool flags billing_sync)"

definition update_account :: "account_env \<Rightarrow> account_db \<Rightarrow> int \<Rightarrow> account_input \<Rightarrow> account_db result" where
  "update_account env db i inp0 =
     and_then (validate_account (ae_parse env) (ae_zones env) False inp0) (\<lambda>inp.
     and_then (load_account db i) (\<lambda>r.
     if given (ai_platform inp) (ac_platform r) \<noteq> ac_platform r then Inl (bad ''account platform is immutable'')
     else and_then (check_platform_fields (ac_platform r) inp) (\<lambda>_.
       (let u = upstream_of r;
            u' = u\<lparr>ua_credentials := merge_extra (ua_credentials u) (given (ai_credentials inp) [])\<rparr> in
        and_then (bind_grants env u' inp) (\<lambda>inp.
        and_then (if given (ai_credentials inp) [] = [] then Inr () else check_base env u') (\<lambda>_.
        and_then (check_proxy env (ai_proxy inp)) (\<lambda>_.
        and_then (validate_proxy_assignment (ae_proxies env) (ai_proxy inp)) (\<lambda>_.
        if rate_locked r inp
          then Inl (conflict ''disable upstream billing rate sync before changing the account multiplier'')
        else (let row = updated_row r inp (target_of env u \<noteq> target_of env u' \<or> ai_proxy inp \<noteq> None) in
          assign_groups env (db\<lparr>ad_accounts := replace_account row (ad_accounts db)\<rparr>) i (ac_platform r)
            (ai_groups inp) (ac_priority row))))))))))"

definition delete_account :: "account_db \<Rightarrow> int \<Rightarrow> account_db result" where
  "delete_account db i = (case find_account db i of
     None \<Rightarrow> Inl missing
   | Some r \<Rightarrow> Inr (db\<lparr>
       ad_accounts := replace_account (r\<lparr>ac_deleted := True, ac_status := ''inactive'', ac_schedulable := False\<rparr>)
         (ad_accounts db),
       ad_plans := map (\<lambda>p. if fst p = i then (i, False) else p) (ad_plans db),
       ad_groups := filter (\<lambda>g. fst g \<noteq> i) (ad_groups db)\<rparr>))"


section \<open>States\<close>

datatype state_change =
    Set_schedulable "bool option"
  | Clear_temporary
  | Clear_rate_limit
  | Reset_quota
  | Clear_error
  | Recover

definition cleared_error :: "account_row \<Rightarrow> account_row" where
  "cleared_error r = r\<lparr>ac_status := (if ac_status r = ''error'' then ''active'' else ac_status r), ac_error := None\<rparr>"

definition cleared_limits :: "account_row \<Rightarrow> account_row" where
  "cleared_limits r = r\<lparr>ac_rate_limited := None, ac_rate_reset := None, ac_overload := None, ac_temp_until := None,
     ac_temp_reason := None, ac_extra := remove ''model_rate_limits'' (ac_extra r)\<rparr>"

definition reset_quota_extra :: "fields \<Rightarrow> fields" where
  "reset_quota_extra extra = remove_keys [''quota_daily_start'', ''quota_weekly_start'', ''quota_daily_reset_at'', ''quota_weekly_reset_at'']
     (merge_extra extra [(''quota_used'', JNum ''0''), (''quota_daily_used'', JNum ''0''), (''quota_weekly_used'', JNum ''0'')])"

fun changed_state :: "state_change \<Rightarrow> account_row \<Rightarrow> account_row" where
  "changed_state (Set_schedulable b) r = r\<lparr>ac_schedulable := given b (ac_schedulable r)\<rparr>"
| "changed_state Clear_temporary r =
     r\<lparr>ac_temp_until := None, ac_temp_reason := None, ac_extra := remove ''model_rate_limits'' (ac_extra r)\<rparr>"
| "changed_state Clear_rate_limit r = cleared_limits r"
| "changed_state Reset_quota r =
     r\<lparr>ac_extra := reset_quota_extra (ac_extra r), ac_rate_limited := None, ac_rate_reset := None\<rparr>"
| "changed_state Clear_error r = cleared_error r"
| "changed_state Recover r = cleared_limits (cleared_error r)"

definition account_state :: "account_db \<Rightarrow> int \<Rightarrow> state_change \<Rightarrow> account_db result" where
  "account_state db i change = and_then (load_account db i) (\<lambda>r.
     if change = Set_schedulable None then Inl (bad ''schedulable is required'')
     else Inr (db\<lparr>ad_accounts := replace_account (changed_state change r) (ad_accounts db)\<rparr>))"

end
