(* ===== verification/Account_Facts.thy ===== *)
theory Account_Facts
  imports Accounts
begin

text \<open>
  What the administration of accounts guarantees: every stored account can be loaded and stays within its
  limits, an override never reaches a protected header, and a change of the credentials takes back the
  resources that were granted under the old ones.
\<close>

section \<open>Protected headers\<close>

lemma lower_upper_char [simp]: "lower_char (upper_char c) = lower_char c"
proof -
  have "of_char c < (256::nat)" by simp
  then show ?thesis by (auto simp: upper_char_def lower_char_def Let_def of_char_of take_bit_eq_mod)
qed

lemma to_lower_canonical [simp]: "to_lower (canonical_header name) = to_lower name"
proof -
  have "to_lower (canonical_from start name) = to_lower name" for start
    by (induction name arbitrary: start) (simp_all add: to_lower_def)
  then show ?thesis by (simp add: canonical_header_def)
qed

lemma assoc_filter_other: "P (k, v) \<Longrightarrow> (\<And>v. P (k, v)) \<Longrightarrow> assoc (filter P m) k = assoc m k"
  by (induction m) auto

lemma normalized_not_blocked:
  assumes "normalize_header_override n v = Inr (name, val)" "name \<noteq> []"
  shows "name \<notin> set blocked_header_overrides \<and> to_lower name = name"
  using assms by (auto simp: normalize_header_override_def Let_def result_iff split: if_splits)

lemma override_header_other:
  assumes "to_lower k \<in> set blocked_header_overrides"
  shows "assoc (override_header headers entry) k = assoc headers k"
proof (cases "normalize_header_override (fst entry) (snd entry)")
  case (Inl e)
  then show ?thesis by (simp add: override_header_def)
next
  case (Inr nv)
  obtain name val where nv: "nv = (name, val)" by (cases nv)
  show ?thesis
  proof (cases "name = [] \<or> val = []")
    case True
    then show ?thesis using Inr nv by (simp add: override_header_def)
  next
    case False
    then have safe: "name \<notin> set blocked_header_overrides" "to_lower name = name"
      using normalized_not_blocked [OF Inr [unfolded nv]] by auto
    then have "to_lower k \<noteq> name" using assms by auto
    then have "\<not> equal_fold k name" "k \<noteq> canonical_header name" using safe(2) by (auto simp: equal_fold_def)
    then show ?thesis using Inr nv False by (simp add: override_header_def assoc_put assoc_filter_other)
  qed
qed

text \<open>Property C36: The header overrides of an account never set, replace or remove a protected
  header, such as the authorization of the upstream, the host or a cookie, whatever name the override
  is written with.\<close>
theorem overrides_keep_protected_headers:
  assumes "to_lower k \<in> set blocked_header_overrides"
  shows "assoc (apply_header_overrides headers u) k = assoc headers k"
proof -
  have "assoc (foldl override_header headers overrides) k = assoc headers k" for overrides
    by (induction overrides arbitrary: headers) (simp_all add: override_header_other [OF assms])
  then show ?thesis by (simp add: apply_header_overrides_def split: option.split)
qed

section \<open>The tables\<close>

definition credential_ok :: "(string \<Rightarrow> url option) \<Rightarrow> fields \<Rightarrow> bool" where
  "credential_ok parse_url m \<longleftrightarrow> credential_string m ''api_key'' \<noteq> [] \<and>
     (\<forall>k v. assoc m k = Some v \<longrightarrow> (\<exists>v0. check_credential parse_url (k, v0) = Inr v))"

definition account_ok :: "(string \<Rightarrow> url option) \<Rightarrow> account_row \<Rightarrow> bool" where
  "account_ok parse_url r \<longleftrightarrow> supported_platform (ac_platform r) \<and> ac_type r = ''apikey'' \<and>
     1 \<le> ac_concurrency r \<and> ac_concurrency r \<le> 10000 \<and>
     0 \<le> ac_priority r \<and> ac_priority r \<le> 1000000 \<and> valid_decimal (ac_rate r) 6 4 \<and>
     opt_ok (\<lambda>n. 1 \<le> n \<and> n \<le> 10000) (ac_load_factor r) \<and> (ac_deleted r \<longrightarrow> \<not> ac_schedulable r) \<and>
     credential_ok parse_url (ac_credentials r)"

definition group_ok :: "account_env \<Rightarrow> account_db \<Rightarrow> int \<times> int \<times> int \<Rightarrow> bool" where
  "group_ok env db g \<longleftrightarrow> (\<exists>r. find_account db (fst g) = Some r \<and>
     ae_open_group env (fst (snd g)) \<in> {Some (ac_platform r), Some ''composite''})"

definition accounts_ok :: "account_env \<Rightarrow> account_db \<Rightarrow> bool" where
  "accounts_ok env db \<longleftrightarrow> distinct (map ac_id (ad_accounts db)) \<and>
     (\<forall>r \<in> set (ad_accounts db). ac_id r < ad_next db \<and> account_ok (ae_parse env) r) \<and>
     (\<forall>g \<in> set (ad_groups db). group_ok env db g)"

lemma check_credentialsD:
  assumes "check_credentials parse_url creds = Inr creds'" "(k, v) \<in> set creds'"
  shows "\<exists>v0. check_credential parse_url (k, v0) = Inr v"
proof -
  have "\<forall>k v. (k, v) \<in> set creds' \<longrightarrow> (\<exists>v0. check_credential parse_url (k, v0) = Inr v)"
  proof (rule each_with_invariant [OF assms(1) [unfolded check_credentials_def]])
    fix s x s'
    assume ih: "\<forall>k v. (k, v) \<in> set s \<longrightarrow> (\<exists>v0. check_credential parse_url (k, v0) = Inr v)"
      and step: "and_then (check_credential parse_url x) (\<lambda>v. Inr (s @ [(fst x, v)])) = Inr s'"
    obtain w where "check_credential parse_url (fst x, snd x) = Inr w" "s' = s @ [(fst x, w)]"
      using step by (auto simp: result_iff)
    with ih show "\<forall>k v. (k, v) \<in> set s' \<longrightarrow> (\<exists>v0. check_credential parse_url (k, v0) = Inr v)"
      by (cases x) auto
  qed simp
  with assms(2) show ?thesis by blast
qed

lemma checked_api_key: "check_credential parse_url (''api_key'', v0) = Inr v \<Longrightarrow> \<exists>s. as_string (Some v) = Some s \<and> s \<noteq> []"
  by (auto simp: check_credential_def Let_def split: if_splits)

lemma assoc_merge_extra:
  "assoc (merge_extra m delta) k = (case assoc (rev delta) k of None \<Rightarrow> assoc m k | Some v \<Rightarrow> Some v)"
proof (induction delta arbitrary: m)
  case Nil
  then show ?case by (simp add: merge_extra_def)
next
  case (Cons e delta)
  obtain k' v' where e: "e = (k', v')" by (cases e)
  have append: "assoc (xs @ ys) k = (case assoc xs k of None \<Rightarrow> assoc ys k | Some v \<Rightarrow> Some v)" for xs ys :: fields
    by (induction xs) auto
  have "merge_extra m (e # delta) = merge_extra (put k' v' m) delta" by (simp add: merge_extra_def e)
  then show ?case by (simp add: Cons.IH e append assoc_put split: option.split)
qed

lemma assoc_rev_SomeD: "assoc (rev delta) k = Some v \<Longrightarrow> (k, v) \<in> set delta"
  by (simp add: assoc_eq_map_of) (metis map_of_SomeD set_rev)

lemma merged_credentials_ok:
  assumes "credential_ok parse_url m" "check_credentials parse_url creds = Inr creds'"
  shows "credential_ok parse_url (merge_extra m creds')"
proof -
  have entry: "\<exists>v0. check_credential parse_url (k, v0) = Inr v" if "assoc (merge_extra m creds') k = Some v" for k v
    using that assms(1) check_credentialsD [OF assms(2) assoc_rev_SomeD]
    by (auto simp: assoc_merge_extra credential_ok_def split: option.splits)
  obtain s0 where "as_string (assoc m ''api_key'') = Some s0" "s0 \<noteq> []"
    using assms(1) by (auto simp: credential_ok_def credential_string_def split: option.splits)
  then have "\<exists>v. assoc (merge_extra m creds') ''api_key'' = Some v"
    by (cases "assoc m ''api_key''") (auto simp: assoc_merge_extra split: option.splits)
  then obtain v where v: "assoc (merge_extra m creds') ''api_key'' = Some v" by blast
  then have "\<exists>s. as_string (Some v) = Some s \<and> s \<noteq> []" using entry [OF v] checked_api_key by blast
  with v entry show ?thesis by (auto simp: credential_ok_def credential_string_def)
qed

lemma checked_modes:
  assumes "credential_ok parse_url m"
  shows "credential_string m ''account_mode'' = [] \<or> credential_string m ''account_mode'' = ''payg''"
proof (cases "assoc m ''account_mode''")
  case (Some v)
  with assms obtain v0 where "check_credential parse_url (''account_mode'', v0) = Inr v"
    by (auto simp: credential_ok_def)
  with Some show ?thesis
    by (auto simp: check_credential_def credential_string_def Let_def split: if_splits option.splits)
qed (simp add: credential_string_def)

lemma account_loads:
  assumes "account_ok parse_url r"
  shows "check_account (upstream_of r) = Inr (upstream_of r)"
  using assms checked_modes [of parse_url "ac_credentials r"]
  by (auto simp: account_ok_def check_account_def upstream_of_def Let_def credential_ok_def)

lemma check_fields_documents:
  "check_fields create (inp\<lparr>ai_credentials := map_option f (ai_credentials inp), ai_extra := e\<rparr>) = check_fields create inp"
  by (cases inp) (simp only: check_fields_def account_input.simps option.map_disc_iff)

lemma check_fields_extra: "check_fields create (inp\<lparr>ai_extra := e\<rparr>) = check_fields create inp"
  by (cases inp) (simp only: check_fields_def account_input.simps)

lemma validate_accountD:
  assumes "validate_account parse_url zones create inp0 = Inr inp"
  shows "check_fields create inp = Inr ()"
    and "\<exists>creds. check_credentials parse_url creds = Inr (given (ai_credentials inp) [])"
    and "\<exists>extra. check_settings zones create extra = Inr (given (ai_extra inp) [])"
proof -
  obtain flags creds extra where v: "normalize_billing_flags create inp0 = Inr flags" "check_fields create flags = Inr ()"
      "check_credentials parse_url (given (ai_credentials flags) []) = Inr creds"
      "check_settings zones create (given (ai_extra flags) []) = Inr extra"
      "inp = flags\<lparr>ai_credentials := map_option (\<lambda>_. creds) (ai_credentials flags), ai_extra := map_option (\<lambda>_. extra) (ai_extra flags)\<rparr>"
    using assms by (auto simp: validate_account_def given_def result_iff)
  have "check_fields create inp = check_fields create flags" unfolding v(5) by (rule check_fields_documents)
  then show "check_fields create inp = Inr ()" using v(2) by simp
  show "\<exists>creds. check_credentials parse_url creds = Inr (given (ai_credentials inp) [])"
    using v(3,5) by (cases "ai_credentials flags") (auto simp: given_def check_credentials_def intro: exI [of _ "[]"])
  show "\<exists>extra. check_settings zones create extra = Inr (given (ai_extra inp) [])"
    using v(4,5) by (cases "ai_extra flags") (auto simp: given_def check_settings_def intro: exI [of _ "[]"])
qed

lemma bind_grants_fields:
  assumes "bind_grants env u inp = Inr inp'"
  shows "inp' = inp\<lparr>ai_extra := ai_extra inp'\<rparr>"
  using assms by (auto simp: bind_grants_def result_iff split: option.splits)

lemma check_fieldsD:
  assumes "check_fields create inp = Inr ()"
  shows "opt_ok supported_platform (ai_platform inp)" "opt_ok (\<lambda>n. 1 \<le> n \<and> n \<le> 10000) (ai_concurrency inp)"
    "opt_ok (\<lambda>n. 0 \<le> n \<and> n \<le> 1000000) (ai_priority inp)" "opt_ok (\<lambda>n. n \<le> 10000) (ai_load_factor inp)"
    "opt_ok (\<lambda>n. valid_decimal n 6 4) (ai_rate inp)" "create \<Longrightarrow> ai_platform inp \<noteq> None"
  using assms by (auto simp: check_fields_def split: if_splits)

lemma created_ok:
  assumes "check_fields True inp = Inr ()" "check_credentials parse_url creds = Inr (given (ai_credentials inp) [])"
    and "credential_string (given (ai_credentials inp) []) ''api_key'' \<noteq> []"
  shows "account_ok parse_url (new_account i inp)"
proof -
  note d = check_fieldsD [OF assms(1)]
  have "valid_decimal ''1'' 6 4" by code_simp
  moreover have "credential_ok parse_url (given (ai_credentials inp) [])"
    using assms(3) check_credentialsD [OF assms(2)] by (auto simp: credential_ok_def assoc_eq_map_of dest: map_of_SomeD)
  ultimately show ?thesis using d
    by (auto simp: account_ok_def new_account_def given_def opt_ok_def positive_or_none_def split: option.splits)
qed

lemma updated_ok:
  assumes "account_ok parse_url r" "\<not> ac_deleted r" "check_fields False inp = Inr ()"
    and "check_credentials parse_url creds = Inr (given (ai_credentials inp) [])"
  shows "account_ok parse_url (updated_row r inp moved)"
  using assms(1,2) check_fieldsD [OF assms(3)] merged_credentials_ok [OF _ assms(4)]
  by (auto simp: account_ok_def updated_row_def given_def opt_ok_def positive_or_none_def split: option.splits)

lemma changed_state_ok: "account_ok parse_url r \<Longrightarrow> \<not> ac_deleted r \<Longrightarrow> account_ok parse_url (changed_state change r)"
  by (cases change) (auto simp: account_ok_def cleared_limits_def cleared_error_def)

lemma changed_state_kept [simp]: "ac_id (changed_state change r) = ac_id r \<and> ac_deleted (changed_state change r) = ac_deleted r"
  by (cases change) (auto simp: cleared_limits_def cleared_error_def)

lemma find_replace_account:
  "find_account (db\<lparr>ad_accounts := replace_account q (ad_accounts db)\<rparr>) j =
     (if j = ac_id q \<and> find_account db j \<noteq> None then (if ac_deleted q then None else Some q) else find_account db j)"
proof -
  have "find (\<lambda>r. ac_id r = j \<and> \<not> ac_deleted r) (replace_account q rows) =
      (if j = ac_id q \<and> find (\<lambda>r. ac_id r = j \<and> \<not> ac_deleted r) rows \<noteq> None then (if ac_deleted q then None else Some q)
       else find (\<lambda>r. ac_id r = j \<and> \<not> ac_deleted r) rows)" for rows
    by (induction rows) (auto simp: replace_account_def)
  from this [of "ad_accounts db"] show ?thesis by (auto simp: find_account_def)
qed

lemma find_account_extend:
  "find_account (db\<lparr>ad_accounts := ad_accounts db @ [q], ad_next := n\<rparr>) j =
     (case find_account db j of None \<Rightarrow> if ac_id q = j \<and> \<not> ac_deleted q then Some q else None | Some r \<Rightarrow> Some r)"
proof -
  have "find P (rows @ [q]) = (case find P rows of None \<Rightarrow> if P q then Some q else None | Some r \<Rightarrow> Some r)" for P rows
    by (induction rows) auto
  then show ?thesis by (simp add: find_account_def)
qed

lemma find_account_groups [simp]: "find_account (db\<lparr>ad_groups := g\<rparr>) j = find_account db j"
  "find_account (db\<lparr>ad_plans := p\<rparr>) j = find_account db j"
  by (simp_all add: find_account_def)

lemma find_accountD: "find_account db j = Some r \<Longrightarrow> r \<in> set (ad_accounts db) \<and> ac_id r = j \<and> \<not> ac_deleted r"
  by (auto simp: find_account_def find_Some_iff)

lemma set_account_groupsD:
  assumes "set_account_groups open_group rows i platform gids priority = Inr rows'" "g \<in> set rows'"
  shows "g \<in> set rows \<and> fst g \<noteq> i \<or> fst g = i \<and> open_group (fst (snd g)) \<in> {Some platform, Some ''composite''}"
proof -
  let ?P = "\<lambda>rs. \<forall>g \<in> set rs. g \<in> set rows \<and> fst g \<noteq> i \<or> fst g = i \<and> open_group (fst (snd g)) \<in> {Some platform, Some ''composite''}"
  have "each_with (\<lambda>rows gid.
        if open_group gid \<noteq> Some platform \<and> open_group gid \<noteq> Some ''composite''
          then Inl (bad ''account and group platforms must match'')
        else if list_ex (\<lambda>r. fst r = i \<and> fst (snd r) = gid) rows then Inr rows
        else Inr (rows @ [(i, gid, priority)])) (filter (\<lambda>r. fst r \<noteq> i) rows) gids = Inr rows'"
    using assms(1) by (simp add: set_account_groups_def split: if_splits)
  then have "?P rows'" by (rule each_with_invariant) (auto split: if_splits)
  with assms(2) show ?thesis by blast
qed

lemma assign_groups_ok:
  assumes "assign_groups env db i platform gids priority = Inr db'"
    and "\<And>g. g \<in> set (ad_groups db) \<Longrightarrow> group_ok env db g"
    and "distinct (map ac_id (ad_accounts db))"
    and "\<And>r. r \<in> set (ad_accounts db) \<Longrightarrow> ac_id r < ad_next db \<and> account_ok (ae_parse env) r"
    and "find_account db i = Some q" "ac_platform q = platform"
  shows "accounts_ok env db'"
proof (cases gids)
  case None
  with assms show ?thesis by (auto simp: assign_groups_def accounts_ok_def)
next
  case (Some gs)
  then obtain rows where rows: "set_account_groups (ae_open_group env) (ad_groups db) i platform gs priority = Inr rows"
      "db' = db\<lparr>ad_groups := rows\<rparr>"
    using assms(1) by (auto simp: assign_groups_def result_iff)
  have "group_ok env db g" if "g \<in> set rows" for g
  proof (cases "fst g = i")
    case True
    then show ?thesis using set_account_groupsD [OF rows(1) that] assms(5,6) by (auto simp: group_ok_def)
  next
    case False
    then show ?thesis using set_account_groupsD [OF rows(1) that] assms(2) [of g] by blast
  qed
  then show ?thesis using assms(3,4) by (auto simp: accounts_ok_def rows(2) group_ok_def)
qed

lemma replaced_ok:
  assumes "accounts_ok env db" "find_account db (ac_id q) = Some r" "account_ok (ae_parse env) q"
    and "ac_platform q = ac_platform r" "\<not> ac_deleted q"
  defines "db' \<equiv> db\<lparr>ad_accounts := replace_account q (ad_accounts db)\<rparr>"
  shows "g \<in> set (ad_groups db) \<Longrightarrow> group_ok env db' g" and "distinct (map ac_id (ad_accounts db'))"
    and "x \<in> set (ad_accounts db') \<Longrightarrow> ac_id x < ad_next db' \<and> account_ok (ae_parse env) x"
    and "find_account db' (ac_id q) = Some q"
proof -
  have ids: "map ac_id (replace_account q rows) = map ac_id rows" for rows
    by (induction rows) (auto simp: replace_account_def)
  show "g \<in> set (ad_groups db) \<Longrightarrow> group_ok env db' g"
    using assms(1,2,4,5) unfolding db'_def accounts_ok_def group_ok_def find_replace_account by fastforce
  show "distinct (map ac_id (ad_accounts db'))" using assms(1) by (simp add: db'_def ids accounts_ok_def)
  have "ac_id q < ad_next db" using find_accountD [OF assms(2)] assms(1) by (auto simp: accounts_ok_def)
  then show "x \<in> set (ad_accounts db') \<Longrightarrow> ac_id x < ad_next db' \<and> account_ok (ae_parse env) x"
    using assms(1,3) by (auto simp: db'_def replace_account_def accounts_ok_def)
  show "find_account db' (ac_id q) = Some q" using assms(2,5) by (simp add: db'_def find_replace_account)
qed

lemma create_accountD:
  assumes "create_account env db headers request inp0 = Inr (db', j)" "db' \<noteq> db"
  obtains inp creds db1 records where "check_fields True inp = Inr ()"
    "check_credentials (ae_parse env) creds = Inr (given (ai_credentials inp) [])"
    "credential_string (given (ai_credentials inp) []) ''api_key'' \<noteq> []"
    "insert_account env db inp = Inr db1" "db' = db1\<lparr>ad_records := records\<rparr>"
proof -
  obtain inp1 where a: "validate_account (ae_parse env) (ae_zones env) True inp0 = Inr inp1"
      "credential_string (given (ai_credentials inp1) []) ''api_key'' \<noteq> []"
    using assms(1) by (auto simp: create_account_def result_iff split: if_splits)
  define u where "u = \<lparr>ua_id = 0, ua_platform = given (ai_platform inp1) [], ua_type = ''apikey'',
    ua_credentials = given (ai_credentials inp1) [], ua_extra = []\<rparr>"
  from assms(1) a obtain inp c where c: "bind_grants env u inp1 = Inr inp"
      "(case c of Written i \<Rightarrow> Inr (db, i) | _ \<Rightarrow> and_then (check_base env u) (\<lambda>_.
         and_then (check_proxy env (ai_proxy inp)) (\<lambda>_.
         and_then (validate_proxy_assignment (ae_proxies env) (ai_proxy inp)) (\<lambda>_.
         and_then (insert_account env db inp) (\<lambda>db'.
           Inr (db'\<lparr>ad_records := finish_write (ae_clock env) (ad_records db) c (ad_next db)\<rparr>, ad_next db)))))) = Inr (db', j)"
    unfolding create_account_def u_def Let_def by (auto simp: result_iff)
  obtain db1 records where "insert_account env db inp = Inr db1" "db' = db1\<lparr>ad_records := records\<rparr>"
    using c(2) assms(2) by (cases c) (auto simp: result_iff)
  note v = a c(1) this
  note same = bind_grants_fields [OF v(3)]
  have kept: "ai_credentials inp = ai_credentials inp1"
    by (subst same, simp)
  have "check_fields True inp = Inr ()"
    using validate_accountD(1) [OF v(1)] by (subst same) (simp add: check_fields_extra)
  moreover obtain creds where "check_credentials (ae_parse env) creds = Inr (given (ai_credentials inp) [])"
    using validate_accountD(2) [OF v(1)] kept by auto
  ultimately show thesis using that v(2,4,5) kept by simp
qed

lemma update_accountD:
  assumes "update_account env db i inp0 = Inr db'"
  obtains inp creds r moved where "check_fields False inp = Inr ()"
    "check_credentials (ae_parse env) creds = Inr (given (ai_credentials inp) [])" "find_account db i = Some r"
    "assign_groups env (db\<lparr>ad_accounts := replace_account (updated_row r inp moved) (ad_accounts db)\<rparr>) i (ac_platform r)
      (ai_groups inp) (ac_priority (updated_row r inp moved)) = Inr db'"
proof -
  obtain inp1 r inp u moved where v: "validate_account (ae_parse env) (ae_zones env) False inp0 = Inr inp1"
      "load_account db i = Inr r" "bind_grants env u inp1 = Inr inp"
      "assign_groups env (db\<lparr>ad_accounts := replace_account (updated_row r inp moved) (ad_accounts db)\<rparr>) i (ac_platform r)
        (ai_groups inp) (ac_priority (updated_row r inp moved)) = Inr db'"
    using assms by (auto simp: update_account_def Let_def result_iff split: if_splits)
  note same = bind_grants_fields [OF v(3)]
  have kept: "ai_credentials inp = ai_credentials inp1" by (subst same, simp)
  have "check_fields False inp = Inr ()"
    using validate_accountD(1) [OF v(1)] by (subst same) (simp add: check_fields_extra)
  moreover obtain creds where "check_credentials (ae_parse env) creds = Inr (given (ai_credentials inp) [])"
    using validate_accountD(2) [OF v(1)] kept by auto
  moreover have "find_account db i = Some r"
    using v(2) by (auto simp: load_account_def result_iff split: option.splits)
  ultimately show thesis using that v(4) by blast
qed

lemma create_account_ok:
  assumes "accounts_ok env db" "create_account env db headers request inp0 = Inr (db', j)"
  shows "accounts_ok env db'"
proof (cases "db' = db")
  case True
  with assms(1) show ?thesis by simp
next
  case False
  from create_accountD [OF assms(2) False] obtain inp creds db1 records where c: "check_fields True inp = Inr ()"
      "check_credentials (ae_parse env) creds = Inr (given (ai_credentials inp) [])"
      "credential_string (given (ai_credentials inp) []) ''api_key'' \<noteq> []"
      "insert_account env db inp = Inr db1" "db' = db1\<lparr>ad_records := records\<rparr>"
    by blast
  let ?q = "new_account (ad_next db) inp"
  let ?db = "db\<lparr>ad_accounts := ad_accounts db @ [?q], ad_next := ad_next db + 1\<rparr>"
  have q: "ac_id ?q = ad_next db" "\<not> ac_deleted ?q" by (simp_all add: new_account_def)
  have old: "ac_id r < ad_next db \<and> account_ok (ae_parse env) r" if "r \<in> set (ad_accounts db)" for r
    using assms(1) that by (auto simp: accounts_ok_def)
  have none: "find_account db (ad_next db) = None"
    using old by (fastforce simp: find_account_def find_None_iff)
  have "accounts_ok env db1"
  proof (rule assign_groups_ok [OF c(4) [unfolded insert_account_def Let_def]])
    show "distinct (map ac_id (ad_accounts ?db))"
      using assms(1) old by (fastforce simp: accounts_ok_def q)
    show "ac_id r < ad_next ?db \<and> account_ok (ae_parse env) r" if "r \<in> set (ad_accounts ?db)" for r
      using that old [of r] created_ok [OF c(1-3)] by (auto simp: q)
    show "find_account ?db (ad_next db) = Some ?q" by (simp add: find_account_extend none q)
    show "group_ok env ?db g" if "g \<in> set (ad_groups ?db)" for g
      using that assms(1) by (auto simp: accounts_ok_def group_ok_def find_account_extend)
  qed simp
  then show ?thesis by (simp add: c(5) accounts_ok_def group_ok_def find_account_def)
qed

lemma update_account_ok:
  assumes "accounts_ok env db" "update_account env db i inp0 = Inr db'"
  shows "accounts_ok env db'"
proof -
  from update_accountD [OF assms(2)] obtain inp creds r moved where u: "check_fields False inp = Inr ()"
      "check_credentials (ae_parse env) creds = Inr (given (ai_credentials inp) [])" "find_account db i = Some r"
      "assign_groups env (db\<lparr>ad_accounts := replace_account (updated_row r inp moved) (ad_accounts db)\<rparr>) i (ac_platform r)
        (ai_groups inp) (ac_priority (updated_row r inp moved)) = Inr db'"
    by blast
  let ?q = "updated_row r inp moved"
  note r = find_accountD [OF u(3)]
  have q: "ac_id ?q = i" "\<not> ac_deleted ?q" "ac_platform ?q = ac_platform r" using r by (simp_all add: updated_row_def)
  have "account_ok (ae_parse env) r" using assms(1) r by (auto simp: accounts_ok_def)
  then have "account_ok (ae_parse env) ?q" using r u(1,2) by (intro updated_ok) auto
  note replaced = replaced_ok [OF assms(1) _ this q(3,2), unfolded q(1), OF u(3)]
  show ?thesis
    by (rule assign_groups_ok [OF u(4) _ replaced(2,3) replaced(4) q(3)]) (use replaced(1) in auto)
qed

lemma delete_account_ok:
  assumes "accounts_ok env db" "delete_account db i = Inr db'"
  shows "accounts_ok env db'"
proof -
  obtain r where r: "find_account db i = Some r" and db': "db' = db\<lparr>
       ad_accounts := replace_account (r\<lparr>ac_deleted := True, ac_status := ''inactive'', ac_schedulable := False\<rparr>) (ad_accounts db),
       ad_plans := map (\<lambda>p. if fst p = i then (i, False) else p) (ad_plans db),
       ad_groups := filter (\<lambda>g. fst g \<noteq> i) (ad_groups db)\<rparr>"
    using assms(2) by (auto simp: delete_account_def split: option.splits)
  let ?q = "r\<lparr>ac_deleted := True, ac_status := ''inactive'', ac_schedulable := False\<rparr>"
  note row = find_accountD [OF r]
  have ids: "map ac_id (replace_account q rows) = map ac_id rows" for q rows
    by (induction rows) (auto simp: replace_account_def)
  have live: "find_account db' j = (if j = i then None else find_account db j)" for j
    using find_replace_account [where q = ?q and db = db and j = j] r row by (auto simp: db' find_account_def)
  have "account_ok (ae_parse env) ?q" "ac_id r < ad_next db" using assms(1) row by (auto simp: accounts_ok_def account_ok_def)
  moreover have "x = ?q \<or> x \<in> set rows" if "x \<in> set (replace_account ?q rows)" for x rows
    using that by (auto simp: replace_account_def split: if_splits)
  ultimately have "ac_id x < ad_next db' \<and> account_ok (ae_parse env) x" if "x \<in> set (ad_accounts db')" for x
    using that assms(1) unfolding accounts_ok_def db' by fastforce
  moreover have "distinct (map ac_id (ad_accounts db'))" using assms(1) by (simp add: accounts_ok_def db' ids)
  moreover have "group_ok env db' g" if "g \<in> set (ad_groups db')" for g
    using that assms(1) live by (auto simp: accounts_ok_def group_ok_def db')
  ultimately show ?thesis by (simp add: accounts_ok_def)
qed

lemma account_state_ok:
  assumes "accounts_ok env db" "account_state db i change = Inr db'"
  shows "accounts_ok env db'"
proof -
  obtain r where r: "find_account db i = Some r"
      and db': "db' = db\<lparr>ad_accounts := replace_account (changed_state change r) (ad_accounts db)\<rparr>"
    using assms(2) by (auto simp: account_state_def load_account_def result_iff split: if_splits option.splits)
  note row = find_accountD [OF r]
  have "account_ok (ae_parse env) (changed_state change r)"
    using assms(1) row by (intro changed_state_ok) (auto simp: accounts_ok_def)
  moreover have "ac_platform (changed_state change r) = ac_platform r"
    by (cases change) (auto simp: cleared_limits_def cleared_error_def)
  ultimately show ?thesis
    using replaced_ok [OF assms(1), of "changed_state change r" r] r row by (auto simp: accounts_ok_def db')
qed

text \<open>Property C34: Whatever an administrator does with accounts, the tables stay sound. Every row keeps
  its IDs distinct and its limits in range, its credentials are values the validation accepts, a deleted
  account takes no requests, every group entry belongs to a live account of the group's platform, and every
  live account can be loaded by the gateway.\<close>
theorem account_tables_invariant:
  assumes "accounts_ok env db"
    and "create_account env db headers request inp = Inr (db', k) \<or> update_account env db i inp = Inr db' \<or>
      delete_account db i = Inr db' \<or> account_state db i change = Inr db'"
  shows "accounts_ok env db' \<and> (\<forall>j r. find_account db' j = Some r \<longrightarrow> load_account db' j = Inr r)"
proof -
  have "accounts_ok env db'"
    using assms(2) create_account_ok [OF assms(1)] update_account_ok [OF assms(1)] delete_account_ok [OF assms(1)]
      account_state_ok [OF assms(1)] by blast
  moreover have "load_account db' j = Inr r" if "accounts_ok env db'" "find_account db' j = Some r" for j r
  proof -
    have "account_ok (ae_parse env) r" using that find_accountD [OF that(2)] by (auto simp: accounts_ok_def)
    then show ?thesis using that(2) by (simp add: load_account_def account_loads)
  qed
  ultimately show ?thesis by blast
qed

section \<open>Grants\<close>

lemma check_settingsD:
  assumes "check_settings zones create extra = Inr extra'" "(k, v) \<in> set extra'"
  shows "\<exists>v0. (k, v0) \<in> set extra \<and> check_setting zones create (k, v0) = Inr (Some v)"
proof -
  let ?P = "\<lambda>s. \<forall>k v. (k, v) \<in> set s \<longrightarrow> (\<exists>v0. (k, v0) \<in> set extra \<and> check_setting zones create (k, v0) = Inr (Some v))"
  have "?P extra'"
  proof (rule each_with_invariant [OF assms(1) [unfolded check_settings_def]])
    fix s x s'
    assume ih: "?P s" and x: "x \<in> set extra" and step: "and_then (check_setting zones create x) (\<lambda>v.
        Inr (s @ (case v of None \<Rightarrow> [] | Some y \<Rightarrow> [(fst x, y)]))) = Inr s'"
    obtain w where "check_setting zones create x = Inr w" "s' = s @ (case w of None \<Rightarrow> [] | Some y \<Rightarrow> [(fst x, y)])"
      using step by (auto simp: result_iff)
    with ih x show "?P s'" by (cases x; cases w) auto
  qed simp
  with assms(2) show ?thesis by blast
qed

lemma target_key_rejected:
  assumes "key \<in> set resource_keys"
  shows "check_setting zones create (key @ ''_target'', v) \<noteq> Inr w"
  using assms unfolding resource_keys_def check_setting_def Let_def prod.case
  by (auto simp: request_id_header_key_def resource_keys_def web_search_feature_def billing_enabled_def billing_sync_def
      socket_flags_def)

lemma switches_keep_settings:
  assumes "normalize_billing_flags create inp0 = Inr inp" "k \<noteq> billing_enabled" "k \<noteq> billing_sync"
  shows "assoc (given (ai_extra inp) []) k = assoc (given (ai_extra inp0) []) k"
proof -
  have store: "assoc (given (store_switch key flag extra) []) k = assoc (given extra []) k" if "key \<noteq> k" for key flag extra
    using that by (auto simp: store_switch_def given_def assoc_put split: option.split)
  obtain probe sync where "ai_extra inp = store_switch billing_sync sync (store_switch billing_enabled probe (ai_extra inp0))"
    using assms(1) by (auto simp: normalize_billing_flags_def Let_def result_iff split: if_splits)
  then show ?thesis using store assms(2,3) by simp
qed

lemma bind_adds_targets_only:
  assumes "bind_resource_grants digest marshal u extra = Inr extra'"
    and "\<And>key. key \<in> set resource_keys \<Longrightarrow> k = key @ ''_target'' \<Longrightarrow> assoc extra key = None"
  shows "assoc extra' k = assoc extra k"
proof -
  let ?P = "\<lambda>e. assoc e k = assoc extra k \<and> (\<forall>key \<in> set resource_keys. assoc e key = assoc extra key)"
  have fresh: "key' \<noteq> key @ ''_target''" if "key \<in> set resource_keys" "key' \<in> set resource_keys" for key key'
    using that by (auto simp: resource_keys_def)
  have "?P extra'"
  proof (rule each_with_invariant [OF assms(1) [unfolded bind_resource_grants_def]])
    fix s key s'
    assume ih: "?P s" and key: "key \<in> set resource_keys" and step: "(if assoc s key = None then Inr s
        else if ua_platform u \<noteq> ''openai'' \<or> account_protocol u \<noteq> ''responses'' \<and>
             (key \<noteq> ''response_files'' \<or> account_protocol u \<noteq> ''chat_completions'')
          then Inl (bad ''resource grants require a compatible OpenAI account'')
        else Inr (put (key @ ''_target'') (JStr (response_target digest marshal u)) s)) = Inr s'"
    show "?P s'"
    proof (cases "assoc s key = None")
      case True
      with step ih show ?thesis by simp
    next
      case False
      then have "s' = put (key @ ''_target'') (JStr (response_target digest marshal u)) s"
        using step by (auto split: if_splits)
      moreover have "k \<noteq> key @ ''_target''" using False ih key assms(2) [of key] by auto
      ultimately show ?thesis using ih fresh [OF key] by (auto simp: assoc_put)
    qed
  qed simp
  then show ?thesis by simp
qed

lemma validated_settings:
  assumes "validate_account parse_url zones create inp0 = Inr inp" "key \<in> set resource_keys"
  shows "assoc (given (ai_extra inp) []) (key @ ''_target'') = None"
    and "assoc (given (ai_extra inp0) []) key = None \<Longrightarrow> assoc (given (ai_extra inp) []) key = None"
proof -
  obtain flags extra where v: "normalize_billing_flags create inp0 = Inr flags"
      "check_settings zones create (given (ai_extra flags) []) = Inr extra"
      "ai_extra inp = map_option (\<lambda>_. extra) (ai_extra flags)"
    using assms(1) by (auto simp: validate_account_def given_def result_iff)
  have stored: "k \<in> fst ` set extra \<and> assoc extra k = Some w" if "assoc (given (ai_extra inp) []) k = Some w" for k w
    using that v(3) by (cases "ai_extra flags") (auto simp: given_def assoc_eq_map_of dest: map_of_SomeD intro: rev_image_eqI)
  have entry: "(k, w) \<in> set extra" if "assoc (given (ai_extra inp) []) k = Some w" for k w
    using stored [OF that] by (simp add: assoc_eq_map_of map_of_SomeD)
  show "assoc (given (ai_extra inp) []) (key @ ''_target'') = None"
  proof (rule ccontr)
    assume "assoc (given (ai_extra inp) []) (key @ ''_target'') \<noteq> None"
    then obtain w where "assoc (given (ai_extra inp) []) (key @ ''_target'') = Some w" by blast
    from check_settingsD [OF v(2) entry [OF this]] show False using target_key_rejected [OF assms(2)] by blast
  qed
  have other: "key \<noteq> billing_enabled" "key \<noteq> billing_sync"
    using assms(2) by (auto simp: resource_keys_def billing_enabled_def billing_sync_def)
  show "assoc (given (ai_extra inp) []) key = None" if "assoc (given (ai_extra inp0) []) key = None"
  proof (rule ccontr)
    assume "assoc (given (ai_extra inp) []) key \<noteq> None"
    then obtain w where "assoc (given (ai_extra inp) []) key = Some w" by blast
    from check_settingsD [OF v(2) entry [OF this]] have "key \<in> fst ` set (given (ai_extra flags) [])"
      by (auto intro: rev_image_eqI)
    then have "assoc (given (ai_extra flags) []) key \<noteq> None" by (simp add: assoc_eq_map_of map_of_eq_None_iff)
    with that switches_keep_settings [OF v(1) other] show False by simp
  qed
qed

lemma updated_extra_target:
  assumes "key \<in> set resource_keys" "assoc (given submitted []) (key @ ''_target'') = None"
  shows "assoc (updated_extra moved stored submitted) (key @ ''_target'') = assoc stored (key @ ''_target'')"
proof -
  have "assoc (rev (given submitted [])) (key @ ''_target'') = None"
    using assms(2) by (simp add: assoc_eq_map_of map_of_eq_None_iff)
  moreover have "key @ ''_target'' \<noteq> request_id_header_key" "key @ ''_target'' \<notin> set snapshot_keys"
    using assms(1) by (auto simp: resource_keys_def request_id_header_key_def snapshot_keys_def)
  ultimately show ?thesis
    by (cases submitted) (auto simp: updated_extra_def remove_keys_def snapshot_keys_def assoc_merge_extra assoc_remove given_def Let_def)
qed

text \<open>Property C35: Resources granted to a group are tied to the credentials they were granted under.
  When an update changes the target of an account, its key, address, protocol or header overrides, without
  granting the resources again, no group can use them on that account any more.\<close>
theorem rotation_revokes_grants:
  assumes "update_account env db i inp = Inr db'" "find_account db i = Some r" "find_account db' i = Some r'"
    and "target_of env (upstream_of r') \<noteq> target_of env (upstream_of r)"
    and "key \<in> set resource_keys" "assoc (given (ai_extra inp) []) key = None"
    and "ids \<noteq> []" "allows_response_resources (ae_digest env) (ae_marshal env) (upstream_of r) key gid ids" "ids' \<noteq> []"
  shows "\<not> allows_response_resources (ae_digest env) (ae_marshal env) (upstream_of r') key gid' ids'"
proof -
  obtain inp1 inp2 r0 u moved where v: "validate_account (ae_parse env) (ae_zones env) False inp = Inr inp1"
      "load_account db i = Inr r0" "bind_grants env u inp1 = Inr inp2"
      "assign_groups env (db\<lparr>ad_accounts := replace_account (updated_row r0 inp2 moved) (ad_accounts db)\<rparr>) i (ac_platform r0)
        (ai_groups inp2) (ac_priority (updated_row r0 inp2 moved)) = Inr db'"
    using assms(1) by (auto simp: update_account_def Let_def result_iff split: if_splits)
  have r0: "r0 = r" using v(2) assms(2) by (auto simp: load_account_def result_iff)
  have "find_account db' i = find_account (db\<lparr>ad_accounts := replace_account (updated_row r inp2 moved) (ad_accounts db)\<rparr>) i"
    using v(4) by (auto simp: r0 assign_groups_def result_iff split: option.splits)
  then have r': "r' = updated_row r inp2 moved"
    using assms(2,3) find_accountD [OF assms(2)] by (simp add: find_replace_account updated_row_def)
  have "assoc (given (ai_extra inp2) []) (key @ ''_target'') = assoc (given (ai_extra inp1) []) (key @ ''_target'')"
  proof (cases "ai_extra inp1")
    case None
    with v(3) show ?thesis by (auto simp: bind_grants_def)
  next
    case (Some extra)
    then obtain extra' where e: "bind_resource_grants (ae_digest env) (ae_marshal env) u extra = Inr extra'"
        "ai_extra inp2 = Some extra'"
      using v(3) by (auto simp: bind_grants_def result_iff)
    have "assoc extra key' = None" if "key' \<in> set resource_keys" "key @ ''_target'' = key' @ ''_target''" for key'
      using that validated_settings(2) [OF v(1) assms(5,6)] Some by (simp add: given_def)
    then show ?thesis using bind_adds_targets_only [OF e(1), of "key @ ''_target''"] e(2) Some by (simp add: given_def)
  qed
  then have "assoc (given (ai_extra inp2) []) (key @ ''_target'') = None"
    using validated_settings(1) [OF v(1) assms(5)] by simp
  then have "credential_string (ac_extra r') (key @ ''_target'') = credential_string (ac_extra r) (key @ ''_target'')"
    by (simp add: r' updated_row_def credential_string_def updated_extra_target [OF assms(5)])
  moreover have "credential_string (ac_extra r) (key @ ''_target'') = target_of env (upstream_of r)"
    using assms(7,8) by (auto simp: allows_response_resources_def target_of_def upstream_of_def split: if_splits)
  ultimately show ?thesis using assms(4,9)
    by (auto simp: allows_response_resources_def target_of_def upstream_of_def)
qed

section \<open>An example\<close>

definition no_input :: account_input where
  "no_input = \<lparr>ai_name = None, ai_platform = None, ai_type = None, ai_notes = None, ai_status = None,
     ai_credentials = None, ai_extra = None, ai_proxy = None, ai_concurrency = None, ai_priority = None,
     ai_rate = None, ai_load_factor = None, ai_groups = None, ai_expires = None, ai_auto_pause = None,
     ai_probe = None, ai_rate_sync = None\<rparr>"

definition first_input :: account_input where
  "first_input = no_input\<lparr>ai_name := Some ''main'', ai_platform := Some ''openai'', ai_type := Some ''apikey'',
     ai_credentials := Some [(''api_key'', JStr ''k1''), (''api_protocol'', JStr ''responses''),
       (''header_overrides'', JObj [('' X-Trace '', JStr ''on'')])],
     ai_extra := Some [(''response_files'', JObj [(''7'', JArr [JStr ''file-1''])])], ai_groups := Some [7]\<rparr>"

definition new_key_input :: account_input where
  "new_key_input = no_input\<lparr>ai_credentials := Some [(''api_key'', JStr ''k2'')]\<rparr>"

definition sample_env :: account_env where
  "sample_env = \<lparr>ae_digest = id, ae_marshal = (\<lambda>_. ''h''),
     ae_parse = (\<lambda>s. Some \<lparr>url_scheme = ''https'', url_host = s, url_port = [], url_path = [], url_user = False,
       url_query = [], url_fragment = [], url_opaque = []\<rparr>),
     ae_resolve = (\<lambda>_. Inr False), ae_zones = (\<lambda>z. z = ''UTC''),
     ae_open_group = (\<lambda>g. if g = 7 then Some ''openai'' else None), ae_proxies = [], ae_now = 0, ae_clock = 0\<rparr>"

definition no_accounts :: account_db where
  "no_accounts = \<lparr>ad_accounts = [], ad_groups = [], ad_plans = [], ad_next = 1, ad_records = []\<rparr>"

definition or_none :: "account_db result \<Rightarrow> account_db" where
  "or_none r = (case r of Inl _ \<Rightarrow> no_accounts | Inr db \<Rightarrow> db)"

definition one_account :: account_db where
  "one_account = or_none (map_sum id fst (create_account sample_env no_accounts [''once''] ''{}'' first_input))"

definition new_key :: account_db where
  "new_key = or_none (update_account sample_env one_account 1 new_key_input)"

lemma sample_steps:
  "create_account sample_env no_accounts [''once''] ''{}'' first_input = Inr (one_account, 1)"
  "update_account sample_env one_account 1 new_key_input = Inr new_key"
proof -
  let ?new = "create_account sample_env no_accounts [''once''] ''{}'' first_input"
  have "ok ?new" "map_sum id snd ?new = Inr 1" by code_simp+
  then show "?new = Inr (one_account, 1)"
    by (cases ?new) (auto simp: one_account_def or_none_def)
  have "ok (update_account sample_env one_account 1 new_key_input)" by code_simp
  then show "update_account sample_env one_account 1 new_key_input = Inr new_key"
    by (auto simp: new_key_def or_none_def ok_iff)
qed

theorem overrides_keep_protected_headers_witness:
  "assoc (apply_header_overrides [(''Authorization'', [''secret''])] \<lparr>ua_id = 1, ua_platform = ''openai'', ua_type = ''apikey'',
     ua_credentials = [(''header_override_enabled'', JBool True),
       (''header_overrides'', JObj [(''AUTHORIZATION'', JStr ''stolen''), (''X-Trace'', JStr ''on'')])], ua_extra = []\<rparr>)
     ''Authorization'' = Some [''secret'']"
proof -
  have "to_lower ''Authorization'' \<in> set blocked_header_overrides" by code_simp
  from overrides_keep_protected_headers [OF this] show ?thesis by simp
qed

theorem account_tables_invariant_witness: "accounts_ok sample_env one_account \<and> accounts_ok sample_env new_key"
proof -
  have "accounts_ok sample_env no_accounts" by (simp add: accounts_ok_def no_accounts_def)
  then have one: "accounts_ok sample_env one_account"
    using account_tables_invariant [of sample_env no_accounts "[''once'']" "''{}''" first_input one_account 1] sample_steps(1) by blast
  then show ?thesis
    using account_tables_invariant [where i = 1, of sample_env one_account "[]" "[]" new_key_input new_key] sample_steps(2) by blast
qed

theorem rotation_revokes_grants_witness:
  "\<not> allows_response_resources id (\<lambda>_. ''h'') (upstream_of (ad_accounts new_key ! 0)) ''response_files'' 7 [''file-1'']"
proof -
  have rows: "find_account one_account 1 = Some (ad_accounts one_account ! 0)"
    "find_account new_key 1 = Some (ad_accounts new_key ! 0)" by code_simp+
  have moved: "target_of sample_env (upstream_of (ad_accounts new_key ! 0)) \<noteq>
    target_of sample_env (upstream_of (ad_accounts one_account ! 0))" by code_simp
  have granted: "allows_response_resources id (\<lambda>_. ''h'') (upstream_of (ad_accounts one_account ! 0)) ''response_files'' 7 [''file-1'']"
    by code_simp
  have env: "ae_digest sample_env = id" "ae_marshal sample_env = (\<lambda>_. ''h'')" by (simp_all add: sample_env_def)
  show ?thesis
    using rotation_revokes_grants [OF sample_steps(2) rows moved, unfolded env, OF _ _ _ granted]
    by (simp add: resource_keys_def new_key_input_def no_input_def given_def)
qed

end
