(* ===== verification/Selection.thy ===== *)
theory Selection
  imports Admission Reference_Prices Accounts Group_Fallback
begin

text \<open>
  The choice of the upstream account of a request, \<open>chooseAccount\<close> of \<open>internal/app/gateway.go\<close> with
  \<open>fallbackChannelRestriction\<close> of \<open>internal/app/group_fallback.go\<close>: the channel of the group, the candidates in
  the order of their priorities and loads, the preferred pool and the sticky account, the checks of each
  candidate, its slot and the second look at its rate.

  The database may change while a request chooses: the candidates are listed from one state of the tables,
  every account is read from a state of its own, and looked at again in a third. The slots are those of
  \<open>Admission\<close>; the steps of other requests between two critical sections are the subject of that theory and are
  left out here. A load is the exact quotient, which \<open>float64\<close> orders in the same way for the counts
  that occur. A Go map is an association list in its order of iteration.
\<close>

section \<open>Data\<close>

record text_request =
  tq_protocol :: string
  tq_model :: string
  tq_action :: string
  tq_background :: bool
  tq_native_compaction :: bool
  tq_item_references :: "string list"
  tq_count_only :: bool
  tq_hosted_search :: bool
  tq_hosted_tool_search :: bool
  tq_native_client_tools :: bool
  tq_native_programmatic :: bool
  tq_native_mcp :: bool
  tq_native_code :: bool
  tq_native_file_search :: bool
  tq_vector_stores :: "string list"
  tq_file_ids :: "string list"
  tq_skill_ids :: "string list"
  tq_response_image :: bool

record channel =
  ch_id :: int
  ch_active :: bool
  ch_groups :: "int list"
  ch_restrict :: bool
  ch_pricing :: "model_price list"
  ch_mapping :: "(string \<times> (string \<times> string) list) list"
  ch_source :: string
  ch_features :: fields
  ch_apply :: bool
  ch_rules :: json

record selection =
  sn_response_image :: bool
  sn_features :: fields
  sn_audio :: string
  sn_search :: string
  sn_account :: "upstream_account option"
  sn_rate :: json_number
  sn_channel :: "int option"
  sn_channel_model :: string
  sn_upstream_model :: string
  sn_source :: string
  sn_pricing :: "model_price list"
  sn_group_pricing :: "model_price list"
  sn_catalog :: "price_catalog option"
  sn_apply :: bool
  sn_restrict :: bool
  sn_rules :: json

text \<open>\<open>se_read i\<close> and \<open>se_again i\<close> are the tables when account \<open>i\<close> is read and when its rate is looked at again;
  \<open>se_fault i\<close> is the error of the second look, when the database fails.\<close>

record select_env =
  se_digest :: "string \<Rightarrow> string"
  se_marshal :: "headers \<Rightarrow> string"
  se_now :: instant
  se_channels :: "channel list"
  se_listed :: account_db
  se_read :: "int \<Rightarrow> account_db"
  se_again :: "int \<Rightarrow> account_db"
  se_fault :: "int \<Rightarrow> failure option"

record candidate =
  cd_id :: int
  cd_concurrency :: int
  cd_load_factor :: "int option"
  cd_group_priority :: int
  cd_priority :: int
  cd_rate :: json_number
  cd_load :: rat

datatype choice =
    Chosen selection
  | All_busy int
  | No_upstream
  | Choice_failed failure


section \<open>Channels\<close>

definition active_channel :: "channel list \<Rightarrow> int \<Rightarrow> channel option" where
  "active_channel channels gid = find (\<lambda>c. ch_active c \<and> List.member (ch_groups c) gid) channels"

text \<open>The alias of a model: the first pattern that matches decides, an empty target and a star change nothing.\<close>

definition channel_alias :: "channel \<Rightarrow> string \<Rightarrow> string \<Rightarrow> string option" where
  "channel_alias c platform model = (case assoc (ch_mapping c) platform of
     None \<Rightarrow> None
   | Some entries \<Rightarrow> (case find (\<lambda>e. pattern_matches (fst e) model) entries of
       None \<Rightarrow> None
     | Some e \<Rightarrow> if snd e \<noteq> [] \<and> snd e \<noteq> ''*'' then Some (snd e) else None))"

text \<open>The cards that restrict the upstream model, when the channel of the routing group bills by it.\<close>

definition fallback_channel_restriction ::
  "channel list \<Rightarrow> int \<Rightarrow> string \<Rightarrow> string \<Rightarrow> model_price list option result" where
  "fallback_channel_restriction channels gid platform model =
     (case find (\<lambda>c. ch_active c \<and> ch_restrict c \<and> List.member (ch_groups c) gid) channels of
        None \<Rightarrow> Inr None
      | Some c \<Rightarrow>
          (if ch_source c = ''upstream'' then Inr (Some (ch_pricing c))
           else (let model = (if ch_source c \<noteq> ''requested'' then given (channel_alias c platform model) model else model) in
             if match_price (ch_pricing c) platform model = None then Inl denied else Inr None)))"

definition base_selection ::
  "channel list \<Rightarrow> gateway_identity \<Rightarrow> string \<Rightarrow> text_request \<Rightarrow> price_catalog option \<Rightarrow> selection" where
  "base_selection channels g model inp catalog =
     (let protocol = tq_protocol inp;
          s = \<lparr>sn_response_image = tq_response_image inp, sn_features = [],
            sn_audio = (if voice_protocol protocol then protocol else []),
            sn_search = (if protocol = ''alpha_search'' \<or> grok_search_protocol protocol then protocol else []),
            sn_account = None, sn_rate = [], sn_channel = None,
            sn_channel_model = (if audio_protocol protocol then protocol else model), sn_upstream_model = [],
            sn_source = ''channel_mapped'', sn_pricing = [], sn_group_pricing = gg_pricing (gi_group g),
            sn_catalog = catalog, sn_apply = False, sn_restrict = False, sn_rules = JNull\<rparr>
      in case active_channel channels (gk_group (gi_key g)) of
           None \<Rightarrow> s
         | Some c \<Rightarrow>
             (let platform = (if gi_routing g = None then gg_platform (gi_group g) else gi_source g) in
              s\<lparr>sn_channel := Some (ch_id c), sn_features := ch_features c, sn_pricing := ch_pricing c,
                sn_apply := ch_apply c, sn_restrict := ch_restrict c, sn_rules := ch_rules c,
                sn_source := (if ch_source c \<noteq> [] then ch_source c else sn_source s),
                sn_channel_model := given (channel_alias c platform model) (sn_channel_model s)\<rparr>))"

definition selection_price :: "selection \<Rightarrow> string \<Rightarrow> string \<Rightarrow> model_price result" where
  "selection_price s platform model =
     effective_model_price (sn_catalog s) (sn_group_pricing s) (sn_pricing s) platform model (sn_restrict s)"


section \<open>Candidates\<close>

definition not_after :: "instant \<Rightarrow> instant option \<Rightarrow> bool" where
  "not_after now t = (case t of None \<Rightarrow> True | Some t \<Rightarrow> t \<le> now)"

definition schedulable :: "instant \<Rightarrow> account_row \<Rightarrow> bool" where
  "schedulable now r \<longleftrightarrow> \<not> ac_deleted r \<and> ac_status r = ''active'' \<and> ac_schedulable r \<and>
     (\<not> ac_auto_pause r \<or> (case ac_expires r of None \<Rightarrow> True | Some e \<Rightarrow> now < e)) \<and>
     not_after now (ac_rate_reset r) \<and> not_after now (ac_overload r) \<and> not_after now (ac_temp_until r)"

definition group_rows :: "account_db \<Rightarrow> int \<Rightarrow> (account_row \<times> int) list" where
  "group_rows db gid = concat (map (\<lambda>(i, g, priority).
     if g = gid then map (\<lambda>r. (r, priority)) (filter (\<lambda>r. ac_id r = i) (ad_accounts db)) else []) (ad_groups db))"

definition last_used_key :: "account_row \<Rightarrow> int \<times> int" where
  "last_used_key r = (case ac_last_used r of None \<Rightarrow> (0, 0) | Some t \<Rightarrow> (1, t))"

definition list_candidates :: "account_db \<Rightarrow> instant \<Rightarrow> int \<Rightarrow> string \<Rightarrow> candidate list" where
  "list_candidates db now gid platform =
     map (\<lambda>(r, p). \<lparr>cd_id = ac_id r, cd_concurrency = ac_concurrency r, cd_load_factor = ac_load_factor r,
         cd_group_priority = p, cd_priority = ac_priority r, cd_rate = ac_rate r, cd_load = 0\<rparr>)
       (sort_key (\<lambda>(r, p). (p, ac_priority r, last_used_key r, ac_id r))
         (filter (\<lambda>(r, p). ac_platform r = platform \<and> ac_type r = ''apikey'' \<and> schedulable now r) (group_rows db gid)))"

definition with_load :: "slots \<Rightarrow> candidate \<Rightarrow> candidate" where
  "with_load s c =
     (let capacity = (case cd_load_factor c of None \<Rightarrow> cd_concurrency c | Some n \<Rightarrow> if 0 < n then n else cd_concurrency c) in
      c\<lparr>cd_load := of_int (active s (''account'', cd_id c)) / of_int (max 1 capacity)\<rparr>)"

definition same_priority :: "candidate \<Rightarrow> candidate \<Rightarrow> bool" where
  "same_priority c d \<longleftrightarrow> cd_group_priority d = cd_group_priority c \<and> cd_priority d = cd_priority c"

function sort_runs :: "candidate list \<Rightarrow> candidate list" where
  "sort_runs [] = []"
| "sort_runs (c # cs) =
     sort_key cd_load (c # takeWhile (same_priority c) cs) @ sort_runs (dropWhile (same_priority c) cs)"
  by pat_completeness auto
termination
  by (relation "measure length") (auto simp: le_imp_less_Suc length_dropWhile_le)

text \<open>The comparison of the last sort, as a rank: the preferred pool first, in it the sticky account.\<close>

definition preference :: "int list \<Rightarrow> response_binding option \<Rightarrow> candidate \<Rightarrow> nat \<times> nat" where
  "preference preferred sticky c =
     (if List.member preferred (cd_id c) then 0 else 1,
      case sticky of
        Some b \<Rightarrow> if (preferred = [] \<or> List.member preferred (cd_id c)) \<and> cd_id c = rb_account b then 0 else 1
      | None \<Rightarrow> 1)"

definition order_candidates ::
  "slots \<Rightarrow> int list \<Rightarrow> response_binding option \<Rightarrow> candidate list \<Rightarrow> candidate list" where
  "order_candidates s preferred sticky cs =
     sort_key (preference preferred sticky) (sort_runs (map (with_load s) cs))"

definition live_sticky :: "select_env \<Rightarrow> response_binding option \<Rightarrow> response_binding option" where
  "live_sticky env sticky = (case sticky of
     None \<Rightarrow> None
   | Some b \<Rightarrow> (case load_account (se_read env (rb_account b)) (rb_account b) of
       Inl _ \<Rightarrow> None
     | Inr r \<Rightarrow> if response_target (se_digest env) (se_marshal env) (upstream_of r) \<noteq> rb_target b then None else Some b))"


section \<open>Protocols\<close>

text \<open>The conversions between the protocol of the request and that of the account.\<close>

definition convertible :: "text_request \<Rightarrow> bool \<Rightarrow> string \<Rightarrow> string \<Rightarrow> bool" where
  "convertible inp socket platform native \<longleftrightarrow>
     (let p = tq_protocol inp; plain = (tq_action inp = [] \<and> \<not> tq_native_compaction inp \<and> \<not> socket) in
      native = p \<or>
      (p = ''chat_completions'' \<or> p = ''anthropic'') \<and> native = ''gemini'' \<or>
      p = ''anthropic'' \<and> (native = ''chat_completions'' \<or> native = ''responses'') \<and> messages_chat_platform platform \<or>
      p = ''responses'' \<and> tq_count_only inp \<and> (chat_responses_platform platform \<or> platform = ''grok'') \<or>
      p = ''chat_completions'' \<and> native = ''responses'' \<and> chat_responses_platform platform \<or>
      p = ''chat_completions'' \<and> native = ''anthropic'' \<and> chat_anthropic_platform platform \<or>
      p = ''responses'' \<and> native = ''chat_completions'' \<and> chat_responses_platform platform \<and> plain \<or>
      p = ''responses'' \<and> native = ''gemini'' \<and> plain \<or>
      p = ''responses'' \<and> native = ''anthropic'' \<and> chat_anthropic_platform platform \<and> plain)"

definition native_responses :: "text_request \<Rightarrow> bool" where
  "native_responses inp \<longleftrightarrow> tq_response_image inp \<or> tq_hosted_tool_search inp \<or> tq_native_client_tools inp \<or>
     tq_native_programmatic inp \<or> tq_native_mcp inp \<or> tq_native_code inp \<or> tq_native_file_search inp"

definition protocol_matches :: "text_request \<Rightarrow> bool \<Rightarrow> upstream_account \<Rightarrow> bool" where
  "protocol_matches inp socket u =
     (let p = tq_protocol inp; platform = ua_platform u; native = account_protocol u;
          open_native = (native = ''chat_completions'' \<or> native = ''responses'');
          m = convertible inp socket platform native;
          m = (if tq_item_references inp \<noteq> [] \<or> tq_background inp then p = ''responses'' \<and> native = ''responses'' else m);
          m = (if p = ''embeddings'' then platform = ''openai'' else m);
          m = (if p = ''seedance'' then supports_seedance u else m);
          m = (if p = ''videos'' then platform = ''grok'' \<and> open_native else m);
          m = (if p = ''alpha_search'' then platform = ''openai'' \<and> open_native else m);
          m = (if p = ''images'' then (platform = ''openai'' \<or> platform = ''grok'') \<and> open_native else m);
          m = (if grok_search_protocol p \<or> voice_protocol p \<or> p = ''custom-voices'' then platform = ''grok'' \<and> open_native else m);
          m = (if tq_hosted_search inp then (platform = ''grok'' \<or> platform = ''openai'') \<and> native = ''responses'' else m);
          m = (if native_responses inp then platform = ''openai'' \<and> native = ''responses'' else m)
      in if tq_file_ids inp \<noteq> []
         then m \<and> platform = ''openai'' \<and> (native = ''responses'' \<or> p = ''chat_completions'' \<and> native = ''chat_completions'')
         else m)"


section \<open>The checks of a candidate\<close>

text \<open>What stays the same for all candidates of one choice.\<close>

record choice_rules =
  rl_identity :: gateway_identity
  rl_request :: text_request
  rl_exclude :: "int list"
  rl_binding :: "response_binding option"
  rl_socket :: "response_socket option"
  rl_threshold :: "rat option"
  rl_dispatch :: string
  rl_fallback :: "model_price list option"
  rl_base :: selection

definition mapped_name :: "choice_rules \<Rightarrow> upstream_account \<Rightarrow> string result" where
  "mapped_name k u =
     (let p = tq_protocol (rl_request k); dispatch = rl_dispatch k;
          resolved = resolve_model_mapping (ua_credentials u) (sn_channel_model (rl_base k))
            (snd (response_compaction_path (tq_action (rl_request k))));
          matched = (case resolved of Inr (_, m) \<Rightarrow> m | Inl _ \<Rightarrow> False)
      in if dispatch \<noteq> [] \<and> \<not> ok (resolve_model_mapping (ua_credentials u) dispatch False)
           then Inl (bad ''model is not allowed by this account'')
         else if audio_protocol p \<or> p = ''custom-voices'' then Inr p
         else if p = ''realtime'' then Inr (tq_model (rl_request k))
         else if dispatch \<noteq> [] \<and> \<not> matched then Inr dispatch
         else (case resolved of Inl e \<Rightarrow> Inl e | Inr (mapped, _) \<Rightarrow> Inr mapped))"

definition price_restrictions_hold :: "choice_rules \<Rightarrow> upstream_account \<Rightarrow> string \<Rightarrow> bool" where
  "price_restrictions_hold k u mapped \<longleftrightarrow>
     (case rl_fallback k of None \<Rightarrow> True | Some prices \<Rightarrow> match_price prices (ua_platform u) mapped \<noteq> None) \<and>
     (sn_restrict (rl_base k) \<and> sn_source (rl_base k) = ''upstream'' \<longrightarrow> ok (selection_price (rl_base k) (ua_platform u) mapped))"

definition resources_allowed :: "select_env \<Rightarrow> choice_rules \<Rightarrow> upstream_account \<Rightarrow> bool" where
  "resources_allowed env k u \<longleftrightarrow>
     (let allows = (\<lambda>key ids. allows_response_resources (se_digest env) (se_marshal env) u key
            (gk_group (gi_key (rl_identity k))) ids); inp = rl_request k in
      allows ''response_vector_stores'' (tq_vector_stores inp) \<and> allows ''response_files'' (tq_file_ids inp) \<and>
      allows ''response_skills'' (tq_skill_ids inp))"

definition account_fits :: "select_env \<Rightarrow> choice_rules \<Rightarrow> upstream_account \<Rightarrow> bool" where
  "account_fits env k u \<longleftrightarrow>
     (case rl_socket k of None \<Rightarrow> True | Some s \<Rightarrow> socket_eligible (se_digest env) (se_marshal env) s u) \<and>
     (case rl_binding k of None \<Rightarrow> True | Some b \<Rightarrow> rb_target b = response_target (se_digest env) (se_marshal env) u) \<and>
     protocol_matches (rl_request k) (rl_socket k \<noteq> None) u \<and>
     allows_openai_protocol u (tq_protocol (rl_request k)) \<and> resources_allowed env k u"

text \<open>The account and the model of a candidate that passes every check before its slot is taken.\<close>

definition fitting :: "select_env \<Rightarrow> choice_rules \<Rightarrow> candidate \<Rightarrow> (upstream_account \<times> string) option" where
  "fitting env k c =
     (if List.member (rl_exclude k) (cd_id c) \<or> (case rl_binding k of None \<Rightarrow> False | Some b \<Rightarrow> rb_account b \<noteq> cd_id c) \<or>
         \<not> profit_allows (rl_threshold k) (cd_rate c) then None
      else (case load_account (se_read env (cd_id c)) (cd_id c) of
        Inl _ \<Rightarrow> None
      | Inr r \<Rightarrow>
          (let u = upstream_of r in
           if \<not> account_fits env k u then None
           else (case mapped_name k u of
             Inl _ \<Rightarrow> None
           | Inr mapped \<Rightarrow>
               (if \<not> price_restrictions_hold k u mapped \<or> \<not> account_quota_available (ua_extra u) (se_now env) then None
                else Some (u, mapped))))))"

text \<open>The rate of an account that is still schedulable, looked at while its slot is held.\<close>

definition rate_again :: "select_env \<Rightarrow> choice_rules \<Rightarrow> candidate \<Rightarrow> json_number option result" where
  "rate_again env k c =
     (if rl_threshold k = None then Inr (Some (cd_rate c))
      else (case se_fault env (cd_id c) of
        Some e \<Rightarrow> Inl e
      | None \<Rightarrow> Inr (map_option (\<lambda>(r, _). ac_rate r)
          (find (\<lambda>(r, _). ac_id r = cd_id c \<and> schedulable (se_now env) r)
            (group_rows (se_again env (cd_id c)) (gg_id (routing_group (rl_identity k))))))))"

definition selected :: "choice_rules \<Rightarrow> upstream_account \<Rightarrow> json_number \<Rightarrow> string \<Rightarrow> selection" where
  "selected k u rate mapped = rl_base k\<lparr>sn_account := Some u, sn_rate := rate, sn_upstream_model := mapped\<rparr>"

fun choose_from ::
  "select_env \<Rightarrow> choice_rules \<Rightarrow> int option \<Rightarrow> slots \<Rightarrow> candidate list \<Rightarrow> slots \<times> choice" where
  "choose_from env k busy s [] = (s, case busy of Some i \<Rightarrow> All_busy i | None \<Rightarrow> No_upstream)"
| "choose_from env k busy s (c # cs) = (case fitting env k c of
     None \<Rightarrow> choose_from env k busy s cs
   | Some (u, mapped) \<Rightarrow> (case take_slot s (''account'', ua_id u) (cd_concurrency c) of
       (False, s') \<Rightarrow> choose_from env k (if busy = None \<and> 0 < cd_concurrency c then Some (cd_id c) else busy) s' cs
     | (True, s') \<Rightarrow> (case rate_again env k c of
           Inl e \<Rightarrow> (release_slot s' (''account'', ua_id u), Choice_failed e)
         | Inr None \<Rightarrow> choose_from env k busy (release_slot s' (''account'', ua_id u)) cs
         | Inr (Some rate) \<Rightarrow>
             (if profit_allows (rl_threshold k) rate then (s', Chosen (selected k u rate mapped))
              else choose_from env k busy (release_slot s' (''account'', ua_id u)) cs))))"

text \<open>The pool the routing rules of the group prefer for the model of a choice.\<close>

definition preferred_pool :: "choice_rules \<Rightarrow> int list" where
  "preferred_pool k =
     routing_accounts (routing_group (rl_identity k))
       (if rl_dispatch k \<noteq> [] then rl_dispatch k else sn_channel_model (rl_base k)) (gg_platform (gi_group (rl_identity k)))"

text \<open>What a choice is made of before the loop. \<open>profit_checked\<close> says whether the request is under the profit
  gate (the context carries \<open>profitRequestKey\<close>), \<open>socket\<close> is the WebSocket turn of the context.\<close>

definition choice_rules_of ::
  "select_env \<Rightarrow> gateway_identity \<Rightarrow> string \<Rightarrow> text_request \<Rightarrow> int list \<Rightarrow> response_binding option \<Rightarrow>
   price_catalog option \<Rightarrow> bool \<Rightarrow> response_socket option \<Rightarrow> choice_rules result" where
  "choice_rules_of env g model inp exclude binding catalog profit_checked socket =
     and_then (messages_dispatch g (tq_protocol inp) (tq_model inp)) (\<lambda>dispatch.
     and_then (if gi_routing g = None then Inr None
               else fallback_channel_restriction (se_channels env) (gg_id (routing_group g)) (gg_platform (gi_group g)) model)
       (\<lambda>fallback.
     Inr \<lparr>rl_identity = g, rl_request = inp, rl_exclude = exclude, rl_binding = binding, rl_socket = socket,
          rl_threshold = (if profit_checked then profit_threshold g (tq_protocol inp) (tq_count_only inp) else None),
          rl_dispatch = dispatch, rl_fallback = fallback,
          rl_base = base_selection (se_channels env) g model inp catalog\<rparr>))"

text \<open>\<open>chooseAccount\<close>.\<close>

definition choose_account ::
  "select_env \<Rightarrow> gateway_identity \<Rightarrow> string \<Rightarrow> text_request \<Rightarrow> int list \<Rightarrow> response_binding option \<Rightarrow>
   response_binding option \<Rightarrow> price_catalog option \<Rightarrow> bool \<Rightarrow> response_socket option \<Rightarrow> slots \<Rightarrow> slots \<times> choice" where
  "choose_account env g model inp exclude binding sticky catalog profit_checked socket s =
     (case choice_rules_of env g model inp exclude binding catalog profit_checked socket of
        Inl e \<Rightarrow> (s, Choice_failed e)
      | Inr k \<Rightarrow> choose_from env k None s (order_candidates s (preferred_pool k) (live_sticky env sticky)
          (list_candidates (se_listed env) (se_now env) (gg_id (routing_group g)) (gg_platform (gi_group g)))))"

end
