(* ===== verification/Selection_Facts.thy ===== *)
theory Selection_Facts
  imports Selection Account_Facts Gateway_Facts
begin

text \<open>
  What the choice of an account guarantees: the order of the candidates, the slot a chosen account holds, and
  that a choice that fails holds nothing.
\<close>

section \<open>Stable sorting\<close>

text \<open>Sorting a list that is in the order of \<open>g\<close> by \<open>f\<close> gives the order of the pairs.\<close>

lemma insort_lexicographic:
  fixes f :: "'a \<Rightarrow> 'k::linorder" and g :: "'a \<Rightarrow> 'l::linorder"
  assumes "sorted (map (\<lambda>y. (f y, g y)) ys)" "\<And>y. y \<in> set ys \<Longrightarrow> g x \<le> g y"
  shows "sorted (map (\<lambda>y. (f y, g y)) (insort_key f x ys))"
  using assms
proof (induction ys)
  case Nil
  then show ?case by simp
next
  case (Cons y ys)
  show ?case
  proof (cases "f x \<le> f y")
    case True
    have "(f x, g x) \<le> (f z, g z)" if "z \<in> set (y # ys)" for z
    proof -
      have "(f y, g y) \<le> (f z, g z)" using that Cons.prems(1) by auto
      then have "f y \<le> f z" by (auto simp: less_eq_prod_def)
      with True Cons.prems(2) [OF that] show ?thesis by (auto simp: less_eq_prod_def)
    qed
    with True Cons.prems(1) show ?thesis by auto
  next
    case False
    then have "(f y, g y) \<le> (f x, g x)" by (auto simp: less_eq_prod_def)
    with False Cons show ?thesis by (auto simp: set_insort_key)
  qed
qed

lemma sort_key_lexicographic:
  fixes f :: "'a \<Rightarrow> 'k::linorder" and g :: "'a \<Rightarrow> 'l::linorder"
  shows "sorted (map g xs) \<Longrightarrow> sorted (map (\<lambda>y. (f y, g y)) (sort_key f xs))"
proof (induction xs)
  case Nil
  then show ?case by simp
next
  case (Cons x xs)
  then show ?case by (auto intro: insort_lexicographic)
qed

definition priority_of :: "candidate \<Rightarrow> int \<times> int" where
  "priority_of c = (cd_group_priority c, cd_priority c)"

lemma same_priority_iff: "same_priority c d \<longleftrightarrow> priority_of d = priority_of c"
  by (simp add: same_priority_def priority_of_def)

lemma sorted_takeWhile_same:
  assumes "sorted (map g (c # cs))"
  shows "\<forall>d \<in> set (dropWhile (\<lambda>d. g d = g c) cs). g c < (g d :: 'l::linorder)"
  using assms
proof (induction cs)
  case Nil
  then show ?case by simp
next
  case (Cons d cs)
  show ?case
  proof (cases "g d = g c")
    case True
    with Cons show ?thesis by auto
  next
    case False
    with Cons.prems have "g c < g d" "\<forall>e \<in> set cs. g d \<le> g e" by (auto simp: order.strict_iff_order)
    with False show ?thesis by auto
  qed
qed

lemma sorted_map_mono:
  assumes "sorted (map f xs)" "\<And>x y. f x \<le> f y \<Longrightarrow> g x \<le> g y"
  shows "sorted (map g xs)"
  using assms(1) by (induction xs) (auto intro: assms(2))

lemma sorted_pairs_constant:
  fixes f :: "'a \<Rightarrow> 'k::linorder" and g :: "'a \<Rightarrow> 'l::linorder"
  shows "sorted (map f ys) \<Longrightarrow> \<forall>y \<in> set ys. g y = a \<Longrightarrow> sorted (map (\<lambda>y. (g y, f y)) ys)"
  by (induction ys) (auto simp: less_eq_prod_def)

lemma sorted_pairs_append:
  fixes f :: "'a \<Rightarrow> 'k::linorder" and g :: "'a \<Rightarrow> 'l::linorder"
  assumes "sorted (map (\<lambda>y. (g y, f y)) xs)" "sorted (map (\<lambda>y. (g y, f y)) ys)"
    and "\<And>x y. x \<in> set xs \<Longrightarrow> y \<in> set ys \<Longrightarrow> g x < g y"
  shows "sorted (map (\<lambda>y. (g y, f y)) (xs @ ys))"
  using assms by (auto simp: sorted_append less_eq_prod_def)

lemma set_takeWhile_dropWhile: "set (takeWhile P xs) \<union> set (dropWhile P xs) = set xs"
  by (metis set_append takeWhile_dropWhile_id)

lemma set_sort_runs [simp]: "set (sort_runs cs) = set cs"
proof (induction cs rule: sort_runs.induct)
  case 1
  show ?case by simp
next
  case (2 c cs)
  then show ?case using set_takeWhile_dropWhile [of "same_priority c" cs] by (simp add: set_insort_key)
qed

lemma sort_runs_sorted:
  "sorted (map priority_of cs) \<Longrightarrow> sorted (map (\<lambda>c. (priority_of c, cd_load c)) (sort_runs cs))"
proof (induction cs rule: sort_runs.induct)
  case 1
  then show ?case by simp
next
  case (2 c cs)
  have same: "same_priority c = (\<lambda>d. priority_of d = priority_of c)" by (auto simp: same_priority_iff)
  let ?run = "c # takeWhile (same_priority c) cs" and ?rest = "dropWhile (same_priority c) cs"
  have run: "\<forall>d \<in> set (sort_key cd_load ?run). priority_of d = priority_of c"
    by (auto simp: same set_insort_key dest: set_takeWhileD)
  have later: "priority_of c < priority_of d" if "d \<in> set (sort_runs ?rest)" for d
    using sorted_takeWhile_same [OF 2(2)] that by (simp add: same)
  have "sorted (map priority_of (takeWhile (same_priority c) cs @ ?rest))"
    using 2(2) by simp
  then have "sorted (map priority_of ?rest)" by (simp only: map_append sorted_append)
  then have "sorted (map (\<lambda>d. (priority_of d, cd_load d)) (sort_runs ?rest))" by (rule 2(1))
  then show ?case
    unfolding sort_runs.simps
    by (intro sorted_pairs_append sorted_pairs_constant [OF sorted_sort_key run]) (use run later in auto)
qed

lemma candidates_by_priority: "sorted (map priority_of (map (with_load s) (list_candidates db now gid platform)))"
proof -
  let ?key = "\<lambda>(r, p). (p, ac_priority r, last_used_key r, ac_id r)"
  let ?rows = "filter (\<lambda>(r, p). ac_platform r = platform \<and> ac_type r = ''apikey'' \<and> schedulable now r) (group_rows db gid)"
  have "sorted (map ?key (sort_key ?key ?rows))" by (rule sorted_sort_key)
  then have "sorted (map (\<lambda>(r, p). (p, ac_priority r)) (sort_key ?key ?rows))"
    by (rule sorted_map_mono) (auto simp: less_eq_prod_def)
  then show ?thesis
    by (simp add: list_candidates_def priority_of_def with_load_def Let_def comp_def case_prod_beta')
qed

definition choice_key :: "int list \<Rightarrow> response_binding option \<Rightarrow> candidate \<Rightarrow> (nat \<times> nat) \<times> (int \<times> int) \<times> rat" where
  "choice_key preferred sticky c = (preference preferred sticky c, priority_of c, cd_load c)"

lemma order_candidates_sorted:
  "sorted (map (choice_key preferred sticky)
     (order_candidates s preferred sticky (list_candidates db now gid platform)))"
  unfolding order_candidates_def choice_key_def
  by (rule sort_key_lexicographic, rule sort_runs_sorted, rule candidates_by_priority)

lemma set_order_candidates [simp]: "set (order_candidates s preferred sticky cs) = with_load s ` set cs"
  by (simp add: order_candidates_def)

lemma earlier_if_smaller:
  assumes "sorted (map key (pre @ c # post))" "d \<in> set (pre @ c # post)" "key d < key c"
  shows "d \<in> set pre"
  using assms by (auto simp: sorted_append)


section \<open>Slots\<close>

definition same_slots :: "slots \<Rightarrow> slots \<Rightarrow> bool" where
  "same_slots s s' \<longleftrightarrow> active s' = active s \<and> sl_stopped s' = sl_stopped s \<and> sl_lost s' = sl_lost s"

definition no_debt :: "slots \<Rightarrow> bool" where
  "no_debt s \<longleftrightarrow> (\<forall>k. 0 \<le> active s k)"

lemma same_slots_refl [simp]: "same_slots s s"
  by (simp add: same_slots_def)

lemma same_slots_trans: "same_slots s t \<Longrightarrow> same_slots t u \<Longrightarrow> same_slots s u"
  by (simp add: same_slots_def)

lemma take_slot_same: "same_slots s t \<Longrightarrow> fst (take_slot t k n) = fst (take_slot s k n)"
  by (simp add: same_slots_def take_slot_def)

lemma try_slot_False: "take_slot s k n = (False, s') \<Longrightarrow> s' = s"
  by (auto simp: take_slot_def split: if_splits)

lemma try_slot_True:
  assumes "take_slot s k n = (True, s')"
  shows "active s' = (active s)(k := active s k + 1)" "active s k < n" "\<not> sl_stopped s" "\<not> sl_lost s"
    "sl_stopped s' = sl_stopped s" "sl_lost s' = sl_lost s"
  using assms by (auto simp: take_slot_def active_def tally_of_def assoc_put split: if_splits)

lemma take_and_release:
  assumes "take_slot s k n = (True, s')" "no_debt s"
  shows "same_slots s (release_slot s' k)"
proof -
  have a: "active s' k - 1 = active s k" "\<And>j. j \<noteq> k \<Longrightarrow> active s' j = active s j" "0 \<le> active s k"
    using try_slot_True(1) [OF assms(1)] assms(2) [unfolded no_debt_def, THEN spec, of k] by auto
  have "active (release_slot s' k) j = active s j" for j
    using a by (cases "j = k") (auto simp: release_slot_def Let_def wake_def active_def tally_of_def assoc_put assoc_remove)
  then show ?thesis using try_slot_True(5,6) [OF assms(1)]
    by (simp add: same_slots_def fun_eq_iff release_slot_def wake_def Let_def)
qed

lemma no_debt_same: "same_slots s t \<Longrightarrow> no_debt s \<Longrightarrow> no_debt t"
  by (simp add: same_slots_def no_debt_def)


section \<open>The loop\<close>

text \<open>Why a candidate was passed over: it does not fit, it is full, or its rate has gone up meanwhile.\<close>

definition passed_over :: "select_env \<Rightarrow> choice_rules \<Rightarrow> slots \<Rightarrow> candidate \<Rightarrow> bool" where
  "passed_over env k s c \<longleftrightarrow> (case fitting env k c of
     None \<Rightarrow> True
   | Some (u, mapped) \<Rightarrow> \<not> fst (take_slot s (''account'', ua_id u) (cd_concurrency c)) \<or>
       rate_again env k c = Inr None \<or> (\<exists>rate. rate_again env k c = Inr (Some rate) \<and> \<not> profit_allows (rl_threshold k) rate))"

lemma passed_over_same: "same_slots s t \<Longrightarrow> passed_over env k t c = passed_over env k s c"
  by (cases "fitting env k c") (auto simp: passed_over_def take_slot_same)

definition took :: "select_env \<Rightarrow> choice_rules \<Rightarrow> slots \<Rightarrow> slots \<Rightarrow> candidate \<Rightarrow> selection \<Rightarrow> bool" where
  "took env k s s' c sel \<longleftrightarrow> (\<exists>u mapped rate. fitting env k c = Some (u, mapped) \<and> rate_again env k c = Inr (Some rate) \<and>
     profit_allows (rl_threshold k) rate \<and> sel = selected k u rate mapped \<and>
     active s (''account'', ua_id u) < cd_concurrency c \<and> \<not> sl_stopped s \<and> \<not> sl_lost s \<and>
     active s' = (active s)((''account'', ua_id u) := active s (''account'', ua_id u) + 1))"

lemma took_same:
  assumes "took env k t s' c sel" "same_slots s t"
  shows "took env k s s' c sel"
proof -
  have "active t = active s" using assms(2) by (simp add: same_slots_def)
  with assms show ?thesis by (simp add: took_def same_slots_def)
qed

lemma choose_from_cases:
  assumes "choose_from env k busy s cs = (s', r)" "no_debt s"
  shows "(\<exists>sel pre c post. r = Chosen sel \<and> cs = pre @ c # post \<and> took env k s s' c sel \<and>
      (\<forall>d \<in> set pre. passed_over env k s d)) \<or>
    (\<forall>sel. r \<noteq> Chosen sel) \<and> same_slots s s'"
  using assms
proof (induction cs arbitrary: busy s)
  case Nil
  then show ?case by (auto split: option.splits)
next
  case (Cons c cs)
  have skip: ?case if run: "choose_from env k busy' t cs = (s', r)" and t: "same_slots s t" and c: "passed_over env k s c" for busy' t
    using Cons.IH [OF run no_debt_same [OF t Cons.prems(2)]]
  proof (elim disjE exE conjE)
    fix sel pre d post
    assume r: "r = Chosen sel" "cs = pre @ d # post" "took env k t s' d sel" "\<forall>e \<in> set pre. passed_over env k t e"
    then have "c # cs = (c # pre) @ d # post" "took env k s s' d sel" "\<forall>e \<in> set (c # pre). passed_over env k s e"
      using took_same [OF _ t] passed_over_same [OF t] c by auto
    with r(1) show ?thesis by blast
  next
    assume "\<forall>sel. r \<noteq> Chosen sel" "same_slots t s'"
    then show ?thesis using same_slots_trans [OF t] by blast
  qed
  show ?case
  proof (cases "fitting env k c")
    case None
    then show ?thesis using Cons.prems(1) by (intro skip [of busy s]) (auto simp: passed_over_def)
  next
    case (Some um)
    obtain u mapped where um: "um = (u, mapped)" by (cases um)
    let ?acct = "(''account'', ua_id u)"
    obtain free t where t: "take_slot s ?acct (cd_concurrency c) = (free, t)" by (cases "take_slot s ?acct (cd_concurrency c)")
    show ?thesis
    proof (cases free)
      case False
      then have "t = s" using t by (simp add: try_slot_False)
      then show ?thesis using Cons.prems(1) Some um t False by (intro skip) (auto simp: passed_over_def)
    next
      case True
      have taken: "take_slot s ?acct (cd_concurrency c) = (True, t)" using t True by simp
      note undone = take_and_release [OF taken Cons.prems(2)]
      show ?thesis
      proof (cases "rate_again env k c")
        case (Inl e)
        then show ?thesis using Cons.prems(1) Some um taken undone by auto
      next
        case (Inr found)
        show ?thesis
        proof (cases "\<exists>rate. found = Some rate \<and> profit_allows (rl_threshold k) rate")
          case True
          then obtain rate where rate: "found = Some rate" "profit_allows (rl_threshold k) rate" by blast
          then have r: "r = Chosen (selected k u rate mapped)" "s' = t" using Cons.prems(1) Some um taken Inr by auto
          have "took env k s s' c (selected k u rate mapped)"
            using Some um Inr rate r(2) try_slot_True [OF taken] by (auto simp: took_def)
          then show ?thesis using r(1) by (intro disjI1 exI [of _ "[]"] exI conjI) auto
        next
          case False
          then show ?thesis using Cons.prems(1) Some um taken Inr undone
            by (intro skip [of busy "release_slot t ?acct"]) (auto simp: passed_over_def split: option.splits)
        qed
      qed
    qed
  qed
qed


section \<open>The choice\<close>

lemma load_account_id: "load_account db i = Inr r \<Longrightarrow> ac_id r = i"
  by (auto simp: load_account_def find_account_def find_Some_iff result_iff split: option.splits)

lemma fittingD:
  assumes "fitting env k c = Some (u, mapped)"
  obtains r where "load_account (se_read env (cd_id c)) (cd_id c) = Inr r" "u = upstream_of r" "ua_id u = cd_id c"
    "cd_id c \<notin> set (rl_exclude k)" "\<And>b. rl_binding k = Some b \<Longrightarrow> rb_account b = cd_id c"
    "account_fits env k u" "price_restrictions_hold k u mapped" "mapped_name k u = Inr mapped"
    "account_quota_available (ac_extra r) (se_now env)"
proof -
  obtain r where r: "load_account (se_read env (cd_id c)) (cd_id c) = Inr r" "u = upstream_of r"
      "cd_id c \<notin> set (rl_exclude k)" "\<And>b. rl_binding k = Some b \<Longrightarrow> rb_account b = cd_id c"
      "account_fits env k u" "price_restrictions_hold k u mapped" "mapped_name k u = Inr mapped"
      "account_quota_available (ac_extra r) (se_now env)"
    using assms by (auto simp: fitting_def Let_def upstream_of_def split: if_splits sum.splits option.splits)
  moreover have "ua_id u = cd_id c" using load_account_id [OF r(1)] r(2) by (simp add: upstream_of_def)
  ultimately show thesis using that by blast
qed

lemma choose_accountD:
  assumes "choose_account env g model inp exclude binding sticky catalog profit_checked socket s = (s', Chosen sel)" "no_debt s"
  obtains k pre c post where
    "choice_rules_of env g model inp exclude binding catalog profit_checked socket = Inr k"
    "order_candidates s (preferred_pool k) (live_sticky env sticky)
      (list_candidates (se_listed env) (se_now env) (gg_id (routing_group g)) (gg_platform (gi_group g))) = pre @ c # post"
    "took env k s s' c sel" "\<forall>d \<in> set pre. passed_over env k s d"
proof -
  obtain k where k: "choice_rules_of env g model inp exclude binding catalog profit_checked socket = Inr k"
      "choose_from env k None s (order_candidates s (preferred_pool k) (live_sticky env sticky)
        (list_candidates (se_listed env) (se_now env) (gg_id (routing_group g)) (gg_platform (gi_group g)))) = (s', Chosen sel)"
    using assms(1) by (auto simp: choose_account_def split: sum.splits)
  then show thesis using choose_from_cases [OF k(2) assms(2)] that [OF k(1)] by auto
qed

lemma choice_rules_fields:
  assumes "choice_rules_of env g model inp exclude binding catalog profit_checked socket = Inr k"
  shows "rl_identity k = g" "rl_request k = inp" "rl_exclude k = exclude" "rl_binding k = binding" "rl_socket k = socket"
    "rl_threshold k = (if profit_checked then profit_threshold g (tq_protocol inp) (tq_count_only inp) else None)"
  using assms by (auto simp: choice_rules_of_def result_iff)

text \<open>Property C13: A chosen account may serve the request and holds exactly one more slot. It is a
  schedulable key account of the routing group and the platform, was not excluded, is the one the request or its
  WebSocket is bound to, speaks a protocol the request converts to, is granted every file, vector store and skill the
  request names, has quota left, is within the profit gate at the rate the request is charged by, and had a free
  slot.\<close>
theorem chosen_account_eligible:
  assumes "choose_account env g model inp exclude binding sticky catalog profit_checked socket s = (s', Chosen sel)"
    and "no_debt s"
  shows "\<exists>r0 p r. (r0, p) \<in> set (group_rows (se_listed env) (gg_id (routing_group g))) \<and>
    ac_platform r0 = gg_platform (gi_group g) \<and> ac_type r0 = ''apikey'' \<and> schedulable (se_now env) r0 \<and>
    load_account (se_read env (ac_id r0)) (ac_id r0) = Inr r \<and> sn_account sel = Some (upstream_of r) \<and>
    ac_id r0 \<notin> set exclude \<and>
    (\<forall>b. binding = Some b \<longrightarrow> rb_account b = ac_id r0 \<and>
      rb_target b = response_target (se_digest env) (se_marshal env) (upstream_of r)) \<and>
    (\<forall>k. socket = Some k \<longrightarrow> socket_eligible (se_digest env) (se_marshal env) k (upstream_of r)) \<and>
    protocol_matches inp (socket \<noteq> None) (upstream_of r) \<and> allows_openai_protocol (upstream_of r) (tq_protocol inp) \<and>
    allows_response_resources (se_digest env) (se_marshal env) (upstream_of r) ''response_files'' (gk_group (gi_key g)) (tq_file_ids inp) \<and>
    allows_response_resources (se_digest env) (se_marshal env) (upstream_of r) ''response_vector_stores'' (gk_group (gi_key g)) (tq_vector_stores inp) \<and>
    allows_response_resources (se_digest env) (se_marshal env) (upstream_of r) ''response_skills'' (gk_group (gi_key g)) (tq_skill_ids inp) \<and>
    account_quota_available (ac_extra r) (se_now env) \<and>
    (profit_checked \<longrightarrow> profit_allows (profit_threshold g (tq_protocol inp) (tq_count_only inp)) (sn_rate sel)) \<and>
    active s (''account'', ac_id r0) < ac_concurrency r0 \<and>
    active s' = (active s)((''account'', ac_id r0) := active s (''account'', ac_id r0) + 1)"
proof -
  from choose_accountD [OF assms] obtain k pre c post where
    k: "choice_rules_of env g model inp exclude binding catalog profit_checked socket = Inr k"
    and cs: "order_candidates s (preferred_pool k) (live_sticky env sticky)
      (list_candidates (se_listed env) (se_now env) (gg_id (routing_group g)) (gg_platform (gi_group g))) = pre @ c # post"
    and took: "took env k s s' c sel" by metis
  note fields = choice_rules_fields [OF k]
  obtain u mapped rate where t: "fitting env k c = Some (u, mapped)" "profit_allows (rl_threshold k) rate"
      "sel = selected k u rate mapped" "active s (''account'', ua_id u) < cd_concurrency c"
      "active s' = (active s)((''account'', ua_id u) := active s (''account'', ua_id u) + 1)"
    using took unfolding took_def by blast
  from fittingD [OF t(1)] obtain r where r: "load_account (se_read env (cd_id c)) (cd_id c) = Inr r" "u = upstream_of r"
      "ua_id u = cd_id c" "cd_id c \<notin> set (rl_exclude k)" "\<And>b. rl_binding k = Some b \<Longrightarrow> rb_account b = cd_id c"
      "account_fits env k u" "account_quota_available (ac_extra r) (se_now env)" by metis
  have "c \<in> with_load s ` set (list_candidates (se_listed env) (se_now env) (gg_id (routing_group g)) (gg_platform (gi_group g)))"
    using arg_cong [OF cs, of set] by simp
  then obtain c0 where c0: "c = with_load s c0"
      "c0 \<in> set (list_candidates (se_listed env) (se_now env) (gg_id (routing_group g)) (gg_platform (gi_group g)))" by blast
  from c0(2) obtain r0 p where r0: "(r0, p) \<in> set (group_rows (se_listed env) (gg_id (routing_group g)))"
      "ac_platform r0 = gg_platform (gi_group g)" "ac_type r0 = ''apikey''" "schedulable (se_now env) r0"
      "cd_id c0 = ac_id r0" "cd_concurrency c0 = ac_concurrency r0"
    by (auto simp: list_candidates_def)
  then have same: "cd_id c = ac_id r0" "cd_concurrency c = ac_concurrency r0" using c0(1) by (simp_all add: with_load_def Let_def)
  show ?thesis
    by (rule exI [of _ r0], rule exI [of _ p], rule exI [of _ r])
      (use r0(1-4) r t same fields in \<open>auto simp: selected_def account_fits_def resources_allowed_def Let_def split: if_splits\<close>)
qed

text \<open>Property C14: A choice that ends without an account, because none fits, all are busy, the gateway
  is stopping or the database fails, holds no slot: every counter is what it was before, those of accounts whose
  slot was taken for a second look at their rate included.\<close>
theorem failed_choice_holds_nothing:
  assumes "choose_account env g model inp exclude binding sticky catalog profit_checked socket s = (s', r)"
    and "\<And>sel. r \<noteq> Chosen sel" "no_debt s"
  shows "active s' = active s"
proof (cases "choice_rules_of env g model inp exclude binding catalog profit_checked socket")
  case (Inl e)
  with assms(1) show ?thesis by (simp add: choose_account_def)
next
  case (Inr k)
  with assms(1) have "choose_from env k None s (order_candidates s (preferred_pool k) (live_sticky env sticky)
        (list_candidates (se_listed env) (se_now env) (gg_id (routing_group g)) (gg_platform (gi_group g)))) = (s', r)"
    by (simp add: choose_account_def)
  from choose_from_cases [OF this assms(3)] assms(2) show ?thesis by (auto simp: same_slots_def)
qed

text \<open>Property C17: The choice follows the order the operator asked for. Every candidate that comes
  before the chosen one, because it is in the pool the routing rules prefer, is the account the session sticks
  to, has a better priority or, at the same priorities, a smaller load, was passed over for a reason: it does not
  fit, its slots are full, or its rate no longer passes the profit gate.\<close>
theorem choice_follows_order:
  assumes "choose_account env g model inp exclude binding sticky catalog profit_checked socket s = (s', Chosen sel)"
    and "no_debt s" "choice_rules_of env g model inp exclude binding catalog profit_checked socket = Inr k"
  shows "\<exists>c \<in> with_load s ` set (list_candidates (se_listed env) (se_now env) (gg_id (routing_group g)) (gg_platform (gi_group g))).
    took env k s s' c sel \<and>
    (\<forall>d \<in> with_load s ` set (list_candidates (se_listed env) (se_now env) (gg_id (routing_group g)) (gg_platform (gi_group g))).
      choice_key (preferred_pool k) (live_sticky env sticky) d < choice_key (preferred_pool k) (live_sticky env sticky) c \<longrightarrow>
      passed_over env k s d)"
proof -
  let ?cs = "list_candidates (se_listed env) (se_now env) (gg_id (routing_group g)) (gg_platform (gi_group g))"
  from choose_accountD [OF assms(1,2)] assms(3) obtain pre c post where
    cs: "order_candidates s (preferred_pool k) (live_sticky env sticky) ?cs = pre @ c # post"
    and c: "took env k s s' c sel" "\<forall>d \<in> set pre. passed_over env k s d" by (metis sum.inject(2))
  have members: "with_load s ` set ?cs = set (pre @ c # post)" using arg_cong [OF cs, of set] by simp
  note sorted = order_candidates_sorted [of "preferred_pool k" "live_sticky env sticky" s "se_listed env" "se_now env"
    "gg_id (routing_group g)" "gg_platform (gi_group g)", unfolded cs]
  have "passed_over env k s d" if "d \<in> set (pre @ c # post)"
      "choice_key (preferred_pool k) (live_sticky env sticky) d < choice_key (preferred_pool k) (live_sticky env sticky) c" for d
    using earlier_if_smaller [OF sorted that] c(2) by blast
  then show ?thesis unfolding members using c(1) by auto
qed


section \<open>An example\<close>

text \<open>Two accounts of one group at the same priorities; the routing rules prefer the second.\<close>

definition sample_account :: "int \<Rightarrow> account_row" where
  "sample_account i = new_account i (first_input\<lparr>ai_extra := None\<rparr>)"

definition two_accounts :: account_db where
  "two_accounts = \<lparr>ad_accounts = [sample_account 1, sample_account 2], ad_groups = [(1, 3, 50), (2, 3, 50)],
     ad_plans = [], ad_next = 3, ad_records = []\<rparr>"

definition sample_choice_env :: "failure option \<Rightarrow> select_env" where
  "sample_choice_env fault = \<lparr>se_digest = id, se_marshal = (\<lambda>_. ''h''), se_now = 0, se_channels = [],
     se_listed = two_accounts, se_read = (\<lambda>_. two_accounts), se_again = (\<lambda>_. two_accounts), se_fault = (\<lambda>_. fault)\<rparr>"

definition sample_request :: text_request where
  "sample_request = \<lparr>tq_protocol = ''responses'', tq_model = ''gpt-5-mini'', tq_action = [], tq_background = False,
     tq_native_compaction = False, tq_item_references = [], tq_count_only = False, tq_hosted_search = False,
     tq_hosted_tool_search = False, tq_native_client_tools = False, tq_native_programmatic = False, tq_native_mcp = False,
     tq_native_code = False, tq_native_file_search = False, tq_vector_stores = [], tq_file_ids = [], tq_skill_ids = [],
     tq_response_image = False\<rparr>"

definition sample_choice :: "failure option \<Rightarrow> slots \<times> choice" where
  "sample_choice fault = choose_account (sample_choice_env fault) sample_identity ''gpt-5-mini'' sample_request [] None None None
     True None fresh_slots"

definition chosen_of :: "choice \<Rightarrow> selection option" where
  "chosen_of r = (case r of Chosen sel \<Rightarrow> Some sel | _ \<Rightarrow> None)"

lemma fresh_no_debt: "no_debt fresh_slots"
  by (simp add: no_debt_def fresh_slots_def active_def tally_of_def)

lemma sample_chosen: "\<exists>sel. sample_choice None = (fst (sample_choice None), Chosen sel)"
proof -
  have "chosen_of (snd (sample_choice None)) \<noteq> None" by code_simp
  then show ?thesis by (cases "sample_choice None") (auto simp: chosen_of_def split: choice.splits)
qed

theorem chosen_account_eligible_witness:
  "\<exists>i :: int. active fresh_slots (''account'', i) = 0 \<and> active (fst (sample_choice None)) (''account'', i) = 1"
proof -
  obtain sel where sel: "sample_choice None = (fst (sample_choice None), Chosen sel)" using sample_chosen by blast
  have zero: "active fresh_slots x = 0" for x by (simp add: fresh_slots_def active_def tally_of_def)
  obtain r0 :: account_row where "active (fst (sample_choice None)) =
      (active fresh_slots)((''account'', ac_id r0) := active fresh_slots (''account'', ac_id r0) + 1)"
    using chosen_account_eligible [OF sel [unfolded sample_choice_def [of None]] fresh_no_debt, folded sample_choice_def]
    by (elim exE conjE) (rule that)
  then have "active fresh_slots (''account'', ac_id r0) = 0 \<and> active (fst (sample_choice None)) (''account'', ac_id r0) = 1"
    using zero by simp
  then show ?thesis by blast
qed

theorem failed_choice_holds_nothing_witness:
  "active (fst (sample_choice (Some (Internal ''database'')))) = active fresh_slots"
proof -
  let ?r = "sample_choice (Some (Internal ''database''))"
  have "chosen_of (snd ?r) = None" by code_simp
  then have "snd ?r \<noteq> Chosen sel" for sel by (auto simp: chosen_of_def)
  moreover have "?r = (fst ?r, snd ?r)" by simp
  ultimately show ?thesis
    using failed_choice_holds_nothing [of "sample_choice_env (Some (Internal ''database''))" sample_identity
        "''gpt-5-mini''" sample_request "[]" None None None True None fresh_slots "fst ?r" "snd ?r"] fresh_no_debt
    by (simp add: sample_choice_def)
qed

theorem choice_follows_order_witness:
  "\<exists>k sel c. took (sample_choice_env None) k fresh_slots (fst (sample_choice None)) c sel \<and> preferred_pool k = [2]"
proof -
  let ?rules = "choice_rules_of (sample_choice_env None) sample_identity ''gpt-5-mini'' sample_request [] None None True None"
  obtain sel where sel: "sample_choice None = (fst (sample_choice None), Chosen sel)" using sample_chosen by blast
  have "map_sum id preferred_pool ?rules = Inr [2]" by code_simp
  then obtain k where k: "?rules = Inr k" "preferred_pool k = [2]" by (cases ?rules) auto
  from choice_follows_order [OF sel [unfolded sample_choice_def [of None]] fresh_no_debt k(1)] k(2) show ?thesis
    unfolding sample_choice_def by blast
qed

end
