(* ===== verification/Json_Text.thy ===== *)
theory Json_Text
  imports Json Go_Text "HOL-Library.List_Lexorder" "HOL-Library.Char_ord"
begin

text \<open>
  The text of JSON values and their decoding into Go values, as \<open>json.Unmarshal\<close> does it. \<open>parse_json\<close> reads one
  value with the grammar and the nesting limit of \<open>encoding/json\<close>; invalid UTF-8 and lone surrogates become the
  replacement character. A decoder takes the value that is decoded and the present value of its target.
\<close>

section \<open>Parsing\<close>

definition json_space :: "char \<Rightarrow> bool" where
  "json_space c \<longleftrightarrow> List.member [CHR '' '', CHR 0x09, CHR 0x0A, CHR 0x0D] c"

abbreviation skip_space :: "string \<Rightarrow> string" where
  "skip_space \<equiv> dropWhile json_space"

definition hex_value :: "char \<Rightarrow> nat option" where
  "hex_value c = (let n = of_char c :: nat in
     if byte_in 48 57 c then Some (n - 48) else if byte_in 97 102 c then Some (n - 87)
     else if byte_in 65 70 c then Some (n - 55) else None)"

fun code_unit :: "string \<Rightarrow> nat option" where
  "code_unit (a # b # c # d # _) = (case (hex_value a, hex_value b, hex_value c, hex_value d) of
     (Some a, Some b, Some c, Some d) \<Rightarrow> Some (((a * 16 + b) * 16 + c) * 16 + d)
   | _ \<Rightarrow> None)"
| "code_unit _ = None"

definition encode_rune :: "nat \<Rightarrow> string" where
  "encode_rune n =
     (if n < 128 then [char_of n]
      else if n < 2048 then [char_of (192 + n div 64), char_of (128 + n mod 64)]
      else if n < 65536 then [char_of (224 + n div 4096), char_of (128 + n div 64 mod 64), char_of (128 + n mod 64)]
      else [char_of (240 + n div 262144), char_of (128 + n div 4096 mod 64), char_of (128 + n div 64 mod 64),
        char_of (128 + n mod 64)])"

text \<open>What follows \<open>\u\<close>: the rune and how many characters it takes.\<close>

definition escaped_rune :: "string \<Rightarrow> (string \<times> nat) option" where
  "escaped_rune s = (case code_unit s of
     None \<Rightarrow> None
   | Some u \<Rightarrow>
       (if 0xD800 \<le> u \<and> u < 0xE000
        then (case (if take 2 (drop 4 s) = [CHR 0x5C, CHR ''u''] then code_unit (drop 6 s) else None) of
            Some l \<Rightarrow> (if u < 0xDC00 \<and> 0xDC00 \<le> l \<and> l < 0xE000
              then Some (encode_rune (0x10000 + (u - 0xD800) * 1024 + (l - 0xDC00)), 10) else Some (replacement_rune, 4))
          | None \<Rightarrow> Some (replacement_rune, 4))
        else Some (encode_rune u, 4)))"

definition short_escape :: "char \<Rightarrow> char option" where
  "short_escape c = assoc [(CHR 0x22, CHR 0x22), (CHR 0x5C, CHR 0x5C), (CHR ''/'', CHR ''/''), (CHR ''b'', CHR 0x08),
     (CHR ''f'', CHR 0x0C), (CHR ''n'', CHR 0x0A), (CHR ''r'', CHR 0x0D), (CHR ''t'', CHR 0x09)] c"

text \<open>The text after an opening quote, and what follows the closing one.\<close>

function string_rest :: "string \<Rightarrow> (string \<times> string) option" where
  "string_rest [] = None"
| "string_rest (c # s) =
     (if c = CHR 0x22 then Some ([], s)
      else if c = CHR 0x5C
      then (case s of
          [] \<Rightarrow> None
        | e # t \<Rightarrow>
            (if e = CHR ''u''
             then (case escaped_rune t of
                 None \<Rightarrow> None
               | Some (r, n) \<Rightarrow> map_option (apfst ((@) r)) (string_rest (drop n t)))
             else (case short_escape e of
                 None \<Rightarrow> None
               | Some r \<Rightarrow> map_option (apfst ((#) r)) (string_rest t))))
      else if byte_in 0 31 c then None
      else (let w = rune_width (c # s) in
        map_option (apfst ((@) (if w = 0 then replacement_rune else take w (c # s)))) (string_rest (drop (max 1 w) (c # s)))))"
  by pat_completeness auto
termination
  by (relation "measure length") auto

definition number_char :: "char \<Rightarrow> bool" where
  "number_char c \<longleftrightarrow> is_digit c \<or> List.member ''+-.eE'' c"

text \<open>The fuel is spent once per call; every second call consumes a character, so \<open>parse_json\<close> gives enough. The first
  number is the nesting that is still allowed.\<close>

fun parse_value :: "nat \<Rightarrow> nat \<Rightarrow> string \<Rightarrow> (json \<times> string) option"
  and parse_elements :: "nat \<Rightarrow> nat \<Rightarrow> string \<Rightarrow> (json list \<times> string) option"
  and parse_members :: "nat \<Rightarrow> nat \<Rightarrow> string \<Rightarrow> ((string \<times> json) list \<times> string) option" where
  "parse_value d 0 s = None"
| "parse_value d (Suc f) s = (case skip_space s of
     [] \<Rightarrow> None
   | c # t \<Rightarrow>
       (if c = CHR 0x22 then map_option (apfst JStr) (string_rest t)
        else if c = CHR ''['' then
          (if d = 0 then None
           else (case skip_space t of
               e # u \<Rightarrow> if e = CHR '']'' then Some (JArr [], u) else map_option (apfst JArr) (parse_elements (d - 1) f t)
             | [] \<Rightarrow> None))
        else if c = CHR ''{'' then
          (if d = 0 then None
           else (case skip_space t of
               e # u \<Rightarrow> if e = CHR ''}'' then Some (JObj [], u) else map_option (apfst JObj) (parse_members (d - 1) f t)
             | [] \<Rightarrow> None))
        else if has_prefix (c # t) ''true'' then Some (JBool True, drop 3 t)
        else if has_prefix (c # t) ''false'' then Some (JBool False, drop 4 t)
        else if has_prefix (c # t) ''null'' then Some (JNull, drop 3 t)
        else (let n = takeWhile number_char (c # t) in
          if parse_number n = None then None else Some (JNum n, dropWhile number_char (c # t)))))"
| "parse_elements d 0 s = None"
| "parse_elements d (Suc f) s = (case parse_value d f s of
     None \<Rightarrow> None
   | Some (j, t) \<Rightarrow> (case skip_space t of
       [] \<Rightarrow> None
     | c # u \<Rightarrow> if c = CHR '','' then map_option (apfst ((#) j)) (parse_elements d f u)
               else if c = CHR '']'' then Some ([j], u) else None))"
| "parse_members d 0 s = None"
| "parse_members d (Suc f) s = (case skip_space s of
     [] \<Rightarrow> None
   | q # k \<Rightarrow>
       (if q \<noteq> CHR 0x22 then None
        else (case string_rest k of
          None \<Rightarrow> None
        | Some (name, r) \<Rightarrow> (case skip_space r of
            [] \<Rightarrow> None
          | c # r \<Rightarrow>
              (if c \<noteq> CHR '':'' then None
               else (case parse_value d f r of
                   None \<Rightarrow> None
                 | Some (j, t) \<Rightarrow> (case skip_space t of
                     [] \<Rightarrow> None
                   | c # u \<Rightarrow>
                       (if c = CHR '','' then map_option (apfst ((#) (name, j))) (parse_members d f u)
                        else if c = CHR ''}'' then Some ([(name, j)], u) else None))))))))"

definition parse_json :: "string \<Rightarrow> json option" where
  "parse_json s = (case parse_value 10000 (2 * length s + 2) s of
     None \<Rightarrow> None | Some (j, t) \<Rightarrow> if skip_space t = [] then Some j else None)"


section \<open>Decoding\<close>

type_synonym 'a decoder = "json \<Rightarrow> 'a \<Rightarrow> 'a option"

fun dec_string :: "string decoder" where
  "dec_string JNull v = Some v"
| "dec_string (JStr s) v = Some s"
| "dec_string _ v = None"

fun dec_bool :: "bool decoder" where
  "dec_bool JNull v = Some v"
| "dec_bool (JBool b) v = Some b"
| "dec_bool _ v = None"

text \<open>\<open>strconv.ParseInt(s, 10, 64)\<close>.\<close>

definition parse_int64 :: "string \<Rightarrow> int option" where
  "parse_int64 s =
     (let digits = (case s of c # t \<Rightarrow> if c = CHR ''-'' \<or> c = CHR ''+'' then t else s | [] \<Rightarrow> s);
          n = (if has_prefix s ''-'' then - int (text_nat digits) else int (text_nat digits)) in
      if digits = [] \<or> \<not> list_all is_digit digits \<or> n < - (2 ^ 63) \<or> 2 ^ 63 \<le> n then None else Some n)"

fun dec_int :: "int decoder" where
  "dec_int JNull v = Some v"
| "dec_int j v = as_int j"

fun dec_json :: "json decoder" where
  "dec_json j v = Some j"

text \<open>A pointer: \<open>null\<close> makes it nil, another value goes into the value it points to, or a new one.\<close>

definition dec_pointer :: "'a \<Rightarrow> 'a decoder \<Rightarrow> 'a option decoder" where
  "dec_pointer zero dec j v = (if j = JNull then Some None
     else map_option Some (dec j (case v of None \<Rightarrow> zero | Some a \<Rightarrow> a)))"

text \<open>A slice: an element is decoded into the one that was at its place.\<close>

fun dec_elements :: "'a \<Rightarrow> 'a decoder \<Rightarrow> json list \<Rightarrow> 'a list \<Rightarrow> 'a list option" where
  "dec_elements zero dec [] v = Some []"
| "dec_elements zero dec (e # es) v = (case dec e (case v of [] \<Rightarrow> zero | a # _ \<Rightarrow> a) of
     None \<Rightarrow> None
   | Some a \<Rightarrow> map_option ((#) a) (dec_elements zero dec es (tl v)))"

fun dec_list :: "'a \<Rightarrow> 'a decoder \<Rightarrow> 'a list decoder" where
  "dec_list zero dec JNull v = Some []"
| "dec_list zero dec (JArr js) v = dec_elements zero dec js v"
| "dec_list zero dec _ v = None"

text \<open>A struct: a key goes to the field of its name, or else to the one whose name differs in case only.\<close>

definition field_for :: "(string \<times> 'r decoder) list \<Rightarrow> string \<Rightarrow> 'r decoder option" where
  "field_for fs k = (case assoc fs k of
     Some d \<Rightarrow> Some d
   | None \<Rightarrow> map_option snd (find (\<lambda>f. equal_fold (fst f) k) fs))"

fun dec_fields :: "(string \<times> 'r decoder) list \<Rightarrow> (string \<times> json) list \<Rightarrow> 'r \<Rightarrow> 'r option" where
  "dec_fields fs [] v = Some v"
| "dec_fields fs ((k, j) # kvs) v = (case field_for fs k of
     None \<Rightarrow> dec_fields fs kvs v
   | Some d \<Rightarrow> (case d j v of None \<Rightarrow> None | Some v' \<Rightarrow> dec_fields fs kvs v'))"

fun dec_struct :: "(string \<times> 'r decoder) list \<Rightarrow> 'r decoder" where
  "dec_struct fs JNull v = Some v"
| "dec_struct fs (JObj kvs) v = dec_fields fs kvs v"
| "dec_struct fs _ v = None"

text \<open>The decoder of a field, from the decoder of its value.\<close>

definition field :: "('r \<Rightarrow> 'a) \<Rightarrow> ('a \<Rightarrow> 'r \<Rightarrow> 'r) \<Rightarrow> 'a decoder \<Rightarrow> 'r decoder" where
  "field get put_back dec j r = map_option (\<lambda>a. put_back a r) (dec j (get r))"


section \<open>Writing\<close>

text \<open>\<open>json.Marshal\<close> of a string, which also escapes the characters that HTML gives a meaning, and of a decoded value:
  the keys of an object are written once and in order.\<close>

definition escaped_byte :: "char \<Rightarrow> string" where
  "escaped_byte c = (let n = of_char c :: nat in ''00'' @ map (\<lambda>h. if h < 10 then char_of (48 + h) else char_of (87 + h)) [n div 16, n mod 16])"

definition marshal_piece :: "string \<Rightarrow> string" where
  "marshal_piece p = (let esc = CHR 0x5C in
     if \<not> valid_piece p then esc # ''ufffd''
     else case p of
       [c] \<Rightarrow>
         (if c = CHR 0x22 \<or> c = esc then [esc, c]
          else (case assoc [(CHR 0x08, CHR ''b''), (CHR 0x0C, CHR ''f''), (CHR 0x0A, CHR ''n''), (CHR 0x0D, CHR ''r''), (CHR 0x09, CHR ''t'')] c of
            Some e \<Rightarrow> [esc, e]
          | None \<Rightarrow> if byte_in 0 31 c \<or> List.member ''<>&'' c then esc # CHR ''u'' # escaped_byte c else [c]))
     | _ \<Rightarrow> (if p = [CHR 0xE2, CHR 0x80, CHR 0xA8] then esc # ''u2028''
            else if p = [CHR 0xE2, CHR 0x80, CHR 0xA9] then esc # ''u2029'' else p))"

definition marshal_string :: "string \<Rightarrow> string" where
  "marshal_string s = [CHR 0x22] @ concat (map marshal_piece (pieces s)) @ [CHR 0x22]"

fun join_with :: "string \<Rightarrow> string list \<Rightarrow> string" where
  "join_with sep [] = []"
| "join_with sep [x] = x"
| "join_with sep (x # xs) = x @ sep @ join_with sep xs"

definition marshal_object :: "(string \<times> string) list \<Rightarrow> string" where
  "marshal_object kvs = ''{'' @ join_with '','' (map (\<lambda>(k, v). marshal_string k @ '':'' @ v) kvs) @ ''}''"

definition map_entries :: "(string \<times> 'a) list \<Rightarrow> (string \<times> 'a) list" where
  "map_entries kvs = sort_key fst (AList.clearjunk (rev kvs))"

primrec marshal_json :: "json \<Rightarrow> string" where
  "marshal_json JNull = ''null''"
| "marshal_json (JBool b) = (if b then ''true'' else ''false'')"
| "marshal_json (JNum n) = n"
| "marshal_json (JStr s) = marshal_string s"
| "marshal_json (JArr js) = ''['' @ join_with '','' (map marshal_json js) @ '']''"
| "marshal_json (JObj kvs) = marshal_object (map_entries (map (map_prod id marshal_json) kvs))"

end
