(* ===== verification/Runtime_Settings.thy ===== *)
theory Runtime_Settings
  imports Civil_Time Json_Text
begin

text \<open>
  Settings that administrators change while the program runs, \<open>internal/app/runtime_settings.go\<close> with the stream
  timeouts of \<open>internal/app/stream_timeout.go\<close>: the table \<open>settings\<close> holds one JSON text per key, a malformed text
  counts as missing, and what is read is brought into its bounds. A table that is \<open>None\<close> is a database that failed.
  Also here: the limit of the administration panel, a fixed window per bucket in a Redis counter, and \<open>retryAfterSeconds\<close>.
  \<open>http_date\<close> is \<open>http.ParseTime\<close>.
\<close>

section \<open>The table\<close>

type_synonym settings = "(string \<times> string) list"

text \<open>\<open>Inr None\<close> is a value that is missing or malformed.\<close>

definition read_runtime_setting :: "settings option \<Rightarrow> string \<Rightarrow> 'a decoder \<Rightarrow> 'a \<Rightarrow> 'a option result" where
  "read_runtime_setting db key dec zero = (case db of
     None \<Rightarrow> Inl (Internal ''database'')
   | Some t \<Rightarrow> Inr (case assoc t key of
       None \<Rightarrow> None
     | Some raw \<Rightarrow> if has_prefix (trim_space raw) ''{'' then Option.bind (parse_json raw) (\<lambda>j. dec j zero) else None))"

text \<open>A loader returns a value in any case, and the error of the database beside it.\<close>

definition load_setting ::
  "settings option \<Rightarrow> string \<Rightarrow> 'a decoder \<Rightarrow> 'a \<Rightarrow> 'a \<Rightarrow> ('a \<Rightarrow> 'a) \<Rightarrow> 'a \<times> failure option" where
  "load_setting db key dec zero fallback bound = (case read_runtime_setting db key dec zero of
     Inl e \<Rightarrow> (fallback, Some e)
   | Inr None \<Rightarrow> (fallback, None)
   | Inr (Some s) \<Rightarrow> (bound s, None))"

definition write_runtime_setting :: "settings option \<Rightarrow> string \<Rightarrow> string \<Rightarrow> settings result" where
  "write_runtime_setting db key raw = (case db of
     None \<Rightarrow> Inl (Internal ''database'') | Some t \<Rightarrow> Inr (put key raw t))"

definition clamp :: "int \<Rightarrow> int \<Rightarrow> int \<Rightarrow> int" where
  "clamp lo hi n = min (max n lo) hi"

definition bool_text :: "bool \<Rightarrow> string" where
  "bool_text b = (if b then ''true'' else ''false'')"


section \<open>Cooldowns\<close>

text \<open>\<open>overloadSettings\<close> and \<open>rate429Settings\<close> have the same shape: a switch and an amount.\<close>

record cooldown =
  co_enabled :: bool
  co_amount :: int

definition cooldown_fields :: "string \<Rightarrow> (string \<times> cooldown decoder) list" where
  "cooldown_fields amount =
     [(''enabled'', field co_enabled (\<lambda>v r. r\<lparr>co_enabled := v\<rparr>) dec_bool),
      (amount, field co_amount (\<lambda>v r. r\<lparr>co_amount := v\<rparr>) dec_int)]"

definition overload_setting :: string where "overload_setting = ''overload_cooldown_settings''"

definition rate429_setting :: string where "rate429_setting = ''rate_limit_429_cooldown_settings''"

definition load_overload_settings :: "settings option \<Rightarrow> cooldown \<times> failure option" where
  "load_overload_settings db =
     load_setting db overload_setting (dec_struct (cooldown_fields ''cooldown_minutes'')) \<lparr>co_enabled = False, co_amount = 0\<rparr>
       \<lparr>co_enabled = True, co_amount = 10\<rparr> (\<lambda>s. s\<lparr>co_amount := clamp 1 120 (co_amount s)\<rparr>)"

definition load_rate429_settings :: "settings option \<Rightarrow> cooldown \<times> failure option" where
  "load_rate429_settings db =
     load_setting db rate429_setting (dec_struct (cooldown_fields ''cooldown_seconds'')) \<lparr>co_enabled = False, co_amount = 0\<rparr>
       \<lparr>co_enabled = True, co_amount = 5\<rparr> (\<lambda>s. s\<lparr>co_amount := clamp 1 7200 (co_amount s)\<rparr>)"

definition cooldown_text :: "string \<Rightarrow> cooldown \<Rightarrow> string" where
  "cooldown_text amount s = marshal_object [(''enabled'', bool_text (co_enabled s)), (amount, int_text (co_amount s))]"

text \<open>The PUT handlers; \<open>None\<close> is the body \<open>null\<close>.\<close>

definition cooldown_config ::
  "string \<Rightarrow> string \<Rightarrow> int \<Rightarrow> int \<Rightarrow> string \<Rightarrow> settings option \<Rightarrow> cooldown option \<Rightarrow> (settings \<times> cooldown) result" where
  "cooldown_config key amount hi usual message db inp = (case inp of
     None \<Rightarrow> Inl (bad ''settings must be an object'')
   | Some s \<Rightarrow>
       (let outside = co_amount s < 1 \<or> hi < co_amount s in
        if outside \<and> co_enabled s then Inl (bad message)
        else (let s = (if outside then s\<lparr>co_amount := usual\<rparr> else s) in
          and_then (write_runtime_setting db key (cooldown_text amount s)) (\<lambda>t. Inr (t, s)))))"

definition overload_config :: "settings option \<Rightarrow> cooldown option \<Rightarrow> (settings \<times> cooldown) result" where
  "overload_config = cooldown_config overload_setting ''cooldown_minutes'' 120 10 ''cooldown_minutes must be between 1 and 120''"

definition rate429_config :: "settings option \<Rightarrow> cooldown option \<Rightarrow> (settings \<times> cooldown) result" where
  "rate429_config = cooldown_config rate429_setting ''cooldown_seconds'' 7200 5 ''cooldown_seconds must be between 1 and 7200''"


section \<open>Stream timeouts\<close>

record stream_settings =
  st_enabled :: bool
  st_action :: string
  st_minutes :: int
  st_count :: int
  st_window :: int

definition stream_timeout_setting :: string where "stream_timeout_setting = ''stream_timeout_settings''"

definition stream_fields :: "(string \<times> stream_settings decoder) list" where
  "stream_fields =
     [(''enabled'', field st_enabled (\<lambda>v r. r\<lparr>st_enabled := v\<rparr>) dec_bool),
      (''action'', field st_action (\<lambda>v r. r\<lparr>st_action := v\<rparr>) dec_string),
      (''temp_unsched_minutes'', field st_minutes (\<lambda>v r. r\<lparr>st_minutes := v\<rparr>) dec_int),
      (''threshold_count'', field st_count (\<lambda>v r. r\<lparr>st_count := v\<rparr>) dec_int),
      (''threshold_window_minutes'', field st_window (\<lambda>v r. r\<lparr>st_window := v\<rparr>) dec_int)]"

definition stream_action :: "string \<Rightarrow> bool" where
  "stream_action a \<longleftrightarrow> List.member [''temp_unsched'', ''error'', ''none''] a"

definition bound_stream :: "stream_settings \<Rightarrow> stream_settings" where
  "bound_stream s = s\<lparr>st_minutes := clamp 1 60 (st_minutes s), st_count := clamp 1 10 (st_count s),
     st_window := clamp 1 60 (st_window s), st_action := (if stream_action (st_action s) then st_action s else ''temp_unsched'')\<rparr>"

definition load_stream_timeout_settings :: "settings option \<Rightarrow> stream_settings \<times> failure option" where
  "load_stream_timeout_settings db =
     load_setting db stream_timeout_setting (dec_struct stream_fields)
       \<lparr>st_enabled = False, st_action = [], st_minutes = 0, st_count = 0, st_window = 0\<rparr>
       \<lparr>st_enabled = False, st_action = ''temp_unsched'', st_minutes = 5, st_count = 3, st_window = 10\<rparr> bound_stream"

definition stream_text :: "stream_settings \<Rightarrow> string" where
  "stream_text s = marshal_object [(''enabled'', bool_text (st_enabled s)), (''action'', marshal_string (st_action s)),
     (''temp_unsched_minutes'', int_text (st_minutes s)), (''threshold_count'', int_text (st_count s)),
     (''threshold_window_minutes'', int_text (st_window s))]"

definition stream_timeout_config :: "settings option \<Rightarrow> stream_settings option \<Rightarrow> (settings \<times> stream_settings) result" where
  "stream_timeout_config db inp = (case inp of
     None \<Rightarrow> Inl (bad ''temp_unsched_minutes and threshold_window_minutes must be 1 to 60; threshold_count must be 1 to 10'')
   | Some s \<Rightarrow>
       (if st_minutes s < 1 \<or> 60 < st_minutes s \<or> st_count s < 1 \<or> 10 < st_count s \<or> st_window s < 1 \<or> 60 < st_window s
          then Inl (bad ''temp_unsched_minutes and threshold_window_minutes must be 1 to 60; threshold_count must be 1 to 10'')
        else if \<not> stream_action (st_action s) then Inl (bad ''action must be temp_unsched, error or none'')
        else and_then (write_runtime_setting db stream_timeout_setting (stream_text s)) (\<lambda>t. Inr (t, s))))"

text \<open>\<open>parseStreamIntervals\<close>, in nanoseconds; an empty text stands for the default.\<close>

definition stream_interval :: "string \<Rightarrow> int \<Rightarrow> int \<Rightarrow> int \<Rightarrow> int result" where
  "stream_interval raw fallback low high =
     (case (if raw = [] then Some fallback else parse_int64 raw) of
        None \<Rightarrow> Inl (Internal ''stream data interval'')
      | Some n \<Rightarrow> if raw \<noteq> [] \<and> n \<noteq> 0 \<and> (n < low \<or> high < n) then Inl (Internal ''stream data interval'') else Inr (n * second))"

definition parse_stream_intervals :: "string \<Rightarrow> string \<Rightarrow> (int \<times> int) result" where
  "parse_stream_intervals text_raw image_raw =
     and_then (stream_interval text_raw 180 30 300) (\<lambda>t.
     and_then (stream_interval image_raw 900 60 1800) (\<lambda>i. Inr (t, i)))"


section \<open>Counters in Redis\<close>

text \<open>A counter has its value and perhaps the instant at which it expires.\<close>

type_synonym counters = "(string \<times> int \<times> instant option) list"

definition live_counter :: "counters \<Rightarrow> instant \<Rightarrow> string \<Rightarrow> (int \<times> instant option) option" where
  "live_counter cs now key = (case assoc cs key of
     Some (n, Some e) \<Rightarrow> if now < e then Some (n, Some e) else None
   | c \<Rightarrow> c)"

text \<open>The scripts: increment, and let a counter without an expiry expire after \<open>ttl\<close>. They return the count and
  the time that is left.\<close>

definition increment_window :: "counters \<Rightarrow> instant \<Rightarrow> string \<Rightarrow> int \<Rightarrow> int \<times> int \<times> counters" where
  "increment_window cs now key ttl =
     (let (n, e) = (case live_counter cs now key of
            Some (n, Some e) \<Rightarrow> (n + 1, e) | Some (n, None) \<Rightarrow> (n + 1, now + ttl) | None \<Rightarrow> (1, now + ttl))
      in (n, e - now, put key (n, Some e) cs))"


section \<open>The limit of the panel\<close>

record panel_settings =
  ps_enabled :: bool
  ps_user :: int
  ps_heavy :: int
  ps_exempt :: bool
  ps_public :: int

definition default_panel_rate :: panel_settings where
  "default_panel_rate = \<lparr>ps_enabled = True, ps_user = 240, ps_heavy = 60, ps_exempt = True, ps_public = 300\<rparr>"

definition panel_setting :: string where "panel_setting = ''panel_rate_limit_settings''"

definition panel_fields :: "(string \<times> panel_settings decoder) list" where
  "panel_fields =
     [(''enabled'', field ps_enabled (\<lambda>v r. r\<lparr>ps_enabled := v\<rparr>) dec_bool),
      (''user_rpm'', field ps_user (\<lambda>v r. r\<lparr>ps_user := v\<rparr>) dec_int),
      (''heavy_rpm'', field ps_heavy (\<lambda>v r. r\<lparr>ps_heavy := v\<rparr>) dec_int),
      (''exempt_admin'', field ps_exempt (\<lambda>v r. r\<lparr>ps_exempt := v\<rparr>) dec_bool),
      (''public_ip_rpm'', field ps_public (\<lambda>v r. r\<lparr>ps_public := v\<rparr>) dec_int)]"

definition load_panel_settings :: "settings option \<Rightarrow> panel_settings \<times> failure option" where
  "load_panel_settings db =
     load_setting db panel_setting (dec_struct panel_fields)
       \<lparr>ps_enabled = False, ps_user = 0, ps_heavy = 0, ps_exempt = False, ps_public = 0\<rparr> default_panel_rate
       (\<lambda>s. s\<lparr>ps_user := clamp 0 100000 (ps_user s), ps_heavy := clamp 0 100000 (ps_heavy s),
         ps_public := clamp 0 100000 (ps_public s)\<rparr>)"

definition panel_text :: "panel_settings \<Rightarrow> string" where
  "panel_text s = marshal_object [(''enabled'', bool_text (ps_enabled s)), (''user_rpm'', int_text (ps_user s)),
     (''heavy_rpm'', int_text (ps_heavy s)), (''exempt_admin'', bool_text (ps_exempt s)), (''public_ip_rpm'', int_text (ps_public s))]"

text \<open>The cached policy with the instant at which it is read again. The configuration replaces it.\<close>

type_synonym panel_cache = "(panel_settings \<times> instant) option"

definition panel_config ::
  "instant \<Rightarrow> settings option \<Rightarrow> panel_settings option \<Rightarrow> (settings \<times> panel_cache \<times> panel_settings) result" where
  "panel_config now db inp = (case inp of
     None \<Rightarrow> Inl (bad ''settings must be an object'')
   | Some s \<Rightarrow>
       (if list_ex (\<lambda>n. n < 0 \<or> 100000 < n) [ps_user s, ps_heavy s, ps_public s]
          then Inl (bad ''rate limits must be between 0 and 100000'')
        else and_then (write_runtime_setting db panel_setting (panel_text s)) (\<lambda>t.
          Inr (t, Some (s, now + 60 * second), s))))"

definition cached_panel_settings :: "instant \<Rightarrow> settings option \<Rightarrow> panel_cache \<Rightarrow> panel_settings \<times> panel_cache" where
  "cached_panel_settings now db cache =
     (let fresh = (case load_panel_settings db of
            (s, None) \<Rightarrow> (s, now + 60 * second)
          | (s, Some _) \<Rightarrow> (case cache of Some (old, _) \<Rightarrow> (old, now + 5 * second) | None \<Rightarrow> (s, now + 5 * second)))
      in case cache of
           Some (s, expires) \<Rightarrow> if now < expires then (s, cache) else (fst fresh, Some fresh)
         | None \<Rightarrow> (fst fresh, Some fresh))"

definition panel_bucket_ttl :: int where "panel_bucket_ttl = 60 * second"

text \<open>A user with its role, and the canonical text of the client's address when it is a public one.\<close>

definition panel_buckets ::
  "panel_settings \<Rightarrow> string \<Rightarrow> (int \<times> string) option \<Rightarrow> string option \<Rightarrow> (string \<times> int) list" where
  "panel_buckets s path user ip = (case user of
     Some (uid, _) \<Rightarrow>
       (''global:user:'' @ int_text uid, ps_user s) #
       (if has_prefix path ''/api/v1/usage'' \<or> has_prefix path ''/api/v1/user/api-keys/'' \<and> has_suffix path ''/usage/daily''
        then [(''heavy:user:'' @ int_text uid, ps_heavy s)] else [])
   | None \<Rightarrow> (case ip of None \<Rightarrow> [] | Some ip \<Rightarrow> [(''public:ip:'' @ ip, ps_public s)]))"

text \<open>The loop over the buckets: the seconds to wait when one is exhausted. A counter that cannot be reached lets the
  request pass; \<open>up\<close> says for which keys it can.\<close>

fun take_buckets ::
  "(string \<Rightarrow> bool) \<Rightarrow> instant \<Rightarrow> counters \<Rightarrow> (string \<times> int) list \<Rightarrow> counters \<times> int option" where
  "take_buckets up now cs [] = (cs, None)"
| "take_buckets up now cs ((name, rpm) # bs) =
     (let key = ''lite-api:panel:'' @ name in
      if rpm = 0 \<or> \<not> up key then take_buckets up now cs bs
      else (case increment_window cs now key panel_bucket_ttl of
        (n, left, cs') \<Rightarrow>
          (if rpm < n then (cs', Some ((max 1 (left div 1000000) + 999) div 1000))
           else take_buckets up now cs' bs)))"

definition panel_rate_limit ::
  "(string \<Rightarrow> bool) \<Rightarrow> instant \<Rightarrow> settings option \<Rightarrow> string \<Rightarrow> (int \<times> string) option \<Rightarrow> string option \<Rightarrow>
   panel_cache \<Rightarrow> counters \<Rightarrow> panel_cache \<times> counters \<times> int option" where
  "panel_rate_limit up now db path user ip cache cs =
     (if user = None \<and> path \<noteq> ''/api/v1/settings/public'' \<and> path \<noteq> ''/api/v1/model-plaza'' then (cache, cs, None)
      else (case cached_panel_settings now db cache of (s, cache') \<Rightarrow>
        (if \<not> ps_enabled s \<or> (case user of Some (_, role) \<Rightarrow> role = ''admin'' \<and> ps_exempt s | None \<Rightarrow> False)
           then (cache', cs, None)
         else (cache', take_buckets up now cs (panel_buckets s path user ip)))))"


section \<open>Retry-After\<close>

definition retry_after_seconds :: "(string \<Rightarrow> instant option) \<Rightarrow> string \<Rightarrow> instant \<Rightarrow> int \<Rightarrow> int" where
  "retry_after_seconds http_date raw now limit =
     (let raw = trim_space raw in
      case parse_int64 raw of
        Some n \<Rightarrow> (if 0 < n then min n limit
          else (case http_date raw of
            Some t \<Rightarrow> if now < t then (min (t - now) (limit * second) + second - 1) div second else 0 | None \<Rightarrow> 0))
      | None \<Rightarrow> (case http_date raw of
            Some t \<Rightarrow> if now < t then (min (t - now) (limit * second) + second - 1) div second else 0 | None \<Rightarrow> 0))"

end
