(* ===== verification/Account_Health.thy ===== *)
theory Account_Health
  imports Selection Runtime_Settings
begin

text \<open>
  What failures and balance probes do to the state of an upstream account: \<open>markGatewayFailure\<close> of
  \<open>internal/app/settlement.go\<close>, \<open>internal/app/account_balance.go\<close>, \<open>geminiRateLimitSeconds\<close> of
  \<open>internal/app/gemini_quota.go\<close> and \<open>markStreamTimeout\<close> of \<open>internal/app/stream_timeout.go\<close>.

  An update names the account it was decided for and takes effect only when \<open>updated_at\<close> is still the time stamp
  that was loaded; \<open>fresh\<close> says whether it is. \<open>now\<close> is an instant, \<open>http_date\<close> is \<open>http.ParseTime\<close> and \<open>la\<close> the
  zone of Los Angeles. The product in \<open>time.ParseDuration\<close> is exact here, where Go multiplies \<open>float64\<close> numbers.
\<close>

section \<open>Updates\<close>

definition touch :: "int \<Rightarrow> bool \<Rightarrow> (account_row \<Rightarrow> bool) \<Rightarrow> (account_row \<Rightarrow> account_row) \<Rightarrow> account_db \<Rightarrow> account_db" where
  "touch i fresh applies f db = db\<lparr>ad_accounts := map (\<lambda>r.
     if ac_id r = i \<and> fresh \<and> \<not> ac_deleted r \<and> applies r then f r else r) (ad_accounts db)\<rparr>"

text \<open>\<open>GREATEST\<close> of a column that may be null.\<close>

definition later :: "instant option \<Rightarrow> instant \<Rightarrow> instant option" where
  "later t u = Some (case t of None \<Rightarrow> u | Some t \<Rightarrow> max t u)"

definition active_row :: "account_row \<Rightarrow> bool" where
  "active_row r \<longleftrightarrow> ac_status r = ''active''"

definition low_reason :: "account_row \<Rightarrow> bool" where
  "low_reason r \<longleftrightarrow> has_prefix (given (ac_temp_reason r) []) ''cn_balance_low''"


section \<open>Exhausted balances\<close>

record balance_policy =
  bp_enabled :: bool
  bp_threshold :: json_number
  bp_interval :: int

definition parse_balance_policy :: "string \<Rightarrow> string \<Rightarrow> string \<Rightarrow> balance_policy result" where
  "parse_balance_policy enabled threshold minutes =
     and_then (if enabled = [] then Inr True
       else if List.member [''1'', ''t'', ''T'', ''TRUE'', ''true'', ''True''] enabled then Inr True
       else if List.member [''0'', ''f'', ''F'', ''FALSE'', ''false'', ''False''] enabled then Inr False
       else Inl (Internal ''invalid balance check enabled setting'')) (\<lambda>e.
     let t = (if threshold = [] then ''0.5'' else threshold) in
     if \<not> valid_price (Some t) 16 12 then Inl (Internal ''invalid balance threshold'')
     else if minutes = [] then Inr \<lparr>bp_enabled = e, bp_threshold = t, bp_interval = 600 * second\<rparr>
     else (case parse_int64 minutes of
         None \<Rightarrow> Inl (Internal ''balance check interval must be 1 to 1440 minutes'')
       | Some n \<Rightarrow> if n < 1 \<or> 1440 < n then Inl (Internal ''balance check interval must be 1 to 1440 minutes'')
           else Inr \<lparr>bp_enabled = e, bp_threshold = t, bp_interval = n * (60 * second)\<rparr>))"

definition balance_cooldown :: "balance_policy \<Rightarrow> int" where
  "balance_cooldown p = (if bp_interval p \<le> 0 then 1200 * second else 2 * bp_interval p)"

definition cn_payg_platform :: "string \<Rightarrow> bool" where
  "cn_payg_platform p \<longleftrightarrow> List.member [''kimi'', ''deepseek'', ''zhipu'', ''minimax''] p"

definition balance_hints :: "string list" where
  "balance_hints =
     [[CHR 0xE4, CHR 0xBD, CHR 0x99, CHR 0xE9, CHR 0xA2, CHR 0x9D, CHR 0xE4, CHR 0xB8, CHR 0x8D, CHR 0xE8, CHR 0xB6, CHR 0xB3],
      ''insufficient balance'', ''insufficient_credit'', ''balance is not enough'', ''no enough balance'']"

definition balance_failure :: "string \<Rightarrow> int \<Rightarrow> string \<Rightarrow> bool" where
  "balance_failure platform status body \<longleftrightarrow> cn_payg_platform platform \<and>
     (status = 402 \<or> status = 429 \<and> list_ex (contains (to_lower body)) balance_hints)"

text \<open>\<open>markBalanceFailure\<close>.\<close>

definition balance_low_row :: "string \<Rightarrow> int \<Rightarrow> instant \<Rightarrow> account_row \<Rightarrow> account_row" where
  "balance_low_row platform cooldown now r =
     (let open = not_after now (ac_temp_until r) \<or> low_reason r in
      r\<lparr>ac_extra := put (platform @ ''_balance_low'') (JBool True) (ac_extra r),
        ac_temp_until := (if open then Some (now + cooldown div second * second) else ac_temp_until r),
        ac_temp_reason := (if open then Some ''cn_balance_low: upstream reported insufficient balance'' else ac_temp_reason r)\<rparr>)"

definition mark_balance_failure :: "balance_policy \<Rightarrow> instant \<Rightarrow> upstream_account \<Rightarrow> bool \<Rightarrow> account_db \<Rightarrow> account_db" where
  "mark_balance_failure p now u fresh =
     touch (ua_id u) fresh (\<lambda>r. active_row r \<and> ac_schedulable r) (balance_low_row (ua_platform u) (balance_cooldown p) now)"


section \<open>Rate limits of Gemini\<close>

definition unit_nanoseconds :: "(string \<times> int) list" where
  "unit_nanoseconds = [(''ns'', 1), (''us'', 1000), ([CHR 0xC2, CHR 0xB5, CHR ''s''], 1000),
     ([CHR 0xCE, CHR 0xBC, CHR ''s''], 1000), (''ms'', 1000000), (''s'', second), (''m'', 60 * second), (''h'', hour)]"

text \<open>The sum of the parts, each a number with a unit; a sum above \<open>2^63\<close> is an error.\<close>

fun duration_parts :: "nat \<Rightarrow> string \<Rightarrow> int \<Rightarrow> int option" where
  "duration_parts fuel [] d = Some d"
| "duration_parts 0 s d = None"
| "duration_parts (Suc fuel) s d =
     (let whole = takeWhile is_digit s; r = dropWhile is_digit s;
          dotted = has_prefix r ''.''; r = (if dotted then tl r else r);
          frac = (if dotted then takeWhile is_digit r else []); r = (if dotted then dropWhile is_digit r else r);
          name = takeWhile (\<lambda>c. c \<noteq> CHR ''.'' \<and> \<not> is_digit c) r in
      if whole = [] \<and> frac = [] then None
      else (case assoc unit_nanoseconds name of
          None \<Rightarrow> None
        | Some u \<Rightarrow>
            (let v = int (text_nat whole) * u + int (text_nat frac) * u div 10 ^ length frac; d = d + v in
             if 2 ^ 63 < v \<or> 2 ^ 63 < d then None
             else duration_parts fuel (dropWhile (\<lambda>c. c \<noteq> CHR ''.'' \<and> \<not> is_digit c) r) d)))"

definition parse_duration :: "string \<Rightarrow> int option" where
  "parse_duration s =
     (let neg = has_prefix s ''-''; t = (if neg \<or> has_prefix s ''+'' then tl s else s) in
      if t = ''0'' then Some 0 else if t = [] then None
      else (case duration_parts (length t) t 0 of
          None \<Rightarrow> None
        | Some d \<Rightarrow> if neg then Some (- d) else if 2 ^ 63 \<le> d then None else Some d))"

record gemini_detail =
  gd_type :: string
  gd_retry :: string
  gd_reset :: string

record gemini_error =
  ge_message :: string
  ge_details :: "gemini_detail list"

definition gemini_detail_fields :: "(string \<times> gemini_detail decoder) list" where
  "gemini_detail_fields =
     [(''@type'', field gd_type (\<lambda>v r. r\<lparr>gd_type := v\<rparr>) dec_string),
      (''RetryDelay'', field gd_retry (\<lambda>v r. r\<lparr>gd_retry := v\<rparr>) dec_string),
      (''Metadata'', dec_struct [(''QuotaResetDelay'', field gd_reset (\<lambda>v r. r\<lparr>gd_reset := v\<rparr>) dec_string)])]"

definition gemini_error_fields :: "(string \<times> gemini_error decoder) list" where
  "gemini_error_fields =
     [(''Message'', field ge_message (\<lambda>v r. r\<lparr>ge_message := v\<rparr>) dec_string),
      (''Details'', field ge_details (\<lambda>v r. r\<lparr>ge_details := v\<rparr>)
         (dec_list \<lparr>gd_type = [], gd_retry = [], gd_reset = []\<rparr> (dec_struct gemini_detail_fields)))]"

definition gemini_response :: "string \<Rightarrow> gemini_error option" where
  "gemini_response body = Option.bind (parse_json body)
     (\<lambda>j. dec_struct [(''Error'', dec_struct gemini_error_fields)] j \<lparr>ge_message = [], ge_details = []\<rparr>)"

definition ceil_seconds :: "int \<Rightarrow> int" where
  "ceil_seconds d = (d + second - 1) div second"

definition gemini_usage_day :: "zone \<Rightarrow> instant \<Rightarrow> instant \<times> instant" where
  "gemini_usage_day la now = (let start = day_at la now 0 in (start, add_days la start 1))"

definition daily_wait :: "zone \<Rightarrow> instant \<Rightarrow> int" where
  "daily_wait la now = max 1 (ceil_seconds (snd (gemini_usage_day la now) - now))"

definition capped_delay :: "string \<Rightarrow> int \<Rightarrow> int" where
  "capped_delay raw cap = (case parse_duration raw of
     Some d \<Rightarrow> if 0 < d then ceil_seconds (min d cap) else 0 | None \<Rightarrow> 0)"

definition detail_delay :: "gemini_detail \<Rightarrow> int option" where
  "detail_delay d =
     (let n = capped_delay (gd_reset d) day in
      if 0 < n then Some n
      else if gd_type d = ''type.googleapis.com/google.rpc.RetryInfo''
      then (let m = capped_delay (gd_retry d) (900 * second) in if 0 < m then Some m else None)
      else None)"

definition digits_regex :: "string regex" where
  "digits_regex = (let digit = one_of ''0123456789'' in
     Cat (some_of digit) (opt (Cat (one_of ''.'') (some_of digit))))"

definition gemini_retry_in :: "string \<Rightarrow> string option" where
  "gemini_retry_in m = map_option concat (first_capture (word ''please retry in '') digits_regex (word ''s'') (pieces m))"

definition gemini_hint :: "gemini_error \<Rightarrow> int option" where
  "gemini_hint e = (case find_map detail_delay (ge_details e) of
     Some n \<Rightarrow> Some n
   | None \<Rightarrow> (case gemini_retry_in (ge_message e) of
       None \<Rightarrow> None
     | Some m \<Rightarrow> (let n = capped_delay (m @ ''s'') day in if 0 < n then Some n else None)))"

definition max_balance_body :: nat where "max_balance_body = 262144"

definition gemini_rate_limit_seconds ::
  "(string \<Rightarrow> instant option) \<Rightarrow> zone \<Rightarrow> string \<Rightarrow> string \<Rightarrow> instant \<Rightarrow> int" where
  "gemini_rate_limit_seconds http_date la body retry now =
     (let usual = (let n = retry_after_seconds http_date retry now 7200 in if 0 < n then n else daily_wait la now) in
      case (if length body \<le> max_balance_body then gemini_response body else None) of
        None \<Rightarrow> usual
      | Some e \<Rightarrow>
          (if contains (to_lower (ge_message e)) ''per day'' then daily_wait la now
           else (case gemini_hint e of Some n \<Rightarrow> n | None \<Rightarrow> usual)))"


section \<open>Rejected requests\<close>

record health_env =
  he_http_date :: "string \<Rightarrow> instant option"
  he_la :: zone
  he_settings :: "settings option"
  he_policy :: balance_policy
  he_now :: instant

datatype account_effect = Unchanged | Balance_exhausted | Key_rejected | Rate_limited int | Overloaded int

definition failure_effect :: "health_env \<Rightarrow> upstream_account \<Rightarrow> int \<Rightarrow> string \<Rightarrow> string \<Rightarrow> account_effect" where
  "failure_effect env u status retry body =
     (if balance_failure (ua_platform u) status body then Balance_exhausted
      else let seconds = retry_after_seconds (he_http_date env) retry (he_now env) 7200 in
        if status = 401 \<or> status = 403 then Key_rejected
        else if status = 429 then
          (if ua_platform u = ''gemini'' \<and> ua_type u = ''apikey''
             then Rate_limited (gemini_rate_limit_seconds (he_http_date env) (he_la env) body retry (he_now env))
           else if seconds = 0
             then (let s = fst (load_rate429_settings (he_settings env)) in
               if co_enabled s then Rate_limited (co_amount s) else Unchanged)
           else Rate_limited seconds)
        else if status = 529
          then (let s = fst (load_overload_settings (he_settings env)) in
            if co_enabled s then Overloaded (co_amount s * 60) else Unchanged)
        else if status = 502 \<or> status = 503 \<or> status = 504
          then Overloaded (min (if seconds = 0 then 30 else seconds) 3600)
        else Unchanged)"

fun apply_effect :: "health_env \<Rightarrow> upstream_account \<Rightarrow> bool \<Rightarrow> account_effect \<Rightarrow> account_db \<Rightarrow> account_db" where
  "apply_effect env u fresh Unchanged db = db"
| "apply_effect env u fresh Balance_exhausted db = mark_balance_failure (he_policy env) (he_now env) u fresh db"
| "apply_effect env u fresh Key_rejected db =
     touch (ua_id u) fresh active_row
       (\<lambda>r. r\<lparr>ac_status := ''error'', ac_error := Some ''upstream authentication rejected''\<rparr>) db"
| "apply_effect env u fresh (Rate_limited n) db =
     touch (ua_id u) fresh active_row
       (\<lambda>r. r\<lparr>ac_rate_limited := Some (he_now env), ac_rate_reset := later (ac_rate_reset r) (he_now env + n * second)\<rparr>) db"
| "apply_effect env u fresh (Overloaded n) db =
     touch (ua_id u) fresh active_row
       (\<lambda>r. r\<lparr>ac_overload := later (ac_overload r) (he_now env + n * second)\<rparr>) db"

definition mark_gateway_failure ::
  "health_env \<Rightarrow> upstream_account \<Rightarrow> bool \<Rightarrow> int \<Rightarrow> string \<Rightarrow> string \<Rightarrow> account_db \<Rightarrow> account_db" where
  "mark_gateway_failure env u fresh status retry body = apply_effect env u fresh (failure_effect env u status retry body)"


section \<open>Stream timeouts\<close>

text \<open>The generation of an account is its \<open>updated_at\<close> in microseconds. A counter that cannot be reached counts as 1.\<close>

definition stream_timeout_counter :: "int \<Rightarrow> int \<Rightarrow> string" where
  "stream_timeout_counter i generation = ''gateway:stream-timeout:'' @ int_text i @ '':'' @ int_text generation"

definition stream_reason :: "stream_settings \<Rightarrow> int \<Rightarrow> string \<Rightarrow> instant \<Rightarrow> string" where
  "stream_reason s count model now =
     (let until = now + st_minutes s * (60 * second) in
      marshal_object [(''error_message'', marshal_string (''Stream data interval timeout for model: '' @ model)),
        (''matched_keyword'', marshal_string ''stream_timeout''), (''rule_index'', ''-1''), (''status_code'', ''0''),
        (''trigger_count'', int_text count), (''trigger_threshold'', int_text (st_count s)),
        (''trigger_window_minutes'', int_text (st_window s)), (''triggered_at_unix'', int_text (now div second)),
        (''until_unix'', int_text (until div second))])"

definition timed_out_row :: "stream_settings \<Rightarrow> int \<Rightarrow> string \<Rightarrow> instant \<Rightarrow> account_row \<Rightarrow> account_row" where
  "timed_out_row s count model now r =
     (let until = now + st_minutes s * (60 * second) in
      if st_action s = ''error''
      then r\<lparr>ac_status := ''error'',
             ac_error := Some (''Stream data interval timeout (repeated failures) for model: '' @ model)\<rparr>
      else r\<lparr>ac_temp_reason := (if case ac_temp_until r of None \<Rightarrow> True | Some t \<Rightarrow> t < until
               then Some (stream_reason s count model now) else ac_temp_reason r),
             ac_temp_until := later (ac_temp_until r) until\<rparr>)"

definition mark_stream_timeout ::
  "bool \<Rightarrow> settings option \<Rightarrow> instant \<Rightarrow> int \<Rightarrow> int \<Rightarrow> bool \<Rightarrow> string \<Rightarrow> counters \<Rightarrow> account_db \<Rightarrow> counters \<times> account_db" where
  "mark_stream_timeout up settings now i generation fresh model cs db =
     (case load_stream_timeout_settings settings of
        (s, Some _) \<Rightarrow> (cs, db)
      | (s, None) \<Rightarrow>
          (if \<not> st_enabled s \<or> st_action s = ''none'' then (cs, db)
           else let key = stream_timeout_counter i generation;
                    (count, cs) = (if up
                      then (case increment_window cs now key (st_window s * (60 * second)) of (n, _, cs') \<Rightarrow> (n, cs'))
                      else (1, cs)) in
             if count < st_count s then (cs, db)
             else (let applies = (\<lambda>r. active_row r \<and> ac_schedulable r);
                       hit = list_ex (\<lambda>r. ac_id r = i \<and> fresh \<and> \<not> ac_deleted r \<and> applies r) (ad_accounts db) in
               (if hit \<and> up then remove key cs else cs,
                touch i fresh applies (timed_out_row s count model now) db))))"

end
