(* ===== verification/Account_Balance.thy ===== *)
theory Account_Balance
  imports Account_Health
begin

text \<open>
  Balance probes, \<open>internal/app/account_balance.go\<close>: the endpoint of a provider, its answer, the comparison with the
  threshold, the update of the account that was probed and the cycle over all accounts. The exchange with the provider
  is an argument: \<open>None\<close> when it failed, else the status and the body that was read.
\<close>

section \<open>Answers\<close>

record provider_balance =
  pb_provider :: string
  pb_balances :: "(string \<times> json_number) list"
  pb_available :: bool

definition parse_amount :: "json option \<Rightarrow> json_number option" where
  "parse_amount raw = (case raw of
     None \<Rightarrow> None
   | Some j \<Rightarrow> if j = JNull then None
       else Option.bind (as_number j) (\<lambda>n. if valid_price (Some (trim_prefix n ''-'')) 16 12 then Some n else None))"

definition to_upper :: "string \<Rightarrow> string" where
  "to_upper = map upper_char"

fun object_list :: "json option \<Rightarrow> fields list option" where
  "object_list (Some (JArr js)) = those (map (\<lambda>j. map_option (\<lambda>m. given m []) (as_object (Some j))) js)"
| "object_list (Some JNull) = Some []"
| "object_list _ = None"

fun currency_entries :: "string list \<Rightarrow> fields list \<Rightarrow> (string \<times> json_number) list option" where
  "currency_entries seen [] = Some []"
| "currency_entries seen (e # es) = (case parse_amount (assoc e ''total_balance'') of
     None \<Rightarrow> None
   | Some n \<Rightarrow>
       (let c = to_upper (trim_space (credential_string e ''currency'')); c = (if c = [] then ''CNY'' else c) in
        if length c \<noteq> 3 \<or> List.member seen c \<or> \<not> list_all (byte_in 65 90) c then None
        else map_option ((#) (c, n)) (currency_entries (c # seen) es)))"

text \<open>\<open>parseProviderBalance\<close>; \<open>None\<close> is its error.\<close>

definition parse_provider_balance :: "string \<Rightarrow> string \<Rightarrow> provider_balance option" where
  "parse_provider_balance platform raw = (case as_object (parse_json raw) of
     Some (Some body) \<Rightarrow>
       (if platform = ''kimi''
        then (case (assoc body ''code'', as_object (assoc body ''data'')) of
            (Some (JNum code), Some data) \<Rightarrow>
              (if as_int (JNum code) \<noteq> Some 0 then None
               else map_option (\<lambda>n. \<lparr>pb_provider = platform, pb_balances = [(''CNY'', n)], pb_available = True\<rparr>)
                 (parse_amount (assoc (given data []) ''available_balance'')))
          | _ \<Rightarrow> None)
        else if platform = ''deepseek''
        then (case assoc body ''is_available'' of
            Some JNull \<Rightarrow> None
          | available \<Rightarrow> (case (case available of None \<Rightarrow> Some True | Some j \<Rightarrow> dec_bool j True, object_list (assoc body ''balance_infos'')) of
              (Some a, Some entries) \<Rightarrow>
                (if entries = [] \<or> 16 < length entries then None
                 else map_option (\<lambda>bs. \<lparr>pb_provider = platform, pb_balances = bs, pb_available = a\<rparr>) (currency_entries [] entries))
            | _ \<Rightarrow> None))
        else None)
   | _ \<Rightarrow> None)"

definition balance_below :: "provider_balance \<Rightarrow> json_number \<Rightarrow> bool" where
  "balance_below b threshold \<longleftrightarrow> \<not> pb_available b \<or> \<not> list_ex (\<lambda>(_, n). rat_val threshold \<le> rat_val n) (pb_balances b)"


section \<open>Endpoints\<close>

definition balance_account :: "upstream_account \<Rightarrow> bool" where
  "balance_account u \<longleftrightarrow> (let mode = credential_string (ua_credentials u) ''account_mode'' in
     ua_type u = ''apikey'' \<and> (ua_platform u = ''kimi'' \<or> ua_platform u = ''deepseek'') \<and> (mode = [] \<or> mode = ''payg''))"

definition trim_right_slashes :: "string \<Rightarrow> string" where
  "trim_right_slashes s = rev (dropWhile (\<lambda>c. c = CHR ''/'') (rev s))"

definition balance_endpoint :: "(string \<Rightarrow> url option) \<Rightarrow> upstream_account \<Rightarrow> (upstream_account \<times> string) result" where
  "balance_endpoint parse_url u =
     (if \<not> balance_account u then Inl (bad ''this account has no supported pay-as-you-go balance endpoint'')
      else and_then (base_url u) (\<lambda>base.
        let base = trim_suffix (trim_suffix (trim_right_slashes base) ''/anthropic/v1'') ''/anthropic'' in
        and_then (parse_upstream_url parse_url base) (\<lambda>_.
          Inr (u\<lparr>ua_credentials := put ''base_url'' (JStr base)
                 (api_key_request_credentials (ua_credentials u) ''chat_completions'')\<rparr>,
               if ua_platform u = ''kimi'' then ''/v1/users/me/balance'' else ''/user/balance''))))"


section \<open>Probes\<close>

definition balance_delta :: "provider_balance \<Rightarrow> instant \<Rightarrow> fields" where
  "balance_delta b now = map (\<lambda>(k, v). (pb_provider b @ ''_'' @ k, v))
     [(''balance'', JNum (snd (hd (pb_balances b)))), (''balance_currency'', JStr (fst (hd (pb_balances b)))),
      (''balance_available'', JBool (pb_available b)), (''balance_updated_at'', JStr (format_time True now)),
      (''balances'', JArr (map (\<lambda>(c, n). JObj [(''currency'', JStr c), (''balance'', JNum n)]) (pb_balances b))),
      (''balance_low'', JBool False)]"

definition expiry_open :: "instant \<Rightarrow> account_row \<Rightarrow> bool" where
  "expiry_open now r \<longleftrightarrow> \<not> ac_auto_pause r \<or> (case ac_expires r of None \<Rightarrow> True | Some e \<Rightarrow> now < e)"

text \<open>The two \<open>CASE\<close> expressions of the update: a low balance pauses, a sufficient one lifts a pause for a low balance.\<close>

definition balance_pauses :: "instant \<Rightarrow> bool \<Rightarrow> account_row \<Rightarrow> bool" where
  "balance_pauses now low r \<longleftrightarrow> active_row r \<and> ac_schedulable r \<and> expiry_open now r \<and> low \<and>
     (not_after now (ac_temp_until r) \<or> low_reason r) \<and> not_after now (ac_rate_reset r) \<and> not_after now (ac_overload r)"

definition balance_lifts :: "bool \<Rightarrow> account_row \<Rightarrow> bool" where
  "balance_lifts low r \<longleftrightarrow> \<not> low \<and> active_row r \<and> ac_schedulable r \<and> low_reason r"

definition probed_row :: "balance_policy \<Rightarrow> bool \<Rightarrow> provider_balance \<Rightarrow> instant \<Rightarrow> account_row \<Rightarrow> account_row" where
  "probed_row p schedule b now r =
     (let low = balance_below b (bp_threshold p); until = now + balance_cooldown p div second * second in
      r\<lparr>ac_extra := merge_extra (ac_extra r) (balance_delta b now),
        ac_temp_until := (if schedule \<and> balance_pauses now low r then Some until
          else if schedule \<and> balance_lifts low r then None else ac_temp_until r),
        ac_temp_reason := (if schedule \<and> balance_pauses now low r
            then Some ''cn_balance_low: provider balance below configured threshold or unavailable''
          else if schedule \<and> balance_lifts low r then None else ac_temp_reason r)\<rparr>)"

datatype probe_report = Probe_rejected int | Probe_invalid | Probe_stale | Probe_stored provider_balance

text \<open>\<open>probeAccountBalance\<close>. The slot of the probe is given back on every path.\<close>

definition probe_account_balance ::
  "balance_policy \<Rightarrow> (string \<Rightarrow> url option) \<Rightarrow> instant \<Rightarrow> bool \<Rightarrow> upstream_account \<Rightarrow> bool \<Rightarrow>
   (upstream_account \<Rightarrow> string \<Rightarrow> (int \<times> string option) option) \<Rightarrow> slots \<Rightarrow> account_db \<Rightarrow>
   slots \<times> account_db \<times> probe_report result" where
  "probe_account_balance p parse_url now schedule u fresh exchange s db =
     (if sl_lost s then (s, db, Inl (ApiError 503 ''instance lock lost; restart this service''))
      else case balance_endpoint parse_url u of
        Inl e \<Rightarrow> (s, db, Inl e)
      | Inr (account, path) \<Rightarrow> (case take_slot s (''balance-probe'', ua_id u) 1 of
          (False, s') \<Rightarrow> (s', db, Inl (conflict ''an account balance probe is already running''))
        | (True, s') \<Rightarrow>
            (let s'' = release_slot s' (''balance-probe'', ua_id u) in
             case exchange account path of
               None \<Rightarrow> (s'', db, Inl (ApiError 502 ''upstream balance request failed''))
             | Some (status, body) \<Rightarrow>
                 (if status \<noteq> 200 then (s'', db, Inr (Probe_rejected status))
                  else case Option.bind body (\<lambda>raw. if max_balance_body < length raw then None
                      else parse_provider_balance (ua_platform u) raw) of
                    None \<Rightarrow> (s'', db, Inr Probe_invalid)
                  | Some b \<Rightarrow>
                      (s'', touch (ua_id u) fresh (\<lambda>_. True) (probed_row p schedule b now) db,
                       Inr (if fresh \<and> list_ex (\<lambda>r. ac_id r = ua_id u \<and> \<not> ac_deleted r) (ad_accounts db)
                            then Probe_stored b else Probe_stale))))))"


section \<open>The cycle\<close>

text \<open>One page of the keyset pagination, and the accounts the pages of a cycle visit while the table stays as it is.\<close>

definition due_account :: "instant \<Rightarrow> account_row \<Rightarrow> bool" where
  "due_account now r \<longleftrightarrow> \<not> ac_deleted r \<and> active_row r \<and> ac_schedulable r \<and> ac_type r = ''apikey'' \<and>
     (ac_platform r = ''kimi'' \<or> ac_platform r = ''deepseek'') \<and>
     (case assoc (ac_credentials r) ''account_mode'' of
        None \<Rightarrow> True | Some JNull \<Rightarrow> True | Some (JStr m) \<Rightarrow> m = [] \<or> m = ''payg'' | Some _ \<Rightarrow> False) \<and> expiry_open now r"

definition due_page :: "account_db \<Rightarrow> instant \<Rightarrow> int \<Rightarrow> int list" where
  "due_page db now n = take 100 (sort (map ac_id (filter (\<lambda>r. n < ac_id r \<and> due_account now r) (ad_accounts db))))"

lemma due_page_in:
  "i \<in> set (due_page db now n) \<Longrightarrow> \<exists>r \<in> set (ad_accounts db). ac_id r = i \<and> n < i \<and> due_account now r"
  unfolding due_page_def by (drule in_set_takeD) auto

definition due_left :: "account_db \<Rightarrow> int \<Rightarrow> nat" where
  "due_left db n = length (filter (\<lambda>r. n < ac_id r) (ad_accounts db))"

lemma due_left_page:
  assumes "due_page db now n \<noteq> []"
  shows "due_left db (last (due_page db now n)) < due_left db n"
proof -
  let ?l = "last (due_page db now n)"
  obtain r where r: "r \<in> set (ad_accounts db)" "ac_id r = ?l" and "n < ?l"
    using due_page_in [of ?l db now n] assms by auto
  have "filter (\<lambda>r. ?l < ac_id r) (ad_accounts db) = filter (\<lambda>r. ?l < ac_id r) (filter (\<lambda>r. n < ac_id r) (ad_accounts db))"
    using \<open>n < ?l\<close> by (auto intro!: filter_cong)
  moreover have "length (filter (\<lambda>r. ?l < ac_id r) (filter (\<lambda>r. n < ac_id r) (ad_accounts db)))
      < length (filter (\<lambda>r. n < ac_id r) (ad_accounts db))"
    by (rule length_filter_less [of r]) (use r \<open>n < ?l\<close> in auto)
  ultimately show ?thesis by (simp add: due_left_def)
qed

function cycle_ids :: "account_db \<Rightarrow> instant \<Rightarrow> int \<Rightarrow> int list" where
  "cycle_ids db now n = (let page = due_page db now n in if page = [] then [] else page @ cycle_ids db now (last page))"
  by pat_completeness auto
termination
  by (relation "measure (\<lambda>(db, now, n). due_left db n)") (auto simp: due_left_page)

declare cycle_ids.simps [simp del]

text \<open>The probe of one account of the cycle, which reads it again.\<close>

definition cycle_probe ::
  "balance_policy \<Rightarrow> (string \<Rightarrow> url option) \<Rightarrow> instant \<Rightarrow> (int \<Rightarrow> bool) \<Rightarrow>
   (upstream_account \<Rightarrow> string \<Rightarrow> (int \<times> string option) option) \<Rightarrow> slots \<times> account_db \<Rightarrow> int \<Rightarrow> slots \<times> account_db" where
  "cycle_probe p parse_url now fresh exchange sd i = (case sd of (s, db) \<Rightarrow> (case load_account db i of
     Inl _ \<Rightarrow> (s, db)
   | Inr r \<Rightarrow>
       (if active_row r \<and> ac_schedulable r
        then (case probe_account_balance p parse_url now True (upstream_of r) (fresh i) exchange s db of (s', db', _) \<Rightarrow> (s', db'))
        else (s, db))))"

end
