(* ===== verification/Health_Facts.thy ===== *)
theory Health_Facts
  imports Account_Balance Selection_Facts Admission_Facts
begin

text \<open>
  What the health of an account guarantees: a rejected request takes its account out of the choice for a bounded time
  and lets no other account in, a balance probe lifts nothing but a pause for a low balance, one cycle of probes visits
  every due account once, and a stream timeout counts only together with enough others.
\<close>

section \<open>Updates\<close>

lemma touch_rows:
  "ad_accounts (touch i fresh applies f db) = map (\<lambda>r.
     if ac_id r = i \<and> fresh \<and> \<not> ac_deleted r \<and> applies r then f r else r) (ad_accounts db)"
  by (simp add: touch_def)

lemma touch_other_tables [simp]:
  "ad_groups (touch i fresh applies f db) = ad_groups db" "ad_plans (touch i fresh applies f db) = ad_plans db"
  "ad_next (touch i fresh applies f db) = ad_next db" "ad_records (touch i fresh applies f db) = ad_records db"
  by (simp_all add: touch_def)

lemma not_after_later [simp]: "not_after t (later u v) \<longleftrightarrow> not_after t u \<and> v \<le> t"
  by (auto simp: not_after_def later_def split: option.splits)

lemma not_after_Some [simp]: "not_after t (Some u) \<longleftrightarrow> u \<le> t"
  by (simp add: not_after_def)

lemmas schedulable_simps = schedulable_def active_row_def


section \<open>Bounds\<close>

lemma ceil_seconds_pos: "0 < d \<Longrightarrow> 1 \<le> ceil_seconds d"
  by (simp add: ceil_seconds_def second_def)

lemma ceil_seconds_le: "d \<le> n * second \<Longrightarrow> ceil_seconds d \<le> n"
proof -
  assume "d \<le> n * second"
  then have "d + second - 1 < (n + 1) * second" by (simp add: second_def)
  then show "ceil_seconds d \<le> n" by (simp add: ceil_seconds_def second_def)
qed

lemma retry_after_bounds:
  assumes "1 \<le> limit"
  shows "0 \<le> retry_after_seconds http_date raw now limit" "retry_after_seconds http_date raw now limit \<le> limit"
proof -
  have d: "0 \<le> (min (t - now) (limit * second) + second - 1) div second"
      "(min (t - now) (limit * second) + second - 1) div second \<le> limit" if "now < t" for t
  proof -
    have "0 < min (t - now) (limit * second)" using that assms by (simp add: second_def)
    then show "0 \<le> (min (t - now) (limit * second) + second - 1) div second"
      using ceil_seconds_pos by (fastforce simp: ceil_seconds_def)
    show "(min (t - now) (limit * second) + second - 1) div second \<le> limit"
      using ceil_seconds_le [of "min (t - now) (limit * second)" limit] by (simp add: ceil_seconds_def)
  qed
  show "0 \<le> retry_after_seconds http_date raw now limit" "retry_after_seconds http_date raw now limit \<le> limit"
    using assms d by (auto simp: retry_after_seconds_def Let_def split: option.split)
qed

lemma capped_delay_bounds:
  assumes "0 < c"
  shows "0 \<le> capped_delay raw (c * second)" "capped_delay raw (c * second) \<le> c"
proof -
  have "0 \<le> ceil_seconds (min d (c * second)) \<and> ceil_seconds (min d (c * second)) \<le> c" if "0 < d" for d
  proof -
    have "0 < min d (c * second)" using that assms by (simp add: second_def)
    from ceil_seconds_pos [OF this] show ?thesis by (simp add: ceil_seconds_le)
  qed
  then show "0 \<le> capped_delay raw (c * second)" "capped_delay raw (c * second) \<le> c"
    using assms by (auto simp: capped_delay_def split: option.split)
qed

lemma day_seconds: "day = 86400 * second"
  by (simp add: day_def hour_def)

lemma gemini_hint_bounds: "gemini_hint e = Some n \<Longrightarrow> 1 \<le> n \<and> n \<le> 86400"
proof -
  have d: "1 \<le> k \<and> k \<le> 86400" if "detail_delay x = Some k" for x k
    using that capped_delay_bounds(2) [of 86400 "gd_reset x"] capped_delay_bounds(2) [of 900 "gd_retry x"]
    by (auto simp: detail_delay_def Let_def day_seconds split: if_splits)
  assume "gemini_hint e = Some n"
  then show ?thesis
    using d capped_delay_bounds(2) [of 86400]
    by (auto simp: gemini_hint_def Let_def day_seconds dest!: find_map_SomeD split: option.splits if_splits)
qed

lemma gemini_seconds_bounds:
  "1 \<le> gemini_rate_limit_seconds http_date la body retry now"
  "gemini_rate_limit_seconds http_date la body retry now \<le> max 86400 (daily_wait la now)"
proof -
  have u: "1 \<le> n \<and> n \<le> max 86400 (daily_wait la now)"
    if "n = (let n = retry_after_seconds http_date retry now 7200 in if 0 < n then n else daily_wait la now)" for n
    using that retry_after_bounds(2) [of 7200 http_date retry now] by (auto simp: Let_def daily_wait_def)
  have w: "1 \<le> daily_wait la now" by (simp add: daily_wait_def)
  have h: "1 \<le> n \<and> n \<le> max 86400 (daily_wait la now)" if "gemini_hint e = Some n" for e n
    using gemini_hint_bounds [OF that] by (simp add: le_max_iff_disj)
  show "1 \<le> gemini_rate_limit_seconds http_date la body retry now"
    "gemini_rate_limit_seconds http_date la body retry now \<le> max 86400 (daily_wait la now)"
    unfolding gemini_rate_limit_seconds_def using u w h by (auto simp: Let_def split: option.splits)
qed

lemma clamp_bounds: "lo \<le> hi \<Longrightarrow> lo \<le> clamp lo hi n \<and> clamp lo hi n \<le> hi"
  by (auto simp: clamp_def)

lemma loaded_cooldown_bounds:
  "1 \<le> co_amount (fst (load_overload_settings db)) \<and> co_amount (fst (load_overload_settings db)) \<le> 120"
  "1 \<le> co_amount (fst (load_rate429_settings db)) \<and> co_amount (fst (load_rate429_settings db)) \<le> 7200"
  by (auto simp: load_overload_settings_def load_rate429_settings_def load_setting_def clamp_bounds split: sum.split option.split)


section \<open>Rejected requests\<close>

text \<open>How long the effect of a failure keeps an account out; \<open>None\<close> is until an administrator acts.\<close>

fun rest_seconds :: "health_env \<Rightarrow> account_effect \<Rightarrow> int option" where
  "rest_seconds env Unchanged = Some 0"
| "rest_seconds env Balance_exhausted = Some (balance_cooldown (he_policy env) div second)"
| "rest_seconds env Key_rejected = None"
| "rest_seconds env (Rate_limited n) = Some n"
| "rest_seconds env (Overloaded n) = Some n"

definition resting :: "health_env \<Rightarrow> account_effect \<Rightarrow> instant \<Rightarrow> bool" where
  "resting env e t \<longleftrightarrow> (case rest_seconds env e of None \<Rightarrow> True | Some n \<Rightarrow> he_now env \<le> t \<and> t < he_now env + n * second)"

text \<open>The row an effect leaves behind.\<close>

definition effect_row :: "health_env \<Rightarrow> upstream_account \<Rightarrow> bool \<Rightarrow> account_effect \<Rightarrow> account_row \<Rightarrow> account_row" where
  "effect_row env u fresh e r =
     (if ac_id r = ua_id u \<and> fresh \<and> \<not> ac_deleted r \<and> active_row r \<and> (e = Balance_exhausted \<longrightarrow> ac_schedulable r)
      then (case e of
          Unchanged \<Rightarrow> r
        | Balance_exhausted \<Rightarrow> balance_low_row (ua_platform u) (balance_cooldown (he_policy env)) (he_now env) r
        | Key_rejected \<Rightarrow> r\<lparr>ac_status := ''error'', ac_error := Some ''upstream authentication rejected''\<rparr>
        | Rate_limited n \<Rightarrow> r\<lparr>ac_rate_limited := Some (he_now env),
            ac_rate_reset := later (ac_rate_reset r) (he_now env + n * second)\<rparr>
        | Overloaded n \<Rightarrow> r\<lparr>ac_overload := later (ac_overload r) (he_now env + n * second)\<rparr>)
      else r)"

lemma apply_effect_rows: "ad_accounts (apply_effect env u fresh e db) = map (effect_row env u fresh e) (ad_accounts db)"
  by (cases e) (auto simp: touch_rows mark_balance_failure_def effect_row_def intro: map_idI [symmetric])

lemma effect_row_rests:
  assumes "resting env e t" "e \<noteq> Unchanged" "active_row r" "\<not> ac_deleted r" "ac_id r = ua_id u"
    and "e = Balance_exhausted \<Longrightarrow> not_after (he_now env) (ac_temp_until r) \<or> low_reason r"
  shows "\<not> schedulable t (effect_row env u True e r)"
  using assms
  by (cases e)
    (auto simp: effect_row_def balance_low_row_def resting_def schedulable_simps Let_def split: if_splits)

lemma not_after_mono: "not_after s u \<Longrightarrow> s \<le> t \<Longrightarrow> not_after t u"
  by (auto simp: not_after_def split: option.splits)

lemma effect_row_frees_nobody:
  assumes "schedulable t (effect_row env u fresh e r)" "he_now env \<le> t"
  shows "schedulable t r \<or> e = Balance_exhausted \<and> low_reason r"
  using assms not_after_mono [OF _ assms(2), of "ac_temp_until r"]
  by (cases e) (auto simp: effect_row_def balance_low_row_def schedulable_simps Let_def split: if_splits)

lemma group_rows_map:
  assumes "ad_groups db' = ad_groups db" "ad_accounts db' = map f (ad_accounts db)" "\<And>r. ac_id (f r) = ac_id r"
  shows "group_rows db' gid = map (apfst f) (group_rows db gid)"
proof -
  have "filter (\<lambda>r. ac_id r = i) (map f rs) = map f (filter (\<lambda>r. ac_id r = i) rs)" for i rs
    by (simp add: filter_map comp_def assms(3))
  then show ?thesis
    unfolding group_rows_def assms(1,2) map_concat map_map
    by (intro arg_cong [where f = concat] map_cong) (auto simp: comp_def)
qed

lemma listed_ids:
  "cd_id ` set (list_candidates db t gid platform) =
   {ac_id r | r p. (r, p) \<in> set (group_rows db gid) \<and> ac_platform r = platform \<and> ac_type r = ''apikey'' \<and> schedulable t r}"
  by (force simp: list_candidates_def)

lemma group_rows_in: "(r, p) \<in> set (group_rows db gid) \<Longrightarrow> r \<in> set (ad_accounts db)"
  by (auto simp: group_rows_def split: if_splits)

lemma effect_row_keeps [simp]:
  "ac_id (effect_row env u fresh e r) = ac_id r" "ac_platform (effect_row env u fresh e r) = ac_platform r"
  "ac_type (effect_row env u fresh e r) = ac_type r"
  by (cases e; simp add: effect_row_def balance_low_row_def Let_def)+

lemma marked_group_rows:
  "group_rows (mark_gateway_failure env u fresh status retry body db) gid =
   map (apfst (effect_row env u fresh (failure_effect env u status retry body))) (group_rows db gid)"
  unfolding mark_gateway_failure_def
proof (rule group_rows_map)
  show "ad_groups (apply_effect env u fresh e db) = ad_groups db" for e
    by (cases e) (simp_all add: mark_balance_failure_def)
qed (simp_all add: apply_effect_rows)

text \<open>An account that is paused at the moment, and not for its balance.\<close>

definition paused_otherwise :: "health_env \<Rightarrow> account_row \<Rightarrow> bool" where
  "paused_otherwise env r \<longleftrightarrow> \<not> not_after (he_now env) (ac_temp_until r) \<and> \<not> low_reason r"

text \<open>Property C18: A rejection that has an effect takes the account out of the choice, as long as the account has not been
  changed since it was loaded. While the effect lasts (for good when the provider rejected the key, for the computed seconds
  otherwise) the account is in no list of candidates. The exception is an exhausted balance of an account that is
  paused for another reason at that time: that pause keeps its end and its reason, it is neither shortened nor prolonged.\<close>
theorem rejected_account_rests:
  assumes "failure_effect env u status retry body \<noteq> Unchanged"
    and "resting env (failure_effect env u status retry body) t"
  shows "(ua_id u \<notin> cd_id ` set (list_candidates (mark_gateway_failure env u True status retry body db) t gid platform) \<or>
      failure_effect env u status retry body = Balance_exhausted \<and>
        list_ex (\<lambda>r. ac_id r = ua_id u \<and> paused_otherwise env r) (ad_accounts db)) \<and>
    (\<forall>n < length (ad_accounts db). failure_effect env u status retry body = Balance_exhausted \<and>
        paused_otherwise env (ad_accounts db ! n) \<longrightarrow>
      ac_temp_until (ad_accounts (mark_gateway_failure env u True status retry body db) ! n) = ac_temp_until (ad_accounts db ! n) \<and>
      ac_temp_reason (ad_accounts (mark_gateway_failure env u True status retry body db) ! n) = ac_temp_reason (ad_accounts db ! n))"
proof
  let ?e = "failure_effect env u status retry body"
  show "ua_id u \<notin> cd_id ` set (list_candidates (mark_gateway_failure env u True status retry body db) t gid platform) \<or>
      ?e = Balance_exhausted \<and> list_ex (\<lambda>r. ac_id r = ua_id u \<and> paused_otherwise env r) (ad_accounts db)"
  proof (rule ccontr, simp only: de_Morgan_disj not_not, elim conjE)
    assume "ua_id u \<in> cd_id ` set (list_candidates (mark_gateway_failure env u True status retry body db) t gid platform)"
      and none: "\<not> (?e = Balance_exhausted \<and> list_ex (\<lambda>r. ac_id r = ua_id u \<and> paused_otherwise env r) (ad_accounts db))"
    then obtain r p where r: "(r, p) \<in> set (group_rows db gid)" "ac_id r = ua_id u" "schedulable t (effect_row env u True ?e r)"
      by (auto simp: listed_ids marked_group_rows)
    have "active_row r \<and> \<not> ac_deleted r"
      using r(3) by (auto simp: effect_row_def schedulable_simps split: if_splits)
    moreover have "?e = Balance_exhausted \<Longrightarrow> not_after (he_now env) (ac_temp_until r) \<or> low_reason r"
      using none group_rows_in [OF r(1)] r(2) by (auto simp: list_ex_iff paused_otherwise_def)
    ultimately show False using effect_row_rests [OF assms(2,1), of r] r(2,3) by blast
  qed
  show "\<forall>n < length (ad_accounts db). ?e = Balance_exhausted \<and> paused_otherwise env (ad_accounts db ! n) \<longrightarrow>
      ac_temp_until (ad_accounts (mark_gateway_failure env u True status retry body db) ! n) = ac_temp_until (ad_accounts db ! n) \<and>
      ac_temp_reason (ad_accounts (mark_gateway_failure env u True status retry body db) ! n) = ac_temp_reason (ad_accounts db ! n)"
    using apply_effect_rows [of env u True Balance_exhausted db]
    by (auto simp: mark_gateway_failure_def effect_row_def balance_low_row_def paused_otherwise_def Let_def
        simp del: apply_effect.simps)
qed

text \<open>A rejection never lets an account in: whoever is a candidate afterwards was a candidate before, at
  every instant from then on, except that a pause for a low balance may start anew with a shorter cooldown.\<close>

lemma failure_frees_nobody:
  assumes "i \<in> cd_id ` set (list_candidates (mark_gateway_failure env u fresh status retry body db) t gid platform)"
    and "he_now env \<le> t"
    and "failure_effect env u status retry body = Balance_exhausted \<Longrightarrow> \<not> list_ex low_reason (ad_accounts db)"
  shows "i \<in> cd_id ` set (list_candidates db t gid platform)"
proof -
  let ?e = "failure_effect env u status retry body"
  obtain r p where r: "(r, p) \<in> set (group_rows db gid)" "i = ac_id r" "ac_platform r = platform" "ac_type r = ''apikey''"
      "schedulable t (effect_row env u fresh ?e r)"
    using assms(1) by (auto simp: listed_ids marked_group_rows)
  have "\<not> (?e = Balance_exhausted \<and> low_reason r)"
    using assms(3) group_rows_in [OF r(1)] by (auto simp: list_ex_iff)
  then have "schedulable t r" using effect_row_frees_nobody [OF r(5) assms(2)] by blast
  with r show ?thesis by (auto simp: listed_ids)
qed

text \<open>The pause a rejection imposes is never empty and never unbounded, whatever the upstream says and
  whatever is stored in the settings: at most two hours, for Gemini at most a day or the rest of its quota day.\<close>

lemma pauses_bounded:
  "case failure_effect env u status retry body of
     Rate_limited n \<Rightarrow> 1 \<le> n \<and> n \<le> (if ua_platform u = ''gemini'' \<and> ua_type u = ''apikey'' then max 86400 (daily_wait (he_la env) (he_now env)) else 7200)
   | Overloaded n \<Rightarrow> 1 \<le> n \<and> n \<le> 7200
   | _ \<Rightarrow> True"
proof -
  note b = retry_after_bounds [of 7200 "he_http_date env" retry "he_now env", simplified]
  have s: "1 \<le> k \<and> k \<le> 7200" if "k = retry_after_seconds (he_http_date env) retry (he_now env) 7200" "k \<noteq> 0" for k
    using b that by linarith
  have m: "min k (3600 :: int) \<le> 7200" for k by (rule min.coboundedI2) simp
  show ?thesis
    using s m loaded_cooldown_bounds [of "he_settings env"] b gemini_seconds_bounds [of "he_http_date env" "he_la env" body retry "he_now env"]
    by (simp add: failure_effect_def Let_def split: if_splits)
qed


section \<open>Balance probes\<close>

lemma probed_row_schedulable:
  assumes "schedulable t (probed_row p schedule b now r)" "now \<le> t"
  shows "schedulable t r \<or> schedule \<and> active_row r \<and> low_reason r"
proof (cases "schedule \<and> (balance_pauses now (balance_below b (bp_threshold p)) r \<or> balance_lifts (balance_below b (bp_threshold p)) r)")
  case True
  then show ?thesis
    using assms not_after_mono [OF _ assms(2)]
    by (auto simp: probed_row_def schedulable_simps balance_pauses_def balance_lifts_def Let_def split: if_splits)
next
  case False
  then show ?thesis using assms(1) by (auto simp: probed_row_def schedulable_simps Let_def)
qed

lemma probed_row_keeps [simp]:
  "ac_id (probed_row p schedule b now r) = ac_id r" "ac_platform (probed_row p schedule b now r) = ac_platform r"
  "ac_type (probed_row p schedule b now r) = ac_type r"
  by (simp_all add: probed_row_def Let_def)

text \<open>A balance probe enables nobody: an account that is a candidate afterwards was one before, unless the
  scheduled check lifted a pause that itself was imposed for a low balance on that very account. And a probe gives back its slot on
  every path.\<close>

lemma probe_lifts_only_balance_pauses:
  assumes "probe_account_balance p parse_url now schedule u fresh exchange s db = (s', db', report)"
    and "no_debt s" and "now \<le> t"
  shows "cd_id ` set (list_candidates db' t gid platform) \<subseteq> cd_id ` set (list_candidates db t gid platform) \<union>
      (if schedule \<and> list_ex (\<lambda>r. ac_id r = ua_id u \<and> active_row r \<and> low_reason r) (ad_accounts db) then {ua_id u} else {}) \<and>
    active s' = active s"
proof -
  have slots: "active s' = active s"
  proof (cases "take_slot s (''balance-probe'', ua_id u) 1")
    case (Pair taken s1)
    then have "taken \<Longrightarrow> active (release_slot s1 (''balance-probe'', ua_id u)) = active s" and "\<not> taken \<Longrightarrow> s1 = s"
      using take_and_release [OF _ assms(2)] try_slot_False by (auto simp: same_slots_def)
    with Pair show ?thesis using assms(1)
      by (cases taken) (auto simp: probe_account_balance_def Let_def split: if_splits sum.splits option.splits)
  qed
  show ?thesis
  proof (cases "db' = db")
    case False
    then obtain b where db': "db' = touch (ua_id u) fresh (\<lambda>_. True) (probed_row p schedule b now) db"
      using assms(1)
      by (auto simp: probe_account_balance_def Let_def split: if_splits sum.splits option.splits prod.splits bool.splits)
    define f where "f r = (if ac_id r = ua_id u \<and> fresh \<and> \<not> ac_deleted r then probed_row p schedule b now r else r)" for r
    have f [simp]: "ac_id (f r) = ac_id r" "ac_platform (f r) = ac_platform r" "ac_type (f r) = ac_type r" for r by (simp_all add: f_def)
    have rows: "group_rows db' gid = map (apfst f) (group_rows db gid)"
      by (rule group_rows_map) (auto simp: db' touch_rows f_def)
    have "i \<in> cd_id ` set (list_candidates db t gid platform) \<or>
        schedule \<and> i = ua_id u \<and> list_ex (\<lambda>r. ac_id r = ua_id u \<and> active_row r \<and> low_reason r) (ad_accounts db)"
      if i: "i \<in> cd_id ` set (list_candidates db' t gid platform)" for i
    proof -
      obtain r q where r: "(r, q) \<in> set (group_rows db gid)" "i = ac_id r" "ac_platform r = platform" "ac_type r = ''apikey''" "schedulable t (f r)"
        using i by (auto simp: listed_ids rows)
      then have "schedulable t r \<or> schedule \<and> ac_id r = ua_id u \<and> active_row r \<and> low_reason r"
        using probed_row_schedulable [OF _ assms(3)] by (auto simp: f_def split: if_splits)
      with r group_rows_in [OF r(1)] show ?thesis by (auto simp: listed_ids list_ex_iff)
    qed
    with slots show ?thesis by auto
  qed (use slots in simp)
qed

lemma filter_after_page:
  fixes xs :: "'a :: linorder list"
  assumes "sorted xs" "distinct xs" "take k xs \<noteq> []"
  shows "filter (\<lambda>x. last (take k xs) < x) xs = drop k xs"
proof -
  obtain ys y where a: "take k xs = ys @ [y]" using assms(3) by (metis rev_exhaust)
  let ?b = "drop k xs"
  have xs: "xs = ys @ y # ?b" using append_take_drop_id [of k xs] a by simp
  have s: "sorted (ys @ y # ?b)" "distinct (ys @ y # ?b)" using assms(1,2) xs by simp_all
  have "filter (\<lambda>x. y < x) ys = []"
    using s by (fastforce simp: filter_empty_conv sorted_append)
  moreover have "filter (\<lambda>x. y < x) ?b = ?b"
    using s by (auto simp: filter_id_conv sorted_append order_less_le)
  ultimately have "filter (\<lambda>x. y < x) (ys @ y # ?b) = ?b" by simp
  then show ?thesis using a xs by simp
qed

text \<open>The pages of a cycle of balance checks visit every due account above the starting point exactly once, in the
  order of their IDs, however many pages it takes.\<close>

lemma cycle_visits_each_once:
  assumes "distinct (map ac_id (ad_accounts db))"
  shows "cycle_ids db now n = sort (map ac_id (filter (\<lambda>r. n < ac_id r \<and> due_account now r) (ad_accounts db)))"
  using assms
proof (induction db now n rule: cycle_ids.induct)
  case (1 db now n)
  let ?all = "\<lambda>n. sort (map ac_id (filter (\<lambda>r. n < ac_id r \<and> due_account now r) (ad_accounts db)))"
  show ?case
  proof (cases "due_page db now n = []")
    case True
    then have "?all n = []" by (simp add: due_page_def)
    with True show ?thesis by (simp add: cycle_ids.simps [of db now n])
  next
    case False
    let ?l = "last (due_page db now n)"
    have page: "due_page db now n = take 100 (?all n)" by (simp add: due_page_def)
    have "n < ?l" using due_page_in [of ?l db now n] False by auto
    then have "filter (\<lambda>r. ?l < ac_id r \<and> due_account now r) (ad_accounts db) =
        filter (\<lambda>r. ?l < ac_id r) (filter (\<lambda>r. n < ac_id r \<and> due_account now r) (ad_accounts db))"
      by (auto intro!: filter_cong)
    then have "?all ?l = filter (\<lambda>i. ?l < i) (?all n)" by (simp add: filter_sort filter_map comp_def)
    also have "\<dots> = drop 100 (?all n)"
      using filter_after_page [of "?all n" 100] False page 1(2) by (simp add: distinct_map_filter)
    finally show ?thesis using False page 1 by (simp add: cycle_ids.simps [of db now n] Let_def)
  qed
qed


section \<open>Stream timeouts\<close>

definition count_of :: "counters \<Rightarrow> instant \<Rightarrow> string \<Rightarrow> int" where
  "count_of cs t key = (case live_counter cs t key of None \<Rightarrow> 0 | Some (n, _) \<Rightarrow> n)"

lemma increment_counts:
  assumes "\<And>u. count_of cs u key \<le> k" "0 \<le> k"
  shows "fst (increment_window cs t key ttl) \<le> k + 1"
    and "count_of (snd (snd (increment_window cs t key ttl))) u key \<le> k + 1"
  using assms(1) [of t] assms(2)
  by (auto simp: increment_window_def count_of_def Let_def live_counter_def split: option.splits prod.splits if_splits)

text \<open>A run of timeouts of one account in one generation: for each whether Redis could be reached, when it
  happened, whether the account was still as it was loaded, and the model.\<close>

type_synonym timeout = "bool \<times> instant \<times> bool \<times> string"

fun stream_step :: "settings option \<Rightarrow> int \<Rightarrow> int \<Rightarrow> counters \<times> account_db \<Rightarrow> timeout \<Rightarrow> counters \<times> account_db" where
  "stream_step settings i g (cs, db) (up, t, fresh, model) = mark_stream_timeout up settings t i g fresh model cs db"

lemma mark_below_threshold:
  assumes "load_stream_timeout_settings settings = (s, None)" "1 < st_count s"
    and "\<And>u. count_of cs u (stream_timeout_counter i g) \<le> k" "0 \<le> k" "k + 1 < st_count s"
  shows "snd (mark_stream_timeout up settings t i g fresh model cs db) = db"
    and "count_of (fst (mark_stream_timeout up settings t i g fresh model cs db)) u (stream_timeout_counter i g) \<le> k + 1"
proof -
  let ?key = "stream_timeout_counter i g"
  obtain n l cs' where inc: "increment_window cs t ?key (st_window s * (60 * second)) = (n, l, cs')" by (cases "increment_window cs t ?key (st_window s * (60 * second))")
  note b = increment_counts [OF assms(3,4), of t "st_window s * (60 * second)", unfolded inc, simplified]
  have "n < st_count s" using b(1) assms(5) by simp
  moreover have "count_of cs u ?key \<le> k + 1" using assms(3) [of u] by simp
  ultimately show "snd (mark_stream_timeout up settings t i g fresh model cs db) = db"
    and "count_of (fst (mark_stream_timeout up settings t i g fresh model cs db)) u ?key \<le> k + 1"
    using assms(1,2) b(2) by (auto simp: mark_stream_timeout_def inc Let_def)
qed

text \<open>A stream timeout counts only together with enough others: as long as fewer timeouts than the threshold
  have happened in a generation of the account, whenever they came and whether or not the counter could be reached,
  no account is changed.\<close>

lemma few_timeouts_change_nothing:
  assumes "load_stream_timeout_settings settings = (s, None)" "assoc cs (stream_timeout_counter i g) = None"
    and "int (length ts) < st_count s"
  shows "snd (foldl (stream_step settings i g) (cs, db) ts) = db"
proof -
  let ?key = "stream_timeout_counter i g"
  have "snd (foldl (stream_step settings i g) (cs, db) ts) = db \<and>
      (\<forall>u. count_of (fst (foldl (stream_step settings i g) (cs, db) ts)) u ?key \<le> int (length ts))"
    using assms(3)
  proof (induction ts rule: rev_induct)
    case Nil
    then show ?case using assms(2) by (simp add: count_of_def live_counter_def)
  next
    case (snoc x ts)
    obtain cs' where cs': "foldl (stream_step settings i g) (cs, db) ts = (cs', db)"
        "\<And>u. count_of cs' u ?key \<le> int (length ts)"
      using snoc by (cases "foldl (stream_step settings i g) (cs, db) ts") auto
    obtain up t fresh model where x: "x = (up, t, fresh, model)" by (cases x)
    have "1 < st_count s \<or> ts = []" "int (length ts) + 1 < st_count s" using snoc.prems by auto
    then have "1 < st_count s" by auto
    from mark_below_threshold [OF assms(1) this cs'(2)] \<open>int (length ts) + 1 < st_count s\<close>
    show ?case by (simp add: cs'(1) x add.commute)
  qed
  then show ?thesis by simp
qed


section \<open>Examples\<close>

definition sample_health :: health_env where
  "sample_health = \<lparr>he_http_date = (\<lambda>_. None), he_la = fixed_zone (- 25200), he_settings = Some [],
     he_policy = \<lparr>bp_enabled = True, bp_threshold = ''0.5'', bp_interval = 600 * second\<rparr>, he_now = 0\<rparr>"

lemma sample_limited:
  "failure_effect sample_health (upstream_of (sample_account 1)) 429 ''30'' [] = Rate_limited 30"
  by code_simp

theorem rejected_account_rests_witness:
  "(1 :: int) \<notin> cd_id ` set (list_candidates
      (mark_gateway_failure sample_health (upstream_of (sample_account 1)) True 429 ''30'' [] two_accounts) (20 * second) 3 ''openai'') \<and>
   1 \<in> cd_id ` set (list_candidates two_accounts (20 * second) 3 ''openai'')"
proof -
  have "(1 :: int) \<in> cd_id ` set (list_candidates two_accounts (20 * second) 3 ''openai'')" by code_simp
  moreover have "resting sample_health (Rate_limited 30) (20 * second)"
    by (simp add: resting_def sample_health_def second_def)
  moreover have "ua_id (upstream_of (sample_account 1)) = 1" by code_simp
  ultimately show ?thesis
    using rejected_account_rests [of sample_health "upstream_of (sample_account 1)" 429 "''30''" "[]" "20 * second" two_accounts 3 "''openai''"]
    by (simp add: sample_limited)
qed

theorem failure_frees_nobody_witness:
  "(2 :: int) \<in> cd_id ` set (list_candidates two_accounts (20 * second) 3 ''openai'')"
proof -
  have "(2 :: int) \<in> cd_id ` set (list_candidates
      (mark_gateway_failure sample_health (upstream_of (sample_account 1)) True 429 ''30'' [] two_accounts) (20 * second) 3 ''openai'')"
    by code_simp
  moreover have "he_now sample_health \<le> 20 * second" by (simp add: sample_health_def second_def)
  ultimately show ?thesis by (rule failure_frees_nobody) (simp add: sample_limited)
qed

definition kimi_db :: account_db where
  "kimi_db = two_accounts\<lparr>ad_accounts := [(sample_account 1)\<lparr>ac_platform := ''kimi'', ac_temp_until := Some (100 * second),
     ac_temp_reason := Some ''cn_balance_low: upstream reported insufficient balance''\<rparr>, sample_account 2]\<rparr>"

definition kimi_answer :: string where
  "kimi_answer = (let q = [CHR 0x22] in ''{'' @ q @ ''code'' @ q @ '':0,'' @ q @ ''data'' @ q @ '':{'' @ q @ ''available_balance'' @ q @ '':12.5}}'')"

definition kimi_probe :: "slots \<times> account_db \<times> probe_report result" where
  "kimi_probe = probe_account_balance (he_policy sample_health) (ae_parse sample_env) 0 True
     (upstream_of (hd (ad_accounts kimi_db))) True (\<lambda>_ _. Some (200, Some kimi_answer)) fresh_slots kimi_db"

theorem probe_lifts_only_balance_pauses_witness:
  "cd_id ` set (list_candidates (fst (snd kimi_probe)) 0 3 ''kimi'') \<subseteq> {1} \<and> 1 \<in> cd_id ` set (list_candidates (fst (snd kimi_probe)) 0 3 ''kimi'')"
proof -
  have "(1 :: int) \<in> cd_id ` set (list_candidates (fst (snd kimi_probe)) 0 3 ''kimi'')" by code_simp
  moreover have "list_candidates kimi_db 0 3 ''kimi'' = []" and "ua_id (upstream_of (hd (ad_accounts kimi_db))) = 1" by code_simp+
  moreover have "kimi_probe = (fst kimi_probe, fst (snd kimi_probe), snd (snd kimi_probe))" by simp
  note probe_lifts_only_balance_pauses [OF this [unfolded kimi_probe_def [of]] fresh_no_debt order_refl, of 3 "''kimi''"]
  ultimately show ?thesis unfolding kimi_probe_def by (auto split: if_splits)
qed

theorem cycle_visits_each_once_witness:
  "cycle_ids kimi_db 0 0 = sort (map ac_id (filter (\<lambda>r. 0 < ac_id r \<and> due_account 0 r) (ad_accounts kimi_db))) \<and>
   due_page kimi_db 0 0 = [1]"
proof -
  have "distinct (map ac_id (ad_accounts kimi_db))" and "due_page kimi_db 0 0 = [1]" by code_simp+
  then show ?thesis using cycle_visits_each_once by blast
qed

theorem few_timeouts_change_nothing_witness:
  "snd (foldl (stream_step (Some [(stream_timeout_setting, stream_text
      \<lparr>st_enabled = True, st_action = ''error'', st_minutes = 5, st_count = 2, st_window = 10\<rparr>)]) 1 7)
     ([], two_accounts) [(True, 0, True, ''gpt-5-mini'')]) = two_accounts"
proof (rule few_timeouts_change_nothing)
  show "load_stream_timeout_settings (Some [(stream_timeout_setting, stream_text
      \<lparr>st_enabled = True, st_action = ''error'', st_minutes = 5, st_count = 2, st_window = 10\<rparr>)]) =
      (\<lparr>st_enabled = True, st_action = ''error'', st_minutes = 5, st_count = 2, st_window = 10\<rparr>, None)" by code_simp
qed simp_all

end
