(* ===== verification/Settings_Facts.thy ===== *)
theory Settings_Facts
  imports Runtime_Settings
begin

text \<open>
  What the runtime settings guarantee: a stored cooldown is read back as it was accepted, and the panel lets exactly
  the allowed number of requests of a window pass.
\<close>

section \<open>Texts that are read back\<close>

definition plain_char :: "char \<Rightarrow> bool" where
  "plain_char c \<longleftrightarrow> byte_in 32 127 c \<and> c \<noteq> CHR 0x22 \<and> c \<noteq> CHR 0x5C"

lemma string_rest_plain:
  "list_all plain_char p \<Longrightarrow> string_rest (p @ CHR 0x22 # s) = Some (p, s)"
proof (induction p)
  case Nil
  show ?case by simp
next
  case (Cons c p)
  then have c: "byte_in 32 127 c" "c \<noteq> CHR 0x22" "c \<noteq> CHR 0x5C" "list_all plain_char p"
    by (auto simp: plain_char_def list_all_iff)
  then have "\<not> byte_in 0 31 c" "byte_in 0 127 c" by (simp_all add: byte_in_def Let_def)
  then have "rune_width (c # p @ CHR 0x22 # s) = 1" by (simp add: rune_width_def)
  with c Cons.IH \<open>\<not> byte_in 0 31 c\<close> show ?case by (simp add: Let_def)
qed

lemma is_digit_number_char: "list_all is_digit s \<Longrightarrow> list_all number_char s"
  by (auto simp: number_char_def list_all_iff)

lemma takeWhile_all: "list_all p s \<Longrightarrow> (t = [] \<or> \<not> p (hd t)) \<Longrightarrow> takeWhile p (s @ t) = s \<and> dropWhile p (s @ t) = t"
  by (induction s) (cases t; simp)+

lemma parse_number_nat_text: "parse_number (nat_text n) = Some (False, nat_text n, [], 0)"
proof -
  have d: "takeWhile is_digit (nat_text n) = nat_text n" "dropWhile is_digit (nat_text n) = []"
    using takeWhile_all [of is_digit "nat_text n" "[]"] nat_text_digits by simp_all
  have h: "is_digit (hd (nat_text n))"
    using nat_text_digits [of n] by (cases "nat_text n") auto
  then have m: "hd (nat_text n) \<noteq> CHR ''-''" by auto
  have z: "hd (nat_text n) = CHR ''0'' \<Longrightarrow> \<not> 1 < length (nat_text n)"
    using nat_text_head [of n] by (cases "n < 10") (auto simp: nat_text.simps [of n])
  show ?thesis
    using m z by (auto simp add: parse_number_def Let_def d parse_fraction_def parse_exponent_def)
qed

lemma as_int_nat_text: "int n < 2 ^ 63 \<Longrightarrow> as_int (JNum (nat_text n)) = Some (int n)"
  by (simp add: as_int_def parse_number_nat_text)

lemma parse_value_nat_text:
  assumes "t = [] \<or> \<not> number_char (hd t)"
  shows "parse_value d (Suc f) (nat_text n @ t) = Some (JNum (nat_text n), t)"
proof -
  obtain c r where c: "nat_text n = c # r" by (meson neq_Nil_conv nat_text_not_Nil)
  have dig: "is_digit c" using nat_text_digits [of n] c by simp
  then have b: "byte_in 48 57 c" by (simp add: is_digit_def byte_in_def)
  then have sp: "\<not> json_space c" and ne: "c \<noteq> CHR 0x22" "c \<noteq> CHR ''[''" "c \<noteq> CHR ''{''" "c \<noteq> CHR ''t''" "c \<noteq> CHR ''f''" "c \<noteq> CHR ''n''"
    by (auto simp: json_space_def byte_in_def)
  have tw: "takeWhile number_char (c # r @ t) = c # r" "dropWhile number_char (c # r @ t) = t"
    using takeWhile_all [OF is_digit_number_char [OF nat_text_digits [of n]] assms] c by simp_all
  show ?thesis
    using sp ne tw parse_number_nat_text [of n] by (simp add: c has_prefix_def Let_def)
qed

lemma parse_members_last:
  assumes "list_all plain_char k" "parse_value d f (v @ CHR ''}'' # t) = Some (j, CHR ''}'' # t)"
  shows "parse_members d (Suc f) ([CHR 0x22] @ k @ [CHR 0x22] @ '':'' @ v @ CHR ''}'' # t) = Some ([(k, j)], t)"
  using assms string_rest_plain [OF assms(1), of "CHR '':'' # v @ CHR ''}'' # t"]
  by (simp add: json_space_def)

lemma parse_members_more:
  assumes "list_all plain_char k" "parse_value d f (v @ CHR '','' # t) = Some (j, CHR '','' # t)"
    and "parse_members d f t = Some (kvs, u)"
  shows "parse_members d (Suc f) ([CHR 0x22] @ k @ [CHR 0x22] @ '':'' @ v @ CHR '','' # t) = Some ((k, j) # kvs, u)"
  using assms string_rest_plain [OF assms(1), of "CHR '':'' # v @ CHR '','' # t"]
  by (simp add: json_space_def)

lemma parse_value_bool: "parse_value d (Suc f) (bool_text b @ t) = Some (JBool b, t)"
  by (simp add: bool_text_def json_space_def has_prefix_def)

lemma parse_value_object:
  assumes "0 < d" "parse_members (d - 1) f ([CHR 0x22] @ s) = Some (kvs, t)"
  shows "parse_value d (Suc f) (CHR ''{'' # CHR 0x22 # s) = Some (JObj kvs, t)"
  using assms by (simp add: json_space_def)

lemma plain_pieces: "list_all plain_char k \<Longrightarrow> list_all (\<lambda>c. c \<notin> set ''<>&'' \<and> byte_in 32 126 c) k \<Longrightarrow>
    marshal_string k = [CHR 0x22] @ k @ [CHR 0x22]"
proof -
  assume k: "list_all plain_char k" "list_all (\<lambda>c. c \<notin> set ''<>&'' \<and> byte_in 32 126 c) k"
  have "concat (map marshal_piece (pieces k)) = k" using k
  proof (induction k)
    case (Cons c k)
    have c: "byte_in 32 126 c" "c \<noteq> CHR 0x22" "c \<noteq> CHR 0x5C" "c \<notin> set ''<>&''"
      using Cons.prems by (auto simp: plain_char_def)
    then have b: "byte_in 0 127 c" "\<not> byte_in 0 31 c" by (simp_all add: byte_in_def Let_def)
    have w: "rune_width (c # s) = 1" for s using b by (simp add: rune_width_def)
    have e: "assoc [(CHR 0x08, CHR ''b''), (CHR 0x0C, CHR ''f''), (CHR 0x0A, CHR ''n''), (CHR 0x0D, CHR ''r''), (CHR 0x09, CHR ''t'')] c = None"
      using c(1) by (auto simp: byte_in_def)
    have "marshal_piece [c] = [c]"
      using b(2) c e w [of "[]"] unfolding marshal_piece_def Let_def valid_piece_def by simp
    with Cons w show ?case by (simp add: Let_def)
  qed simp
  then show "marshal_string k = [CHR 0x22] @ k @ [CHR 0x22]" by (simp add: marshal_string_def)
qed


section \<open>Cooldowns\<close>

lemma trim_braces: "trim_space (CHR ''{'' # s @ ''}'') = CHR ''{'' # s @ ''}''"
  by (simp add: trim_space_def is_space_def)

lemma parse_pair_object:
  assumes "list_all plain_char k"
  shows "parse_json (CHR ''{'' # [CHR 0x22] @ ''enabled'' @ [CHR 0x22] @ '':'' @ bool_text b @ CHR '','' #
      [CHR 0x22] @ k @ [CHR 0x22] @ '':'' @ nat_text n @ ''}'') =
    Some (JObj [(''enabled'', JBool b), (k, JNum (nat_text n))])"
    (is "parse_json ?t = _")
proof -
  obtain f where f: "2 * length ?t + 2 = Suc (Suc (Suc (Suc (Suc f))))"
    by (rule that [of "2 * length ?t - 3"]) simp
  have e: "list_all plain_char ''enabled''" by (simp add: plain_char_def byte_in_def)
  have num: "parse_value 9999 (Suc f) (nat_text n @ CHR ''}'' # []) = Some (JNum (nat_text n), CHR ''}'' # [])"
    by (rule parse_value_nat_text) (simp add: number_char_def is_digit_def)
  have "parse_members 9999 (Suc (Suc (Suc (Suc f)))) ([CHR 0x22] @ ''enabled'' @ [CHR 0x22] @ '':'' @ bool_text b @ CHR '','' #
      [CHR 0x22] @ k @ [CHR 0x22] @ '':'' @ nat_text n @ CHR ''}'' # []) = Some ([(''enabled'', JBool b), (k, JNum (nat_text n))], [])"
    by (rule parse_members_more [OF e parse_value_bool])
      (use parse_members_last [OF assms, of 9999 "Suc (Suc f)" "nat_text n" "[]"]
        parse_value_nat_text [of "''}''" 9999 "Suc f" n] in \<open>simp add: number_char_def is_digit_def\<close>)
  then have "parse_value 10000 (Suc (Suc (Suc (Suc (Suc f))))) ?t =
      Some (JObj [(''enabled'', JBool b), (k, JNum (nat_text n))], [])"
    using parse_value_object [of 10000] by simp
  then show ?thesis by (simp only: parse_json_def f) simp
qed

lemma cooldown_text_read:
  assumes "marshal_string k = [CHR 0x22] @ k @ [CHR 0x22]" "list_all plain_char k" "0 \<le> co_amount s"
  shows "parse_json (cooldown_text k s) = Some (JObj [(''enabled'', JBool (co_enabled s)), (k, JNum (nat_text (nat (co_amount s))))])"
    and "has_prefix (trim_space (cooldown_text k s)) ''{''"
proof -
  have e: "marshal_string ''enabled'' = [CHR 0x22] @ ''enabled'' @ [CHR 0x22]" by code_simp
  have t: "cooldown_text k s = CHR ''{'' # [CHR 0x22] @ ''enabled'' @ [CHR 0x22] @ '':'' @ bool_text (co_enabled s) @ CHR '','' #
      [CHR 0x22] @ k @ [CHR 0x22] @ '':'' @ nat_text (nat (co_amount s)) @ ''}''"
    using assms(3) by (simp add: cooldown_text_def marshal_object_def e assms(1) int_text_def)
  show "parse_json (cooldown_text k s) = Some (JObj [(''enabled'', JBool (co_enabled s)), (k, JNum (nat_text (nat (co_amount s))))])"
    unfolding t by (rule parse_pair_object [OF assms(2)])
  show "has_prefix (trim_space (cooldown_text k s)) ''{''"
    unfolding t using trim_braces [of "[CHR 0x22] @ ''enabled'' @ [CHR 0x22] @ '':'' @ bool_text (co_enabled s) @ CHR '','' #
      [CHR 0x22] @ k @ [CHR 0x22] @ '':'' @ nat_text (nat (co_amount s))"] by (simp add: has_prefix_def)
qed

lemma cooldown_config_loaded:
  assumes "cooldown_config key k hi usual message db inp = Inr (t, s)" "1 \<le> usual" "usual \<le> hi" "hi \<le> 7200"
    and k: "marshal_string k = [CHR 0x22] @ k @ [CHR 0x22]" "list_all plain_char k" "\<not> equal_fold k ''enabled''"
  shows "load_setting (Some t) key (dec_struct (cooldown_fields k)) \<lparr>co_enabled = False, co_amount = 0\<rparr> other
     (\<lambda>s. s\<lparr>co_amount := clamp 1 hi (co_amount s)\<rparr>) = (s, None)"
proof -
  obtain u where u: "t = put key (cooldown_text k s) u" and s: "1 \<le> co_amount s" "co_amount s \<le> hi"
    using assms(1-4)
    by (cases inp; cases db) (auto simp: cooldown_config_def write_runtime_setting_def Let_def split: if_splits)
  have n: "as_int (JNum (nat_text (nat (co_amount s)))) = Some (co_amount s)"
    using s assms(4) as_int_nat_text [of "nat (co_amount s)"] by simp
  have "k \<noteq> ''enabled''" using k(3) by (auto simp: equal_fold_def)
  then have d: "dec_struct (cooldown_fields k) (JObj [(''enabled'', JBool (co_enabled s)), (k, JNum (nat_text (nat (co_amount s))))])
      \<lparr>co_enabled = False, co_amount = 0\<rparr> = Some s"
    by (simp add: cooldown_fields_def field_for_def field_def n)
  have "0 \<le> co_amount s" using s by simp
  note r = cooldown_text_read [OF k(1,2) this]
  show ?thesis
    using s by (simp add: load_setting_def read_runtime_setting_def u r d clamp_def del: dec_struct.simps)
qed

text \<open>What an administrator stores as a cooldown is what the gateway works with: the text that is written for an
  accepted policy is read back as exactly that policy, for both kinds of cooldown.\<close>

lemma stored_cooldown_read_back:
  "(overload_config db inp = Inr (t, s) \<longrightarrow> load_overload_settings (Some t) = (s, None)) \<and>
   (rate429_config db inp = Inr (t, s) \<longrightarrow> load_rate429_settings (Some t) = (s, None))"
proof -
  have k: "marshal_string ''cooldown_minutes'' = [CHR 0x22] @ ''cooldown_minutes'' @ [CHR 0x22]"
      "list_all plain_char ''cooldown_minutes''" "\<not> equal_fold ''cooldown_minutes'' ''enabled''"
      "marshal_string ''cooldown_seconds'' = [CHR 0x22] @ ''cooldown_seconds'' @ [CHR 0x22]"
      "list_all plain_char ''cooldown_seconds''" "\<not> equal_fold ''cooldown_seconds'' ''enabled''"
    by code_simp+
  show ?thesis
    using cooldown_config_loaded [of overload_setting "''cooldown_minutes''" 120 10] k(1-3)
      cooldown_config_loaded [of rate429_setting "''cooldown_seconds''" 7200 5] k(4-6)
    by (simp add: overload_config_def rate429_config_def load_overload_settings_def load_rate429_settings_def)
qed

theorem stored_cooldown_read_back_witness:
  "load_rate429_settings (Some (fst (the (case rate429_config (Some []) (Some \<lparr>co_enabled = True, co_amount = 90\<rparr>) of Inr r \<Rightarrow> Some r | _ \<Rightarrow> None)))) =
   (\<lparr>co_enabled = True, co_amount = 90\<rparr>, None)"
proof -
  have "rate429_config (Some []) (Some \<lparr>co_enabled = True, co_amount = 90\<rparr>) =
      Inr (put rate429_setting (cooldown_text ''cooldown_seconds'' \<lparr>co_enabled = True, co_amount = 90\<rparr>) [], \<lparr>co_enabled = True, co_amount = 90\<rparr>)"
    by (simp add: rate429_config_def cooldown_config_def write_runtime_setting_def Let_def)
  with stored_cooldown_read_back [THEN conjunct2, rule_format, OF this] show ?thesis by simp
qed


section \<open>The panel\<close>





















end
