(* ===== verification/Error_Rules.thy ===== *)
theory Error_Rules
  imports Gateway Runtime_Settings
begin

text \<open>
  Rules for the errors of upstreams, \<open>internal/app/error_passthrough.go\<close>: their validation and administration, the
  rule that decides about a rejected request, and the message a client may see, in which credentials are blotted out.
\<close>

section \<open>Rules\<close>

record error_rule =
  er_name :: string
  er_enabled :: bool
  er_priority :: int
  er_codes :: "int list"
  er_keywords :: "string list"
  er_mode :: string
  er_platforms :: "string list"
  er_pass_code :: bool
  er_response_code :: "int option"
  er_pass_body :: bool
  er_message :: "string option"
  er_skip :: bool
  er_description :: "string option"

definition nul_free :: "string \<Rightarrow> bool" where
  "nul_free s \<longleftrightarrow> \<not> contains_any s [CHR 0x00]"

definition http_error :: "int \<Rightarrow> bool" where
  "http_error n \<longleftrightarrow> 400 \<le> n \<and> n \<le> 599"

definition validate_error_rule :: "error_rule \<Rightarrow> error_rule result" where
  "validate_error_rule r =
     (if trim_space (er_name r) = [] \<or> \<not> nul_free (er_name r) \<or> 100 < length (pieces (er_name r)) \<or>
         er_priority r < - 2147483648 \<or> 2147483647 < er_priority r \<or> er_mode r \<noteq> ''any'' \<and> er_mode r \<noteq> ''all''
        then Inl (bad ''invalid error rule name, priority or match_mode'')
      else if er_codes r = [] \<and> er_keywords r = [] \<or> 200 < length (er_codes r) \<or> 100 < length (er_keywords r) \<or>
          8 < length (er_platforms r)
        then Inl (bad ''error rule requires bounded status or keyword conditions'')
      else if \<not> list_all http_error (er_codes r) then Inl (bad ''error_codes must be HTTP errors (400 to 599)'')
      else if \<not> list_all (\<lambda>w. trim_space w \<noteq> [] \<and> length w \<le> 512 \<and> nul_free w) (er_keywords r)
        then Inl (bad ''invalid error rule keyword'')
      else let platforms = map (\<lambda>p. to_lower (trim_space p)) (er_platforms r) in
        if \<not> list_all supported_platform platforms then Inl (bad ''unsupported error rule platform'')
        else if (case er_response_code r of Some c \<Rightarrow> \<not> http_error c | None \<Rightarrow> \<not> er_pass_code r)
          then Inl (bad ''response_code must be an HTTP error when overriding status'')
        else if (case er_message r of Some m \<Rightarrow> 4096 < length m \<or> \<not> nul_free m | None \<Rightarrow> False) \<or>
            \<not> er_pass_body r \<and> trim_space (given (er_message r) []) = []
          then Inl (bad ''custom_message is required when overriding the error message (maximum 4096 bytes)'')
        else if (case er_description r of Some d \<Rightarrow> 10000 < length d \<or> \<not> nul_free d | None \<Rightarrow> False)
          then Inl (bad ''invalid error rule description'')
        else Inr (r\<lparr>er_platforms := platforms\<rparr>))"

definition rule_matches :: "error_rule \<Rightarrow> string \<Rightarrow> int \<Rightarrow> string \<Rightarrow> bool" where
  "rule_matches r platform status body \<longleftrightarrow>
     er_enabled r \<and> (er_platforms r = [] \<or> List.member (er_platforms r) (to_lower platform)) \<and>
     (let code = List.member (er_codes r) status; text = to_lower (take 8192 body);
          keyword = list_ex (\<lambda>w. contains text (to_lower w)) (er_keywords r) in
      if er_mode r = ''all''
      then (er_codes r \<noteq> [] \<or> er_keywords r \<noteq> []) \<and> (er_codes r = [] \<or> code) \<and> (er_keywords r = [] \<or> keyword)
      else code \<or> keyword)"


section \<open>Administration\<close>

type_synonym rule_table = "(int \<times> error_rule) list"

record rule_db =
  rd_rules :: rule_table
  rd_next :: int

definition error_rule_fields :: "(string \<times> error_rule decoder) list" where
  "error_rule_fields =
     [(''name'', field er_name (\<lambda>v r. r\<lparr>er_name := v\<rparr>) dec_string),
      (''enabled'', field er_enabled (\<lambda>v r. r\<lparr>er_enabled := v\<rparr>) dec_bool),
      (''priority'', field er_priority (\<lambda>v r. r\<lparr>er_priority := v\<rparr>) dec_int),
      (''error_codes'', field er_codes (\<lambda>v r. r\<lparr>er_codes := v\<rparr>) (dec_list 0 dec_int)),
      (''keywords'', field er_keywords (\<lambda>v r. r\<lparr>er_keywords := v\<rparr>) (dec_list [] dec_string)),
      (''match_mode'', field er_mode (\<lambda>v r. r\<lparr>er_mode := v\<rparr>) dec_string),
      (''platforms'', field er_platforms (\<lambda>v r. r\<lparr>er_platforms := v\<rparr>) (dec_list [] dec_string)),
      (''passthrough_code'', field er_pass_code (\<lambda>v r. r\<lparr>er_pass_code := v\<rparr>) dec_bool),
      (''response_code'', field er_response_code (\<lambda>v r. r\<lparr>er_response_code := v\<rparr>) (dec_pointer 0 dec_int)),
      (''passthrough_body'', field er_pass_body (\<lambda>v r. r\<lparr>er_pass_body := v\<rparr>) dec_bool),
      (''custom_message'', field er_message (\<lambda>v r. r\<lparr>er_message := v\<rparr>) (dec_pointer [] dec_string)),
      (''skip_monitoring'', field er_skip (\<lambda>v r. r\<lparr>er_skip := v\<rparr>) dec_bool),
      (''description'', field er_description (\<lambda>v r. r\<lparr>er_description := v\<rparr>) (dec_pointer [] dec_string))]"

definition new_error_rule :: error_rule where
  "new_error_rule = \<lparr>er_name = [], er_enabled = True, er_priority = 0, er_codes = [], er_keywords = [], er_mode = ''any'',
     er_platforms = [], er_pass_code = True, er_response_code = None, er_pass_body = True, er_message = None,
     er_skip = False, er_description = None\<rparr>"

text \<open>The fields of a request, without those that are null; the empty patch stands for \<open>None\<close> of the body \<open>null\<close>.\<close>

definition rule_patch :: "fields option \<Rightarrow> fields result" where
  "rule_patch body = (case body of
     None \<Rightarrow> Inl (bad ''error rule must be a JSON object'')
   | Some m \<Rightarrow>
       (if \<not> list_all (\<lambda>(k, _). List.member (map fst error_rule_fields) k) m then Inl (bad ''unsupported error rule field'')
        else Inr (filter (\<lambda>(_, v). v \<noteq> JNull) (map_entries m))))"

definition patched_rule :: "error_rule \<Rightarrow> fields \<Rightarrow> error_rule result" where
  "patched_rule r patch = (case dec_struct error_rule_fields (JObj patch) r of
     None \<Rightarrow> Inl (bad ''invalid error rule fields'') | Some r' \<Rightarrow> validate_error_rule r')"

definition create_error_rule :: "fields option \<Rightarrow> rule_db \<Rightarrow> rule_db \<times> error_rule result" where
  "create_error_rule body db =
     (case and_then (rule_patch body) (\<lambda>patch.
        if 500 \<le> length (rd_rules db) then Inl (bad ''maximum 500 error rules'') else patched_rule new_error_rule patch) of
        Inl e \<Rightarrow> (db, Inl e)
      | Inr r \<Rightarrow> (db\<lparr>rd_rules := rd_rules db @ [(rd_next db, r)], rd_next := rd_next db + 1\<rparr>, Inr r))"

definition update_error_rule :: "int \<Rightarrow> fields option \<Rightarrow> rule_db \<Rightarrow> rule_db \<times> error_rule result" where
  "update_error_rule i body db =
     (case and_then (rule_patch body) (\<lambda>patch. case assoc (rd_rules db) i of
          None \<Rightarrow> Inl missing | Some r \<Rightarrow> patched_rule r patch) of
        Inl e \<Rightarrow> (db, Inl e)
      | Inr r \<Rightarrow> (db\<lparr>rd_rules := put i r (rd_rules db)\<rparr>, Inr r))"

definition delete_error_rule :: "int \<Rightarrow> rule_db \<Rightarrow> rule_db \<times> unit result" where
  "delete_error_rule i db =
     (if assoc (rd_rules db) i = None then (db, Inl missing)
      else (db\<lparr>rd_rules := remove i (rd_rules db)\<rparr>, Inr ()))"


section \<open>Messages\<close>

definition redacted :: string where "redacted = ''[redacted]''"

text \<open>\<open>strings.ReplaceAll\<close> of a word that is not empty.\<close>

definition redact_word :: "string \<Rightarrow> string \<Rightarrow> string" where
  "redact_word w s = replace_pairs [(w, redacted)] s"

definition quote_mark :: "string regex" where
  "quote_mark = one_of [CHR 0x22, CHR 0x27]"

definition secret_names :: "string regex" where
  "secret_names = (let sep = opt (one_of ''_-'') in
     ors [cats [word ''api'', sep, word ''key''], cats [word ''access'', sep, word ''token''],
       cats [word ''refresh'', sep, word ''token''], word ''password'', word ''secret'', word ''key'', word ''token''])"

definition secret_value :: "string regex" where
  "secret_value = some_of (One (\<lambda>p. \<not> (case p of [c] \<Rightarrow> List.member (white @ [CHR 0x22, CHR 0x27] @ ''&,;<>'') c | _ \<Rightarrow> False)))"

definition key_piece :: "string \<Rightarrow> bool" where
  "key_piece p \<longleftrightarrow> (case fold_piece p of [c] \<Rightarrow> byte_in 97 122 c \<or> byte_in 48 57 c \<or> c = CHR ''_'' \<or> c = CHR ''-'' | _ \<Rightarrow> False)"

definition error_secret_pattern :: "string regex" where
  "error_secret_pattern =
     Or (Cat (Or (Cat (word ''bearer'') (some_of (one_of white)))
              (cats [secret_names, opt quote_mark, Rep (one_of white), one_of '':='', Rep (one_of white), opt quote_mark]))
          secret_value)
        (cats [word ''sk-'', repeated 8 (One key_piece), Rep (One key_piece)])"

definition clean_error_message :: "string \<Rightarrow> string \<Rightarrow> string" where
  "clean_error_message message key =
     (let m = (if key = [] then message
            else redact_word (path_escape key) (redact_word (query_escape key) (redact_word key message)));
          m = concat (replace_matches error_secret_pattern [redacted] (pieces m))
      in truncate_runes (blank_controls m) 4096)"

definition inner_message :: "string \<Rightarrow> string option" where
  "inner_message m = Option.bind (parse_json m)
     (\<lambda>j. dec_struct [(''Error'', dec_struct [(''Message'', dec_string)])] j [])"

definition upstream_error_message :: "string \<Rightarrow> string \<Rightarrow> string" where
  "upstream_error_message body key =
     (if 262144 < length body then []
      else case as_object (parse_json body) of
        None \<Rightarrow> []
      | Some object \<Rightarrow>
          (let object = given object [];
               nested = (case as_object (assoc object ''error'') of Some (Some m) \<Rightarrow> m | _ \<Rightarrow> []);
               m = credential_string nested ''message'';
               m = (if has_prefix (trim_space m) ''{''
                    then (case inner_message m of Some i \<Rightarrow> if i \<noteq> [] then i else m | None \<Rightarrow> m) else m);
               m = (if trim_space m = [] then credential_string object ''detail'' else m);
               m = (if trim_space m = [] then credential_string object ''message'' else m)
           in clean_error_message m key))"


section \<open>The rule that decides\<close>

record passthrough =
  pe_status :: int
  pe_message :: string
  pe_upstream :: int
  pe_skip :: bool

definition rule_reply :: "error_rule \<Rightarrow> upstream_account \<Rightarrow> bool \<Rightarrow> int \<Rightarrow> string \<Rightarrow> passthrough" where
  "rule_reply r u secrets status body =
     (let m = (if secrets then ''upstream tool request rejected''
            else upstream_error_message body (credential_string (ua_credentials u) ''api_key''));
          m = (if er_pass_body r then m else given (er_message r) [])
      in \<lparr>pe_status = (if er_pass_code r then status else given (er_response_code r) 0),
          pe_message = (if trim_space m = [] then ''upstream request rejected'' else m),
          pe_upstream = status, pe_skip = er_skip r\<rparr>)"

definition rule_order :: "rule_table \<Rightarrow> error_rule list" where
  "rule_order t = map snd (sort_key (\<lambda>(i, r). (er_priority r, i)) (filter (\<lambda>(_, r). er_enabled r) t))"

text \<open>\<open>upstreamError\<close>: \<open>None\<close> stands for the fallback error. The database may fail (\<open>None\<close>); \<open>secrets\<close> says that the
  request carries client secrets.\<close>

definition upstream_error :: "rule_table option \<Rightarrow> upstream_account \<Rightarrow> bool \<Rightarrow> int \<Rightarrow> string \<Rightarrow> passthrough option" where
  "upstream_error table u secrets status body = (case table of
     None \<Rightarrow> None
   | Some t \<Rightarrow>
       (if \<not> http_error status \<or> 500 < length (rule_order t) then None
        else map_option (\<lambda>r. rule_reply r u secrets status body)
          (find_map (\<lambda>r. case validate_error_rule r of
             Inl _ \<Rightarrow> None | Inr r \<Rightarrow> if rule_matches r (ua_platform u) status body then Some r else None) (rule_order t))))"

end
