(* ===== verification/Go_Text_Facts.thy ===== *)
theory Go_Text_Facts
  imports Go_Text
begin

text \<open>
  What the text functions of the prelude do to the runes of a text: a text is cut at whole characters only, and the pieces
  of the result are pieces of the text (\<open>truncate\<close> of \<open>utils.go\<close> and the cuts of the error rules).
\<close>


section \<open>Whole characters\<close>

lemma starts_take: "length ps \<le> n \<Longrightarrow> n \<le> length s \<Longrightarrow> starts ps (take n s @ t) = starts ps s"
proof (induction ps s arbitrary: n rule: starts.induct)
  case (3 p ps c s)
  then show ?case by (cases n) auto
qed auto

lemma starts_length: "starts ps s \<Longrightarrow> length ps \<le> length s"
  by (induction ps s rule: starts.induct) auto

lemma rune_width_take:
  assumes "rune_width s \<noteq> 0"
  shows "rune_width (take (rune_width s) s @ t) = rune_width s" "rune_width s \<le> length s"
proof -
  consider (one) "starts [byte_in 0 127] s"
    | (two) "\<not> starts [byte_in 0 127] s" "starts [byte_in 194 223, tail_byte] s" "rune_width s = 2"
    | (three) "rune_width s = 3" "3 \<le> length s" | (four) "rune_width s = 4" "4 \<le> length s"
    using assms by (auto simp: rune_width_def dest!: starts_length split: if_splits)
  then have "rune_width (take (rune_width s) s @ t) = rune_width s \<and> rune_width s \<le> length s"
  proof cases
    case one
    then have w: "rune_width s = 1" "1 \<le> length s" by (auto simp: rune_width_def dest: starts_length)
    then show ?thesis using one starts_take [of "[byte_in 0 127]" 1 s t] by (simp add: rune_width_def)
  next
    case two
    then have "2 \<le> length s" by (auto dest: starts_length)
    then show ?thesis
      using two starts_take [of "[byte_in 0 127]" 2 s t] starts_take [of "[byte_in 194 223, tail_byte]" 2 s t]
      by (simp add: rune_width_def [of "take 2 s @ t"])
  next
    case three
    note e = starts_take [of _ 3 s t, OF _ three(2)]
    have "rune_width (take 3 s @ t) = 3"
      using three(1) by (simp add: rune_width_def e split: if_splits)
    then show ?thesis using three by simp
  next
    case four
    note e = starts_take [of _ 4 s t, OF _ four(2)]
    have "rune_width (take 4 s @ t) = 4"
      using four(1) by (simp add: rune_width_def e split: if_splits)
    then show ?thesis using four by simp
  qed
  then show "rune_width (take (rune_width s) s @ t) = rune_width s" "rune_width s \<le> length s" by auto
qed

definition whole_rune :: "string \<Rightarrow> bool" where
  "whole_rune p \<longleftrightarrow> p \<noteq> [] \<and> (\<forall>t. rune_width (p @ t) = length p)"

lemma whole_valid: "whole_rune p \<Longrightarrow> valid_piece p"
  by (auto simp: whole_rune_def valid_piece_def dest: spec [of _ "[]"])

lemma pieces_whole: "\<forall>p \<in> set ps. whole_rune p \<Longrightarrow> pieces (concat ps) = ps"
proof (induction ps)
  case (Cons p ps)
  then obtain c q where p: "p = c # q" by (auto simp: whole_rune_def neq_Nil_conv)
  have "rune_width (p @ concat ps) = length p" using Cons.prems by (simp add: whole_rune_def)
  with p have "rune_width (c # q @ concat ps) = Suc (length q)" by simp
  with p Cons show ?case by (simp add: Let_def)
qed simp

lemma piece_whole: "p \<in> set (pieces s) \<Longrightarrow> valid_piece p \<Longrightarrow> whole_rune p"
proof (induction s rule: pieces.induct)
  case (2 c s)
  let ?w = "rune_width (c # s)"
  show ?case
  proof (cases "p \<in> set (pieces (drop (max 1 ?w) (c # s)))")
    case False
    then have p: "p = take (max 1 ?w) (c # s)" using 2(2) by (simp add: Let_def del: take.simps drop.simps)
    show ?thesis
    proof (cases "?w = 0")
      case True
      then have "p = [c]" using p by simp
      then have w: "rune_width [c] \<noteq> 0" using 2(3) by (simp add: valid_piece_def)
      then have "rune_width [c] = 1" using rune_width_take(2) [OF w] by simp
      then show ?thesis using rune_width_take(1) [OF w] \<open>p = [c]\<close> by (simp add: whole_rune_def)
    next
      case False
      then show ?thesis
        using p rune_width_take [OF False] by (simp add: whole_rune_def max_def del: take_Suc_Cons)
    qed
  qed (use 2 in simp)
qed simp

lemma truncate_runes_count: "length (pieces (truncate_runes s n)) \<le> n"
proof -
  have "\<forall>p \<in> set (take n (filter valid_piece (pieces s))). whole_rune p"
    using piece_whole set_take_subset by fastforce
  from pieces_whole [OF this] show ?thesis by (simp add: truncate_runes_def)
qed

end
