(* ===== verification/Error_Facts.thy ===== *)
theory Error_Facts
  imports Error_Rules Go_Text_Facts
begin

text \<open>
  What the error rules guarantee: the credential of an account never appears in a message that is passed on, every
  stored rule is valid and stays so, and the first matching rule decides with an HTTP error.
\<close>

section \<open>Texts without a word\<close>

lemma contains_iff_sublist [go_string]: "contains s w \<longleftrightarrow> sublist w s"
  by (induction s) (auto simp: go_string sublist_Cons_right)

lemma sublist_split:
  assumes "sublist k (a @ c # b)" "c \<notin> set k"
  shows "sublist k a \<or> sublist k b"
proof -
  from assms(1) consider "sublist k a" | "sublist k (c # b)"
    | x y where "k = x @ y" "suffix x a" "prefix y (c # b)"
    by (auto simp: sublist_append)
  then show ?thesis
  proof cases
    case 2
    then show ?thesis using assms(2) by (auto simp: sublist_Cons_right prefix_Cons)
  next
    case 3
    then have "y = []" using assms(2) by (cases y) auto
    with 3 show ?thesis by (auto intro: suffix_imp_sublist)
  qed simp
qed

lemma not_sublist_around:
  assumes "\<not> sublist k a" "\<not> sublist k m" "\<not> sublist k b" "c \<notin> set k" "d \<notin> set k"
  shows "\<not> sublist k (a @ c # m @ d # b)"
  using assms sublist_split [of k a c "m @ d # b"] sublist_split [of k m d b] by auto

text \<open>The credentials for which this holds: printable, without a space or a bracket, and no part of the mark.\<close>

definition proper_key :: "string \<Rightarrow> bool" where
  "proper_key k \<longleftrightarrow> k \<noteq> [] \<and> list_all (\<lambda>c. byte_in 33 126 c \<and> c \<noteq> CHR ''['' \<and> c \<noteq> CHR '']'') k \<and> \<not> contains ''redacted'' k"

lemma proper_keyD:
  assumes "proper_key k"
  shows "k \<noteq> []" "CHR ''['' \<notin> set k" "CHR '']'' \<notin> set k" "CHR '' '' \<notin> set k" "CHR 0xEF \<notin> set k" "\<not> sublist k ''redacted''"
proof -
  have "\<not> byte_in 33 126 (CHR '' '')" "\<not> byte_in 33 126 (CHR 0xEF)" by (simp_all add: byte_in_def)
  with assms show "k \<noteq> []" "CHR ''['' \<notin> set k" "CHR '']'' \<notin> set k" "CHR '' '' \<notin> set k" "CHR 0xEF \<notin> set k" "\<not> sublist k ''redacted''"
    by (auto simp: proper_key_def list_all_iff go_string)
qed

lemma redacted_free:
  assumes "proper_key k" "\<not> sublist k t"
  shows "\<not> sublist k (redacted @ t)"
proof -
  have "\<not> sublist k ([] @ CHR ''['' # ''redacted'' @ CHR '']'' # t)"
    by (rule not_sublist_around) (use proper_keyD [OF assms(1)] assms(2) in simp_all)
  then show ?thesis by (simp add: redacted_def)
qed

text \<open>The shape of a text in which segments were replaced: a prefix of the old text and then a replacement.\<close>

definition kept_then_mark :: "string \<Rightarrow> string set \<Rightarrow> string \<Rightarrow> bool" where
  "kept_then_mark old marks new \<longleftrightarrow> (\<exists>a t. new = a @ t \<and> prefix a old \<and> (t = [] \<or> (\<exists>m \<in> marks. prefix m t)))"

lemma kept_mark: "m \<in> marks \<Longrightarrow> kept_then_mark old marks (m @ t)"
  unfolding kept_then_mark_def by (rule exI [of _ "[]"], rule exI [of _ "m @ t"]) (auto intro!: bexI [of _ m])

lemma kept_grows: "kept_then_mark old marks new \<Longrightarrow> kept_then_mark (p @ old) marks (p @ new)"
  unfolding kept_then_mark_def by (metis append.assoc same_prefix_prefix)

lemma kept_free:
  assumes "kept_then_mark old marks new" "\<not> sublist k (p @ old)" "\<not> sublist k new"
    and "\<And>m. m \<in> marks \<Longrightarrow> \<exists>c m'. m = c # m' \<and> c \<notin> set k"
  shows "\<not> sublist k (p @ new)"
proof -
  obtain a t where a: "new = a @ t" "prefix a old" "t = [] \<or> (\<exists>m \<in> marks. prefix m t)"
    using assms(1) by (auto simp: kept_then_mark_def)
  have pa: "\<not> sublist k (p @ a)"
    using assms(2) a(2) by (metis append.assoc prefix_def sublist_append)
  from a(3) show ?thesis
  proof
    assume "t = []"
    then show ?thesis using pa a(1) by simp
  next
    assume "\<exists>m \<in> marks. prefix m t"
    then obtain c t' where t: "t = c # t'" "c \<notin> set k" using assms(4) by (fastforce simp: prefix_def)
    have "\<not> sublist k t'" using assms(3) a(1) t(1) by (auto simp: sublist_append sublist_Cons_right)
    then show ?thesis using sublist_split [of k "p @ a" c t'] pa t a(1) by auto
  qed
qed

lemma redact_kept: "kept_then_mark s {redacted} (redact_word w s)"
proof -
  have "kept_then_mark s {redacted} (replace_pairs ps s)" if "ps = [(w, redacted)]" for ps
    using that
  proof (induction ps s rule: replace_pairs.induct)
    case (1 ps)
    then show ?case by (auto simp: kept_then_mark_def)
  next
    case (2 ps c s)
    show ?case
    proof (cases "first_match ps (c # s)")
      case None
      then have "kept_then_mark s {redacted} (replace_pairs ps s)" using 2 by simp
      then have "kept_then_mark ([c] @ s) {redacted} ([c] @ replace_pairs ps s)" by (rule kept_grows)
      with None show ?thesis by simp
    next
      case (Some q)
      then have "snd q = redacted" using 2(3) by (auto split: if_splits)
      with Some show ?thesis by (cases q) (simp add: kept_mark)
    qed
  qed
  then show ?thesis by (simp add: redact_word_def)
qed

lemma redact_free:
  assumes "proper_key k" "w = k \<or> \<not> sublist k s"
  shows "\<not> sublist k (redact_word w s)"
proof -
  have "\<not> sublist k (replace_pairs ps s)" if "ps = [(w, redacted)]" for ps
    using that assms(2)
  proof (induction ps s rule: replace_pairs.induct)
    case (1 ps)
    then show ?case using proper_keyD(1) [OF assms(1)] by simp
  next
    case (2 ps c s)
    show ?case
    proof (cases "first_match ps (c # s)")
      case None
      then have IH: "\<not> sublist k (replace_pairs ps s)"
        using 2 by (auto simp: sublist_Cons_right)
      have no: "\<not> has_prefix (c # s) w" using None 2(3) by (auto split: if_splits)
      have "kept_then_mark s {redacted} (replace_pairs ps s)" using redact_kept [of s w] 2(3) by (simp add: redact_word_def)
      then obtain a t where a: "replace_pairs ps s = a @ t" "prefix a s" "t = [] \<or> prefix redacted t"
        by (auto simp: kept_then_mark_def)
      have "\<not> prefix k (c # a @ t)"
      proof
        assume "prefix k (c # a @ t)"
        moreover have "t = [] \<or> (\<exists>t'. t = CHR ''['' # t')" using a(3) by (auto simp: redacted_def prefix_def)
        ultimately have "prefix k (c # a)"
          using proper_keyD(2) [OF assms(1)] by (auto simp: prefix_append prefix_Cons)
        then have "prefix k (c # s)" using a(2) by (auto simp: prefix_Cons intro: prefix_order.trans)
        then show False using no 2(4) by (auto simp: go_string prefix_imp_sublist)
      qed
      with IH None a(1) show ?thesis by (simp add: sublist_Cons_right)
    next
      case (Some q)
      then have q: "q = (w, redacted)" using 2(3) by (auto split: if_splits)
      have "w = k \<or> \<not> sublist k (drop (max 1 (length w)) (c # s))"
        using 2(4) by (metis append_take_drop_id sublist_append)
      then have "\<not> sublist k (replace_pairs ps (drop (max 1 (length w)) (c # s)))"
        using 2(2) [OF Some q [symmetric] 2(3)] by simp
      with Some q show ?thesis using redacted_free [OF assms(1)] by simp
    qed
  qed
  then show ?thesis by (simp add: redact_word_def)
qed

lemma concat_map_free:
  assumes "\<And>p. f p = p \<or> (\<exists>c p'. f p = c # p' \<and> set (f p) \<inter> set k = {})" "k \<noteq> []" "\<not> sublist k (concat ps)"
  shows "\<not> sublist k (concat (map f ps)) \<and> kept_then_mark (concat ps) {m. \<exists>c m'. m = c # m' \<and> c \<notin> set k} (concat (map f ps))"
  using assms(3)
proof (induction ps)
  case Nil
  then show ?case using assms(2) by (auto simp: kept_then_mark_def)
next
  case (Cons p ps)
  then have IH: "\<not> sublist k (concat (map f ps))"
      "kept_then_mark (concat ps) {m. \<exists>c m'. m = c # m' \<and> c \<notin> set k} (concat (map f ps))"
    by (auto simp: sublist_append)
  from assms(1) [of p] show ?case
  proof
    assume "f p = p"
    then show ?thesis
      using kept_free [OF IH(2), of k p] Cons.prems IH(1) kept_grows [OF IH(2), of p] by auto
  next
    assume "\<exists>c p'. f p = c # p' \<and> set (f p) \<inter> set k = {}"
    then obtain c p' where p: "f p = c # p'" "set (f p) \<inter> set k = {}" by auto
    then have m: "f p \<in> {m. \<exists>c m'. m = c # m' \<and> c \<notin> set k}" by auto
    have "\<not> sublist k (q @ t)" if "set q \<inter> set k = {}" "\<not> sublist k t" for q t
      using that by (induction q) (auto simp: sublist_Cons_right prefix_Cons assms(2) neq_Nil_conv)
    with p(2) IH(1) have "\<not> sublist k (f p @ concat (map f ps))" by blast
    then show ?thesis using kept_mark [OF m] by simp
  qed
qed

lemma blank_controls_free:
  assumes "proper_key k" "\<not> sublist k s"
  shows "\<not> sublist k (blank_controls s)"
proof -
  have "c \<notin> set k" if "\<not> byte_in 33 126 c" for c
    using assms(1) that by (auto simp: proper_key_def list_all_iff)
  then have no: "set replacement_rune \<inter> set k = {}" "set '' '' \<inter> set k = {}"
    by (simp_all add: replacement_rune_def byte_in_def)
  show ?thesis
    unfolding blank_controls_def
  proof (rule concat_map_free [THEN conjunct1])
    show "(if \<not> valid_piece p then replacement_rune else if control_rune p then '' '' else p) = p \<or>
        (\<exists>c p'. (if \<not> valid_piece p then replacement_rune else if control_rune p then '' '' else p) = c # p' \<and>
          set (if \<not> valid_piece p then replacement_rune else if control_rune p then '' '' else p) \<inter> set k = {})" for p
      using no by (simp add: replacement_rune_def)
  qed (use proper_keyD(1) [OF assms(1)] assms(2) in simp_all)
qed

lemma secrets_free:
  assumes "proper_key k" "\<not> sublist k (concat ps)"
  shows "\<not> sublist k (concat (replace_matches r [redacted] ps)) \<and>
    kept_then_mark (concat ps) {redacted} (concat (replace_matches r [redacted] ps))"
proof -
  have m: "\<exists>c m'. m = c # m' \<and> c \<notin> set k" if "m \<in> {redacted}" for m
    using that proper_keyD(2) [OF assms(1)] by (simp add: redacted_def)
  have "\<not> sublist k (concat (replace_matches r n ps)) \<and> kept_then_mark (concat ps) {redacted} (concat (replace_matches r n ps))"
    if "n = [redacted]" for n
    using assms(2) that
  proof (induction r n ps rule: replace_matches.induct)
    case (1 r n)
    then show ?case using proper_keyD(1) [OF assms(1)] by (auto simp: kept_then_mark_def)
  next
    case (2 r n p ps)
    show ?case
    proof (cases "rests r (p # ps)")
      case Nil
      then have IH: "\<not> sublist k (concat (replace_matches r n ps))"
          "kept_then_mark (concat ps) {redacted} (concat (replace_matches r n ps))"
        using 2 by (auto simp: sublist_append)
      show ?thesis
        using kept_free [OF IH(2) _ IH(1) m, of p] 2(3) kept_grows [OF IH(2), of p] Nil by simp
    next
      case (Cons t ts)
      let ?rest = "drop (max 1 (length (p # ps) - length t)) (p # ps)"
      have "concat (p # ps) = concat (take (max 1 (length (p # ps) - length t)) (p # ps)) @ concat ?rest"
        by (metis append_take_drop_id concat_append)
      then have "\<not> sublist k (concat ?rest)" using 2(3) by (metis sublist_append)
      then have "\<not> sublist k (concat (replace_matches r n ?rest))" using 2(2) [OF Cons] 2(4) by blast
      then show ?thesis
        using Cons 2(4) redacted_free [OF assms(1)] kept_mark [of redacted "{redacted}"] by simp
    qed
  qed
  then show ?thesis by simp
qed


section \<open>Truncation\<close>

lemma truncate_prefix:
  assumes "\<forall>p \<in> set (pieces s). valid_piece p"
  shows "prefix (truncate_runes s n) s"
proof -
  have "filter valid_piece (pieces s) = pieces s" using assms by simp
  then show ?thesis
    by (metis append_take_drop_id concat_append concat_pieces prefixI truncate_runes_def)
qed

lemma blank_controls_valid: "\<forall>p \<in> set (pieces (blank_controls s)). valid_piece p"
proof -
  let ?f = "\<lambda>p. if \<not> valid_piece p then replacement_rune else if control_rune p then '' '' else p"
  have r: "whole_rune replacement_rune" "whole_rune '' ''"
    by (simp_all add: whole_rune_def replacement_rune_def rune_width_def byte_in_def tail_byte_def)
  have w: "\<forall>p \<in> set (map ?f (pieces s)). whole_rune p"
    using r piece_whole by auto
  have "pieces (blank_controls s) = map ?f (pieces s)"
    unfolding blank_controls_def by (rule pieces_whole [OF w])
  then show ?thesis using w whole_valid by metis
qed

text \<open>Property C15: The credential of an account never appears in an error message that is made from what the upstream
  said: whatever the message is, the cleaned text does not contain the key, provided the key is printable, has no
  bracket and is not a part of the word that replaces it.\<close>
theorem key_never_exposed:
  assumes "proper_key key"
  shows "\<not> contains (upstream_error_message body key) key"
proof -
  have clean: "\<not> sublist key (clean_error_message m key)" for m
  proof -
    let ?m = "redact_word (path_escape key) (redact_word (query_escape key) (redact_word key m))"
    have "\<not> sublist key ?m" using redact_free [OF assms] by blast
    then have "\<not> sublist key (concat (replace_matches error_secret_pattern [redacted] (pieces ?m)))"
      using secrets_free [OF assms, of "pieces ?m"] by simp
    from blank_controls_free [OF assms this]
    have b: "\<not> sublist key (blank_controls (concat (replace_matches error_secret_pattern [redacted] (pieces ?m))))" .
    have "clean_error_message m key = truncate_runes (blank_controls (concat (replace_matches error_secret_pattern [redacted] (pieces ?m)))) 4096"
      using proper_keyD(1) [OF assms] by (simp add: clean_error_message_def)
    then have "sublist (clean_error_message m key) (blank_controls (concat (replace_matches error_secret_pattern [redacted] (pieces ?m))))"
      using truncate_prefix [OF blank_controls_valid] by (simp add: prefix_imp_sublist)
    with b show ?thesis using sublist_order.order_trans by blast
  qed
  have "upstream_error_message body key = [] \<or> (\<exists>m. upstream_error_message body key = clean_error_message m key)"
  proof (cases "262144 < length body \<or> as_object (parse_json body) = None")
    case True
    then show ?thesis by (auto simp: upstream_error_message_def)
  next
    case False
    then obtain object where "\<not> 262144 < length body" "as_object (parse_json body) = Some object" by blast
    then have "\<exists>m. upstream_error_message body key = clean_error_message m key"
      by (simp only: upstream_error_message_def Let_def if_False option.case) blast
    then show ?thesis by blast
  qed
  then show ?thesis using clean proper_keyD(1) [OF assms] by (auto simp: go_string)
qed

theorem key_never_exposed_witness:
  "\<not> contains (upstream_error_message (''{'' @ [CHR 0x22] @ ''message'' @ [CHR 0x22] @ '':'' @ [CHR 0x22] @ ''bad K-1x'' @ [CHR 0x22] @ ''}'') ''K-1x'') ''K-1x''"
proof (rule key_never_exposed)
  show "proper_key ''K-1x''" by code_simp
qed


section \<open>The table\<close>

definition rule_ok :: "error_rule \<Rightarrow> bool" where
  "rule_ok r \<longleftrightarrow> validate_error_rule r = Inr r"

lemma validate_normal_form:
  "validate_error_rule (r\<lparr>er_platforms := map (\<lambda>p. to_lower (trim_space p)) (er_platforms r)\<rparr>) = validate_error_rule r"
  by (cases "er_response_code r") (simp_all add: validate_error_rule_def Let_def trim_space_to_lower comp_def cong: if_cong)

lemma validated_is_normal:
  "validate_error_rule r = Inr r' \<Longrightarrow> r' = r\<lparr>er_platforms := map (\<lambda>p. to_lower (trim_space p)) (er_platforms r)\<rparr>"
  unfolding validate_error_rule_def Let_def by (simp only: split: if_split_asm) simp_all

lemma validated_rule_ok: "validate_error_rule r = Inr r' \<Longrightarrow> rule_ok r'"
  using validated_is_normal [of r r'] validate_normal_form [of r] by (simp add: rule_ok_def)

definition rules_ok :: "rule_db \<Rightarrow> bool" where
  "rules_ok db \<longleftrightarrow> length (rd_rules db) \<le> 500 \<and> distinct (map fst (rd_rules db)) \<and>
     list_all (\<lambda>(i, r). i < rd_next db \<and> rule_ok r) (rd_rules db)"

datatype rule_edit = Create_rule "fields option" | Update_rule int "fields option" | Delete_rule int

fun edit_rules :: "rule_db \<Rightarrow> rule_edit \<Rightarrow> rule_db" where
  "edit_rules db (Create_rule body) = fst (create_error_rule body db)"
| "edit_rules db (Update_rule i body) = fst (update_error_rule i body db)"
| "edit_rules db (Delete_rule i) = fst (delete_error_rule i db)"

lemma patched_rule_ok: "patched_rule r p = Inr r' \<Longrightarrow> rule_ok r'"
  by (auto simp: patched_rule_def intro: validated_rule_ok split: option.splits)

lemma put_present:
  "assoc m k = Some v \<Longrightarrow> map fst (put k w m) = map fst m \<and> set (put k w m) \<subseteq> insert (k, w) (set m)"
  by (induction m) (auto simp: put_def split: if_splits)

text \<open>Property C27: However the administrators edit the error rules, every rule of the table is valid in its normal
  form, no two have the same ID and there are at most 500 of them, so that the bound of the lookup is never exceeded.\<close>
theorem error_rules_invariant:
  assumes "rules_ok db"
  shows "rules_ok (foldl edit_rules db edits)"
  using assms
proof (induction edits arbitrary: db)
  case (Cons e edits)
  have "rules_ok (edit_rules db e)"
  proof (cases e)
    case (Create_rule body)
    then show ?thesis
      using Cons.prems
      by (auto simp: rules_ok_def create_error_rule_def list_all_iff result_iff dest: patched_rule_ok split: sum.splits if_splits)
  next
    case (Update_rule i body)
    show ?thesis
    proof (cases "snd (update_error_rule i body db)")
      case (Inr r)
      then obtain patch old where r: "rule_patch body = Inr patch" "assoc (rd_rules db) i = Some old" "patched_rule old patch = Inr r"
          "fst (update_error_rule i body db) = db\<lparr>rd_rules := put i r (rd_rules db)\<rparr>"
        by (auto simp: update_error_rule_def split: sum.splits option.splits)
      have "i < rd_next db" using Cons.prems r(2) by (auto simp: rules_ok_def list_all_iff assoc_eq_map_of dest: map_of_SomeD)
      moreover have "length (put i r (rd_rules db)) = length (rd_rules db)"
        using put_present [OF r(2), of r] by (metis length_map)
      ultimately show ?thesis
        using Update_rule Cons.prems r(4) put_present [OF r(2), of r] patched_rule_ok [OF r(3)]
        by (auto simp: rules_ok_def list_all_iff)
    qed (use Update_rule Cons.prems in \<open>auto simp: update_error_rule_def split: sum.splits\<close>)
  next
    case (Delete_rule i)
    have "set (remove i m) \<subseteq> set m \<and> length (remove i m) \<le> length m \<and> (distinct (map fst m) \<longrightarrow> distinct (map fst (remove i m)))"
      for m :: rule_table
      by (auto simp: remove_def AList.delete_eq distinct_map_filter)
    from this [of "rd_rules db"] show ?thesis
      using Delete_rule Cons.prems by (auto simp: rules_ok_def delete_error_rule_def list_all_iff)
  qed
  then show ?case using Cons.IH by simp
qed simp

definition no_rules :: rule_db where
  "no_rules = \<lparr>rd_rules = [], rd_next = 1\<rparr>"

definition sample_patch :: fields where
  "sample_patch = [(''name'', JStr ''busy''), (''error_codes'', JArr [JNum ''429'']), (''platforms'', JArr [JStr '' OpenAI''])]"

theorem error_rules_invariant_witness:
  "rules_ok (foldl edit_rules no_rules [Create_rule (Some sample_patch), Update_rule 1 (Some [(''priority'', JNum ''5'')])]) \<and>
   map (er_platforms \<circ> snd) (rd_rules (edit_rules no_rules (Create_rule (Some sample_patch)))) = [[''openai'']]"
proof
  show "rules_ok (foldl edit_rules no_rules [Create_rule (Some sample_patch), Update_rule 1 (Some [(''priority'', JNum ''5'')])])"
    by (rule error_rules_invariant) (simp add: rules_ok_def no_rules_def)
qed code_simp


section \<open>The rule that decides\<close>

lemma find_map_first:
  "find_map f xs = Some y \<Longrightarrow> \<exists>ys x zs. xs = ys @ x # zs \<and> f x = Some y \<and> (\<forall>z \<in> set ys. f z = None)"
proof (induction xs)
  case (Cons x xs)
  show ?case
  proof (cases "f x")
    case None
    then obtain ys x' zs where "xs = ys @ x' # zs" "f x' = Some y" "\<forall>z \<in> set ys. f z = None" using Cons by auto
    with None show ?thesis by (intro exI [of _ "x # ys"] exI [of _ x'] exI [of _ zs]) auto
  next
    case (Some z)
    then show ?thesis using Cons.prems by (intro exI [of _ "[]"]) auto
  qed
qed simp

lemma rule_ok_status: "rule_ok r \<Longrightarrow> \<not> er_pass_code r \<Longrightarrow> http_error (given (er_response_code r) 0)"
  by (cases "er_response_code r") (auto simp: rule_ok_def validate_error_rule_def Let_def given_def split: if_splits)

lemma blank_reply_text: "trim_space ''upstream request rejected'' \<noteq> []"
  by code_simp

lemma rule_reply_facts:
  assumes "rule_ok r" "http_error status"
  shows "http_error (pe_status (rule_reply r u secrets status body)) \<and> trim_space (pe_message (rule_reply r u secrets status body)) \<noteq> [] \<and>
    pe_upstream (rule_reply r u secrets status body) = status"
  using assms rule_ok_status [OF assms(1)] blank_reply_text by (simp add: rule_reply_def Let_def)

text \<open>Property C16: When a rule changes an error, the client gets an HTTP error status and a message that is not blank,
  the status of the upstream is kept for the records, and no enabled rule with a smaller priority, or the same priority
  and a smaller ID, matches.\<close>
theorem first_rule_decides:
  assumes "rules_ok db" and "upstream_error (Some (rd_rules db)) u secrets status body = Some p"
  shows "http_error (pe_status p) \<and> trim_space (pe_message p) \<noteq> [] \<and> pe_upstream p = status \<and>
    (\<exists>(i, r) \<in> set (rd_rules db). rule_matches r (ua_platform u) status body \<and> p = rule_reply r u secrets status body \<and>
      list_all (\<lambda>(j, q). (er_priority q, j) < (er_priority r, i) \<longrightarrow> \<not> rule_matches q (ua_platform u) status body) (rd_rules db))"
proof -
  let ?m = "\<lambda>r. rule_matches r (ua_platform u) status body"
  let ?key = "\<lambda>(i, r). (er_priority r, i)"
  define t where "t = sort_key ?key (filter (\<lambda>(_, r). er_enabled r) (rd_rules db))"
  have t: "set t = {(i, r) \<in> set (rd_rules db). er_enabled r}" "sorted (map ?key t)" by (auto simp: t_def)
  have ok: "validate_error_rule r = Inr r" if "r \<in> set (map snd t)" for r
    using that t(1) assms(1) by (auto simp: rules_ok_def rule_ok_def list_all_iff)
  have status: "http_error status" using assms(2) by (auto simp: upstream_error_def split: if_splits)
  obtain r where r: "find_map (\<lambda>r. case validate_error_rule r of Inl _ \<Rightarrow> None | Inr r \<Rightarrow> if ?m r then Some r else None) (map snd t) = Some r"
      "p = rule_reply r u secrets status body"
    using assms(2) by (auto simp: upstream_error_def rule_order_def t_def split: if_splits)
  from find_map_first [OF r(1)] obtain ys x zs where x: "map snd t = ys @ x # zs"
      "(case validate_error_rule x of Inl _ \<Rightarrow> None | Inr r \<Rightarrow> if ?m r then Some r else None) = Some r"
      "\<forall>z \<in> set ys. (case validate_error_rule z of Inl _ \<Rightarrow> None | Inr r \<Rightarrow> if ?m r then Some r else None) = None"
    by blast
  have xr: "x = r" "?m r" using x(1,2) ok [of x] by (auto split: if_splits)
  have ys: "\<not> ?m z" if "z \<in> set ys" for z using x(1,3) ok [of z] that by (auto split: if_splits)
  obtain us i vs where us: "t = us @ (i, r) # vs" "map snd us = ys"
    using x(1) xr(1) by (auto simp: map_eq_append_conv)
  have in_table: "(i, r) \<in> set (rd_rules db)" using us(1) t(1) by auto
  then have rok: "rule_ok r" using assms(1) by (auto simp: rules_ok_def list_all_iff)
  have first: "\<not> ?m q" if "(j, q) \<in> set (rd_rules db)" "(er_priority q, j) < (er_priority r, i)" for j q
  proof (cases "er_enabled q")
    case True
    then have "(j, q) \<in> set t" using that(1) t(1) by auto
    moreover have "(er_priority r, i) \<le> (er_priority q, j)" if "(j, q) \<in> set ((i, r) # vs)"
      using that t(2) by (auto simp: us(1) sorted_append)
    ultimately have "(j, q) \<in> set us" using that(2) us(1) by (auto simp: not_less [symmetric])
    then show ?thesis using ys us(2) by force
  qed (simp add: rule_matches_def)
  have "\<exists>(i, r) \<in> set (rd_rules db). ?m r \<and> p = rule_reply r u secrets status body \<and>
      list_all (\<lambda>(j, q). (er_priority q, j) < (er_priority r, i) \<longrightarrow> \<not> ?m q) (rd_rules db)"
    by (rule bexI [of _ "(i, r)"]) (use in_table xr(2) r(2) first in \<open>auto simp: list_all_iff\<close>)
  then show ?thesis using rule_reply_facts [OF rok status, of u secrets body] by (simp only: r(2)) simp
qed

theorem first_rule_decides_witness:
  "pe_status (the (upstream_error (Some (rd_rules (edit_rules no_rules (Create_rule (Some sample_patch)))))
     \<lparr>ua_id = 1, ua_platform = ''openai'', ua_type = ''apikey'', ua_credentials = [], ua_extra = []\<rparr> True 429 [])) = 429 \<and>
   http_error 429"
proof -
  let ?u = "\<lparr>ua_id = 1, ua_platform = ''openai'', ua_type = ''apikey'', ua_credentials = [], ua_extra = []\<rparr>"
  let ?db = "edit_rules no_rules (Create_rule (Some sample_patch))"
  let ?e = "upstream_error (Some (rd_rules ?db)) ?u True 429 []"
  let ?p = "rule_reply (snd (hd (rd_rules ?db))) ?u True 429 []"
  have e: "?e = Some ?p" and ok: "rules_ok ?db" and st: "pe_status ?p = 429" by code_simp+
  from first_rule_decides [OF ok e] have "http_error (pe_status ?p)" by (rule conjunct1)
  then show ?thesis unfolding e option.sel st by simp
qed

end
