(* ===== verification/Anthropic_Policy.thy ===== *)
theory Anthropic_Policy
  imports Runtime_Settings Gateway
begin

text \<open>
  The policy of requests to Anthropic suppliers, \<open>internal/app/anthropic_policy.go\<close>: which beta features of the client
  are passed on, filtered or refused, and the one corrected request that may follow a supplier's rejection of the
  thinking blocks or the thinking budget of a Messages request. Bodies are decoded values; \<open>json.Marshal\<close> of a map is
  \<open>marshal_fields\<close>, which also sorts the keys of objects further inside, where the code keeps their order.
\<close>

section \<open>Settings\<close>

record beta_rule =
  bt_token :: string
  bt_action :: string
  bt_scope :: string
  bt_message :: string
  bt_models :: "string list"
  bt_fallback :: string
  bt_fallback_message :: string

record rectifier =
  ry_enabled :: bool
  ry_signature :: bool
  ry_budget :: bool
  ry_apikey :: bool
  ry_patterns :: "string list"

definition beta_setting :: string where "beta_setting = ''beta_policy_settings''"

definition rectifier_setting :: string where "rectifier_setting = ''rectifier_settings''"

definition no_beta_rule :: beta_rule where
  "no_beta_rule = \<lparr>bt_token = [], bt_action = [], bt_scope = [], bt_message = [], bt_models = [], bt_fallback = [],
     bt_fallback_message = []\<rparr>"

definition default_beta_settings :: "beta_rule list" where
  "default_beta_settings =
     [no_beta_rule\<lparr>bt_token := ''fast-mode-2026-02-01'', bt_action := ''filter'', bt_scope := ''all''\<rparr>,
      no_beta_rule\<lparr>bt_token := ''context-1m-2025-08-07'', bt_action := ''pass'', bt_scope := ''all'', bt_fallback := ''filter'',
        bt_models := [''claude-sonnet-5'', ''claude-sonnet-5-*'', ''claude-sonnet-5@*'',
          ''us.anthropic.claude-sonnet-5*'', ''eu.anthropic.claude-sonnet-5*'', ''apac.anthropic.claude-sonnet-5*'',
          ''jp.anthropic.claude-sonnet-5*'', ''au.anthropic.claude-sonnet-5*'', ''us-gov.anthropic.claude-sonnet-5*'',
          ''global.anthropic.claude-sonnet-5*'', ''anthropic.claude-sonnet-5*'']\<rparr>]"

definition default_rectifier_settings :: rectifier where
  "default_rectifier_settings =
     \<lparr>ry_enabled = True, ry_signature = True, ry_budget = True, ry_apikey = False, ry_patterns = []\<rparr>"

definition beta_rule_ok :: "beta_rule \<Rightarrow> bool" where
  "beta_rule_ok r \<longleftrightarrow> bt_token r \<noteq> [] \<and> length (bt_token r) \<le> 200 \<and>
     \<not> contains_any (bt_token r) [CHR '','', CHR '' '', CHR 0x09, CHR 0x0D, CHR 0x0A, CHR 0x00] \<and>
     List.member [''pass'', ''filter'', ''block''] (bt_action r) \<and>
     List.member [[], ''pass'', ''filter'', ''block''] (bt_fallback r) \<and>
     List.member [''all'', ''apikey''] (bt_scope r) \<and> length (bt_models r) \<le> 100 \<and>
     length (bt_message r) \<le> 2000 \<and> length (bt_fallback_message r) \<le> 2000"

definition validate_beta_rule :: "beta_rule \<Rightarrow> beta_rule result" where
  "validate_beta_rule r =
     (let models = map trim_space (bt_models r) in
      if \<not> beta_rule_ok r then Inl (bad ''invalid beta policy rule'')
      else if \<not> list_all valid_model_pattern models then Inl (bad ''invalid beta model pattern'')
      else Inr (r\<lparr>bt_models := models\<rparr>))"

definition validate_beta :: "beta_rule list \<Rightarrow> beta_rule list result" where
  "validate_beta rules =
     (if 100 < length rules then Inl (bad ''too many beta policy rules'')
      else each_with (\<lambda>done_with r. and_then (validate_beta_rule r) (\<lambda>r'. Inr (done_with @ [r']))) [] rules)"

definition validate_rectifier :: "rectifier \<Rightarrow> rectifier result" where
  "validate_rectifier s =
     (if 50 < length (ry_patterns s) then Inl (bad ''too many signature patterns (maximum 50)'')
      else (let patterns = map trim_space (ry_patterns s) in
        if list_ex (\<lambda>p. 500 < length p) patterns then Inl (bad ''signature pattern exceeds 500 bytes'')
        else Inr (s\<lparr>ry_patterns := List.filter (\<lambda>p. p \<noteq> []) patterns\<rparr>)))"

definition beta_rule_fields :: "(string \<times> beta_rule decoder) list" where
  "beta_rule_fields =
     [(''beta_token'', field bt_token (\<lambda>v r. r\<lparr>bt_token := v\<rparr>) dec_string),
      (''action'', field bt_action (\<lambda>v r. r\<lparr>bt_action := v\<rparr>) dec_string),
      (''scope'', field bt_scope (\<lambda>v r. r\<lparr>bt_scope := v\<rparr>) dec_string),
      (''error_message'', field bt_message (\<lambda>v r. r\<lparr>bt_message := v\<rparr>) dec_string),
      (''model_whitelist'', field bt_models (\<lambda>v r. r\<lparr>bt_models := v\<rparr>) (dec_list [] dec_string)),
      (''fallback_action'', field bt_fallback (\<lambda>v r. r\<lparr>bt_fallback := v\<rparr>) dec_string),
      (''fallback_error_message'', field bt_fallback_message (\<lambda>v r. r\<lparr>bt_fallback_message := v\<rparr>) dec_string)]"

definition beta_fields :: "(string \<times> beta_rule list decoder) list" where
  "beta_fields = [(''rules'', field (\<lambda>r. r) (\<lambda>v r. v) (dec_list no_beta_rule (dec_struct beta_rule_fields)))]"

definition rectifier_fields :: "(string \<times> rectifier decoder) list" where
  "rectifier_fields =
     [(''enabled'', field ry_enabled (\<lambda>v r. r\<lparr>ry_enabled := v\<rparr>) dec_bool),
      (''thinking_signature_enabled'', field ry_signature (\<lambda>v r. r\<lparr>ry_signature := v\<rparr>) dec_bool),
      (''thinking_budget_enabled'', field ry_budget (\<lambda>v r. r\<lparr>ry_budget := v\<rparr>) dec_bool),
      (''apikey_signature_enabled'', field ry_apikey (\<lambda>v r. r\<lparr>ry_apikey := v\<rparr>) dec_bool),
      (''apikey_signature_patterns'', field ry_patterns (\<lambda>v r. r\<lparr>ry_patterns := v\<rparr>) (dec_list [] dec_string))]"

definition no_rectifier :: rectifier where
  "no_rectifier = \<lparr>ry_enabled = False, ry_signature = False, ry_budget = False, ry_apikey = False, ry_patterns = []\<rparr>"

text \<open>A stored value that is missing or malformed gives the defaults, one that is out of bounds an error.\<close>

definition load_beta_settings :: "settings option \<Rightarrow> beta_rule list result" where
  "load_beta_settings db = and_then (read_runtime_setting db beta_setting (dec_struct beta_fields) []) (\<lambda>s. case s of
     None \<Rightarrow> Inr default_beta_settings
   | Some rules \<Rightarrow> (case validate_beta rules of
         Inl _ \<Rightarrow> Inl (ApiError 503 ''invalid stored beta policy'') | Inr rules' \<Rightarrow> Inr rules'))"

definition load_rectifier_settings :: "settings option \<Rightarrow> rectifier result" where
  "load_rectifier_settings db = and_then (read_runtime_setting db rectifier_setting (dec_struct rectifier_fields) no_rectifier)
     (\<lambda>s. case s of
        None \<Rightarrow> Inr default_rectifier_settings
      | Some r \<Rightarrow> (case validate_rectifier r of
            Inl _ \<Rightarrow> Inl (ApiError 503 ''invalid stored rectifier settings'') | Inr r' \<Rightarrow> Inr r'))"

definition marshal_strings :: "string list \<Rightarrow> string" where
  "marshal_strings xs = marshal_json (JArr (map JStr xs))"

definition optional_text :: "string \<Rightarrow> string \<Rightarrow> (string \<times> string) list" where
  "optional_text k v = (if v = [] then [] else [(k, marshal_string v)])"

definition beta_rule_text :: "beta_rule \<Rightarrow> string" where
  "beta_rule_text r = marshal_object ([(''beta_token'', marshal_string (bt_token r)), (''action'', marshal_string (bt_action r)),
       (''scope'', marshal_string (bt_scope r))] @ optional_text ''error_message'' (bt_message r) @
     (if bt_models r = [] then [] else [(''model_whitelist'', marshal_strings (bt_models r))]) @
     optional_text ''fallback_action'' (bt_fallback r) @ optional_text ''fallback_error_message'' (bt_fallback_message r))"

definition beta_text :: "beta_rule list \<Rightarrow> string" where
  "beta_text rules = marshal_object [(''rules'', ''['' @ join_with '','' (map beta_rule_text rules) @ '']'')]"

definition rectifier_text :: "rectifier \<Rightarrow> string" where
  "rectifier_text s = marshal_object [(''enabled'', bool_text (ry_enabled s)),
     (''thinking_signature_enabled'', bool_text (ry_signature s)), (''thinking_budget_enabled'', bool_text (ry_budget s)),
     (''apikey_signature_enabled'', bool_text (ry_apikey s)), (''apikey_signature_patterns'', marshal_strings (ry_patterns s))]"

text \<open>The PUT handlers; \<open>None\<close> is the body \<open>null\<close>.\<close>

definition beta_config :: "settings option \<Rightarrow> beta_rule list option \<Rightarrow> (settings \<times> beta_rule list) result" where
  "beta_config db inp = (case inp of
     None \<Rightarrow> Inl (bad ''settings must be an object'')
   | Some s \<Rightarrow> and_then (validate_beta s) (\<lambda>s. and_then (write_runtime_setting db beta_setting (beta_text s)) (\<lambda>t. Inr (t, s))))"

definition rectifier_config :: "settings option \<Rightarrow> rectifier option \<Rightarrow> (settings \<times> rectifier) result" where
  "rectifier_config db inp = (case inp of
     None \<Rightarrow> Inl (bad ''settings must be an object'')
   | Some s \<Rightarrow> and_then (validate_rectifier s)
       (\<lambda>s. and_then (write_runtime_setting db rectifier_setting (rectifier_text s)) (\<lambda>t. Inr (t, s))))"


section \<open>Beta features\<close>

definition model_listed :: "string \<Rightarrow> string \<Rightarrow> bool" where
  "model_listed model p \<longleftrightarrow> p = model \<or> has_suffix p ''*'' \<and> has_prefix model (trim_suffix p ''*'')"

text \<open>What a rule says of a model: the action and the message.\<close>

definition beta_rule_action :: "beta_rule \<Rightarrow> string \<Rightarrow> string \<times> string" where
  "beta_rule_action r model =
     (if bt_models r \<noteq> [] \<and> \<not> list_ex (model_listed model) (bt_models r) then (bt_fallback r, bt_fallback_message r)
      else (bt_action r, bt_message r))"

definition rule_in_scope :: "beta_rule \<Rightarrow> bool" where
  "rule_in_scope r \<longleftrightarrow> bt_scope r = ''all'' \<or> bt_scope r = ''apikey''"

definition beta_step :: "string list \<Rightarrow> string \<Rightarrow> string list \<Rightarrow> beta_rule \<Rightarrow> string list result" where
  "beta_step tokens model filtered r =
     (if \<not> rule_in_scope r then Inr filtered
      else (case beta_rule_action r model of (action, message) \<Rightarrow>
        (if action = ''block'' \<and> List.member (map trim_space tokens) (bt_token r)
         then Inl (bad (if message = [] then ''beta feature '' @ bt_token r @ '' is not allowed'' else message))
         else Inr (if action = ''filter'' then bt_token r # filtered else filtered))))"

fun kept_tokens :: "string list \<Rightarrow> string list \<Rightarrow> string list \<Rightarrow> string list" where
  "kept_tokens filtered out [] = out"
| "kept_tokens filtered out (t # ts) =
     (let t = trim_space t in
      kept_tokens filtered (if t \<noteq> [] \<and> \<not> List.member filtered t \<and> \<not> List.member out t then out @ [t] else out) ts)"

definition apply_beta :: "beta_rule list \<Rightarrow> string \<Rightarrow> string \<Rightarrow> string result" where
  "apply_beta rules header model =
     (let tokens = split_at (CHR '','') header in
      and_then (each_with (beta_step tokens model) [] rules) (\<lambda>filtered.
        Inr (join_with '','' (kept_tokens filtered [] tokens))))"


section \<open>The corrected request\<close>

definition marshal_fields :: "fields \<Rightarrow> string" where
  "marshal_fields m = marshal_json (JObj (rev m))"

definition signature_message :: "rectifier \<Rightarrow> string \<Rightarrow> bool" where
  "signature_message s msg \<longleftrightarrow> contains msg ''signature'' \<or>
     contains msg ''thinking'' \<and> (contains msg ''expected'' \<or> contains msg ''cannot be modified'' \<or> contains msg ''block must contain'') \<or>
     contains msg ''empty content'' \<or> contains msg ''content blocks must be non-empty'' \<or>
     list_ex (\<lambda>p. trim_space p \<noteq> [] \<and> contains msg (to_lower (trim_space p))) (ry_patterns s)"

definition budget_message :: "string \<Rightarrow> bool" where
  "budget_message msg \<longleftrightarrow>
     (contains msg ''budget_tokens'' \<or> contains msg ''budget tokens'') \<and> contains msg ''thinking'' \<and>
       (contains msg ''>= 1024'' \<or> contains msg ''greater than or equal to 1024'' \<or> contains msg ''1024'' \<and> contains msg ''input should be'') \<or>
     contains msg ''must be greater than 1024 to reserve tokens for a final answer'' \<and> contains msg ''baseten reasoning is enabled''"

definition strict_model :: "string \<Rightarrow> bool" where
  "strict_model model \<longleftrightarrow> list_ex (has_prefix (to_lower model)) [''claude-'', ''opus-'', ''sonnet-'', ''haiku-'']"

text \<open>A content block: what replaces it, \<open>None\<close> when it stays.\<close>

definition plain_block :: "json \<Rightarrow> json list option" where
  "plain_block b = (case b of
     JObj kvs \<Rightarrow>
       (let block = rev kvs; kind = credential_string block ''type'' in
        if kind = ''thinking'' \<or> kind = [] \<and> assoc block ''thinking'' \<noteq> None
        then Some (let t = credential_string block ''thinking'' in
          if t = [] then [] else [JObj [(''text'', JStr t), (''type'', JStr ''text'')]])
        else if kind = ''redacted_thinking'' \<or> kind = ''text'' \<and> credential_string block ''text'' = [] then Some []
        else None)
   | _ \<Rightarrow> None)"

definition plain_blocks :: "json list \<Rightarrow> json list \<times> bool" where
  "plain_blocks blocks =
     (let out = concat (map (\<lambda>b. case plain_block b of None \<Rightarrow> [b] | Some bs \<Rightarrow> bs) blocks) in
      if out = [] then ([JObj [(''type'', JStr ''text''), (''text'', JStr ''(content removed)'')]], True)
      else (out, list_ex (\<lambda>b. plain_block b \<noteq> None) blocks))"

text \<open>A message; \<open>None\<close> is an element that cannot be read as an object.\<close>

definition plain_message :: "json \<Rightarrow> (json \<times> bool) option" where
  "plain_message m = (case m of
     JNull \<Rightarrow> Some (JNull, False)
   | JObj kvs \<Rightarrow> (case assoc (rev kvs) ''content'' of
         Some (JArr blocks) \<Rightarrow>
           (case plain_blocks blocks of (out, changed) \<Rightarrow> Some (JObj (rev (put ''content'' (JArr out) (rev kvs))), changed))
       | _ \<Rightarrow> Some (m, False))
   | _ \<Rightarrow> None)"

fun plain_messages :: "json list \<Rightarrow> (json list \<times> bool) option" where
  "plain_messages [] = Some ([], False)"
| "plain_messages (m # ms) = (case (plain_message m, plain_messages ms) of
     (Some (m', c), Some (ms', cs)) \<Rightarrow> Some (m' # ms', c \<or> cs) | _ \<Rightarrow> None)"

definition clears_thinking :: "json \<Rightarrow> bool" where
  "clears_thinking e \<longleftrightarrow> (case e of JObj kvs \<Rightarrow> credential_string (rev kvs) ''type'' = ''clear_thinking_20251015'' | _ \<Rightarrow> False)"

definition context_edits :: "json option \<Rightarrow> (fields \<times> json list) option" where
  "context_edits j = (case as_object j of
     Some (Some cm) \<Rightarrow> (case assoc cm ''edits'' of
         Some (JArr es) \<Rightarrow> Some (cm, es) | Some JNull \<Rightarrow> Some (cm, []) | _ \<Rightarrow> None)
   | _ \<Rightarrow> None)"

definition rectify_context :: "fields \<Rightarrow> fields \<times> bool" where
  "rectify_context body = (case context_edits (assoc body ''context_management'') of
     None \<Rightarrow> (body, False)
   | Some (cm, edits) \<Rightarrow>
       (let kept = List.filter (\<lambda>e. \<not> clears_thinking e) edits;
            cm' = (if kept = [] then remove ''edits'' cm else put ''edits'' (JArr kept) cm) in
        (put ''context_management'' (JObj (rev cm')) body, list_ex clears_thinking edits)))"

definition rectify_signature :: "fields \<Rightarrow> (fields \<times> bool) option" where
  "rectify_signature body =
     (let dropped = assoc body ''thinking'' \<noteq> None; body = remove ''thinking'' body in
      case (case assoc body ''messages'' of
          Some (JArr ms) \<Rightarrow> map_option (map_prod JArr (\<lambda>c. c)) (plain_messages ms)
        | Some JNull \<Rightarrow> Some (JNull, False) | _ \<Rightarrow> None) of
        None \<Rightarrow> None
      | Some (messages, c) \<Rightarrow>
          (case rectify_context (put ''messages'' messages body) of (body', e) \<Rightarrow> Some (body', dropped \<or> c \<or> e)))"

definition int_of :: "json option \<Rightarrow> int" where
  "int_of j = (case j of None \<Rightarrow> 0 | Some v \<Rightarrow> (case as_int v of None \<Rightarrow> 0 | Some n \<Rightarrow> n))"

definition rectify_budget :: "fields \<Rightarrow> (fields \<times> bool) option" where
  "rectify_budget body =
     (case (case assoc body ''thinking'' of None \<Rightarrow> Some (Some []) | j \<Rightarrow> as_object j) of
        Some (Some thinking) \<Rightarrow>
          (let kind = credential_string thinking ''type'';
               budget = int_of (assoc thinking ''budget_tokens''); most = int_of (assoc body ''max_tokens'');
               thinking' = put ''budget_tokens'' (JNum ''32000'') (put ''type'' (JStr ''enabled'') thinking);
               body' = put ''thinking'' (JObj (rev thinking')) body in
           if kind = ''adaptive'' then None
           else Some (if most < 32001 then put ''max_tokens'' (JNum ''64000'') body' else body',
             kind \<noteq> ''enabled'' \<or> budget \<noteq> 32000 \<or> most < 32001))
      | _ \<Rightarrow> None)"

text \<open>\<open>rectify\<close>: the corrected body, if the message asks for a correction and it changes anything.\<close>

definition rectify :: "rectifier \<Rightarrow> fields \<Rightarrow> string \<Rightarrow> string \<Rightarrow> fields option" where
  "rectify s body model message =
     (let msg = to_lower message in
      if \<not> ry_enabled s then None
      else (case (if ry_apikey s \<and> strict_model model \<and> signature_message s msg then rectify_signature body
                  else if ry_budget s \<and> budget_message msg then rectify_budget body else None) of
          Some (body', True) \<Rightarrow> Some body' | _ \<Rightarrow> None))"

text \<open>The message of an error body.\<close>

definition message_fields :: "(string \<times> string decoder) list" where
  "message_fields = [(''message'', field (\<lambda>r. r) (\<lambda>v r. v) dec_string)]"

definition failure_message :: "string \<Rightarrow> string" where
  "failure_message raw = (case Option.bind (parse_json raw)
       (\<lambda>j. dec_struct [(''error'', field (\<lambda>r. r) (\<lambda>v r. v) (dec_struct message_fields))] j []) of
     None \<Rightarrow> [] | Some m \<Rightarrow> m)"

text \<open>What follows a rejection with status 400 of \<open>/v1/messages\<close>: an error, nothing, or a corrected body. Settings that
  cannot be read never authorize a correction.\<close>

definition correction :: "settings option \<Rightarrow> fields \<Rightarrow> string \<Rightarrow> string option result" where
  "correction db request failure = (case load_rectifier_settings db of
     Inl _ \<Rightarrow> Inr None
   | Inr s \<Rightarrow>
       (if \<not> ry_enabled s \<or> \<not> ry_apikey s \<and> \<not> ry_budget s then Inr None
        else if 65536 < length failure then Inl (ApiError 502 ''invalid upstream error response'')
        else if failure_message failure = [] then Inr None
        else Inr (map_option marshal_fields
          (rectify s request (credential_string request ''model'') (failure_message failure)))))"

text \<open>The beta header of a request, before it is sent.\<close>

definition beta_header :: "settings option \<Rightarrow> string \<Rightarrow> string \<Rightarrow> string result" where
  "beta_header db header model =
     (if header = [] then Inr []
      else (case load_beta_settings db of
          Inl _ \<Rightarrow> Inl (ApiError 503 ''beta policy unavailable'')
        | Inr rules \<Rightarrow> apply_beta rules header model))"

definition anthropic_call :: "upstream_account \<Rightarrow> string \<Rightarrow> bool" where
  "anthropic_call u path \<longleftrightarrow> account_protocol u = ''anthropic'' \<and>
     (path = ''/v1/messages'' \<or> path = ''/v1/messages/count_tokens'')"

end
