(* ===== verification/Dispatch.thy ===== *)
theory Dispatch
  imports Account_Health Anthropic_Policy Error_Rules
begin

text \<open>
  The attempts of one request, the loop of \<open>textGateway\<close> in \<open>internal/app/gateway.go\<close>: an account is chosen,
  waited for when all are busy, checked, and sent the request; a rejection is recorded, marks the account and may be
  followed by another attempt at another account.

  What the world answers in an attempt is a record: the states of the database, the turns in the queue, the
  reply. The steps between the choice and the dispatch that depend on the protocols (the conversions, the tariffs) are an
  argument \<open>prepare\<close>, the estimates of input tokens are the arguments \<open>count\<close> and \<open>count_messages\<close>. The steps other requests take on the slots meanwhile are left
  out, as in \<open>Selection\<close>. \<open>dp_log\<close> is the sequence of what the request has done to the outside.
\<close>

section \<open>Data\<close>

record dispatch_request =
  dr_identity :: gateway_identity
  dr_request :: text_request
  dr_routing :: string
  dr_binding :: "response_binding option"
  dr_sticky :: "response_binding option"
  dr_catalog :: "price_catalog option"
  dr_socket :: "response_socket option"
  dr_search :: bool
  dr_audio :: bool
  dr_extension :: bool
  dr_session :: string
  dr_previous :: string
  dr_resources :: "string list"

text \<open>A request as it goes to the provider; \<open>wr_beta\<close> is its \<open>Anthropic-Beta\<close> header, \<open>wr_emulated\<close> a search the gateway
  runs itself.\<close>

record wire =
  wr_protocol :: string
  wr_path :: string
  wr_beta :: string
  wr_body :: string
  wr_emulated :: bool

datatype expiry = Client_gone | Wait_over

text \<open>A turn of a request that waits for an account: whether its context has ended before it looks, what the
  revalidation finds, the state of the database, whether the context ends while it chooses, and a failed ping.\<close>

record turn =
  tu_before :: "expiry option"
  tu_valid :: "unit result"
  tu_env :: select_env
  tu_after :: "expiry option"
  tu_ping :: "failure option"

datatype exchange = Broken failure | Reply int string string

text \<open>\<open>at_settings\<close> is the table of settings when the request is sent; \<open>at_exchange\<close> is what the provider answers to a
  request, \<open>Broken\<close> when there is no answer or its error cannot be read.\<close>

record attempt =
  at_env :: select_env
  at_turns :: "turn list"
  at_canceled :: bool
  at_windows :: "(int \<times> int) option"
  at_bound :: bool
  at_background :: "unit result"
  at_settings :: "settings option"
  at_exchange :: "selection \<Rightarrow> wire \<Rightarrow> exchange"
  at_rules :: "rule_table option"
  at_health :: health_env

datatype dispatch_event =
    Counted
  | Remembered int
  | Submitted int string
  | Sent int string
  | Resent int string
  | Recorded int int
  | Marked int account_effect

record dispatch_state =
  dp_slots :: slots
  dp_log :: "dispatch_event list"

datatype client_error = Plain failure | Passed passthrough

datatype request_outcome =
    Answered selection wire exchange
  | Counted_locally "selection option" int
  | In_background selection
  | Failed "selection option" client_error


section \<open>Steps\<close>

definition release_account :: "selection \<Rightarrow> slots \<Rightarrow> slots" where
  "release_account sel s = (case sn_account sel of Some u \<Rightarrow> release_slot s (''account'', ua_id u) | None \<Rightarrow> s)"

definition account_id :: "selection \<Rightarrow> int" where
  "account_id sel = (case sn_account sel of Some u \<Rightarrow> ua_id u | None \<Rightarrow> 0)"

definition pick_account :: "dispatch_request \<Rightarrow> int list \<Rightarrow> select_env \<Rightarrow> slots \<Rightarrow> slots \<times> choice" where
  "pick_account q excluded env s = choose_account env (dr_identity q) (dr_routing q) (dr_request q) excluded (dr_binding q) (dr_sticky q)
     (dr_catalog q) True (dr_socket q) s"

definition expiry_error :: "string \<Rightarrow> expiry \<Rightarrow> failure" where
  "expiry_error kind e = (case e of
     Client_gone \<Rightarrow> ApiError 499 ''request canceled while waiting for concurrency''
   | Wait_over \<Rightarrow> ApiError 429 (kind @ '' concurrency wait timed out''))"

text \<open>\<open>waitAdmission\<close> for an account: the turns until one ends the wait. Running out of turns is the end of the time.\<close>

definition leave_if :: "bool \<Rightarrow> resource \<Rightarrow> slots \<Rightarrow> slots" where
  "leave_if queued k s = (if queued then leave_queue s k else s)"

fun wait_account :: "dispatch_request \<Rightarrow> int list \<Rightarrow> resource \<Rightarrow> bool \<Rightarrow> slots \<Rightarrow> turn list \<Rightarrow> slots \<times> choice" where
  "wait_account q excluded k queued s [] = (leave_if queued k s, Choice_failed (expiry_error (fst k) Wait_over))"
| "wait_account q excluded k queued s (t # ts) = (case tu_before t of
     Some e \<Rightarrow> (leave_if queued k s, Choice_failed (expiry_error (fst k) e))
   | None \<Rightarrow> (case admission_wake s of
       Inl e \<Rightarrow> (leave_if queued k s, Choice_failed e)
     | Inr _ \<Rightarrow>
         (let (s', r) = (case tu_valid t of
                  Inl e \<Rightarrow> (s, Choice_failed e)
                | Inr _ \<Rightarrow> pick_account q excluded (tu_env t) s) in
          case (r, tu_after t) of
            (Chosen sel, Some e) \<Rightarrow> (leave_if queued k (release_account sel s'), Choice_failed (expiry_error (fst k) e))
          | (_, Some e) \<Rightarrow> (leave_if queued k s', Choice_failed (expiry_error (fst k) e))
          | (All_busy _, None) \<Rightarrow>
              (case (if queued then Some s' else join_queue s' k) of
                 None \<Rightarrow> (s', Choice_failed (ApiError 429 (fst k @ '' concurrency queue is full'')))
               | Some s'' \<Rightarrow> (case tu_ping t of
                     Some e \<Rightarrow> (leave_if True k s'', Choice_failed e)
                   | None \<Rightarrow> wait_account q excluded k True s'' ts))
          | (r, None) \<Rightarrow> (leave_if queued k s', r))))"

definition choose_or_wait :: "dispatch_request \<Rightarrow> int list \<Rightarrow> attempt \<Rightarrow> slots \<Rightarrow> slots \<times> choice" where
  "choose_or_wait q excluded w s = (case pick_account q excluded (at_env w) s of
     (s', All_busy i) \<Rightarrow> wait_account q excluded (''account'', i) False s' (at_turns w)
   | r \<Rightarrow> r)"

definition stateless_responses :: "upstream_account \<Rightarrow> bool" where
  "stateless_responses u \<longleftrightarrow> ua_type u = ''apikey'' \<and> account_protocol u = ''responses'' \<and>
     List.member [''kimi'', ''deepseek'', ''minimax''] (ua_platform u)"

definition billing_model :: "selection \<Rightarrow> string \<Rightarrow> string" where
  "billing_model sel model =
     (if sn_source sel = ''upstream'' then sn_upstream_model sel
      else if sn_source sel = ''requested'' then model else sn_channel_model sel)"

text \<open>The checks of a chosen account before its request is built.\<close>

definition check_choice :: "dispatch_request \<Rightarrow> selection \<Rightarrow> upstream_account \<Rightarrow> unit result" where
  "check_choice q sel u =
     (if 100 < length (sn_upstream_model sel) then Inl (bad ''upstream model exceeds supported length'')
      else if tq_protocol (dr_request q) = ''responses'' \<and> stateless_responses u \<and>
         (dr_previous q \<noteq> [] \<or> tq_item_references (dr_request q) \<noteq> [] \<or> dr_resources q \<noteq> [] \<or> tq_background (dr_request q))
      then Inl (bad ''this upstream requires full Responses input without resource references or background execution'')
      else if sn_restrict sel \<and>
         match_price (sn_pricing sel) (ua_platform u) (billing_model sel (tq_model (dr_request q))) = None
      then Inl denied else Inr ())"

text \<open>\<open>gatewayRPM\<close>: \<open>None\<close> when Redis does not answer.\<close>

definition gateway_rpm :: "gateway_identity \<Rightarrow> (int \<times> int) option \<Rightarrow> unit result" where
  "gateway_rpm g windows = (case windows of
     None \<Rightarrow> Inl (ApiError 503 ''request limit service unavailable'')
   | Some counts \<Rightarrow>
       (if fst (request_windows (gi_rpm g) (gg_rpm (gi_group g)) counts) then Inr ()
        else Inl (ApiError 429 ''request rate limit exceeded'')))"

text \<open>What admits an attempt to the provider: the gateway still runs, the client is there, the first attempt
  is counted, and the session remembers the account.\<close>

definition admit :: "dispatch_request \<Rightarrow> bool \<Rightarrow> attempt \<Rightarrow> slots \<Rightarrow> unit result" where
  "admit q first w s = and_then (admission_wake s) (\<lambda>_.
     and_then (if at_canceled w then Inl (ApiError 499 ''request canceled before dispatch'') else Inr ()) (\<lambda>_.
     if first then gateway_rpm (dr_identity q) (at_windows w) else Inr ()))"

definition responses_count_locally :: "(string \<Rightarrow> string option) \<Rightarrow> upstream_account \<Rightarrow> bool" where
  "responses_count_locally host u \<longleftrightarrow> ua_platform u = ''grok'' \<or> cn_payg_platform (ua_platform u) \<or>
     ua_platform u = ''openai'' \<and>
     (let base = trim_space (credential_string (ua_credentials u) ''base_url'') in
      base \<noteq> [] \<and> (case host base of None \<Rightarrow> True | Some h \<Rightarrow> \<not> equal_fold h ''api.openai.com''))"

text \<open>\<open>responsesCountRemoteContext\<close>: references only the original supplier can resolve.\<close>

definition remote_item :: "fields \<Rightarrow> bool" where
  "remote_item item \<longleftrightarrow> (let kind = credential_string item ''type'' in
     kind = ''item_reference'' \<or> kind = [] \<and> assoc item ''id'' \<noteq> None \<or> credential_string item ''encrypted_content'' \<noteq> [])"

fun object_items :: "json list \<Rightarrow> fields list" where
  "object_items [] = []"
| "object_items (JObj kvs # js) = rev kvs # object_items js"
| "object_items (JNull # js) = [] # object_items js"
| "object_items (_ # js) = [] # object_items js"

definition responses_count_remote_context :: "string \<Rightarrow> fields \<Rightarrow> bool" where
  "responses_count_remote_context previous body \<longleftrightarrow> previous \<noteq> [] \<or>
     (case assoc body ''prompt'' of None \<Rightarrow> False | Some v \<Rightarrow> v \<noteq> JNull) \<or>
     (case assoc body ''input'' of Some (JArr items) \<Rightarrow> list_ex remote_item (object_items items) | _ \<Rightarrow> False)"

text \<open>\<open>localResponsesCount\<close>; \<open>status\<close> is 0 before the request is sent. \<open>count\<close> is \<open>estimateInputTokens\<close> of the sanitized body.\<close>

definition local_responses_count ::
  "(string \<Rightarrow> string option) \<Rightarrow> (string \<Rightarrow> int result) \<Rightarrow> dispatch_request \<Rightarrow> upstream_account \<Rightarrow> string \<Rightarrow> int \<Rightarrow> int option result" where
  "local_responses_count host count q u body status =
     (if tq_protocol (dr_request q) \<noteq> ''responses'' \<or> \<not> tq_count_only (dr_request q) \<or>
         status \<noteq> 404 \<and> (status \<noteq> 0 \<or> \<not> responses_count_locally host u) then Inr None
      else (case as_object (parse_json body) of
          Some (Some request) \<Rightarrow>
            (if responses_count_remote_context (dr_previous q) request then Inr None
             else (case count body of Inl e \<Rightarrow> Inl e | Inr n \<Rightarrow> Inr (Some n)))
        | _ \<Rightarrow> Inl (bad ''invalid token count input'')))"


section \<open>Rejections\<close>

definition success :: "int \<Rightarrow> bool" where
  "success status \<longleftrightarrow> 200 \<le> status \<and> status < 300"

definition count_unsupported :: "dispatch_request \<Rightarrow> wire \<Rightarrow> int \<Rightarrow> bool" where
  "count_unsupported q w status \<longleftrightarrow> tq_count_only (dr_request q) \<and> wr_protocol w = ''responses'' \<and> status = 404"

definition fallback_error :: "dispatch_request \<Rightarrow> wire \<Rightarrow> int \<Rightarrow> failure" where
  "fallback_error q w status =
     (if count_unsupported q w status then ApiError 404 ''token counting is not supported by upstream''
      else ApiError 502 (''upstream rejected request (HTTP '' @ int_text status @ '')''))"

text \<open>Whether tools of the request may have acted before the provider returned an error.\<close>

definition tools_may_act :: "dispatch_request \<Rightarrow> bool" where
  "tools_may_act q \<longleftrightarrow> (let i = dr_request q in
     (case dr_socket q of None \<Rightarrow> False | Some k \<Rightarrow> rs_mode k = ''http_bridge'') \<or> dr_extension q \<or> tq_native_mcp i \<or>
     tq_native_code i \<or> tq_native_programmatic i \<or> tq_native_file_search i \<or> tq_file_ids i \<noteq> [])"

definition endpoint_error :: "dispatch_request \<Rightarrow> int \<Rightarrow> bool" where
  "endpoint_error q status \<longleftrightarrow> tq_protocol (dr_request q) = ''alpha_search'' \<and> (status = 401 \<or> status = 404 \<or> status = 405)"

definition retryable :: "dispatch_request \<Rightarrow> upstream_account \<Rightarrow> int \<Rightarrow> string \<Rightarrow> bool" where
  "retryable q u status body \<longleftrightarrow> endpoint_error q status \<or>
     (dr_search q \<or> dr_audio q) \<and> (status = 401 \<or> status = 402 \<or> status = 403 \<or> 500 \<le> status) \<or>
     balance_failure (ua_platform u) status body \<or> List.member [429, 502, 503, 504, 529] status"

definition secrets_present :: "dispatch_request \<Rightarrow> bool" where
  "secrets_present q \<longleftrightarrow> (let i = dr_request q in tq_native_mcp i \<or> tq_native_code i \<or> tq_native_programmatic i)"

text \<open>The error of a rejection, and what is recorded and marked.\<close>

definition rejection :: "dispatch_request \<Rightarrow> attempt \<Rightarrow> upstream_account \<Rightarrow> wire \<Rightarrow> int \<Rightarrow> string \<Rightarrow> client_error" where
  "rejection q w u wire status body = (case upstream_error (at_rules w) u (secrets_present q) status body of
     Some p \<Rightarrow> Passed p | None \<Rightarrow> Plain (fallback_error q wire status))"

definition rejection_events :: "dispatch_request \<Rightarrow> attempt \<Rightarrow> upstream_account \<Rightarrow> client_error \<Rightarrow> int \<Rightarrow> string \<Rightarrow> string \<Rightarrow> dispatch_event list" where
  "rejection_events q w u e status retry body =
     (case e of Passed p \<Rightarrow> if pe_skip p then [] else [Recorded (ua_id u) status] | Plain _ \<Rightarrow> [Recorded (ua_id u) status]) @
     (if endpoint_error q status then [] else [Marked (ua_id u) (failure_effect (at_health w) u status retry body)])"

definition no_upstream_error :: failure where
  "no_upstream_error = ApiError 503 ''no available upstream account''"

text \<open>The error when no further account answers: the last rejection if an error rule has changed it.\<close>

definition last_error :: "(selection \<times> client_error) option \<Rightarrow> failure \<Rightarrow> client_error" where
  "last_error rejected e = (case rejected of Some (_, Passed p) \<Rightarrow> Passed p | _ \<Rightarrow> Plain e)"

definition failed_choice :: "(selection \<times> client_error) option \<Rightarrow> choice \<Rightarrow> request_outcome" where
  "failed_choice rejected r = (case r of
     Choice_failed e \<Rightarrow> Failed None (Plain e)
   | _ \<Rightarrow> Failed (case rejected of Some (sel, Passed _) \<Rightarrow> Some sel | _ \<Rightarrow> None) (last_error rejected no_upstream_error))"


section \<open>The attempts\<close>

definition log_events :: "dispatch_event list \<Rightarrow> dispatch_state \<Rightarrow> dispatch_state" where
  "log_events es d = d\<lparr>dp_log := dp_log d @ es\<rparr>"

definition give_up :: "selection \<Rightarrow> client_error \<Rightarrow> dispatch_state \<Rightarrow> dispatch_state \<times> request_outcome" where
  "give_up sel e d = (d\<lparr>dp_slots := release_account sel (dp_slots d)\<rparr>, Failed (Some sel) e)"

datatype progress = Finished_with request_outcome | Try_again int client_error

text \<open>\<open>upstreamRequestHeaders\<close>: what is sent to the account and what comes back. A Messages request goes through the beta
  policy first, and a rejection with status 400 that the rectifier knows how to answer is followed by one corrected
  request to the same account.\<close>

definition send_corrected :: "attempt \<Rightarrow> selection \<Rightarrow> int \<Rightarrow> fields \<Rightarrow> wire \<Rightarrow> dispatch_event list \<times> exchange" where
  "send_corrected w sel i request wire = (case at_exchange w sel wire of
     Reply status retry body \<Rightarrow>
       (case (if status = 400 \<and> wr_path wire = ''/v1/messages'' then correction (at_settings w) request body else Inr None) of
          Inl e \<Rightarrow> ([], Broken e)
        | Inr None \<Rightarrow> ([], Reply status retry body)
        | Inr (Some modified) \<Rightarrow> ([Resent i modified], at_exchange w sel (wire\<lparr>wr_body := modified\<rparr>)))
   | broken \<Rightarrow> ([], broken))"

definition upstream_request :: "attempt \<Rightarrow> selection \<Rightarrow> upstream_account \<Rightarrow> wire \<Rightarrow> dispatch_event list \<times> exchange" where
  "upstream_request w sel u wire =
     (if wr_emulated wire then ([], at_exchange w sel wire)
      else if \<not> anthropic_call u (wr_path wire) then ([Sent (ua_id u) (wr_body wire)], at_exchange w sel wire)
      else (case as_object (parse_json (wr_body wire)) of
          Some (Some request) \<Rightarrow>
            (case beta_header (at_settings w) (wr_beta wire) (credential_string request ''model'') of
               Inl e \<Rightarrow> ([], Broken e)
             | Inr beta \<Rightarrow> (case send_corrected w sel (ua_id u) request (wire\<lparr>wr_beta := beta\<rparr>) of
                   (es, r) \<Rightarrow> (Sent (ua_id u) (wr_body wire) # es, r)))
        | _ \<Rightarrow> ([], Broken (bad ''invalid Anthropic request''))))"

text \<open>The part of an attempt that talks to the provider; \<open>host\<close> is the host name \<open>url.Parse\<close> finds.\<close>

definition exchange_with ::
  "(string \<Rightarrow> string option) \<Rightarrow> (string \<Rightarrow> int result) \<Rightarrow> dispatch_request \<Rightarrow> attempt \<Rightarrow> selection \<Rightarrow> upstream_account \<Rightarrow> wire \<Rightarrow>
   dispatch_state \<Rightarrow> dispatch_state \<times> progress" where
  "exchange_with host count q w sel u wire d =
     (let fail = (\<lambda>e d. (case give_up sel e d of (d', r) \<Rightarrow> (d', Finished_with r)));
          local = (\<lambda>n d. (d, Finished_with (Counted_locally (Some sel) n))) in
      case local_responses_count host count q u (wr_body wire) 0 of
        Inl e \<Rightarrow> fail (Plain e) d
      | Inr (Some n) \<Rightarrow> local n d
      | Inr None \<Rightarrow>
          (let (es, reply) = upstream_request w sel u wire; d = log_events es d in
           case reply of
             Broken e \<Rightarrow> fail (Plain e) d
           | Reply status retry body \<Rightarrow>
               (if success status then (d, Finished_with (Answered sel wire reply))
                else (case local_responses_count host count q u (wr_body wire) status of
                    Inl e \<Rightarrow> fail (Plain e) d
                  | Inr (Some n) \<Rightarrow> local n d
                  | Inr None \<Rightarrow>
                      (let e = rejection q w u wire status body;
                           d = log_events (rejection_events q w u e status retry body) d in
                       if count_unsupported q wire status \<or> tools_may_act q \<or> \<not> retryable q u status body then fail e d
                       else (d\<lparr>dp_slots := release_account sel (dp_slots d)\<rparr>, Try_again (ua_id u) e))))))"

text \<open>An attempt with the account it has chosen; \<open>count_messages\<close> is the estimate of a Messages request.\<close>

definition counts_here :: "dispatch_request \<Rightarrow> upstream_account \<Rightarrow> bool" where
  "counts_here q u \<longleftrightarrow> tq_count_only (dr_request q) \<and> tq_protocol (dr_request q) = ''anthropic'' \<and> cn_payg_platform (ua_platform u)"

definition attempt_with ::
  "(string \<Rightarrow> string option) \<Rightarrow> (string \<Rightarrow> int result) \<Rightarrow> int result \<Rightarrow> (selection \<Rightarrow> upstream_account \<Rightarrow> wire result) \<Rightarrow>
   dispatch_request \<Rightarrow> bool \<Rightarrow> attempt \<Rightarrow> selection \<Rightarrow> upstream_account \<Rightarrow> dispatch_state \<Rightarrow> dispatch_state \<times> progress" where
  "attempt_with host count count_messages prepare q first w sel u d =
     (let fail = (\<lambda>e d. (case give_up sel (Plain e) d of (d', r) \<Rightarrow> (d', Finished_with r))) in
      case check_choice q sel u of
        Inl e \<Rightarrow> fail e d
      | Inr _ \<Rightarrow>
          (if counts_here q u
           then (case and_then count_messages (\<lambda>n. and_then (gateway_rpm (dr_identity q) (at_windows w)) (\<lambda>_. Inr n)) of
               Inl e \<Rightarrow> fail e d
             | Inr n \<Rightarrow> (log_events [Counted] (d\<lparr>dp_slots := release_account sel (dp_slots d)\<rparr>), Finished_with (Counted_locally None n)))
           else (case and_then (prepare sel u) (\<lambda>wire. and_then (admit q first w (dp_slots d)) (\<lambda>_. Inr wire)) of
               Inl e \<Rightarrow> fail e d
             | Inr wire \<Rightarrow>
                 (let d = (if first then log_events [Counted] d else d) in
                  if dr_session q \<noteq> [] \<and> \<not> at_bound w then fail (ApiError 503 ''session affinity could not be saved'') d
                  else (let d = (if dr_session q \<noteq> [] then log_events [Remembered (ua_id u)] d else d) in
                    if tq_background (dr_request q)
                    then (let d = log_events [Submitted (ua_id u) (wr_body wire)] d in
                      case at_background w of
                        Inl e \<Rightarrow> fail e d
                      | Inr _ \<Rightarrow> (d\<lparr>dp_slots := release_account sel (dp_slots d)\<rparr>, Finished_with (In_background sel)))
                    else exchange_with host count q w sel u wire d)))))"

fun attempts ::
  "(string \<Rightarrow> string option) \<Rightarrow> (string \<Rightarrow> int result) \<Rightarrow> int result \<Rightarrow> (selection \<Rightarrow> upstream_account \<Rightarrow> wire result) \<Rightarrow>
   dispatch_request \<Rightarrow> bool \<Rightarrow> int list \<Rightarrow> (selection \<times> client_error) option \<Rightarrow> attempt list \<Rightarrow> dispatch_state \<Rightarrow> dispatch_state \<times> request_outcome" where
  "attempts host count count_messages prepare q first excluded rejected [] d =
     (d, Failed (map_option fst rejected) (last_error rejected (ApiError 503 ''upstream attempts exhausted'')))"
| "attempts host count count_messages prepare q first excluded rejected (w # ws) d =
     (case choose_or_wait q excluded w (dp_slots d) of
        (s, Chosen sel) \<Rightarrow> (case sn_account sel of
            None \<Rightarrow> (d\<lparr>dp_slots := s\<rparr>, Failed None (Plain no_upstream_error))
          | Some u \<Rightarrow> (case attempt_with host count count_messages prepare q first w sel u (d\<lparr>dp_slots := s\<rparr>) of
                (d', Finished_with r) \<Rightarrow> (d', r)
              | (d', Try_again i e) \<Rightarrow> attempts host count count_messages prepare q False (i # excluded) (Some (sel, e)) ws d'))
      | (s, r) \<Rightarrow> (d\<lparr>dp_slots := s\<rparr>, failed_choice rejected r))"

definition max_attempts :: "dispatch_request \<Rightarrow> nat" where
  "max_attempts q = (if dr_search q \<or> dr_audio q then 4 else 3)"

definition dispatch ::
  "(string \<Rightarrow> string option) \<Rightarrow> (string \<Rightarrow> int result) \<Rightarrow> int result \<Rightarrow> (selection \<Rightarrow> upstream_account \<Rightarrow> wire result) \<Rightarrow> dispatch_request \<Rightarrow>
   (nat \<Rightarrow> attempt) \<Rightarrow> slots \<Rightarrow> dispatch_state \<times> request_outcome" where
  "dispatch host count count_messages prepare q world s =
     attempts host count count_messages prepare q True [] None (map world [0..<max_attempts q]) \<lparr>dp_slots = s, dp_log = []\<rparr>"

end
