(* ===== verification/Dispatch_Facts.thy ===== *)
theory Dispatch_Facts
  imports Dispatch Health_Facts
begin

text \<open>
  The properties of the attempts: slots are returned, accounts are tried once and corrected at most once, requests are
  counted once.
\<close>

section \<open>Queues\<close>

definition same_queues :: "slots \<Rightarrow> slots \<Rightarrow> bool" where
  "same_queues s t \<longleftrightarrow> waiting t = waiting s \<and> sl_queued t = sl_queued s"

lemma same_queues_refl [simp]: "same_queues s s"
  by (simp add: same_queues_def)

lemma same_queues_trans: "same_queues s t \<Longrightarrow> same_queues t u \<Longrightarrow> same_queues s u"
  by (simp add: same_queues_def)

lemma release_queues [simp]: "same_queues s (release_slot s k)"
  by (simp add: same_queues_def release_slot_def wake_def waiting_def Let_def fun_eq_iff)

lemma take_queues: "take_slot s k n = (b, t) \<Longrightarrow> same_queues s t"
  by (auto simp: same_queues_def take_slot_def waiting_def fun_eq_iff split: if_splits)

lemma choose_from_queues: "choose_from env k busy s cs = (s', r) \<Longrightarrow> same_queues s s'"
proof (induction cs arbitrary: busy s)
  case (Cons c cs)
  have step: "choose_from env k b t cs = (s', r) \<Longrightarrow> same_queues s t \<Longrightarrow> same_queues s s'" for b t
    using Cons.IH same_queues_trans by blast
  show ?case
    using Cons.prems by (auto split: option.splits prod.splits bool.splits sum.splits if_splits
        intro: step dest: take_queues intro: same_queues_trans [OF take_queues release_queues])
qed (auto split: option.splits)

lemma pick_account_queues: "pick_account q excluded env s = (s', r) \<Longrightarrow> same_queues s s'"
  by (auto simp: pick_account_def choose_account_def split: sum.splits intro: choose_from_queues)

lemma release_account_queues [simp]: "same_queues s (release_account sel s)"
  by (cases "sn_account sel") (simp_all add: release_account_def)

text \<open>Leaving the queue undoes joining it.\<close>

definition joined_queue :: "bool \<Rightarrow> resource \<Rightarrow> slots \<Rightarrow> slots \<Rightarrow> bool" where
  "joined_queue queued k s t \<longleftrightarrow> active t = active s \<and> waiting t = (if queued then (waiting s)(k := waiting s k + 1) else waiting s) \<and>
     sl_queued t = (if queued then sl_queued s + 1 else sl_queued s)"

lemma join_queue_joined: "join_queue t k = Some u \<Longrightarrow> joined_queue False k s t \<Longrightarrow> joined_queue True k s u"
  by (auto simp: join_queue_def joined_queue_def active_def waiting_def tally_of_def assoc_put fun_eq_iff split: if_splits)

lemma leave_joined:
  assumes "joined_queue queued k s t"
  shows "active (leave_if queued k t) = active s \<and> same_queues s (leave_if queued k t)"
proof (cases queued)
  case True
  have n: "waiting t k - 1 = waiting s k" "\<And>j. j \<noteq> k \<Longrightarrow> waiting t j = waiting s j" using assms True by (auto simp: joined_queue_def)
  have "waiting (leave_queue t k) j = waiting s j" for j
    using n by (cases "j = k") (auto simp: leave_queue_def Let_def waiting_def tally_of_def assoc_put assoc_remove)
  then show ?thesis
    using assms True by (auto simp: leave_if_def leave_queue_def Let_def joined_queue_def same_queues_def active_def fun_eq_iff)
qed (use assms in \<open>simp add: leave_if_def joined_queue_def same_queues_def\<close>)

lemma joined_trans: "joined_queue queued k s t \<Longrightarrow> active u = active t \<Longrightarrow> same_queues t u \<Longrightarrow> joined_queue queued k s u"
  by (auto simp: joined_queue_def same_queues_def)


section \<open>The choice\<close>

text \<open>What a choice does to the slots, whether or not the request had to wait for it.\<close>

definition chosen_effect :: "int list \<Rightarrow> slots \<Rightarrow> slots \<Rightarrow> choice \<Rightarrow> bool" where
  "chosen_effect excluded s s' r \<longleftrightarrow> same_queues s s' \<and> (case r of
     Chosen sel \<Rightarrow> (\<exists>u. sn_account sel = Some u \<and> ua_id u \<notin> set excluded \<and>
       active s' = (active s)((''account'', ua_id u) := active s (''account'', ua_id u) + 1))
   | _ \<Rightarrow> active s' = active s)"

lemma took_chosen:
  assumes "took env k s s' c sel"
  shows "\<exists>u. sn_account sel = Some u \<and> ua_id u \<notin> set (rl_exclude k) \<and>
    active s' = (active s)((''account'', ua_id u) := active s (''account'', ua_id u) + 1)"
proof -
  obtain u mapped rate where t: "fitting env k c = Some (u, mapped)" "sel = selected k u rate mapped"
      "active s' = (active s)((''account'', ua_id u) := active s (''account'', ua_id u) + 1)"
    using assms unfolding took_def by blast
  from fittingD [OF t(1)] have "ua_id u \<notin> set (rl_exclude k)" by metis
  with t(2,3) show ?thesis by (simp add: selected_def)
qed

lemma pick_account_effect:
  assumes "pick_account q excluded env s = (s', r)" "no_debt s"
  shows "chosen_effect excluded s s' r"
proof (cases "choice_rules_of env (dr_identity q) (dr_routing q) (dr_request q) excluded (dr_binding q) (dr_catalog q) True (dr_socket q)")
  case (Inl e)
  with assms(1) show ?thesis by (auto simp: pick_account_def choose_account_def chosen_effect_def)
next
  case (Inr k)
  then obtain cs where "choose_from env k None s cs = (s', r)" using assms(1) by (auto simp: pick_account_def choose_account_def)
  from choose_from_cases [OF this assms(2)] choice_rules_fields(3) [OF Inr] pick_account_queues [OF assms(1)]
  show ?thesis by (auto simp: chosen_effect_def same_slots_def dest!: took_chosen split: choice.splits)
qed

lemma chosen_then_left:
  assumes "joined_queue queued k s t" "chosen_effect excluded t u r"
  shows "chosen_effect excluded s (leave_if queued k u) r"
proof (cases "\<exists>sel. r = Chosen sel")
  case True
  then obtain sel a where r: "r = Chosen sel" "sn_account sel = Some a" "ua_id a \<notin> set excluded"
      "active u = (active t)((''account'', ua_id a) := active t (''account'', ua_id a) + 1)" "same_queues t u"
    using assms(2) by (auto simp: chosen_effect_def)
  define v where "v = u\<lparr>sl_active := sl_active t\<rparr>"
  have "joined_queue queued k s v" using assms(1) r(5) by (auto simp: joined_queue_def v_def same_queues_def active_def waiting_def fun_eq_iff)
  from leave_joined [OF this] have "same_queues s (leave_if queued k u)"
    by (auto simp: same_queues_def leave_if_def leave_queue_def Let_def v_def waiting_def fun_eq_iff split: if_splits)
  moreover have "active (leave_if queued k u) = active u" by (simp add: leave_if_def leave_queue_def Let_def active_def fun_eq_iff)
  ultimately show ?thesis using r assms(1) by (simp add: chosen_effect_def joined_queue_def)
next
  case False
  then have "active u = active t" "same_queues t u" using assms(2) by (auto simp: chosen_effect_def split: choice.splits)
  from leave_joined [OF joined_trans [OF assms(1) this]] False show ?thesis by (auto simp: chosen_effect_def split: choice.splits)
qed

lemma chosen_released:
  assumes "chosen_effect excluded s t (Chosen sel)" "no_debt s"
  shows "same_queues s (release_account sel t) \<and> active (release_account sel t) = active s"
proof -
  obtain u where u: "sn_account sel = Some u"
      "active t = (active s)((''account'', ua_id u) := active s (''account'', ua_id u) + 1)" "same_queues s t"
    using assms(1) by (auto simp: chosen_effect_def)
  let ?k = "(''account'', ua_id u)"
  have a: "active t ?k - 1 = active s ?k" "\<And>j. j \<noteq> ?k \<Longrightarrow> active t j = active s j" "0 \<le> active s ?k"
    using u(2) assms(2) by (auto simp: no_debt_def)
  have "active (release_slot t ?k) j = active s j" for j
    using a by (cases "j = ?k") (auto simp: release_slot_def Let_def wake_def active_def tally_of_def assoc_put assoc_remove)
  then show ?thesis using u same_queues_trans [OF u(3) release_queues] by (simp add: release_account_def fun_eq_iff)
qed

lemma wait_account_effect:
  assumes "wait_account q excluded k queued t ts = (s', r)" "joined_queue queued k s t" "no_debt s"
  shows "chosen_effect excluded s s' r"
  using assms
proof (induction q excluded k queued t ts arbitrary: rule: wait_account.induct)
  case (1 q excluded k queued t)
  then show ?case by (auto simp: chosen_effect_def dest: leave_joined)
next
  case (2 q excluded k queued t w ts)
  have left: "chosen_effect excluded s (leave_if queued k u) (Choice_failed e)"
    if "active u = active t" "same_queues t u" for u e
    using leave_joined [OF joined_trans [OF 2(3) that]] by (simp add: chosen_effect_def)
  have debt: "no_debt t" using 2(3,4) by (simp add: joined_queue_def no_debt_def)
  show ?case
  proof (cases "tu_before w = None \<and> ok (admission_wake t)")
    case False
    then show ?thesis using 2(2) left [of t] by (auto simp: ok_iff split: option.splits sum.splits)
  next
    case True
    then obtain n where n: "tu_before w = None" "admission_wake t = Inr n" by (auto simp: ok_iff)
    obtain u c where u: "(case tu_valid w of Inl e \<Rightarrow> (t, Choice_failed e) | Inr _ \<Rightarrow> pick_account q excluded (tu_env w) t) = (u, c)"
      by fastforce
    have effect: "chosen_effect excluded t u c"
      using u pick_account_effect [OF _ debt] by (auto simp: chosen_effect_def split: sum.splits)
    have same: "active u = active t \<and> same_queues t u" if "\<And>sel. c \<noteq> Chosen sel"
      using effect that by (auto simp: chosen_effect_def split: choice.splits)
    show ?thesis
    proof (cases "tu_after w")
      case (Some e)
      show ?thesis
      proof (cases "\<exists>sel. c = Chosen sel")
        case True
        then show ?thesis using 2(2) n u Some left chosen_released [OF _ debt] effect by auto
      next
        case False
        then show ?thesis using 2(2) n u Some left same by (auto split: choice.splits)
      qed
    next
      case None
      show ?thesis
      proof (cases "\<exists>i. c = All_busy i")
        case False
        then show ?thesis using 2(2) n u None chosen_then_left [OF 2(3) effect] by (auto split: choice.splits)
      next
        case True
        then obtain i where i: "c = All_busy i" by blast
        note u_same = same [unfolded i, simplified]
        have in_u: "joined_queue queued k s u" using joined_trans [OF 2(3)] u_same by blast
        show ?thesis
        proof (cases "if queued then Some u else join_queue u k")
          case full: None
          then show ?thesis using 2(2) n u None i left [of u] u_same by (auto simp: leave_if_def split: if_splits)
        next
          case (Some v)
          then have v: "joined_queue True k s v" using in_u join_queue_joined by (auto split: if_splits)
          show ?thesis
          proof (cases "tu_ping w")
            case ping: (Some e)
            then show ?thesis using 2(2) n u None i Some leave_joined [OF v] by (auto simp: chosen_effect_def)
          next
            case ping: None
            then have "wait_account q excluded k True v ts = (s', r)" using 2(2) n u None i Some by auto
            with 2(1) [OF n(1,2) u [symmetric]] show ?thesis using v 2(4) None i Some ping by fastforce
          qed
        qed
      qed
    qed
  qed
qed

lemma choose_or_wait_effect:
  assumes "choose_or_wait q excluded w s = (s', r)" "no_debt s"
  shows "chosen_effect excluded s s' r"
proof -
  obtain t c where t: "pick_account q excluded (at_env w) s = (t, c)" by fastforce
  note effect = pick_account_effect [OF this assms(2)]
  show ?thesis
  proof (cases "\<exists>i. c = All_busy i")
    case True
    then obtain i where i: "c = All_busy i" by blast
    then have "joined_queue False (''account'', i) s t" using effect by (simp add: chosen_effect_def joined_queue_def same_queues_def)
    with assms t i show ?thesis using wait_account_effect by (auto simp: choose_or_wait_def)
  qed (use assms(1) t effect in \<open>auto simp: choose_or_wait_def split: choice.splits\<close>)
qed


text \<open>The environments an attempt chooses in, and that the candidates of each are still of the platform they were listed
  under when they are read: an account never changes its platform.\<close>

definition platforms_kept :: "dispatch_request \<Rightarrow> attempt \<Rightarrow> bool" where
  "platforms_kept q w \<longleftrightarrow> (let platform = gg_platform (gi_group (dr_identity q)) in
     list_all (\<lambda>env. list_all (\<lambda>c. case load_account (se_read env (cd_id c)) (cd_id c) of
           Inl _ \<Rightarrow> True | Inr r \<Rightarrow> ac_platform r = platform)
         (list_candidates (se_listed env) (se_now env) (gg_id (routing_group (dr_identity q))) platform))
       (at_env w # map tu_env (at_turns w)))"

lemma choose_from_fits:
  "choose_from env k busy s cs = (s', Chosen sel) \<Longrightarrow> \<exists>c \<in> set cs. \<exists>u m. fitting env k c = Some (u, m) \<and> sn_account sel = Some u"
  by (induction cs arbitrary: busy s)
    (auto simp: selected_def split: option.splits prod.splits bool.splits sum.splits if_splits)

lemma wait_account_picks:
  "wait_account q excluded k queued s ts = (s', Chosen sel) \<Longrightarrow>
     \<exists>t \<in> set ts. \<exists>s1 s2. pick_account q excluded (tu_env t) s1 = (s2, Chosen sel)"
proof (induction q excluded k queued s ts rule: wait_account.induct)
  case (2 q excluded k queued s t ts)
  from 2(2) obtain u c where n: "tu_before t = None"
      and u: "(case tu_valid t of Inl e \<Rightarrow> (s, Choice_failed e) | Inr _ \<Rightarrow> pick_account q excluded (tu_env t) s) = (u, c)"
    by (auto split: option.splits sum.splits prod.splits)
  obtain m where m: "admission_wake s = Inr m" using 2(2) n by (auto split: sum.splits)
  show ?case
  proof (cases c)
    case (All_busy i)
    show ?thesis
    proof (cases "tu_after t")
      case None
      then obtain v where v: "(if queued then Some u else join_queue u k) = Some v" "tu_ping t = None"
          "wait_account q excluded k True v ts = (s', Chosen sel)"
        using 2(2) n u m All_busy by (auto split: option.splits if_splits)
      from 2(1) [OF n m refl u [symmetric] refl All_busy None v(1,2,3)] show ?thesis by auto
    qed (use 2(2) n u m All_busy in auto)
  qed (use 2(2) n u m in \<open>auto split: option.splits sum.splits\<close>)
qed simp

lemma choose_or_wait_picks:
  assumes "choose_or_wait q excluded w s = (s', Chosen sel)"
  obtains env s1 s2 where "env \<in> set (at_env w # map tu_env (at_turns w))" "pick_account q excluded env s1 = (s2, Chosen sel)"
proof -
  have "\<exists>env \<in> set (at_env w # map tu_env (at_turns w)). \<exists>s1 s2. pick_account q excluded env s1 = (s2, Chosen sel)"
    using assms wait_account_picks by (fastforce simp: choose_or_wait_def split: prod.splits choice.splits)
  then show thesis using that by blast
qed

lemma picked_platform:
  assumes "choose_or_wait q excluded w s = (s', Chosen sel)" "sn_account sel = Some u" "platforms_kept q w"
  shows "ua_platform u = gg_platform (gi_group (dr_identity q))"
proof -
  let ?g = "dr_identity q"
  obtain env s1 s2 where env: "env \<in> set (at_env w # map tu_env (at_turns w))" "pick_account q excluded env s1 = (s2, Chosen sel)"
    using choose_or_wait_picks [OF assms(1)] .
  let ?cs = "list_candidates (se_listed env) (se_now env) (gg_id (routing_group ?g)) (gg_platform (gi_group ?g))"
  obtain k where run: "choose_from env k None s1 (order_candidates s1 (preferred_pool k) (live_sticky env (dr_sticky q)) ?cs) = (s2, Chosen sel)"
    using env(2) by (auto simp: pick_account_def choose_account_def split: sum.splits)
  from choose_from_fits [OF run] obtain c m where c: "c \<in> set (order_candidates s1 (preferred_pool k) (live_sticky env (dr_sticky q)) ?cs)"
      "fitting env k c = Some (u, m)" using assms(2) by auto
  then obtain c0 where c0: "c0 \<in> set ?cs" "cd_id c = cd_id c0" by (auto simp: with_load_def Let_def)
  from fittingD [OF c(2)] obtain r where r: "load_account (se_read env (cd_id c0)) (cd_id c0) = Inr r" "u = upstream_of r"
    using c0(2) by metis
  have "ac_platform r = gg_platform (gi_group ?g)"
    using assms(3) env(1) c0(1) r(1) unfolding platforms_kept_def Let_def list_all_iff by fastforce
  then show ?thesis using r(2) by (simp add: upstream_of_def)
qed


section \<open>One attempt\<close>

fun keeps_slot :: "request_outcome \<Rightarrow> selection option" where
  "keeps_slot (Answered sel wire e) = Some sel"
| "keeps_slot (Counted_locally kept n) = kept"
| "keeps_slot (In_background sel) = None"
| "keeps_slot (Failed sel e) = None"

text \<open>The active requests, given those without the one an outcome still holds.\<close>

definition with_kept :: "request_outcome \<Rightarrow> (resource \<Rightarrow> int) \<Rightarrow> resource \<Rightarrow> int" where
  "with_kept r a = (case keeps_slot r of
     None \<Rightarrow> a | Some sel \<Rightarrow> (let k = (''account'', account_id sel) in a(k := a k + 1)))"

fun kept_slot :: "progress \<Rightarrow> selection option" where
  "kept_slot (Finished_with r) = keeps_slot r"
| "kept_slot (Try_again i e) = None"

fun sent_to :: "dispatch_event list \<Rightarrow> int list" where
  "sent_to [] = []"
| "sent_to (Sent i body # es) = i # sent_to es"
| "sent_to (_ # es) = sent_to es"

lemma sent_to_append [simp]: "sent_to (es @ fs) = sent_to es @ sent_to fs"
  by (induction es rule: sent_to.induct) auto

text \<open>A second request to an account comes directly after the first and corrects it.\<close>

fun resends_follow :: "dispatch_event list \<Rightarrow> bool" where
  "resends_follow [] = True"
| "resends_follow (Sent i b # Resent j m # es) = (i = j \<and> resends_follow es)"
| "resends_follow (Resent i m # es) = False"
| "resends_follow (e # es) = resends_follow es"

lemma resends_follow_Sent: "resends_follow es \<Longrightarrow> resends_follow (Sent i b # es)"
proof (cases es)
  case (Cons e fs)
  then show "resends_follow es \<Longrightarrow> ?thesis" by (cases e) auto
qed simp

lemma resends_follow_append: "resends_follow es \<Longrightarrow> resends_follow fs \<Longrightarrow> resends_follow (es @ fs)"
  by (induction es rule: resends_follow.induct) (auto intro: resends_follow_Sent)

text \<open>What allows a correction: a rejection with status 400 of a Messages request, and settings that could be read and
  ask for it.\<close>

definition corrects :: "attempt \<Rightarrow> string \<Rightarrow> bool" where
  "corrects w m \<longleftrightarrow> (\<exists>sel wire retry body request s. wr_path wire = ''/v1/messages'' \<and>
     at_exchange w sel wire = Reply 400 retry body \<and> load_rectifier_settings (at_settings w) = Inr s \<and>
     ry_enabled s \<and> length body \<le> 65536 \<and>
     map_option marshal_fields (rectify s request (credential_string request ''model'') (failure_message body)) = Some m)"

definition sends_ok :: "attempt \<Rightarrow> int \<Rightarrow> dispatch_event list \<Rightarrow> bool" where
  "sends_ok w i es \<longleftrightarrow> (sent_to es = [] \<or> sent_to es = [i]) \<and> resends_follow es \<and>
     (\<forall>j m. Resent j m \<in> set es \<longrightarrow> corrects w m)"

lemma sends_ok_Nil [simp]: "sends_ok w i []"
  by (simp add: sends_ok_def)

lemma sends_ok_append:
  "sends_ok w i es \<Longrightarrow> sends_ok w i fs \<Longrightarrow> sent_to es = [] \<or> sent_to fs = [] \<Longrightarrow> sends_ok w i (es @ fs)"
  using resends_follow_append [of es fs] by (auto simp: sends_ok_def)

lemma sends_ok_event [simp]:
  "sends_ok w i (Counted # es) = sends_ok w i es" "sends_ok w i (Remembered j # es) = sends_ok w i es"
  "sends_ok w i (Submitted j b # es) = sends_ok w i es" "sends_ok w i (Recorded j n # es) = sends_ok w i es"
  "sends_ok w i (Marked j x # es) = sends_ok w i es"
  by (auto simp: sends_ok_def)

lemma correction_corrects:
  "correction (at_settings w) request body = Inr (Some m) \<Longrightarrow> wr_path wire = ''/v1/messages'' \<Longrightarrow>
     at_exchange w sel wire = Reply 400 retry body \<Longrightarrow> corrects w m"
  by (fastforce simp: correction_def corrects_def split: sum.splits if_splits)

lemma upstream_request_sends:
  assumes "upstream_request w sel u wire = (es, r)"
  shows "sends_ok w (ua_id u) es \<and> Counted \<notin> set es"
proof -
  have one: "sends_ok w i [Sent i b]" for i b by (simp add: sends_ok_def)
  have two: "sends_ok w i [Sent i b, Resent i m]" if "corrects w m" for i b m using that by (simp add: sends_ok_def)
  have corrected: "es' = [] \<or> (\<exists>m. es' = [Resent (ua_id u) m] \<and> corrects w m)"
    if "send_corrected w sel (ua_id u) request wr = (es', r')" for request wr es' r'
    using that correction_corrects by (auto simp: send_corrected_def split: exchange.splits sum.splits option.splits if_splits)
  show ?thesis
    using assms one two corrected
    by (auto simp: upstream_request_def split: if_splits option.splits sum.splits prod.splits) fastforce+
qed

text \<open>Whether the first attempt, with the account it has chosen, gets as far as being counted.\<close>

definition gets_past ::
  "int result \<Rightarrow> (selection \<Rightarrow> upstream_account \<Rightarrow> wire result) \<Rightarrow> dispatch_request \<Rightarrow> attempt \<Rightarrow> selection \<Rightarrow> upstream_account \<Rightarrow> slots \<Rightarrow> bool" where
  "gets_past count_messages prepare q w sel u s \<longleftrightarrow> check_choice q sel u = Inr () \<and>
     (if counts_here q u then ok count_messages \<and> ok (gateway_rpm (dr_identity q) (at_windows w))
      else ok (prepare sel u) \<and> ok (admit q True w s))"

text \<open>What an attempt with the account \<open>u\<close> leaves behind: its slot or not, and what it adds to the log.\<close>

definition attempt_effect ::
  "int result \<Rightarrow> (selection \<Rightarrow> upstream_account \<Rightarrow> wire result) \<Rightarrow> dispatch_request \<Rightarrow> bool \<Rightarrow> attempt \<Rightarrow> selection \<Rightarrow> upstream_account \<Rightarrow>
   dispatch_state \<Rightarrow> dispatch_state \<Rightarrow> progress \<Rightarrow> bool" where
  "attempt_effect count_messages prepare q first w sel u d d' p \<longleftrightarrow>
     dp_slots d' = (if kept_slot p = Some sel then dp_slots d else release_account sel (dp_slots d)) \<and>
     (kept_slot p = None \<or> kept_slot p = Some sel) \<and>
     (\<forall>i e. p = Try_again i e \<longrightarrow> i = ua_id u \<and> \<not> tools_may_act q \<and> \<not> counts_here q u) \<and>
     (\<exists>es. dp_log d' = dp_log d @ es \<and> sends_ok w (ua_id u) es \<and>
       (if first \<or> counts_here q u
        then if gets_past count_messages prepare q w sel u (dp_slots d) then \<exists>fs. es = Counted # fs \<and> Counted \<notin> set fs
          else es = [] \<and> (\<forall>i e. p \<noteq> Try_again i e)
        else Counted \<notin> set es))"

lemma rejection_events_facts [simp]:
  "sent_to (rejection_events q w u e status retry body) = []" "Counted \<notin> set (rejection_events q w u e status retry body)"
  "sends_ok v i (rejection_events q w u e status retry body)"
  by (auto simp: rejection_events_def split: client_error.splits)

lemma exchange_effect:
  assumes "exchange_with host count q w sel u wire d = (d', p)"
  shows "dp_slots d' = (if kept_slot p = Some sel then dp_slots d else release_account sel (dp_slots d)) \<and>
    (kept_slot p = None \<or> kept_slot p = Some sel) \<and>
    (\<forall>i e. p = Try_again i e \<longrightarrow> i = ua_id u \<and> \<not> tools_may_act q) \<and>
    (\<exists>es. dp_log d' = dp_log d @ es \<and> sends_ok w (ua_id u) es \<and> Counted \<notin> set es)"
proof -
  obtain es r where r: "upstream_request w sel u wire = (es, r)" by fastforce
  note sends = upstream_request_sends [OF r]
  have both: "sends_ok w (ua_id u) (es @ rejection_events q w u e status retry body)" for e status retry body
    using sends by (intro sends_ok_append) auto
  show ?thesis
    using assms sends both
    by (auto simp: exchange_with_def Let_def give_up_def log_events_def r
        split: sum.splits option.splits exchange.splits if_splits)
qed

lemma log_if: "(if b then log_events es d else d) = log_events (if b then es else []) d"
  by (simp add: log_events_def)

lemma log_twice: "log_events es (log_events fs d) = log_events (fs @ es) d"
  by (simp add: log_events_def)

lemma log_slots: "dp_slots (log_events es d) = dp_slots d" "dp_log (log_events es d) = dp_log d @ es"
    "(log_events es d)\<lparr>dp_slots := s\<rparr> = d\<lparr>dp_slots := s, dp_log := dp_log d @ es\<rparr>"
  by (simp_all add: log_events_def)

lemmas log_simps = log_if log_twice log_slots

lemma attempt_with_effect:
  assumes "attempt_with host count count_messages prepare q first w sel u d = (d', p)"
  shows "attempt_effect count_messages prepare q first w sel u d d' p"
proof -
  let ?sent = "\<lambda>d wire. exchange_with host count q w sel u wire d"
  let ?past = "gets_past count_messages prepare q w sel u (dp_slots d)"
  let ?counted = "\<lambda>es. if first \<or> counts_here q u then if ?past then \<exists>fs. es = Counted # fs \<and> Counted \<notin> set fs else es = []
    else Counted \<notin> set es"
  have stop: "attempt_effect count_messages prepare q first w sel u d d' p"
    if "d' = d\<lparr>dp_slots := release_account sel (dp_slots d), dp_log := dp_log d @ es\<rparr>" "p = Finished_with r" "keeps_slot r = None"
      "sends_ok w (ua_id u) es" "?counted es"
    for es r
    using that by (auto simp: attempt_effect_def)
  have go: "attempt_effect count_messages prepare q first w sel u d d' p"
    if "?sent (log_events es d) wire = (d', p)" "sent_to es = []" "sends_ok w (ua_id u) es" "\<not> counts_here q u" "first \<Longrightarrow> ?past"
      "if first then \<exists>fs. es = Counted # fs \<and> Counted \<notin> set fs else Counted \<notin> set es" for es wire
  proof -
    note effect = exchange_effect [OF that(1)]
    then obtain fs where fs: "dp_log d' = dp_log d @ (es @ fs)" "sends_ok w (ua_id u) fs" "Counted \<notin> set fs"
      by (auto simp: log_events_def)
    have "sends_ok w (ua_id u) (es @ fs)" using sends_ok_append that(2,3) fs(2) by blast
    then have "\<exists>gs. dp_log d' = dp_log d @ gs \<and> sends_ok w (ua_id u) gs \<and>
        (if first \<or> counts_here q u then if ?past then \<exists>fs. gs = Counted # fs \<and> Counted \<notin> set fs
           else gs = [] \<and> (\<forall>i e. p \<noteq> Try_again i e) else Counted \<notin> set gs)"
      using fs that(4-6) by (intro exI [of _ "es @ fs"]) (auto split: if_splits)
    then show ?thesis using effect that(4) by (simp add: attempt_effect_def log_events_def)
  qed
  show ?thesis
  proof (cases "check_choice q sel u")
    case (Inl e)
    then show ?thesis using assms by (intro stop [of "[]"]) (auto simp: attempt_with_def give_up_def gets_past_def)
  next
    case passed: (Inr unit)
    show ?thesis
    proof (cases "counts_here q u")
      case True
      show ?thesis
      proof (cases "and_then count_messages (\<lambda>n. and_then (gateway_rpm (dr_identity q) (at_windows w)) (\<lambda>_. Inr n))")
        case (Inl e)
        then show ?thesis using assms passed True by (intro stop [of "[]"]) (auto simp: attempt_with_def give_up_def gets_past_def ok_iff)
      next
        case (Inr n)
        then show ?thesis using assms passed True by (intro stop [of "[Counted]"]) (auto simp: attempt_with_def log_events_def gets_past_def result_iff ok_iff)
      qed
    next
      case False
      show ?thesis
      proof (cases "and_then (prepare sel u) (\<lambda>wire. and_then (admit q first w (dp_slots d)) (\<lambda>_. Inr wire))")
        case (Inl e)
        then show ?thesis using assms passed False by (intro stop [of "[]"]) (auto simp: attempt_with_def give_up_def gets_past_def ok_iff)
      next
        case (Inr wire)
        let ?count = "if first then [Counted] else []"
        let ?keep = "if dr_session q \<noteq> [] then [Remembered (ua_id u)] else []"
        let ?submit = "[Submitted (ua_id u) (wr_body wire)]"
        have past: "first \<Longrightarrow> ?past" using passed Inr False by (cases first) (auto simp: gets_past_def result_iff ok_iff)
        note run = assms [unfolded attempt_with_def Let_def passed Inr sum.case if_not_P [OF False] unit.case log_simps give_up_def prod.case]
        show ?thesis
        proof (cases "dr_session q \<noteq> [] \<and> \<not> at_bound w")
          case True
          with run past False show ?thesis by (intro stop [of ?count]) auto
        next
          case bound: False
          show ?thesis
          proof (cases "tq_background (dr_request q)")
            case True
            with run bound past \<open>\<not> counts_here q u\<close> show ?thesis
              by (intro stop [of "(?count @ ?keep) @ ?submit" "case at_background w of Inl e \<Rightarrow> Failed (Some sel) (Plain e) | Inr _ \<Rightarrow> In_background sel"])
                (auto split: sum.splits)
          next
            case False
            with run bound past \<open>\<not> counts_here q u\<close> show ?thesis by (intro go [where es = "?count @ ?keep" and wire = wire]) auto
          qed
        qed
      qed
    qed
  qed
qed


section \<open>All attempts\<close>

text \<open>The induction every property of the loop goes by: a fact \<open>P\<close> about the log and the accounts already tried, kept by
  an attempt that tries again, and a conclusion \<open>R\<close> for the end.\<close>

lemma attempts_induct:
  assumes run: "attempts host count count_messages prepare q first excluded rejected ws d = (d', r)"
    and debt: "no_debt (dp_slots d)" and start: "P first excluded (dp_log d)" and sub: "set ws \<subseteq> W"
    and again: "\<And>first excluded log w s s' sel u es. P first excluded log \<Longrightarrow> w \<in> W \<Longrightarrow>
      choose_or_wait q excluded w s = (s', Chosen sel) \<Longrightarrow> sn_account sel = Some u \<Longrightarrow> ua_id u \<notin> set excluded \<Longrightarrow>
      \<not> tools_may_act q \<Longrightarrow> \<not> counts_here q u \<Longrightarrow> sends_ok w (ua_id u) es \<Longrightarrow>
      (if first then \<exists>fs. es = Counted # fs \<and> Counted \<notin> set fs else Counted \<notin> set es) \<Longrightarrow>
      P False (ua_id u # excluded) (log @ es)"
    and last: "\<And>first excluded log. P first excluded log \<Longrightarrow> R log"
    and ended: "\<And>first excluded log w s s' sel u es. P first excluded log \<Longrightarrow> w \<in> W \<Longrightarrow>
      choose_or_wait q excluded w s = (s', Chosen sel) \<Longrightarrow> sn_account sel = Some u \<Longrightarrow> ua_id u \<notin> set excluded \<Longrightarrow>
      sends_ok w (ua_id u) es \<Longrightarrow>
      (if first \<or> counts_here q u then es = [] \<or> (\<exists>fs. es = Counted # fs \<and> Counted \<notin> set fs) else Counted \<notin> set es) \<Longrightarrow> R (log @ es)"
  shows "R (dp_log d') \<and> active (dp_slots d') = with_kept r (active (dp_slots d)) \<and>
    waiting (dp_slots d') = waiting (dp_slots d)"
  using run debt start sub
proof (induction ws arbitrary: first excluded rejected d)
  case Nil
  then show ?case using last by (auto simp: with_kept_def)
next
  case (Cons w ws)
  obtain s c where c: "choose_or_wait q excluded w (dp_slots d) = (s, c)" by fastforce
  note effect = choose_or_wait_effect [OF c Cons.prems(2)]
  show ?case
  proof (cases "\<exists>sel. c = Chosen sel")
    case False
    then have "d' = d\<lparr>dp_slots := s\<rparr>" "r = failed_choice rejected c" using Cons.prems(1) c by (auto split: choice.splits)
    moreover have "keeps_slot (failed_choice rejected c) = None" by (simp add: failed_choice_def split: choice.splits)
    moreover have "active s = active (dp_slots d)" "waiting s = waiting (dp_slots d)"
      using effect False by (auto simp: chosen_effect_def same_queues_def split: choice.splits)
    ultimately show ?thesis using last Cons.prems(3) by (simp add: with_kept_def)
  next
    case True
    then obtain sel u where u: "c = Chosen sel" "sn_account sel = Some u" "ua_id u \<notin> set excluded"
        "active s = (active (dp_slots d))((''account'', ua_id u) := active (dp_slots d) (''account'', ua_id u) + 1)"
        "waiting s = waiting (dp_slots d)"
      using effect by (auto simp: chosen_effect_def same_queues_def)
    have w: "w \<in> W" using Cons.prems(4) by simp
    have released: "active (release_account sel s) = active (dp_slots d)" "waiting (release_account sel s) = waiting (dp_slots d)"
      using chosen_released [OF _ Cons.prems(2)] effect u(1) by (auto simp: same_queues_def)
    obtain e p where e: "attempt_with host count count_messages prepare q first w sel u (d\<lparr>dp_slots := s\<rparr>) = (e, p)" by fastforce
    from attempt_with_effect [OF this] obtain es where
        slots: "dp_slots e = (if kept_slot p = Some sel then s else release_account sel s)" "kept_slot p = None \<or> kept_slot p = Some sel"
        and retry: "\<And>i x. p = Try_again i x \<Longrightarrow> i = ua_id u \<and> \<not> tools_may_act q \<and> \<not> counts_here q u"
        and es: "dp_log e = dp_log d @ es" "sends_ok w (ua_id u) es"
          "if first \<or> counts_here q u then es = [] \<and> (\<forall>i x. p \<noteq> Try_again i x) \<or> (\<exists>fs. es = Counted # fs \<and> Counted \<notin> set fs)
             else Counted \<notin> set es"
      by (auto simp: attempt_effect_def split: if_splits)
    note picked = Cons.prems(3) w c [unfolded u(1)] u(2,3)
    show ?thesis
    proof (cases p)
      case (Finished_with r')
      then have "d' = e" "r = r'" using Cons.prems(1) c u e by auto
      moreover have "R (dp_log e)" unfolding es(1) using ended [OF picked es(2)] es(3) by (auto split: if_splits)
      moreover have "account_id sel = ua_id u" using u(2) by (simp add: account_id_def)
      ultimately show ?thesis using slots Finished_with released u(4,5) by (auto simp: Let_def with_kept_def)
    next
      case (Try_again i x)
      then have i: "i = ua_id u" "\<not> tools_may_act q" "\<not> counts_here q u" using retry by auto
      have rest: "attempts host count count_messages prepare q False (ua_id u # excluded) (Some (sel, x)) ws e = (d', r)"
        using Cons.prems(1) c u e Try_again i by auto
      have same: "active (dp_slots e) = active (dp_slots d)" "waiting (dp_slots e) = waiting (dp_slots d)"
        using slots Try_again released by auto
      have "if first then \<exists>fs. es = Counted # fs \<and> Counted \<notin> set fs else Counted \<notin> set es"
        using es(3) Try_again i(3) by (cases first) auto
      then have "P False (ua_id u # excluded) (dp_log e)" unfolding es(1) by (rule again [OF picked i(2,3) es(2)])
      from Cons.IH [OF rest _ this] show ?thesis using Cons.prems(2,4) by (simp add: same no_debt_def)
    qed
  qed
qed


text \<open>Property C5: A request returns what it takes. When its attempts have ended, by an answer, an error, a local count or a
  run in the background, every waiting queue is as long as before, and every resource has as many active requests
  as before, except that an answer to be forwarded still holds the one slot of the account that gave it.\<close>
theorem request_returns_slots:
  assumes "dispatch host count count_messages prepare q world s = (d, r)" and "no_debt s"
  shows "waiting (dp_slots d) = waiting s \<and> active (dp_slots d) = with_kept r (active s)"
  using attempts_induct [OF assms(1) [unfolded dispatch_def], of "\<lambda>_ _ _. True" UNIV "\<lambda>_. True"] assms(2) by simp


text \<open>Whether the first attempt of a request reaches its provider, or is counted on the spot.\<close>

definition gets_through ::
  "int result \<Rightarrow> (selection \<Rightarrow> upstream_account \<Rightarrow> wire result) \<Rightarrow> dispatch_request \<Rightarrow> attempt \<Rightarrow> slots \<Rightarrow> bool" where
  "gets_through count_messages prepare q w s = (case choose_or_wait q [] w s of
     (s', Chosen sel) \<Rightarrow> (case sn_account sel of None \<Rightarrow> False | Some u \<Rightarrow> gets_past count_messages prepare q w sel u s')
   | _ \<Rightarrow> False)"

lemma first_attempt:
  assumes run: "attempts host count count_messages prepare q True [] None (w # ws) \<lparr>dp_slots = s, dp_log = []\<rparr> = (d, r)"
    and debt: "no_debt s"
  shows "(\<not> gets_through count_messages prepare q w s \<and> dp_log d = []) \<or>
    gets_through count_messages prepare q w s \<and> (\<exists>es e sel u s' x. dp_log e = Counted # es \<and> Counted \<notin> set es \<and>
      choose_or_wait q [] w s = (s', Chosen sel) \<and> sn_account sel = Some u \<and> no_debt (dp_slots e) \<and>
      (d = e \<or> \<not> counts_here q u \<and> attempts host count count_messages prepare q False [ua_id u] (Some (sel, x)) ws e = (d, r)))"
proof -
  obtain s' c where c: "choose_or_wait q [] w s = (s', c)" by fastforce
  note effect = choose_or_wait_effect [OF c debt]
  show ?thesis
  proof (cases "\<exists>sel. c = Chosen sel")
    case False
    then show ?thesis using run c by (auto simp: gets_through_def split: choice.splits)
  next
    case True
    then obtain sel u where u: "c = Chosen sel" "sn_account sel = Some u"
        "active s' = (active s)((''account'', ua_id u) := active s (''account'', ua_id u) + 1)"
      using effect by (auto simp: chosen_effect_def)
    have through: "gets_through count_messages prepare q w s = gets_past count_messages prepare q w sel u s'"
      using c u by (simp add: gets_through_def)
    obtain e p where e: "attempt_with host count count_messages prepare q True w sel u \<lparr>dp_slots = s', dp_log = []\<rparr> = (e, p)" by fastforce
    note eff = attempt_with_effect [OF e, unfolded attempt_effect_def]
    have "no_debt s'" using debt u(3) by (simp add: no_debt_def)
    moreover have "no_debt (release_account sel s')"
      using chosen_released [OF _ debt] effect u(1) debt by (simp add: no_debt_def)
    ultimately have debt': "no_debt (dp_slots e)" using eff by auto
    have log: "if gets_through count_messages prepare q w s then \<exists>es. dp_log e = Counted # es \<and> Counted \<notin> set es
        else dp_log e = [] \<and> (\<forall>i x. p \<noteq> Try_again i x)"
      using eff by (simp add: through)
    show ?thesis
    proof (cases "gets_through count_messages prepare q w s")
      case False
      then obtain r' where "p = Finished_with r'" using log by (cases p) auto
      then show ?thesis using run c u e log False by simp
    next
      case True
      then obtain es where es: "dp_log e = Counted # es" "Counted \<notin> set es" using log by auto
      obtain x where x: "d = e \<or> \<not> counts_here q u \<and> attempts host count count_messages prepare q False [ua_id u] (Some (sel, x)) ws e = (d, r)"
      proof (cases p)
        case (Finished_with r')
        then have "d = e" using run c u e by auto
        then show ?thesis using that by blast
      next
        case (Try_again i y)
        then have "attempts host count count_messages prepare q False [ua_id u] (Some (sel, y)) ws e = (d, r)" "\<not> counts_here q u"
          using run c u e eff by auto
        then show ?thesis using that by blast
      qed
      have "choose_or_wait q [] w s = (s', Chosen sel)" using c u(1) by simp
      then show ?thesis using True es u(2) debt' x by blast
    qed
  qed
qed

text \<open>After the first attempt nothing counts any more, if no account that is tried counts on the spot.\<close>

lemma later_attempts:
  assumes run: "attempts host count count_messages prepare q False [ua_id u] (Some (sel, x)) ws e = (d, r)"
    and debt: "no_debt (dp_slots e)"
    and log: "\<exists>es. dp_log e = Counted # es \<and> Counted \<notin> set es"
    and other: "\<And>w ex t t' sel' v. w \<in> set ws \<Longrightarrow> choose_or_wait q ex w t = (t', Chosen sel') \<Longrightarrow>
      sn_account sel' = Some v \<Longrightarrow> \<not> counts_here q v"
  shows "\<exists>es. dp_log d = Counted # es \<and> Counted \<notin> set es"
proof -
  let ?R = "\<lambda>log. \<exists>es. log = Counted # es \<and> Counted \<notin> set es"
  let ?P = "\<lambda>first (excluded :: int list) log. \<not> first \<and> ?R log"
  have "?R (dp_log d) \<and> active (dp_slots d) = with_kept r (active (dp_slots e)) \<and> waiting (dp_slots d) = waiting (dp_slots e)"
  proof (rule attempts_induct [OF run, of ?P "set ws" ?R])
    fix first excluded log w t t' sel' v es
    assume "?P first excluded log" "if first then \<exists>fs. es = Counted # fs \<and> Counted \<notin> set fs else Counted \<notin> set es"
    then show "?P False (ua_id v # excluded) (log @ es)" by auto
  next
    fix first excluded log w t t' sel' v es
    assume "?P first excluded log" "w \<in> set ws" "choose_or_wait q excluded w t = (t', Chosen sel')" "sn_account sel' = Some v"
      "if first \<or> counts_here q v then es = [] \<or> (\<exists>fs. es = Counted # fs \<and> Counted \<notin> set fs) else Counted \<notin> set es"
    then show "?R (log @ es)" using other by auto
  qed (use debt log in auto)
  then show ?thesis by blast
qed

text \<open>Property C7: A request counts against the limits per minute exactly when its first attempt gets through: an account
  is chosen, its checks and preparation succeed, the gateway runs, the client is there and both windows have room (or
  the tokens of a Messages request are counted on the spot). It then counts once, before anything else is done to the outside,
  however many accounts it goes to, and otherwise nothing at all is done. (For token counts this uses that an account keeps
  its platform between being listed and being read.)\<close>
theorem counted_once_before_dispatch:
  assumes "dispatch host count count_messages prepare q world s = (d, r)" and "no_debt s"
    and "\<And>k. tq_count_only (dr_request q) \<Longrightarrow> k < max_attempts q \<Longrightarrow> platforms_kept q (world k)"
  shows "if gets_through count_messages prepare q (world 0) s then \<exists>es. dp_log d = Counted # es \<and> Counted \<notin> set es else dp_log d = []"
proof -
  have "max_attempts q \<noteq> 0" by (simp add: max_attempts_def)
  then obtain n where n: "max_attempts q = Suc n" using not0_implies_Suc by blast
  define ws where "ws = map world [1..<Suc n]"
  have "map world [0..<max_attempts q] = world 0 # ws" by (simp add: n ws_def upt_conv_Cons del: upt_Suc)
  then have run: "attempts host count count_messages prepare q True [] None (world 0 # ws) \<lparr>dp_slots = s, dp_log = []\<rparr> = (d, r)"
    using assms(1) by (simp add: dispatch_def)
  let ?R = "\<lambda>log. \<exists>es. log = Counted # es \<and> Counted \<notin> set es"
  show ?thesis
  proof (cases "gets_through count_messages prepare q (world 0) s")
    case False
    then show ?thesis using first_attempt [OF run assms(2)] by auto
  next
    case True
    then obtain e sel u s' x where e: "?R (dp_log e)" "choose_or_wait q [] (world 0) s = (s', Chosen sel)" "sn_account sel = Some u"
        "no_debt (dp_slots e)"
        "d = e \<or> \<not> counts_here q u \<and> attempts host count count_messages prepare q False [ua_id u] (Some (sel, x)) ws e = (d, r)"
      using first_attempt [OF run assms(2)] by blast
    have "?R (dp_log d)"
    proof (cases "d = e")
      case False
      then have rest: "\<not> counts_here q u" "attempts host count count_messages prepare q False [ua_id u] (Some (sel, x)) ws e = (d, r)"
        using e(5) by auto
      have other: "\<not> counts_here q v" if "w \<in> set ws" "choose_or_wait q ex w t = (t', Chosen sel')" "sn_account sel' = Some v" for w ex t t' sel' v
      proof
        assume v: "counts_here q v"
        then have "tq_count_only (dr_request q)" by (simp add: counts_here_def)
        then have kept: "k < max_attempts q \<Longrightarrow> platforms_kept q (world k)" for k using assms(3) by blast
        have "w \<in> world ` {1..<Suc n}" using that(1) by (simp add: ws_def del: upt_Suc)
        then have "platforms_kept q w" using kept n by auto
        moreover have "platforms_kept q (world 0)" using kept n by simp
        ultimately have "ua_platform v = ua_platform u" using picked_platform that(2,3) e(2,3) by metis
        then show False using v rest(1) by (simp add: counts_here_def)
      qed
      show ?thesis by (rule later_attempts [OF rest(2) e(4,1)]) (rule other)
    qed (use e(1) in simp)
    then show ?thesis using True by simp
  qed
qed


section \<open>An example\<close>

text \<open>Two accounts: the preferred one is out of quota for the moment, the other answers.\<close>

definition sample_dispatch :: dispatch_request where
  "sample_dispatch = \<lparr>dr_identity = sample_identity, dr_request = sample_request, dr_routing = ''gpt-5-mini'', dr_binding = None,
     dr_sticky = None, dr_catalog = None, dr_socket = None, dr_search = False, dr_audio = False, dr_extension = False,
     dr_session = ''s'', dr_previous = [], dr_resources = []\<rparr>"

definition sample_attempt :: attempt where
  "sample_attempt = \<lparr>at_env = sample_choice_env None, at_turns = [], at_canceled = False, at_windows = Some (0, 0), at_bound = True,
     at_background = Inr (), at_settings = Some [], at_exchange = (\<lambda>sel _. Reply (if account_id sel = 2 then 429 else 200) ''30'' []),
     at_rules = None, at_health = sample_health\<rparr>"

definition sample_run :: "dispatch_state \<times> request_outcome" where
  "sample_run = dispatch (\<lambda>_. None) (\<lambda>_. Inr 0) (Inr 0)
     (\<lambda>_ _. Inr \<lparr>wr_protocol = ''responses'', wr_path = ''/v1/responses'', wr_beta = [], wr_body = ''b'', wr_emulated = False\<rparr>)
     sample_dispatch (\<lambda>_. sample_attempt) fresh_slots"

lemma sample_run_dispatch:
  "dispatch (\<lambda>_. None) (\<lambda>_. Inr 0) (Inr 0)
     (\<lambda>_ _. Inr \<lparr>wr_protocol = ''responses'', wr_path = ''/v1/responses'', wr_beta = [], wr_body = ''b'', wr_emulated = False\<rparr>)
     sample_dispatch (\<lambda>_. sample_attempt) fresh_slots = (fst sample_run, snd sample_run)"
  by (simp add: sample_run_def)

lemma sample_run_values:
  "sent_to (dp_log (fst sample_run)) = [2, 1]" "map_option account_id (keeps_slot (snd sample_run)) = Some 1"
  by code_simp+

theorem request_returns_slots_witness:
  "active (dp_slots (fst sample_run)) (''account'', 1) = 1 \<and> active (dp_slots (fst sample_run)) (''account'', 2) = 0"
proof -
  have "active (dp_slots (fst sample_run)) = with_kept (snd sample_run) (active fresh_slots)"
    using request_returns_slots [OF sample_run_dispatch fresh_no_debt] by blast
  then show ?thesis using sample_run_values(2) by (auto simp: with_kept_def fresh_slots_def active_def tally_of_def split: option.splits)
qed


theorem counted_once_before_dispatch_witness:
  "\<exists>es. dp_log (fst sample_run) = Counted # es \<and> Counted \<notin> set es"
proof -
  have "platforms_kept sample_dispatch sample_attempt" by code_simp
  then have "if gets_through (Inr 0) (\<lambda>_ _. Inr \<lparr>wr_protocol = ''responses'', wr_path = ''/v1/responses'', wr_beta = [], wr_body = ''b'',
        wr_emulated = False\<rparr>) sample_dispatch sample_attempt fresh_slots
      then \<exists>es. dp_log (fst sample_run) = Counted # es \<and> Counted \<notin> set es else dp_log (fst sample_run) = []"
    by (intro counted_once_before_dispatch [OF sample_run_dispatch fresh_no_debt])
  then show ?thesis using sample_run_values(1) by (auto split: if_splits)
qed

end
