(* ===== verification/Base64.thy ===== *)
theory Base64
  imports Json_Text
begin

text \<open>
  \<open>base64.StdEncoding\<close>, as the media code uses it: encoding with padding, and decoding, which ignores line breaks
  and does not look at the bits the padding leaves over.
\<close>

definition digit64 :: "nat \<Rightarrow> char" where
  "digit64 n = char_of (if n < 26 then 65 + n else if n < 52 then 71 + n else if n < 62 then n - 4 else if n = 62 then 43 else (47::nat))"

definition value64 :: "char \<Rightarrow> nat option" where
  "value64 c = (let n = of_char c :: nat in
     if 65 \<le> n \<and> n \<le> 90 then Some (n - 65) else if 97 \<le> n \<and> n \<le> 122 then Some (n - 71)
     else if 48 \<le> n \<and> n \<le> 57 then Some (n + 4) else if n = 43 then Some 62 else if n = 47 then Some 63 else None)"

fun encode64 :: "string \<Rightarrow> string" where
  "encode64 [] = []"
| "encode64 [a] = (let x = of_char a :: nat in [digit64 (x div 4), digit64 (x mod 4 * 16), CHR ''='', CHR ''=''])"
| "encode64 [a, b] = (let x = of_char a :: nat; y = of_char b in
     [digit64 (x div 4), digit64 (x mod 4 * 16 + y div 16), digit64 (y mod 16 * 4), CHR ''=''])"
| "encode64 (a # b # c # s) = (let x = of_char a :: nat; y = of_char b; z = of_char c in
     digit64 (x div 4) # digit64 (x mod 4 * 16 + y div 16) # digit64 (y mod 16 * 4 + z div 64) # digit64 (z mod 64) # encode64 s)"

fun bytes64 :: "nat list \<Rightarrow> string" where
  "bytes64 (p # q # r) = char_of ((p * 4 + q div 16) mod 256) # (case r of
     [] \<Rightarrow> []
   | s # t \<Rightarrow> char_of ((q * 16 + s div 4) mod 256) # (case t of [] \<Rightarrow> [] | u # _ \<Rightarrow> [char_of ((s * 64 + u) mod 256)]))"
| "bytes64 _ = []"

fun quartets64 :: "string \<Rightarrow> string option" where
  "quartets64 [] = Some []"
| "quartets64 (a # b # c # d # s) =
     (if c = CHR ''='' then (if d = CHR ''='' \<and> s = [] then map_option bytes64 (those (map value64 [a, b])) else None)
      else if d = CHR ''='' then (if s = [] then map_option bytes64 (those (map value64 [a, b, c])) else None)
      else (case (those (map value64 [a, b, c, d]), quartets64 s) of
          (Some vs, Some t) \<Rightarrow> Some (bytes64 vs @ t) | _ \<Rightarrow> None))"
| "quartets64 _ = None"

definition decode64 :: "string \<Rightarrow> string option" where
  "decode64 s = quartets64 (filter (\<lambda>c. c \<noteq> CHR 0x0A \<and> c \<noteq> CHR 0x0D) s)"


section \<open>What is encoded is decoded\<close>

lemma value_of_digit: "n < 64 \<Longrightarrow> value64 (digit64 n) = Some n"
  by (auto simp: value64_def digit64_def Let_def)

lemma digit_plain:
  assumes "n < 64"
  shows "digit64 n \<noteq> CHR ''=''" "digit64 n \<noteq> CHR 0x0A" "digit64 n \<noteq> CHR 0x0D"
proof -
  have "value64 (CHR ''='') = None" "value64 (CHR 0x0A) = None" "value64 (CHR 0x0D) = None" by code_simp+
  then show "digit64 n \<noteq> CHR ''=''" "digit64 n \<noteq> CHR 0x0A" "digit64 n \<noteq> CHR 0x0D"
    using value_of_digit [OF assms] by auto
qed

lemma sextets:
  fixes x y z :: nat
  assumes "x < 256" "y < 256" "z < 256"
  shows "x div 4 < 64" "x mod 4 * 16 < 64" "x mod 4 * 16 + y div 16 < 64" "y mod 16 * 4 < 64" "y mod 16 * 4 + z div 64 < 64" "z mod 64 < 64"
    "(x div 4 * 4 + (x mod 4 * 16) div 16) mod 256 = x"
    "(x div 4 * 4 + (x mod 4 * 16 + y div 16) div 16) mod 256 = x"
    "((x mod 4 * 16 + y div 16) * 16 + (y mod 16 * 4) div 4) mod 256 = y"
    "((x mod 4 * 16 + y div 16) * 16 + (y mod 16 * 4 + z div 64) div 4) mod 256 = y"
    "((y mod 16 * 4 + z div 64) * 64 + z mod 64) mod 256 = z"
proof -
  have h: "y div 16 < 16" and g: "z div 64 < 4" and "x div 4 < 64" using assms by (auto simp: less_mult_imp_div_less)
  moreover have "x mod 4 < 4" "y mod 16 < 16" "z mod 64 < 64" by simp_all
  ultimately show "x div 4 < 64" "x mod 4 * 16 < 64" "x mod 4 * 16 + y div 16 < 64" "y mod 16 * 4 < 64"
      "y mod 16 * 4 + z div 64 < 64" "z mod 64 < 64" by linarith+
  have r: "(x mod 4 * 16 + y div 16) div 16 = x mod 4" using h by simp
  have l: "(y mod 16 * 4 + z div 64) div 4 = y mod 16" using g by simp
  have y: "(r * 16 + y div 16) * 16 + y mod 16 = r * 256 + y" for r using div_mult_mod_eq [of y 16] by simp
  have z: "(l * 4 + z div 64) * 64 + z mod 64 = l * 256 + z" for l using div_mult_mod_eq [of z 64] by simp
  show "(x div 4 * 4 + (x mod 4 * 16) div 16) mod 256 = x" using assms by simp
  show "(x div 4 * 4 + (x mod 4 * 16 + y div 16) div 16) mod 256 = x" unfolding r using assms by simp
  show "((x mod 4 * 16 + y div 16) * 16 + (y mod 16 * 4) div 4) mod 256 = y" using assms y [of "x mod 4"] by simp
  show "((x mod 4 * 16 + y div 16) * 16 + (y mod 16 * 4 + z div 64) div 4) mod 256 = y" unfolding l y using assms by simp
  show "((y mod 16 * 4 + z div 64) * 64 + z mod 64) mod 256 = z" unfolding z using assms by simp
qed

lemma quartets_encode: "quartets64 (encode64 s) = Some s"
proof (induction s rule: encode64.induct)
  case (2 a)
  note b = sextets [of "of_char a" 0 0, simplified]
  show ?case using b by (simp add: Let_def value_of_digit digit_plain)
next
  case (3 a b)
  note s = sextets [of "of_char a" "of_char b" 0, simplified]
  show ?case using s by (simp add: Let_def value_of_digit digit_plain)
next
  case (4 a b c s)
  note s = sextets [of "of_char a" "of_char b" "of_char c", simplified]
  show ?case using s 4 by (simp add: Let_def value_of_digit digit_plain)
qed simp

lemma encode_no_breaks: "filter (\<lambda>c. c \<noteq> CHR 0x0A \<and> c \<noteq> CHR 0x0D) (encode64 s) = encode64 s"
proof (induction s rule: encode64.induct)
  case (2 a)
  show ?case using sextets [of "of_char a" 0 0, simplified] by (simp add: Let_def digit_plain)
next
  case (3 a b)
  show ?case using sextets [of "of_char a" "of_char b" 0, simplified] by (simp add: Let_def digit_plain)
next
  case (4 a b c s)
  then show ?case using sextets [of "of_char a" "of_char b" "of_char c", simplified] by (simp add: Let_def digit_plain)
qed simp

lemma decode_encode: "decode64 (encode64 s) = Some s"
  by (simp add: decode64_def encode_no_breaks quartets_encode)

end
