(* ===== verification/Response_Tools.thy ===== *)
theory Response_Tools
  imports Base64 Accounts
begin

text \<open>
  The tools of Responses requests: what a client may declare and replay, and what the gateway removes before a response
  leaves it. Containers and skills are \<open>internal/app/response_code.go\<close>, programs \<open>response_program.go\<close>, client tools
  \<open>response_local_tools.go\<close> and \<open>response_computer.go\<close>, remote servers \<open>response_mcp.go\<close>, tool search
  \<open>response_tool_search.go\<close>; the namespaces are in \<open>responses.go\<close>, and the media sources of \<open>chat_anthropic.go\<close> are here because
  screenshots use them.

  The checks of the entries of a Go map are made in the order of the association list. \<open>parse_url\<close> is \<open>url.Parse\<close>,
  \<open>digest\<close> is \<open>digest\<close> of \<open>auth.go\<close>.
\<close>

section \<open>Decoding\<close>

text \<open>Into a map without duplicates: the last of two entries with one key counts.\<close>

definition as_fields :: "json option \<Rightarrow> fields option option" where
  "as_fields j = map_option (map_option AList.clearjunk) (as_object j)"

text \<open>Into a \<open>[]map[string]json.RawMessage\<close>: the inner \<open>None\<close> is the nil slice; a null element is a nil map.\<close>

fun objects_of :: "json list \<Rightarrow> fields list option" where
  "objects_of [] = Some []"
| "objects_of (j # js) = (case (as_fields (Some j), objects_of js) of
     (Some m, Some ms) \<Rightarrow> Some (given m [] # ms) | _ \<Rightarrow> None)"

fun as_objects :: "json option \<Rightarrow> fields list option option" where
  "as_objects (Some JNull) = Some None"
| "as_objects (Some (JArr js)) = map_option Some (objects_of js)"
| "as_objects _ = None"

text \<open>A list that may be nil, read from a member that may be absent.\<close>

definition objects_or_none :: "json option \<Rightarrow> fields list option" where
  "objects_or_none v = (if v = None then Some [] else map_option (\<lambda>ms. given ms []) (as_objects v))"

text \<open>\<open>json.Marshal\<close> of a map, as a value.\<close>

definition object_of :: "fields \<Rightarrow> json" where
  "object_of m = JObj (sort_key fst (AList.clearjunk m))"

lemma put_same: "assoc m k = Some v \<Longrightarrow> put k v m = m"
  by (induction m) (auto simp: put_def split: if_splits)

lemma remove_absent: "assoc m k = None \<Longrightarrow> remove k m = m"
  by (induction m) (auto simp: remove_def split: if_splits)


definition is_null :: "json option \<Rightarrow> bool" where
  "is_null v \<longleftrightarrow> (case v of None \<Rightarrow> True | Some j \<Rightarrow> j = JNull)"

text \<open>Into a pointer to a string or a bool, \<open>None\<close> when it fails or stays nil.\<close>

fun string_value :: "json option \<Rightarrow> string option" where
  "string_value (Some (JStr s)) = Some s"
| "string_value _ = None"

fun bool_value :: "json option \<Rightarrow> bool option" where
  "bool_value (Some (JBool b)) = Some b"
| "bool_value _ = None"

text \<open>A number a \<open>float64\<close> can hold, rounded.\<close>

definition float_ok :: "json_number \<Rightarrow> bool" where
  "float_ok n \<longleftrightarrow> parse_number n \<noteq> None \<and> \<bar>rat_val n\<bar> < 2 ^ 1024 - 2 ^ 970"

fun float_value :: "json option \<Rightarrow> rat option" where
  "float_value (Some (JNum n)) = (if float_ok n then Some (rat_val n) else None)"
| "float_value _ = None"

definition only_fields :: "string list \<Rightarrow> failure \<Rightarrow> fields \<Rightarrow> unit result" where
  "only_fields names e m = each (\<lambda>(k, _). check (List.member names k) e) m"


section \<open>Callers and programs\<close>

definition programmatic_tool :: "string \<Rightarrow> bool" where
  "programmatic_tool kind \<longleftrightarrow> kind = ''programmatic_tool_calling''"

definition validate_programmatic_tool :: "fields \<Rightarrow> unit result" where
  "validate_programmatic_tool tool =
     check (length tool = 1 \<and> programmatic_tool (credential_string tool ''type'')) (bad ''unsupported programmatic tool option'')"

definition validate_allowed_callers :: "json option \<Rightarrow> unit result" where
  "validate_allowed_callers raw =
     (if is_null raw then Inr ()
      else (case as_strings raw of
          None \<Rightarrow> Inl (bad ''invalid allowed_callers'')
        | Some callers \<Rightarrow> check (callers \<noteq> [] \<and> length callers \<le> 2 \<and> list_all (List.member [''direct'', ''programmatic'']) callers \<and>
            distinct callers) (bad ''invalid allowed_callers'')))"

definition valid_program_call_id :: "string \<Rightarrow> bool" where
  "valid_program_call_id i \<longleftrightarrow> length i \<le> 64 \<and> valid_response_id i"

definition has_programmatic_caller :: "json option \<Rightarrow> bool result" where
  "has_programmatic_caller raw =
     (if is_null raw then Inr False
      else (case as_fields raw of
          Some (Some caller) \<Rightarrow>
            (if credential_string caller ''type'' = ''direct''
               then if length caller \<noteq> 1 then Inl (bad ''direct caller has unsupported fields'') else Inr False
             else if credential_string caller ''type'' = ''program''
               then if length caller \<noteq> 2 \<or> \<not> valid_program_call_id (credential_string caller ''caller_id'')
                 then Inl (bad ''program caller requires a valid caller ID'') else Inr True
             else Inl (bad ''invalid tool caller type''))
        | _ \<Rightarrow> Inl (bad ''invalid tool caller'')))"

definition bounded_text :: "json option \<Rightarrow> bool" where
  "bounded_text v \<longleftrightarrow> (case string_value v of None \<Rightarrow> False | Some s \<Rightarrow> length s \<le> 10485760)"

definition calling_items :: "string list" where
  "calling_items = [''function_call'', ''custom_tool_call'', ''function_call_output'', ''custom_tool_call_output'', ''shell_call'',
     ''shell_call_output'', ''apply_patch_call'', ''apply_patch_call_output'']"

definition validate_response_program_item :: "fields \<Rightarrow> bool result" where
  "validate_response_program_item item =
     (let kind = credential_string item ''type'';
          ids = valid_response_id (credential_string item ''id'') \<and> valid_program_call_id (credential_string item ''call_id'') in
      if kind = ''program'' then
        and_then (only_fields [''type'', ''id'', ''call_id'', ''code'', ''fingerprint''] (bad ''unsupported program item field'') item) (\<lambda>_.
        and_then (check ids (bad ''program item requires valid IDs'')) (\<lambda>_.
        and_then (check (bounded_text (assoc item ''code'') \<and> bounded_text (assoc item ''fingerprint''))
          (bad ''program item code or fingerprint is invalid'')) (\<lambda>_. Inr True)))
      else if kind = ''program_output'' then
        and_then (only_fields [''type'', ''id'', ''call_id'', ''result'', ''status''] (bad ''unsupported program output field'') item) (\<lambda>_.
        and_then (check ids (bad ''program output requires valid IDs'')) (\<lambda>_.
        and_then (check (assoc item ''result'' \<noteq> None) (bad ''program output requires a result'')) (\<lambda>_.
        and_then (check (bounded_text (assoc item ''result'')) (bad ''program output result is invalid'')) (\<lambda>_.
        and_then (check (List.member [''completed'', ''incomplete''] (credential_string item ''status''))
          (bad ''invalid program output status'')) (\<lambda>_. Inr True)))))
      else if List.member calling_items kind then has_programmatic_caller (assoc item ''caller'')
      else Inr False)"

text \<open>\<open>responseToolDefinition\<close>: JSON with sorted keys and the numbers as they were.\<close>

definition response_tool_definition :: "fields \<Rightarrow> string" where
  "response_tool_definition tool = marshal_json (JObj (rev tool))"

definition program_call_reference :: "string \<Rightarrow> string" where
  "program_call_reference i = ''program:'' @ i"

definition program_item_reference :: "(string \<Rightarrow> string) \<Rightarrow> fields \<Rightarrow> string" where
  "program_item_reference digest item = ''program-item:'' @ digest (response_tool_definition item)"


section \<open>Namespaces\<close>

definition response_namespace_children :: "fields \<Rightarrow> fields list result" where
  "response_namespace_children tool =
     (let name = credential_string tool ''name''; raw = assoc tool ''tools'' in
      if name = [] \<or> 256 < length name then Inl (bad ''invalid tool namespace'')
      else if raw \<noteq> None \<and> assoc tool ''children'' \<noteq> None then Inl (bad ''use tools or children, not both'')
      else (case as_objects (if raw = None then assoc tool ''children'' else raw) of
          Some (Some (c # cs)) \<Rightarrow>
            and_then (each (\<lambda>child. let n = credential_string child ''name'' in
              and_then (check (credential_string child ''type'' = ''function'' \<and> n \<noteq> [] \<and> length n \<le> 256)
                (bad ''namespace supports only named client function tools'')) (\<lambda>_.
              validate_allowed_callers (assoc child ''allowed_callers''))) (c # cs)) (\<lambda>_. Inr (c # cs))
        | _ \<Rightarrow> Inl (bad ''namespace requires function tools'')))"

definition programmatic_callers :: "json option \<Rightarrow> bool" where
  "programmatic_callers raw \<longleftrightarrow> (case as_strings raw of None \<Rightarrow> False | Some cs \<Rightarrow> List.member cs ''programmatic'')"

text \<open>\<open>validateProgrammaticDeclarations\<close>; the children of a namespace are functions, which have no children.\<close>

definition programmatic_declaration :: "fields \<Rightarrow> bool result" where
  "programmatic_declaration tool =
     (if programmatic_tool (credential_string tool ''type'')
      then and_then (validate_programmatic_tool tool) (\<lambda>_. Inr True)
      else if assoc tool ''allowed_callers'' = None then Inr False
      else and_then (check (List.member [''function'', ''custom'', ''apply_patch'', ''shell'', ''code_interpreter'', ''mcp'']
          (credential_string tool ''type'')) (bad ''this tool does not accept allowed_callers'')) (\<lambda>_.
        and_then (validate_allowed_callers (assoc tool ''allowed_callers'')) (\<lambda>_.
          Inr (programmatic_callers (assoc tool ''allowed_callers'')))))"

fun any_of :: "('a \<Rightarrow> bool result) \<Rightarrow> 'a list \<Rightarrow> bool result" where
  "any_of f [] = Inr False"
| "any_of f (x # xs) = and_then (f x) (\<lambda>b. and_then (any_of f xs) (\<lambda>c. Inr (b \<or> c)))"

definition validate_programmatic_declarations :: "fields list \<Rightarrow> bool result" where
  "validate_programmatic_declarations = any_of (\<lambda>tool.
     and_then (programmatic_declaration tool) (\<lambda>b.
       if credential_string tool ''type'' = ''namespace''
       then and_then (response_namespace_children tool) (\<lambda>children. and_then (any_of programmatic_declaration children) (\<lambda>c. Inr (b \<or> c)))
       else Inr b))"


section \<open>Containers and skills\<close>

definition valid_domain_name :: "string \<Rightarrow> bool" where
  "valid_domain_name d \<longleftrightarrow> d \<noteq> [] \<and> length d \<le> 253 \<and> list_all (\<lambda>l.
     l \<noteq> [] \<and> length l \<le> 63 \<and> hd l \<noteq> CHR ''-'' \<and> last l \<noteq> CHR ''-'' \<and>
     list_all (\<lambda>c. is_lower c \<or> is_upper c \<or> is_digit c \<or> c = CHR ''-'') l) (split_at (CHR ''.'') d)"

fun distinct_domains :: "string list \<Rightarrow> string list \<Rightarrow> string list result" where
  "distinct_domains seen [] = Inr seen"
| "distinct_domains seen (d # ds) =
     (if \<not> valid_domain_name d \<or> List.member seen (to_lower d) then Inl (bad ''invalid or duplicate container domain'')
      else distinct_domains (to_lower d # seen) ds)"

text \<open>A domain secret: its domain is allowed, its name is new for the domain, its value is one line.\<close>

definition secret_ok :: "string list \<Rightarrow> (string \<times> string) list \<Rightarrow> fields \<Rightarrow> bool" where
  "secret_ok allowed seen secret \<longleftrightarrow>
     (let domain = to_lower (credential_string secret ''domain''); name = credential_string secret ''name'';
          val = credential_string secret ''value'' in
      length secret = 3 \<and> List.member allowed domain \<and> valid_response_id name \<and> val \<noteq> [] \<and> length val \<le> 65536 \<and>
      \<not> contains_any val [CHR 0x0D, CHR 0x0A, CHR 0x00] \<and> \<not> List.member seen (domain, name))"

fun secrets_ok :: "string list \<Rightarrow> (string \<times> string) list \<Rightarrow> fields list \<Rightarrow> bool" where
  "secrets_ok allowed seen [] = True"
| "secrets_ok allowed seen (s # ss) \<longleftrightarrow> secret_ok allowed seen s \<and>
     secrets_ok allowed ((to_lower (credential_string s ''domain''), credential_string s ''name'') # seen) ss"

definition validate_domain_secrets :: "string list \<Rightarrow> json option \<Rightarrow> unit result" where
  "validate_domain_secrets allowed raw =
     (if raw = None then Inr ()
      else (case as_objects raw of
          Some (Some secrets) \<Rightarrow>
            (if 100 < length secrets then Inl (bad ''invalid container domain secrets'')
             else check (secrets_ok allowed [] secrets) (bad ''domain secret requires a unique name, an allowed domain and a valid value''))
        | _ \<Rightarrow> Inl (bad ''invalid container domain secrets'')))"

definition validate_container_network :: "json option \<Rightarrow> unit result" where
  "validate_container_network raw = (case as_fields raw of
     Some (Some policy) \<Rightarrow>
       (let kind = credential_string policy ''type'' in
        if kind = ''disabled'' \<and> length policy = 1 then Inr ()
        else if kind \<noteq> ''allowlist'' then Inl (bad ''invalid container network policy type'')
        else and_then (only_fields [''type'', ''allowed_domains'', ''domain_secrets''] (bad ''unsupported container network option'') policy) (\<lambda>_.
          case assoc policy ''allowed_domains'' of
            Some (JArr _) \<Rightarrow> (case as_strings (assoc policy ''allowed_domains'') of
                None \<Rightarrow> Inl (bad ''invalid container domain allowlist'')
              | Some domains \<Rightarrow>
                  (if 100 < length domains then Inl (bad ''invalid container domain allowlist'')
                   else and_then (distinct_domains [] domains) (\<lambda>allowed. validate_domain_secrets allowed (assoc policy ''domain_secrets''))))
          | _ \<Rightarrow> Inl (bad ''invalid container domain allowlist'')))
   | _ \<Rightarrow> Inl (bad ''invalid container network policy''))"

text \<open>The length of the encoding of 8 MiB is 11184812.\<close>

definition inline_skill :: "fields \<Rightarrow> unit result" where
  "inline_skill skill =
     (let name = credential_string skill ''name''; description = credential_string skill ''description'' in
      and_then (check (length skill = 4 \<and> trim_space name \<noteq> [] \<and> length name \<le> 256 \<and> trim_space description \<noteq> [] \<and> length description \<le> 10000)
        (bad ''inline skills require name, description and source'')) (\<lambda>_.
      case as_fields (assoc skill ''source'') of
        Some (Some source) \<Rightarrow>
          and_then (check (length source = 3 \<and> credential_string source ''type'' = ''base64'' \<and>
              credential_string source ''media_type'' = ''application/zip'') (bad ''inline skill source must be a base64 ZIP bundle'')) (\<lambda>_.
          let data = credential_string source ''data'' in
          and_then (check (data \<noteq> [] \<and> length data \<le> 11184812) (bad ''inline skill exceeds 8 MiB'')) (\<lambda>_.
          case decode64 data of
            Some bytes \<Rightarrow> check (bytes \<noteq> [] \<and> length bytes \<le> 8388608) (bad ''invalid inline skill encoding'')
          | None \<Rightarrow> Inl (bad ''invalid inline skill encoding'')))
      | _ \<Rightarrow> Inl (bad ''inline skill source must be a base64 ZIP bundle'')))"

definition skill_version_ok :: "fields \<Rightarrow> bool" where
  "skill_version_ok skill \<longleftrightarrow> assoc skill ''version'' = None \<or>
     (let v = credential_string skill ''version'' in v = ''latest'' \<or>
        v \<noteq> [] \<and> list_all is_digit v \<and> text_nat v < 2 ^ 64 \<and> hd v \<noteq> CHR ''0'')"

definition skill_reference :: "fields \<Rightarrow> string result" where
  "skill_reference skill =
     (let i = credential_string skill ''skill_id'' in
      and_then (check (valid_response_id i \<and> length i \<le> 64) (bad ''invalid hosted skill ID'')) (\<lambda>_.
      and_then (only_fields [''type'', ''skill_id'', ''version''] (bad ''unsupported hosted skill reference option'') skill) (\<lambda>_.
      and_then (check (skill_version_ok skill) (bad ''skill version must be latest or a positive integer string'')) (\<lambda>_. Inr i))))"

fun skill_ids :: "string list \<Rightarrow> fields list \<Rightarrow> string list result" where
  "skill_ids ids [] = Inr (sort ids)"
| "skill_ids ids (s # ss) =
     (if credential_string s ''type'' = ''skill_reference''
      then and_then (skill_reference s) (\<lambda>i. skill_ids (if List.member ids i then ids else ids @ [i]) ss)
      else if credential_string s ''type'' = ''inline'' then and_then (inline_skill s) (\<lambda>_. skill_ids ids ss)
      else Inl (bad ''unsupported hosted skill type''))"

definition response_skills :: "json option \<Rightarrow> string list result" where
  "response_skills raw = (case as_objects raw of
     Some (Some skills) \<Rightarrow>
       (if 100 < length skills then Inl (bad ''skills must contain at most 100 entries'') else skill_ids [] skills)
   | _ \<Rightarrow> Inl (bad ''skills must contain at most 100 entries''))"

definition validate_response_auto_container :: "fields \<Rightarrow> unit result" where
  "validate_response_auto_container c = each (\<lambda>(field, raw).
     if field = ''type'' then Inr ()
     else if field = ''memory_limit''
       then check (raw = JNull \<or> List.member [''1g'', ''4g'', ''16g'', ''64g''] (credential_string c field)) (bad ''invalid container memory limit'')
     else if field = ''file_ids''
       then check (raw = JNull \<or> (case as_strings (Some raw) of None \<Rightarrow> False | Some fs \<Rightarrow> length fs \<le> 100)) (bad ''invalid container file list'')
     else if field = ''network_policy'' then validate_container_network (Some raw)
     else if field = ''skills''
       then and_then (check (credential_string c ''type'' = ''container_auto'') (bad ''skills require a hosted shell environment'')) (\<lambda>_.
         and_then (response_skills (Some raw)) (\<lambda>_. Inr ()))
     else Inl (bad ''unsupported container option'')) c"

text \<open>\<open>responseCodeTool\<close>: the container it refers to, empty for an automatic one.\<close>

definition response_code_tool :: "fields \<Rightarrow> string result" where
  "response_code_tool tool =
     and_then (each (\<lambda>(field, raw).
        if field = ''type'' \<or> field = ''container'' then Inr ()
        else if field = ''allowed_callers'' then validate_allowed_callers (Some raw)
        else Inl (bad ''unsupported code interpreter option'')) tool) (\<lambda>_.
     let i = credential_string tool ''container'' in
     if i \<noteq> [] then and_then (check (valid_response_id i) (bad ''invalid code interpreter container'')) (\<lambda>_. Inr i)
     else (case as_fields (assoc tool ''container'') of
         Some (Some c) \<Rightarrow>
           (if credential_string c ''type'' \<noteq> ''auto'' then Inl (bad ''code interpreter requires an auto container or an owned container ID'')
            else and_then (validate_response_auto_container c) (\<lambda>_. Inr []))
       | _ \<Rightarrow> Inl (bad ''code interpreter requires an auto container or an owned container ID'')))"


section \<open>Shells\<close>

definition validate_local_environment :: "json option \<Rightarrow> unit result" where
  "validate_local_environment raw = (case as_fields raw of
     Some env \<Rightarrow>
       (let env = given env [] in
        if credential_string env ''type'' \<noteq> ''local'' then Inl (bad ''shell requires environment.type=local'')
        else each (\<lambda>(field, val).
          if field = ''type'' then Inr ()
          else if field = ''skills'' then
            (case as_objects (Some val) of
               Some (Some skills) \<Rightarrow>
                 and_then (check (length skills \<le> 128) (bad ''invalid local skills'')) (\<lambda>_. each (\<lambda>skill.
                   and_then (check (length skill = 3 \<and> credential_string skill ''name'' \<noteq> [] \<and> credential_string skill ''path'' \<noteq> [])
                     (bad ''local skills require name, path and description'')) (\<lambda>_.
                   check (string_value (assoc skill ''description'') \<noteq> None) (bad ''invalid local skill description''))) skills)
             | _ \<Rightarrow> Inl (bad ''invalid local skills''))
          else Inl (bad ''unsupported local environment option'')) env)
   | None \<Rightarrow> Inl (bad ''shell requires environment.type=local''))"

definition response_shell_container :: "json option \<Rightarrow> string result" where
  "response_shell_container raw = (case as_fields raw of
     Some (Some env) \<Rightarrow>
       (let i = credential_string env ''container_id'' in
        if length env \<noteq> 2 \<or> credential_string env ''type'' \<noteq> ''container_reference'' \<or> \<not> valid_response_id i
        then Inl (bad ''shell requires a valid container reference'') else Inr i)
   | _ \<Rightarrow> Inl (bad ''shell requires a valid container reference''))"

text \<open>\<open>responseShellTool\<close>: the container, and whether the shell runs at the provider.\<close>

definition response_shell_tool :: "fields \<Rightarrow> (string \<times> bool) result" where
  "response_shell_tool tool =
     and_then (each (\<lambda>(field, raw).
        if field = ''type'' \<or> field = ''environment'' then Inr ()
        else if field = ''allowed_callers'' then validate_allowed_callers (Some raw)
        else Inl (bad ''unsupported shell option'')) tool) (\<lambda>_.
     case as_fields (assoc tool ''environment'') of
       Some (Some env) \<Rightarrow>
         (let kind = credential_string env ''type'' in
          if kind = ''local'' then and_then (validate_local_environment (assoc tool ''environment'')) (\<lambda>_. Inr ([], False))
          else if kind = ''container_auto'' then and_then (validate_response_auto_container env) (\<lambda>_. Inr ([], True))
          else if kind = ''container_reference''
            then and_then (response_shell_container (assoc tool ''environment'')) (\<lambda>i. Inr (i, True))
          else Inl (bad ''unsupported shell environment''))
     | _ \<Rightarrow> Inl (bad ''shell requires an explicit environment''))"

definition hosted_shell_item :: "fields \<Rightarrow> bool" where
  "hosted_shell_item item \<longleftrightarrow> credential_string item ''type'' = ''shell_call'' \<and>
     (case as_fields (assoc item ''environment'') of
        Some (Some env) \<Rightarrow> credential_string env ''type'' = ''container_reference'' | _ \<Rightarrow> False)"

definition merge_response_resources :: "string list \<Rightarrow> string list \<Rightarrow> string list result" where
  "merge_response_resources previous current =
     (let ids = fold (\<lambda>i ids. if List.member ids i then ids else ids @ [i]) current previous in
      if 100 < length ids then Inl (bad ''too many response resource IDs'') else Inr (sort ids))"

definition request_skill_ids :: "fields list \<Rightarrow> string list result" where
  "request_skill_ids tools = each_with (\<lambda>ids tool.
     if credential_string tool ''type'' \<noteq> ''shell'' then Inr ids
     else (case as_fields (assoc tool ''environment'') of
         Some (Some env) \<Rightarrow>
           (if credential_string env ''type'' \<noteq> ''container_auto'' \<or> assoc env ''skills'' = None then Inr ids
            else and_then (response_skills (assoc env ''skills'')) (merge_response_resources ids))
       | _ \<Rightarrow> Inr ids)) [] tools"


section \<open>Computers\<close>

definition anthropic_media_source :: "(string \<Rightarrow> url option) \<Rightarrow> string \<Rightarrow> bool \<Rightarrow> fields result" where
  "anthropic_media_source parse_url val picture =
     (if has_prefix val ''data:'' then
        (case cut_at '','' (drop 5 val) of
           None \<Rightarrow> Inl (bad ''invalid media data URI'')
         | Some (header, data) \<Rightarrow>
             (let media = trim_suffix header '';base64'' in
              if \<not> has_suffix header '';base64'' \<or> data = [] \<or>
                 \<not> List.member (if picture then [''image/png'', ''image/jpeg'', ''image/gif'', ''image/webp''] else [''application/pdf'']) media
              then Inl (bad ''invalid media data URI'')
              else if decode64 data = None then Inl (bad ''invalid base64 media'')
              else Inr [(''type'', JStr ''base64''), (''media_type'', JStr media), (''data'', JStr data)]))
      else (case (picture, parse_url val) of
          (True, Some u) \<Rightarrow>
            (if url_host u = [] \<and> url_port u = [] \<or> url_user u \<or> \<not> List.member [''https'', ''http''] (url_scheme u)
             then Inl (bad ''invalid image URL or document data'')
             else Inr [(''type'', JStr ''url''), (''url'', JStr val)])
        | _ \<Rightarrow> Inl (bad ''invalid image URL or document data'')))"

definition validate_computer_tool :: "fields \<Rightarrow> unit result" where
  "validate_computer_tool tool =
     (if credential_string tool ''type'' = ''computer'' then check (length tool = 1) (bad ''computer accepts only type'')
      else and_then (check (length tool = 4) (bad ''computer_use_preview requires display dimensions and environment'')) (\<lambda>_.
        and_then (each (\<lambda>f. check (case float_value (assoc tool f) of None \<Rightarrow> False | Some d \<Rightarrow> 1 / 2 ^ 1075 < d)
          (bad ''invalid computer display dimension'')) [''display_width'', ''display_height'']) (\<lambda>_.
        check (List.member [''windows'', ''mac'', ''linux'', ''ubuntu'', ''browser''] (credential_string tool ''environment''))
          (bad ''invalid computer environment''))))"

definition point_ok :: "fields \<Rightarrow> bool" where
  "point_ok p \<longleftrightarrow> (case dec_struct [(''X'', field fst (\<lambda>v r. (v, snd r)) (\<lambda>j _. if j = JNull then Some None else map_option Some (float_value (Some j)))),
       (''Y'', field snd (\<lambda>v r. (fst r, v)) (\<lambda>j _. if j = JNull then Some None else map_option Some (float_value (Some j))))]
     (JObj (rev p)) (None, None) of Some (Some _, Some _) \<Rightarrow> True | _ \<Rightarrow> False)"

definition validate_computer_action :: "fields \<Rightarrow> unit result" where
  "validate_computer_action action =
     (let kind = credential_string action ''type'';
          numbers = (if List.member [''click'', ''double_click'', ''move''] kind then [''x'', ''y'']
            else if kind = ''scroll'' then [''x'', ''y'', ''scroll_x'', ''scroll_y''] else []);
          keys = assoc action ''keys'' in
      and_then
        (if kind = ''click'' then check (List.member [''left'', ''right'', ''wheel'', ''back'', ''forward''] (credential_string action ''button''))
           (bad ''invalid computer mouse button'')
         else if kind = ''drag'' then (case as_objects (assoc action ''path'') of
             Some (Some (p # ps)) \<Rightarrow> check (list_all point_ok (p # ps)) (bad ''invalid computer drag coordinates'')
           | _ \<Rightarrow> Inl (bad ''computer drag requires a path''))
         else if kind = ''type'' then check (string_value (assoc action ''text'') \<noteq> None) (bad ''computer typing requires text'')
         else check (List.member [''double_click'', ''move'', ''scroll'', ''keypress'', ''wait'', ''screenshot''] kind) (bad ''unsupported computer action''))
        (\<lambda>_.
      and_then (each (\<lambda>f. check (float_value (assoc action f) \<noteq> None) (bad ''invalid computer coordinates'')) numbers) (\<lambda>_.
      if kind = ''keypress'' \<or> \<not> is_null keys
      then check (case as_strings keys of None \<Rightarrow> False | Some ks \<Rightarrow> kind \<noteq> ''keypress'' \<or> ks \<noteq> []) (bad ''invalid computer keys'')
      else Inr ())))"

definition screenshot_field :: "fields \<Rightarrow> string \<times> json \<Rightarrow> unit result" where
  "screenshot_field output kv = (case kv of (f, raw) \<Rightarrow>
     if f = ''type'' \<or> f = ''image_url'' then Inr ()
     else if f = ''file_id''
       then check (raw = JNull \<or> valid_response_id (credential_string output ''file_id'')) (bad ''invalid screenshot file ID'')
     else if f = ''detail''
       then check (List.member [''auto'', ''low'', ''high'', ''original''] (credential_string output f)) (bad ''invalid screenshot detail'')
     else Inl (bad ''unsupported screenshot option''))"

definition computer_output :: "(string \<Rightarrow> url option) \<Rightarrow> fields \<Rightarrow> unit result" where
  "computer_output parse_url item = (case as_fields (assoc item ''output'') of
     Some out \<Rightarrow>
       (let output = given out [] in
        and_then (check (credential_string output ''type'' = ''computer_screenshot'') (bad ''computer output requires a screenshot'')) (\<lambda>_.
        and_then (each (screenshot_field output) output) (\<lambda>_.
        if credential_string output ''file_id'' \<noteq> [] then Inr ()
        else and_then (anthropic_media_source parse_url (credential_string output ''image_url'') True) (\<lambda>_. Inr ()))))
   | None \<Rightarrow> Inl (bad ''computer output requires a screenshot''))"

definition computer_actions :: "fields \<Rightarrow> fields list result" where
  "computer_actions item =
     (let batch = assoc item ''actions''; single = assoc item ''action'' in
      and_then (if is_null batch then Inr [] else (case as_objects batch of
          Some (Some (a # as)) \<Rightarrow> Inr (a # as) | _ \<Rightarrow> Inl (bad ''computer actions must be a nonempty array''))) (\<lambda>actions.
      and_then (if is_null single then Inr actions
        else (case as_fields single of
            Some (Some a) \<Rightarrow> if actions \<noteq> [] then Inl (bad ''use one computer action or batched actions'') else Inr [a]
          | _ \<Rightarrow> Inl (bad ''use one computer action or batched actions''))) (\<lambda>actions.
      if actions = [] then Inl (bad ''computer call requires actions'') else Inr actions)))"

definition safety_check_ids :: "json option \<Rightarrow> string list option" where
  "safety_check_ids raw = (case raw of
     None \<Rightarrow> Some []
   | Some j \<Rightarrow> map_option (map fst) (dec_list ([], (None, None)) (dec_struct
       [(''ID'', field fst (\<lambda>v r. (v, snd r)) dec_string),
        (''Code'', field (fst \<circ> snd) (\<lambda>v r. (fst r, v, snd (snd r))) (dec_pointer [] dec_string)),
        (''Message'', field (snd \<circ> snd) (\<lambda>v r. (fst r, fst (snd r), v)) (dec_pointer [] dec_string))]) j []))"

definition validate_computer_item :: "(string \<Rightarrow> url option) \<Rightarrow> fields \<Rightarrow> unit result" where
  "validate_computer_item parse_url item =
     (let is_output = (credential_string item ''type'' = ''computer_call_output'') in
      and_then (if is_output then computer_output parse_url item
        else and_then (computer_actions item) (each validate_computer_action)) (\<lambda>_.
      case safety_check_ids (assoc item (if is_output then ''acknowledged_safety_checks'' else ''pending_safety_checks'')) of
        None \<Rightarrow> Inl (bad ''invalid computer safety checks'')
      | Some ids \<Rightarrow> check (list_all valid_response_id ids) (bad ''computer safety check requires an ID'')))"


section \<open>Client tools in the history\<close>

definition validate_response_local_tool :: "fields \<Rightarrow> unit result" where
  "validate_response_local_tool tool =
     (let kind = credential_string tool ''type'' in
      if kind = ''computer'' \<or> kind = ''computer_use_preview'' then validate_computer_tool tool
      else if kind = ''shell'' then and_then (response_shell_tool tool) (\<lambda>_. Inr ())
      else each (\<lambda>(field, raw).
        if field = ''type'' then Inr ()
        else if field = ''environment'' then Inl (bad ''this client tool does not accept an environment'')
        else if field = ''allowed_callers'' then
          (if kind = ''local_shell'' then Inl (bad ''this client tool does not accept allowed_callers'') else validate_allowed_callers (Some raw))
        else Inl (bad ''unsupported native client tool option'')) tool)"

definition shell_chunk_ok :: "json \<Rightarrow> bool option" where
  "shell_chunk_ok j = map_option
     (\<lambda>(out, err, kind, code). out \<noteq> None \<and> err \<noteq> None \<and> (kind = ''timeout'' \<or> kind = ''exit'' \<and> code \<noteq> None))
     (dec_struct
       [(''Stdout'', field fst (\<lambda>v r. (v, snd r)) (dec_pointer [] dec_string)),
        (''Stderr'', field (fst \<circ> snd) (\<lambda>v r. (fst r, v, snd (snd r))) (dec_pointer [] dec_string)),
        (''Outcome'', dec_struct
          [(''Type'', field (fst \<circ> snd \<circ> snd) (\<lambda>v r. (fst r, fst (snd r), v, snd (snd (snd r)))) dec_string),
           (''exit_code'', field (snd \<circ> snd \<circ> snd) (\<lambda>v r. (fst r, fst (snd r), fst (snd (snd r)), v)) (dec_pointer 0 dec_int))])]
       j (None, None, [], None :: int option))"

definition commands_given :: "json option \<Rightarrow> bool" where
  "commands_given v \<longleftrightarrow> (case as_strings v of None \<Rightarrow> False | Some cs \<Rightarrow> cs \<noteq> [])"

text \<open>The part of an item that belongs to its kind.\<close>

definition local_item_payload :: "(string \<Rightarrow> url option) \<Rightarrow> fields \<Rightarrow> unit result" where
  "local_item_payload parse_url item =
     (let kind = credential_string item ''type''; obj = (\<lambda>f. case as_fields (assoc item f) of Some (Some m) \<Rightarrow> Some m | _ \<Rightarrow> None) in
      if kind = ''computer_call'' \<or> kind = ''computer_call_output'' then validate_computer_item parse_url item
      else if kind = ''apply_patch_call'' then
        (case obj ''operation'' of
           None \<Rightarrow> Inl (bad ''invalid patch operation'')
         | Some op \<Rightarrow>
             (if credential_string op ''path'' = [] then Inl (bad ''invalid patch operation'')
              else if List.member [''create_file'', ''update_file''] (credential_string op ''type'')
                then check (string_value (assoc op ''diff'') \<noteq> None) (bad ''patch operation requires a diff'')
              else check (credential_string op ''type'' = ''delete_file'') (bad ''invalid patch operation type'')))
      else if kind = ''shell_call'' \<or> kind = ''local_shell_call'' then
        (case obj ''action'' of
           None \<Rightarrow> Inl (bad ''invalid client shell action'')
         | Some act \<Rightarrow>
             (if kind = ''local_shell_call'' \<and> credential_string act ''type'' \<noteq> ''exec'' then Inl (bad ''invalid local_shell action type'')
              else check (commands_given (assoc act (if kind = ''local_shell_call'' then ''command'' else ''commands'')))
                (bad ''client shell action requires commands'')))
      else if kind = ''apply_patch_call_output'' then
        and_then (check (List.member [''completed'', ''failed''] (credential_string item ''status'')) (bad ''invalid patch output status'')) (\<lambda>_.
        check (is_null (assoc item ''output'') \<or> string_value (assoc item ''output'') \<noteq> None) (bad ''invalid patch output''))
      else if kind = ''local_shell_call_output''
        then check (string_value (assoc item ''output'') \<noteq> None) (bad ''invalid local_shell output'')
      else if kind = ''shell_call_output'' then
        (case assoc item ''output'' of
           Some (JArr js) \<Rightarrow> (case those (map shell_chunk_ok js) of
               None \<Rightarrow> Inl (bad ''invalid shell output'')
             | Some oks \<Rightarrow> check (list_all id oks) (bad ''invalid shell output chunk''))
         | _ \<Rightarrow> Inl (bad ''invalid shell output''))
      else Inr ())"

definition validate_response_local_item :: "(string \<Rightarrow> url option) \<Rightarrow> fields \<Rightarrow> unit result" where
  "validate_response_local_item parse_url item =
     (let kind = credential_string item ''type''; text = credential_string item; given_field = (\<lambda>f. \<not> is_null (assoc item f)) in
      and_then (check (valid_response_id (text (if kind = ''local_shell_call_output'' then ''id'' else ''call_id'')))
        (bad ''native client tool history requires a call ID'')) (\<lambda>_.
      and_then (check (\<not> given_field ''id'' \<or> valid_response_id (text ''id'')) (bad ''invalid native client tool item ID'')) (\<lambda>_.
      and_then (check (\<not> given_field ''status'' \<or> kind = ''apply_patch_call_output'' \<or>
          List.member [''in_progress'', ''completed''] (text ''status'') \<or> text ''status'' = ''incomplete'' \<and> kind \<noteq> ''apply_patch_call'')
        (bad ''invalid native client tool status'')) (\<lambda>_.
      and_then (has_programmatic_caller (assoc item ''caller'')) (\<lambda>program.
      and_then (check (\<not> program \<or> List.member [''shell_call'', ''shell_call_output'', ''apply_patch_call'', ''apply_patch_call_output''] kind)
        (bad ''programmatic caller is not valid for this client tool'')) (\<lambda>_.
      and_then (if \<not> given_field ''environment'' then Inr ()
        else if kind \<noteq> ''shell_call'' then Inl (bad ''unexpected client tool environment'')
        else if hosted_shell_item item then and_then (response_shell_container (assoc item ''environment'')) (\<lambda>_. Inr ())
        else validate_local_environment (assoc item ''environment'')) (\<lambda>_.
      and_then (check (list_all (\<lambda>f. assoc item f = None) [''container_id'', ''file_ids'', ''sandbox_id''])
        (bad ''hosted resources are not available in client tool history'')) (\<lambda>_.
      local_item_payload parse_url item))))))))"


section \<open>Containers of a response\<close>

definition response_shell_item :: "(string \<Rightarrow> url option) \<Rightarrow> fields \<Rightarrow> (string \<times> string) result" where
  "response_shell_item parse_url item =
     (let i = credential_string item ''id'' in
      and_then (check (valid_response_id i) (bad ''hosted shell history requires an owned item ID'')) (\<lambda>_.
      and_then (response_shell_container (assoc item ''environment'')) (\<lambda>c.
      and_then (validate_response_local_item parse_url item) (\<lambda>_. Inr (i, c)))))"

definition code_output_ok :: "fields \<Rightarrow> unit result" where
  "code_output_ok output =
     (let kind = credential_string output ''type'' in
      if kind \<noteq> ''logs'' \<and> kind \<noteq> ''image'' then Inl (bad ''invalid code interpreter output type'')
      else check (length output = 2 \<and> string_value (assoc output (if kind = ''logs'' then ''logs'' else ''url'')) \<noteq> None)
        (bad ''invalid code interpreter output value''))"

definition response_code_item :: "fields \<Rightarrow> (string \<times> string) result" where
  "response_code_item item =
     (let i = credential_string item ''id''; c = credential_string item ''container_id'' in
      and_then (only_fields [''type'', ''id'', ''container_id'', ''status'', ''code'', ''outputs''] (bad ''unsupported code interpreter history field'') item) (\<lambda>_.
      and_then (check (valid_response_id i \<and> valid_response_id c) (bad ''code interpreter history requires owned item and container IDs'')) (\<lambda>_.
      and_then (check (List.member [''in_progress'', ''completed'', ''incomplete'', ''interpreting'', ''failed''] (credential_string item ''status''))
        (bad ''invalid code interpreter status'')) (\<lambda>_.
      and_then (check (is_null (assoc item ''code'') \<or> string_value (assoc item ''code'') \<noteq> None) (bad ''invalid code interpreter code'')) (\<lambda>_.
      and_then (if is_null (assoc item ''outputs'') then Inr ()
        else (case as_objects (assoc item ''outputs'') of
            Some (Some outs) \<Rightarrow> if 1024 < length outs then Inl (bad ''invalid code interpreter outputs'') else each code_output_ok outs
          | _ \<Rightarrow> Inl (bad ''invalid code interpreter outputs''))) (\<lambda>_. Inr (i, c)))))))"

definition container_of :: "(string \<Rightarrow> url option) \<Rightarrow> fields \<Rightarrow> string option result" where
  "container_of parse_url item =
     (if credential_string item ''type'' \<noteq> ''code_interpreter_call'' \<and> \<not> hosted_shell_item item then Inr None
      else (case (if hosted_shell_item item then response_shell_item parse_url item else response_code_item item) of
          Inl _ \<Rightarrow> Inl (ApiError 502 ''invalid upstream container tool output'')
        | Inr (_, c) \<Rightarrow> Inr (Some c)))"

definition response_container_ids :: "(string \<Rightarrow> url option) \<Rightarrow> fields list \<Rightarrow> string list result" where
  "response_container_ids parse_url items = each_with (\<lambda>ids item.
     and_then (container_of parse_url item) (\<lambda>c. case c of
       None \<Rightarrow> Inr ids | Some i \<Rightarrow> Inr (if List.member ids i then ids else ids @ [i]))) [] items"

definition merge_response_containers :: "string list \<Rightarrow> string list \<Rightarrow> string list result" where
  "merge_response_containers previous current =
     (let ids = fold (\<lambda>i ids. if List.member ids i then ids else ids @ [i]) current previous in
      if 1024 < length ids then Inl (bad ''too many code interpreter containers'') else Inr (sort ids))"

end
