(* ===== verification/Metering.thy ===== *)
theory Metering
  imports Response_Tools Charges
begin

text \<open>
  What a provider reports as consumed: \<open>textObservation\<close> of \<open>internal/app/text_protocol.go\<close> with the Gemini images of
  \<open>internal/app/gemini_images.go\<close>, the images of \<open>internal/app/response_images.go\<close>, the Responses objects of
  \<open>internal/app/responses.go\<close>, and \<open>parseChatUsage\<close> of \<open>internal/app/gateway.go\<close>.

  A body or frame is the parsed value, \<open>None\<close> when it is not JSON. Every observer returns the
  observation with the error, since what it has noted before an error stays noted. \<open>digest\<close> is the hash of
  identities. The images already seen are an association list in the order in which they came.
\<close>

section \<open>Counts\<close>

definition token_counts_valid :: "int list \<Rightarrow> bool" where
  "token_counts_valid ns \<longleftrightarrow> list_all (\<lambda>n. 0 \<le> n \<and> n \<le> 2147483647) ns"

definition no_usage :: price_usage where
  "no_usage = \<lparr>u_image_request = False, u_image_count = 0, u_image_size = [], u_image_size_source = [], u_image_input_size = [],
     u_image_output_size = [], u_image_sizes = (0, 0, 0), u_video_count = 0, u_video_seconds = 0, u_video_resolution = [],
     u_audio_units = [], u_input = 0, u_output = 0, u_cache_write = 0, u_cache_write_5m = 0, u_cache_write_1h = 0,
     u_cache_read = 0, u_image_input = 0, u_image_output = 0, u_requests = 0, u_search_calls = 0\<rparr>"

definition usage_invalid :: failure where
  "usage_invalid = ApiError 502 ''upstream usage is invalid''"

text \<open>A member that is present: a \<open>json.RawMessage\<close> that may be nil.\<close>

definition dec_raw :: "json option decoder" where
  "dec_raw j v = Some (Some j)"

definition present :: "json option \<Rightarrow> bool" where
  "present v \<longleftrightarrow> (case v of None \<Rightarrow> False | Some j \<Rightarrow> j \<noteq> JNull)"

definition decode :: "(string \<times> 'r decoder) list \<Rightarrow> json option \<Rightarrow> 'r \<Rightarrow> 'r option" where
  "decode fs j zero = Option.bind j (\<lambda>j. dec_struct fs j zero)"


section \<open>Usage of chat completions\<close>

record chat_usage =
  cu_input :: "int option"
  cu_output :: "int option"
  cu_sum :: "int option"
  cu_cache_write :: int
  cu_cached :: int
  cu_write :: "int option"
  cu_image_input :: int
  cu_image_output :: int
  cu_reasoning :: int

definition chat_usage_fields :: "(string \<times> chat_usage decoder) list" where
  "chat_usage_fields =
     [(''prompt_tokens'', field cu_input (\<lambda>v r. r\<lparr>cu_input := v\<rparr>) (dec_pointer 0 dec_int)),
      (''completion_tokens'', field cu_output (\<lambda>v r. r\<lparr>cu_output := v\<rparr>) (dec_pointer 0 dec_int)),
      (''total_tokens'', field cu_sum (\<lambda>v r. r\<lparr>cu_sum := v\<rparr>) (dec_pointer 0 dec_int)),
      (''cache_creation_input_tokens'', field cu_cache_write (\<lambda>v r. r\<lparr>cu_cache_write := v\<rparr>) dec_int),
      (''prompt_tokens_details'', dec_struct
         [(''cached_tokens'', field cu_cached (\<lambda>v r. r\<lparr>cu_cached := v\<rparr>) dec_int),
          (''cache_write_tokens'', field cu_write (\<lambda>v r. r\<lparr>cu_write := v\<rparr>) (dec_pointer 0 dec_int)),
          (''image_tokens'', field cu_image_input (\<lambda>v r. r\<lparr>cu_image_input := v\<rparr>) dec_int)]),
      (''completion_tokens_details'', dec_struct
         [(''image_tokens'', field cu_image_output (\<lambda>v r. r\<lparr>cu_image_output := v\<rparr>) dec_int),
          (''reasoning_tokens'', field cu_reasoning (\<lambda>v r. r\<lparr>cu_reasoning := v\<rparr>) dec_int)])]"

definition no_chat_usage :: chat_usage where
  "no_chat_usage = \<lparr>cu_input = None, cu_output = None, cu_sum = None, cu_cache_write = 0, cu_cached = 0, cu_write = None,
     cu_image_input = 0, cu_image_output = 0, cu_reasoning = 0\<rparr>"

text \<open>The output with the reasoning that only the sum of all tokens proves.\<close>

definition proven_output :: "chat_usage \<Rightarrow> int \<Rightarrow> int \<Rightarrow> int" where
  "proven_output u input output = (case cu_sum u of
     Some n \<Rightarrow> if input + output < n then output + min (n - input - output) (cu_reasoning u) else output
   | None \<Rightarrow> output)"

definition parse_chat_usage :: "json option \<Rightarrow> price_usage result" where
  "parse_chat_usage raw = (case decode chat_usage_fields raw no_chat_usage of
     Some u \<Rightarrow> (case (cu_input u, cu_output u) of
       (Some input, Some output) \<Rightarrow>
         (if \<not> token_counts_valid [input, output] \<or> cu_cached u < 0 \<or> input < cu_cached u \<or> cu_image_input u < 0 \<or>
             cu_image_output u < 0 \<or> output < cu_image_output u then Inl usage_invalid
          else let cache_write = given (cu_write u) (cu_cache_write u); all_output = proven_output u input output;
                   plain = input - cu_cached u - cache_write in
            if \<not> token_counts_valid [cache_write, cu_reasoning u] \<or> input - cu_cached u < cache_write \<or>
               (case cu_sum u of Some n \<Rightarrow> n < 0 | None \<Rightarrow> False) then Inl usage_invalid
            else if \<not> token_counts_valid [all_output] \<or> all_output < cu_reasoning u then Inl usage_invalid
            else Inr (no_usage\<lparr>u_input := plain, u_output := all_output, u_cache_read := cu_cached u, u_cache_write := cache_write,
                   u_image_input := min (cu_image_input u) plain, u_image_output := cu_image_output u\<rparr>))
     | _ \<Rightarrow> Inl usage_invalid)
   | None \<Rightarrow> Inl usage_invalid)"


section \<open>Usage of Messages\<close>

record message_usage =
  mu_input :: "int option"
  mu_output :: "int option"
  mu_read :: "int option"
  mu_write :: "int option"
  mu_five :: "int option"
  mu_hour :: "int option"

definition message_usage_fields :: "(string \<times> message_usage decoder) list" where
  "message_usage_fields =
     [(''input_tokens'', field mu_input (\<lambda>v r. r\<lparr>mu_input := v\<rparr>) (dec_pointer 0 dec_int)),
      (''output_tokens'', field mu_output (\<lambda>v r. r\<lparr>mu_output := v\<rparr>) (dec_pointer 0 dec_int)),
      (''cache_read_input_tokens'', field mu_read (\<lambda>v r. r\<lparr>mu_read := v\<rparr>) (dec_pointer 0 dec_int)),
      (''cache_creation_input_tokens'', field mu_write (\<lambda>v r. r\<lparr>mu_write := v\<rparr>) (dec_pointer 0 dec_int)),
      (''cache_creation'', dec_struct
         [(''ephemeral_5m_input_tokens'', field mu_five (\<lambda>v r. r\<lparr>mu_five := v\<rparr>) (dec_pointer 0 dec_int)),
          (''ephemeral_1h_input_tokens'', field mu_hour (\<lambda>v r. r\<lparr>mu_hour := v\<rparr>) (dec_pointer 0 dec_int))])]"

definition no_message_usage :: message_usage where
  "no_message_usage = \<lparr>mu_input = None, mu_output = None, mu_read = None, mu_write = None, mu_five = None, mu_hour = None\<rparr>"

text \<open>A value of a delta is cumulative, and a zero in it says nothing.\<close>

definition reported :: "bool \<Rightarrow> int option \<Rightarrow> int \<Rightarrow> int" where
  "reported delta v old = (case v of Some n \<Rightarrow> if \<not> delta \<or> 0 < n then n else old | None \<Rightarrow> old)"

definition read_message_usage :: "price_usage \<Rightarrow> bool \<Rightarrow> json option \<Rightarrow> (price_usage \<times> bool) result" where
  "read_message_usage old delta raw = (case decode message_usage_fields raw no_message_usage of
     None \<Rightarrow> Inl usage_invalid
   | Some u \<Rightarrow>
       (if \<not> delta \<and> (mu_input u = None \<or> mu_output u = None) then Inl usage_invalid
        else if \<not> list_all (\<lambda>v. case v of None \<Rightarrow> True | Some n \<Rightarrow> token_counts_valid [n])
            [mu_input u, mu_output u, mu_read u, mu_write u, mu_five u, mu_hour u] then Inl usage_invalid
        else (let five = reported delta (mu_five u) (u_cache_write_5m old); hour = reported delta (mu_hour u) (u_cache_write_1h old);
                  write = reported delta (mu_write u) (u_cache_write old);
                  write = (if write = 0 then five + hour else write) in
          if \<not> token_counts_valid [write] then Inl usage_invalid
          else Inr (old\<lparr>u_input := reported delta (mu_input u) (u_input old), u_output := reported delta (mu_output u) (u_output old),
                 u_cache_read := reported delta (mu_read u) (u_cache_read old), u_cache_write := write,
                 u_cache_write_5m := five, u_cache_write_1h := hour\<rparr>, mu_input u \<noteq> None \<and> mu_output u \<noteq> None))))"


section \<open>Usage of Gemini\<close>

record gemini_usage =
  gu_input :: "int option"
  gu_output :: int
  gu_thoughts :: int
  gu_cached :: int
  gu_details :: "(string \<times> int) list"

definition gemini_usage_fields :: "(string \<times> gemini_usage decoder) list" where
  "gemini_usage_fields =
     [(''promptTokenCount'', field gu_input (\<lambda>v r. r\<lparr>gu_input := v\<rparr>) (dec_pointer 0 dec_int)),
      (''candidatesTokenCount'', field gu_output (\<lambda>v r. r\<lparr>gu_output := v\<rparr>) dec_int),
      (''thoughtsTokenCount'', field gu_thoughts (\<lambda>v r. r\<lparr>gu_thoughts := v\<rparr>) dec_int),
      (''cachedContentTokenCount'', field gu_cached (\<lambda>v r. r\<lparr>gu_cached := v\<rparr>) dec_int),
      (''candidatesTokensDetails'', field gu_details (\<lambda>v r. r\<lparr>gu_details := v\<rparr>)
         (dec_list ([], 0) (dec_struct [(''modality'', field fst (\<lambda>v r. (v, snd r)) dec_string),
           (''tokenCount'', field snd (\<lambda>v r. (fst r, v)) dec_int)])))]"

definition image_tokens :: "(string \<times> int) list \<Rightarrow> int" where
  "image_tokens details = sum_list (map snd (filter (\<lambda>d. equal_fold (fst d) ''IMAGE'') details))"

definition parse_gemini_usage :: "json option \<Rightarrow> price_usage result" where
  "parse_gemini_usage raw =
     (case decode gemini_usage_fields raw \<lparr>gu_input = None, gu_output = 0, gu_thoughts = 0, gu_cached = 0, gu_details = []\<rparr> of
        None \<Rightarrow> Inl usage_invalid
      | Some u \<Rightarrow> (case gu_input u of
          None \<Rightarrow> Inl usage_invalid
        | Some input \<Rightarrow>
            (if \<not> token_counts_valid [input, gu_output u, gu_thoughts u, gu_cached u] \<or> input < gu_cached u \<or>
                2147483647 < gu_output u + gu_thoughts u then Inl usage_invalid
             else if \<not> token_counts_valid (map snd (gu_details u)) \<or> gu_output u < image_tokens (gu_details u)
               then Inl (ApiError 502 ''upstream image usage is invalid'')
             else Inr (no_usage\<lparr>u_input := input - gu_cached u, u_output := gu_output u + gu_thoughts u,
                    u_cache_read := gu_cached u, u_image_output := image_tokens (gu_details u)\<rparr>))))"


section \<open>Observations\<close>

type_synonym image_meter = "(string \<times> string) list"

record observation =
  ob_protocol :: string
  ob_model :: string
  ob_tier :: string
  ob_response_id :: string
  ob_action :: string
  ob_items :: "string list"
  ob_containers :: "string list"
  ob_usage :: price_usage
  ob_has_usage :: bool
  ob_count_only :: bool
  ob_programmatic :: bool
  ob_started :: bool
  ob_stopped :: bool
  ob_result_seen :: bool
  ob_finished :: "(int \<times> bool) list"
  ob_blocked :: bool
  ob_image_count :: int
  ob_gemini_images :: "(string \<times> int) list"
  ob_image_stream :: "image_meter option"

type_synonym observed = "observation \<times> failure option"

definition complete :: "observation \<Rightarrow> bool" where
  "complete o1 \<longleftrightarrow>
     (if List.member [''anthropic'', ''responses'', ''images''] (ob_protocol o1) then ob_stopped o1
      else ob_blocked o1 \<or> ob_finished o1 \<noteq> [] \<and> list_all snd (ob_finished o1))"

definition with_usage :: "price_usage result \<Rightarrow> observation \<Rightarrow> observed" where
  "with_usage r o1 = (case r of Inl e \<Rightarrow> (o1, Some e) | Inr u \<Rightarrow> (o1\<lparr>ob_usage := u, ob_has_usage := True\<rparr>, None))"


section \<open>Images\<close>

definition atoi :: "string \<Rightarrow> int option" where
  "atoi s = parse_int64 s"

definition image_size_tier :: "string \<Rightarrow> string" where
  "image_size_tier dims =
     (let dims = to_lower (trim_space dims) in
      case assoc [(''1k'', ''1K''), (''2k'', ''2K''), (''4k'', ''4K'')] dims of
        Some tier \<Rightarrow> tier
      | None \<Rightarrow> (case cut_at ''x'' dims of
          None \<Rightarrow> []
        | Some (w, h) \<Rightarrow> (case (atoi w, atoi h) of
            (Some width, Some height) \<Rightarrow>
              (if width \<le> 0 \<or> height \<le> 0 then []
               else if max width height \<le> 1024 then ''1K'' else if max width height \<le> 2048 then ''2K'' else ''4K'')
          | _ \<Rightarrow> [])))"

fun count_size :: "string \<Rightarrow> int \<times> int \<times> int \<Rightarrow> int \<times> int \<times> int" where
  "count_size tier (a, b, c) = (if tier = ''1K'' then (a + 1, b, c) else if tier = ''2K'' then (a, b + 1, c) else (a, b, c + 1))"

definition apply_image_size :: "string \<Rightarrow> price_usage \<Rightarrow> price_usage" where
  "apply_image_size dims u =
     (let u = (if u_image_output_size u = [] then u\<lparr>u_image_output_size := dims\<rparr> else u); tier = image_size_tier dims in
      if tier = [] then u
      else u\<lparr>u_image_sizes := count_size tier (u_image_sizes u),
             u_image_size := (if u_image_size_source u \<noteq> ''output'' \<or> u_image_size u < tier then tier else u_image_size u),
             u_image_size_source := ''output''\<rparr>)"

definition apply_image_sizes :: "string \<Rightarrow> string list \<Rightarrow> price_usage \<Rightarrow> price_usage" where
  "apply_image_sizes input sizes u =
     (let tier = image_size_tier input in
      fold apply_image_size sizes (u\<lparr>u_image_sizes := (0, 0, 0), u_image_output_size := [], u_image_input_size := input,
        u_image_size := (if tier = [] then ''2K'' else tier), u_image_size_source := (if tier = [] then ''default'' else ''input'')\<rparr>))"

text \<open>\<open>responseImageMeter.apply\<close>.\<close>

definition apply_meter :: "image_meter \<Rightarrow> string \<Rightarrow> price_usage \<Rightarrow> price_usage" where
  "apply_meter meter input u =
     (if meter = [] then u\<lparr>u_image_sizes := (0, 0, 0), u_image_output_size := [], u_image_count := 0\<rparr>
      else apply_image_sizes input (map snd meter)
        (u\<lparr>u_image_sizes := (0, 0, 0), u_image_output_size := [], u_image_count := int (length meter), u_requests := int (length meter)\<rparr>))"

text \<open>An image that is seen again may still tell its dims.\<close>

definition note_image :: "nat \<Rightarrow> string \<Rightarrow> string \<Rightarrow> image_meter \<Rightarrow> image_meter option" where
  "note_image most i dims meter = (case assoc meter i of
     Some old \<Rightarrow> Some (if old = [] then put i dims meter else meter)
   | None \<Rightarrow> if most \<le> length meter then None else Some (put i dims meter))"

record image_item =
  ii_type :: string
  ii_id :: string
  ii_result :: string
  ii_size :: string
  ii_status :: string

definition image_item_fields :: "(string \<times> image_item decoder) list" where
  "image_item_fields =
     [(''Type'', field ii_type (\<lambda>v r. r\<lparr>ii_type := v\<rparr>) dec_string), (''ID'', field ii_id (\<lambda>v r. r\<lparr>ii_id := v\<rparr>) dec_string),
      (''Result'', field ii_result (\<lambda>v r. r\<lparr>ii_result := v\<rparr>) dec_string), (''Size'', field ii_size (\<lambda>v r. r\<lparr>ii_size := v\<rparr>) dec_string),
      (''Status'', field ii_status (\<lambda>v r. r\<lparr>ii_status := v\<rparr>) dec_string)]"

record image_event =
  ie_type :: string
  ie_status :: string
  ie_response :: "json option"
  ie_item :: "json option"
  ie_output :: "json option list"

definition image_event_fields :: "(string \<times> image_event decoder) list" where
  "image_event_fields =
     [(''Type'', field ie_type (\<lambda>v r. r\<lparr>ie_type := v\<rparr>) dec_string), (''Status'', field ie_status (\<lambda>v r. r\<lparr>ie_status := v\<rparr>) dec_string),
      (''Response'', field ie_response (\<lambda>v r. r\<lparr>ie_response := v\<rparr>) dec_raw), (''Item'', field ie_item (\<lambda>v r. r\<lparr>ie_item := v\<rparr>) dec_raw),
      (''Output'', field ie_output (\<lambda>v r. r\<lparr>ie_output := v\<rparr>) (dec_list None dec_raw))]"

definition image_result_invalid :: failure where
  "image_result_invalid = ApiError 502 ''invalid upstream image generation result''"

definition note_item :: "(string \<Rightarrow> string) \<Rightarrow> json option \<Rightarrow> image_meter \<Rightarrow> image_meter option" where
  "note_item digest raw meter = (case decode [(''Type'', dec_string)] raw [] of
     None \<Rightarrow> None
   | Some kind \<Rightarrow>
       (if kind \<noteq> ''image_generation_call'' then Some meter
        else (case decode image_item_fields raw \<lparr>ii_type = [], ii_id = [], ii_result = [], ii_size = [], ii_status = []\<rparr> of
            None \<Rightarrow> None
          | Some item \<Rightarrow>
              (if ii_result item = [] \<or> ii_status item = ''failed'' then Some meter
               else (case decode64 (ii_result item) of
                   None \<Rightarrow> None
                 | Some data \<Rightarrow>
                     (if data = [] \<or> 32 < length (ii_size item) \<or> 256 < length (ii_id item) then None
                      else note_image 1024 (if ii_id item = [] then digest (ii_result item) else ii_id item) (ii_size item) meter))))))"

fun note_items :: "(string \<Rightarrow> string) \<Rightarrow> json option list \<Rightarrow> image_meter \<Rightarrow> image_meter \<times> failure option" where
  "note_items digest [] meter = (meter, None)"
| "note_items digest (i # is) meter = (case note_item digest i meter of
     None \<Rightarrow> (meter, Some image_result_invalid) | Some meter' \<Rightarrow> note_items digest is meter')"

text \<open>\<open>responseImageMeter.observe\<close>. The parser admits no value deeper than 10000, so the bound is never met.\<close>

definition meter_event :: "(string \<Rightarrow> string) \<Rightarrow> image_event \<Rightarrow> image_meter \<Rightarrow> image_meter \<times> failure option" where
  "meter_event digest e meter =
     (if ie_type e = ''response.output_item.done'' then note_items digest [ie_item e] meter
      else if ie_type e \<noteq> [] \<or> \<not> List.member [''completed'', ''incomplete'', ''failed'', ''cancelled''] (ie_status e) then (meter, None)
      else note_items digest (ie_output e) meter)"

definition no_image_event :: image_event where
  "no_image_event = \<lparr>ie_type = [], ie_status = [], ie_response = None, ie_item = None, ie_output = []\<rparr>"

fun meter_nested :: "nat \<Rightarrow> (string \<Rightarrow> string) \<Rightarrow> json option \<Rightarrow> image_meter \<Rightarrow> image_meter \<times> failure option" where
  "meter_nested 0 digest raw meter = (meter, Some image_result_invalid)"
| "meter_nested (Suc n) digest raw meter = (case decode image_event_fields raw no_image_event of
     None \<Rightarrow> (meter, Some image_result_invalid)
   | Some e \<Rightarrow>
       (if \<not> present (ie_response e) then meter_event digest e meter
        else (case as_object (ie_response e) of
            Some (Some nested) \<Rightarrow>
              (if assoc nested ''response'' \<noteq> None then (meter, Some image_result_invalid)
               else meter_nested n digest (ie_response e) meter)
          | _ \<Rightarrow> (meter, Some image_result_invalid))))"

definition meter_images :: "(string \<Rightarrow> string) \<Rightarrow> json option \<Rightarrow> image_meter \<Rightarrow> image_meter \<times> failure option" where
  "meter_images = meter_nested 10001"


section \<open>Direct images\<close>

record image_result =
  ir_data :: "fields option list"
  ir_model :: string
  ir_size :: string
  ir_usage :: "json option"
  ir_error :: "json option"

text \<open>A map: the entries are added to those it has.\<close>

definition dec_object :: "fields option decoder" where
  "dec_object j v = map_option (map_option (\<lambda>m. AList.clearjunk (m @ given v []))) (as_object (Some j))"

definition image_result_fields :: "(string \<times> image_result decoder) list" where
  "image_result_fields =
     [(''Data'', field ir_data (\<lambda>v r. r\<lparr>ir_data := v\<rparr>) (dec_list None dec_object)),
      (''Model'', field ir_model (\<lambda>v r. r\<lparr>ir_model := v\<rparr>) dec_string), (''Size'', field ir_size (\<lambda>v r. r\<lparr>ir_size := v\<rparr>) dec_string),
      (''Usage'', field ir_usage (\<lambda>v r. r\<lparr>ir_usage := v\<rparr>) dec_raw), (''Error'', field ir_error (\<lambda>v r. r\<lparr>ir_error := v\<rparr>) dec_raw)]"

definition images_invalid :: failure where
  "images_invalid = ApiError 502 ''upstream image response is invalid''"

text \<open>The sizes of the images that were made, \<open>None\<close> if one is too long or an entry is null.\<close>

fun image_sizes_of :: "string \<Rightarrow> fields option list \<Rightarrow> string list option" where
  "image_sizes_of dflt [] = Some []"
| "image_sizes_of dflt (None # ms) = None"
| "image_sizes_of dflt (Some m # ms) =
     (if trim_space (credential_string m ''url'') = [] \<and> trim_space (credential_string m ''b64_json'') = [] then image_sizes_of dflt ms
      else (let dims = (if credential_string m ''size'' = [] then dflt else credential_string m ''size'') in
        if 32 < length dims then None else map_option ((#) dims) (image_sizes_of dflt ms)))"

text \<open>The keys of Responses usage, renamed to those of chat completions; \<open>always\<close> also when there is none.\<close>

definition rename_usage :: "bool \<Rightarrow> fields \<Rightarrow> fields" where
  "rename_usage always m = fold (\<lambda>(from, to) m. case assoc m from of
       Some v \<Rightarrow> put to v m | None \<Rightarrow> if always then put to JNull m else m)
     [(''input_tokens'', ''prompt_tokens''), (''output_tokens'', ''completion_tokens''),
      (''input_tokens_details'', ''prompt_tokens_details''), (''output_tokens_details'', ''completion_tokens_details'')] m"

definition copy_tokens :: "price_usage \<Rightarrow> price_usage \<Rightarrow> price_usage" where
  "copy_tokens t u = u\<lparr>u_input := u_input t, u_output := u_output t, u_cache_read := u_cache_read t, u_cache_write := u_cache_write t,
     u_image_input := u_image_input t, u_image_output := u_image_output t\<rparr>"

definition observe_images :: "json option \<Rightarrow> observation \<Rightarrow> observed" where
  "observe_images raw o1 =
     (case decode image_result_fields raw \<lparr>ir_data = [], ir_model = [], ir_size = [], ir_usage = None, ir_error = None\<rparr> of
        None \<Rightarrow> (o1, Some images_invalid)
      | Some r \<Rightarrow>
          (if ir_data r = [] \<or> 10 < length (ir_data r) \<or> 32 < length (ir_size r) \<or> present (ir_error r) then (o1, Some images_invalid)
           else (case image_sizes_of (ir_size r) (ir_data r) of
               None \<Rightarrow> (o1, Some images_invalid)
             | Some sizes \<Rightarrow>
                 (let n = int (length sizes);
                      u = apply_image_sizes (u_image_input_size (ob_usage o1)) sizes
                        (no_usage\<lparr>u_image_request := True, u_image_count := n, u_requests := n\<rparr>);
                      o1 = o1\<lparr>ob_usage := u, ob_model := ir_model r\<rparr>;
                      none = (if n = 0 then Some images_invalid else None) in
                  if \<not> present (ir_usage r) then (o1, none)
                  else (case as_fields (ir_usage r) of
                      Some (Some m) \<Rightarrow> (case parse_chat_usage (Some (object_of (rename_usage False m))) of
                          Inl e \<Rightarrow> (o1, Some e)
                        | Inr t \<Rightarrow> (o1\<lparr>ob_usage := copy_tokens t u, ob_has_usage := True\<rparr>, none))
                    | _ \<Rightarrow> (o1, Some images_invalid))))))"

definition image_stream_invalid :: failure where
  "image_stream_invalid = ApiError 502 ''upstream image stream is invalid''"

definition valid_audio_url :: "(string \<Rightarrow> url option) \<Rightarrow> string \<Rightarrow> bool" where
  "valid_audio_url parse_url raw \<longleftrightarrow> (case parse_url raw of
     None \<Rightarrow> False
   | Some u \<Rightarrow> length raw \<le> 8192 \<and> url_host u \<noteq> [] \<and> \<not> url_user u \<and> (url_scheme u = ''https'' \<or> url_scheme u = ''http''))"

definition image_event_ok :: "(string \<Rightarrow> url option) \<Rightarrow> fields \<Rightarrow> bool" where
  "image_event_ok parse_url e \<longleftrightarrow> (let image = credential_string e ''b64_json'' in
     \<not> present (assoc e ''error'') \<and>
     List.member [''image_generation.partial_image'', ''image_edit.partial_image'', ''image_generation.completed'', ''image_edit.completed'']
       (credential_string e ''type'') \<and>
     (if image = [] then valid_audio_url parse_url (credential_string e ''url'')
      else (case decode64 image of None \<Rightarrow> False | Some d \<Rightarrow> d \<noteq> [])))"

definition partial_index_ok :: "fields \<Rightarrow> bool" where
  "partial_index_ok e \<longleftrightarrow> (case assoc e ''partial_image_index'' of
     None \<Rightarrow> False
   | Some v \<Rightarrow> v \<noteq> JNull \<and> (case as_int v of None \<Rightarrow> False | Some n \<Rightarrow> 0 \<le> n \<and> n \<le> 2))"

text \<open>A completed image of a stream; the usage in the event is cumulative.\<close>

definition completed_image :: "(string \<Rightarrow> string) \<Rightarrow> fields \<Rightarrow> image_meter \<Rightarrow> observation \<Rightarrow> observed" where
  "completed_image digest e meter o1 =
     (let text = credential_string e;
          i = (if text ''id'' = [] then digest (text ''b64_json'' @ CHR 0x0A # text ''url'') else text ''id'') in
      if 32 < length (text ''size'') \<or> 256 < length (text ''id'') then (o1, Some image_stream_invalid)
      else (case note_image 10 i (text ''size'') meter of
          None \<Rightarrow> (o1, Some image_stream_invalid)
        | Some meter \<Rightarrow>
            (let u = apply_meter meter (u_image_input_size (ob_usage o1)) (ob_usage o1);
                 o1 = o1\<lparr>ob_image_stream := Some meter, ob_usage := u\<lparr>u_image_request := True\<rparr>, ob_stopped := True,
                   ob_model := (if text ''model'' = [] then ob_model o1 else text ''model'')\<rparr> in
             if \<not> present (assoc e ''usage'') then (o1, None)
             else (case observe_images (Some (object_of [(''data'', JArr [object_of e]), (''usage'', the (assoc e ''usage''))]))
                   (o1\<lparr>ob_usage := no_usage, ob_has_usage := False\<rparr>) of
                 (o2, None) \<Rightarrow> (o1\<lparr>ob_usage := copy_tokens (ob_usage o2) (ob_usage o1), ob_has_usage := ob_has_usage o2\<rparr>, None)
               | (_, Some x) \<Rightarrow> (o1, Some x)))))"

definition observe_image_stream :: "(string \<Rightarrow> string) \<Rightarrow> (string \<Rightarrow> url option) \<Rightarrow> json option \<Rightarrow> image_meter \<Rightarrow> observation \<Rightarrow> observed" where
  "observe_image_stream digest parse_url raw meter o1 = (case as_fields raw of
     Some (Some e) \<Rightarrow>
       (if \<not> image_event_ok parse_url e then (o1, Some image_stream_invalid)
        else if has_suffix (credential_string e ''type'') ''.partial_image''
          then (o1, if partial_index_ok e then None else Some image_stream_invalid)
        else completed_image digest e meter o1)
   | _ \<Rightarrow> (o1, Some image_stream_invalid))"


section \<open>Images of Gemini\<close>

definition either_field :: "fields \<Rightarrow> string \<Rightarrow> string \<Rightarrow> json option" where
  "either_field m a b = (case assoc m a of None \<Rightarrow> assoc m b | v \<Rightarrow> v)"

definition either_string :: "fields \<Rightarrow> string \<Rightarrow> string \<Rightarrow> string" where
  "either_string m a b = (if credential_string m a = [] then credential_string m b else credential_string m a)"

definition image_kinds :: "string list" where
  "image_kinds = [''image/png'', ''image/jpeg'', ''image/webp'', ''image/gif'']"

definition gemini_images_invalid :: failure where
  "gemini_images_invalid = ApiError 502 ''invalid Gemini image response''"

text \<open>The identity of the image of a part: none, or an error.\<close>

definition part_image :: "(string \<Rightarrow> string) \<Rightarrow> bool \<Rightarrow> fields \<Rightarrow> string option result" where
  "part_image digest references part =
     (let inline = either_field part ''inlineData'' ''inline_data'';
          file = (if inline = None \<and> references then either_field part ''fileData'' ''file_data'' else None) in
      if inline = None \<and> file = None then Inr None
      else (case as_fields (if inline = None then file else inline) of
          Some (Some data) \<Rightarrow>
            (let kind = to_lower (trim_space (either_string data ''mimeType'' ''mime_type'')) in
             if \<not> List.member image_kinds kind then Inr None
             else if file \<noteq> None then
               (let uri = either_string data ''fileUri'' ''file_uri'' in
                if trim_space uri = [] then Inl gemini_images_invalid else Inr (Some (kind @ '':file:'' @ digest uri)))
             else (let encoded = credential_string data ''data'' in
               if trim_space encoded = [] then Inr None
               else (case decode64 encoded of
                   Some (c # cs) \<Rightarrow> Inr (Some (kind @ '':inline:'' @ digest (c # cs)))
                 | _ \<Rightarrow> Inl gemini_images_invalid)))
        | _ \<Rightarrow> Inl gemini_images_invalid))"

type_synonym image_counts = "(string \<times> int) list"

definition image_count_of :: "image_counts \<Rightarrow> string \<Rightarrow> int" where
  "image_count_of counts i = (case assoc counts i of None \<Rightarrow> 0 | Some n \<Rightarrow> n)"

definition count_part :: "(string \<Rightarrow> string) \<Rightarrow> bool \<Rightarrow> int \<Rightarrow> image_counts \<times> int \<Rightarrow> fields \<Rightarrow> (image_counts \<times> int) result" where
  "count_part digest references index st part = (case st of (counts, n) \<Rightarrow>
     and_then (part_image digest references part) (\<lambda>image. case image of
       None \<Rightarrow> Inr (counts, n)
     | Some i \<Rightarrow>
         (if 64 \<le> n then Inl (ApiError 502 ''too many Gemini images'')
          else (let key = int_text index @ '':'' @ i in Inr (put key (image_count_of counts key + 1) counts, n + 1)))))"

definition candidate_parts :: "(string \<times> (int \<times> fields option list) decoder) list" where
  "candidate_parts =
     [(''Index'', field fst (\<lambda>v r. (v, snd r)) dec_int),
      (''Content'', dec_struct [(''Parts'', field snd (\<lambda>v r. (fst r, v)) (dec_list None dec_object))])]"

definition gemini_image_outputs :: "(string \<Rightarrow> string) \<Rightarrow> bool \<Rightarrow> json option \<Rightarrow> image_counts result" where
  "gemini_image_outputs digest references raw =
     (case decode [(''Candidates'', dec_list (0, []) (dec_struct candidate_parts))] raw [] of
        None \<Rightarrow> Inl gemini_images_invalid
      | Some cs \<Rightarrow> and_then (each_with (\<lambda>st (index, parts).
            each_with (count_part digest references index) st (map (\<lambda>p. given p []) parts)) ([], 0) cs) (\<lambda>(counts, _). Inr counts))"

text \<open>Of an identity in several cumulative frames only the largest count counts.\<close>

fun add_images :: "image_counts \<Rightarrow> observation \<Rightarrow> observed" where
  "add_images [] o1 = (o1, None)"
| "add_images ((i, n) # counts) o1 =
     (let old = image_count_of (ob_gemini_images o1) i in
      if n \<le> old then add_images counts o1
      else if 64 < ob_image_count o1 + n - old then (o1, Some (ApiError 502 ''too many Gemini images''))
      else add_images counts (o1\<lparr>ob_image_count := ob_image_count o1 + (n - old),
             ob_gemini_images := put i n (ob_gemini_images o1)\<rparr>))"

definition observe_gemini_images :: "(string \<Rightarrow> string) \<Rightarrow> json option \<Rightarrow> observation \<Rightarrow> observed" where
  "observe_gemini_images digest raw o1 = (case gemini_image_outputs digest True raw of
     Inl e \<Rightarrow> (o1, Some e) | Inr counts \<Rightarrow> add_images counts o1)"


section \<open>Responses\<close>

record response_event =
  re_type :: string
  re_object :: string
  re_id :: string
  re_model :: string
  re_status :: string
  re_tier :: string
  re_usage :: "json option"
  re_response :: "json option"
  re_error :: "json option"
  re_output :: "json option"
  re_input :: "int option"

definition response_event_fields :: "(string \<times> response_event decoder) list" where
  "response_event_fields =
     [(''Type'', field re_type (\<lambda>v r. r\<lparr>re_type := v\<rparr>) dec_string), (''Object'', field re_object (\<lambda>v r. r\<lparr>re_object := v\<rparr>) dec_string),
      (''ID'', field re_id (\<lambda>v r. r\<lparr>re_id := v\<rparr>) dec_string), (''Model'', field re_model (\<lambda>v r. r\<lparr>re_model := v\<rparr>) dec_string),
      (''Status'', field re_status (\<lambda>v r. r\<lparr>re_status := v\<rparr>) dec_string),
      (''service_tier'', field re_tier (\<lambda>v r. r\<lparr>re_tier := v\<rparr>) dec_string),
      (''Usage'', field re_usage (\<lambda>v r. r\<lparr>re_usage := v\<rparr>) dec_raw), (''Response'', field re_response (\<lambda>v r. r\<lparr>re_response := v\<rparr>) dec_raw),
      (''Error'', field re_error (\<lambda>v r. r\<lparr>re_error := v\<rparr>) dec_raw), (''Output'', field re_output (\<lambda>v r. r\<lparr>re_output := v\<rparr>) dec_raw),
      (''input_tokens'', field re_input (\<lambda>v r. r\<lparr>re_input := v\<rparr>) (dec_pointer 0 dec_int))]"

definition read_response_event :: "json option \<Rightarrow> response_event option" where
  "read_response_event raw = (if raw = Some JNull then None else decode response_event_fields raw
     \<lparr>re_type = [], re_object = [], re_id = [], re_model = [], re_status = [], re_tier = [], re_usage = None, re_response = None,
      re_error = None, re_output = None, re_input = None\<rparr>)"

definition upstream :: "string \<Rightarrow> failure" where
  "upstream m = ApiError 502 m"

text \<open>The items of the output of a response that has ended.\<close>

definition item_references :: "(string \<Rightarrow> string) \<Rightarrow> bool \<Rightarrow> fields \<Rightarrow> string list result" where
  "item_references digest programmatic item =
     (let kind = credential_string item ''type''; i = credential_string item ''id'';
          bad_program = upstream ''invalid or unexpected upstream programmatic output'' in
      case validate_response_program_item item of
        Inl _ \<Rightarrow> Inl bad_program
      | Inr program \<Rightarrow>
          (if program \<and> \<not> programmatic then Inl bad_program
           else if i \<noteq> [] \<and> \<not> valid_response_id i then Inl (upstream ''upstream response item ID is invalid'')
           else Inr ((if kind = ''program'' \<or> kind = ''program_output'' then [program_item_reference digest item] else []) @
             (if kind = ''program'' then [program_call_reference (credential_string item ''call_id'')] else []) @
             (if i \<noteq> [] then [i] else []))))"

fun note_references :: "(string \<Rightarrow> string) \<Rightarrow> fields list \<Rightarrow> observation \<Rightarrow> observed" where
  "note_references digest [] o1 = (o1, None)"
| "note_references digest (item # items) o1 = (case item_references digest (ob_programmatic o1) item of
     Inl e \<Rightarrow> (o1, Some e) | Inr rs \<Rightarrow> note_references digest items (o1\<lparr>ob_items := ob_items o1 @ rs\<rparr>))"

definition observe_output :: "(string \<Rightarrow> string) \<Rightarrow> (string \<Rightarrow> url option) \<Rightarrow> json option \<Rightarrow> observation \<Rightarrow> observed" where
  "observe_output digest parse_url raw o1 = (case as_objects raw of
     Some items' \<Rightarrow>
       (let items = given items' []; o1 = o1\<lparr>ob_items := []\<rparr> in
        if 1024 < length items then (o1\<lparr>ob_items := ob_items o1\<rparr>, Some (upstream ''upstream response output is invalid or exceeds limit''))
        else (case response_container_ids parse_url items of
            Inl e \<Rightarrow> (o1\<lparr>ob_containers := []\<rparr>, Some e)
          | Inr ids \<Rightarrow> note_references digest items (o1\<lparr>ob_containers := ids\<rparr>)))
   | None \<Rightarrow> (o1, Some (upstream ''upstream response output is invalid or exceeds limit'')))"

text \<open>The usage is noted before a failure is, so that what was consumed is settled.\<close>

definition response_usage :: "json option \<Rightarrow> price_usage result" where
  "response_usage raw = (case as_fields raw of
     Some (Some m) \<Rightarrow> parse_chat_usage (Some (object_of (rename_usage True m))) | _ \<Rightarrow> Inl usage_invalid)"

definition observe_response_object ::
  "(string \<Rightarrow> string) \<Rightarrow> (string \<Rightarrow> url option) \<Rightarrow> response_event \<Rightarrow> observation \<Rightarrow> observed" where
  "observe_response_object digest parse_url e o1 =
     (let r = (if present (re_usage e) then with_usage (response_usage (re_usage e)) o1 else (o1, None)) in
      case r of (o1, Some x) \<Rightarrow> (o1, Some x)
      | (o1, None) \<Rightarrow>
          (let o1 = o1\<lparr>ob_model := (if re_model e = [] then ob_model o1 else re_model e),
                 ob_tier := (if re_tier e = [] then ob_tier o1 else re_tier e)\<rparr>;
               compaction = (re_object e = ''response.compaction'') in
           if re_type e = ''error'' \<or> present (re_error e) \<or> re_status e = ''failed'' \<or> re_status e = ''cancelled''
             then (o1, Some (upstream ''upstream response failed''))
           else if re_object e \<noteq> ''response'' \<and> \<not> (snd (response_compaction_path (ob_action o1)) \<and> compaction)
             then (o1, Some (upstream ''upstream returned an invalid response object''))
           else if \<not> valid_response_id (re_id e) \<or> ob_response_id o1 \<noteq> [] \<and> ob_response_id o1 \<noteq> re_id e
             then (o1, Some (upstream ''upstream response ID is invalid or changed''))
           else (let o1 = o1\<lparr>ob_response_id := re_id e,
                   ob_stopped := (re_status e = ''completed'' \<or> re_status e = ''incomplete'' \<or> compaction)\<rparr> in
             if ob_stopped o1 \<and> present (re_output e) then observe_output digest parse_url (re_output e) o1 else (o1, None))))"

definition response_count :: "response_event \<Rightarrow> failure option" where
  "response_count e = (case re_input e of
     Some n \<Rightarrow> if token_counts_valid [n] \<and> \<not> present (re_error e) then None else Some (upstream ''upstream token count is invalid'')
   | None \<Rightarrow> Some (upstream ''upstream token count is invalid''))"

text \<open>An event of a stream wraps a response, which is not itself an event.\<close>

definition observe_response_event ::
  "(string \<Rightarrow> string) \<Rightarrow> (string \<Rightarrow> url option) \<Rightarrow> response_event \<Rightarrow> observation \<Rightarrow> observed" where
  "observe_response_event digest parse_url e o1 =
     (let (o1, x) =
        (if \<not> present (re_response e) then (o1, None)
         else (case decode [(''Type'', field fst (\<lambda>v r. (v, snd r)) dec_string), (''Status'', field snd (\<lambda>v r. (fst r, v)) dec_string)]
               (re_response e) ([], []) of
             None \<Rightarrow> (o1, Some (upstream ''upstream response envelope is invalid''))
           | Some (kind, status) \<Rightarrow>
               (if kind \<noteq> [] then (o1, Some (upstream ''upstream response envelope is invalid''))
                else (case read_response_event (re_response e) of
                    None \<Rightarrow> (o1, Some (upstream ''upstream returned invalid Responses JSON''))
                  | Some inner \<Rightarrow> (case observe_response_object digest parse_url inner o1 of
                      (o1, Some x) \<Rightarrow> (o1, Some x)
                    | (o1, None) \<Rightarrow>
                        (o1, if (re_type e = ''response.completed'' \<or> re_type e = ''response.incomplete'') \<and> re_type e \<noteq> ''response.'' @ status
                             then Some (upstream ''upstream terminal response status does not match'') else None)))))) in
      case x of Some x \<Rightarrow> (o1, Some x)
      | None \<Rightarrow>
          (if re_type e = ''response.completed'' \<or> re_type e = ''response.incomplete'' then
             (o1, if re_response e = None \<or> \<not> ob_stopped o1 then Some (upstream ''upstream terminal response is missing'') else None)
           else if re_type e = ''response.failed'' then (o1, Some (upstream ''upstream response failed''))
           else (o1\<lparr>ob_stopped := False\<rparr>, None)))"

definition observe_responses ::
  "(string \<Rightarrow> string) \<Rightarrow> (string \<Rightarrow> url option) \<Rightarrow> json option \<Rightarrow> observation \<Rightarrow> observed" where
  "observe_responses digest parse_url raw o1 = (case read_response_event raw of
     None \<Rightarrow> (o1, Some (upstream ''upstream returned invalid Responses JSON''))
   | Some e \<Rightarrow>
       (if ob_count_only o1 then (o1, response_count e)
        else if has_prefix (re_type e) ''response.'' then observe_response_event digest parse_url e o1
        else observe_response_object digest parse_url e o1))"


section \<open>Text\<close>

record text_event =
  te_type :: string
  te_model :: string
  te_version :: string
  te_tier :: string
  te_usage :: "json option"
  te_metadata :: "json option"
  te_error :: "json option"
  te_message :: "json option"
  te_input :: "int option"
  te_sum :: "int option"
  te_candidates :: "(int \<times> string) list"
  te_block :: string

definition text_event_fields :: "(string \<times> text_event decoder) list" where
  "text_event_fields =
     [(''Type'', field te_type (\<lambda>v r. r\<lparr>te_type := v\<rparr>) dec_string), (''Model'', field te_model (\<lambda>v r. r\<lparr>te_model := v\<rparr>) dec_string),
      (''ModelVersion'', field te_version (\<lambda>v r. r\<lparr>te_version := v\<rparr>) dec_string),
      (''service_tier'', field te_tier (\<lambda>v r. r\<lparr>te_tier := v\<rparr>) dec_string),
      (''usage'', field te_usage (\<lambda>v r. r\<lparr>te_usage := v\<rparr>) dec_raw), (''usageMetadata'', field te_metadata (\<lambda>v r. r\<lparr>te_metadata := v\<rparr>) dec_raw),
      (''error'', field te_error (\<lambda>v r. r\<lparr>te_error := v\<rparr>) dec_raw), (''message'', field te_message (\<lambda>v r. r\<lparr>te_message := v\<rparr>) dec_raw),
      (''input_tokens'', field te_input (\<lambda>v r. r\<lparr>te_input := v\<rparr>) (dec_pointer 0 dec_int)),
      (''totalTokens'', field te_sum (\<lambda>v r. r\<lparr>te_sum := v\<rparr>) (dec_pointer 0 dec_int)),
      (''Candidates'', field te_candidates (\<lambda>v r. r\<lparr>te_candidates := v\<rparr>) (dec_list (0, [])
         (dec_struct [(''Index'', field fst (\<lambda>v r. (v, snd r)) dec_int), (''finishReason'', field snd (\<lambda>v r. (fst r, v)) dec_string)]))),
      (''promptFeedback'', dec_struct [(''blockReason'', field te_block (\<lambda>v r. r\<lparr>te_block := v\<rparr>) dec_string)])]"

definition read_text_event :: "json option \<Rightarrow> text_event option" where
  "read_text_event raw = (if raw = Some JNull then None else decode text_event_fields raw
     \<lparr>te_type = [], te_model = [], te_version = [], te_tier = [], te_usage = None, te_metadata = None, te_error = None, te_message = None,
      te_input = None, te_sum = None, te_candidates = [], te_block = []\<rparr>)"

definition note_model :: "text_event \<Rightarrow> observation \<Rightarrow> observation" where
  "note_model e o1 = o1\<lparr>ob_model := (if te_model e = [] then ob_model o1 else te_model e),
     ob_tier := (if te_tier e = [] then ob_tier o1 else te_tier e)\<rparr>"

definition observe_message_usage :: "text_event \<Rightarrow> observation \<Rightarrow> observed" where
  "observe_message_usage e o1 =
     (if \<not> present (te_usage e) then (o1, None)
      else (case read_message_usage (ob_usage o1) (te_type e = ''message_delta'') (te_usage e) of
          Inl x \<Rightarrow> (o1, Some x)
        | Inr (u, known) \<Rightarrow> (o1\<lparr>ob_usage := u, ob_has_usage := ob_has_usage o1 \<or> known\<rparr>, None)))"

definition observe_gemini :: "(string \<Rightarrow> string) \<Rightarrow> json option \<Rightarrow> text_event \<Rightarrow> observation \<Rightarrow> observed" where
  "observe_gemini digest raw e o1 =
     (let o1 = o1\<lparr>ob_model := (if te_version e = [] then ob_model o1 else te_version e),
            ob_finished := fold (\<lambda>(i, finish) m. put i (finish \<noteq> [] \<or> assoc m i = Some True) m) (te_candidates e) (ob_finished o1),
            ob_blocked := ob_blocked o1 \<or> te_block e \<noteq> []\<rparr> in
      case observe_gemini_images digest raw o1 of
        (o1, Some x) \<Rightarrow> (o1, Some x)
      | (o1, None) \<Rightarrow> if present (te_metadata e) then with_usage (parse_gemini_usage (te_metadata e)) o1 else (o1, None))"

definition embedding_usage :: "json option \<Rightarrow> price_usage result" where
  "embedding_usage raw = (case as_fields raw of
     Some (Some m) \<Rightarrow>
       (let pick = (\<lambda>k ks. case assoc m k of Some v \<Rightarrow> v | None \<Rightarrow> (case find_map (assoc m) ks of Some v \<Rightarrow> v | None \<Rightarrow> JNull)) in
        parse_chat_usage (Some (object_of
          (put ''prompt_tokens_details'' (pick ''prompt_tokens_details'' [''input_tokens_details''])
          (put ''completion_tokens'' (case find_map (assoc m) [''completion_tokens'', ''output_tokens''] of Some v \<Rightarrow> v | None \<Rightarrow> JNum ''0'')
          (put ''prompt_tokens'' (pick ''prompt_tokens'' [''input_tokens'', ''total_tokens'']) m))))))
   | _ \<Rightarrow> Inl usage_invalid)"

definition text_count :: "observation \<Rightarrow> text_event \<Rightarrow> failure option" where
  "text_count o1 e = (case (if ob_protocol o1 = ''gemini'' then te_sum e else te_input e) of
     Some n \<Rightarrow> if token_counts_valid [n] then None else Some (upstream ''upstream token count is invalid'')
   | None \<Rightarrow> Some (upstream ''upstream token count is invalid''))"

text \<open>The message in the first event of a stream is itself observed; it cannot be another first event.\<close>

definition text_failed :: "text_event option \<Rightarrow> failure option" where
  "text_failed e = (case e of
     None \<Rightarrow> Some (upstream ''upstream returned invalid JSON'')
   | Some e \<Rightarrow> if present (te_error e) \<or> te_type e = ''error'' then Some (upstream ''upstream returned an error'') else None)"

definition observe_message :: "text_event \<Rightarrow> observation \<Rightarrow> observed" where
  "observe_message e o1 =
     (let o1 = note_model e o1 in
      if te_type e = ''message_start'' then (o1, Some (upstream ''invalid message stream start''))
      else if te_type e = ''message_stop'' then
        (if ob_started o1 then (o1\<lparr>ob_stopped := True\<rparr>, None) else (o1, Some (upstream ''message stream has no start'')))
      else if te_type e = ''message_delta'' \<and> \<not> ob_started o1 then (o1, Some (upstream ''message stream has no start''))
      else observe_message_usage e o1)"

definition observe_first :: "text_event \<Rightarrow> observation \<Rightarrow> observed" where
  "observe_first e o1 =
     (let o1 = note_model e o1 in
      if ob_started o1 \<or> te_message e = None then (o1, Some (upstream ''invalid message stream start''))
      else (let o1 = o1\<lparr>ob_started := True\<rparr>; inner = read_text_event (te_message e) in
        case text_failed inner of Some x \<Rightarrow> (o1, Some x) | None \<Rightarrow> observe_message (the inner) o1))"

definition observe_text :: "(string \<Rightarrow> string) \<Rightarrow> json option \<Rightarrow> observation \<Rightarrow> observed" where
  "observe_text digest raw o1 =
     (let e = read_text_event raw in
      case text_failed e of
        Some x \<Rightarrow> (o1, Some x)
      | None \<Rightarrow>
          (let e = the e in
           if ob_count_only o1 then (o1, text_count o1 e)
           else if ob_protocol o1 = ''anthropic'' then (if te_type e = ''message_start'' then observe_first e o1 else observe_message e o1)
           else if ob_protocol o1 = ''gemini'' then observe_gemini digest raw e (note_model e o1)
           else if present (te_usage e)
             then with_usage ((if ob_protocol o1 = ''embeddings'' then embedding_usage else parse_chat_usage) (te_usage e)) (note_model e o1)
           else (note_model e o1, None)))"

definition observe_search :: "json option \<Rightarrow> observation \<Rightarrow> observed" where
  "observe_search raw o1 = (case as_fields raw of
     Some (Some m) \<Rightarrow>
       (if present (assoc m ''error'') then (o1, Some (upstream ''upstream search response is invalid''))
        else (o1\<lparr>ob_usage := no_usage\<lparr>u_requests := 1\<rparr>, ob_has_usage := True\<rparr>, None))
   | _ \<Rightarrow> (o1, Some (upstream ''upstream search response is invalid'')))"

text \<open>\<open>observe\<close>.\<close>

definition observe :: "(string \<Rightarrow> string) \<Rightarrow> (string \<Rightarrow> url option) \<Rightarrow> json option \<Rightarrow> observation \<Rightarrow> observed" where
  "observe digest parse_url raw o1 =
     (if ob_protocol o1 = ''images'' then (case ob_image_stream o1 of
          Some meter \<Rightarrow> observe_image_stream digest parse_url raw meter o1 | None \<Rightarrow> observe_images raw o1)
      else if ob_protocol o1 = ''alpha_search'' then observe_search raw o1
      else if ob_protocol o1 = ''responses'' then observe_responses digest parse_url raw o1
      else observe_text digest raw o1)"

end
