(* ===== verification/Response_Mcp.thy ===== *)
theory Response_Mcp
  imports Response_Tools
begin

text \<open>
  Remote tool servers and tool search of Responses requests: \<open>internal/app/response_mcp.go\<close> with the removal of credentials from
  responses, and \<open>internal/app/response_tool_search.go\<close> with the merging of discovered tools.
\<close>

section \<open>Remote servers\<close>

definition header_name_char :: "char \<Rightarrow> bool" where
  "header_name_char c \<longleftrightarrow> is_lower c \<or> is_upper c \<or> is_digit c \<or> List.member (CHR 0x27 # CHR 0x60 # ''!#$%&*+-.^_|~'') c"

definition mcp_header_ok :: "string \<times> string \<Rightarrow> unit result" where
  "mcp_header_ok kv = (case kv of (name, val) \<Rightarrow>
     and_then (check (name \<noteq> [] \<and> length name \<le> 256 \<and> length val \<le> 8192 \<and> \<not> contains_any val [CHR 0x0D, CHR 0x0A, CHR 0x00])
       (bad ''invalid MCP header'')) (\<lambda>_.
     check (list_all header_name_char name) (bad ''invalid MCP header name'')))"

definition tool_names_ok :: "string list \<Rightarrow> unit result" where
  "tool_names_ok names = check (list_all (\<lambda>n. n \<noteq> [] \<and> length n \<le> 256) names) (bad ''invalid MCP tool name'')"

definition validate_mcp_filter :: "json \<Rightarrow> bool \<Rightarrow> unit result" where
  "validate_mcp_filter raw names_allowed =
     (if names_allowed \<and> raw = JNull then Inr ()
      else (case (if names_allowed then as_strings (Some raw) else None) of
          Some names \<Rightarrow> tool_names_ok names
        | None \<Rightarrow> (case as_fields (Some raw) of
            Some (Some f) \<Rightarrow> each (\<lambda>(name, val).
              if name = ''read_only'' then check (bool_value (Some val) \<noteq> None) (bad ''invalid MCP read_only filter'')
              else if name = ''tool_names'' then
                (case (val, as_strings (Some val)) of
                   (JArr _, Some names) \<Rightarrow> tool_names_ok names
                 | _ \<Rightarrow> Inl (bad ''invalid MCP tool names''))
              else Inl (bad ''unsupported MCP tool filter'')) f
          | _ \<Rightarrow> Inl (bad ''invalid MCP tool filter''))))"

definition mcp_field :: "string \<times> json \<Rightarrow> unit result" where
  "mcp_field kv = (case kv of (name, raw) \<Rightarrow>
     if List.member [''type'', ''server_label'', ''server_url''] name then Inr ()
     else if name = ''server_description''
       then check (case as_string (Some raw) of None \<Rightarrow> False | Some s \<Rightarrow> length s \<le> 10000) (bad ''invalid MCP description'')
     else if name = ''headers'' then
       (case as_map as_string (Some raw) of
          Some h \<Rightarrow> (let headers = given h [] in
            if 64 < length headers then Inl (bad ''invalid MCP headers'') else each mcp_header_ok headers)
        | None \<Rightarrow> Inl (bad ''invalid MCP headers''))
     else if name = ''allowed_tools'' then validate_mcp_filter raw True
     else if name = ''require_approval'' then
       (if List.member [JNull, JStr ''always'', JStr ''never''] raw then Inr ()
        else (case as_fields (Some raw) of
            Some (Some filters) \<Rightarrow> each (\<lambda>(f, val).
              if f \<noteq> ''always'' \<and> f \<noteq> ''never'' then Inl (bad ''invalid MCP approval policy'') else validate_mcp_filter val False) filters
          | _ \<Rightarrow> Inl (bad ''invalid MCP approval policy'')))
     else if name = ''defer_loading'' then check (bool_value (Some raw) \<noteq> None) (bad ''invalid MCP defer_loading'')
     else if name = ''allowed_callers'' then validate_allowed_callers (Some raw)
     else Inl (bad ''unsupported MCP option; use a remote server URL and API Key headers''))"

definition validate_response_mcp_tool :: "(string \<Rightarrow> url option) \<Rightarrow> fields \<Rightarrow> unit result" where
  "validate_response_mcp_tool parse_url tool =
     and_then (check (valid_response_id (credential_string tool ''server_label'')) (bad ''MCP requires a server label'')) (\<lambda>_.
     and_then (check (case parse_url (credential_string tool ''server_url'') of
         None \<Rightarrow> False
       | Some u \<Rightarrow> url_scheme u = ''https'' \<and> url_host u \<noteq> [] \<and> \<not> url_user u \<and> url_fragment u = [])
       (bad ''MCP requires an HTTPS server URL without user information or fragment'')) (\<lambda>_. each mcp_field tool))"

definition validate_response_mcp_item :: "fields \<Rightarrow> string result" where
  "validate_response_mcp_item item =
     (let kind = credential_string item ''type''; approval = credential_string item ''approval_request_id'';
          response = (kind = ''mcp_approval_response'') in
      and_then (check (is_null (assoc item ''approval_request_id'') \<or> response \<or> valid_response_id approval)
        (bad ''invalid MCP approval request ID'')) (\<lambda>_.
      and_then (if response
        then and_then (check (bool_value (assoc item ''approve'') \<noteq> None) (bad ''MCP approval requires an explicit boolean'')) (\<lambda>_.
          check (is_null (assoc item ''reason'') \<or> string_value (assoc item ''reason'') \<noteq> None) (bad ''invalid MCP approval reason''))
        else check (valid_response_id (credential_string item ''server_label'')) (bad ''MCP history requires a server label'')) (\<lambda>_.
      let i = (if response then approval else credential_string item ''id'') in
      and_then (check (valid_response_id i) (bad ''MCP history requires a scoped item ID'')) (\<lambda>_. Inr i))))"


section \<open>Credentials in responses\<close>

text \<open>The members of an envelope that may hold tools, and what is removed from a tool.\<close>

definition envelope_fields :: "string list" where
  "envelope_fields = [''response'', ''item'', ''tools'', ''input'', ''output'', ''data'']"

definition container_field :: "fields \<Rightarrow> string option" where
  "container_field m = (let kind = credential_string m ''type'' in
     if kind = ''code_interpreter'' then Some ''container''
     else if kind = ''shell'' \<or> kind = ''shell_call'' then Some ''environment'' else None)"

definition network_policy :: "fields \<Rightarrow> string \<Rightarrow> (fields \<times> fields) option" where
  "network_policy m f = (case as_fields (assoc m f) of
     Some (Some c) \<Rightarrow> (case as_fields (assoc c ''network_policy'') of Some (Some p) \<Rightarrow> Some (c, p) | _ \<Rightarrow> None)
   | _ \<Rightarrow> None)"

definition without_domain_secrets :: "fields \<Rightarrow> fields \<times> bool" where
  "without_domain_secrets m = (case container_field m of
     None \<Rightarrow> (m, False)
   | Some f \<Rightarrow> (case network_policy m f of
       None \<Rightarrow> (m, False)
     | Some (c, p) \<Rightarrow>
         (if assoc p ''domain_secrets'' = None then (m, False)
          else (put f (object_of (put ''network_policy'' (object_of (remove ''domain_secrets'' p)) c)) m, True))))"

definition without_credentials :: "fields \<Rightarrow> fields \<times> bool" where
  "without_credentials m = (remove ''headers'' (remove ''authorization'' m), assoc m ''headers'' \<noteq> None \<or> assoc m ''authorization'' \<noteq> None)"

text \<open>The value, and whether it has changed; the first argument is the depth that is left.\<close>

type_synonym cleaner = "json \<Rightarrow> (json \<times> bool) result"

fun clean_all :: "cleaner \<Rightarrow> json list \<Rightarrow> (json list \<times> bool) result" where
  "clean_all f [] = Inr ([], False)"
| "clean_all f (v # vs) = and_then (f v) (\<lambda>(w, a). and_then (clean_all f vs) (\<lambda>(ws, b). Inr (w # ws, a \<or> b)))"

fun clean_members :: "cleaner \<Rightarrow> string list \<Rightarrow> fields \<Rightarrow> bool \<Rightarrow> (fields \<times> bool) result" where
  "clean_members f [] m changed = Inr (m, changed)"
| "clean_members f (k # ks) m changed = (case assoc m k of
     None \<Rightarrow> clean_members f ks m changed
   | Some child \<Rightarrow> and_then (f child) (\<lambda>(w, a). clean_members f ks (put k w m) (changed \<or> a)))"

primrec clean :: "nat \<Rightarrow> cleaner" where
  "clean 0 = (\<lambda>v. Inl (ApiError 502 ''upstream response envelope exceeds nesting limit''))"
| "clean (Suc n) = (\<lambda>v. case v of
     JArr items \<Rightarrow> and_then (clean_all (clean n) items) (\<lambda>(ws, changed). Inr (if changed then (JArr ws, True) else (v, False)))
   | JObj kvs \<Rightarrow>
       (let m = AList.clearjunk (rev kvs) in
        and_then (if credential_string m ''type'' = ''mcp'' then Inr (without_credentials m)
          else (let (m, a) = without_domain_secrets m in clean_members (clean n) envelope_fields m a))
          (\<lambda>(m, changed). Inr (if changed then (object_of m, True) else (v, False))))
   | _ \<Rightarrow> Inr (v, False))"

text \<open>\<open>sanitizeResponseTools\<close>: a text in which none of the names can occur is not looked at.\<close>

datatype sanitized = As_it_was string | Rewritten json

definition suspicious :: "string \<Rightarrow> bool" where
  "suspicious raw \<longleftrightarrow> List.member raw (CHR 0x5C) \<or> contains raw ''headers'' \<or> contains raw ''authorization'' \<or> contains raw ''domain_secrets''"

text \<open>A text that is not JSON is an error if it begins as an array or object does, and is passed on otherwise.\<close>

definition sanitize_response_tools :: "string \<Rightarrow> sanitized result" where
  "sanitize_response_tools raw =
     (if \<not> suspicious raw then Inr (As_it_was raw)
      else (case parse_json raw of
          None \<Rightarrow> (case trim_space raw of
              [] \<Rightarrow> Inr (As_it_was raw)
            | c # _ \<Rightarrow> if c = CHR ''['' then Inl (ApiError 502 ''invalid response array'')
                else if c = CHR ''{'' then Inl (ApiError 502 ''invalid response envelope'') else Inr (As_it_was raw))
        | Some v \<Rightarrow> and_then (clean 33 v) (\<lambda>(w, changed). Inr (if changed then Rewritten w else As_it_was raw))))"


section \<open>Tool search\<close>

definition hosted_search_tool :: "string \<Rightarrow> bool" where
  "hosted_search_tool kind \<longleftrightarrow> List.member [''web_search'', ''web_search_2025_08_26'', ''web_search_preview'',
     ''web_search_preview_2025_03_11'', ''x_search''] kind"

definition response_local_tool :: "string \<Rightarrow> bool" where
  "response_local_tool kind \<longleftrightarrow> List.member [''apply_patch'', ''local_shell'', ''shell'', ''computer'', ''computer_use_preview''] kind"

text \<open>The arguments of a search call: an object, or the text of one.\<close>

definition search_call_arguments :: "json option \<Rightarrow> string result" where
  "search_call_arguments raw =
     (let v = (case raw of None \<Rightarrow> Some (JObj []) | Some (JStr s) \<Rightarrow> parse_json s | Some JNull \<Rightarrow> None | Some j \<Rightarrow> Some j) in
      case as_fields v of Some (Some m) \<Rightarrow> Inr (marshal_json (object_of m))
      | _ \<Rightarrow> Inl (bad ''tool search arguments must be a JSON object''))"

definition validate_response_client_tool :: "fields \<Rightarrow> unit result" where
  "validate_response_client_tool tool =
     and_then (validate_allowed_callers (assoc tool ''allowed_callers'')) (\<lambda>_.
     let kind = credential_string tool ''type'' in
     if kind = ''namespace'' then and_then (response_namespace_children tool) (\<lambda>_. Inr ())
     else if kind = ''function'' \<or> kind = ''custom'' then Inr ()
     else if kind = ''tool_search'' then
       and_then (check (credential_string tool ''execution'' = ''client'') (bad ''hosted tool search requires a native OpenAI Responses account'')) (\<lambda>_.
       if assoc tool ''parameters'' = None then Inr ()
       else (case as_fields (assoc tool ''parameters'') of
           Some (Some schema) \<Rightarrow> check (credential_string schema ''type'' = ''object'') (bad ''tool search parameters must be an object schema'')
         | _ \<Rightarrow> Inl (bad ''tool search parameters must be an object schema'')))
     else Inl (bad ''hosted tool billing is not yet available''))"

definition hosted_tool_search :: "fields \<Rightarrow> bool" where
  "hosted_tool_search tool \<longleftrightarrow> credential_string tool ''type'' = ''tool_search'' \<and>
     (case assoc tool ''execution'' of None \<Rightarrow> True | Some v \<Rightarrow> v = JStr ''server'')"

definition validate_hosted_tool_search :: "fields \<Rightarrow> unit result" where
  "validate_hosted_tool_search = each (\<lambda>(f, raw).
     if f = ''type'' \<or> f = ''execution'' then Inr ()
     else if f = ''description'' \<or> f = ''parameters''
       then check (raw = JNull) (bad ''hosted tool search does not accept client search configuration'')
     else Inl (bad ''unsupported hosted tool search option''))"

definition search_discovered_tools :: "fields \<Rightarrow> fields list result" where
  "search_discovered_tools item = (case objects_or_none (assoc item ''tools'') of
     None \<Rightarrow> Inl (bad ''invalid discovered tools'')
   | Some tools \<Rightarrow>
       and_then (each (\<lambda>t. and_then (validate_response_client_tool t) (\<lambda>_.
         let kind = credential_string t ''type'' in
         check (kind \<noteq> ''tool_search'' \<and> \<not> hosted_search_tool kind) (bad ''discovery must return executable tools''))) tools) (\<lambda>_.
       Inr (case assoc item ''status'' of None \<Rightarrow> tools | Some v \<Rightarrow> if v = JStr ''completed'' then tools else [])))"

definition server_search_item :: "fields \<Rightarrow> unit result" where
  "server_search_item item =
     and_then (check (is_null (assoc item ''call_id'')) (bad ''server tool search history requires a null call ID'')) (\<lambda>_.
     and_then (check (is_null (assoc item ''id'') \<or> valid_response_id (credential_string item ''id''))
       (bad ''invalid server tool search item ID'')) (\<lambda>_.
     and_then (check (is_null (assoc item ''status'') \<or>
         List.member [''in_progress'', ''completed'', ''incomplete''] (credential_string item ''status''))
       (bad ''invalid server tool search status'')) (\<lambda>_.
     if credential_string item ''type'' = ''tool_search_call'' then and_then (search_call_arguments (assoc item ''arguments'')) (\<lambda>_. Inr ())
     else and_then (check (\<not> is_null (assoc item ''tools'')) (bad ''server tool search output requires tools'')) (\<lambda>_.
       and_then (search_discovered_tools item) (\<lambda>_. Inr ())))))"

definition client_search_item :: "fields \<Rightarrow> unit result" where
  "client_search_item item =
     and_then (check (case assoc item ''execution'' of None \<Rightarrow> True | Some v \<Rightarrow> v = JStr ''client'') (bad ''only client tool search history is supported'')) (\<lambda>_.
     check (credential_string item ''call_id'' \<noteq> [] \<and> length (credential_string item ''call_id'') \<le> 256)
       (bad ''tool search history requires a call ID''))"

definition search_output_tools :: "fields \<Rightarrow> fields list result" where
  "search_output_tools item = and_then (client_search_item item) (\<lambda>_. search_discovered_tools item)"

text \<open>\<open>flattenedToolName\<close>: a long name is cut at a rune and ends in a digest; \<open>hash8\<close> is the start of the SHA-256 in hexadecimal.\<close>

fun pieces_within :: "nat \<Rightarrow> string list \<Rightarrow> string" where
  "pieces_within n [] = []"
| "pieces_within n (p # ps) =
     (let q = (if valid_piece p then p else replacement_rune) in
      if n < length q then [] else q @ pieces_within (n - length q) ps)"

definition flattened_tool_name :: "(string \<Rightarrow> string) \<Rightarrow> string \<Rightarrow> string \<Rightarrow> string" where
  "flattened_tool_name hash8 namespace name =
     (let full = namespace @ ''__'' @ name in
      if length full \<le> 64 then full else pieces_within 54 (pieces full) @ ''__'' @ hash8 full)"


section \<open>Discovered tools\<close>

text \<open>The key a tool is called by, and its definition with its namespace.\<close>

definition tool_identity :: "(string \<Rightarrow> string) \<Rightarrow> string \<Rightarrow> fields \<Rightarrow> (string \<times> string) result" where
  "tool_identity hash8 ns tool =
     (let name = credential_string tool ''name'' in
      if name = [] \<or> 256 < length name then Inl (bad ''invalid discovered tool name'')
      else Inr (if ns \<noteq> [] then flattened_tool_name hash8 ns name else name, ns @ CHR 0x00 # response_tool_definition tool))"

definition without_function :: "string \<Rightarrow> bool" where
  "without_function kind \<longleftrightarrow> kind = ''tool_search'' \<or> hosted_search_tool kind \<or> programmatic_tool kind \<or> kind = ''image_generation'' \<or>
     response_local_tool kind \<or> kind = ''mcp'' \<or> kind = ''code_interpreter'' \<or> kind = ''file_search''"

definition tool_children :: "fields \<Rightarrow> (string \<times> fields list) result" where
  "tool_children tool =
     (if credential_string tool ''type'' = ''namespace''
      then and_then (response_namespace_children tool) (\<lambda>cs. Inr (credential_string tool ''name'', cs)) else Inr ([], [tool]))"

type_synonym known_tools = "(string \<times> string) list"

text \<open>Of two declared tools with one key and different definitions neither can be discovered again.\<close>

definition declare_child :: "(string \<Rightarrow> string) \<Rightarrow> string \<Rightarrow> known_tools \<Rightarrow> fields \<Rightarrow> known_tools result" where
  "declare_child hash8 ns known child = and_then (tool_identity hash8 ns child) (\<lambda>(key, d).
     Inr (case assoc known key of Some old \<Rightarrow> put key (if old = d then d else []) known | None \<Rightarrow> put key d known))"

definition declare_tool :: "(string \<Rightarrow> string) \<Rightarrow> known_tools \<Rightarrow> fields \<Rightarrow> known_tools result" where
  "declare_tool hash8 known tool =
     (if without_function (credential_string tool ''type'') then Inr known
      else and_then (tool_children tool) (\<lambda>(ns, cs). each_with (declare_child hash8 ns) known cs))"

definition discover_child ::
  "(string \<Rightarrow> string) \<Rightarrow> string \<Rightarrow> known_tools \<times> fields list \<Rightarrow> fields \<Rightarrow> (known_tools \<times> fields list) result" where
  "discover_child hash8 ns st child = (case st of (known, added) \<Rightarrow> and_then (tool_identity hash8 ns child) (\<lambda>(key, d).
     case assoc known key of
       Some old \<Rightarrow> if old \<noteq> d then Inl (bad ''discovered tool conflicts with a declared tool'') else Inr (known, added)
     | None \<Rightarrow> Inr (put key d known, added @ [child])))"

definition discover_tool ::
  "(string \<Rightarrow> string) \<Rightarrow> known_tools \<times> fields list \<Rightarrow> fields \<Rightarrow> (known_tools \<times> fields list) result" where
  "discover_tool hash8 st tool = (case st of (known, tools) \<Rightarrow> and_then (tool_children tool) (\<lambda>(ns, cs).
     and_then (each_with (discover_child hash8 ns) (known, []) cs) (\<lambda>(known, added).
       Inr (known, if added = [] then tools
         else if ns = [] then tools @ [tool]
         else tools @ [put ''tools'' (JArr (map object_of added)) (remove ''children'' tool)]))))"

definition discovery_item ::
  "(string \<Rightarrow> string) \<Rightarrow> known_tools \<times> fields list \<Rightarrow> fields \<Rightarrow> (known_tools \<times> fields list) result" where
  "discovery_item hash8 st item =
     (let kind = credential_string item ''type'' in
      if (kind = ''tool_search_call'' \<or> kind = ''tool_search_output'') \<and> credential_string item ''execution'' = ''server''
        then and_then (server_search_item item) (\<lambda>_. Inr st)
      else if kind = ''tool_search_call''
        then and_then (client_search_item item) (\<lambda>_. and_then (search_call_arguments (assoc item ''arguments'')) (\<lambda>_. Inr st))
      else if kind = ''tool_search_output'' then and_then (search_output_tools item) (each_with (discover_tool hash8) st)
      else Inr st)"

definition merge_response_discoveries :: "(string \<Rightarrow> string) \<Rightarrow> fields list \<Rightarrow> fields list \<Rightarrow> fields list result" where
  "merge_response_discoveries hash8 tools items =
     and_then (each_with (declare_tool hash8) [] tools) (\<lambda>known.
     and_then (each_with (discovery_item hash8) (known, tools) items) (\<lambda>(_, tools). Inr tools))"

end
