(* ===== verification/Result_Checks.thy ===== *)
theory Result_Checks
  imports Metering Response_Mcp
begin

text \<open>
  What an answer must hold to be a result, \<open>internal/app/text_result.go\<close>, and the search calls a provider made on its own,
  \<open>hostedSearchMeter\<close> of \<open>internal/app/grok_hosted_search.go\<close>; with the observers of \<open>Metering\<close> they are the frames of an answer
  as \<open>textGateway\<close> sees them.
\<close>

section \<open>Results\<close>

definition no_result :: "observation \<Rightarrow> failure" where
  "no_result o1 = ApiError 502 (''upstream returned no valid '' @ ob_protocol o1 @ '' result'')"

record chat_choice =
  cc_message :: "fields option"
  cc_delta :: "fields option"
  cc_finish :: string

definition chat_choice_fields :: "(string \<times> chat_choice decoder) list" where
  "chat_choice_fields =
     [(''Message'', field cc_message (\<lambda>v r. r\<lparr>cc_message := v\<rparr>) dec_object), (''Delta'', field cc_delta (\<lambda>v r. r\<lparr>cc_delta := v\<rparr>) dec_object),
      (''finish_reason'', field cc_finish (\<lambda>v r. r\<lparr>cc_finish := v\<rparr>) dec_string)]"

definition no_choice :: chat_choice where
  "no_choice = \<lparr>cc_message = None, cc_delta = None, cc_finish = []\<rparr>"

text \<open>Whether one of the members of a message is a result; \<open>None\<close> when one is malformed.\<close>

definition text_member :: "bool \<Rightarrow> fields \<Rightarrow> string \<Rightarrow> bool option" where
  "text_member stream m k = (if \<not> present (assoc m k) then Some False
     else map_option (\<lambda>text. text \<noteq> [] \<or> \<not> stream) (as_string (assoc m k)))"

definition call_member :: "fields \<Rightarrow> bool option" where
  "call_member m = (if \<not> present (assoc m ''tool_calls'') then Some False
     else (case as_objects (assoc m ''tool_calls'') of
         Some calls \<Rightarrow> if list_all (\<lambda>c. c \<noteq> []) (given calls []) then Some (given calls [] \<noteq> []) else None
       | None \<Rightarrow> None))"

definition object_member :: "fields \<Rightarrow> string \<Rightarrow> bool option" where
  "object_member m k = (if \<not> present (assoc m k) then Some False
     else (case as_fields (assoc m k) of Some (Some (e # es)) \<Rightarrow> Some True | _ \<Rightarrow> None))"

definition choice_result :: "bool \<Rightarrow> chat_choice \<Rightarrow> bool option" where
  "choice_result stream c = Option.bind (if stream then cc_delta c else cc_message c) (\<lambda>m.
     let members = map (text_member stream m) [''content'', ''refusal'', ''reasoning_content'', ''reasoning''] @
           call_member m # map (object_member m) [''function_call'', ''audio''] in
     if List.member members None then None
     else (let valid = List.member members (Some True) \<or> cc_finish c = ''content_filter'' in
       if \<not> stream \<and> \<not> valid then None else Some valid))"

fun choices_result :: "bool \<Rightarrow> chat_choice list \<Rightarrow> observation \<Rightarrow> observed" where
  "choices_result stream [] o1 = (o1, None)"
| "choices_result stream (c # cs) o1 = (case choice_result stream c of
     None \<Rightarrow> (o1, Some (no_result o1))
   | Some valid \<Rightarrow> choices_result stream cs (o1\<lparr>ob_result_seen := ob_result_seen o1 \<or> valid\<rparr>))"

record message_result =
  mr_type :: string
  mr_content :: "fields option list option"
  mr_block :: "fields option"
  mr_delta :: "fields option"
  mr_message :: "json option"

definition blocks_decoder :: "fields option list option decoder" where
  "blocks_decoder = dec_pointer [] (dec_list None dec_object)"

definition message_result_fields :: "(string \<times> message_result decoder) list" where
  "message_result_fields =
     [(''Type'', field mr_type (\<lambda>v r. r\<lparr>mr_type := v\<rparr>) dec_string), (''Content'', field mr_content (\<lambda>v r. r\<lparr>mr_content := v\<rparr>) blocks_decoder),
      (''content_block'', field mr_block (\<lambda>v r. r\<lparr>mr_block := v\<rparr>) dec_object), (''Delta'', field mr_delta (\<lambda>v r. r\<lparr>mr_delta := v\<rparr>) dec_object),
      (''Message'', field mr_message (\<lambda>v r. r\<lparr>mr_message := v\<rparr>) dec_raw)]"

definition typed :: "fields option \<Rightarrow> bool" where
  "typed m \<longleftrightarrow> credential_string (given m []) ''type'' \<noteq> []"

definition message_stream_result :: "message_result \<Rightarrow> bool \<Rightarrow> bool option" where
  "message_stream_result r seen =
     (let typed_one = (\<lambda>m. if typed m then Some True else None) in
      if mr_type r = ''message_start'' then
        map_option (\<lambda>blocks. given blocks [] \<noteq> []) (decode [(''Content'', blocks_decoder)] (mr_message r) None)
      else if mr_type r = ''content_block_start'' then typed_one (mr_block r)
      else if mr_type r = ''content_block_delta'' then typed_one (mr_delta r)
      else if mr_type r = ''message_delta'' then Some (seen \<or> credential_string (given (mr_delta r) []) ''stop_reason'' = ''refusal'')
      else if mr_type r = ''message_stop'' \<and> \<not> seen then None
      else Some seen)"

text \<open>The dimension of an embedding, which is a list of numbers or the base64 text of 32-bit ones.\<close>

fun vector_ok :: "json list \<Rightarrow> bool" where
  "vector_ok [] \<longleftrightarrow> True"
| "vector_ok (j # js) \<longleftrightarrow> float_value (Some j) \<noteq> None \<and> vector_ok js"

definition embedding_length :: "json option \<Rightarrow> nat option" where
  "embedding_length v = (case v of
     Some (JStr s) \<Rightarrow> (case decode64 s of Some d \<Rightarrow> if length d mod 4 = 0 then Some (length d div 4) else None | None \<Rightarrow> None)
   | Some JNull \<Rightarrow> Some 0
   | Some (JArr js) \<Rightarrow> if vector_ok js then Some (length js) else None
   | _ \<Rightarrow> None)"

fun embeddings_ok :: "nat \<Rightarrow> int set \<Rightarrow> nat \<Rightarrow> (int \<times> json option) list \<Rightarrow> bool" where
  "embeddings_ok many seen dimension [] \<longleftrightarrow> True"
| "embeddings_ok many seen dimension ((i, v) # items) \<longleftrightarrow>
     \<not> (i < 0 \<or> int many \<le> i \<or> i \<in> seen) \<and>
     (case embedding_length v of
        None \<Rightarrow> False
      | Some n \<Rightarrow> \<not> (n = 0 \<or> dimension \<noteq> 0 \<and> dimension \<noteq> n) \<and> embeddings_ok many (insert i seen) n items)"

definition observe_result :: "bool \<Rightarrow> json option \<Rightarrow> observation \<Rightarrow> observed" where
  "observe_result stream raw o1 =
     (let invalid = (o1, Some (no_result o1)) in
      if ob_count_only o1 then (o1, None)
      else if ob_protocol o1 = ''chat_completions'' then
        (case decode [(''Choices'', dec_list no_choice (dec_struct chat_choice_fields))] raw [] of
           None \<Rightarrow> invalid
         | Some cs \<Rightarrow> if \<not> stream \<and> cs = [] then invalid else choices_result stream cs o1)
      else if ob_protocol o1 = ''anthropic'' then
        (case decode message_result_fields raw \<lparr>mr_type = [], mr_content = None, mr_block = None, mr_delta = None, mr_message = None\<rparr> of
           None \<Rightarrow> invalid
         | Some r \<Rightarrow>
             (if stream then (case message_stream_result r (ob_result_seen o1) of
                  None \<Rightarrow> invalid | Some seen \<Rightarrow> (o1\<lparr>ob_result_seen := seen\<rparr>, None))
              else (case mr_content r of
                  None \<Rightarrow> invalid
                | Some blocks \<Rightarrow> if list_all typed blocks then (o1\<lparr>ob_result_seen := True\<rparr>, None) else invalid)))
      else if ob_protocol o1 = ''embeddings'' then
        (case decode [(''Data'', dec_list (0, None) (dec_struct [(''Index'', field fst (\<lambda>v r. (v, snd r)) dec_int),
             (''Embedding'', field snd (\<lambda>v r. (fst r, v)) dec_raw)]))] raw [] of
           None \<Rightarrow> invalid
         | Some items \<Rightarrow> if items = [] \<or> \<not> embeddings_ok (length items) {} 0 items then invalid else (o1, None))
      else (o1, None))"


section \<open>Search calls of the provider\<close>

text \<open>The calls of \<open>web_search\<close> and of \<open>x_search\<close>.\<close>

type_synonym call_counts = "int \<times> int"

record search_meter =
  sm_openai :: bool
  sm_seen :: "string list"
  sm_done :: call_counts
  sm_output :: call_counts
  sm_usage :: call_counts

definition search_count :: "search_meter \<Rightarrow> int" where
  "search_count m = max (max (fst (sm_done m)) (fst (sm_output m))) (fst (sm_usage m)) +
     max (max (snd (sm_done m)) (snd (sm_output m))) (snd (sm_usage m))"

record search_event =
  se_type :: string
  se_status :: string
  se_item :: "json option"
  se_response :: "json option"
  se_output :: "json option list"
  se_details :: "fields option"

definition search_event_fields :: "(string \<times> search_event decoder) list" where
  "search_event_fields =
     [(''Type'', field se_type (\<lambda>v r. r\<lparr>se_type := v\<rparr>) dec_string), (''Status'', field se_status (\<lambda>v r. r\<lparr>se_status := v\<rparr>) dec_string),
      (''Item'', field se_item (\<lambda>v r. r\<lparr>se_item := v\<rparr>) dec_raw), (''Response'', field se_response (\<lambda>v r. r\<lparr>se_response := v\<rparr>) dec_raw),
      (''Output'', field se_output (\<lambda>v r. r\<lparr>se_output := v\<rparr>) (dec_list None dec_raw)),
      (''Usage'', dec_struct [(''server_side_tool_usage_details'', field se_details (\<lambda>v r. r\<lparr>se_details := v\<rparr>) dec_object)])]"

definition read_search_event :: "json option \<Rightarrow> search_event option" where
  "read_search_event raw = decode search_event_fields raw
     \<lparr>se_type = [], se_status = [], se_item = None, se_response = None, se_output = [], se_details = None\<rparr>"

record search_item =
  si_type :: string
  si_status :: string
  si_id :: string
  si_call :: string

definition read_search_item :: "json option \<Rightarrow> search_item option" where
  "read_search_item raw = decode
     [(''Type'', field si_type (\<lambda>v r. r\<lparr>si_type := v\<rparr>) dec_string), (''Status'', field si_status (\<lambda>v r. r\<lparr>si_status := v\<rparr>) dec_string),
      (''ID'', field si_id (\<lambda>v r. r\<lparr>si_id := v\<rparr>) dec_string), (''call_id'', field si_call (\<lambda>v r. r\<lparr>si_call := v\<rparr>) dec_string)] raw
     \<lparr>si_type = [], si_status = [], si_id = [], si_call = []\<rparr>"

definition search_invalid :: failure where
  "search_invalid = ApiError 502 ''invalid upstream hosted search usage''"

definition add_call :: "bool \<Rightarrow> call_counts \<Rightarrow> call_counts" where
  "add_call x counts = (if x then (fst counts, snd counts + 1) else (fst counts + 1, snd counts))"

text \<open>
  The calls of a list of items that were not seen before. Of an event of an item the calls stay seen (\<open>live\<close>: the map of the
  meter), of a whole output they do not. What was seen before an error stays so.
\<close>

definition count_call :: "bool \<Rightarrow> bool \<Rightarrow> nat \<Rightarrow> search_item \<Rightarrow> string list \<times> call_counts \<Rightarrow> (string list \<times> call_counts) \<times> failure option" where
  "count_call openai live before item st =
     (let seen = fst st; counts = snd st; x = (si_type item = ''x_search_call'');
          i = (if si_id item = [] then si_call item else si_id item); key = si_type item @ '':'' @ i in
      if \<not> x \<and> si_type item \<noteq> ''web_search_call'' then (st, None)
      else if x \<and> openai then (st, Some search_invalid)
      else if \<not> List.member [[], ''completed'', ''succeeded''] (si_status item) then (st, None)
      else if 256 < length i then (st, Some search_invalid)
      else (let st = (if i = [] then (seen, add_call x counts)
              else if List.member seen key then st else (key # seen, add_call x counts));
                many = (if live then length (fst st) else before) in
        (st, if 20000 < fst (snd st) + snd (snd st) + int many then Some search_invalid else None)))"

fun count_calls :: "bool \<Rightarrow> bool \<Rightarrow> nat \<Rightarrow> json option list \<Rightarrow> string list \<times> call_counts \<Rightarrow> (string list \<times> call_counts) \<times> failure option" where
  "count_calls openai live before [] st = (st, None)"
| "count_calls openai live before (raw # items) st = (case read_search_item raw of
     None \<Rightarrow> (st, Some search_invalid)
   | Some item \<Rightarrow> (case count_call openai live before item st of
       (st, None) \<Rightarrow> count_calls openai live before items st | (st, Some x) \<Rightarrow> (st, Some x)))"

text \<open>The calls the usage tells, \<open>None\<close> when the number is not one.\<close>

definition told_calls :: "search_meter \<Rightarrow> search_event \<Rightarrow> string \<Rightarrow> int \<Rightarrow> int option" where
  "told_calls m e name old = (case assoc (given (se_details e) []) name of
     None \<Rightarrow> Some old
   | Some j \<Rightarrow> if sm_openai m then Some old
       else (case as_int j of
           None \<Rightarrow> None | Some n \<Rightarrow> if j = JNull \<or> n < 0 \<or> 10000 < n then None else Some (max old n)))"

definition note_calls :: "bool \<Rightarrow> call_counts \<Rightarrow> search_event \<Rightarrow> search_meter \<Rightarrow> search_meter \<times> failure option" where
  "note_calls live counts e m =
     (let m = (if live then m\<lparr>sm_done := (fst (sm_done m) + fst counts, snd (sm_done m))\<rparr>
               else m\<lparr>sm_output := (max (fst (sm_output m)) (fst counts), snd (sm_output m))\<rparr>) in
      case told_calls m e ''web_search_calls'' (fst (sm_usage m)) of
        None \<Rightarrow> (m, Some search_invalid)
      | Some w \<Rightarrow>
          (let m = m\<lparr>sm_usage := (w, snd (sm_usage m))\<rparr>;
               m = (if live then m\<lparr>sm_done := (fst (sm_done m), snd (sm_done m) + snd counts)\<rparr>
                 else m\<lparr>sm_output := (fst (sm_output m), max (snd (sm_output m)) (snd counts))\<rparr>) in
           case told_calls m e ''x_search_calls'' (snd (sm_usage m)) of
             None \<Rightarrow> (m, Some search_invalid)
           | Some x \<Rightarrow>
               (let m = m\<lparr>sm_usage := (fst (sm_usage m), x)\<rparr> in
                (m, if 10000 < search_count m then Some search_invalid else None))))"

definition meter_search_event :: "search_event \<Rightarrow> search_meter \<Rightarrow> search_meter \<times> failure option" where
  "meter_search_event e m =
     (let live = (se_type e = ''response.output_item.done'') in
      if \<not> live \<and> (se_type e \<noteq> [] \<or> \<not> List.member [''completed'', ''incomplete'', ''failed'', ''cancelled''] (se_status e))
        then (m, None)
      else (case count_calls (sm_openai m) live (length (sm_seen m)) (if live then [se_item e] else se_output e)
            (if live then sm_seen m else [], 0, 0) of
          ((seen, counts), x) \<Rightarrow>
            (let m = (if live then m\<lparr>sm_seen := seen\<rparr> else m) in
             case x of Some x \<Rightarrow> (m, Some x) | None \<Rightarrow> note_calls live counts e m)))"

text \<open>\<open>hostedSearchMeter.observe\<close>, with the bound of \<open>meter_images\<close>: a wrapped response may wrap no other.\<close>

fun search_nested :: "nat \<Rightarrow> json option \<Rightarrow> search_meter \<Rightarrow> search_meter \<times> failure option" where
  "search_nested 0 raw m = (m, Some search_invalid)"
| "search_nested (Suc n) raw m = (case read_search_event raw of
     None \<Rightarrow> (m, Some search_invalid)
   | Some e \<Rightarrow>
       (if \<not> present (se_response e) then meter_search_event e m
        else (case as_object (se_response e) of
            Some (Some nested) \<Rightarrow>
              (if assoc nested ''response'' \<noteq> None then (m, Some search_invalid) else search_nested n (se_response e) m)
          | _ \<Rightarrow> (m, Some search_invalid))))"

definition meter_search :: "json option \<Rightarrow> search_meter \<Rightarrow> search_meter \<times> failure option" where
  "meter_search = search_nested 10001"


section \<open>Frames\<close>

text \<open>The closures of \<open>textGateway\<close>: what a frame is observed by. All meters see a frame even when the first refuses it.\<close>

record metering =
  me_observation :: observation
  me_search :: "search_meter option"
  me_images :: "image_meter option"

definition observe_frame ::
  "(string \<Rightarrow> string) \<Rightarrow> (string \<Rightarrow> url option) \<Rightarrow> bool \<Rightarrow> json option \<Rightarrow> metering \<Rightarrow> metering \<times> failure option" where
  "observe_frame digest parse_url stream raw s =
     (let (o1, x) = observe digest parse_url raw (me_observation s);
          (s, x) = (case me_search s of
              None \<Rightarrow> (let (o1, x) = (if x = None then observe_result stream raw o1 else (o1, x)) in (s\<lparr>me_observation := o1\<rparr>, x))
            | Some m \<Rightarrow>
                (let (m, y) = meter_search raw m in
                 (s\<lparr>me_observation := o1\<lparr>ob_usage := (ob_usage o1)\<lparr>u_search_calls := search_count m\<rparr>\<rparr>, me_search := Some m\<rparr>,
                  if x = None then y else x))) in
      case me_images s of
        None \<Rightarrow> (s, x)
      | Some im \<Rightarrow> (let (im, z) = meter_images digest raw im in (s\<lparr>me_images := Some im\<rparr>, if x = None then z else x)))"


text \<open>What \<open>textGateway\<close> starts with: the hosted searches are metered when the answer comes from Responses of Grok (\<open>Some False\<close>)
  or OpenAI (\<open>Some True\<close>), the images when the request declared them.\<close>

definition new_observation :: "string \<Rightarrow> string \<Rightarrow> bool \<Rightarrow> string \<Rightarrow> bool \<Rightarrow> string \<Rightarrow> bool \<Rightarrow> observation" where
  "new_observation protocol tier count_only action programmatic dims streamed =
     \<lparr>ob_protocol = protocol, ob_model = [], ob_tier = tier, ob_response_id = [], ob_action = action, ob_items = [], ob_containers = [],
      ob_usage = no_usage\<lparr>u_image_input_size := (if protocol = ''images'' then dims else [])\<rparr>, ob_has_usage = False,
      ob_count_only = count_only, ob_programmatic = programmatic, ob_started = False, ob_stopped = False, ob_result_seen = False,
      ob_finished = [], ob_blocked = False, ob_image_count = 0, ob_gemini_images = [],
      ob_image_stream = (if protocol = ''images'' \<and> streamed then Some [] else None)\<rparr>"

definition new_metering :: "string \<Rightarrow> string \<Rightarrow> bool \<Rightarrow> string \<Rightarrow> bool \<Rightarrow> string \<Rightarrow> bool \<Rightarrow> bool option \<Rightarrow> bool \<Rightarrow> metering" where
  "new_metering protocol tier count_only action programmatic dims streamed hosted with_images =
     \<lparr>me_observation = new_observation protocol tier count_only action programmatic dims streamed,
      me_search = map_option (\<lambda>openai. \<lparr>sm_openai = openai, sm_seen = [], sm_done = (0, 0), sm_output = (0, 0), sm_usage = (0, 0)\<rparr>) hosted,
      me_images = (if with_images then Some [] else None)\<rparr>"

end
