(* ===== verification/Metering_Facts.thy ===== *)
theory Metering_Facts
  imports Result_Checks Pricing_Facts
begin

text \<open>
  Properties of the metering of provider answers: an observed usage can always be priced, the tokens of a chat completion are
  neither lost nor counted twice, a usage once known stays known, and an image that several frames report is charged once.
\<close>

named_theorems metering \<open>decompositions of the observers\<close>

section \<open>Usages that can be priced\<close>

lemma usage_ok_iff:
  "usage_ok u \<longleftrightarrow> count_ok (u_input u) \<and> count_ok (u_output u) \<and> count_ok (u_cache_write u) \<and> count_ok (u_cache_write_5m u) \<and>
     count_ok (u_cache_write_1h u) \<and> count_ok (u_cache_read u) \<and> count_ok (u_image_input u) \<and> count_ok (u_image_output u) \<and>
     count_ok (u_requests u) \<and> count_ok (u_video_count u) \<and> count_ok (u_video_seconds u) \<and> count_ok (u_image_count u)"
  by (simp add: usage_ok_def usage_counts_def)

lemma token_counts_ok: "token_counts_valid ns \<longleftrightarrow> list_all count_ok ns"
  by (auto simp: token_counts_valid_def count_ok_def list_all_iff)

lemma usage_ok_none [simp]: "usage_ok no_usage"
  by (simp add: usage_ok_iff no_usage_def count_ok_def)

lemma parse_chat_usageE:
  assumes "parse_chat_usage raw = Inr u"
  obtains c inp out wr where "decode chat_usage_fields raw no_chat_usage = Some c" "cu_input c = Some inp"
    "cu_output c = Some out" "wr = given (cu_write c) (cu_cache_write c)"
    "count_ok inp" "count_ok out" "0 \<le> cu_cached c" "0 \<le> cu_image_input c" "0 \<le> cu_image_output c" "cu_image_output c \<le> out"
    "count_ok wr" "count_ok (cu_reasoning c)" "cu_cached c + wr \<le> inp" "count_ok (proven_output c inp out)"
    "u = no_usage\<lparr>u_input := inp - cu_cached c - wr, u_output := proven_output c inp out, u_cache_read := cu_cached c,
       u_cache_write := wr, u_image_input := min (cu_image_input c) (inp - cu_cached c - wr), u_image_output := cu_image_output c\<rparr>"
proof -
  obtain c where c: "decode chat_usage_fields raw no_chat_usage = Some c"
    using assms by (auto simp: parse_chat_usage_def split: option.splits)
  obtain inp out where io: "cu_input c = Some inp" "cu_output c = Some out"
    using assms c by (auto simp: parse_chat_usage_def split: option.splits)
  show thesis
    using assms unfolding parse_chat_usage_def c option.case io prod.case
    by (auto simp: Let_def token_counts_ok split: if_splits intro!: that [OF c io refl])
qed

lemma chat_usage_ok: "parse_chat_usage raw = Inr u \<Longrightarrow> usage_ok u"
  by (erule parse_chat_usageE) (auto simp: usage_ok_iff no_usage_def count_ok_def)

lemma chat_usage_images [simp]: "parse_chat_usage raw = Inr u \<Longrightarrow> u_image_count u = 0 \<and> u_requests u = 0"
  by (erule parse_chat_usageE) (auto simp: no_usage_def)

lemma reported_ok: "count_ok old \<Longrightarrow> (case v of None \<Rightarrow> True | Some n \<Rightarrow> count_ok n) \<Longrightarrow> count_ok (reported delta v old)"
  by (simp add: reported_def split: option.splits)

lemma message_usage_ok:
  assumes "read_message_usage old delta raw = Inr (u, known)" "usage_ok old"
  shows "usage_ok u"
proof -
  let ?fits = "\<lambda>v. case v of None \<Rightarrow> True | Some n \<Rightarrow> token_counts_valid [n]"
  have fits: "?fits v \<Longrightarrow> count_ok old' \<Longrightarrow> count_ok (reported delta v old')" for v old'
    by (rule reported_ok) (auto simp: token_counts_ok split: option.splits)
  obtain m where m: "decode message_usage_fields raw no_message_usage = Some m"
    using assms(1) by (cases "decode message_usage_fields raw no_message_usage") (simp_all add: read_message_usage_def)
  let ?five = "reported delta (mu_five m) (u_cache_write_5m old)" and ?hour = "reported delta (mu_hour m) (u_cache_write_1h old)"
  define wr where "wr = (let w = reported delta (mu_write m) (u_cache_write old) in if w = 0 then ?five + ?hour else w)"
  have "list_all ?fits [mu_input m, mu_output m, mu_read m, mu_write m, mu_five m, mu_hour m] \<and> count_ok wr \<and>
      u = old\<lparr>u_input := reported delta (mu_input m) (u_input old), u_output := reported delta (mu_output m) (u_output old),
        u_cache_read := reported delta (mu_read m) (u_cache_read old), u_cache_write := wr, u_cache_write_5m := ?five,
        u_cache_write_1h := ?hour\<rparr>"
    using assms(1) unfolding read_message_usage_def m option.case
    by (simp only: Let_def wr_def [symmetric, unfolded Let_def] token_counts_ok split: if_splits) simp_all
  then show ?thesis using assms(2) by (simp add: usage_ok_iff fits)
qed

lemma image_tokens_nonneg: "list_all count_ok (map snd ds) \<Longrightarrow> 0 \<le> image_tokens ds"
  by (induction ds) (auto simp: image_tokens_def count_ok_def)

lemma gemini_usage_ok: "parse_gemini_usage raw = Inr u \<Longrightarrow> usage_ok u"
  unfolding parse_gemini_usage_def
  by (auto simp: token_counts_ok usage_ok_iff no_usage_def count_ok_def dest: image_tokens_nonneg
      split: option.splits if_splits)

lemma embedding_usage_ok: "embedding_usage raw = Inr u \<Longrightarrow> usage_ok u"
  by (auto simp: embedding_usage_def Let_def intro: chat_usage_ok split: option.splits)

lemma response_usage_ok: "response_usage raw = Inr u \<Longrightarrow> usage_ok u"
  by (auto simp: response_usage_def intro: chat_usage_ok split: option.splits)

lemma fold_preserves: "(\<And>x u. f (g x u) = f u) \<Longrightarrow> f (fold g xs u) = f u"
  by (induction xs arbitrary: u) auto

lemma image_size_counts: "usage_counts (apply_image_size dims u) = usage_counts u"
  by (simp add: apply_image_size_def Let_def usage_counts_def)

lemma image_sizes_counts: "usage_counts (apply_image_sizes input ds u) = usage_counts u"
  unfolding apply_image_sizes_def Let_def
  by (subst fold_preserves [of usage_counts, OF image_size_counts]) (simp add: usage_counts_def)

lemma image_sizes_ok [simp]: "usage_ok (apply_image_sizes input ds u) = usage_ok u"
  by (simp add: usage_ok_def image_sizes_counts)

lemma copy_tokens_ok: "usage_ok t \<Longrightarrow> usage_ok u \<Longrightarrow> usage_ok (copy_tokens t u)"
  by (simp add: usage_ok_iff copy_tokens_def)

lemma meter_ok: "usage_ok u \<Longrightarrow> length meter \<le> 10 \<Longrightarrow> usage_ok (apply_meter meter input u)"
  by (cases "meter = []") (simp_all add: apply_meter_def, simp_all add: usage_ok_iff count_ok_def)


lemma length_put: "length (put i d m) = (if assoc m i = None then Suc (length m) else length m)"
  by (induction m) (auto simp: put_def)

lemma note_image_bound: "note_image most i dims m = Some m' \<Longrightarrow> length m \<le> most \<Longrightarrow> length m' \<le> most"
  by (auto simp: note_image_def length_put split: option.splits if_splits)

lemma sizes_bound: "image_sizes_of dflt ms = Some ss \<Longrightarrow> length ss \<le> length ms"
proof (induction dflt ms arbitrary: ss rule: image_sizes_of.induct)
  case (3 dflt m ms)
  then show ?case by (fastforce simp: Let_def split: if_splits)
qed simp_all

lemma image_request_ok: "n \<le> 10 \<Longrightarrow> usage_ok (no_usage\<lparr>u_image_request := True, u_image_count := int n, u_requests := int n\<rparr>)"
  by (simp add: usage_ok_iff no_usage_def count_ok_def)


lemma observe_imagesE:
  obtains (rejected) x where "observe_images raw o1 = (o1, Some x)"
  | (counted) u m x where "observe_images raw o1 = (o1\<lparr>ob_usage := u, ob_model := m\<rparr>, x)" "usage_ok u"
      "x = None \<Longrightarrow> (\<exists>r. decode image_result_fields raw \<lparr>ir_data = [], ir_model = [], ir_size = [], ir_usage = None, ir_error = None\<rparr> = Some r \<and>
        \<not> present (ir_usage r))"
  | (reported) u m x where "observe_images raw o1 = (o1\<lparr>ob_usage := u, ob_model := m, ob_has_usage := True\<rparr>, x)" "usage_ok u"
proof -
  let ?zero = "\<lparr>ir_data = [], ir_model = [], ir_size = [], ir_usage = None, ir_error = None\<rparr>"
  show thesis
  proof (cases "decode image_result_fields raw ?zero")
    case None
    then show ?thesis by (intro rejected) (simp add: observe_images_def)
  next
    case r: (Some r)
    show ?thesis
    proof (cases "(ir_data r = [] \<or> 10 < length (ir_data r) \<or> 32 < length (ir_size r) \<or> present (ir_error r)) \<or>
        image_sizes_of (ir_size r) (ir_data r) = None")
      case True
      then have "observe_images raw o1 = (o1, Some images_invalid)" by (auto simp: observe_images_def r)
      then show ?thesis by (rule rejected)
    next
      case False
      then obtain ss where ss: "image_sizes_of (ir_size r) (ir_data r) = Some ss" by auto
      define u where "u = apply_image_sizes (u_image_input_size (ob_usage o1)) ss
        (no_usage\<lparr>u_image_request := True, u_image_count := int (length ss), u_requests := int (length ss)\<rparr>)"
      define none where "none = (if int (length ss) = 0 then Some images_invalid else None)"
      have "length ss \<le> 10" using sizes_bound [OF ss] False by simp
      then have u: "usage_ok u" using image_request_ok by (simp add: u_def)
      have eq: "observe_images raw o1 =
          (if \<not> present (ir_usage r) then (o1\<lparr>ob_usage := u, ob_model := ir_model r\<rparr>, none)
           else (case as_fields (ir_usage r) of
               Some (Some m) \<Rightarrow> (case parse_chat_usage (Some (object_of (rename_usage False m))) of
                   Inl e \<Rightarrow> (o1\<lparr>ob_usage := u, ob_model := ir_model r\<rparr>, Some e)
                 | Inr t \<Rightarrow> (o1\<lparr>ob_usage := u, ob_model := ir_model r, ob_usage := copy_tokens t u, ob_has_usage := True\<rparr>, none))
             | _ \<Rightarrow> (o1\<lparr>ob_usage := u, ob_model := ir_model r\<rparr>, Some images_invalid)))"
        using False unfolding observe_images_def r option.case ss Let_def u_def [symmetric] none_def [symmetric] by simp
      show ?thesis
      proof (cases "present (ir_usage r)")
        case False
        then show ?thesis using eq r u by (intro counted) auto
      next
        case True
        note eq = eq [simplified True not_True_eq_False if_False]
        show ?thesis
        proof (cases "\<exists>m t. as_fields (ir_usage r) = Some (Some m) \<and> parse_chat_usage (Some (object_of (rename_usage False m))) = Inr t")
          case True
          then obtain m t where t: "as_fields (ir_usage r) = Some (Some m)" "parse_chat_usage (Some (object_of (rename_usage False m))) = Inr t"
            by blast
          show ?thesis by (rule reported [where u = "copy_tokens t u" and m = "ir_model r" and x = none]) (simp_all add: eq t copy_tokens_ok [OF chat_usage_ok [OF t(2)] u])
        next
          case False
          then obtain x where x: "observe_images raw o1 = (o1\<lparr>ob_usage := u, ob_model := ir_model r\<rparr>, Some x)"
            using eq by (auto split: option.splits sum.splits)
          show ?thesis by (rule counted [OF x u]) simp
        qed
      qed
    qed
  qed
qed

lemma object_two: "object_of [(''data'', a), (''usage'', b)] = JObj [(''data'', a), (''usage'', b)]"
  by (simp add: object_of_def sort_key_def less_eq_list_code less_char_def)

lemma fields_two:
  "field_for image_result_fields ''data'' = Some (field ir_data (\<lambda>v r. r\<lparr>ir_data := v\<rparr>) (dec_list None dec_object))"
  "field_for image_result_fields ''usage'' = Some (field ir_usage (\<lambda>v r. r\<lparr>ir_usage := v\<rparr>) dec_raw)"
  by (simp_all add: field_for_def image_result_fields_def equal_fold_def to_lower_def lower_char_def char_of_def bit_0)

text \<open>The usage in the last event of a stream is either refused or noted.\<close>

lemma event_usage_noted:
  assumes "observe_images (Some (object_of [(''data'', a), (''usage'', j)])) o1 = (o2, None)" "j \<noteq> JNull"
  shows "usage_ok (ob_usage o2) \<and> ob_has_usage o2"
proof (cases rule: observe_imagesE [of "Some (object_of [(''data'', a), (''usage'', j)])" o1])
  case (counted u m x)
  then show ?thesis
    using assms by (auto simp: decode_def object_two fields_two field_def dec_raw_def present_def split: option.splits)
qed (use assms in auto)


section \<open>What every observer keeps\<close>

text \<open>A predicate over the metered part of an observation that survives a new usage and a new image of a stream.\<close>

definition metered_part :: "observation \<Rightarrow> price_usage \<times> bool \<times> image_meter option" where
  "metered_part o1 = (ob_usage o1, ob_has_usage o1, ob_image_stream o1)"

locale kept =
  fixes inv :: "observation \<Rightarrow> bool"
  assumes known: "inv o1 \<Longrightarrow> usage_ok u \<Longrightarrow> inv (o1\<lparr>ob_usage := u, ob_has_usage := True\<rparr>)"
    and replaced: "inv o1 \<Longrightarrow> usage_ok u \<Longrightarrow> inv (o1\<lparr>ob_usage := u\<rparr>)"
    and priced: "inv o1 \<Longrightarrow> usage_ok (ob_usage o1)"
    and streamed: "inv o1 \<Longrightarrow> length m \<le> 10 \<Longrightarrow> inv (o1\<lparr>ob_image_stream := Some m\<rparr>)"
    and bounded: "inv o1 \<Longrightarrow> ob_image_stream o1 = Some m \<Longrightarrow> length m \<le> 10"
    and rest: "inv o1 \<Longrightarrow> metered_part o2 = metered_part o1 \<Longrightarrow> inv o2"
begin

lemma same: "inv o1 \<Longrightarrow> ob_usage o2 = ob_usage o1 \<Longrightarrow> ob_has_usage o2 = ob_has_usage o1 \<Longrightarrow>
    ob_image_stream o2 = ob_image_stream o1 \<Longrightarrow> inv o2"
  by (rule rest) (simp_all add: metered_part_def)

lemma with_usage_kept: "inv o1 \<Longrightarrow> (\<And>u. r = Inr u \<Longrightarrow> usage_ok u) \<Longrightarrow> inv (fst (with_usage r o1))"
  by (cases r) (simp_all add: with_usage_def known)

lemma images_kept: "inv o1 \<Longrightarrow> inv (fst (observe_images raw o1))"
  by (cases rule: observe_imagesE [of raw o1])
    (auto intro: same [OF replaced] same [OF known])

lemma completed_kept:
  assumes "inv o1" "ob_image_stream o1 = Some m"
  shows "inv (fst (completed_image digest e m o1))"
proof -
  let ?t = "credential_string e"
  let ?i = "if ?t ''id'' = [] then digest (?t ''b64_json'' @ CHR 0x0A # ?t ''url'') else ?t ''id''"
  show ?thesis
  proof (cases "note_image 10 ?i (?t ''size'') m")
    case None
    then show ?thesis using assms by (simp add: completed_image_def Let_def)
  next
    case (Some m')
    define u where "u = (apply_meter m' (u_image_input_size (ob_usage o1)) (ob_usage o1))\<lparr>u_image_request := True\<rparr>"
    define o2 where "o2 = o1\<lparr>ob_image_stream := Some m', ob_usage := u, ob_stopped := True,
      ob_model := (if ?t ''model'' = [] then ob_model o1 else ?t ''model'')\<rparr>"
    define r where "r = observe_images (Some (object_of [(''data'', JArr [object_of e]), (''usage'', the (assoc e ''usage''))]))
      (o2\<lparr>ob_usage := no_usage, ob_has_usage := False\<rparr>)"
    have len: "length m' \<le> 10" using note_image_bound [OF Some] bounded assms by simp
    have "usage_ok (apply_meter m' (u_image_input_size (ob_usage o1)) (ob_usage o1))" using priced [OF assms(1)] len by (rule meter_ok)
    then have u: "usage_ok u" by (simp add: u_def usage_ok_iff)
    have o2: "inv o2" by (rule same [OF replaced [OF streamed [OF assms(1) len] u]]) (simp_all add: o2_def)
    have r': "snd r = None \<and> present (assoc e ''usage'') \<longrightarrow> usage_ok (ob_usage (fst r)) \<and> ob_has_usage (fst r)"
    proof (intro impI)
      assume a: "snd r = None \<and> present (assoc e ''usage'')"
      then have "r = (fst r, None)" by (metis prod.collapse)
      moreover have "the (assoc e ''usage'') \<noteq> JNull" using a by (simp add: present_def split: option.splits)
      ultimately show "usage_ok (ob_usage (fst r)) \<and> ob_has_usage (fst r)" unfolding r_def by (rule event_usage_noted)
    qed
    have step: "inv (o2\<lparr>ob_usage := copy_tokens t u, ob_has_usage := True\<rparr>)" if "usage_ok t" for t
      by (rule known [OF o2 copy_tokens_ok [OF that u]])
    have "completed_image digest e m o1 = (if 32 < length (?t ''size'') \<or> 256 < length (?t ''id'') then (o1, Some image_stream_invalid)
        else if \<not> present (assoc e ''usage'') then (o2, None)
        else (case r of (o3, None) \<Rightarrow> (o2\<lparr>ob_usage := copy_tokens (ob_usage o3) u, ob_has_usage := ob_has_usage o3\<rparr>, None)
               | (_, Some x) \<Rightarrow> (o2, Some x)))"
      by (simp add: completed_image_def Let_def Some r_def o2_def u_def)
    then show ?thesis using assms(1) o2 step r' by (cases "snd r") (auto split: prod.splits)
  qed
qed


lemma image_stream_kept: "inv o1 \<Longrightarrow> ob_image_stream o1 = Some m \<Longrightarrow> inv (fst (observe_image_stream digest parse_url raw m o1))"
  by (auto simp: observe_image_stream_def completed_kept split: option.splits)

lemma add_images_kept: "inv o1 \<Longrightarrow> inv (fst (add_images counts o1))"
proof (induction counts o1 rule: add_images.induct)
  case (2 i n counts o1)
  have "inv (o1\<lparr>ob_image_count := a, ob_gemini_images := b\<rparr>)" for a b
    by (rule same [OF "2.prems"]) simp_all
  then show ?case using 2 by (simp add: Let_def)
qed simp

lemma gemini_images_kept: "inv o1 \<Longrightarrow> inv (fst (observe_gemini_images digest raw o1))"
  by (simp add: observe_gemini_images_def add_images_kept split: sum.split)

lemma gemini_kept:
  assumes "inv o1"
  shows "inv (fst (observe_gemini digest raw e o1))"
proof -
  define o2 where "o2 = o1\<lparr>ob_model := (if te_version e = [] then ob_model o1 else te_version e),
    ob_finished := fold (\<lambda>(i, finish) m. put i (finish \<noteq> [] \<or> assoc m i = Some True) m) (te_candidates e) (ob_finished o1),
    ob_blocked := ob_blocked o1 \<or> te_block e \<noteq> []\<rparr>"
  obtain o3 x where o3: "observe_gemini_images digest raw o2 = (o3, x)" by force
  have "inv o2" by (rule same [OF assms]) (simp_all add: o2_def)
  then have "inv o3" using gemini_images_kept [of o2 digest raw] o3 by simp
  then show ?thesis
    unfolding observe_gemini_def Let_def o2_def [symmetric] o3 by (simp add: with_usage_kept gemini_usage_ok split: option.split)
qed

lemma note_model_kept: "inv o1 \<Longrightarrow> inv (note_model e o1)"
  by (rule same) (simp_all add: note_model_def)

lemma message_usage_kept: "inv o1 \<Longrightarrow> inv (fst (observe_message_usage e o1))"
proof -
  assume o1: "inv o1"
  have "inv (o1\<lparr>ob_usage := u, ob_has_usage := ob_has_usage o1 \<or> kn\<rparr>)" if "usage_ok u" for u kn
  proof (cases "ob_has_usage o1 \<or> kn")
    case True
    then show ?thesis using known [OF o1 that] by simp
  next
    case False
    show ?thesis by (rule same [OF replaced [OF o1 that]]) (use False in auto)
  qed
  then have noted: "inv (fst (case r of Inl x \<Rightarrow> (o1, Some x) | Inr (u, kn) \<Rightarrow> (o1\<lparr>ob_usage := u, ob_has_usage := ob_has_usage o1 \<or> kn\<rparr>, None)))"
    if "\<And>u kn. r = Inr (u, kn) \<Longrightarrow> usage_ok u" for r
    using that o1 by (cases r) auto
  have "inv (fst (case read_message_usage (ob_usage o1) delta raw of Inl x \<Rightarrow> (o1, Some x)
      | Inr (u, kn) \<Rightarrow> (o1\<lparr>ob_usage := u, ob_has_usage := ob_has_usage o1 \<or> kn\<rparr>, None)))" for delta raw
    by (rule noted) (rule message_usage_ok [OF _ priced [OF o1]])
  then show ?thesis using o1 by (simp add: observe_message_usage_def)
qed

lemma message_kept: "inv o1 \<Longrightarrow> inv (fst (observe_message e o1))"
  by (simp add: observe_message_def Let_def note_model_kept message_usage_kept same [OF note_model_kept])

lemma first_kept:
  assumes "inv o1"
  shows "inv (fst (observe_first e o1))"
proof -
  have "inv (note_model e o1\<lparr>ob_started := True\<rparr>)" by (rule same [OF note_model_kept [OF assms]]) simp_all
  then show ?thesis
    using assms by (simp add: observe_first_def Let_def note_model_kept message_kept split: option.split)
qed

lemma text_kept: "inv o1 \<Longrightarrow> inv (fst (observe_text digest raw o1))"
  by (simp add: observe_text_def Let_def first_kept message_kept gemini_kept note_model_kept with_usage_kept embedding_usage_ok
      chat_usage_ok split: option.split)

lemma search_kept: "inv o1 \<Longrightarrow> inv (fst (observe_search raw o1))"
  by (auto simp: observe_search_def usage_ok_iff no_usage_def count_ok_def intro!: known split: option.split)

lemma references_kept: "inv o1 \<Longrightarrow> inv (fst (note_references digest items o1))"
proof (induction digest items o1 rule: note_references.induct)
  case (2 digest item items o1)
  have "inv (o1\<lparr>ob_items := is\<rparr>)" for "is"
    by (rule same [OF "2.prems"]) simp_all
  then show ?case using 2 by (simp split: sum.split)
qed simp

lemma output_kept: "inv o1 \<Longrightarrow> inv (fst (observe_output digest parse_url raw o1))"
proof -
  assume o1: "inv o1"
  have o2: "inv (o1\<lparr>ob_items := a\<rparr>)" "inv (o1\<lparr>ob_items := a, ob_containers := b\<rparr>)" for a b
    by (rule same [OF o1], simp_all)+
  then show ?thesis
    using o1 by (simp add: observe_output_def Let_def references_kept split: option.split sum.split)
qed

lemma response_kept:
  assumes "inv o1"
  shows "inv (fst (observe_response_object digest parse_url e o1))"
proof -
  define r where "r = (if present (re_usage e) then with_usage (response_usage (re_usage e)) o1 else (o1, None))"
  obtain o2 x where r2: "r = (o2, x)" by force
  have "inv (fst r)" using assms by (simp add: r_def with_usage_kept response_usage_ok)
  then have o2: "inv o2" by (simp add: r2)
  define o3 where "o3 = o2\<lparr>ob_model := (if re_model e = [] then ob_model o2 else re_model e),
    ob_tier := (if re_tier e = [] then ob_tier o2 else re_tier e)\<rparr>"
  define o4 where "o4 = o3\<lparr>ob_response_id := re_id e, ob_stopped := (re_status e = ''completed'' \<or> re_status e = ''incomplete'' \<or>
    re_object e = ''response.compaction'')\<rparr>"
  have o3: "inv o3" by (rule same [OF o2]) (simp_all add: o3_def)
  have o4: "inv o4" by (rule same [OF o3]) (simp_all add: o4_def)
  show ?thesis
    unfolding observe_response_object_def r_def [symmetric] r2 prod.case Let_def o3_def [symmetric] o4_def [symmetric]
    using o2 o3 o4 by (simp add: output_kept split: option.split)
qed

lemma event_kept:
  assumes "inv o1"
  shows "inv (fst (observe_response_event digest parse_url e o1))"
proof -
  have inner: "inv (fst (case observe_response_object digest parse_url i o1 of (o1, Some x) \<Rightarrow> (o1, Some x) | (o1, None) \<Rightarrow> (o1, f)))"
    for i f using response_kept [OF assms, of digest parse_url i]
    by (cases "observe_response_object digest parse_url i o1") (simp split: option.split)
  have outer: "inv (fst (let (o1, x) = r in case x of Some x \<Rightarrow> (o1, Some x) | None \<Rightarrow> if c then (o1, f o1) else if d then (o1, g)
      else (o1\<lparr>ob_stopped := False\<rparr>, None)))" if "inv (fst r)" for r c d f g
    using that same [OF that] by (cases r) (simp split: option.split)
  show ?thesis
    unfolding observe_response_event_def
    by (rule outer) (simp add: assms inner split: option.split prod.split)
qed

lemma responses_kept: "inv o1 \<Longrightarrow> inv (fst (observe_responses digest parse_url raw o1))"
  by (simp add: observe_responses_def event_kept response_kept split: option.split)

lemma observe_kept: "inv o1 \<Longrightarrow> inv (fst (observe digest parse_url raw o1))"
  by (simp add: observe_def image_stream_kept images_kept search_kept responses_kept text_kept split: option.split)

lemma frames_kept: "inv o1 \<Longrightarrow> inv (fold (\<lambda>raw o2. fst (observe digest parse_url raw o2)) frames o1)"
  by (induction frames arbitrary: o1) (simp_all add: observe_kept)

end


definition metered :: "observation \<Rightarrow> bool" where
  "metered o1 \<longleftrightarrow> usage_ok (ob_usage o1) \<and> (case ob_image_stream o1 of None \<Rightarrow> True | Some m \<Rightarrow> length m \<le> 10)"

interpretation priced: kept metered
  by unfold_locales (auto simp: metered_def metered_part_def split: option.splits)

interpretation known: kept "\<lambda>o1. metered o1 \<and> ob_has_usage o1"
  by unfold_locales (auto simp: metered_def metered_part_def split: option.splits)

text \<open>Results and the other meters touch neither the usage nor what is known of it.\<close>

lemma seen_part [simp]: "metered_part (o1\<lparr>ob_result_seen := b\<rparr>) = metered_part o1"
  by (simp add: metered_part_def)

lemma choices_part [simp]: "metered_part (fst (choices_result stream cs o1)) = metered_part o1"
  by (induction stream cs o1 rule: choices_result.induct) (simp_all split: option.split)

lemma result_part: "metered_part (fst (observe_result stream raw o1)) = metered_part o1"
  by (simp add: observe_result_def Let_def split: option.split)

lemma frame_kept:
  assumes "kept good" "good (me_observation s)" "\<And>o1 n. good o1 \<Longrightarrow> good (o1\<lparr>ob_usage := (ob_usage o1)\<lparr>u_search_calls := n\<rparr>\<rparr>)"
  shows "good (me_observation (fst (observe_frame digest parse_url stream raw s)))"
proof -
  obtain o1 x where o1: "observe digest parse_url raw (me_observation s) = (o1, x)" by force
  have "good (fst (observe digest parse_url raw (me_observation s)))" by (rule kept.observe_kept [OF assms(1,2)])
  then have good: "good o1" by (simp add: o1)
  obtain o2 y where o2: "observe_result stream raw o1 = (o2, y)" by force
  have "good (fst (observe_result stream raw o1))" by (rule kept.rest [OF assms(1) good result_part])
  then have result: "good o2" by (simp add: o2)
  show ?thesis
    using good result assms(3) by (simp add: observe_frame_def o1 o2 Let_def split: prod.split option.split)
qed

lemma metered_frames_kept:
  assumes "kept good" "good (me_observation s)" "\<And>o1 n. good o1 \<Longrightarrow> good (o1\<lparr>ob_usage := (ob_usage o1)\<lparr>u_search_calls := n\<rparr>\<rparr>)"
  shows "good (me_observation (fold (\<lambda>raw s. fst (observe_frame digest parse_url stream raw s)) frames s))"
  using assms(2) by (induction frames arbitrary: s) (simp_all add: frame_kept [OF assms(1) _ assms(3)])

lemma searched_ok: "usage_ok (u\<lparr>u_search_calls := n\<rparr>) = usage_ok u"
  by (simp add: usage_ok_iff)

text \<open>Property C8: whatever a provider answers, in however many frames and whether they are accepted or refused, every count of
  the usage that is noted of a new request is between zero and 2147483647, as pricing demands: what was consumed can always be charged.\<close>
theorem observed_usage_billable:
  "list_all count_ok (usage_counts (ob_usage (me_observation
     (fold (\<lambda>raw s. fst (observe_frame digest parse_url stream raw s)) frames (new_metering protocol tier count_only action programmatic
        dims streamed hosted with_images)))))"
proof -
  have "metered (me_observation (fold (\<lambda>raw s. fst (observe_frame digest parse_url stream raw s)) frames (new_metering protocol tier count_only
      action programmatic dims streamed hosted with_images)))"
    by (rule metered_frames_kept [OF priced.kept_axioms])
      (auto simp: metered_def new_metering_def new_observation_def usage_ok_iff no_usage_def count_ok_def searched_ok split: option.splits)
  then show ?thesis by (simp add: metered_def usage_ok_def)
qed

text \<open>Property C9: a usage that is known stays known: no later frame, malformed or cut off, makes a request that has been charged
  for its consumption one without a usage.\<close>
theorem usage_never_forgotten:
  assumes "ob_has_usage (me_observation s)" and "metered (me_observation s)"
  shows "ob_has_usage (me_observation (fold (\<lambda>raw s. fst (observe_frame digest parse_url stream raw s)) frames s)) \<and>
    usage_ok (ob_usage (me_observation (fold (\<lambda>raw s. fst (observe_frame digest parse_url stream raw s)) frames s)))"
  using metered_frames_kept [OF known.kept_axioms, of s digest parse_url stream frames] assms
  by (auto simp: metered_def searched_ok split: option.splits)

text \<open>Property C38: the tokens of a chat completion are neither lost nor counted twice: input, cache reads and cache writes that are
  charged add up to the prompt; the output is what was reported and at most the reasoning on top of it, and beyond the
  reported output only as far as the reported sum of all tokens proves it.\<close>
theorem chat_usage_conserved:
  assumes "parse_chat_usage raw = Inr u"
  shows "\<exists>c prompt answer. decode chat_usage_fields raw no_chat_usage = Some c \<and> cu_input c = Some prompt \<and> cu_output c = Some answer \<and>
    u_input u + u_cache_read u + u_cache_write u = prompt \<and> answer \<le> u_output u \<and> u_output u \<le> answer + cu_reasoning c \<and>
    (u_output u = answer \<or> (\<exists>n. cu_sum c = Some n \<and> prompt + u_output u \<le> n)) \<and>
    0 \<le> u_image_input u \<and> u_image_input u \<le> u_input u \<and> 0 \<le> u_image_output u \<and> u_image_output u \<le> answer"
  using assms
proof (cases rule: parse_chat_usageE)
  case (1 c inp out wr)
  have "answer \<le> proven_output c inp answer \<and> proven_output c inp answer \<le> answer + cu_reasoning c \<and>
      (proven_output c inp answer = answer \<or> (\<exists>n. cu_sum c = Some n \<and> inp + proven_output c inp answer \<le> n))" for answer
    using 1(12) by (auto simp: proven_output_def count_ok_def split: option.splits)
  then show ?thesis using 1 by (intro exI [of _ c] exI [of _ inp] exI [of _ out]) auto
qed

theorem chat_usage_conserved_witness:
  "parse_chat_usage (Some (JObj [(''prompt_tokens'', JNum ''100''), (''completion_tokens'', JNum ''20''), (''total_tokens'', JNum ''130''),
      (''prompt_tokens_details'', JObj [(''cached_tokens'', JNum ''30'')]),
      (''completion_tokens_details'', JObj [(''reasoning_tokens'', JNum ''15'')])])) =
     Inr (no_usage\<lparr>u_input := 70, u_output := 30, u_cache_read := 30\<rparr>) \<and>
   (\<exists>c :: chat_usage. cu_input c = Some 100)"
proof -
  let ?u = "no_usage\<lparr>u_input := 70, u_output := 30, u_cache_read := 30\<rparr>"
  let ?raw = "Some (JObj [(''prompt_tokens'', JNum ''100''), (''completion_tokens'', JNum ''20''), (''total_tokens'', JNum ''130''),
      (''prompt_tokens_details'', JObj [(''cached_tokens'', JNum ''30'')]),
      (''completion_tokens_details'', JObj [(''reasoning_tokens'', JNum ''15'')])])"
  have parsed: "parse_chat_usage ?raw = Inr ?u" by code_simp
  obtain c where "decode chat_usage_fields ?raw no_chat_usage = Some c" "cu_input c = Some 100"
    using chat_usage_conserved [OF parsed] by (auto simp: no_usage_def)
  then show ?thesis by (intro conjI [OF parsed] exI [of _ c])
qed

definition sample_frames :: "json option list" where
  "sample_frames =
     [Some (JObj [(''model'', JStr ''gpt-5''), (''choices'', JArr []),
        (''usage'', JObj [(''prompt_tokens'', JNum ''9''), (''completion_tokens'', JNum ''4'')])]),
      None, Some (JObj [(''error'', JStr ''overloaded'')])]"

definition sample_metering :: metering where
  "sample_metering = fst (observe_frame id (\<lambda>_. None) True (hd sample_frames)
     (new_metering ''chat_completions'' [] False [] False [] True None False))"

theorem usage_never_forgotten_witness:
  "ob_has_usage (me_observation sample_metering) \<and>
   ob_has_usage (me_observation (fold (\<lambda>raw s. fst (observe_frame id (\<lambda>_. None) True raw s)) (tl sample_frames) sample_metering))"
proof -
  have "ob_has_usage (me_observation sample_metering)" "metered (me_observation sample_metering)" by code_simp+
  then show ?thesis using usage_never_forgotten [of sample_metering id "\<lambda>_. None" True "tl sample_frames"] by simp
qed


section \<open>Images in several frames\<close>

text \<open>A later meter: it has the images of an earlier one, and the dims that one knows.\<close>

definition extends :: "image_meter \<Rightarrow> image_meter \<Rightarrow> bool" where
  "extends m m' \<longleftrightarrow> (\<forall>i d. assoc m i = Some d \<longrightarrow> (\<exists>d'. assoc m' i = Some d' \<and> (d \<noteq> [] \<longrightarrow> d' = d)))"

lemma extends_refl [simp]: "extends m m"
  by (simp add: extends_def)

lemma extends_trans [trans]: "extends m1 m2 \<Longrightarrow> extends m2 m3 \<Longrightarrow> extends m1 m3"
  unfolding extends_def by metis

lemma note_image_extends: "note_image most i dims m = Some m' \<Longrightarrow> extends m m'"
  by (auto simp: note_image_def extends_def assoc_put split: option.splits if_splits)

lemma note_image_again:
  assumes "note_image most i dims m = Some m'" "extends m' m''"
  shows "note_image most i dims m'' = Some m''"
proof -
  obtain d where d: "assoc m' i = Some d" "d = [] \<longrightarrow> dims = []"
    using assms(1) by (auto simp: note_image_def split: option.splits if_splits)
  then obtain d'' where "assoc m'' i = Some d''" "d'' = [] \<longrightarrow> dims = []"
    using assms(2) unfolding extends_def by metis
  then show ?thesis by (auto simp: note_image_def put_same)
qed

lemma note_item_shape:
  "(\<forall>m. note_item digest raw m = None) \<or> (\<forall>m. note_item digest raw m = Some m) \<or>
   (\<exists>i dims. \<forall>m. note_item digest raw m = note_image 1024 i dims m)"
proof (cases "decode [(''Type'', dec_string)] raw []")
  case (Some kind)
  show ?thesis
  proof (cases "kind \<noteq> ''image_generation_call''")
    case False
    then show ?thesis
    proof (cases "decode image_item_fields raw \<lparr>ii_type = [], ii_id = [], ii_result = [], ii_size = [], ii_status = []\<rparr>")
      case item: (Some item)
      show ?thesis
      proof (cases "decode64 (ii_result item)")
        case (Some data)
        then show ?thesis
          using \<open>decode [(''Type'', dec_string)] raw [] = Some kind\<close> item False by (cases "ii_result item = [] \<or> ii_status item = ''failed''";
            cases "data = [] \<or> 32 < length (ii_size item) \<or> 256 < length (ii_id item)") (auto simp: note_item_def)
      qed (use Some item False in \<open>auto simp: note_item_def\<close>)
    qed (use Some False in \<open>simp add: note_item_def\<close>)
  qed (use Some in \<open>simp add: note_item_def\<close>)
qed (simp add: note_item_def)

lemma note_item_again:
  assumes "note_item digest raw m = Some m'"
  shows "extends m m' \<and> (extends m' m'' \<longrightarrow> note_item digest raw m'' = Some m'')"
proof -
  consider "\<And>m. note_item digest raw m = Some m" | i dims where "\<And>m. note_item digest raw m = note_image 1024 i dims m"
    using note_item_shape [of digest raw] assms by force
  then show ?thesis
  proof cases
    case 1
    then show ?thesis using assms by simp
  next
    case 2
    have "note_image 1024 i dims m = Some m'" using assms unfolding 2 .
    then have "extends m m'" "extends m' m'' \<Longrightarrow> note_image 1024 i dims m'' = Some m''"
      by (rule note_image_extends, rule note_image_again)
    then show ?thesis unfolding 2 by blast
  qed
qed

lemma note_items_again:
  assumes "note_items digest items m = (m', None)"
  shows "extends m m' \<and> (\<forall>m''. extends m' m'' \<longrightarrow> note_items digest items m'' = (m'', None))"
  using assms
proof (induction digest items m rule: note_items.induct)
  case (2 digest i "is" m)
  obtain m1 where m1: "note_item digest i m = Some m1" "note_items digest is m1 = (m', None)"
    using "2.prems" by (auto split: option.splits)
  have ih: "extends m1 m'" "extends m' m'' \<Longrightarrow> note_items digest is m'' = (m'', None)" for m''
    using "2.IH" [OF m1] by auto
  have "note_item digest i m'' = Some m''" if "extends m' m''" for m''
    using note_item_again [OF m1(1)] extends_trans [OF ih(1) that] by blast
  moreover have "extends m m'" using note_item_again [OF m1(1)] extends_trans [OF _ ih(1)] by blast
  ultimately show ?case using ih by simp
qed simp

text \<open>A meter that a frame was observed by: every later one has seen the frame already.\<close>

definition absorbs :: "(image_meter \<Rightarrow> image_meter \<times> failure option) \<Rightarrow> image_meter \<Rightarrow> image_meter \<Rightarrow> bool" where
  "absorbs f m m' \<longleftrightarrow> extends m m' \<and> (\<forall>m''. extends m' m'' \<longrightarrow> f m'' = (m'', None))"

lemma meter_event_again:
  assumes "meter_event digest e m = (m', None)"
  shows "absorbs (meter_event digest e) m m'"
proof -
  have again: "absorbs (note_items digest items) m m'" if "note_items digest items m = (m', None)" for items
    using note_items_again [OF that] by (simp add: absorbs_def)
  show ?thesis using assms again unfolding meter_event_def absorbs_def by (auto simp del: note_items.simps split: if_splits)
qed

lemma meter_nested_again: "meter_nested n digest raw m = (m', None) \<Longrightarrow> absorbs (meter_nested n digest raw) m m'"
proof (induction n arbitrary: raw)
  case (Suc n)
  obtain e where e: "decode image_event_fields raw no_image_event = Some e"
    using Suc.prems by (auto split: option.splits)
  show ?case
  proof (cases "present (ie_response e)")
    case True
    obtain nested where "as_object (ie_response e) = Some (Some nested)" "assoc nested ''response'' = None"
      using Suc.prems e True by (auto split: option.splits if_splits)
    then have inner: "meter_nested (Suc n) digest raw m'' = meter_nested n digest (ie_response e) m''" for m''
      using e True by simp
    have "absorbs (meter_nested n digest (ie_response e)) m m'" using Suc.prems unfolding inner by (rule Suc.IH)
    then show ?thesis unfolding absorbs_def inner .
  next
    case False
    then have inner: "meter_nested (Suc n) digest raw m'' = meter_event digest e m''" for m'' using e by simp
    have "absorbs (meter_event digest e) m m'" using Suc.prems unfolding inner by (rule meter_event_again)
    then show ?thesis unfolding absorbs_def inner .
  qed
qed simp

text \<open>A stream of frames, \<open>None\<close> once one of them is refused.\<close>

fun meter_frames :: "(string \<Rightarrow> string) \<Rightarrow> json option list \<Rightarrow> image_meter \<Rightarrow> image_meter option" where
  "meter_frames digest [] m = Some m"
| "meter_frames digest (raw # frames) m = (case meter_images digest raw m of
     (m', None) \<Rightarrow> meter_frames digest frames m' | (m', Some x) \<Rightarrow> None)"

lemma frames_absorbed:
  assumes "meter_frames digest frames m = Some m'"
  shows "extends m m' \<and> (\<forall>raw \<in> set frames. \<forall>m''. extends m' m'' \<longrightarrow> meter_images digest raw m'' = (m'', None))"
  using assms
proof (induction digest frames m rule: meter_frames.induct)
  case (2 digest raw frames m)
  obtain m1 where m1: "meter_images digest raw m = (m1, None)" "meter_frames digest frames m1 = Some m'"
    using "2.prems" by (auto split: prod.splits option.splits)
  have ih: "extends m1 m'" "\<forall>raw \<in> set frames. \<forall>m''. extends m' m'' \<longrightarrow> meter_images digest raw m'' = (m'', None)"
    using "2.IH" [OF m1(1) [symmetric] refl m1(2)] by auto
  have "absorbs (meter_images digest raw) m m1"
    using meter_nested_again m1(1) unfolding meter_images_def by blast
  then show ?case using ih extends_trans unfolding absorbs_def by (metis set_ConsD)
qed simp

text \<open>
  The items a frame reports, whatever the frame: the item of an event that says an item is done, and the output of a
  response that has ended, which may stand inside the event that ends the stream. An image is an item of a finished call
  with a result; it is known by its id, and one without an id by its result, wherever it is reported.
\<close>

fun reported_by :: "nat \<Rightarrow> json option \<Rightarrow> json option list" where
  "reported_by 0 raw = []"
| "reported_by (Suc n) raw = (case decode image_event_fields raw no_image_event of
     None \<Rightarrow> []
   | Some e \<Rightarrow>
       (if present (ie_response e) then reported_by n (ie_response e)
        else if ie_type e = ''response.output_item.done'' then [ie_item e]
        else if ie_type e = [] \<and> ie_status e \<in> {''completed'', ''incomplete'', ''failed'', ''cancelled''} then ie_output e
        else []))"

definition image_name :: "(string \<Rightarrow> string) \<Rightarrow> json option \<Rightarrow> string option" where
  "image_name digest raw =
     (if decode [(''Type'', dec_string)] raw [] \<noteq> Some ''image_generation_call'' then None
      else (case decode image_item_fields raw \<lparr>ii_type = [], ii_id = [], ii_result = [], ii_size = [], ii_status = []\<rparr> of
          None \<Rightarrow> None
        | Some item \<Rightarrow>
            (if ii_result item = [] \<or> ii_status item = ''failed'' then None
             else Some (if ii_id item = [] then digest (ii_result item) else ii_id item))))"

definition images_of :: "(string \<Rightarrow> string) \<Rightarrow> json option list \<Rightarrow> string set" where
  "images_of digest items = set (List.map_filter (image_name digest) items)"

definition images_reported :: "(string \<Rightarrow> string) \<Rightarrow> json option list \<Rightarrow> string set" where
  "images_reported digest frames = images_of digest (concat (map (reported_by 10001) frames))"

lemma images_of_simps [simp]:
  "images_of digest [] = {}"
  "images_of digest (i # is) = set_option (image_name digest i) \<union> images_of digest is"
  by (simp_all add: images_of_def map_filter_simps split: option.splits)

lemma images_of_append [simp]: "images_of digest (xs @ ys) = images_of digest xs \<union> images_of digest ys"
  by (induction xs) auto

text \<open>What a meter that has these images holds: one entry for each.\<close>

definition holds_images :: "string set \<Rightarrow> image_meter \<Rightarrow> bool" where
  "holds_images names m \<longleftrightarrow> distinct (map fst m) \<and> fst ` set m = names"

lemma holds_put: "holds_images names m \<Longrightarrow> holds_images (insert i names) (put i dims m)"
  using distinct_update [of m i dims] dom_update [of i dims m] by (auto simp: holds_images_def put_def)

lemma holds_again: "holds_images names m \<Longrightarrow> assoc m i = Some d \<Longrightarrow> holds_images (insert i names) m"
  by (auto simp: holds_images_def assoc_eq_map_of insert_absorb dest!: map_of_SomeD intro: rev_image_eqI)

lemma note_image_metered:
  "note_image most i dims m = Some m' \<Longrightarrow> holds_images names m \<Longrightarrow> holds_images (insert i names) m'"
  by (auto simp: note_image_def intro: holds_put holds_again split: option.splits if_splits)

lemma note_item_metered:
  assumes "note_item digest raw m = Some m'" "holds_images names m"
  shows "holds_images (set_option (image_name digest raw) \<union> names) m'"
  using assms note_image_metered [OF _ assms(2)]
  by (auto simp: note_item_def image_name_def split: option.splits if_splits)

lemma note_items_metered:
  "note_items digest items m = (m', None) \<Longrightarrow> holds_images names m \<Longrightarrow> holds_images (images_of digest items \<union> names) m'"
proof (induction digest items m arbitrary: names rule: note_items.induct)
  case (2 digest i "is" m)
  obtain m1 where m1: "note_item digest i m = Some m1" "note_items digest is m1 = (m', None)"
    using "2.prems" by (auto split: option.splits)
  from "2.IH" [OF m1 note_item_metered [OF m1(1) "2.prems"(2)]] show ?case by (simp add: Un_ac)
qed simp

lemma meter_nested_metered:
  "meter_nested n digest raw m = (m', None) \<Longrightarrow> holds_images names m \<Longrightarrow> holds_images (images_of digest (reported_by n raw) \<union> names) m'"
proof (induction n arbitrary: raw)
  case (Suc n)
  obtain e where e: "decode image_event_fields raw no_image_event = Some e"
    using Suc.prems by (auto split: option.splits)
  show ?case
  proof (cases "present (ie_response e)")
    case True
    then have "meter_nested n digest (ie_response e) m = (m', None)"
      using Suc.prems(1) e by (auto split: option.splits if_splits)
    from Suc.IH [OF this Suc.prems(2)] show ?thesis using e True by simp
  next
    case False
    then have "meter_event digest e m = (m', None)" using Suc.prems(1) e by simp
    then show ?thesis
      using False e Suc.prems(2) note_items_metered [of digest _ m m' names]
      by (auto simp: meter_event_def simp del: note_items.simps images_of_simps(2) split: if_splits)
  qed
qed simp

lemma meter_frames_metered:
  "meter_frames digest frames m = Some m' \<Longrightarrow> holds_images names m \<Longrightarrow> holds_images (images_reported digest frames \<union> names) m'"
proof (induction digest frames m arbitrary: names rule: meter_frames.induct)
  case (2 digest raw frames m)
  obtain m1 where m1: "meter_images digest raw m = (m1, None)" "meter_frames digest frames m1 = Some m'"
    using "2.prems" by (auto split: prod.splits option.splits)
  have "holds_images (images_of digest (reported_by 10001 raw) \<union> names) m1"
    using meter_nested_metered m1(1) "2.prems"(2) unfolding meter_images_def by blast
  from "2.IH" [OF m1(1) [symmetric] refl m1(2) this] show ?case
    by (simp add: images_reported_def Un_ac del: reported_by.simps)
qed (simp add: images_reported_def)

lemma metered_count: "holds_images names m \<Longrightarrow> length m = card names"
  by (metis holds_images_def distinct_card length_map set_map)

lemma applied_count: "u_image_count (apply_meter m input u) = int (length m)"
proof -
  have "u_image_count (fold apply_image_size sizes u) = u_image_count u" for sizes u
    by (induction sizes arbitrary: u) (simp_all add: apply_image_size_def Let_def)
  then show ?thesis by (simp add: apply_meter_def apply_image_sizes_def Let_def)
qed

text \<open>Property C39: an image is charged once however it is reported. An image is known by its id, and one without an id by
  its result, whether the event of its item reports it or the response that ends the stream. If a stream of frames was
  metered, and further frames report no image that those did not report, then the meter has exactly one entry for each
  image, the usage is charged for as many as there are images, the further frames have added nothing, and each frame that
  comes again leaves the meter as it is.\<close>
theorem repeated_images_counted_once:
  assumes "meter_frames digest frames [] = Some m" and "meter_frames digest again m = Some m'"
    and "images_reported digest again \<subseteq> images_reported digest frames"
  shows "fst ` set m' = images_reported digest frames \<and> distinct (map fst m') \<and> length m' = length m \<and>
    u_image_count (apply_meter m' input u) = int (card (images_reported digest frames)) \<and>
    (\<forall>raw \<in> set (frames @ again). meter_images digest raw m' = (m', None))"
proof -
  have m: "holds_images (images_reported digest frames) m"
    using meter_frames_metered [OF assms(1), of "{}"] by (simp add: holds_images_def)
  have m': "holds_images (images_reported digest frames) m'"
    using meter_frames_metered [OF assms(2) m] assms(3) by (simp add: Un_absorb1)
  have "meter_images digest raw m' = (m', None)" if "raw \<in> set (frames @ again)" for raw
    using that frames_absorbed [OF assms(1)] frames_absorbed [OF assms(2)] by auto
  then show ?thesis using m' metered_count [OF m] metered_count [OF m'] by (simp add: applied_count holds_images_def)
qed

text \<open>An image without an id: the event of its item and the response that ends the stream.\<close>

definition image_item_json :: json where
  "image_item_json = JObj [(''type'', JStr ''image_generation_call''), (''result'', JStr ''AAAA''), (''size'', JStr ''1024x1024'')]"

definition item_frame :: json where
  "item_frame = JObj [(''type'', JStr ''response.output_item.done''), (''item'', image_item_json)]"

definition end_response :: json where
  "end_response = JObj [(''status'', JStr ''completed''), (''output'', JArr [image_item_json])]"

definition end_frame :: json where
  "end_frame = JObj [(''type'', JStr ''response.completed''), (''response'', end_response)]"

lemma item_frame_event:
  "map_option (\<lambda>e. (present (ie_response e), meter_event id e [], ie_type e, ie_item e)) (decode image_event_fields (Some item_frame) no_image_event) =
     Some (False, ([(''AAAA'', ''1024x1024'')], None), ''response.output_item.done'', Some image_item_json)"
  by code_simp

lemma end_frame_event:
  "map_option (\<lambda>e. (present (ie_response e), ie_response e, map_option (map_option (\<lambda>m. assoc m ''response'')) (as_object (ie_response e))))
     (decode image_event_fields (Some end_frame) no_image_event) =
     Some (True, Some end_response, Some (Some None))"
  by code_simp

lemma end_response_event:
  "map_option (\<lambda>e. (present (ie_response e), meter_event id e [(''AAAA'', ''1024x1024'')], ie_type e, ie_status e, ie_output e))
     (decode image_event_fields (Some end_response) no_image_event) =
     Some (False, ([(''AAAA'', ''1024x1024'')], None), [], ''completed'', [Some image_item_json])"
  by code_simp

lemma item_frame_metered: "meter_frames id [Some item_frame] [] = Some [(''AAAA'', ''1024x1024'')]"
  using item_frame_event meter_nested.simps(2) [of 10000 id "Some item_frame" "[]"]
  by (auto simp: meter_images_def simp del: meter_nested.simps)

lemma end_frame_metered: "meter_frames id [Some end_frame] [(''AAAA'', ''1024x1024'')] = Some [(''AAAA'', ''1024x1024'')]"
  using end_frame_event end_response_event meter_nested.simps(2) [of 10000 id "Some end_frame" "[(''AAAA'', ''1024x1024'')]"]
    meter_nested.simps(2) [of 9999 id "Some end_response" "[(''AAAA'', ''1024x1024'')]"]
  by (auto simp: meter_images_def simp del: meter_nested.simps)

lemma frames_report:
  "reported_by 10001 (Some item_frame) = [Some image_item_json]" "reported_by 10001 (Some end_frame) = [Some image_item_json]"
  using item_frame_event end_frame_event end_response_event reported_by.simps(2) [of 10000 "Some item_frame"]
    reported_by.simps(2) [of 10000 "Some end_frame"] reported_by.simps(2) [of 9999 "Some end_response"]
  by (auto simp del: reported_by.simps)

theorem repeated_images_counted_once_witness:
  "u_image_count (apply_meter [(''AAAA'', ''1024x1024'')] [] no_usage) = 1"
proof -
  have n: "image_name id (Some image_item_json) = Some ''AAAA''" by code_simp
  then have r: "images_reported id [Some item_frame] = {''AAAA''}" "images_reported id [Some end_frame] = {''AAAA''}"
    by (simp_all add: images_reported_def frames_report del: reported_by.simps)
  from repeated_images_counted_once [OF item_frame_metered end_frame_metered] show ?thesis by (simp add: r)
qed

end
