(* ===== verification/Hosted_Tools.thy ===== *)
theory Hosted_Tools
  imports Response_Mcp Metering Group_Fallback
begin

text \<open>
  The tools a provider runs on its own and the files a request names: images (\<open>internal/app/response_images.go\<close>), searches
  (\<open>openai_hosted_search.go\<close>, \<open>grok_hosted_search.go\<close>), file search and file IDs (\<open>response_files.go\<close>), and the list of all
  tools a request declares (\<open>responseClientTools\<close> of \<open>responses.go\<close>). \<open>zones\<close> says which time zones exist, \<open>hash8\<close> is the
  shortened hash of flattened names.
\<close>

section \<open>Image generation\<close>

definition valid_image_source :: "(string \<Rightarrow> url option) \<Rightarrow> string \<Rightarrow> bool" where
  "valid_image_source parse_url raw \<longleftrightarrow>
     raw \<noteq> [] \<and> length raw \<le> 16777216 \<and> \<not> contains_any raw [CHR 0x0D, CHR 0x0A, CHR 0x00] \<and>
     (if has_prefix raw ''data:image/'' then contains raw '';base64,''
      else (case parse_url raw of
          None \<Rightarrow> False | Some u \<Rightarrow> (url_scheme u = ''https'' \<or> url_scheme u = ''http'') \<and> url_host u \<noteq> []))"

definition valid_native_model :: "string \<Rightarrow> bool" where
  "valid_native_model m \<longleftrightarrow> m \<noteq> [] \<and> length m \<le> 100 \<and> \<not> contains m ''..'' \<and>
     list_all (\<lambda>c. is_lower c \<or> is_upper c \<or> is_digit c \<or> List.member ''-_.'' c) m"

record image_config =
  ic_model :: string
  ic_size :: string

definition image_options :: "(string \<times> string list) list" where
  "image_options =
     [(''action'', [''auto'', ''generate'', ''edit'']), (''background'', [''auto'', ''opaque'', ''transparent'']),
      (''quality'', [''auto'', ''low'', ''medium'', ''high'', ''xhigh'', ''max'']), (''output_format'', [''png'', ''jpeg'', ''webp'']),
      (''moderation'', [''auto'', ''low'']), (''input_fidelity'', [''low'', ''high''])]"

definition small_count :: "int \<Rightarrow> json \<Rightarrow> bool" where
  "small_count most raw \<longleftrightarrow> raw \<noteq> JNull \<and> (case as_int raw of None \<Rightarrow> False | Some n \<Rightarrow> 0 \<le> n \<and> n \<le> most)"

definition image_option :: "(string \<Rightarrow> url option) \<Rightarrow> fields \<Rightarrow> image_config \<Rightarrow> string \<times> json \<Rightarrow> image_config result" where
  "image_option parse_url tool c entry = (case entry of (name, raw) \<Rightarrow>
     let v = credential_string tool name; invalid = bad ''invalid image_generation option'' in
     if name = ''type'' then Inr c
     else if name = ''model'' then (if \<not> valid_native_model v then Inl invalid else Inr (c\<lparr>ic_model := v\<rparr>))
     else if name = ''size'' then
       (if v \<noteq> ''auto'' \<and> image_size_tier v = [] \<or> 32 < length v then Inl invalid else Inr (c\<lparr>ic_size := v\<rparr>))
     else if name = ''output_compression'' \<or> name = ''partial_images'' then
       (if small_count (if name = ''partial_images'' then 3 else 100) raw then Inr c else Inl invalid)
     else if name = ''input_image_mask'' then
       (case as_fields (Some raw) of
          Some (Some masked) \<Rightarrow>
            (if length masked = 1 \<and> (valid_image_source parse_url (credential_string masked ''image_url'') \<or>
                 valid_response_id (credential_string masked ''file_id''))
             then Inr c else Inl (bad ''image mask requires an image URL or file ID''))
        | _ \<Rightarrow> Inl (bad ''image mask requires an image URL or file ID''))
     else if name = ''input_fidelity'' \<and> raw = JNull then Inr c
     else (case assoc image_options name of
         None \<Rightarrow> Inl invalid | Some allowed \<Rightarrow> if List.member allowed v then Inr c else Inl invalid))"

definition parse_response_image_tool :: "(string \<Rightarrow> url option) \<Rightarrow> fields \<Rightarrow> image_config result" where
  "parse_response_image_tool parse_url tool =
     each_with (image_option parse_url tool) \<lparr>ic_model = ''gpt-image-2'', ic_size = []\<rparr> tool"


section \<open>Searches\<close>

definition search_domains :: "string \<times> json \<Rightarrow> bool" where
  "search_domains entry \<longleftrightarrow> (case entry of (key, v) \<Rightarrow>
     (key = ''allowed_domains'' \<or> key = ''blocked_domains'') \<and>
     (v = JNull \<or> (case as_strings (Some v) of None \<Rightarrow> False | Some ds \<Rightarrow> length ds \<le> 100 \<and> list_all valid_domain_name ds)))"

definition search_location :: "(string \<Rightarrow> bool) \<Rightarrow> string \<times> json \<Rightarrow> bool" where
  "search_location zones entry \<longleftrightarrow> (case entry of (key, raw) \<Rightarrow>
     List.member [''type'', ''country'', ''city'', ''region'', ''timezone''] key \<and>
     (key \<noteq> ''type'' \<and> raw = JNull \<or>
      (case as_string (Some raw) of
         None \<Rightarrow> False
       | Some v \<Rightarrow> length v \<le> 256 \<and> \<not> contains_any v [CHR 0x00, CHR 0x0D, CHR 0x0A] \<and>
           (key = ''type'' \<longrightarrow> v = ''approximate'') \<and>
           (key = ''country'' \<longrightarrow> length v = 2 \<and> list_all is_upper v) \<and>
           (key = ''timezone'' \<longrightarrow> zones v \<and> v \<noteq> [] \<and> v \<noteq> ''Local''))))"

definition all_members :: "(string \<times> json \<Rightarrow> bool) \<Rightarrow> json \<Rightarrow> bool" where
  "all_members p raw \<longleftrightarrow> (case as_fields (Some raw) of Some (Some m) \<Rightarrow> list_all p m | _ \<Rightarrow> False)"

definition is_bool :: "json \<Rightarrow> bool" where
  "is_bool j \<longleftrightarrow> bool_value (Some j) \<noteq> None"

definition search_option :: "(string \<Rightarrow> bool) \<Rightarrow> fields \<Rightarrow> string \<times> json \<Rightarrow> bool" where
  "search_option zones tool entry \<longleftrightarrow> (case entry of (name, raw) \<Rightarrow>
     let v = credential_string tool name; preview = has_prefix (credential_string tool ''type'') ''web_search_preview'' in
     if name = ''type'' then True
     else if name = ''search_context_size'' then List.member [''low'', ''medium'', ''high''] v
     else if name = ''external_web_access'' then \<not> preview \<and> is_bool raw
     else if name = ''return_token_budget'' then \<not> preview \<and> (v = ''default'' \<or> v = ''unlimited'')
     else if name = ''filters'' then \<not> preview \<and> (raw = JNull \<or> all_members search_domains raw)
     else name = ''user_location'' \<and> (raw = JNull \<or> all_members (search_location zones) raw))"

definition validate_openai_hosted_search :: "(string \<Rightarrow> bool) \<Rightarrow> fields \<Rightarrow> unit result" where
  "validate_openai_hosted_search zones tool =
     (let kind = credential_string tool ''type'' in
      check (hosted_search_tool kind \<and> kind \<noteq> ''x_search'' \<and> list_all (search_option zones tool) tool)
        (bad ''invalid OpenAI web search option''))"

definition grok_filter_value :: "string \<Rightarrow> bool" where
  "grok_filter_value v \<longleftrightarrow> trim_space v \<noteq> [] \<and> length v \<le> 253 \<and> \<not> contains_any v [CHR 0x00, CHR 0x0D, CHR 0x0A]"

definition validate_grok_hosted_search :: "fields \<Rightarrow> unit result" where
  "validate_grok_hosted_search tool =
     (let x = (credential_string tool ''type'' = ''x_search''); web = (credential_string tool ''type'' = ''web_search'');
          allowed = (if x then ''allowed_x_handles'' else ''allowed_domains'');
          excluded = (if x then ''excluded_x_handles'' else ''excluded_domains''); most = (if x then 20 else 5);
          listed = (\<lambda>k. case assoc tool k of None \<Rightarrow> [] | Some v \<Rightarrow> given (as_strings (Some v)) []);
          from = credential_string tool ''from_date''; to = credential_string tool ''to_date'' in
      and_then (each (\<lambda>(name, raw).
        if name = ''type'' then Inr ()
        else if name = allowed \<or> name = excluded then
          (case as_strings (Some raw) of
             None \<Rightarrow> Inl (bad ''invalid hosted search filter'')
           | Some vs \<Rightarrow>
               (if raw = JNull \<or> most < length vs then Inl (bad ''invalid hosted search filter'')
                else check (list_all grok_filter_value vs) (bad ''invalid hosted search filter value'')))
        else if List.member [''enable_image_understanding'', ''enable_video_understanding'', ''enable_image_search''] name then
          check ((name = ''enable_video_understanding'' \<longrightarrow> x) \<and> (name = ''enable_image_search'' \<longrightarrow> web) \<and> is_bool raw)
            (bad ''invalid hosted search option'')
        else if name = ''from_date'' \<or> name = ''to_date'' then
          check (x \<and> valid_date (credential_string tool name)) (bad ''invalid hosted search date'')
        else Inl (bad ''unsupported hosted search option'')) tool) (\<lambda>_.
      if listed allowed \<noteq> [] \<and> listed excluded \<noteq> [] then Inl (bad ''use allowed or excluded search filters, not both'')
      else check (\<not> (from \<noteq> [] \<and> to \<noteq> [] \<and> to < from)) (bad ''hosted search dates are reversed'')))"


section \<open>The tools of a request\<close>

text \<open>A list of objects as it stands when decoding it failed: what is no object is the nil map.\<close>

fun objects_found :: "json option \<Rightarrow> fields list" where
  "objects_found (Some (JArr js)) = map (\<lambda>j. case as_fields (Some j) of Some (Some m) \<Rightarrow> m | _ \<Rightarrow> []) js"
| "objects_found _ = []"

definition response_client_tools :: "(string \<Rightarrow> string) \<Rightarrow> fields \<Rightarrow> fields list result" where
  "response_client_tools hash8 body =
     (case objects_or_none (assoc body ''tools'') of
        None \<Rightarrow> Inl (bad ''invalid tools'')
      | Some tools \<Rightarrow>
          (let items = objects_found (assoc body ''input'');
               declared = (if as_objects (assoc body ''input'') = None then []
                 else filter (\<lambda>i. credential_string i ''type'' = ''additional_tools'') items) in
           and_then (each_with (\<lambda>tools item. case as_objects (assoc item ''tools'') of
               None \<Rightarrow> Inl (bad ''invalid additional tools'') | Some extra \<Rightarrow> Inr (tools @ given extra [])) tools declared) (\<lambda>tools.
           merge_response_discoveries hash8 tools items)))"

definition validate_hosted_search_tools ::
  "(string \<Rightarrow> string) \<Rightarrow> (string \<Rightarrow> bool) \<Rightarrow> fields \<Rightarrow> string \<Rightarrow> unit result" where
  "validate_hosted_search_tools hash8 zones body platform =
     (if platform \<noteq> ''openai'' \<and> platform \<noteq> ''grok'' then Inl (bad ''hosted search requires an OpenAI or Grok target'')
      else and_then (response_client_tools hash8 body) (each (\<lambda>tool.
        let kind = credential_string tool ''type'' in
        if \<not> hosted_search_tool kind then Inr ()
        else if platform = ''openai'' then validate_openai_hosted_search zones tool
        else if \<not> grok_search_protocol kind then Inl (bad ''unsupported Grok search tool'')
        else validate_grok_hosted_search tool)))"


section \<open>File search\<close>

definition scalar :: "bool \<Rightarrow> json \<Rightarrow> failure option" where
  "scalar in_list v = (case v of
     JStr s \<Rightarrow> None
   | JNum n \<Rightarrow> if float_ok n then None else Some (bad ''invalid file search filter value'')
   | JBool b \<Rightarrow> if in_list then Some (bad ''file search filter lists require strings or numbers'') else None
   | _ \<Rightarrow> Some (bad ''invalid file search filter value''))"

definition filter_leaf :: "fields \<Rightarrow> unit result" where
  "filter_leaf m =
     (let kind = credential_string m ''type''; in_list = (kind = ''in'' \<or> kind = ''nin'');
          vs = (case assoc m ''value'' of Some (JArr js) \<Rightarrow> if in_list then js else [JArr js]
            | Some v \<Rightarrow> if in_list then [] else [v] | None \<Rightarrow> []) in
      if \<not> List.member [''eq'', ''ne'', ''gt'', ''gte'', ''lt'', ''lte'', ''in'', ''nin''] kind then Inl (bad ''invalid file search filter operator'')
      else if length m \<noteq> 3 \<or> credential_string m ''key'' = [] \<or> 256 < length (credential_string m ''key'')
        then Inl (bad ''invalid file search filter key'')
      else if in_list \<and> (vs = [] \<or> 256 < length vs) then Inl (bad ''invalid file search filter values'')
      else if vs = [] then Inl (bad ''invalid file search filter value'')
      else each (\<lambda>v. case scalar in_list v of None \<Rightarrow> Inr () | Some e \<Rightarrow> Inl e) vs)"

text \<open>The argument counts the levels that may still be entered; the result is the number of nodes so far.\<close>

fun response_file_filter :: "nat \<Rightarrow> json option \<Rightarrow> nat \<Rightarrow> nat result" where
  "response_file_filter 0 raw nodes = Inl (bad ''invalid or excessive file search filter'')"
| "response_file_filter (Suc levels) raw nodes = (case as_fields raw of
     Some (Some m) \<Rightarrow>
       (if 256 < Suc nodes then Inl (bad ''invalid or excessive file search filter'')
        else if credential_string m ''type'' = ''and'' \<or> credential_string m ''type'' = ''or'' then
          (case assoc m ''filters'' of
             Some (JArr children) \<Rightarrow>
               (if length m \<noteq> 2 \<or> children = [] \<or> 256 < length children then Inl (bad ''invalid compound file search filter'')
                else each_with (\<lambda>n child. response_file_filter levels (Some child) n) (Suc nodes) children)
           | _ \<Rightarrow> Inl (bad ''invalid compound file search filter''))
        else and_then (filter_leaf m) (\<lambda>_. Inr (Suc nodes)))
   | _ \<Rightarrow> Inl (bad ''invalid or excessive file search filter''))"

definition ranking_option :: "fields \<Rightarrow> string \<times> json \<Rightarrow> unit result" where
  "ranking_option options entry = (case entry of (key, raw) \<Rightarrow>
     if key = ''ranker'' then check (List.member [''auto'', ''default-2024-11-15''] (credential_string options key)) (bad ''unsupported file search ranker'')
     else if key = ''score_threshold'' then
       check (case float_value (Some raw) of None \<Rightarrow> False | Some n \<Rightarrow> - (1 / 2 ^ 1075) \<le> n \<and> n \<le> 1 + 1 / 2 ^ 53)
         (bad ''invalid file search score threshold'')
     else if key = ''hybrid_search'' then
       (case as_fields (Some raw) of
          Some (Some weights) \<Rightarrow>
            (let w = (\<lambda>k. float_value (assoc weights k)); ok = (\<lambda>v. case v of None \<Rightarrow> False | Some n \<Rightarrow> - (1 / 2 ^ 1075) \<le> n);
                 positive = (\<lambda>v. case v of None \<Rightarrow> False | Some n \<Rightarrow> 1 / 2 ^ 1075 < n) in
             if length weights \<noteq> 2 then Inl (bad ''invalid file search hybrid weights'')
             else if \<not> (ok (w ''embedding_weight'') \<and> ok (w ''text_weight'')) then Inl (bad ''invalid file search hybrid weight'')
             else check (positive (w ''embedding_weight'') \<or> positive (w ''text_weight'')) (bad ''file search hybrid weights must have a positive sum''))
        | _ \<Rightarrow> Inl (bad ''invalid file search hybrid weights''))
     else Inl (bad ''unsupported file search ranking option''))"

definition response_file_search :: "fields \<Rightarrow> string list result" where
  "response_file_search tool = (case as_strings (assoc tool ''vector_store_ids'') of
     None \<Rightarrow> Inl (bad ''file_search requires 1 to 100 vector store IDs'')
   | Some ids \<Rightarrow>
       (if ids = [] \<or> 100 < length ids then Inl (bad ''file_search requires 1 to 100 vector store IDs'')
        else and_then (check (list_all valid_response_id ids) (bad ''invalid vector store ID'')) (\<lambda>_.
          and_then (each (\<lambda>(key, raw).
            if key = ''type'' \<or> key = ''vector_store_ids'' then Inr ()
            else if key = ''max_num_results'' then
              check (case as_int raw of None \<Rightarrow> False | Some n \<Rightarrow> 1 \<le> n \<and> n \<le> 50) (bad ''file search result limit must be 1 to 50'')
            else if key = ''filters'' then
              (if raw = JNull then Inr () else and_then (response_file_filter 9 (Some raw) 0) (\<lambda>_. Inr ()))
            else if key = ''ranking_options'' then
              (case as_fields (Some raw) of
                 Some (Some options) \<Rightarrow> each (ranking_option options) options
               | _ \<Rightarrow> Inl (bad ''invalid file search ranking options''))
            else Inl (bad ''unsupported file search option'')) tool) (\<lambda>_.
          merge_response_resources [] ids))))"

definition response_file_search_item :: "fields \<Rightarrow> unit result" where
  "response_file_search_item item =
     and_then (only_fields [''type'', ''id'', ''status'', ''queries'', ''results''] (bad ''unsupported file search history field'') item) (\<lambda>_.
     and_then (check (List.member [''in_progress'', ''searching'', ''completed'', ''incomplete'', ''failed''] (credential_string item ''status''))
       (bad ''invalid file search status'')) (\<lambda>_.
     and_then (check (\<not> is_null (assoc item ''queries'') \<and>
         (case as_strings (assoc item ''queries'') of None \<Rightarrow> False | Some qs \<Rightarrow> length qs \<le> 100)) (bad ''invalid file search queries'')) (\<lambda>_.
       if \<not> present (assoc item ''results'') then Inr ()
       else (case (assoc item ''results'', as_objects (assoc item ''results'')) of
           (Some (JArr js), Some (Some rs)) \<Rightarrow>
             (if 1000 < length rs then Inl (bad ''invalid file search results'')
              else check (\<not> List.member js JNull) (bad ''invalid file search result''))
         | _ \<Rightarrow> Inl (bad ''invalid file search results'')))))"


section \<open>Files\<close>

definition add_file :: "string list \<Rightarrow> json \<Rightarrow> string list result" where
  "add_file ids raw = (case as_string (Some raw) of
     None \<Rightarrow> Inl (bad ''invalid input file ID'')
   | Some i \<Rightarrow>
       (if \<not> valid_response_id i then Inl (bad ''invalid input file ID'')
        else (let ids = (if List.member ids i then ids else ids @ [i]) in
          if 100 < length ids then Inl (bad ''too many input file IDs'') else Inr ids)))"

definition file_part :: "string list \<Rightarrow> fields \<Rightarrow> string list result" where
  "file_part ids p = (case assoc p ''file_id'' of
     None \<Rightarrow> Inr ids
   | Some raw \<Rightarrow>
       (if raw = JNull then Inr ids
        else if list_ex (\<lambda>k. present (assoc p k)) [''file_data'', ''file_url'', ''image_url''] then Inl (bad ''use one file input source'')
        else add_file ids raw))"

fun parts_of :: "json option \<Rightarrow> fields list" where
  "parts_of (Some (JObj kvs)) = [AList.clearjunk (rev kvs)]"
| "parts_of v = objects_found v"

definition content_files :: "bool \<Rightarrow> string list \<Rightarrow> fields \<Rightarrow> string list result" where
  "content_files chat ids p =
     and_then (file_part ids p) (\<lambda>ids.
       if chat \<and> credential_string p ''type'' = ''file'' then
         (case as_fields (assoc p ''file'') of Some (Some f) \<Rightarrow> file_part ids f | _ \<Rightarrow> Inl (bad ''invalid Chat file input''))
       else Inr ids)"

definition item_files :: "bool \<Rightarrow> string list \<Rightarrow> fields \<Rightarrow> string list result" where
  "item_files chat ids item =
     and_then (file_part ids item) (\<lambda>ids.
     each_with (\<lambda>ids k. each_with (content_files chat) ids (parts_of (assoc item k))) ids [''content'', ''output''])"

text \<open>The variables of a prompt; what is not an object leaves them as they are.\<close>

fun prompt_variables :: "json option \<Rightarrow> fields" where
  "prompt_variables (Some (JObj kvs)) = fold (\<lambda>(k, v) m. if \<not> equal_fold ''Variables'' k then m
     else (case v of JNull \<Rightarrow> [] | JObj es \<Rightarrow> AList.clearjunk (rev es @ m) | _ \<Rightarrow> m)) kvs []"
| "prompt_variables _ = []"

definition tool_files :: "string list \<Rightarrow> fields \<Rightarrow> string list result" where
  "tool_files ids tool =
     (let kind = credential_string tool ''type'';
          files = (if kind = ''code_interpreter'' \<or> kind = ''shell''
            then (case decode [(''file_ids'', dec_list None dec_raw)] (assoc tool (if kind = ''shell'' then ''environment'' else ''container'')) [] of
                None \<Rightarrow> [] | Some fs \<Rightarrow> map (\<lambda>f. given f JNull) fs) else []);
          masked = (case as_fields (assoc tool ''input_image_mask'') of Some (Some m) \<Rightarrow> m | _ \<Rightarrow> []) in
      and_then (each_with add_file ids files) (\<lambda>ids. if kind = ''image_generation'' then file_part ids masked else Inr ids))"

definition request_file_ids :: "fields \<Rightarrow> fields list \<Rightarrow> string \<Rightarrow> string list result" where
  "request_file_ids body tools protocol =
     (let chat = (protocol = ''chat_completions''); input = assoc body (if chat then ''messages'' else ''input'') in
      if as_objects input = None \<and> (chat \<or> input \<noteq> None \<and> as_string input = None) then Inl (bad ''invalid file input items'')
      else and_then (each_with (item_files chat) [] (objects_found input)) (\<lambda>ids.
        and_then (each_with (\<lambda>ids (_, raw). case as_fields (Some raw) of Some (Some v) \<Rightarrow> file_part ids v | _ \<Rightarrow> Inr ids) ids
          (prompt_variables (assoc body ''prompt''))) (\<lambda>ids.
        and_then (each_with tool_files ids tools) (\<lambda>ids. Inr (sort ids)))))"

end
