(* ===== verification/Grok_Search.thy ===== *)
theory Grok_Search
  imports Hosted_Tools
begin

text \<open>
  The search of its own that \<open>internal/app/grok_search.go\<close> makes out of a Responses request: the request, the body that is sent,
  and the results of the answer. \<open>parse_url\<close> is \<open>url.Parse\<close>, \<open>url_text\<close> writes a URL, \<open>authority\<close> is its host with the port.
\<close>

section \<open>The request\<close>

record grok_search =
  gs_query :: string
  gs_input :: string
  gs_most :: int
  gs_allowed :: "string list"
  gs_excluded :: "string list"
  gs_from :: string
  gs_to :: string
  gs_images :: "bool option"
  gs_videos :: "bool option"

definition grok_search_fields :: "(string \<times> grok_search decoder) list" where
  "grok_search_fields =
     [(''query'', field gs_query (\<lambda>v r. r\<lparr>gs_query := v\<rparr>) dec_string), (''input'', field gs_input (\<lambda>v r. r\<lparr>gs_input := v\<rparr>) dec_string),
      (''max_results'', field gs_most (\<lambda>v r. r\<lparr>gs_most := v\<rparr>) dec_int),
      (''allowed_x_handles'', field gs_allowed (\<lambda>v r. r\<lparr>gs_allowed := v\<rparr>) (dec_list [] dec_string)),
      (''excluded_x_handles'', field gs_excluded (\<lambda>v r. r\<lparr>gs_excluded := v\<rparr>) (dec_list [] dec_string)),
      (''from_date'', field gs_from (\<lambda>v r. r\<lparr>gs_from := v\<rparr>) dec_string), (''to_date'', field gs_to (\<lambda>v r. r\<lparr>gs_to := v\<rparr>) dec_string),
      (''enable_image_understanding'', field gs_images (\<lambda>v r. r\<lparr>gs_images := v\<rparr>) (dec_pointer False dec_bool)),
      (''enable_video_understanding'', field gs_videos (\<lambda>v r. r\<lparr>gs_videos := v\<rparr>) (dec_pointer False dec_bool))]"

definition parse_grok_search :: "fields \<Rightarrow> grok_search result" where
  "parse_grok_search body =
     (case decode grok_search_fields (Some (object_of body)) \<lparr>gs_query = [], gs_input = [], gs_most = 0, gs_allowed = [],
         gs_excluded = [], gs_from = [], gs_to = [], gs_images = None, gs_videos = None\<rparr> of
        None \<Rightarrow> Inl (bad ''invalid search request'')
      | Some q \<Rightarrow>
          (let query = (if trim_space (gs_query q) = [] then trim_space (gs_input q) else trim_space (gs_query q)) in
           if query = [] then Inl (bad ''query is required'')
           else if (case assoc body ''stream'' of None \<Rightarrow> False | Some v \<Rightarrow> v \<noteq> JBool False)
             then Inl (bad ''standalone search does not stream'')
           else Inr (q\<lparr>gs_query := query, gs_most := min 20 (if gs_most q \<le> 0 then 5 else gs_most q)\<rparr>)))"

definition string_array :: "string list \<Rightarrow> json" where
  "string_array ss = JArr (map JStr ss)"

definition x_options :: "grok_search \<Rightarrow> fields" where
  "x_options q =
     (if gs_allowed q = [] then [] else [(''allowed_x_handles'', string_array (gs_allowed q))]) @
     (if gs_excluded q = [] then [] else [(''excluded_x_handles'', string_array (gs_excluded q))]) @
     (if trim_space (gs_from q) = [] then [] else [(''from_date'', JStr (trim_space (gs_from q)))]) @
     (if trim_space (gs_to q) = [] then [] else [(''to_date'', JStr (trim_space (gs_to q)))]) @
     (case gs_images q of None \<Rightarrow> [] | Some b \<Rightarrow> [(''enable_image_understanding'', JBool b)]) @
     (case gs_videos q of None \<Rightarrow> [] | Some b \<Rightarrow> [(''enable_video_understanding'', JBool b)])"

definition search_prompt :: "grok_search \<Rightarrow> string \<Rightarrow> string" where
  "search_prompt q protocol =
     ''Search '' @ (if protocol = ''x_search'' then ''X'' else ''the web'') @ '' for the query below. Return only JSON shaped as '' @
     ''{\"results\":[{\"url\":\"https://...\",\"title\":\"title\",\"snippet\":\"summary\"}]}, with at most '' @ int_text (gs_most q) @
     '' unique results. Every URL must be an actual '' @ protocol @
     '' source. Include a nonempty title and factual snippet. Do not use markdown.'' @ [CHR 0x0A, CHR 0x0A] @ ''User query:'' @
     CHR 0x0A # gs_query q"

definition search_upstream_body :: "grok_search \<Rightarrow> string \<Rightarrow> string \<Rightarrow> json" where
  "search_upstream_body q protocol m =
     (let x = (protocol = ''x_search'') in
      object_of ((if x then [(''tool_choice'', JStr ''required'')] else []) @
       [(''model'', JStr m), (''tools'', JArr [object_of ((''type'', JStr protocol) # (if x then x_options q else []))]),
        (''include'', string_array [protocol @ ''_call.action.sources'']), (''store'', JBool False), (''stream'', JBool False),
        (''input'', JStr (search_prompt q protocol))]))"


section \<open>The results\<close>

record search_result =
  sr_url :: string
  sr_title :: string
  sr_snippet :: string

definition search_result_fields :: "(string \<times> search_result decoder) list" where
  "search_result_fields =
     [(''url'', field sr_url (\<lambda>v r. r\<lparr>sr_url := v\<rparr>) dec_string), (''title'', field sr_title (\<lambda>v r. r\<lparr>sr_title := v\<rparr>) dec_string),
      (''snippet'', field sr_snippet (\<lambda>v r. r\<lparr>sr_snippet := v\<rparr>) dec_string)]"

definition no_search_result :: search_result where
  "no_search_result = \<lparr>sr_url = [], sr_title = [], sr_snippet = []\<rparr>"

definition dec_results :: "search_result list decoder" where
  "dec_results = dec_list no_search_result (dec_struct search_result_fields)"

record search_annotation =
  sa_type :: string
  sa_result :: search_result

record search_part =
  sp_type :: string
  sp_text :: string
  sp_annotations :: "search_annotation list"

record search_output =
  so_type :: string
  so_sources :: "search_result list"
  so_content :: "search_part list"

record search_answer =
  sw_model :: string
  sw_status :: string
  sw_error :: "json option"
  sw_output :: "search_output list option"

definition annotation_decoder :: "search_annotation decoder" where
  "annotation_decoder = dec_struct ((''Type'', field sa_type (\<lambda>v r. r\<lparr>sa_type := v\<rparr>) dec_string) #
     map (\<lambda>(k, d). (k, field sa_result (\<lambda>v r. r\<lparr>sa_result := v\<rparr>) d)) search_result_fields)"

definition part_decoder :: "search_part decoder" where
  "part_decoder = dec_struct
     [(''Type'', field sp_type (\<lambda>v r. r\<lparr>sp_type := v\<rparr>) dec_string), (''Text'', field sp_text (\<lambda>v r. r\<lparr>sp_text := v\<rparr>) dec_string),
      (''Annotations'', field sp_annotations (\<lambda>v r. r\<lparr>sp_annotations := v\<rparr>)
         (dec_list \<lparr>sa_type = [], sa_result = no_search_result\<rparr> annotation_decoder))]"

definition output_decoder :: "search_output decoder" where
  "output_decoder = dec_struct
     [(''Type'', field so_type (\<lambda>v r. r\<lparr>so_type := v\<rparr>) dec_string),
      (''Action'', dec_struct [(''Sources'', field so_sources (\<lambda>v r. r\<lparr>so_sources := v\<rparr>) dec_results)]),
      (''Content'', field so_content (\<lambda>v r. r\<lparr>so_content := v\<rparr>) (dec_list \<lparr>sp_type = [], sp_text = [], sp_annotations = []\<rparr> part_decoder))]"

definition read_search_answer :: "json option \<Rightarrow> search_answer option" where
  "read_search_answer raw = decode
     [(''Model'', field sw_model (\<lambda>v r. r\<lparr>sw_model := v\<rparr>) dec_string), (''Status'', field sw_status (\<lambda>v r. r\<lparr>sw_status := v\<rparr>) dec_string),
      (''Error'', field sw_error (\<lambda>v r. r\<lparr>sw_error := v\<rparr>) dec_raw),
      (''Output'', field sw_output (\<lambda>v r. r\<lparr>sw_output := v\<rparr>)
         (dec_pointer [] (dec_list \<lparr>so_type = [], so_sources = [], so_content = []\<rparr> output_decoder)))] raw
     \<lparr>sw_model = [], sw_status = [], sw_error = None, sw_output = None\<rparr>"

text \<open>The key of a source: the normal form of its address, empty for one that is not an address of the web.\<close>

definition search_url :: "(string \<Rightarrow> url option) \<Rightarrow> (url \<Rightarrow> string) \<Rightarrow> string \<Rightarrow> string" where
  "search_url parse_url url_text raw = (case parse_url (trim_space raw) of
     None \<Rightarrow> []
   | Some u \<Rightarrow>
       (if url_host u = [] \<or> url_user u \<or> url_scheme u \<noteq> ''http'' \<and> url_scheme u \<noteq> ''https'' then []
        else url_text (u\<lparr>url_scheme := to_lower (url_scheme u), url_host := to_lower (url_host u), url_fragment := [],
          url_path := (if url_path u = [] then ''/'' else url_path u)\<rparr>)))"

definition search_title :: "string \<Rightarrow> string \<Rightarrow> string" where
  "search_title title link = (let title = trim_space title in if title = link \<or> atoi title \<noteq> None then [] else title)"

type_synonym sources = "(string \<times> search_result) list"

text \<open>What is missing of a source that is named again is taken from there. New sources come last.\<close>

definition add_source :: "(string \<Rightarrow> string) \<Rightarrow> search_result \<Rightarrow> sources \<Rightarrow> sources" where
  "add_source key_of r sources =
     (let key = key_of (sr_url r) in
      if key = [] then sources
      else (let old = (case assoc sources key of Some old \<Rightarrow> old | None \<Rightarrow> no_search_result\<lparr>sr_url := trim_space (sr_url r)\<rparr>);
                old = (if sr_title old = [] then old\<lparr>sr_title := search_title (sr_title r) (sr_url old)\<rparr> else old);
                old = (if sr_snippet old = [] then old\<lparr>sr_snippet := trim_space (sr_snippet r)\<rparr> else old) in
        put key old sources))"

text \<open>The results in the text of a part: the JSON between its outer braces.\<close>

definition between_braces :: "string \<Rightarrow> string" where
  "between_braces s = rev (dropWhile (\<lambda>c. c \<noteq> CHR ''}'') (rev (dropWhile (\<lambda>c. c \<noteq> CHR ''{'') s)))"

definition structured_results :: "string \<Rightarrow> search_result list" where
  "structured_results s = (case decode [(''Results'', dec_results)] (parse_json (between_braces s)) [] of None \<Rightarrow> [] | Some rs \<Rightarrow> rs)"

definition output_sources :: "search_output \<Rightarrow> search_result list" where
  "output_sources item =
     (if so_type item = ''web_search_call'' \<or> so_type item = ''x_search_call'' then so_sources item else []) @
     (if so_type item \<noteq> ''message'' then []
      else concat (map (\<lambda>p. if sp_type p \<noteq> ''output_text'' then []
          else map sa_result (filter (\<lambda>a. sa_type a = ''url_citation'' \<or> sa_type a = ''web'') (sp_annotations p))) (so_content item)))"

definition output_structured :: "search_output \<Rightarrow> search_result list" where
  "output_structured item =
     (if so_type item \<noteq> ''message'' then []
      else concat (map (\<lambda>p. if sp_type p \<noteq> ''output_text'' then [] else structured_results (sp_text p)) (so_content item)))"

text \<open>The results, with the keys of those that are there already.\<close>

definition cited_result :: "(string \<Rightarrow> string) \<Rightarrow> int \<Rightarrow> sources \<Rightarrow> search_result \<Rightarrow> search_result list \<times> string list \<Rightarrow> search_result list \<times> string list" where
  "cited_result key_of most sources r st = (case st of (results, seen) \<Rightarrow>
     let key = key_of (sr_url r) in
     case assoc sources key of
       None \<Rightarrow> st
     | Some s \<Rightarrow>
         (if List.member seen key \<or> most \<le> int (length results) then st
          else (let title = search_title (sr_title r) (sr_url r); snippet = trim_space (sr_snippet r);
                    s = (if title \<noteq> [] then s\<lparr>sr_title := title\<rparr> else s); s = (if snippet \<noteq> [] then s\<lparr>sr_snippet := snippet\<rparr> else s) in
            (results @ [s], key # seen))))"

definition other_source :: "int \<Rightarrow> string list \<Rightarrow> string \<times> search_result \<Rightarrow> search_result list \<Rightarrow> search_result list" where
  "other_source most seen entry results =
     (if \<not> List.member seen (fst entry) \<and> int (length results) < most then results @ [snd entry] else results)"

definition titled :: "(string \<Rightarrow> url option) \<Rightarrow> (url \<Rightarrow> string) \<Rightarrow> search_result \<Rightarrow> search_result" where
  "titled parse_url authority r =
     (if sr_title r \<noteq> [] then r
      else (case parse_url (sr_url r) of
          None \<Rightarrow> r | Some u \<Rightarrow> r\<lparr>sr_title := trim_prefix (to_lower (authority u)) ''www.''\<rparr>))"

definition search_results ::
  "(string \<Rightarrow> url option) \<Rightarrow> (url \<Rightarrow> string) \<Rightarrow> (url \<Rightarrow> string) \<Rightarrow> int \<Rightarrow> search_output list \<Rightarrow> search_result list" where
  "search_results parse_url url_text authority most output =
     (let key_of = search_url parse_url url_text;
          sources = fold (add_source key_of) (concat (map output_sources output)) [];
          (results, seen) = fold (cited_result key_of most sources) (concat (map output_structured output)) ([], []) in
      map (titled parse_url authority) (fold (other_source most seen) sources results))"

definition result_json :: "search_result \<Rightarrow> json" where
  "result_json r = JObj [(''url'', JStr (sr_url r)), (''title'', JStr (sr_title r)), (''snippet'', JStr (sr_snippet r))]"

text \<open>The body for the client and the model of the answer.\<close>

definition search_response ::
  "(string \<Rightarrow> url option) \<Rightarrow> (url \<Rightarrow> string) \<Rightarrow> (url \<Rightarrow> string) \<Rightarrow> grok_search \<Rightarrow> json option \<Rightarrow> (json \<times> string) result" where
  "search_response parse_url url_text authority q raw =
     (let invalid = ApiError 502 ''upstream search response is invalid or incomplete'' in
      case read_search_answer raw of
        None \<Rightarrow> Inl invalid
      | Some a \<Rightarrow> (case sw_output a of
          None \<Rightarrow> Inl invalid
        | Some output \<Rightarrow>
            (if present (sw_error a) \<or> sw_status a \<noteq> [] \<and> sw_status a \<noteq> ''completed'' then Inl invalid
             else Inr (object_of
               [(''query'', JStr (gs_query q)),
                (''results'', JArr (map result_json (search_results parse_url url_text authority (gs_most q) output))),
                (''provider'', JStr ''grok-native''), (''max_results'', JNum (int_text (gs_most q)))], sw_model a))))"

end
