(* ===== verification/Text_Request.thy ===== *)
theory Text_Request
  imports Grok_Search Selection Account_Balance
begin

text \<open>
  What a text request asks for: \<open>parseTextRequest\<close> of \<open>internal/app/text_protocol.go\<close> with its images, its embeddings and its
  errors, \<open>parseResponsesRequest\<close> of \<open>responses.go\<close>, and the registered paths of \<open>responses_extensions.go\<close>.

  The parser returns what it read together with the body, which it normalises. \<open>parse_url\<close>, \<open>digest\<close>, \<open>hash8\<close>: as in
  \<open>Response_Tools\<close> and \<open>Hosted_Tools\<close>.
\<close>

section \<open>Data\<close>

record parsed_request = text_request +
  pr_scope :: string
  pr_effort :: string
  pr_tier :: string
  pr_previous :: string
  pr_resources :: "string list"
  pr_extension :: bool
  pr_store :: bool
  pr_stream :: bool
  pr_image_generation :: bool
  pr_image_size :: string
  pr_image_size_source :: string
  pr_image_input_size :: string
  pr_headers :: "(string \<times> string) list"
  pr_search :: "grok_search option"
  pr_containers :: "string list"
  pr_image :: "image_config option"

text \<open>What is read of the HTTP request: the path, the rest of the path after the route, the query and the headers.\<close>

record http_view =
  hv_path :: string
  hv_action :: string
  hv_alt :: string
  hv_headers :: "(string \<times> string list) list"
  hv_socket :: bool
  hv_extensions :: "string list"

definition new_request :: "string \<Rightarrow> parsed_request" where
  "new_request protocol = \<lparr>tq_protocol = protocol, tq_model = [], tq_action = [], tq_background = False, tq_native_compaction = False,
     tq_item_references = [], tq_count_only = False, tq_hosted_search = False, tq_hosted_tool_search = False,
     tq_native_client_tools = False, tq_native_programmatic = False, tq_native_mcp = False, tq_native_code = False,
     tq_native_file_search = False, tq_vector_stores = [], tq_file_ids = [], tq_skill_ids = [], tq_response_image = False,
     pr_scope = [], pr_effort = [], pr_tier = [], pr_previous = [], pr_resources = [], pr_extension = False, pr_store = False,
     pr_stream = False, pr_image_generation = False, pr_image_size = [], pr_image_size_source = [], pr_image_input_size = [],
     pr_headers = [], pr_search = None, pr_containers = [], pr_image = None\<rparr>"

type_synonym parsed = "parsed_request \<times> fields"


section \<open>Registered paths\<close>

definition response_id_mark :: string where
  "response_id_mark = ''{response_id}''"

definition safe_responses_action :: "string \<Rightarrow> bool" where
  "safe_responses_action action \<longleftrightarrow> action \<noteq> [] \<and> 29 + length action \<le> 128 \<and>
     (let parts = split_at (CHR ''/'') action in length parts \<le> 8 \<and> list_all (\<lambda>p. length p \<le> 128 \<and> \<not> list_all (\<lambda>c. c = CHR ''.'') p \<and>
       list_all (\<lambda>c. is_lower c \<or> is_upper c \<or> is_digit c \<or> List.member ''-_.'' c) p) parts)"

definition paths_overlap :: "string list \<Rightarrow> string list \<Rightarrow> bool" where
  "paths_overlap ps qs \<longleftrightarrow> length ps = length qs \<and>
     list_all2 (\<lambda>p q. p = q \<or> p = response_id_mark \<or> q = response_id_mark) ps qs"

definition extension_part_ok :: "string \<Rightarrow> unit result" where
  "extension_part_ok p =
     (if List.member [''compact'', ''input_tokens'', ''input_items'', ''cancel''] p
        then Inl (bad ''built-in Responses operations cannot be registered as extensions'')
      else check (\<not> contains_any p ''{}'' \<or> p = response_id_mark) (bad ''invalid Responses resource placeholder''))"

text \<open>The parts in which an identifier stands for the placeholder; the text may hold it within a part.\<close>

definition with_identifiers :: "string \<Rightarrow> string" where
  "with_identifiers path = replace_pairs [(response_id_mark, ''r'')] path"

definition validate_response_extensions :: "string list \<Rightarrow> unit result" where
  "validate_response_extensions paths =
     (if 64 < length paths then Inl (bad ''too many Responses extension paths'')
      else and_then (each_with (\<lambda>previous path.
        let parts = split_at (CHR ''/'') path in
        and_then (check (safe_responses_action (with_identifiers path)) (bad ''invalid Responses extension path'')) (\<lambda>_.
        and_then (each extension_part_ok parts) (\<lambda>_.
        and_then (check (\<not> list_ex (paths_overlap parts) previous) (bad ''overlapping Responses extension paths'')) (\<lambda>_.
          Inr (previous @ [parts]))))) [] paths) (\<lambda>_. Inr ()))"

fun match_parts :: "string list \<Rightarrow> string list \<Rightarrow> string list option" where
  "match_parts [] [] = Some []"
| "match_parts (p # ps) (q # qs) =
     (if p = response_id_mark \<and> valid_response_id q then map_option ((#) q) (match_parts ps qs)
      else if p = q then match_parts ps qs else None)"
| "match_parts _ _ = None"

definition match_response_extension :: "string list \<Rightarrow> string \<Rightarrow> string list option" where
  "match_response_extension paths action = find_map (\<lambda>path. match_parts (split_at (CHR ''/'') path) (split_at (CHR ''/'') action)) paths"


section \<open>Edits of images\<close>

text \<open>\<open>imageEditURL\<close>: the source is a text, an object, or an object in an object.\<close>

definition image_source_text :: "json option \<Rightarrow> string result" where
  "image_source_text raw = (case as_string raw of
     Some uri \<Rightarrow> Inr uri
   | None \<Rightarrow> (case as_fields raw of
       Some (Some image') \<Rightarrow>
         and_then (only_fields [''url'', ''image_url'', ''type''] (bad ''image edits require image URLs or data URLs'') image') (\<lambda>_.
         and_then (check (assoc image' ''type'' = None \<or> credential_string image' ''type'' = ''image_url'')
           (bad ''invalid image edit source type'')) (\<lambda>_.
         let inner = (\<lambda>v. case as_string v of None \<Rightarrow> Inl (bad ''invalid image edit source'') | Some uri \<Rightarrow> Inr uri) in
         case assoc image' ''image_url'' of
           None \<Rightarrow> inner (assoc image' ''url'')
         | Some v \<Rightarrow>
             (if assoc image' ''url'' \<noteq> None then Inl (bad ''use one image source'')
              else (case as_string (Some v) of
                  Some uri \<Rightarrow> Inr uri
                | None \<Rightarrow> (case as_fields (Some v) of
                    Some (Some nested) \<Rightarrow> if length nested \<noteq> 1 then Inl (bad ''invalid image edit source'') else inner (assoc nested ''url'')
                  | _ \<Rightarrow> Inl (bad ''invalid image edit source''))))))
     | _ \<Rightarrow> Inl (bad ''invalid image edit source'')))"

definition image_edit_url :: "(string \<Rightarrow> url option) \<Rightarrow> json option \<Rightarrow> string result" where
  "image_edit_url parse_url raw = and_then (image_source_text raw) (\<lambda>uri.
     if valid_image_source parse_url uri then Inr uri else Inl (bad ''invalid image edit source''))"

text \<open>The sources of the one field that names images.\<close>

definition source_fields :: "fields \<Rightarrow> (string \<times> json) list" where
  "source_fields body = filter (\<lambda>(_, v). v \<noteq> JNull) (concat (map (\<lambda>k. case assoc body k of None \<Rightarrow> [] | Some v \<Rightarrow> [(k, v)])
     [''images'', ''image'', ''image_url'', ''reference_images'']))"

definition field_sources :: "string \<times> json \<Rightarrow> json list result" where
  "field_sources entry = (case entry of (k, v) \<Rightarrow>
     if k = ''images'' \<or> k = ''reference_images''
       then (case v of JArr js \<Rightarrow> Inr js | _ \<Rightarrow> Inl (bad ''invalid image edit sources'')) else Inr [v])"

fun image_sources :: "(string \<times> json) list \<Rightarrow> json list result" where
  "image_sources [] = Inr []"
| "image_sources (e # es) = and_then (field_sources e) (\<lambda>js. if es = [] then Inr js else Inl (bad ''use one image input field''))"

definition image_reference :: "string \<Rightarrow> json" where
  "image_reference uri = JObj [(''image_url'', JStr uri)]"

definition normalize_image_edit :: "(string \<Rightarrow> url option) \<Rightarrow> fields \<Rightarrow> fields result" where
  "normalize_image_edit parse_url body =
     and_then (image_sources (source_fields body)) (\<lambda>sources.
       if sources = [] \<or> 16 < length sources then Inl (bad ''image edits require between 1 and 16 images'')
       else and_then (each_with (\<lambda>done j. and_then (image_edit_url parse_url (Some j)) (\<lambda>uri. Inr (done @ [image_reference uri]))) [] sources) (\<lambda>images.
         and_then (case assoc body ''mask'' of
             None \<Rightarrow> Inr body
           | Some v \<Rightarrow> if v = JNull then Inr body
               else and_then (image_edit_url parse_url (Some v)) (\<lambda>uri. Inr (put ''mask'' (image_reference uri) body))) (\<lambda>body.
         Inr (put ''images'' (JArr images) (remove ''reference_images'' (remove ''image_url'' (remove ''image'' body)))))))"


section \<open>Responses\<close>

definition response_action :: "(string \<Rightarrow> string) \<Rightarrow> http_view \<Rightarrow> fields \<Rightarrow> parsed_request \<Rightarrow> parsed_request result" where
  "response_action digest hv body inp =
     (let action = trim_right_slashes (hv_action hv); (owner, compaction) = response_compaction_path (CHR ''/'' # action);
          resources = match_response_extension (hv_extensions hv) action; extension = (resources \<noteq> None);
          inp = inp\<lparr>pr_scope := ''responses'', pr_store := True\<rparr> in
      if \<not> hv_socket hv \<and> assoc body ''stream_id'' \<noteq> None then Inl (bad ''stream_id requires a WebSocket connection'')
      else if \<not> hv_socket hv \<and> assoc body ''generate'' \<noteq> None then Inl (bad ''generate requires a WebSocket connection'')
      else if action = [] then Inr inp
      else if \<not> compaction \<and> action \<noteq> ''input_tokens'' \<and> \<not> extension then Inl missing
      else if 128 < length (hv_path hv) \<or> \<not> safe_responses_action action then Inl missing
      else if pr_stream inp \<and> \<not> extension then Inl (bad ''this Responses operation does not stream'')
      else Inr (inp\<lparr>
        pr_scope := (if extension then ''responses.extension.'' @ digest action
          else if List.member action (CHR ''/'') then ''responses.compact.'' @ digest action else ''responses.'' @ action),
        tq_count_only := (action = ''input_tokens''), tq_action := CHR ''/'' # action, pr_extension := extension,
        pr_resources := (if owner \<noteq> [] then [owner] else given resources [])\<rparr>))"

definition response_flag :: "fields \<Rightarrow> string \<Rightarrow> bool \<Rightarrow> bool result" where
  "response_flag body k dflt =
     (if \<not> present (assoc body k) then Inr dflt
      else (case as_bool (assoc body k) of None \<Rightarrow> Inl (bad (''invalid '' @ k)) | Some b \<Rightarrow> Inr b))"

definition response_retention :: "http_view \<Rightarrow> fields \<Rightarrow> parsed_request \<Rightarrow> parsed_request result" where
  "response_retention hv body inp =
     and_then (response_flag body ''background'' False) (\<lambda>background.
     and_then (response_flag body ''store'' (pr_store inp)) (\<lambda>store.
       if background \<and> (tq_action inp \<noteq> [] \<and> \<not> pr_extension inp \<or> hv_socket hv)
         then Inl (bad ''background Responses require the HTTP create endpoint'')
       else Inr (inp\<lparr>tq_background := background, pr_store := (if background then assoc body ''store'' = Some (JBool True) else store)\<rparr>)))"

definition response_context :: "fields \<Rightarrow> parsed_request \<Rightarrow> parsed_request result" where
  "response_context body inp =
     (if present (assoc body ''conversation'') then Inl (bad ''use previous_response_id for scoped conversations'')
      else and_then (if \<not> present (assoc body ''previous_response_id'') then Inr inp
        else (case as_string (assoc body ''previous_response_id'') of
            None \<Rightarrow> Inl (bad ''invalid previous_response_id'')
          | Some i \<Rightarrow> if valid_response_id i then Inr (inp\<lparr>pr_previous := i\<rparr>) else Inl (bad ''invalid previous_response_id''))) (\<lambda>inp.
        if \<not> present (assoc body ''reasoning'') then Inr inp
        else (case decode [(''Effort'', dec_string)] (assoc body ''reasoning'') [] of
            None \<Rightarrow> Inl (bad ''invalid reasoning configuration'')
          | Some e \<Rightarrow> if 20 < length e then Inl (bad ''invalid reasoning configuration'') else Inr (inp\<lparr>pr_effort := e\<rparr>))))"

text \<open>References are added while there are at most 1024 of them.\<close>

definition refer :: "string \<Rightarrow> string list \<Rightarrow> parsed_request \<Rightarrow> parsed_request result" where
  "refer message refs inp = (if 1024 < length (tq_item_references inp) + length refs then Inl (bad message)
     else Inr (inp\<lparr>tq_item_references := tq_item_references inp @ refs\<rparr>))"

definition program_refs :: "(string \<Rightarrow> string) \<Rightarrow> fields \<Rightarrow> string list" where
  "program_refs digest item =
     (let kind = credential_string item ''type'' in
      (if kind = ''program'' \<or> kind = ''program_output'' then [credential_string item ''id'', program_item_reference digest item] else []) @
      (case as_fields (assoc item ''caller'') of
         Some (Some c) \<Rightarrow> if credential_string c ''type'' = ''program'' then [program_call_reference (credential_string c ''caller_id'')] else []
       | _ \<Rightarrow> []))"

definition program_item :: "(string \<Rightarrow> string) \<Rightarrow> fields \<Rightarrow> parsed_request \<Rightarrow> parsed_request result" where
  "program_item digest item inp =
     and_then (validate_response_program_item item) (\<lambda>program.
       if \<not> program then Inr inp else refer ''too many program references'' (program_refs digest item) (inp\<lparr>tq_native_programmatic := True\<rparr>))"

definition file_search_item :: "fields \<Rightarrow> parsed_request \<Rightarrow> parsed_request result" where
  "file_search_item item inp =
     (if credential_string item ''type'' \<noteq> ''file_search_call'' then Inr inp
      else and_then (response_file_search_item item) (\<lambda>_.
        if \<not> valid_response_id (credential_string item ''id'') then Inl (bad ''file search history requires an owned item ID'')
        else and_then (refer ''file search history requires an owned item ID'' [credential_string item ''id''] inp) (\<lambda>inp.
          Inr (inp\<lparr>tq_native_file_search := True\<rparr>))))"

definition code_item :: "(string \<Rightarrow> url option) \<Rightarrow> fields \<Rightarrow> parsed_request \<Rightarrow> parsed_request result" where
  "code_item parse_url item inp =
     (if credential_string item ''type'' \<noteq> ''code_interpreter_call'' \<and> \<not> hosted_shell_item item then Inr inp
      else and_then (if hosted_shell_item item then response_shell_item parse_url item else response_code_item item) (\<lambda>(i, container).
        if 1024 \<le> length (pr_containers inp) then Inl (bad ''too many code interpreter references'')
        else and_then (refer ''too many code interpreter references'' [i] inp) (\<lambda>inp.
          Inr (inp\<lparr>pr_containers := pr_containers inp @ [container], tq_native_code := True\<rparr>))))"

definition response_mcp_item :: "string \<Rightarrow> bool" where
  "response_mcp_item kind \<longleftrightarrow> List.member [''mcp_call'', ''mcp_list_tools'', ''mcp_approval_request'', ''mcp_approval_response''] kind"

definition mcp_item :: "fields \<Rightarrow> parsed_request \<Rightarrow> parsed_request result" where
  "mcp_item item inp =
     (if \<not> response_mcp_item (credential_string item ''type'') then Inr inp
      else and_then (validate_response_mcp_item item) (\<lambda>r.
        and_then (refer ''too many MCP item references'' [r] inp) (\<lambda>inp.
        and_then (if credential_string item ''type'' = ''mcp_call'' \<and> present (assoc item ''approval_request_id'')
          then refer ''too many MCP item references'' [credential_string item ''approval_request_id''] inp else Inr inp) (\<lambda>inp.
        Inr (inp\<lparr>tq_native_mcp := True\<rparr>)))))"

definition response_local_item :: "string \<Rightarrow> bool" where
  "response_local_item kind \<longleftrightarrow> List.member [''apply_patch_call'', ''apply_patch_call_output'', ''local_shell_call'', ''local_shell_call_output'',
     ''shell_call'', ''shell_call_output'', ''computer_call'', ''computer_call_output''] kind"

definition local_item :: "(string \<Rightarrow> url option) \<Rightarrow> fields \<Rightarrow> parsed_request \<Rightarrow> parsed_request result" where
  "local_item parse_url item inp =
     (let kind = credential_string item ''type'' in
      and_then (if \<not> response_local_item kind then Inr inp
        else and_then (validate_response_local_item parse_url item) (\<lambda>_. Inr (inp\<lparr>tq_native_client_tools := True\<rparr>))) (\<lambda>inp.
      Inr (if (kind = ''tool_search_call'' \<or> kind = ''tool_search_output'') \<and> credential_string item ''execution'' = ''server''
        then inp\<lparr>tq_hosted_tool_search := True\<rparr> else inp)))"

definition image_call_item :: "fields \<Rightarrow> parsed_request \<Rightarrow> parsed_request result" where
  "image_call_item item inp =
     (if credential_string item ''type'' \<noteq> ''image_generation_call'' \<or> assoc item ''id'' = None then Inr inp
      else if \<not> valid_response_id (credential_string item ''id'') then Inl (bad ''invalid image generation item reference'')
      else refer ''invalid image generation item reference'' [credential_string item ''id''] inp)"

definition referenced_item :: "fields \<Rightarrow> parsed_request \<Rightarrow> (parsed_request \<times> fields) result" where
  "referenced_item item inp =
     (let kind = credential_string item ''type''; i = credential_string item ''id'' in
      if \<not> (kind = ''item_reference'' \<or> kind = [] \<and> assoc item ''id'' \<noteq> None) then Inr (inp, item)
      else if \<not> valid_response_id i then Inl (bad ''item_reference requires a valid item ID'')
      else and_then (only_fields [''id'', ''type''] (bad ''item_reference accepts only id and type'') item) (\<lambda>_.
        if present (assoc item ''type'') \<and> kind \<noteq> ''item_reference'' then Inl (bad ''invalid item_reference type'')
        else and_then (refer ''too many item references'' [i] inp) (\<lambda>inp. Inr (inp, put ''type'' (JStr ''item_reference'') item))))"

text \<open>One item of the input; the items come out as they are sent.\<close>

definition input_item ::
  "(string \<Rightarrow> string) \<Rightarrow> (string \<Rightarrow> url option) \<Rightarrow> parsed_request \<times> fields list \<Rightarrow> fields option \<Rightarrow> (parsed_request \<times> fields list) result" where
  "input_item digest parse_url st element = (case st of (inp, sent) \<Rightarrow> (case element of
     None \<Rightarrow> Inl (bad ''supply full input items or a scoped previous_response_id'')
   | Some item \<Rightarrow>
       and_then (program_item digest item inp) (\<lambda>inp. and_then (file_search_item item inp) (\<lambda>inp.
       and_then (code_item parse_url item inp) (\<lambda>inp. and_then (mcp_item item inp) (\<lambda>inp.
       and_then (local_item parse_url item inp) (\<lambda>inp. and_then (image_call_item item inp) (\<lambda>inp.
       and_then (referenced_item item inp) (\<lambda>(inp, item).
         Inr (inp\<lparr>tq_native_compaction := tq_native_compaction inp \<or> credential_string item ''type'' = ''compaction_trigger''\<rparr>,
              sent @ [item]))))))))))"

definition compaction_trigger :: fields where
  "compaction_trigger = [(''type'', JStr ''compaction_trigger'')]"

text \<open>The trigger of a compaction is the last item and there is one of them.\<close>

definition response_items ::
  "(string \<Rightarrow> string) \<Rightarrow> (string \<Rightarrow> url option) \<Rightarrow> fields option list \<Rightarrow> fields \<Rightarrow> parsed_request \<Rightarrow> parsed result" where
  "response_items digest parse_url items body inp =
     and_then (each_with (input_item digest parse_url) (inp, []) items) (\<lambda>(inp, sent).
       if tq_native_compaction inp then
         (if \<not> pr_stream inp \<or> tq_action inp \<noteq> [] then Inl (bad ''native compaction requires streaming Responses'')
          else Inr (inp\<lparr>pr_headers := put ''X-Codex-Beta-Features'' ''remote_compaction_v2'' (pr_headers inp)\<rparr>,
            put ''input'' (JArr (map object_of (filter (\<lambda>i. credential_string i ''type'' \<noteq> ''compaction_trigger'') sent @ [compaction_trigger]))) body))
       else if tq_item_references inp \<noteq> [] then Inr (inp, put ''input'' (JArr (map object_of sent)) body)
       else Inr (inp, body))"

definition response_input ::
  "(string \<Rightarrow> string) \<Rightarrow> (string \<Rightarrow> url option) \<Rightarrow> fields \<Rightarrow> parsed_request \<Rightarrow> parsed result" where
  "response_input digest parse_url body inp =
     (if present (assoc body ''input'') then
        (if as_string (assoc body ''input'') \<noteq> None then Inr (inp, body)
         else (case dec_list None dec_object (the (assoc body ''input'')) [] of
             None \<Rightarrow> Inl (bad ''Responses input must be text or an array of objects'')
           | Some items \<Rightarrow> response_items digest parse_url items body inp))
      else if pr_previous inp = [] \<and> pr_resources inp = [] \<and> assoc body ''prompt'' = None \<and> \<not> tq_count_only inp
        then Inl (bad ''input or previous_response_id is required'')
      else Inr (inp, body))"

definition add_container :: "string \<Rightarrow> string \<Rightarrow> parsed_request \<Rightarrow> parsed_request result" where
  "add_container message container inp =
     (if container = [] then Inr inp
      else if 1024 \<le> length (pr_containers inp) then Inl (bad message)
      else Inr (inp\<lparr>pr_containers := pr_containers inp @ [container]\<rparr>))"

definition declared_tool :: "(string \<Rightarrow> url option) \<Rightarrow> parsed_request \<Rightarrow> fields \<Rightarrow> parsed_request result" where
  "declared_tool parse_url inp tool =
     (let kind = credential_string tool ''type'' in
      if programmatic_tool kind then Inr inp
      else if kind = ''shell'' then and_then (response_shell_tool tool) (\<lambda>(container, hosted).
        and_then (add_container ''too many container references'' container inp) (\<lambda>inp.
        Inr (inp\<lparr>tq_native_code := tq_native_code inp \<or> hosted, tq_native_client_tools := tq_native_client_tools inp \<or> \<not> hosted\<rparr>)))
      else if kind = ''file_search'' then and_then (response_file_search tool) (\<lambda>ids.
        and_then (merge_response_resources (tq_vector_stores inp) ids) (\<lambda>ids.
        Inr (inp\<lparr>tq_vector_stores := ids, tq_native_file_search := True\<rparr>)))
      else if kind = ''code_interpreter'' then and_then (response_code_tool tool) (\<lambda>container.
        and_then (add_container ''too many code interpreter references'' container inp) (\<lambda>inp. Inr (inp\<lparr>tq_native_code := True\<rparr>)))
      else if kind = ''mcp'' then and_then (validate_response_mcp_tool parse_url tool) (\<lambda>_. Inr (inp\<lparr>tq_native_mcp := True\<rparr>))
      else if response_local_tool kind then and_then (validate_response_local_tool tool) (\<lambda>_. Inr (inp\<lparr>tq_native_client_tools := True\<rparr>))
      else if hosted_tool_search tool then and_then (validate_hosted_tool_search tool) (\<lambda>_. Inr (inp\<lparr>tq_hosted_tool_search := True\<rparr>))
      else if kind = ''image_generation'' then
        (if tq_response_image inp then Inl (bad ''only one image_generation tool is supported'')
         else and_then (parse_response_image_tool parse_url tool) (\<lambda>c. Inr (inp\<lparr>tq_response_image := True, pr_image := Some c\<rparr>)))
      else if hosted_search_tool kind then Inr (inp\<lparr>tq_hosted_search := True\<rparr>)
      else and_then (validate_response_client_tool tool) (\<lambda>_. Inr inp))"

definition hosted :: "parsed_request \<Rightarrow> bool" where
  "hosted inp \<longleftrightarrow> tq_hosted_search inp \<or> tq_hosted_tool_search inp \<or> tq_response_image inp \<or> tq_native_programmatic inp \<or>
     tq_native_mcp inp \<or> tq_native_code inp \<or> tq_native_file_search inp"

definition special_request :: "parsed_request \<Rightarrow> bool" where
  "special_request inp \<longleftrightarrow> tq_action inp \<noteq> [] \<and> \<not> tq_count_only inp \<and> \<not> pr_extension inp \<or> tq_native_compaction inp"

text \<open>\<open>containers\<close> is what the response or the items the request continues own.\<close>

definition validate_response_containers :: "bool \<Rightarrow> bool \<Rightarrow> string list \<Rightarrow> string list \<Rightarrow> unit result" where
  "validate_response_containers hosted_code special references containers =
     (if hosted_code \<and> special then Inl (bad ''hosted tools require a normal Responses request'')
      else each (\<lambda>i. check (List.member containers i) missing) references)"

definition response_tools ::
  "(string \<Rightarrow> string) \<Rightarrow> (string \<Rightarrow> url option) \<Rightarrow> fields \<Rightarrow> parsed_request \<Rightarrow> parsed_request result" where
  "response_tools hash8 parse_url body inp =
     and_then (response_client_tools hash8 body) (\<lambda>tools.
     and_then (validate_programmatic_declarations tools) (\<lambda>programmatic.
     and_then (each_with (declared_tool parse_url)
       (inp\<lparr>tq_native_programmatic := tq_native_programmatic inp \<or> programmatic\<rparr>) tools) (\<lambda>inp.
     if hosted inp \<and> special_request inp then Inl (bad ''hosted tools require a normal Responses request'')
     else and_then (request_file_ids body tools ''responses'') (\<lambda>files. and_then (request_skill_ids tools) (\<lambda>skills.
       if tq_background inp \<and> tq_native_compaction inp then Inl (bad ''native compaction cannot run in the background'')
       else and_then (validate_response_containers (tq_native_code inp \<or> tq_native_file_search inp) False [] []) (\<lambda>_.
         Inr (inp\<lparr>tq_file_ids := files, tq_skill_ids := skills\<rparr>)))))))"

definition parse_responses_request ::
  "(string \<Rightarrow> string) \<Rightarrow> (string \<Rightarrow> string) \<Rightarrow> (string \<Rightarrow> url option) \<Rightarrow> http_view \<Rightarrow> fields \<Rightarrow> parsed_request \<Rightarrow> parsed result" where
  "parse_responses_request digest hash8 parse_url hv body inp =
     and_then (response_action digest hv body inp) (\<lambda>inp.
     and_then (response_retention hv body inp) (\<lambda>inp.
     and_then (response_context body inp) (\<lambda>inp.
     and_then (response_input digest parse_url body inp) (\<lambda>(inp, body).
     and_then (response_tools hash8 parse_url body inp) (\<lambda>inp. Inr (inp, body))))))"


section \<open>Images, Gemini and embeddings\<close>

definition int_between :: "int \<Rightarrow> int \<Rightarrow> json option \<Rightarrow> bool" where
  "int_between least most raw \<longleftrightarrow> (case Option.bind raw as_int of None \<Rightarrow> False | Some n \<Rightarrow> least \<le> n \<and> n \<le> most)"

definition plain_model :: "string \<Rightarrow> bool" where
  "plain_model m \<longleftrightarrow> valid_model_pattern m \<and> \<not> contains m ''*''"

text \<open>A member that may be absent.\<close>

definition optional :: "(json \<Rightarrow> bool) \<Rightarrow> json option \<Rightarrow> bool" where
  "optional p raw \<longleftrightarrow> (case raw of None \<Rightarrow> True | Some v \<Rightarrow> p v)"

definition text_among :: "string list \<Rightarrow> json \<Rightarrow> bool" where
  "text_among names v \<longleftrightarrow> (case as_string (Some v) of None \<Rightarrow> False | Some s \<Rightarrow> List.member names s)"

definition image_prompt :: "json option \<Rightarrow> bool" where
  "image_prompt raw \<longleftrightarrow> (case as_string raw of None \<Rightarrow> False | Some p \<Rightarrow> trim_space p \<noteq> [] \<and> rune_count p \<le> 10000)"

definition image_dims :: "json \<Rightarrow> bool" where
  "image_dims v \<longleftrightarrow> (case as_string (Some v) of
     None \<Rightarrow> False | Some d \<Rightarrow> length d \<le> 32 \<and> (d = ''auto'' \<or> image_size_tier d \<noteq> []))"

definition parse_image_request :: "(string \<Rightarrow> url option) \<Rightarrow> http_view \<Rightarrow> fields \<Rightarrow> parsed_request \<Rightarrow> parsed result" where
  "parse_image_request parse_url hv body inp =
     (let edits = has_suffix (hv_path hv) ''/edits''; m = credential_string body ''model''; dims = credential_string body ''size'';
          tier = image_size_tier dims in
      if \<not> has_suffix (hv_path hv) ''/generations'' \<and> \<not> edits then Inl missing
      else if \<not> plain_model m then Inl (bad ''invalid model'')
      else if \<not> image_prompt (assoc body ''prompt'') then Inl (bad ''prompt is required and must be at most 10000 characters'')
      else if \<not> optional (\<lambda>v. int_between 1 10 (Some v)) (assoc body ''n'') then Inl (bad ''n must be between 1 and 10'')
      else if \<not> optional (text_among [''b64_json'', ''url'']) (assoc body ''response_format'') then Inl (bad ''invalid image response_format'')
      else if \<not> optional (\<lambda>v. as_bool (Some v) \<noteq> None) (assoc body ''stream'') then Inl (bad ''invalid image stream flag'')
      else if present (assoc body ''partial_images'') \<and> \<not> int_between 0 3 (assoc body ''partial_images'')
        then Inl (bad ''partial_images must be between 0 and 3'')
      else if \<not> optional image_dims (assoc body ''size'') then Inl (bad ''invalid image size'')
      else (let inp = inp\<lparr>tq_action := (if has_suffix (hv_path hv) ''/generations'' then ''generations'' else ''edits''),
              pr_scope := (if has_suffix (hv_path hv) ''/generations'' then ''images.generations'' else ''images.edits''), tq_model := m,
              pr_stream := credential_bool body ''stream'', pr_image_input_size := dims, pr_image_generation := True,
              pr_image_size := (if tier = [] then ''2K'' else tier), pr_image_size_source := (if tier = [] then ''default'' else ''input'')\<rparr> in
        if has_suffix (hv_path hv) ''/generations'' then Inr (inp, body)
        else and_then (normalize_image_edit parse_url body) (\<lambda>body. Inr (inp, body))))"

definition gemini_image_model :: "string \<Rightarrow> bool" where
  "gemini_image_model m \<longleftrightarrow> (let m = trim_prefix (to_lower m) ''models/'' in
     list_ex (\<lambda>f. m = f \<or> has_prefix m (f @ ''-'')) [''gemini-3.1-flash-image'', ''gemini-3-pro-image'', ''gemini-2.5-flash-image''])"

record gemini_config =
  gc_level :: string
  gc_modalities :: "string list"
  gc_size :: string

definition read_gemini_config :: "json option \<Rightarrow> gemini_config option" where
  "read_gemini_config raw = (if raw = None then Some \<lparr>gc_level = [], gc_modalities = [], gc_size = []\<rparr>
     else decode
       [(''thinkingConfig'', dec_struct [(''thinkingLevel'', field gc_level (\<lambda>v r. r\<lparr>gc_level := v\<rparr>) dec_string)]),
        (''responseModalities'', field gc_modalities (\<lambda>v r. r\<lparr>gc_modalities := v\<rparr>) (dec_list [] dec_string))] raw
       \<lparr>gc_level = [], gc_modalities = [], gc_size = []\<rparr>)"

definition gemini_config_size :: "json option \<Rightarrow> string option" where
  "gemini_config_size raw = (if raw = None then Some []
     else decode [(''imageConfig'', dec_struct [(''imageSize'', dec_string)])] raw [])"

text \<open>512 is a size of the provider without a tier.\<close>

definition gemini_image_size :: "fields \<Rightarrow> (string \<times> string) result" where
  "gemini_image_size body = (case gemini_config_size (assoc body ''generationConfig'') of
     None \<Rightarrow> Inl (bad ''invalid generationConfig'')
   | Some s \<Rightarrow>
       (let s = map upper_char (trim_space s) in
        if List.member [[], ''AUTO'', ''512''] s then Inr (''2K'', ''default'')
        else if List.member [''1K'', ''2K'', ''4K''] s then Inr (s, ''input'') else Inl (bad ''imageSize must be 512, 1K, 2K or 4K'')))"

definition gemini_contents :: "parsed_request \<Rightarrow> fields \<Rightarrow> (json option \<times> fields) result" where
  "gemini_contents inp body = (case assoc body ''generateContentRequest'' of
     None \<Rightarrow> Inr (assoc body ''contents'', body)
   | Some raw \<Rightarrow> (case as_fields (Some raw) of
       Some (Some nested) \<Rightarrow>
         (if \<not> tq_count_only inp \<or> assoc body ''contents'' \<noteq> None
            then Inl (bad ''countTokens requires either contents or generateContentRequest'')
          else if \<not> optional (\<lambda>v. case as_string (Some v) of None \<Rightarrow> False | Some m \<Rightarrow> trim_prefix m ''models/'' = tq_model inp) (assoc nested ''model'')
            then Inl (bad ''token count model must match the URL model'')
          else Inr (assoc nested ''contents'', nested))
     | _ \<Rightarrow> Inl (bad ''countTokens requires either contents or generateContentRequest'')))"

definition gemini_modality :: "bool \<Rightarrow> string \<Rightarrow> bool result" where
  "gemini_modality images modality =
     (let m = map upper_char (trim_space modality) in
      if m = ''TEXT'' then Inr images else if m = ''IMAGE'' then Inr True
      else Inl (bad ''media generation is not yet available on this endpoint''))"

definition parse_gemini_request :: "http_view \<Rightarrow> fields \<Rightarrow> parsed_request \<Rightarrow> parsed result" where
  "parse_gemini_request hv body inp =
     (case (case cut_at '':'' (hv_action hv) of None \<Rightarrow> cut_at ''/'' (hv_action hv) | c \<Rightarrow> c) of
        None \<Rightarrow> Inl (bad ''invalid Gemini model action'')
      | Some (m, action) \<Rightarrow>
          (if \<not> valid_native_model m then Inl (bad ''invalid Gemini model action'')
           else if \<not> List.member [''generateContent'', ''streamGenerateContent'', ''countTokens''] action then Inl missing
           else if hv_alt hv \<noteq> [] \<and> hv_alt hv \<noteq> ''sse'' then Inl (bad ''only SSE streaming is supported'')
           else (let inp = inp\<lparr>tq_model := m, tq_action := action, pr_scope := ''gemini.'' @ action,
                   pr_stream := (action = ''streamGenerateContent''), tq_count_only := (action = ''countTokens'')\<rparr> in
             and_then (gemini_contents inp body) (\<lambda>(contents, config_body).
             if (case contents of Some (JArr (_ # _)) \<Rightarrow> False | _ \<Rightarrow> True) then Inl (bad ''contents are required'')
             else (case read_gemini_config (assoc config_body ''generationConfig'') of
                 None \<Rightarrow> Inl (bad ''invalid generationConfig'')
               | Some c \<Rightarrow>
                   and_then (each_with gemini_modality False (gc_modalities c)) (\<lambda>images.
                   and_then (gemini_image_size config_body) (\<lambda>(dims, source).
                   let effort = to_lower (gc_level c) in
                   if 20 < length effort then Inl (bad ''invalid thinkingLevel'')
                   else Inr (inp\<lparr>pr_image_size := dims, pr_image_size_source := source,
                     pr_image_input_size := trim_space (given (gemini_config_size (assoc config_body ''generationConfig'')) []),
                     pr_image_generation := images \<or> gemini_image_model m, pr_effort := effort\<rparr>, body))))))))"

definition valid_token_sequence :: "json \<Rightarrow> bool" where
  "valid_token_sequence raw \<longleftrightarrow> (case raw of
     JArr ts \<Rightarrow> ts \<noteq> [] \<and> list_all (\<lambda>t. t \<noteq> JNull \<and> (case as_int t of None \<Rightarrow> False | Some n \<Rightarrow> token_counts_valid [n])) ts
   | _ \<Rightarrow> False)"

text \<open>One text, one sequence of tokens, a batch of sequences, or a batch of texts.\<close>

definition valid_embedding_input :: "json option \<Rightarrow> bool" where
  "valid_embedding_input raw \<longleftrightarrow> (case raw of
     Some (JStr s) \<Rightarrow> s \<noteq> []
   | Some (JArr js) \<Rightarrow> js \<noteq> [] \<and>
       (valid_token_sequence (JArr js) \<or>
        length js \<le> 2048 \<and>
        (case strings_of js of Some texts \<Rightarrow> \<not> List.member texts [] | None \<Rightarrow> list_all valid_token_sequence js))
   | _ \<Rightarrow> False)"

definition parse_embedding_request :: "fields \<Rightarrow> parsed_request \<Rightarrow> parsed result" where
  "parse_embedding_request body inp =
     (if pr_stream inp \<or> \<not> valid_embedding_input (assoc body ''input'')
        then Inl (bad ''embeddings require nonempty input and do not stream'')
      else if \<not> optional (text_among [''float'', ''base64'']) (assoc body ''encoding_format'') then Inl (bad ''invalid embedding encoding_format'')
      else if \<not> optional (\<lambda>v. int_between 1 2147483647 (Some v)) (assoc body ''dimensions'') then Inl (bad ''invalid embedding dimensions'')
      else Inr (inp\<lparr>pr_scope := ''embeddings''\<rparr>, body))"


section \<open>The request\<close>

definition header_values :: "(string \<times> string list) list \<Rightarrow> string \<Rightarrow> string list" where
  "header_values headers k = given (assoc headers k) []"

fun joined_values :: "string \<Rightarrow> string list \<Rightarrow> string" where
  "joined_values sep [] = []"
| "joined_values sep [s] = s"
| "joined_values sep (s # t # ss) = s @ sep @ joined_values sep (t # ss)"

definition anthropic_headers :: "http_view \<Rightarrow> parsed_request \<Rightarrow> parsed_request result" where
  "anthropic_headers hv inp =
     (let version = (case header_values (hv_headers hv) ''Anthropic-Version'' of [] \<Rightarrow> [] | v # _ \<Rightarrow> v);
          beta = joined_values '','' (header_values (hv_headers hv) ''Anthropic-Beta'');
          ok = (\<lambda>v. length v \<le> 1024 \<and> \<not> contains_any v [CHR 0x0D, CHR 0x0A, CHR 0x00]) in
      if ok version \<and> ok beta then Inr (inp\<lparr>pr_headers := [(''Anthropic-Version'', version), (''Anthropic-Beta'', beta)]\<rparr>)
      else Inl (bad ''invalid protocol header''))"

definition anthropic_request :: "http_view \<Rightarrow> fields \<Rightarrow> parsed_request \<Rightarrow> parsed_request result" where
  "anthropic_request hv body inp =
     (let counts = has_suffix (hv_path hv) ''/count_tokens'' in
      and_then (anthropic_headers hv (inp\<lparr>pr_scope := (if counts then ''messages.count_tokens'' else ''messages''), tq_count_only := counts\<rparr>)) (\<lambda>inp.
        if counts \<or> int_between 1 2147483647 (assoc body ''max_tokens'') then Inr inp else Inl (bad ''max_tokens must be a positive integer'')))"

definition short_text :: "nat \<Rightarrow> string \<Rightarrow> fields \<Rightarrow> string \<Rightarrow> string result" where
  "short_text most message body k = (case assoc body k of
     None \<Rightarrow> Inr []
   | Some v \<Rightarrow> (case as_string (Some v) of
       None \<Rightarrow> Inl (bad message) | Some s \<Rightarrow> if most < length s then Inl (bad message) else Inr s))"

definition alpha_search_request :: "fields \<Rightarrow> parsed_request \<Rightarrow> parsed result" where
  "alpha_search_request body inp =
     (if optional (\<lambda>v. v = JBool False) (assoc body ''stream'')
      then Inr (inp\<lparr>pr_scope := ''alpha_search''\<rparr>, remove ''store'' (remove ''prompt_cache_retention'' (remove ''prompt_cache_key'' body)))
      else Inl (bad ''alpha search does not stream''))"

definition parse_messages_request :: "string \<Rightarrow> fields \<Rightarrow> parsed_request \<Rightarrow> parsed result" where
  "parse_messages_request protocol body inp =
     (case assoc body ''messages'' of
        Some (JArr (_ # _)) \<Rightarrow>
          (if protocol = ''chat_completions''
           then and_then (request_file_ids body [] protocol) (\<lambda>files. Inr (inp\<lparr>tq_file_ids := files\<rparr>, body)) else Inr (inp, body))
      | _ \<Rightarrow> Inl (bad ''messages are required''))"

definition parse_by_protocol ::
  "(string \<Rightarrow> string) \<Rightarrow> (string \<Rightarrow> string) \<Rightarrow> (string \<Rightarrow> url option) \<Rightarrow> http_view \<Rightarrow> string \<Rightarrow> fields \<Rightarrow> parsed_request \<Rightarrow> parsed result" where
  "parse_by_protocol digest hash8 parse_url hv protocol body inp =
     (if protocol = ''responses'' then parse_responses_request digest hash8 parse_url hv body inp
      else if protocol = ''embeddings'' then parse_embedding_request body inp
      else parse_messages_request protocol body inp)"

text \<open>What requests with a model in the body have in common, and then their own parts.\<close>

definition parse_model_request ::
  "(string \<Rightarrow> string) \<Rightarrow> (string \<Rightarrow> string) \<Rightarrow> (string \<Rightarrow> url option) \<Rightarrow> http_view \<Rightarrow> string \<Rightarrow> fields \<Rightarrow> parsed_request \<Rightarrow> parsed result" where
  "parse_model_request digest hash8 parse_url hv protocol body inp =
     (let m = credential_string body ''model'' in
      if \<not> plain_model m \<or> 100 < length m then Inl (bad ''invalid model'')
      else if protocol = ''alpha_search'' then alpha_search_request body (inp\<lparr>tq_model := m\<rparr>)
      else if \<not> optional (\<lambda>v. as_bool (Some v) \<noteq> None) (assoc body ''stream'') then Inl (bad ''invalid stream flag'')
      else (let inp = inp\<lparr>tq_model := m, pr_stream := credential_bool body ''stream''\<rparr> in
        if pr_stream inp \<and> tq_count_only inp then Inl (bad ''token counting does not stream'')
        else and_then (short_text 20 ''invalid reasoning_effort'' body ''reasoning_effort'') (\<lambda>effort.
          and_then (if protocol = ''anthropic'' then request_effort body protocol else Inr effort) (\<lambda>effort.
          and_then (short_text 16 ''invalid service_tier'' body ''service_tier'') (\<lambda>tier.
          parse_by_protocol digest hash8 parse_url hv protocol body (inp\<lparr>pr_effort := effort, pr_tier := tier\<rparr>))))))"

definition parse_text_request ::
  "(string \<Rightarrow> string) \<Rightarrow> (string \<Rightarrow> string) \<Rightarrow> (string \<Rightarrow> url option) \<Rightarrow> http_view \<Rightarrow> string \<Rightarrow> fields \<Rightarrow> parsed result" where
  "parse_text_request digest hash8 parse_url hv protocol body =
     (let inp = new_request protocol in
      if audio_protocol protocol then Inr (inp\<lparr>tq_model := protocol, pr_scope := protocol\<rparr>, body)
      else if protocol = ''images'' then parse_image_request parse_url hv body inp
      else if grok_search_protocol protocol then
        and_then (parse_grok_search body) (\<lambda>q. Inr (inp\<lparr>pr_search := Some q, tq_model := ''grok-4.6'', pr_scope := protocol\<rparr>, body))
      else if protocol = ''gemini'' then parse_gemini_request hv body inp
      else and_then (if protocol = ''anthropic'' then anthropic_request hv body inp else Inr (inp\<lparr>pr_scope := ''chat''\<rparr>)) (\<lambda>inp.
        parse_model_request digest hash8 parse_url hv protocol body inp))"

text \<open>The endpoint of composite routes, the path of the provider, and the usage that is priced before anything is sent.\<close>

definition request_endpoint :: "parsed_request \<Rightarrow> string" where
  "request_endpoint inp =
     (let p = tq_protocol inp in
      if p = ''seedance'' \<or> p = ''videos'' then ''any''
      else if p = ''alpha_search'' then ''responses''
      else if p = ''anthropic'' then (if tq_count_only inp then ''count_tokens'' else ''messages'')
      else p)"

definition upstream_path :: "parsed_request \<Rightarrow> string \<Rightarrow> string result" where
  "upstream_path inp m =
     (let p = tq_protocol inp in
      if grok_search_protocol p then Inr ''/v1/responses''
      else if p = ''alpha_search'' then Inr ''/v1/alpha/search''
      else if p = ''responses'' then Inr (''/v1/responses'' @ tq_action inp)
      else if p = ''embeddings'' then Inr ''/v1/embeddings''
      else if audio_protocol p then Inr (''/v1/'' @ p)
      else if p = ''images'' then Inr (''/v1/images/'' @ tq_action inp)
      else if p = ''anthropic'' then Inr (if tq_count_only inp then ''/v1/messages/count_tokens'' else ''/v1/messages'')
      else if p = ''gemini'' then
        (let m = trim_prefix m ''models/'' in
         if \<not> valid_native_model m then Inl (bad ''invalid mapped Gemini model'')
         else Inr (''/v1beta/models/'' @ m @ '':'' @ tq_action inp @ (if pr_stream inp then ''?alt=sse'' else [])))
      else Inr ''/v1/chat/completions'')"

definition preflight_usage :: "parsed_request \<Rightarrow> price_usage" where
  "preflight_usage inp =
     (if tq_protocol inp = ''images'' then no_usage\<lparr>u_requests := 1, u_input := 2, u_image_input := 1, u_output := 1, u_image_output := 1\<rparr>
      else if tq_protocol inp = ''embeddings'' then no_usage\<lparr>u_input := 1\<rparr>
      else (let u = no_usage\<lparr>u_input := 1, u_output := 1, u_cache_read := 1, u_cache_write := (if tq_protocol inp = ''anthropic'' then 1 else 0)\<rparr> in
        if pr_image_generation inp then u\<lparr>u_output := 2, u_image_output := 1\<rparr> else u))"

text \<open>The body of an error; \<open>passed\<close> is that of an upstream that is passed through.\<close>

definition error_kind :: "(int \<times> string) list \<Rightarrow> string \<Rightarrow> int \<Rightarrow> string" where
  "error_kind kinds dflt status = (case assoc kinds status of None \<Rightarrow> dflt | Some k \<Rightarrow> k)"

definition text_error_body :: "string \<Rightarrow> int \<Rightarrow> string \<Rightarrow> bool \<Rightarrow> json" where
  "text_error_body protocol status message passed =
     (if protocol = ''anthropic'' then
        JObj [(''error'', JObj [(''message'', JStr message), (''type'', JStr (if passed then ''upstream_error'' else
            error_kind [(400, ''invalid_request_error''), (401, ''authentication_error''), (402, ''permission_error''), (403, ''permission_error''),
              (404, ''not_found_error''), (429, ''rate_limit_error''), (503, ''overloaded_error'')] ''api_error'' status))]),
          (''type'', JStr ''error'')]
      else if protocol = ''gemini'' then
        JObj [(''error'', JObj [(''code'', JNum (int_text status)), (''message'', JStr message), (''status'', JStr (
            error_kind [(400, ''INVALID_ARGUMENT''), (401, ''UNAUTHENTICATED''), (402, ''RESOURCE_EXHAUSTED''), (403, ''PERMISSION_DENIED''),
              (404, ''NOT_FOUND''), (409, ''ABORTED''), (429, ''RESOURCE_EXHAUSTED''), (503, ''UNAVAILABLE'')] ''INTERNAL'' status))])]
      else JObj [(''error'', JObj [(''code'', JNum (int_text status)), (''message'', JStr message),
          (''type'', JStr (if passed then ''upstream_error'' else ''gateway_error''))])])"

end
