(* ===== verification/Request_Facts.thy ===== *)
theory Request_Facts
  imports Text_Request
begin

text \<open>
  Properties of requests: no search result is invented, an edit of images is normalised once and for all, and what a
  Responses request refers to is bounded and valid.
\<close>

section \<open>Search results\<close>

text \<open>What every source satisfies that is kept under its key.\<close>

definition sourced :: "(string \<Rightarrow> string) \<Rightarrow> search_result list \<Rightarrow> sources \<Rightarrow> bool" where
  "sourced key_of rs ss \<longleftrightarrow> distinct (map fst ss) \<and>
     (\<forall>(k, s) \<in> set ss. k \<noteq> [] \<and> (\<exists>r \<in> set rs. sr_url s = trim_space (sr_url r) \<and> key_of (sr_url r) = k))"

lemma keys_put: "map fst (put k v m) = (if k \<in> set (map fst m) then map fst m else map fst m @ [k])"
  by (induction m) (auto simp: put_def)

lemma set_put: "set (put k v m) \<subseteq> insert (k, v) (set m)"
  by (induction m) (auto simp: put_def)

lemma assoc_in_set: "assoc m k = Some v \<Longrightarrow> (k, v) \<in> set m"
  by (induction m) (auto split: if_splits)

lemma add_source_sourced:
  assumes "sourced key_of rs ss" "r \<in> set rs"
  shows "sourced key_of rs (add_source key_of r ss)"
proof (cases "key_of (sr_url r) = []")
  case True
  then show ?thesis using assms by (simp add: add_source_def)
next
  case False
  let ?k = "key_of (sr_url r)"
  obtain s where s: "add_source key_of r ss = put ?k s ss"
    and url: "sr_url s = (case assoc ss ?k of Some old \<Rightarrow> sr_url old | None \<Rightarrow> trim_space (sr_url r))"
    using False by (auto simp: add_source_def Let_def no_search_result_def split: option.splits)
  have "\<exists>r \<in> set rs. sr_url s = trim_space (sr_url r) \<and> key_of (sr_url r) = ?k"
    using assms url by (auto simp: sourced_def dest!: assoc_in_set split: option.splits)
  then show ?thesis
    using assms(1) False set_put [of ?k s ss] unfolding sourced_def s keys_put by fastforce
qed

lemma sources_sourced:
  assumes "sourced key_of all_rs ss" "set rs \<subseteq> set all_rs"
  shows "sourced key_of all_rs (fold (add_source key_of) rs ss)"
  using assms by (induction rs arbitrary: ss) (simp_all add: add_source_sourced)

definition keyed :: "(string \<Rightarrow> string) \<Rightarrow> sources \<Rightarrow> bool" where
  "keyed key_of ss \<longleftrightarrow> distinct (map fst ss) \<and> (\<forall>(k, s) \<in> set ss. key_of (sr_url s) = k)"

text \<open>The results so far are sources, one for each key that was seen.\<close>

definition drawn :: "(string \<Rightarrow> string) \<Rightarrow> int \<Rightarrow> sources \<Rightarrow> search_result list \<Rightarrow> bool" where
  "drawn key_of most ss rs \<longleftrightarrow> int (length rs) \<le> max 0 most \<and> distinct (map (key_of \<circ> sr_url) rs) \<and>
     sr_url ` set rs \<subseteq> (sr_url \<circ> snd) ` set ss"

lemma cited_drawn:
  assumes "keyed key_of ss" "drawn key_of most ss (fst st)" "set (snd st) = (key_of \<circ> sr_url) ` set (fst st)"
    and "st' = cited_result key_of most ss r st"
  shows "drawn key_of most ss (fst st') \<and> set (snd st') = (key_of \<circ> sr_url) ` set (fst st')"
proof -
  obtain rs seen where st: "st = (rs, seen)" by (cases st)
  let ?k = "key_of (sr_url r)"
  show ?thesis
  proof (cases "\<exists>s. assoc ss ?k = Some s \<and> \<not> List.member seen ?k \<and> int (length rs) < most")
    case False
    then have "st' = st" using assms(4) by (auto simp: st cited_result_def Let_def split: option.splits)
    then show ?thesis using assms by simp
  next
    case True
    then obtain s where s: "assoc ss ?k = Some s" and fresh: "?k \<notin> set seen" and room: "int (length rs) < most"
      by auto
    obtain s' where st': "st' = (rs @ [s'], ?k # seen)" and url: "sr_url s' = sr_url s"
      using assms(4) True s by (auto simp: st cited_result_def Let_def)
    have k: "(?k, s) \<in> set ss" by (rule assoc_in_set [OF s])
    then have "key_of (sr_url s) = ?k" using assms(1) by (auto simp: keyed_def)
    moreover have "?k \<notin> (key_of \<circ> sr_url) ` set rs" using fresh assms(3) by (simp add: st)
    moreover have "sr_url s \<in> (sr_url \<circ> snd) ` set ss" using k by force
    ultimately show ?thesis using assms(2,3) room url by (auto simp: st st' drawn_def)
  qed
qed

lemma all_cited_drawn:
  assumes "keyed key_of ss" "drawn key_of most ss (fst st)" "set (snd st) = (key_of \<circ> sr_url) ` set (fst st)"
  shows "drawn key_of most ss (fst (fold (cited_result key_of most ss) rs st)) \<and>
     set (snd (fold (cited_result key_of most ss) rs st)) = (key_of \<circ> sr_url) ` set (fst (fold (cited_result key_of most ss) rs st))"
  using assms(2,3)
proof (induction rs arbitrary: st)
  case (Cons r rs)
  show ?case using cited_drawn [OF assms(1) Cons.prems refl, of r] Cons.IH by simp
qed simp

lemma other_drawn:
  assumes "drawn key_of most ss rs" "set ts \<subseteq> set ss" "distinct (map fst ts)" "\<forall>(k, s) \<in> set ts. key_of (sr_url s) = k"
    and "\<And>k. k \<in> (key_of \<circ> sr_url) ` set rs \<Longrightarrow> k \<in> set seen \<or> k \<notin> set (map fst ts)"
  shows "drawn key_of most ss (fold (other_source most seen) ts rs)"
  using assms
proof (induction ts arbitrary: rs)
  case (Cons t ts)
  obtain k s where t: "t = (k, s)" by (cases t)
  define rs' where "rs' = other_source most seen t rs"
  have k: "key_of (sr_url s) = k" "k \<notin> set (map fst ts)" "(k, s) \<in> set ss" using Cons.prems(2,3,4) t by auto
  have "drawn key_of most ss rs' \<and> (\<forall>k' \<in> (key_of \<circ> sr_url) ` set rs'. k' \<in> set seen \<or> k' \<notin> set (map fst ts))"
  proof (cases "k \<notin> set seen \<and> int (length rs) < most")
    case True
    then have rs': "rs' = rs @ [s]" by (simp add: rs'_def other_source_def t)
    have "k \<notin> (key_of \<circ> sr_url) ` set rs" using Cons.prems(5) [of k] True t by auto
    moreover have "sr_url s \<in> (sr_url \<circ> snd) ` set ss" using k(3) by force
    ultimately show ?thesis using Cons.prems(1,5) True k by (auto simp: drawn_def rs' t)
  next
    case False
    then have "rs' = rs" by (auto simp: rs'_def other_source_def t)
    then show ?thesis using Cons.prems(1,5) by auto
  qed
  then have "drawn key_of most ss (fold (other_source most seen) ts rs')"
    using Cons.prems(2-4) by (intro Cons.IH) auto
  then show ?case by (simp add: rs'_def)
qed simp

lemma search_url_trim: "search_url parse_url url_text (trim_space s) = search_url parse_url url_text s"
  by (simp add: search_url_def)

lemma sourced_keyed: "sourced (search_url p u) rs ss \<Longrightarrow> keyed (search_url p u) ss"
  by (fastforce simp: sourced_def keyed_def search_url_trim)

lemma titled_url [simp]: "sr_url (titled parse_url authority r) = sr_url r"
  by (simp add: titled_def split: option.split)

text \<open>Property C12: the results of a search are cited sources: each has the address of a source that the provider named and
  that is an address of the web, no two of them are the same address in its normal form, and there are no more than
  were asked for. Text of the model can add a title or a summary, but no result.\<close>
theorem results_are_cited:
  fixes parse_url url_text authority most
  defines "key_of \<equiv> search_url parse_url url_text" and "found \<equiv> search_results parse_url url_text authority most"
  shows "sr_url ` set (found outputs) \<subseteq>
      (\<lambda>s. trim_space (sr_url s)) ` {s. s \<in> set (concat (map output_sources outputs)) \<and> key_of (sr_url s) \<noteq> []} \<and>
    distinct (map (key_of \<circ> sr_url) (found outputs)) \<and> int (length (found outputs)) \<le> max 0 most"
proof -
  define named where "named = concat (map output_sources outputs)"
  define ss where "ss = fold (add_source key_of) named []"
  define st where "st = fold (cited_result key_of most ss) (concat (map output_structured outputs)) ([], [])"
  define all where "all = fold (other_source most (snd st)) ss (fst st)"
  have rs: "found outputs = map (titled parse_url authority) all"
    by (simp add: found_def search_results_def Let_def key_of_def [symmetric] ss_def st_def all_def named_def split: prod.split)
  have sourced: "sourced key_of named ss"
    unfolding ss_def by (rule sources_sourced) (simp_all add: sourced_def)
  then have keyed: "keyed key_of ss" unfolding key_of_def by (rule sourced_keyed)
  have st: "drawn key_of most ss (fst st)" "set (snd st) = (key_of \<circ> sr_url) ` set (fst st)"
    unfolding st_def using all_cited_drawn [OF keyed] by (simp_all add: drawn_def)
  have drawn: "drawn key_of most ss all"
    unfolding all_def by (rule other_drawn [OF st(1)]) (use keyed st(2) in \<open>auto simp: keyed_def\<close>)
  have "sr_url s \<in> (\<lambda>s. trim_space (sr_url s)) ` {s. s \<in> set named \<and> key_of (sr_url s) \<noteq> []}" if "(k, s) \<in> set ss" for k s
  proof -
    have "k \<noteq> [] \<and> (\<exists>r \<in> set named. sr_url s = trim_space (sr_url r) \<and> key_of (sr_url r) = k)"
      using sourced that by (auto simp: sourced_def)
    then show ?thesis by blast
  qed
  then have named: "(sr_url \<circ> snd) ` set ss \<subseteq> (\<lambda>s. trim_space (sr_url s)) ` {s. s \<in> set named \<and> key_of (sr_url s) \<noteq> []}" by auto
  have "sr_url ` set (found outputs) = sr_url ` set all" by (simp add: rs image_image)
  also have "\<dots> \<subseteq> (sr_url \<circ> snd) ` set ss" using drawn by (simp add: drawn_def)
  also note named
  finally have urls: "sr_url ` set (found outputs) \<subseteq> (\<lambda>s. trim_space (sr_url s)) ` {s. s \<in> set named \<and> key_of (sr_url s) \<noteq> []}" .
  have "map (key_of \<circ> sr_url) (found outputs) = map (key_of \<circ> sr_url) all" "length (found outputs) = length all" by (simp_all add: rs)
  then have "distinct (map (key_of \<circ> sr_url) (found outputs)) \<and> int (length (found outputs)) \<le> max 0 most"
    using drawn by (simp add: drawn_def)
  then show ?thesis using urls by (simp add: named_def)
qed

section \<open>Edits of images\<close>

lemma reference_text [simp]: "image_source_text (Some (image_reference uri)) = Inr uri"
  by (simp add: image_source_text_def image_reference_def as_fields_def only_fields_def)

lemma reference_url: "image_edit_url parse_url j = Inr uri \<Longrightarrow> image_edit_url parse_url (Some (image_reference uri)) = Inr uri"
  by (auto simp: image_edit_url_def result_iff split: if_splits)

lemma references_again:
  assumes "each_with (\<lambda>done j. and_then (image_edit_url parse_url (Some j)) (\<lambda>uri. Inr (done @ [image_reference uri]))) acc sources = Inr images"
  shows "\<exists>rest. images = acc @ rest \<and> length rest = length sources \<and>
    (\<forall>acc'. each_with (\<lambda>done j. and_then (image_edit_url parse_url (Some j)) (\<lambda>uri. Inr (done @ [image_reference uri]))) acc' rest = Inr (acc' @ rest))"
  using assms
proof (induction sources arbitrary: acc)
  case (Cons j sources)
  obtain uri where uri: "image_edit_url parse_url (Some j) = Inr uri"
    using Cons.prems by (auto simp: result_iff)
  obtain rest where "images = (acc @ [image_reference uri]) @ rest" "length rest = length sources"
    "\<forall>acc'. each_with (\<lambda>done j. and_then (image_edit_url parse_url (Some j)) (\<lambda>uri. Inr (done @ [image_reference uri]))) acc' rest = Inr (acc' @ rest)"
    using Cons.IH [of "acc @ [image_reference uri]"] Cons.prems uri by auto
  then show ?case using reference_url [OF uri] by (intro exI [of _ "image_reference uri # rest"]) simp
qed simp

text \<open>Property C37: an edit of images is normalised once and for all: normalising the body again changes nothing, so that the
  hash of the request, its queue and its dispatch see the same images and mask.\<close>
theorem image_edit_canonical:
  assumes "normalize_image_edit parse_url body = Inr body'"
  shows "normalize_image_edit parse_url body' = Inr body'"
proof -
  let ?step = "\<lambda>done j. and_then (image_edit_url parse_url (Some j)) (\<lambda>uri. Inr (done @ [image_reference uri]))"
  let ?mask = "\<lambda>b. case assoc b ''mask'' of None \<Rightarrow> Inr b
    | Some v \<Rightarrow> if v = JNull then Inr b else and_then (image_edit_url parse_url (Some v)) (\<lambda>uri. Inr (put ''mask'' (image_reference uri) b))"
  obtain sources images b where sources: "sources \<noteq> []" "length sources \<le> 16"
    and images: "each_with ?step [] sources = Inr images" and b: "?mask body = Inr b"
    and body': "body' = put ''images'' (JArr images) (remove ''reference_images'' (remove ''image_url'' (remove ''image'' b)))"
    using assms unfolding normalize_image_edit_def by (auto simp: result_iff)
  obtain len: "length images = length sources" and again: "each_with ?step [] images = Inr images"
    using references_again [OF images] by auto
  have members: "assoc body' ''images'' = Some (JArr images)" "assoc body' ''image'' = None" "assoc body' ''image_url'' = None"
    "assoc body' ''reference_images'' = None" "assoc body' ''mask'' = assoc b ''mask''"
    by (simp_all add: body' assoc_put assoc_remove)
  have "?mask body' = Inr body'"
  proof (cases "assoc body ''mask'' = None \<or> assoc body ''mask'' = Some JNull")
    case True
    then have "b = body" using b by (auto split: option.splits)
    then show ?thesis using True members by auto
  next
    case False
    then obtain uri v where "image_edit_url parse_url (Some v) = Inr uri" "b = put ''mask'' (image_reference uri) body"
      using b by (auto simp: result_iff split: option.splits if_splits)
    then have "assoc body' ''mask'' = Some (image_reference uri)" "image_edit_url parse_url (Some (image_reference uri)) = Inr uri"
      using members reference_url by simp_all
    then show ?thesis by (simp add: put_same image_reference_def)
  qed
  moreover have "image_sources (source_fields body') = Inr images"
    by (simp add: source_fields_def members field_sources_def)
  moreover have "put ''images'' (JArr images) (remove ''reference_images'' (remove ''image_url'' (remove ''image'' body'))) = body'"
    using members by (simp add: remove_absent put_same)
  ultimately show ?thesis
    using sources len again unfolding normalize_image_edit_def by auto
qed

definition edit_body :: fields where
  "edit_body = [(''model'', JStr ''gpt-image-2''), (''image_url'', JStr ''data:image/png;base64,AAAA''),
     (''mask'', JObj [(''url'', JStr ''data:image/png;base64,BBBB'')])]"

definition canonical_body :: fields where
  "canonical_body = [(''model'', JStr ''gpt-image-2''), (''mask'', image_reference ''data:image/png;base64,BBBB''),
     (''images'', JArr [image_reference ''data:image/png;base64,AAAA''])]"

lemma edit_body_normal: "normalize_image_edit (\<lambda>_. None) edit_body = Inr canonical_body"
  by code_simp

theorem image_edit_canonical_witness: "normalize_image_edit (\<lambda>_. None) canonical_body = Inr canonical_body"
  by (rule image_edit_canonical [OF edit_body_normal])


section \<open>Bounds of a request\<close>

definition refs_bounded :: "parsed_request \<Rightarrow> bool" where
  "refs_bounded inp \<longleftrightarrow> length (tq_item_references inp) \<le> 1024 \<and> length (pr_containers inp) \<le> 1024 \<and> length (tq_vector_stores inp) \<le> 100"

text \<open>What the tools and the items leave as it is.\<close>

definition kept_part :: "parsed_request \<Rightarrow> string \<times> bool \<times> bool \<times> bool \<times> string list" where
  "kept_part inp = (tq_action inp, pr_stream inp, tq_background inp, pr_extension inp, tq_file_ids inp)"

lemma refer_bounded: "refer m rs inp = Inr inp' \<Longrightarrow> refs_bounded inp \<Longrightarrow> refs_bounded inp' \<and> kept_part inp' = kept_part inp"
  by (auto simp: refer_def refs_bounded_def kept_part_def split: if_splits)

lemma merged_bounded: "merge_response_resources old new = Inr ids \<Longrightarrow> length ids \<le> 100"
  by (auto simp: merge_response_resources_def Let_def split: if_splits)

lemma flags_bounded [simp]:
  "refs_bounded (inp\<lparr>tq_native_programmatic := b\<rparr>) = refs_bounded inp" "refs_bounded (inp\<lparr>tq_native_file_search := b\<rparr>) = refs_bounded inp"
  "refs_bounded (inp\<lparr>tq_native_code := b\<rparr>) = refs_bounded inp" "refs_bounded (inp\<lparr>tq_native_mcp := b\<rparr>) = refs_bounded inp"
  "refs_bounded (inp\<lparr>tq_native_client_tools := b\<rparr>) = refs_bounded inp" "refs_bounded (inp\<lparr>tq_hosted_tool_search := b\<rparr>) = refs_bounded inp"
  "refs_bounded (inp\<lparr>tq_hosted_search := b\<rparr>) = refs_bounded inp" "refs_bounded (inp\<lparr>tq_native_compaction := b\<rparr>) = refs_bounded inp"
  "kept_part (inp\<lparr>tq_native_programmatic := b\<rparr>) = kept_part inp" "kept_part (inp\<lparr>tq_native_file_search := b\<rparr>) = kept_part inp"
  "kept_part (inp\<lparr>tq_native_code := b\<rparr>) = kept_part inp" "kept_part (inp\<lparr>tq_native_mcp := b\<rparr>) = kept_part inp"
  "kept_part (inp\<lparr>tq_native_client_tools := b\<rparr>) = kept_part inp" "kept_part (inp\<lparr>tq_hosted_tool_search := b\<rparr>) = kept_part inp"
  "kept_part (inp\<lparr>tq_hosted_search := b\<rparr>) = kept_part inp" "kept_part (inp\<lparr>tq_native_compaction := b\<rparr>) = kept_part inp"
  by (simp_all add: refs_bounded_def kept_part_def)

lemma program_bounded: "program_item digest item inp = Inr inp' \<Longrightarrow> refs_bounded inp \<Longrightarrow> refs_bounded inp' \<and> kept_part inp' = kept_part inp"
  by (auto simp: program_item_def result_iff split: if_splits dest!: refer_bounded)

lemma file_search_bounded: "file_search_item item inp = Inr inp' \<Longrightarrow> refs_bounded inp \<Longrightarrow> refs_bounded inp' \<and> kept_part inp' = kept_part inp"
  by (auto simp: file_search_item_def result_iff split: if_splits dest!: refer_bounded)

lemma refer_containers: "refer m rs inp = Inr inp' \<Longrightarrow> pr_containers inp' = pr_containers inp"
  by (auto simp: refer_def split: if_splits)

lemma code_bounded:
  assumes "code_item parse_url item inp = Inr inp'" "refs_bounded inp"
  shows "refs_bounded inp' \<and> kept_part inp' = kept_part inp"
proof (cases "credential_string item ''type'' \<noteq> ''code_interpreter_call'' \<and> \<not> hosted_shell_item item")
  case True
  then show ?thesis using assms by (simp add: code_item_def)
next
  case False
  then obtain i c inp1 where "length (pr_containers inp) < 1024" and r: "refer ''too many code interpreter references'' [i] inp = Inr inp1"
    and "inp' = inp1\<lparr>pr_containers := pr_containers inp1 @ [c], tq_native_code := True\<rparr>"
    using assms(1) unfolding code_item_def by (auto simp: result_iff split: prod.splits)
  then show ?thesis
    using refer_bounded [OF r assms(2)] refer_containers [OF r] by (simp add: refs_bounded_def kept_part_def)
qed

lemma mcp_bounded:
  assumes "mcp_item item inp = Inr inp'" "refs_bounded inp"
  shows "refs_bounded inp' \<and> kept_part inp' = kept_part inp"
  using assms unfolding mcp_item_def by (auto simp: result_iff split: if_splits dest!: refer_bounded)

lemma local_bounded: "local_item parse_url item inp = Inr inp' \<Longrightarrow> refs_bounded inp \<Longrightarrow> refs_bounded inp' \<and> kept_part inp' = kept_part inp"
  by (auto simp: local_item_def Let_def result_iff split: if_splits)

lemma image_bounded: "image_call_item item inp = Inr inp' \<Longrightarrow> refs_bounded inp \<Longrightarrow> refs_bounded inp' \<and> kept_part inp' = kept_part inp"
  by (auto simp: image_call_item_def split: if_splits dest!: refer_bounded)

lemma referenced_bounded: "referenced_item item inp = Inr (inp', i) \<Longrightarrow> refs_bounded inp \<Longrightarrow> refs_bounded inp' \<and> kept_part inp' = kept_part inp"
  by (auto simp: referenced_item_def Let_def result_iff split: if_splits dest!: refer_bounded)

lemma item_bounded:
  assumes "input_item digest parse_url (inp, sent) e = Inr (inp', sent')" "refs_bounded inp"
  shows "refs_bounded inp' \<and> kept_part inp' = kept_part inp"
proof -
  obtain item i1 i2 i3 i4 i5 i6 i7 it where "program_item digest item inp = Inr i1" "file_search_item item i1 = Inr i2"
    "code_item parse_url item i2 = Inr i3" "mcp_item item i3 = Inr i4" "local_item parse_url item i4 = Inr i5" "image_call_item item i5 = Inr i6"
    "referenced_item item i6 = Inr (i7, it)" and "inp' = i7\<lparr>tq_native_compaction := tq_native_compaction i7 \<or> credential_string it ''type'' = ''compaction_trigger''\<rparr>"
    using assms(1) by (auto simp: input_item_def result_iff split: option.splits prod.splits)
  then show ?thesis
    using assms(2) program_bounded file_search_bounded code_bounded mcp_bounded local_bounded image_bounded referenced_bounded
    by (metis flags_bounded(8,16))
qed

lemma items_bounded:
  assumes "each_with (input_item digest parse_url) (inp, []) items = Inr (inp', sent)" "refs_bounded inp"
  shows "refs_bounded inp' \<and> kept_part inp' = kept_part inp"
proof -
  have "refs_bounded (fst (inp', sent)) \<and> kept_part (fst (inp', sent)) = kept_part inp"
    by (rule each_with_invariant [OF assms(1), where P = "\<lambda>st. refs_bounded (fst st) \<and> kept_part (fst st) = kept_part inp"])
      (use assms(2) item_bounded in \<open>fastforce+\<close>)
  then show ?thesis by simp
qed


lemma add_container_bounded:
  "add_container m c inp = Inr inp' \<Longrightarrow> refs_bounded inp \<Longrightarrow>
    refs_bounded inp' \<and> kept_part inp' = kept_part inp \<and> tq_native_compaction inp' = tq_native_compaction inp"
  by (auto simp: add_container_def refs_bounded_def kept_part_def split: if_splits)

lemma declared_bounded:
  assumes "declared_tool parse_url inp tool = Inr inp'" "refs_bounded inp"
  shows "refs_bounded inp' \<and> kept_part inp' = kept_part inp \<and> tq_native_compaction inp' = tq_native_compaction inp"
proof -
  have stores: "refs_bounded (inp\<lparr>tq_vector_stores := ids\<rparr>)" if "length ids \<le> 100" for ids
    using assms(2) that by (simp add: refs_bounded_def)
  have image: "refs_bounded (inp\<lparr>tq_response_image := True, pr_image := c\<rparr>)" for c
    using assms(2) by (simp add: refs_bounded_def)
  have kept: "kept_part (inp\<lparr>tq_vector_stores := ids\<rparr>) = kept_part inp"
    "kept_part (inp\<lparr>tq_response_image := True, pr_image := c\<rparr>) = kept_part inp" for ids c
    by (simp_all add: kept_part_def)
  show ?thesis
    using assms unfolding declared_tool_def Let_def
    by (auto simp: result_iff stores image kept dest!: add_container_bounded dest: merged_bounded split: if_splits)
qed

lemma tools_declared_bounded:
  assumes "each_with (declared_tool parse_url) inp tools = Inr inp'" "refs_bounded inp"
  shows "refs_bounded inp' \<and> kept_part inp' = kept_part inp \<and> tq_native_compaction inp' = tq_native_compaction inp"
  by (rule each_with_invariant [OF assms(1), where P = "\<lambda>i. refs_bounded i \<and> kept_part i = kept_part inp \<and>
      tq_native_compaction i = tq_native_compaction inp"]) (use assms(2) declared_bounded in \<open>fastforce+\<close>)

text \<open>The file IDs found so far.\<close>

definition files_ok :: "string list \<Rightarrow> bool" where
  "files_ok ids \<longleftrightarrow> length ids \<le> 100 \<and> distinct ids \<and> set ids \<subseteq> {i. valid_response_id i}"

lemma add_file_ok: "add_file ids raw = Inr ids' \<Longrightarrow> files_ok ids \<Longrightarrow> files_ok ids'"
  by (auto simp: add_file_def files_ok_def Let_def split: option.splits if_splits)

lemma file_part_ok: "file_part ids p = Inr ids' \<Longrightarrow> files_ok ids \<Longrightarrow> files_ok ids'"
  by (auto simp: file_part_def add_file_ok split: option.splits if_splits)

lemma each_files_ok:
  "each_with f ids xs = Inr ids' \<Longrightarrow> files_ok ids \<Longrightarrow> (\<And>ids x ids'. f ids x = Inr ids' \<Longrightarrow> files_ok ids \<Longrightarrow> files_ok ids') \<Longrightarrow> files_ok ids'"
  by (rule each_with_invariant [where P = files_ok]) blast+

lemma content_files_ok: "content_files chat ids p = Inr ids' \<Longrightarrow> files_ok ids \<Longrightarrow> files_ok ids'"
  by (auto simp: content_files_def result_iff split: if_splits option.splits dest!: file_part_ok)

lemma item_files_ok: "item_files chat ids item = Inr ids' \<Longrightarrow> files_ok ids \<Longrightarrow> files_ok ids'"
  unfolding item_files_def and_then_Inr_iff
  by (elim exE conjE) (blast intro: each_files_ok content_files_ok file_part_ok)

lemma tool_files_ok: "tool_files ids tool = Inr ids' \<Longrightarrow> files_ok ids \<Longrightarrow> files_ok ids'"
  unfolding tool_files_def Let_def and_then_Inr_iff
  by (elim exE conjE) (auto split: if_splits dest!: file_part_ok intro: each_files_ok add_file_ok)

lemma request_files_ok:
  assumes "request_file_ids body tools protocol = Inr ids"
  shows "files_ok ids \<and> sorted ids"
proof -
  let ?chat = "protocol = ''chat_completions''"
  let ?variable = "\<lambda>ids (_, raw). case as_fields (Some raw) of Some (Some v) \<Rightarrow> file_part ids v | _ \<Rightarrow> Inr ids"
  obtain i1 i2 i3 where "each_with (item_files ?chat) [] (objects_found (assoc body (if ?chat then ''messages'' else ''input''))) = Inr i1"
    and vars: "each_with ?variable i1 (prompt_variables (assoc body ''prompt'')) = Inr i2"
    and "each_with tool_files i2 tools = Inr i3" "ids = sort i3"
    using assms unfolding request_file_ids_def Let_def if_Inl_Inr_iff and_then_Inr_iff sum.inject by (elim exE conjE) (rule that, assumption+, simp)
  moreover have "files_ok []" by (simp add: files_ok_def)
  ultimately have "files_ok i1" by (blast intro: each_files_ok item_files_ok)
  then have "files_ok i2"
    by (rule each_files_ok [OF vars]) (auto split: option.splits dest: file_part_ok)
  then have "files_ok i3" using \<open>each_with tool_files i2 tools = Inr i3\<close> by (blast intro: each_files_ok tool_files_ok)
  then show ?thesis using \<open>ids = sort i3\<close> by (simp add: files_ok_def)
qed

text \<open>What a request that was accepted satisfies.\<close>

definition request_sound :: "parsed_request \<Rightarrow> bool" where
  "request_sound inp \<longleftrightarrow> refs_bounded inp \<and> files_ok (tq_file_ids inp) \<and> sorted (tq_file_ids inp) \<and>
     \<not> (hosted inp \<and> special_request inp) \<and> \<not> (tq_native_compaction inp \<and> (tq_background inp \<or> \<not> pr_stream inp))"

lemma response_tools_sound:
  assumes "response_tools hash8 parse_url body inp = Inr inp'" "refs_bounded inp" "\<not> (tq_native_compaction inp \<and> \<not> pr_stream inp)"
  shows "request_sound inp'"
proof -
  obtain tools i1 files skills programmatic where
    tools: "each_with (declared_tool parse_url) (inp\<lparr>tq_native_programmatic := tq_native_programmatic inp \<or> programmatic\<rparr>) tools = Inr i1"
    and special: "\<not> (hosted i1 \<and> special_request i1)" and files: "request_file_ids body tools ''responses'' = Inr files"
    and background: "\<not> (tq_background i1 \<and> tq_native_compaction i1)" and inp': "inp' = i1\<lparr>tq_file_ids := files, tq_skill_ids := skills\<rparr>"
    using assms(1) unfolding response_tools_def by (auto simp: result_iff)
  have "refs_bounded i1 \<and> kept_part i1 = kept_part (inp\<lparr>tq_native_programmatic := tq_native_programmatic inp \<or> programmatic\<rparr>) \<and>
      tq_native_compaction i1 = tq_native_compaction (inp\<lparr>tq_native_programmatic := tq_native_programmatic inp \<or> programmatic\<rparr>)"
    by (rule tools_declared_bounded [OF tools]) (simp add: assms(2))
  then show ?thesis
    using assms(3) special background request_files_ok [OF files]
    by (auto simp: inp' request_sound_def refs_bounded_def hosted_def special_request_def kept_part_def)
qed


text \<open>What a request without tools satisfies.\<close>

definition without_tools :: "parsed_request \<Rightarrow> bool" where
  "without_tools inp \<longleftrightarrow> tq_item_references inp = [] \<and> pr_containers inp = [] \<and> tq_vector_stores inp = [] \<and> tq_file_ids inp = [] \<and>
     \<not> hosted inp \<and> \<not> tq_native_compaction inp"

lemma without_tools_sound: "without_tools inp \<Longrightarrow> request_sound inp"
  by (simp add: without_tools_def request_sound_def refs_bounded_def files_ok_def)

lemma without_tools_bounded: "without_tools inp \<Longrightarrow> refs_bounded inp \<and> \<not> tq_native_compaction inp"
  by (simp add: without_tools_def refs_bounded_def)

lemma new_request_plain: "without_tools (new_request protocol)"
  by (simp add: without_tools_def new_request_def hosted_def)

lemma plain_updates [simp]:
  "without_tools (inp\<lparr>tq_model := m\<rparr>) = without_tools inp" "without_tools (inp\<lparr>tq_action := a\<rparr>) = without_tools inp"
  "without_tools (inp\<lparr>tq_count_only := c\<rparr>) = without_tools inp" "without_tools (inp\<lparr>tq_background := c\<rparr>) = without_tools inp"
  "without_tools (inp\<lparr>pr_scope := m\<rparr>) = without_tools inp" "without_tools (inp\<lparr>pr_effort := m\<rparr>) = without_tools inp"
  "without_tools (inp\<lparr>pr_tier := m\<rparr>) = without_tools inp" "without_tools (inp\<lparr>pr_previous := m\<rparr>) = without_tools inp"
  "without_tools (inp\<lparr>pr_resources := ms\<rparr>) = without_tools inp" "without_tools (inp\<lparr>pr_extension := c\<rparr>) = without_tools inp"
  "without_tools (inp\<lparr>pr_store := c\<rparr>) = without_tools inp" "without_tools (inp\<lparr>pr_stream := c\<rparr>) = without_tools inp"
  "without_tools (inp\<lparr>pr_image_generation := c\<rparr>) = without_tools inp" "without_tools (inp\<lparr>pr_image_size := m\<rparr>) = without_tools inp"
  "without_tools (inp\<lparr>pr_image_size_source := m\<rparr>) = without_tools inp" "without_tools (inp\<lparr>pr_image_input_size := m\<rparr>) = without_tools inp"
  "without_tools (inp\<lparr>pr_headers := hs\<rparr>) = without_tools inp" "without_tools (inp\<lparr>pr_search := q\<rparr>) = without_tools inp"
  by (simp_all add: without_tools_def hosted_def)

lemma image_request_plain: "parse_image_request parse_url hv body inp = Inr (inp', b) \<Longrightarrow> without_tools inp \<Longrightarrow> without_tools inp'"
  by (auto simp: parse_image_request_def Let_def result_iff split: if_splits)

lemma gemini_request_plain: "parse_gemini_request hv body inp = Inr (inp', b) \<Longrightarrow> without_tools inp \<Longrightarrow> without_tools inp'"
  unfolding parse_gemini_request_def Let_def
  by (auto simp: result_iff split: option.splits prod.splits json.splits list.splits)

lemma embedding_request_plain: "parse_embedding_request body inp = Inr (inp', b) \<Longrightarrow> without_tools inp \<Longrightarrow> without_tools inp'"
  by (auto simp: parse_embedding_request_def result_iff)

lemma alpha_request_plain: "alpha_search_request body inp = Inr (inp', b) \<Longrightarrow> without_tools inp \<Longrightarrow> without_tools inp'"
  by (auto simp: alpha_search_request_def split: if_splits)

lemma anthropic_request_plain: "anthropic_request hv body inp = Inr inp' \<Longrightarrow> without_tools inp \<Longrightarrow> without_tools inp'"
  by (auto simp: anthropic_request_def anthropic_headers_def Let_def result_iff split: if_splits)

lemma messages_request_sound: "parse_messages_request protocol body inp = Inr (inp', b) \<Longrightarrow> without_tools inp \<Longrightarrow> request_sound inp'"
  by (auto simp: parse_messages_request_def result_iff request_sound_def without_tools_def refs_bounded_def hosted_def files_ok_def
      dest!: request_files_ok split: option.splits json.splits list.splits if_splits)

lemma responses_request_sound:
  assumes "parse_responses_request digest hash8 parse_url hv body inp = Inr (inp', b)" "without_tools inp"
  shows "request_sound inp'"
proof -
  obtain i1 i2 i3 i4 body' where i1: "response_action digest hv body inp = Inr i1" and i2: "response_retention hv body i1 = Inr i2"
    and i3: "response_context body i2 = Inr i3" and i4: "response_input digest parse_url body i3 = Inr (i4, body')"
    and tools: "response_tools hash8 parse_url body' i4 = Inr inp'"
    using assms(1) unfolding parse_responses_request_def by (auto simp: result_iff)
  have "without_tools i1" using i1 assms(2) by (auto simp: response_action_def Let_def result_iff split: prod.splits if_splits)
  then have "without_tools i2" using i2 by (auto simp: response_retention_def result_iff)
  then have "without_tools i3" using i3 by (auto simp: response_context_def result_iff split: option.splits if_splits)
  then have plain: "refs_bounded i3 \<and> \<not> tq_native_compaction i3" by (rule without_tools_bounded)
  have "refs_bounded i4 \<and> \<not> (tq_native_compaction i4 \<and> \<not> pr_stream i4)"
  proof (cases "i4 = i3")
    case False
    then obtain items where items: "response_items digest parse_url items body i3 = Inr (i4, body')"
      using i4 by (auto simp: response_input_def split: option.splits if_splits)
    then obtain st where st: "each_with (input_item digest parse_url) (i3, []) items = Inr st"
      unfolding response_items_def and_then_Inr_iff by (elim exE conjE)
    obtain i5 sent where i5: "each_with (input_item digest parse_url) (i3, []) items = Inr (i5, sent)"
      using st by (cases st) simp
    have i4': "if tq_native_compaction i5 then pr_stream i5 \<and> (\<exists>hs. i4 = i5\<lparr>pr_headers := hs\<rparr>) else i4 = i5"
      using items unfolding response_items_def i5 sum.case prod.case by (simp split: if_splits) blast
    have "refs_bounded i5" using items_bounded [OF i5] plain by simp
    then show ?thesis using i4' by (auto simp: refs_bounded_def split: if_splits)
  qed (use plain in simp)
  then show ?thesis by (intro response_tools_sound [OF tools]) simp_all
qed

text \<open>Property C10: a request that was accepted, whatever its protocol and body, refers to at most 1024 items and containers and
  100 vector stores, and to at most 100 files, which are valid, sorted and different; provider tools are not used in special
  operations or compactions, and a compaction streams and does not run in the background.\<close>
theorem accepted_request_sound:
  assumes "parse_text_request digest hash8 parse_url hv protocol body = Inr (inp, body')"
  shows "length (tq_item_references inp) \<le> 1024 \<and> length (pr_containers inp) \<le> 1024 \<and> length (tq_vector_stores inp) \<le> 100 \<and>
    length (tq_file_ids inp) \<le> 100 \<and> set (tq_file_ids inp) \<subseteq> {i. valid_response_id i} \<and> sorted (tq_file_ids inp) \<and> distinct (tq_file_ids inp) \<and>
    \<not> (hosted inp \<and> special_request inp) \<and> \<not> (tq_native_compaction inp \<and> (tq_background inp \<or> \<not> pr_stream inp))"
proof -
  have by_protocol: "request_sound inp" if "parse_by_protocol digest hash8 parse_url hv protocol body i = Inr (inp, body')" "without_tools i" for i
    using that responses_request_sound [of digest hash8 parse_url hv body i inp body'] embedding_request_plain [of body i inp body']
      messages_request_sound [of protocol body i inp body']
    by (auto simp: parse_by_protocol_def without_tools_sound split: if_splits)
  have common: "request_sound inp"
    if parsed: "parse_model_request digest hash8 parse_url hv protocol body i = Inr (inp, body')" and plain: "without_tools i" for i
  proof -
    define m where "m = credential_string body ''model''"
    show ?thesis
    proof (cases "protocol = ''alpha_search''")
      case True
      then have "alpha_search_request body (i\<lparr>tq_model := m\<rparr>) = Inr (inp, body')"
        using parsed by (simp add: parse_model_request_def Let_def m_def result_iff)
      then show ?thesis using plain alpha_request_plain without_tools_sound plain_updates(1) by blast
    next
      case False
      then obtain effort tier where
        "parse_by_protocol digest hash8 parse_url hv protocol body
          (i\<lparr>tq_model := m, pr_stream := credential_bool body ''stream'', pr_effort := effort, pr_tier := tier\<rparr>) = Inr (inp, body')"
        using parsed unfolding parse_model_request_def Let_def if_Inl_Inr_iff and_then_Inr_iff m_def by (simp only: if_False if_Inl_Inr_iff and_then_Inr_iff) blast
      then show ?thesis by (rule by_protocol) (simp add: plain)
    qed
  qed
  have "request_sound inp"
    using assms unfolding parse_text_request_def Let_def
    by (auto simp: result_iff new_request_plain intro: without_tools_sound common split: if_splits
        dest!: image_request_plain gemini_request_plain anthropic_request_plain)
  then show ?thesis by (auto simp: request_sound_def refs_bounded_def files_ok_def)
qed


definition sample_view :: http_view where
  "sample_view = \<lparr>hv_path = ''/v1/responses'', hv_action = [], hv_alt = [], hv_headers = [], hv_socket = False, hv_extensions = []\<rparr>"

definition sample_request_body :: fields where
  "sample_request_body = [(''model'', JStr ''gpt-5''), (''stream'', JBool True),
     (''input'', JArr [JObj [(''type'', JStr ''item_reference''), (''id'', JStr ''msg_1'')],
        JObj [(''role'', JStr ''user''), (''content'', JArr [JObj [(''type'', JStr ''input_file''), (''file_id'', JStr ''file_2'')],
          JObj [(''type'', JStr ''input_file''), (''file_id'', JStr ''file_1'')]])]]),
     (''tools'', JArr [JObj [(''type'', JStr ''file_search''), (''vector_store_ids'', JArr [JStr ''vs_1''])]])]"

lemma sample_accepted: "case parse_text_request id id (\<lambda>_. None) sample_view ''responses'' sample_request_body of
    Inr (p, _) \<Rightarrow> tq_item_references p = [''msg_1''] \<and> tq_file_ids p = [''file_1'', ''file_2''] \<and> tq_vector_stores p = [''vs_1''] \<and> hosted p
  | Inl _ \<Rightarrow> False"
  by code_simp

theorem accepted_request_sound_witness:
  "case parse_text_request id id (\<lambda>_. None) sample_view ''responses'' sample_request_body of
     Inr (p, _) \<Rightarrow> tq_item_references p = [''msg_1''] \<and> hosted p \<and> \<not> special_request p \<and> sorted (tq_file_ids p)
   | Inl _ \<Rightarrow> False"
  using sample_accepted accepted_request_sound [of id id "\<lambda>_. None" sample_view "''responses''" sample_request_body]
  by (auto split: sum.splits prod.splits)

end
