(* ===== verification/Secret_Facts.thy ===== *)
theory Secret_Facts
  imports Response_Mcp "HOL-Library.Multiset" "HOL-Library.Sublist"
begin

text \<open>
  No response hands a client the credentials of its tools: what \<open>sanitizeResponseTools\<close> lets through holds none of them in
  any place of an envelope, and a text that it does not even parse has no place for them.
\<close>

section \<open>What leaks\<close>

text \<open>A reader sees an object as a map in which the last of two equal keys counts.\<close>

definition read_map :: "(string \<times> json) list \<Rightarrow> fields" where
  "read_map kvs = AList.clearjunk (rev kvs)"

text \<open>A tool with credentials of a remote server, or with secrets of the domains its container may call.\<close>

definition container_secret :: "fields \<Rightarrow> string \<Rightarrow> bool" where
  "container_secret m k \<longleftrightarrow> (case as_fields (assoc m k) of
     Some (Some c) \<Rightarrow> (case as_fields (assoc c ''network_policy'') of Some (Some p) \<Rightarrow> assoc p ''domain_secrets'' \<noteq> None | _ \<Rightarrow> False)
   | _ \<Rightarrow> False)"

definition tool_secret :: "fields \<Rightarrow> bool" where
  "tool_secret m \<longleftrightarrow>
     (let kind = credential_string m ''type'' in
      kind = ''mcp'' \<and> (assoc m ''headers'' \<noteq> None \<or> assoc m ''authorization'' \<noteq> None) \<or>
      kind = ''code_interpreter'' \<and> container_secret m ''container'' \<or>
      (kind = ''shell'' \<or> kind = ''shell_call'') \<and> container_secret m ''environment'')"

inductive leaks :: "json \<Rightarrow> bool" where
  element: "leaks v \<Longrightarrow> v \<in> set vs \<Longrightarrow> leaks (JArr vs)"
| tool: "tool_secret (read_map kvs) \<Longrightarrow> leaks (JObj kvs)"
| inside: "credential_string (read_map kvs) ''type'' \<noteq> ''mcp'' \<Longrightarrow> k \<in> {''response'', ''item'', ''tools'', ''input'', ''output'', ''data''} \<Longrightarrow>
    assoc (read_map kvs) k = Some v \<Longrightarrow> leaks v \<Longrightarrow> leaks (JObj kvs)"

inductive_simps leaks_array: "leaks (JArr vs)"
inductive_simps leaks_object: "leaks (JObj kvs)"
inductive_simps leaks_scalar [simp]: "leaks JNull" "leaks (JBool b)" "leaks (JNum n)" "leaks (JStr s)"

lemma assoc_same_set: "distinct (map fst xs) \<Longrightarrow> mset xs = mset ys \<Longrightarrow> assoc xs = assoc ys"
proof -
  assume d: "distinct (map fst xs)" and m: "mset xs = mset ys"
  then have "mset (map fst xs) = mset (map fst ys)" by simp
  then have "distinct (map fst ys)" using d mset_eq_imp_distinct_iff by blast
  then have "map_of xs = map_of ys" using d mset_eq_setD [OF m] by (simp add: map_of_inject_set)
  then show ?thesis by (simp add: fun_eq_iff assoc_eq_map_of)
qed

lemma assoc_clearjunk: "assoc (AList.clearjunk m) = assoc m"
  by (simp add: fun_eq_iff assoc_eq_map_of map_of_clearjunk)

lemma read_object: "assoc (read_map (sort_key fst (AList.clearjunk m))) = assoc m"
proof -
  let ?m = "AList.clearjunk m"
  have "assoc (read_map (sort_key fst ?m)) = assoc (rev (sort_key fst ?m))" by (simp add: read_map_def assoc_clearjunk)
  also have "\<dots> = assoc ?m" by (rule assoc_same_set [symmetric]) (simp_all add: distinct_clearjunk)
  also have "\<dots> = assoc m" by (rule assoc_clearjunk)
  finally show ?thesis .
qed

text \<open>Only what is under the keys counts.\<close>

lemma tool_secret_cong: "assoc m = assoc m' \<Longrightarrow> tool_secret m = tool_secret m'"
  by (simp add: tool_secret_def container_secret_def credential_string_def)

lemma leaks_object_of:
  "leaks (object_of m) \<longleftrightarrow> tool_secret m \<or> credential_string m ''type'' \<noteq> ''mcp'' \<and>
     (\<exists>k \<in> {''response'', ''item'', ''tools'', ''input'', ''output'', ''data''}. \<exists>v. assoc m k = Some v \<and> leaks v)"
  unfolding object_of_def leaks_object tool_secret_cong [OF read_object] read_object
  by (auto simp: credential_string_def read_object)

lemma as_fields_object: "as_fields (Some (JObj kvs)) = Some (Some (read_map kvs))"
  by (simp add: as_fields_def read_map_def)

lemma as_fields_object_of: "as_fields (Some (object_of m)) = Some (Some (read_map (sort_key fst (AList.clearjunk m))))"
  by (simp add: object_of_def as_fields_object)


section \<open>Cleaning\<close>

lemma clean_all_safe:
  assumes "clean_all f vs = Inr (ws, changed)" "\<And>v w ch. f v = Inr (w, ch) \<Longrightarrow> \<not> leaks w \<and> (\<not> ch \<longrightarrow> w = v)"
  shows "(\<forall>w \<in> set ws. \<not> leaks w) \<and> (\<not> changed \<longrightarrow> ws = vs)"
  using assms(1)
proof (induction vs arbitrary: ws changed)
  case (Cons v vs)
  obtain w a ws' b where w: "f v = Inr (w, a)" "clean_all f vs = Inr (ws', b)" and "ws = w # ws'" "changed = (a \<or> b)"
    using Cons.prems by (auto simp: result_iff)
  then show ?case using Cons.IH [OF w(2)] assms(2) [OF w(1)] by auto
qed simp

lemma clean_members_safe:
  assumes "clean_members f ks m b = Inr (m', changed)" "\<And>v w ch. f v = Inr (w, ch) \<Longrightarrow> \<not> leaks w \<and> (\<not> ch \<longrightarrow> w = v)"
    "distinct ks"
  shows "(\<forall>k v. k \<in> set ks \<and> assoc m' k = Some v \<longrightarrow> \<not> leaks v) \<and> (\<forall>k. k \<notin> set ks \<longrightarrow> assoc m' k = assoc m k) \<and>
    (\<not> changed \<longrightarrow> \<not> b \<and> m' = m)"
  using assms(1,3)
proof (induction ks arbitrary: m b)
  case (Cons k ks)
  show ?case
  proof (cases "assoc m k")
    case None
    then have "clean_members f ks m b = Inr (m', changed)" using Cons.prems by simp
    then show ?thesis using Cons.IH [of m b] Cons.prems(2) None by auto
  next
    case (Some child)
    then obtain w a where w: "f child = Inr (w, a)" "clean_members f ks (put k w m) (b \<or> a) = Inr (m', changed)"
      using Cons.prems(1) by (auto simp: result_iff)
    have ih: "(\<forall>k v. k \<in> set ks \<and> assoc m' k = Some v \<longrightarrow> \<not> leaks v) \<and> (\<forall>k'. k' \<notin> set ks \<longrightarrow> assoc m' k' = assoc (put k w m) k') \<and>
        (\<not> changed \<longrightarrow> \<not> (b \<or> a) \<and> m' = put k w m)"
      using Cons.IH [OF w(2)] Cons.prems(2) by simp
    moreover have "\<not> leaks w \<and> (\<not> a \<longrightarrow> put k w m = m)" using assms(2) [OF w(1)] Some put_same by metis
    ultimately show ?thesis using Cons.prems(2) by (auto simp: assoc_put)
  qed
qed simp

lemma domain_secrets_removed:
  assumes "without_domain_secrets m = (m', changed)" "credential_string m ''type'' \<noteq> ''mcp''"
  shows "\<not> tool_secret m' \<and> (\<not> changed \<longrightarrow> m' = m) \<and> credential_string m' ''type'' = credential_string m ''type''"
proof (cases "container_field m")
  case None
  then show ?thesis using assms by (auto simp: without_domain_secrets_def tool_secret_def container_field_def Let_def split: if_splits)
next
  case (Some f)
  then have f: "f = (if credential_string m ''type'' = ''code_interpreter'' then ''container'' else ''environment'')"
    "f \<noteq> ''type''" by (auto simp: container_field_def Let_def split: if_splits)
  have kinds: "credential_string m ''type'' \<in> {''code_interpreter'', ''shell'', ''shell_call''}"
    using Some by (auto simp: container_field_def Let_def split: if_splits)
  have secret: "tool_secret x \<longleftrightarrow> container_secret x f" if "credential_string x ''type'' = credential_string m ''type''" for x
    using kinds f that by (auto simp: tool_secret_def Let_def)
  show ?thesis
  proof (cases "container_secret m f")
    case False
    then have "m' = m" "\<not> changed" using assms(1) Some
      by (auto simp: without_domain_secrets_def container_secret_def network_policy_def split: option.splits if_splits)
    then show ?thesis using False secret [of m] by simp
  next
    case True
    then obtain c p where cp: "network_policy m f = Some (c, p)" "assoc p ''domain_secrets'' \<noteq> None"
      by (auto simp: container_secret_def network_policy_def split: option.splits)
    then have m': "m' = put f (object_of (put ''network_policy'' (object_of (remove ''domain_secrets'' p)) c)) m" "changed"
      using assms(1) Some by (auto simp: without_domain_secrets_def)
    have kind: "credential_string m' ''type'' = credential_string m ''type''" using f(2) by (simp add: m' credential_string_def assoc_put)
    have "\<not> container_secret m' f"
      by (simp add: container_secret_def m' as_fields_object_of read_object)
    then show ?thesis using secret [OF kind] kind m'(2) by simp
  qed
qed

lemma tool_secret_outside:
  assumes "\<And>k. k \<in> {''type'', ''headers'', ''authorization'', ''container'', ''environment''} \<Longrightarrow> assoc m k = assoc m' k"
  shows "tool_secret m = tool_secret m'"
  using assms by (simp add: tool_secret_def container_secret_def credential_string_def)

lemma clean_safe: "clean n v = Inr (w, changed) \<Longrightarrow> \<not> leaks w \<and> (\<not> changed \<longrightarrow> w = v)"
proof (induction n arbitrary: v w changed)
  case (Suc n)
  show ?case
  proof (cases v)
    case (JArr vs)
    then obtain ws ch where ws: "clean_all (clean n) vs = Inr (ws, ch)" and r: "(w, changed) = (if ch then (JArr ws, True) else (v, False))"
      using Suc.prems by (auto simp: result_iff split: if_splits)
    show ?thesis using clean_all_safe [OF ws Suc.IH] r JArr by (auto simp: leaks_array split: if_splits)
  next
    case (JObj kvs)
    let ?m = "read_map kvs"
    show ?thesis
    proof (cases "credential_string ?m ''type'' = ''mcp''")
      case True
      then obtain m ch where m: "without_credentials ?m = (m, ch)" and r: "(w, changed) = (if ch then (object_of m, True) else (v, False))"
        using Suc.prems JObj by (auto simp: Let_def read_map_def split: prod.splits if_splits)
      have "m = remove ''headers'' (remove ''authorization'' ?m)" and ch: "ch = (assoc ?m ''headers'' \<noteq> None \<or> assoc ?m ''authorization'' \<noteq> None)"
        using m by (auto simp: without_credentials_def)
      then have "credential_string m ''type'' = ''mcp''" "\<not> tool_secret m"
        using True by (auto simp: tool_secret_def credential_string_def assoc_remove)
      moreover have "ch \<or> \<not> tool_secret ?m" using True ch by (auto simp: tool_secret_def)
      ultimately show ?thesis using r True JObj by (auto simp: leaks_object_of leaks_object split: if_splits)
    next
      case False
      obtain m1 a where m1: "without_domain_secrets ?m = (m1, a)" by force
      then obtain m ch where m: "clean_members (clean n) envelope_fields m1 a = Inr (m, ch)"
        and r: "(w, changed) = (if ch then (object_of m, True) else (v, False))"
        using Suc.prems JObj False by (auto simp: Let_def read_map_def result_iff split: prod.splits if_splits)
      have safe1: "\<not> tool_secret m1" "\<not> a \<Longrightarrow> m1 = ?m" "credential_string m1 ''type'' \<noteq> ''mcp''"
        using domain_secrets_removed [OF m1 False] False by auto
      have fields: "set envelope_fields = {''response'', ''item'', ''tools'', ''input'', ''output'', ''data''}" "distinct envelope_fields"
        by (auto simp: envelope_fields_def)
      note members = clean_members_safe [OF m Suc.IH fields(2)]
      have outside: "assoc m k = assoc m1 k" if "k \<in> {''type'', ''headers'', ''authorization'', ''container'', ''environment''}" for k
      proof -
        have "k \<notin> set envelope_fields" using that by (auto simp: fields(1))
        then show ?thesis using members by blast
      qed
      then have "tool_secret m = tool_secret m1" by (rule tool_secret_outside)
      then have "\<not> tool_secret m" using safe1(1) by simp
      moreover have "\<not> leaks x" if "k \<in> {''response'', ''item'', ''tools'', ''input'', ''output'', ''data''}" "assoc m k = Some x" for k x
        using members that fields(1) by blast
      moreover have "ch \<or> m = ?m" using members safe1(2) by metis
      ultimately show ?thesis using r JObj by (auto simp: leaks_object_of leaks_object split: if_splits)
    qed
  qed (use Suc.prems in auto)
qed simp


section \<open>Texts that are not parsed\<close>

inductive has_key :: "string \<Rightarrow> json \<Rightarrow> bool" for k where
  here: "(k, v) \<in> set kvs \<Longrightarrow> has_key k (JObj kvs)"
| member: "(k', v) \<in> set kvs \<Longrightarrow> has_key k v \<Longrightarrow> has_key k (JObj kvs)"
| item: "v \<in> set vs \<Longrightarrow> has_key k v \<Longrightarrow> has_key k (JArr vs)"

inductive_simps has_key_scalar [simp]: "has_key k JNull" "has_key k (JBool b)" "has_key k (JNum n)" "has_key k (JStr s)"
inductive_simps has_key_array: "has_key k (JArr vs)"
inductive_simps has_key_object: "has_key k (JObj kvs)"

lemma read_map_entry: "assoc (read_map kvs) k = Some v \<Longrightarrow> (k, v) \<in> set kvs"
  by (simp add: read_map_def assoc_clearjunk assoc_eq_map_of) (metis map_of_SomeD set_rev)

lemma as_fields_entry: "as_fields (Some j) = Some (Some m) \<Longrightarrow> assoc m k = Some v \<Longrightarrow> has_key k j"
  by (cases j) (auto simp: as_fields_object read_map_entry as_fields_def dest!: read_map_entry [unfolded read_map_def] intro: has_key.intros)

lemma secret_key: "container_secret (read_map kvs) f \<Longrightarrow> has_key ''domain_secrets'' (JObj kvs)"
proof -
  assume "container_secret (read_map kvs) f"
  then obtain c p v where c: "as_fields (assoc (read_map kvs) f) = Some (Some c)" and p: "as_fields (assoc c ''network_policy'') = Some (Some p)"
    and v: "assoc p ''domain_secrets'' = Some v" by (auto simp: container_secret_def split: option.splits)
  obtain j i where j: "assoc (read_map kvs) f = Some j" and i: "assoc c ''network_policy'' = Some i"
    using c p by (cases "assoc (read_map kvs) f"; cases "assoc c ''network_policy''") (auto simp: as_fields_def)
  obtain js where js: "j = JObj js" "c = read_map js" using c j by (cases j) (auto simp: as_fields_def read_map_def)
  have "has_key ''domain_secrets'' i" by (rule as_fields_entry [OF p [unfolded i] v])
  then have "has_key ''domain_secrets'' j" using has_key.member [OF read_map_entry] i unfolding js by blast
  then show ?thesis using has_key.member [OF read_map_entry] j by blast
qed

text \<open>A leak needs one of three keys.\<close>

lemma leaks_key: "leaks v \<Longrightarrow> \<exists>k \<in> {''headers'', ''authorization'', ''domain_secrets''}. has_key k v"
proof (induction rule: leaks.induct)
  case (tool kvs)
  let ?m = "read_map kvs"
  consider k where "k \<in> {''headers'', ''authorization''}" "assoc ?m k \<noteq> None"
    | f where "container_secret ?m f" using tool by (auto simp: tool_secret_def Let_def)
  then show ?case
  proof cases
    case 1
    then show ?thesis using read_map_entry has_key.here by blast
  next
    case 2
    then show ?thesis using secret_key by blast
  qed
next
  case (inside kvs k v)
  then show ?case using read_map_entry has_key.member by blast
qed (auto intro: has_key.item)

definition ascii :: "string \<Rightarrow> bool" where
  "ascii k \<longleftrightarrow> (\<forall>c \<in> set k. of_char c < (128::nat))"

lemma ascii_append [simp]: "ascii (a @ b) \<longleftrightarrow> ascii a \<and> ascii b"
  by (auto simp: ascii_def)

lemma replacement_not_ascii [simp]: "\<not> ascii replacement_rune"
  by (simp add: replacement_rune_def ascii_def)

text \<open>Without a backslash, an ASCII string stands in the text as it is.\<close>

lemma string_rest_suffix:
  "string_rest s = Some (t, r) \<Longrightarrow> CHR 0x5C \<notin> set s \<Longrightarrow> suffix r s \<and> (ascii t \<longrightarrow> prefix t s)"
proof (induction s arbitrary: t rule: string_rest.induct)
  case (2 c s)
  show ?case
  proof (cases "c = CHR 0x22")
    case True
    then show ?thesis using 2(4) by (auto simp: suffix_Cons)
  next
    case False
    let ?w = "rune_width (c # s)"
    have c: "c \<noteq> CHR 0x5C" using 2(5) by auto
    then obtain t' where t': "string_rest (drop (max 1 ?w) (c # s)) = Some (t', r)" "\<not> byte_in 0 31 c"
      and t: "t = (if ?w = 0 then replacement_rune else take ?w (c # s)) @ t'"
      using 2(4) False by (auto simp: Let_def split: if_splits)
    have "CHR 0x5C \<notin> set (drop (max 1 ?w) (c # s))" using 2(5) in_set_dropD by metis
    then have ih: "suffix r (drop (max 1 ?w) (c # s))" "ascii t' \<longrightarrow> prefix t' (drop (max 1 ?w) (c # s))"
      using 2(3) [OF False c t'(2) refl t'(1)] by auto
    have "suffix r (c # s)" using ih(1) suffix_drop suffix_order.trans by blast
    moreover have "prefix t (c # s)" if "ascii t"
    proof -
      have w: "?w \<noteq> 0" using that t by (auto split: if_splits)
      then have "max 1 ?w = ?w" by simp
      moreover have "ascii t'" using that unfolding t by simp
      ultimately obtain z where z: "drop ?w (c # s) = t' @ z" using ih(2) by (metis prefixE)
      have "c # s = take ?w (c # s) @ drop ?w (c # s)" by simp
      also have "\<dots> = t @ z" using t w z by simp
      finally show ?thesis by (simp add: prefix_def)
    qed
    ultimately show ?thesis by blast
  qed
qed simp

abbreviation plain :: "string \<Rightarrow> bool" where
  "plain s \<equiv> CHR 0x5C \<notin> set s"

lemma plain_suffix: "suffix t s \<Longrightarrow> plain s \<Longrightarrow> plain t"
  using set_mono_suffix by blast

lemma space_suffix: "skip_space s = c # t \<Longrightarrow> suffix t s"
  using suffix_dropWhile [of json_space s] suffix_ConsI suffix_order.trans by (metis suffix_tl list.sel(3))

lemma sublist_of_suffix: "sublist k t \<Longrightarrow> suffix t s \<Longrightarrow> sublist k s"
  using suffix_imp_sublist subseq_order.trans sublist_order.order.trans by blast

text \<open>The keys of what is read from a text stand in it.\<close>

lemma parse_plain:
  "parse_value d f s = Some (j, r) \<Longrightarrow> plain s \<Longrightarrow> suffix r s \<and> (ascii k \<and> has_key k j \<longrightarrow> sublist k s)"
  "parse_elements d f s = Some (js, r) \<Longrightarrow> plain s \<Longrightarrow> suffix r s \<and> (ascii k \<and> has_key k (JArr js) \<longrightarrow> sublist k s)"
  "parse_members d f s = Some (kvs, r) \<Longrightarrow> plain s \<Longrightarrow> suffix r s \<and> (ascii k \<and> has_key k (JObj kvs) \<longrightarrow> sublist k s)"
proof (induction d f s and d f s and d f s arbitrary: j r and js r and kvs r
    rule: parse_value_parse_elements_parse_members.induct)
  case (2 d f s)
  note parsed = 2(3)
  note inside = 2(1,2)
  obtain c t where ct: "skip_space s = c # t" using 2(3) by (auto split: list.splits)
  have t: "suffix t s" "plain t" using space_suffix [OF ct] plain_suffix 2(4) by auto
  consider "c = CHR 0x22" | "c = CHR ''[''" | "c = CHR ''{''" | "c \<notin> {CHR 0x22, CHR ''['', CHR ''{''}" by blast
  then show ?case
  proof cases
    case 1
    then obtain x where "string_rest t = Some (x, r)" "j = JStr x" using parsed ct by auto
    then show ?thesis using string_rest_suffix [OF _ t(2)] t(1) suffix_order.trans by (metis has_key_scalar(4))
  next
    case 2
    then obtain e u where eu: "skip_space t = e # u" and d: "d \<noteq> 0" using parsed ct by (auto split: if_splits list.splits)
    show ?thesis
    proof (cases "e = CHR '']''")
      case True
      then have "j = JArr []" "r = u" using parsed ct eu d \<open>c = CHR ''[''\<close> by auto
      then show ?thesis using space_suffix [OF eu] t(1) suffix_order.trans by (auto simp: has_key_array)
    next
      case False
      then obtain js where js: "parse_elements (d - 1) f t = Some (js, r)" "j = JArr js"
        using parsed ct eu d \<open>c = CHR ''[''\<close> by auto
      have "suffix r t \<and> (ascii k \<and> has_key k (JArr js) \<longrightarrow> sublist k t)"
        using inside(1) [OF ct] js(1) eu False d \<open>c = CHR ''[''\<close> t(2) by auto
      then show ?thesis using js(2) t(1) suffix_order.trans sublist_of_suffix by metis
    qed
  next
    case 3
    then obtain e u where eu: "skip_space t = e # u" and d: "d \<noteq> 0" using parsed ct by (auto split: if_splits list.splits)
    show ?thesis
    proof (cases "e = CHR ''}''")
      case True
      then have "j = JObj []" "r = u" using parsed ct eu d \<open>c = CHR ''{''\<close> by auto
      then show ?thesis using space_suffix [OF eu] t(1) suffix_order.trans by (auto simp: has_key_object)
    next
      case False
      then obtain kvs where kvs: "parse_members (d - 1) f t = Some (kvs, r)" "j = JObj kvs"
        using parsed ct eu d \<open>c = CHR ''{''\<close> by auto
      have "suffix r t \<and> (ascii k \<and> has_key k (JObj kvs) \<longrightarrow> sublist k t)"
        using inside(2) [OF ct] kvs(1) eu False d \<open>c = CHR ''{''\<close> t(2) by auto
      then show ?thesis using kvs(2) t(1) suffix_order.trans sublist_of_suffix by metis
    qed
  next
    case 4
    have "suffix r (c # t) \<and> \<not> has_key k j" using parsed ct 4 suffix_drop [of _ t] suffix_dropWhile [of number_char "c # t"]
      by (auto simp: Let_def suffix_ConsI split: if_splits)
    then show ?thesis using ct suffix_dropWhile [of json_space s] suffix_order.trans by metis
  qed
next
  case (4 d f s)
  then obtain v t where v: "parse_value d f s = Some (v, t)" by (auto split: option.splits)
  then have t: "suffix t s" "ascii k \<and> has_key k v \<longrightarrow> sublist k s" using 4(1) 4(4) by auto
  obtain c u where cu: "skip_space t = c # u" using 4(3) v by (auto split: list.splits)
  have u: "suffix u s" "plain u" using space_suffix [OF cu] t(1) plain_suffix 4(4) suffix_order.trans by blast+
  show ?case
  proof (cases "c = CHR '',''")
    case True
    then obtain vs where vs: "parse_elements d f u = Some (vs, r)" "js = v # vs" using 4(3) v cu by auto
    then have "suffix r u \<and> (ascii k \<and> has_key k (JArr vs) \<longrightarrow> sublist k u)" using 4(2) [OF v refl cu True] u(2) by auto
    then show ?thesis using vs(2) t u(1) suffix_order.trans [of r u s] sublist_of_suffix [of k u s] by (auto simp: has_key_array)
  next
    case False
    then have "js = [v]" "r = u" using 4(3) v cu by (auto split: if_splits)
    then show ?thesis using t u by (auto simp: has_key_array)
  qed
next
  case (6 d f s)
  then obtain q where q: "skip_space s = CHR 0x22 # q" by (auto split: list.splits if_splits)
  have sq: "suffix q s" "plain q" using space_suffix [OF q] plain_suffix [OF space_suffix [OF q]] 6(4) by auto
  obtain name x where name: "string_rest q = Some (name, x)" using 6(3) q by (auto split: option.splits)
  then have x: "suffix x q" "ascii name \<longrightarrow> prefix name q" using string_rest_suffix [OF name sq(2)] by auto
  obtain y where y: "skip_space x = CHR '':'' # y" using 6(3) q name by (auto split: list.splits if_splits)
  have sy: "suffix y s" "plain y" using space_suffix [OF y] x(1) sq plain_suffix suffix_order.trans by blast+
  obtain v t where v: "parse_value d f y = Some (v, t)" using 6(3) q name y by (auto split: option.splits)
  then have t: "suffix t y" "ascii k \<and> has_key k v \<longrightarrow> sublist k y" using 6(1) [OF q _ name refl y] sy(2) by auto
  obtain c u where cu: "skip_space t = c # u" using 6(3) q name y v by (auto split: list.splits)
  have u: "suffix u s" "plain u" using space_suffix [OF cu] t(1) sy(1) plain_suffix 6(4) suffix_order.trans by blast+
  have key: "ascii k \<and> (k = name \<or> has_key k v) \<longrightarrow> sublist k s"
    using t(2) x(2) sq(1) sy(1) sublist_of_suffix prefix_imp_sublist by metis
  show ?case
  proof (cases "c = CHR '',''")
    case True
    then obtain ms where ms: "parse_members d f u = Some (ms, r)" "kvs = (name, v) # ms" using 6(3) q name y v cu by auto
    then have "suffix r u \<and> (ascii k \<and> has_key k (JObj ms) \<longrightarrow> sublist k u)"
      using 6(2) [OF q _ name refl y _ v refl cu True] u(2) by auto
    then show ?thesis using ms(2) key u(1) suffix_order.trans [of r u s] sublist_of_suffix [of k u s] by (auto simp: has_key_object)
  next
    case False
    then have "kvs = [(name, v)]" "r = u" using 6(3) q name y v cu by (auto split: if_splits)
    then show ?thesis using key u by (auto simp: has_key_object)
  qed
qed simp_all

lemma parse_json_plain: "parse_json s = Some v \<Longrightarrow> plain s \<Longrightarrow> ascii k \<Longrightarrow> has_key k v \<Longrightarrow> sublist k s"
proof -
  assume s: "parse_json s = Some v" "plain s" "ascii k" "has_key k v"
  then obtain t where "parse_value 10000 (2 * length s + 2) s = Some (v, t)"
    unfolding parse_json_def by (auto simp del: parse_value.simps split: option.splits if_splits)
  from parse_plain(1) [OF this s(2), of k] show ?thesis using s by simp
qed

lemma contains_sublist: "contains s k \<longleftrightarrow> sublist k s"
  by (induction s) (auto simp: sublist_Cons_right has_prefix_def prefix_def; metis append_take_drop_id append_eq_conv_conj)+

lemma unsuspicious_safe: "\<not> suspicious s \<Longrightarrow> parse_json s = Some v \<Longrightarrow> \<not> leaks v"
proof
  assume s: "\<not> suspicious s" "parse_json s = Some v" "leaks v"
  then obtain k where k: "k \<in> {''headers'', ''authorization'', ''domain_secrets''}" "has_key k v" using leaks_key by blast
  then have "ascii k" by (auto simp: ascii_def)
  moreover have "plain s" using s(1) by (auto simp: suspicious_def)
  ultimately have "sublist k s" using parse_json_plain s(2) k(2) by blast
  then show False using s(1) k(1) by (auto simp: suspicious_def contains_sublist)
qed

text \<open>Property C11: a client that reads what the gateway passes on finds no credentials of a remote tool server and no
  secrets of a container's domains, be it an answer the gateway has rewritten or one it found nothing to remove from.\<close>
theorem secrets_never_leave:
  "sanitize_response_tools raw = Inr sent \<Longrightarrow>
   (case sent of Rewritten w \<Rightarrow> \<not> leaks w | As_it_was s \<Rightarrow> (case parse_json s of Some v \<Rightarrow> \<not> leaks v | None \<Rightarrow> True))"
proof -
  assume raw: "sanitize_response_tools raw = Inr sent"
  show ?thesis
  proof (cases "suspicious raw \<and> parse_json raw \<noteq> None")
    case False
    then have "sent = As_it_was raw" using raw
      by (cases "trim_space raw") (auto simp: sanitize_response_tools_def split: if_splits)
    then show ?thesis using False unsuspicious_safe by (auto split: option.splits)
  next
    case True
    then obtain v w changed where "parse_json raw = Some v" "clean 33 v = Inr (w, changed)"
      "sent = (if changed then Rewritten w else As_it_was raw)"
      using raw by (auto simp: sanitize_response_tools_def result_iff simp del: clean.simps)
    then show ?thesis using clean_safe [of 33 v w changed] by auto
  qed
qed

theorem secrets_never_leave_witness:
  \<open>sanitize_response_tools ''{"tools":[{"type":"mcp","headers":{"x":1}}]}'' = Inr (Rewritten (JObj [(''tools'', JArr [JObj [(''type'', JStr ''mcp'')]])])) \<and> \<not> leaks (JObj [(''tools'', JArr [JObj [(''type'', JStr ''mcp'')]])])\<close>
proof
  show sent: \<open>sanitize_response_tools ''{"tools":[{"type":"mcp","headers":{"x":1}}]}'' = Inr (Rewritten (JObj [(''tools'', JArr [JObj [(''type'', JStr ''mcp'')]])]))\<close>
    by code_simp
  show "\<not> leaks (JObj [(''tools'', JArr [JObj [(''type'', JStr ''mcp'')]])])" using secrets_never_leave [OF sent] by simp
qed

end
