(* ===== verification/Receipts.thy ===== *)
theory Receipts
  imports Hosted_Tools Settlement Selection Fast_Tier
begin

text \<open>
  From the usage of a request to its receipt: \<open>makeReceipt\<close> of \<open>settlement.go\<close> with the prices of images
  (\<open>gemini_images.go\<close>, \<open>response_images.go\<close>), videos (\<open>grok_video.go\<close>) and audio (\<open>grok_audio.go\<close>), and the parsing and metering of audio requests.
  The media prices of a group are a record of their own. The parser of media types and the parts of a multipart form are parameters.
\<close>

section \<open>Prices of media\<close>

text \<open>The fields that \<open>gatewayGroup\<close> has from \<open>imagePrices\<close>, \<open>videoPrices\<close> and \<open>audioPrices\<close>.\<close>

record media_prices =
  md_independent_image :: bool
  md_image_rate :: "json_number option"
  md_image_1k :: "json_number option"
  md_image_2k :: "json_number option"
  md_image_4k :: "json_number option"
  md_independent_video :: bool
  md_video_rate :: "json_number option"
  md_video_480 :: "json_number option"
  md_video_720 :: "json_number option"
  md_video_1080 :: "json_number option"
  md_video_models :: "(string \<times> (string \<times> json_number) list) list"
  md_tts :: "json_number option"
  md_stt :: "json_number option"
  md_realtime :: "json_number option"

definition image_rate :: "gateway_group \<Rightarrow> media_prices \<Rightarrow> json_number" where
  "image_rate g md = (case md_image_rate md of Some r \<Rightarrow> if md_independent_image md then r else gg_rate g | None \<Rightarrow> gg_rate g)"

definition video_rate :: "gateway_group \<Rightarrow> media_prices \<Rightarrow> json_number" where
  "video_rate g md = (case md_video_rate md of Some r \<Rightarrow> if md_independent_video md then r else gg_rate g | None \<Rightarrow> gg_rate g)"

definition video_family :: "string \<Rightarrow> string" where
  "video_family model =
     (let m = fold (\<lambda>p m. trim_prefix m p) [''xai/'', ''x-ai/'', ''grok/''] (to_lower (trim_space model)) in
      if List.member [''grok-video'', ''grok-video-latest'', ''grok-imagine-video-preview''] m then ''grok-imagine-video''
      else if List.member [''grok-video-1.5'', ''grok-imagine-video-1.5-preview''] m then ''grok-imagine-video-1.5''
      else m)"

definition empty_price :: model_price where
  "empty_price = \<lparr>mp_fast_ratio = None, mp_platform = [], mp_models = [], mp_billing_mode = [], mp_input = None, mp_output = None,
     mp_cache_write = None, mp_cache_write_1h = None, mp_cache_read = None, mp_image_input = None, mp_image_output = None,
     mp_per_request = None, mp_fast = None, mp_flex = None, mp_reasoning = [], mp_intervals = [], mp_time_pricing = None\<rparr>"

definition unit_price :: "string \<Rightarrow> string \<Rightarrow> string \<Rightarrow> json_number \<Rightarrow> model_price" where
  "unit_price platform model mode n =
     empty_price\<lparr>mp_platform := platform, mp_models := [model], mp_billing_mode := mode, mp_per_request := Some n\<rparr>"

text \<open>The fixed prices of the images of Grok; 4K shares the price of 2K.\<close>

definition grok_image_price :: "string \<Rightarrow> string \<Rightarrow> json_number option" where
  "grok_image_price model dims =
     (let m = to_lower (trim_space model);
          prices = (if List.member [''grok-imagine'', ''grok-imagine-image'', ''grok-imagine-edit''] m then Some (''0.02'', ''0.02'')
            else if m = ''grok-imagine-image-quality'' then Some (''0.05'', ''0.07'')
            else if m = ''grok-imagine-image-2.0'' then Some (''0.06'', ''0.08'') else None) in
      map_option (\<lambda>(small, large). if dims = ''1K'' then small else large) prices)"

definition image_factor :: "string \<Rightarrow> json_number option" where
  "image_factor dims = assoc [(''1K'', ''1''), (''2K'', ''1.5''), (''4K'', ''2'')] dims"

definition fallback_image_price :: "price_catalog option \<Rightarrow> string \<Rightarrow> string \<Rightarrow> string \<Rightarrow> json_number result" where
  "fallback_image_price c platform model dims = (case image_factor dims of
     None \<Rightarrow> Inl (bad ''invalid image billing size'')
   | Some factor \<Rightarrow>
       (let unit = (case lookup_price c platform model of
              Some p \<Rightarrow> if 0 < decimal_or (mp_per_request p) ''0'' then decimal_or (mp_per_request p) ''0'' else rat_val ''0.134''
            | None \<Rightarrow> rat_val ''0.134'') in
        Inr (float_string 10 (unit * rat_val factor))))"

text \<open>The card and the multiplier of a generated image.\<close>

definition generated_image_price ::
  "selection \<Rightarrow> string \<Rightarrow> gateway_group \<Rightarrow> media_prices \<Rightarrow> string \<Rightarrow> string \<Rightarrow> (model_price \<times> json_number) result" where
  "generated_image_price s platform g md model dims =
     (let channel_card = match_price (sn_pricing s) platform model;
          group_card = group_model_price (sn_group_pricing s) model;
          configured = or_else group_card channel_card in
      if sn_restrict s \<and> channel_card = None then Inl denied
      else if (case configured of Some p \<Rightarrow> mp_billing_mode p = [] \<or> mp_billing_mode p = ''token'' | None \<Rightarrow> False)
        then and_then (selection_price s platform model) (\<lambda>p. Inr (p, gg_rate g))
      else (case group_card of
          Some p \<Rightarrow> Inr (p\<lparr>mp_platform := platform, mp_models := [model]\<rparr>, image_rate g md)
        | None \<Rightarrow>
            (let own = (if dims = ''1K'' then md_image_1k md else if dims = ''2K'' then md_image_2k md
                        else if dims = ''4K'' then md_image_4k md else None) in
             case own of
               Some n \<Rightarrow> Inr (unit_price platform model ''image'' n, image_rate g md)
             | None \<Rightarrow> (case channel_card of
                 Some p \<Rightarrow> Inr (p, image_rate g md)
               | None \<Rightarrow>
                   and_then (case (if platform = ''grok'' then grok_image_price model dims else None) of
                       Some n \<Rightarrow> Inr n | None \<Rightarrow> fallback_image_price (sn_catalog s) platform model dims)
                     (\<lambda>n. Inr (unit_price platform model ''image'' n, image_rate g md))))))"

text \<open>A request whose images were all rejected costs nothing per image.\<close>

definition counted_card :: "price_usage \<Rightarrow> model_price \<Rightarrow> model_price" where
  "counted_card u p =
     (if u_image_count u = 0 \<and> (mp_billing_mode p = ''image'' \<or> mp_billing_mode p = ''per_request'')
      then p\<lparr>mp_per_request := Some ''0'', mp_intervals := []\<rparr> else p)"

definition generated_image_cost ::
  "tz_database \<Rightarrow> selection \<Rightarrow> string \<Rightarrow> gateway_group \<Rightarrow> media_prices \<Rightarrow> string \<Rightarrow> price_usage \<Rightarrow> string \<Rightarrow> string \<Rightarrow> instant \<Rightarrow>
   (price_cost \<times> string \<times> json_number) result" where
  "generated_image_cost tz s platform g md model u tier effort made =
     and_then (generated_image_price s platform g md model (if u_image_size u = [] then ''2K'' else u_image_size u)) (\<lambda>(price, rate).
       and_then (calculate_price tz (counted_card u price) (u\<lparr>u_requests := u_image_count u\<rparr>) rate
           (if mp_billing_mode price = ''token'' then tier else []) effort (u_image_size u) (Some made) (gg_long_context g)) (\<lambda>cost.
         Inr (cost, mp_billing_mode price, rate)))"

definition response_image_model :: "selection \<Rightarrow> image_config option \<Rightarrow> string \<Rightarrow> string \<Rightarrow> string" where
  "response_image_model s config requested response =
     (let m = (case config of Some c \<Rightarrow> ic_model c | None \<Rightarrow> ''gpt-image-2'') in
      if sn_source s = ''requested'' then requested
      else if sn_source s = ''upstream'' then sn_upstream_model s
      else if sn_source s = ''response_model'' then (if response \<noteq> [] then response else m)
      else if sn_source s = ''channel_mapped'' then (if sn_channel_model s \<noteq> requested then sn_channel_model s else m)
      else m)"

definition video_tier_price :: "media_prices \<Rightarrow> string \<Rightarrow> string \<Rightarrow> json_number option result" where
  "video_tier_price md model dims =
     (case Option.bind (assoc (md_video_models md) (video_family model)) (\<lambda>tiers. assoc tiers dims) of
        Some n \<Rightarrow> Inr (Some n)
      | None \<Rightarrow>
          (if dims = ''480p'' then Inr (md_video_480 md) else if dims = ''720p'' then Inr (md_video_720 md)
           else if dims = ''1080p'' then Inr (md_video_1080 md) else Inl (bad ''invalid video resolution'')))"

definition video_fallback :: "string \<Rightarrow> string \<Rightarrow> json_number" where
  "video_fallback model dims =
     (if video_family model = ''grok-imagine-video-1.5''
      then given (assoc [(''480p'', ''0.08''), (''720p'', ''0.14''), (''1080p'', ''0.25'')] dims) []
      else if dims = ''480p'' then ''0.05'' else ''0.07'')"

definition video_card :: "model_price option \<Rightarrow> json_number option \<Rightarrow> string \<Rightarrow> price_usage \<Rightarrow> model_price" where
  "video_card channel_card n model u =
     (let own = unit_price ''grok'' model ''video'' in
      case n of
        Some n \<Rightarrow> own n
      | None \<Rightarrow> (case channel_card of
          Some p \<Rightarrow> if List.member [''video'', ''per_request'', ''image''] (mp_billing_mode p) then p
            else own (video_fallback model (u_video_resolution u))
        | None \<Rightarrow> own (video_fallback model (u_video_resolution u))))"

definition video_cost ::
  "tz_database \<Rightarrow> selection \<Rightarrow> string \<Rightarrow> gateway_group \<Rightarrow> media_prices \<Rightarrow> string \<Rightarrow> price_usage \<Rightarrow> instant \<Rightarrow> price_cost result" where
  "video_cost tz s platform g md model u made =
     (let charge = (\<lambda>p. calculate_price tz p u (video_rate g md) [] [] (u_video_resolution u) (Some made) (gg_long_context g));
          channel_card = match_price (sn_pricing s) platform model;
          group_card = group_model_price (sn_group_pricing s) model in
      if sn_restrict s \<and> channel_card = None then Inl (bad ''video model is not in channel pricing'')
      else if (case group_card of Some p \<Rightarrow> mp_billing_mode p = ''video'' | None \<Rightarrow> False) then charge (the group_card)
      else and_then (video_tier_price md model (u_video_resolution u)) (\<lambda>n. charge (video_card channel_card n model u)))"


section \<open>Audio\<close>

record audio_request =
  ad_body :: string
  ad_content_type :: string
  ad_characters :: nat
  ad_model :: string
  ad_voice :: string

text \<open>A part of a form: its name, the name of its file, and its content, \<open>None\<close> when it cannot be read.\<close>

type_synonym form_part = "string \<times> string \<times> string option"

definition valid_voice_id :: "string \<Rightarrow> bool" where
  "valid_voice_id i \<longleftrightarrow> i \<noteq> [] \<and> length i \<le> 160 \<and>
     list_all (\<lambda>c. is_lower c \<or> is_upper c \<or> is_digit c \<or> c = CHR ''_'' \<or> c = CHR ''-'') i"

definition json_body :: "string \<Rightarrow> fields option" where
  "json_body raw = Option.bind (parse_json raw) (\<lambda>j. case as_fields (Some j) of Some m \<Rightarrow> m | None \<Rightarrow> None)"

definition misspelt :: "string list \<Rightarrow> fields \<Rightarrow> bool" where
  "misspelt names m \<longleftrightarrow> list_ex (\<lambda>(k, _). List.member names (to_lower k) \<and> k \<noteq> to_lower k) m"

definition case_error :: failure where
  "case_error = bad ''audio field names must use lowercase''"

definition audio_model :: "fields \<Rightarrow> string result" where
  "audio_model m = (case assoc m ''model'' of
     None \<Rightarrow> Inr []
   | Some v \<Rightarrow> (case as_string (Some v) of
       Some s \<Rightarrow> if valid_native_model s then Inr s else Inl (bad ''invalid audio model'')
     | None \<Rightarrow> Inl (bad ''invalid audio model'')))"

definition not_streamed :: "fields \<Rightarrow> bool" where
  "not_streamed m \<longleftrightarrow> (case assoc m ''stream'' of None \<Rightarrow> True | Some v \<Rightarrow> v = JBool False)"

definition voice_field :: "fields \<Rightarrow> string \<Rightarrow> string \<Rightarrow> string result" where
  "voice_field m voice name = (case assoc m name of
     None \<Rightarrow> Inr voice
   | Some v \<Rightarrow> (case as_string (Some v) of
       Some s \<Rightarrow> if valid_voice_id s \<and> (voice = [] \<or> voice = s) then Inr s else Inl (bad ''invalid or conflicting voice ID'')
     | None \<Rightarrow> Inl (bad ''invalid or conflicting voice ID'')))"

text \<open>What is spoken; the fields that tell it agree.\<close>

definition spoken_field :: "fields \<Rightarrow> string \<Rightarrow> string \<Rightarrow> string result" where
  "spoken_field m spoken name = (case assoc m name of
     None \<Rightarrow> Inr spoken
   | Some v \<Rightarrow> (case as_string (Some v) of
       None \<Rightarrow> Inl (bad ''invalid TTS text'')
     | Some s \<Rightarrow> (let text = trim_space s in
         if text = [] then Inr spoken
         else if spoken \<noteq> [] \<and> spoken \<noteq> text then Inl (bad ''conflicting TTS text fields'') else Inr text)))"

definition parse_tts :: "string \<Rightarrow> string \<Rightarrow> string \<Rightarrow> audio_request result" where
  "parse_tts content_type kind raw =
     (case (if kind \<noteq> ''application/json'' \<or> \<not> valid_utf8 raw then None else json_body raw) of
        None \<Rightarrow> Inl (bad ''TTS requires a JSON object'')
      | Some m \<Rightarrow>
          (if misspelt [''input'', ''text'', ''prompt'', ''model'', ''voice'', ''voice_id''] m then Inl case_error
           else and_then (each_with (voice_field m) [] [''voice'', ''voice_id'']) (\<lambda>voice.
             and_then (audio_model m) (\<lambda>model.
             if \<not> not_streamed m then Inl (bad ''TTS HTTP streaming is unsupported'')
             else and_then (each_with (spoken_field m) [] [''input'', ''text'', ''prompt'']) (\<lambda>spoken.
               if spoken = [] \<or> 60000 < rune_count spoken then Inl (bad ''TTS text must contain 1 to 60000 characters'')
               else Inr \<lparr>ad_body = marshal_json (object_of m), ad_content_type = content_type, ad_characters = rune_count spoken,
                      ad_model = model, ad_voice = voice\<rparr>)))))"

definition parse_stt_json :: "(string \<Rightarrow> url option) \<Rightarrow> string \<Rightarrow> string \<Rightarrow> audio_request result" where
  "parse_stt_json parse_url content_type raw =
     (case json_body raw of
        None \<Rightarrow> Inl (bad ''STT JSON requires an audio URL'')
      | Some m \<Rightarrow>
          (if \<not> valid_audio_url parse_url (credential_string m ''url'') then Inl (bad ''STT JSON requires an audio URL'')
           else and_then (audio_model m) (\<lambda>model.
             if \<not> not_streamed m then Inl (bad ''STT HTTP streaming is unsupported'')
             else if misspelt [''model''] m then Inl case_error
             else Inr \<lparr>ad_body = marshal_json (object_of m), ad_content_type = content_type, ad_characters = 0, ad_model = model, ad_voice = []\<rparr>)))"

text \<open>The state of the loop over the parts: files, addresses, parts, and the model.\<close>

definition audio_part ::
  "(string \<Rightarrow> url option) \<Rightarrow> nat \<times> nat \<times> nat \<times> string \<Rightarrow> form_part option \<Rightarrow> (nat \<times> nat \<times> nat \<times> string) result" where
  "audio_part parse_url st part = (case st of (files, urls, n, model) \<Rightarrow>
     (case part of
        None \<Rightarrow> Inl (bad ''invalid audio multipart body'')
      | Some (name, file, content) \<Rightarrow>
          (if 128 \<le> n then Inl (bad ''too many audio form fields'')
           else if file \<noteq> [] then
             (if name \<noteq> ''file'' then Inl (bad ''unexpected audio upload field'')
              else if given content [] = [] then Inl (bad ''empty or invalid audio upload'')
              else Inr (files + 1, urls, n + 1, model))
           else if 0 < files then Inl (bad ''STT options must precede the audio file'')
           else (case content of
               None \<Rightarrow> Inl (bad ''audio form field exceeds limit'')
             | Some v \<Rightarrow>
                 (if 8192 < length v then Inl (bad ''audio form field exceeds limit'')
                  else if name = ''url'' \<and> \<not> valid_audio_url parse_url v then Inl (bad ''invalid audio URL'')
                  else if name = ''stream'' \<and> v \<noteq> ''false'' then Inl (bad ''STT HTTP streaming is unsupported'')
                  else if equal_fold name ''model'' \<and> (\<not> valid_native_model v \<or> model \<noteq> [] \<and> model \<noteq> v)
                    then Inl (bad ''invalid or conflicting audio model'')
                  else Inr (files, (if name = ''url'' then urls + 1 else urls), n + 1, (if equal_fold name ''model'' then v else model)))))))"

definition parse_audio_request ::
  "(string \<Rightarrow> (string \<times> (string \<times> string) list) option) \<Rightarrow> (string \<Rightarrow> string \<Rightarrow> form_part option list) \<Rightarrow> (string \<Rightarrow> url option) \<Rightarrow>
   string \<Rightarrow> string \<Rightarrow> string \<Rightarrow> audio_request result" where
  "parse_audio_request media parts parse_url protocol content_type raw =
     (let content_type = (if content_type = [] then ''application/json'' else content_type) in
      case media content_type of
        None \<Rightarrow> Inl (bad ''invalid audio content type'')
      | Some (kind, params) \<Rightarrow>
          (if protocol = ''tts'' then parse_tts content_type kind raw
           else if kind = ''application/json'' then parse_stt_json parse_url content_type raw
           else if kind \<noteq> ''multipart/form-data'' \<or> given (assoc params ''boundary'') [] = []
             then Inl (bad ''STT requires multipart audio or a JSON URL'')
           else and_then (each_with (audio_part parse_url) (0, 0, 0, []) (parts (given (assoc params ''boundary'') []) raw)) (\<lambda>(files, urls, _, model).
             if files + urls \<noteq> 1 then Inl (bad ''STT requires exactly one audio file or URL'')
             else Inr \<lparr>ad_body = raw, ad_content_type = content_type, ad_characters = 0, ad_model = model, ad_voice = []\<rparr>)))"

text \<open>The seconds a transcription tells, or those that passed.\<close>

definition told_seconds :: "json option \<Rightarrow> rat option" where
  "told_seconds v = (case v of
     Some (JNum n) \<Rightarrow> if valid_price (Some n) 10 8 \<and> 0 < rat_val n then Some (rat_val n) else None
   | _ \<Rightarrow> None)"

definition audio_usage :: "audio_request \<Rightarrow> string \<Rightarrow> string \<Rightarrow> int \<Rightarrow> price_usage result" where
  "audio_usage inp protocol raw elapsed =
     (if raw = [] then Inl (ApiError 502 ''empty upstream audio response'')
      else if protocol = ''tts'' then Inr (no_usage\<lparr>u_audio_units := rat_string (of_nat (ad_characters inp) / 1000000)\<rparr>)
      else (case json_body raw of
          None \<Rightarrow> Inl (ApiError 502 ''invalid upstream transcription'')
        | Some m \<Rightarrow>
            (if present (assoc m ''error'') then Inl (ApiError 502 ''invalid upstream transcription'')
             else if (case (assoc m ''text'', assoc m ''channels'') of
                 (Some (JStr _), _) \<Rightarrow> False | (_, Some (JArr (_ # _))) \<Rightarrow> False | _ \<Rightarrow> True)
               then Inl (ApiError 502 ''upstream transcription result is missing'')
             else (let usage = (case as_fields (assoc m ''usage'') of Some (Some u) \<Rightarrow> u | _ \<Rightarrow> []);
                       told = find_map told_seconds (map (assoc m) [''duration'', ''duration_seconds'', ''audio_duration''] @ [assoc usage ''seconds'']);
                       seconds = (case told of Some s \<Rightarrow> s | None \<Rightarrow> of_int (max elapsed 1) / of_int second) in
               Inr (no_usage\<lparr>u_audio_units := rat_string (seconds / 3600)\<rparr>)))))"

definition plain_cost :: "rat \<Rightarrow> json_number \<Rightarrow> price_cost" where
  "plain_cost amount rate =
     \<lparr>c_input = ''0'', c_output = ''0'', c_cache_write = ''0'', c_cache_read = ''0'', c_image_input = ''0'', c_image_output = ''0'',
      c_total = float_string 10 amount, c_actual = float_string 10 (amount * rat_val rate), c_debit = float_string 8 (amount * rat_val rate),
      c_total_value = amount\<rparr>"

definition group_audio_cost :: "gateway_group \<Rightarrow> media_prices \<Rightarrow> string \<Rightarrow> string \<Rightarrow> price_cost result" where
  "group_audio_cost g md protocol units =
     (let (price, fallback) = (if protocol = ''stt'' then (md_stt md, ''0.10'') else if protocol = ''realtime'' then (md_realtime md, ''0.05'')
            else (md_tts md, ''15'')) in
      case rat_text units of
        Some u \<Rightarrow>
          (if \<not> voice_protocol protocol \<or> u < 0 \<or> \<not> valid_price price 12 8 \<or> \<not> valid_price (Some (gg_rate g)) 6 4
             then Inl (Internal ''invalid audio billing units or price'')
           else Inr (plain_cost (decimal_or price fallback * u) (gg_rate g)))
      | None \<Rightarrow> Inl (Internal ''invalid audio billing units or price''))"

definition audio_cost ::
  "tz_database \<Rightarrow> selection \<Rightarrow> string \<Rightarrow> gateway_group \<Rightarrow> media_prices \<Rightarrow> string \<Rightarrow> string \<Rightarrow> instant \<Rightarrow> price_cost result" where
  "audio_cost tz s platform g md model units made = (case selection_price s platform model of
     Inr p \<Rightarrow>
       (if mp_billing_mode p = ''per_request''
        then calculate_price tz p (no_usage\<lparr>u_audio_units := units\<rparr>) (gg_rate g) [] [] (sn_audio s) (Some made) (gg_long_context g)
        else group_audio_cost g md (sn_audio s) units)
   | Inl _ \<Rightarrow> group_audio_cost g md (sn_audio s) units)"


section \<open>The receipt\<close>

record stats_rule =
  sr_accounts :: "int list"
  sr_groups :: "int list"
  sr_pricing :: "model_price list"

text \<open>What \<open>makeReceipt\<close> is given besides the identity and the selection.\<close>

record receipt_input =
  ri_request :: string
  ri_requested :: string
  ri_response :: string
  ri_tier :: string
  ri_effort :: string
  ri_usage :: price_usage
  ri_stream :: bool
  ri_duration :: int
  ri_first_token :: int
  ri_at :: instant
  ri_payload :: string
  ri_ip :: string
  ri_agent :: string
  ri_inbound :: string
  ri_upstream_request :: string

text \<open>The part of the selection that \<open>Selection\<close> does not read: the options of a hosted image tool, and the rules of the statistics.\<close>

record tariff =
  tf_media :: media_prices
  tf_image :: "image_config option"
  tf_rules :: "stats_rule list"

definition receipt_model :: "selection \<Rightarrow> string \<Rightarrow> string \<Rightarrow> string" where
  "receipt_model s requested response =
     (if sn_source s = ''requested'' then requested
      else if sn_source s = ''upstream'' then sn_upstream_model s
      else if sn_source s = ''response_model'' then (if response \<noteq> [] then response else sn_channel_model s)
      else sn_channel_model s)"

text \<open>How a request is priced: the model, the card for tokens (empty for media), its mode, the cost, and the multiplier.\<close>

definition image_request :: "selection \<Rightarrow> tariff \<Rightarrow> string \<Rightarrow> price_usage \<Rightarrow> bool" where
  "image_request s tf platform u \<longleftrightarrow>
     u_image_request u \<and> (platform = ''openai'' \<or> platform = ''grok'') \<or>
     (0 < u_image_count u \<or> u_image_request u) \<and> platform = ''gemini''"

definition hosted_image :: "tariff \<Rightarrow> price_usage \<Rightarrow> bool" where
  "hosted_image tf u \<longleftrightarrow> 0 < u_image_count u \<and> tf_image tf \<noteq> None"

definition price_request ::
  "tz_database \<Rightarrow> gateway_identity \<Rightarrow> selection \<Rightarrow> tariff \<Rightarrow> string \<Rightarrow> receipt_input \<Rightarrow>
   (string \<times> model_price \<times> price_cost \<times> json_number) result" where
  "price_request tz g s tf platform ri =
     (let u = ri_usage ri; gg = gi_group g; md = tf_media tf; plain = receipt_model s (ri_requested ri) (ri_response ri);
          media = (\<lambda>mode. empty_price\<lparr>mp_billing_mode := mode\<rparr>);
          images = (\<lambda>model. and_then (generated_image_cost tz s platform gg md model u (ri_tier ri) (ri_effort ri) (ri_at ri))
            (\<lambda>(cost, mode, rate). Inr (model, media mode, cost, rate))) in
      if hosted_image tf u \<and> platform = ''openai'' then images (response_image_model s (tf_image tf) (ri_requested ri) (ri_response ri))
      else if image_request s tf platform u then images plain
      else if 0 < u_video_count u then
        and_then (video_cost tz s platform gg md plain u (ri_at ri)) (\<lambda>cost. Inr (plain, media ''video'', cost, gg_rate gg))
      else if sn_audio s \<noteq> [] then
        and_then (audio_cost tz s platform gg md plain (u_audio_units u) (ri_at ri)) (\<lambda>cost. Inr (plain, media ''per_request'', cost, gg_rate gg))
      else if sn_search s \<noteq> [] then
        and_then (search_cost gg (sn_search s)) (\<lambda>cost.
          Inr (if grok_search_protocol (sn_search s) then ''grok-'' @ map (\<lambda>c. if c = CHR ''_'' then CHR ''-'' else c) (sn_search s) else plain,
            media ''per_request'', cost, gg_rate gg))
      else and_then (selection_price s platform plain) (\<lambda>p.
        and_then (calculate_price tz p u (gg_rate gg) (ri_tier ri) (ri_effort ri) [] (Some (ri_at ri)) (gg_long_context gg)) (\<lambda>cost.
          Inr (plain, p, cost, gg_rate gg))))"

definition with_searches :: "selection \<Rightarrow> string \<Rightarrow> gateway_group \<Rightarrow> json_number \<Rightarrow> price_usage \<Rightarrow> price_cost \<Rightarrow> price_cost result" where
  "with_searches s platform g rate u cost =
     (if u_search_calls u \<le> 0 then Inr cost
      else if platform \<noteq> ''grok'' \<and> platform \<noteq> ''openai'' \<or> sn_search s \<noteq> [] then Inl (bad ''unexpected hosted search usage'')
      else add_hosted_search_cost cost g (u_search_calls u) rate)"

text \<open>Groups that give the fast tier away charge the customer as for the standard tier; what the tier costs is kept.\<close>

definition concession :: "gateway_identity \<Rightarrow> selection \<Rightarrow> string \<Rightarrow> receipt_input \<Rightarrow> bool" where
  "concession g s platform ri \<longleftrightarrow>
     gg_free_fast (gi_group g) \<and> openai_fast_scope (gi_source g) (gg_platform (gi_group g)) \<and> platform = ''openai'' \<and>
     (ri_tier ri = ''priority'' \<or> ri_tier ri = ''fast'') \<and> u_video_count (ri_usage ri) = 0 \<and> sn_audio s = [] \<and> sn_search s = []"

definition standard_cost ::
  "tz_database \<Rightarrow> gateway_identity \<Rightarrow> selection \<Rightarrow> tariff \<Rightarrow> string \<Rightarrow> receipt_input \<Rightarrow> string \<Rightarrow> model_price \<Rightarrow> json_number \<Rightarrow> price_cost result" where
  "standard_cost tz g s tf platform ri model p rate =
     (let u = ri_usage ri; gg = gi_group g in
      and_then (if hosted_image tf u
          then and_then (generated_image_cost tz s platform gg (tf_media tf) model u [] (ri_effort ri) (ri_at ri)) (\<lambda>(cost, _). Inr cost)
          else calculate_price tz p u rate [] (ri_effort ri) [] (Some (ri_at ri)) (gg_long_context gg)) (\<lambda>cost.
        if 0 < u_search_calls u then add_hosted_search_cost cost gg (u_search_calls u) rate else Inr cost))"

definition charged_cost ::
  "tz_database \<Rightarrow> gateway_identity \<Rightarrow> selection \<Rightarrow> tariff \<Rightarrow> string \<Rightarrow> receipt_input \<Rightarrow> (string \<times> string \<times> price_cost \<times> json_number) result" where
  "charged_cost tz g s tf platform ri =
     and_then (price_request tz g s tf platform ri) (\<lambda>(model, p, cost, rate).
     and_then (with_searches s platform (gi_group g) rate (ri_usage ri) cost) (\<lambda>cost.
     if concession g s platform ri
       then and_then (standard_cost tz g s tf platform ri model p rate) (\<lambda>standard.
         Inr (model, mp_billing_mode p, cost\<lparr>c_actual := c_actual standard, c_debit := c_debit standard\<rparr>, rate))
       else Inr (model, mp_billing_mode p, cost, rate)))"

text \<open>The statistics of an account: the first price, in the order of the rules, of a rule that applies.\<close>

definition stats_prices :: "gateway_identity \<Rightarrow> string \<Rightarrow> int \<Rightarrow> string \<Rightarrow> stats_rule list \<Rightarrow> model_price list" where
  "stats_prices g platform account model rules =
     concat (map (\<lambda>r. filter (\<lambda>p. mp_platform p = platform \<and>
         list_ex (\<lambda>pattern. pattern_matches (pricing_name pattern) (pricing_name model)) (mp_models p)) (sr_pricing r))
       (filter (\<lambda>r. List.member (sr_accounts r) account \<or> List.member (sr_groups r) (gk_group (gi_key g))) rules))"

definition account_stats ::
  "tz_database \<Rightarrow> gateway_identity \<Rightarrow> selection \<Rightarrow> tariff \<Rightarrow> string \<Rightarrow> int \<Rightarrow> string \<Rightarrow> receipt_input \<Rightarrow> price_cost \<Rightarrow> string option result" where
  "account_stats tz g s tf platform account model ri cost =
     (if \<not> sn_apply s then Inr None
      else (case stats_prices g platform account model (tf_rules tf) of
          [] \<Rightarrow> Inr (Some (c_total cost))
        | p # _ \<Rightarrow> (let u = ri_usage ri in
            and_then (calculate_price tz p u ''1'' [] (ri_effort ri) (if 0 < u_image_count u then u_image_size u else u_video_resolution u)
              (Some (ri_at ri)) (gg_long_context (gi_group g))) (\<lambda>c. Inr (Some (c_total c))))))"

definition positive_extra :: "upstream_account \<Rightarrow> bool" where
  "positive_extra a \<longleftrightarrow> list_ex (\<lambda>k. 0 < rat_val (extra_number (ua_extra a) k)) [''quota_limit'', ''quota_daily_limit'', ''quota_weekly_limit'']"

definition receipt_body ::
  "gateway_identity \<Rightarrow> selection \<Rightarrow> tariff \<Rightarrow> upstream_account \<Rightarrow> receipt_input \<Rightarrow> string \<Rightarrow> string \<Rightarrow> price_cost \<Rightarrow> json_number \<Rightarrow> string option \<Rightarrow> receipt" where
  "receipt_body g s tf a ri model mode cost rate stats =
     (let platform = ua_platform a; k = gi_key g; u = ri_usage ri in
      \<lparr>rc_websocket = False, rc_request = ri_request ri, rc_payload = ri_payload ri, rc_fingerprint = [], rc_user = gi_user g,
       rc_key = gk_id k, rc_account = ua_id a, rc_group = gk_group k, rc_channel = sn_channel s,
       rc_platform = (if gi_routing g \<noteq> None \<and> gi_source g \<noteq> ''composite'' then gi_source g else platform), rc_model = model,
       rc_requested = ri_requested ri, rc_upstream_model = sn_upstream_model s, rc_response_model = ri_response ri, rc_tier = ri_tier ri,
       rc_effort = ri_effort ri, rc_cost = cost,
       rc_user_rate = (if 0 < u_video_count u then video_rate (gi_group g) (tf_media tf) else rate), rc_account_rate = sn_rate s,
       rc_account_raw = float_string 10 (c_total_value cost * rat_val (sn_rate s)),
       rc_account_debit = float_string 8 (c_total_value cost * rat_val (sn_rate s)), rc_account_stats = stats,
       rc_key_quota = 0 < rat_val (gk_quota k),
       rc_key_windows = list_ex (\<lambda>n. 0 < rat_val n) [gk_limit_5h k, gk_limit_1d k, gk_limit_7d k], rc_account_quota = positive_extra a,
       rc_usage = u, rc_stream = ri_stream ri, rc_native_compaction = False, rc_duration = ri_duration ri,
       rc_first_token = ri_first_token ri, rc_at = ri_at ri, rc_ip = ri_ip ri, rc_agent = truncate_runes (ri_agent ri) 512,
       rc_inbound = ri_inbound ri, rc_upstream = [], rc_upstream_request = clean_request_id (ri_upstream_request ri),
       rc_billing_mode = (if mode = [] then ''token'' else mode), rc_requested_effort = None\<rparr>)"

definition make_receipt ::
  "(string \<Rightarrow> string) \<Rightarrow> tz_database \<Rightarrow> gateway_identity \<Rightarrow> selection \<Rightarrow> tariff \<Rightarrow> upstream_account \<Rightarrow> receipt_input \<Rightarrow> receipt result" where
  "make_receipt digest tz g s tf a ri =
     and_then (charged_cost tz g s tf (ua_platform a) ri) (\<lambda>(model, mode, cost, rate).
     and_then (account_stats tz g s tf (ua_platform a) (ua_id a) model ri cost) (\<lambda>stats.
       if 100 < length model \<or> 200 < length (ri_response ri) \<or> 16 < length (ri_tier ri) \<or> 20 < length (ri_effort ri)
         then Inl (ApiError 502 ''upstream billing metadata exceeds limits'')
       else (let r = receipt_body g s tf a ri model mode cost rate stats in Inr (r\<lparr>rc_fingerprint := fingerprint_of digest r\<rparr>))))"

end
