(* ===== verification/Receipt_Facts.thy ===== *)
theory Receipt_Facts
  imports Receipts Charges Gateway_Facts Pricing_Examples Go_Text_Facts
begin

text \<open>
  What a receipt charges: amounts that are never negative and rounded once, a fingerprint of its own contents, and a free fast
  tier that changes nothing but the customer's charge.
\<close>

section \<open>Amounts\<close>

text \<open>The ratios that price cards take over from the catalog; cards of groups and channels have none.\<close>

definition catalog_cards :: "selection \<Rightarrow> model_price list" where
  "catalog_cards s = (case sn_catalog s of None \<Rightarrow> [] | Some c \<Rightarrow> map snd (pc_index c))"

definition ratios_ok :: "selection \<Rightarrow> bool" where
  "ratios_ok s \<longleftrightarrow> list_all (\<lambda>p. nonneg_opt (mp_fast_ratio p)) (sn_pricing s @ sn_group_pricing s @ catalog_cards s)"

abbreviation ratio_ok :: "model_price \<Rightarrow> bool" where
  "ratio_ok p \<equiv> nonneg_opt (mp_fast_ratio p)"

lemma find_map_mem: "find_map f xs = Some y \<Longrightarrow> \<exists>x \<in> set xs. f x = Some y"
  by (induction xs) (auto split: option.splits)

lemma match_price_mem: "match_price ps platform m = Some p \<Longrightarrow> p \<in> set ps"
  by (auto simp: match_price_def find_Some_iff dest!: find_map_mem)

lemma first_wildcard_mem: "first_wildcard m ps matched = Some p \<Longrightarrow> matched = Some p \<or> p \<in> snd ` set ps"
  by (induction m ps matched rule: first_wildcard.induct) (auto split: if_splits)

lemma group_model_price_mem: "group_model_price cards m = Some p \<Longrightarrow> p \<in> set cards"
  by (auto simp: group_model_price_def dest!: first_wildcard_mem)

lemma lookup_names_mem: "lookup_names index platform names = Some p \<Longrightarrow> p \<in> snd ` set index"
proof (induction index platform names rule: lookup_names.induct)
  case (2 index platform candidate names)
  have found: "assoc index k = Some q \<Longrightarrow> q \<in> snd ` set index" for k q
    by (force simp: assoc_eq_map_of dest: map_of_SomeD)
  show ?case
  proof (cases "platform = []")
    case False
    then show ?thesis using 2 found by (auto split: option.splits)
  next
    case True
    let ?found = "List.map_filter (\<lambda>provider. assoc index (provider, candidate)) providers"
    consider "?found = []" | q where "?found = [q]" | q q' qs where "?found = q # q' # qs" by (cases ?found rule: remdups_adj.cases) auto
    then show ?thesis
    proof cases
      case 1
      then show ?thesis using 2 True by auto
    next
      case (2 q)
      then have "q \<in> set ?found" by simp
      then have "q \<in> snd ` set index" using found by (auto simp: map_filter_def)
      then show ?thesis using \<open>lookup_names index platform (candidate # names) = Some p\<close> True 2 by auto
    next
      case 3
      then show ?thesis using \<open>lookup_names index platform (candidate # names) = Some p\<close> True by auto
    qed
  qed
qed simp

lemma ratios_ok_cards:
  assumes "ratios_ok s"
  shows "match_price (sn_pricing s) platform m = Some p \<Longrightarrow> ratio_ok p" "group_model_price (sn_group_pricing s) m = Some p \<Longrightarrow> ratio_ok p"
    "reference_for (sn_catalog s) platform m = Some p \<Longrightarrow> ratio_ok p"
proof -
  show "match_price (sn_pricing s) platform m = Some p \<Longrightarrow> ratio_ok p" "group_model_price (sn_group_pricing s) m = Some p \<Longrightarrow> ratio_ok p"
    using assms match_price_mem group_model_price_mem by (auto simp: ratios_ok_def list_all_iff)
  have "ratio_ok q" if "lookup_price (sn_catalog s) platform' m = Some q" for q platform'
    using that assms lookup_names_mem by (fastforce simp: lookup_price_def ratios_ok_def catalog_cards_def list_all_iff split: option.splits)
  then show "reference_for (sn_catalog s) platform m = Some p \<Longrightarrow> ratio_ok p"
    by (auto simp: reference_for_def or_else_def split: option.splits)
qed

lemma resolved_ratio:
  assumes "ratios_ok s" "resolved_model_price (sn_catalog s) configured platform m r = Inr p" "\<And>q. q \<in> set configured \<Longrightarrow> ratio_ok q"
  shows "ratio_ok p"
  using assms(2) assms(3) match_price_mem ratios_ok_cards(3) [OF assms(1)]
  by (fastforce simp: resolved_model_price_def inherit_price_def split: option.splits if_splits)

lemma selection_price_ratio:
  assumes "ratios_ok s" "selection_price s platform m = Inr p"
  shows "ratio_ok p"
proof (cases "group_model_price (sn_group_pricing s) m")
  case None
  have "\<And>q. q \<in> set (sn_pricing s) \<Longrightarrow> ratio_ok q" using assms(1) by (auto simp: ratios_ok_def list_all_iff)
  then show ?thesis using resolved_ratio [OF assms(1)] assms(2) None
    by (auto simp: selection_price_def effective_model_price_def split: if_splits)
next
  case (Some q)
  then have "ratio_ok q" using ratios_ok_cards(2) assms(1) by blast
  then show ?thesis using resolved_ratio [OF assms(1)] assms(2) Some
    by (force simp: selection_price_def effective_model_price_def Let_def split: if_splits)
qed

text \<open>Amounts that charge the customer.\<close>

definition cost_ok :: "price_cost \<Rightarrow> bool" where
  "cost_ok c \<longleftrightarrow> 0 \<le> c_total_value c \<and> 0 \<le> rat_val (c_debit c)"

lemma calculated_ok:
  assumes "calculate_price tz p u rate tier effort label made long = Inr c" "ratio_ok p"
  shows "cost_ok c" "0 \<le> rat_val rate"
proof -
  obtain amounts where a: "amount_of tz p u tier effort label made long = Inr amounts"
    "c_total_value c = sum_list amounts" "c_debit c = float_string 8 (sum_list amounts * rat_val rate)"
    "card_nonneg p" "valid_price (Some rate) 6 4" "usage_ok u"
    "validate_time_price tz (mp_time_pricing (with_card_defaults p)) = Inr ()"
    using assms(1) by (rule calculate_price_Inr)
  show rate: "0 \<le> rat_val rate" using a(5) by (simp add: rat_val_nonneg_if_valid)
  have "0 \<le> sum_list amounts" using amount_of_nonneg [OF a(1,4,6) assms(2) a(7)] .
  then show "cost_ok c" using a(2,3) rate
    by (simp add: cost_ok_def rat_val_float_string round_half_away_nonneg)
qed

lemma search_cost_ok:
  assumes "search_cost g protocol = Inr c"
  shows "cost_ok c" "0 \<le> rat_val (gg_rate g)"
proof -
  obtain price k where c: "standalone_search_cost price (gg_rate g) k = Inr c" using assms
    by (auto simp: search_cost_def alpha_search_cost_def split: if_splits)
  then have v: "valid_price price 12 8" "valid_price (Some (gg_rate g)) 6 4" by (auto simp: standalone_search_cost_def split: if_splits)
  show rate: "0 \<le> rat_val (gg_rate g)" using v(2) by (simp add: rat_val_nonneg_if_valid)
  have "rat_val ''5'' = 5" "rat_val ''0.01'' = 1 / 100" by code_simp+
  then have "0 \<le> decimal_or price (if k then ''5'' else ''0.01'')"
    using v(1) nonneg_if_valid by (intro decimal_or_nonneg) auto
  then show "cost_ok c" using c rate
    by (auto simp: standalone_search_cost_def Let_def cost_ok_def rat_val_float_string round_half_away_nonneg split: if_splits)
qed

lemma hosted_search_ok:
  assumes "add_hosted_search_cost cost g n rate = Inr c" "cost_ok cost" "0 \<le> rat_val rate"
  shows "cost_ok c"
proof -
  obtain search where s: "search_cost g ''web_search'' = Inr search" and n: "0 \<le> n"
    and c: "c = cost\<lparr>c_total_value := c_total_value cost + c_total_value search * of_int n,
      c_total := float_string 10 (c_total_value cost + c_total_value search * of_int n),
      c_actual := float_string 10 (c_total_value cost * rat_val rate + c_total_value search * of_int n * rat_val (gg_rate g)),
      c_debit := float_string 8 (c_total_value cost * rat_val rate + c_total_value search * of_int n * rat_val (gg_rate g))\<rparr>"
    using assms(1) by (auto simp: add_hosted_search_cost_def Let_def result_iff split: if_splits)
  have "0 \<le> c_total_value search * of_int n" "0 \<le> rat_val (gg_rate g)" using search_cost_ok [OF s] n by (auto simp: cost_ok_def)
  then show ?thesis using assms(2,3) by (auto simp: c cost_ok_def rat_val_float_string round_half_away_nonneg)
qed

lemma unit_price_ratio [simp]: "ratio_ok (unit_price platform m mode n)" "ratio_ok empty_price" "ratio_ok (empty_price\<lparr>mp_billing_mode := mode\<rparr>)"
  by (simp_all add: unit_price_def empty_price_def nonneg_opt_def)

lemma image_price_ratio:
  assumes "ratios_ok s" "generated_image_price s platform g md m dims = Inr (p, rate)"
  shows "ratio_ok p"
proof -
  consider "selection_price s platform m = Inr p"
    | q where "group_model_price (sn_group_pricing s) m = Some q" "mp_fast_ratio p = mp_fast_ratio q"
    | "match_price (sn_pricing s) platform m = Some p" | n where "p = unit_price platform m ''image'' n"
    using assms(2) unfolding generated_image_price_def Let_def if_Inl_Inr_iff and_then_Inr_iff
    by (auto simp: result_iff split: if_splits option.splits)
  then show ?thesis using selection_price_ratio [OF assms(1)] ratios_ok_cards(1,2) [OF assms(1)]
    by cases auto
qed

lemma image_cost_ok:
  assumes "generated_image_cost tz s platform g md m u tier effort made = Inr (c, mode, rate)" "ratios_ok s"
  shows "cost_ok c" "0 \<le> rat_val rate"
proof -
  obtain price where price: "generated_image_price s platform g md m (if u_image_size u = [] then ''2K'' else u_image_size u) = Inr (price, rate)"
    and calc: "calculate_price tz (counted_card u price) (u\<lparr>u_requests := u_image_count u\<rparr>) rate
        (if mp_billing_mode price = ''token'' then tier else []) effort (u_image_size u) (Some made) (gg_long_context g) = Inr c"
    using assms(1) unfolding generated_image_cost_def and_then_Inr_iff split_paired_Ex prod.case by blast
  have "ratio_ok (counted_card u price)" using image_price_ratio [OF assms(2) price] by (simp add: counted_card_def)
  then show "cost_ok c" "0 \<le> rat_val rate" using calculated_ok [OF calc] by auto
qed

lemma video_cost_ok: "video_cost tz s platform g md m u made = Inr c \<Longrightarrow> ratios_ok s \<Longrightarrow> cost_ok c"
  using ratios_ok_cards(1,2) [of s] calculated_ok(1)
  by (fastforce simp: video_cost_def Let_def result_iff video_card_def split: if_splits option.splits)

lemma group_audio_cost_ok: "group_audio_cost g md protocol units = Inr c \<Longrightarrow> cost_ok c"
proof -
  assume c: "group_audio_cost g md protocol units = Inr c"
  obtain price fallback where pf: "(if protocol = ''stt'' then (md_stt md, ''0.10'') else if protocol = ''realtime'' then (md_realtime md, ''0.05'')
      else (md_tts md, ''15'')) = (price, fallback)" by force
  have "rat_val ''15'' = 15" "rat_val ''0.10'' = 1 / 10" "rat_val ''0.05'' = 1 / 20" by code_simp+
  then have "0 \<le> rat_val fallback" using pf by (auto split: if_splits)
  obtain u where u: "0 \<le> u" "valid_price price 12 8" "valid_price (Some (gg_rate g)) 6 4" and c: "c = plain_cost (decimal_or price fallback * u) (gg_rate g)"
    using c pf by (auto simp: group_audio_cost_def not_less split: option.splits if_splits)
  have "0 \<le> decimal_or price fallback * u" "0 \<le> rat_val (gg_rate g)"
    using u \<open>0 \<le> rat_val fallback\<close> nonneg_if_valid by (auto intro!: decimal_or_nonneg mult_nonneg_nonneg rat_val_nonneg_if_valid)
  then show ?thesis by (simp add: c plain_cost_def cost_ok_def rat_val_float_string round_half_away_nonneg)
qed

lemma audio_cost_ok: "audio_cost tz s platform g md m units made = Inr c \<Longrightarrow> ratios_ok s \<Longrightarrow> cost_ok c"
  using selection_price_ratio [of s platform m] calculated_ok(1) group_audio_cost_ok
  by (fastforce simp: audio_cost_def split: sum.splits if_splits)

text \<open>The ways to price a request.\<close>

lemma price_requestE:
  assumes "price_request tz g s tf platform ri = Inr (m, p, c, rate)"
  obtains (image) mode where "p = empty_price\<lparr>mp_billing_mode := mode\<rparr>"
      "generated_image_cost tz s platform (gi_group g) (tf_media tf) m (ri_usage ri) (ri_tier ri) (ri_effort ri) (ri_at ri) = Inr (c, mode, rate)"
    | (video) m' mode where "p = empty_price\<lparr>mp_billing_mode := mode\<rparr>" "rate = gg_rate (gi_group g)"
      "video_cost tz s platform (gi_group g) (tf_media tf) m' (ri_usage ri) (ri_at ri) = Inr c"
    | (audio) m' mode where "p = empty_price\<lparr>mp_billing_mode := mode\<rparr>" "rate = gg_rate (gi_group g)"
      "audio_cost tz s platform (gi_group g) (tf_media tf) m' (u_audio_units (ri_usage ri)) (ri_at ri) = Inr c"
    | (search) mode where "p = empty_price\<lparr>mp_billing_mode := mode\<rparr>" "rate = gg_rate (gi_group g)" "search_cost (gi_group g) (sn_search s) = Inr c"
    | (token) m' where "rate = gg_rate (gi_group g)" "selection_price s platform m' = Inr p"
      "calculate_price tz p (ri_usage ri) (gg_rate (gi_group g)) (ri_tier ri) (ri_effort ri) [] (Some (ri_at ri)) (gg_long_context (gi_group g)) = Inr c"
proof -
  note parsed = assms [unfolded price_request_def Let_def]
  consider "hosted_image tf (ri_usage ri) \<and> platform = ''openai''"
    | "\<not> (hosted_image tf (ri_usage ri) \<and> platform = ''openai'')" "image_request s tf platform (ri_usage ri)"
    | "\<not> (hosted_image tf (ri_usage ri) \<and> platform = ''openai'')" "\<not> image_request s tf platform (ri_usage ri)" by blast
  then show thesis
  proof cases
    case 1
    show ?thesis using parsed [unfolded if_P [OF 1]] image by (simp only: and_then_Inr_iff split_paired_Ex prod.case) auto
  next
    case 2
    show ?thesis using parsed [unfolded if_not_P [OF 2(1)] if_P [OF 2(2)]] image by (simp only: and_then_Inr_iff split_paired_Ex prod.case) auto
  next
    case 3
    note parsed = parsed [unfolded if_not_P [OF 3(1)] if_not_P [OF 3(2)]]
    show ?thesis
    proof (cases "0 < u_video_count (ri_usage ri)")
      case True
      then show ?thesis using parsed video by (simp only: if_True and_then_Inr_iff split_paired_Ex prod.case) auto
    next
      case False
      note parsed = parsed [unfolded if_not_P [OF False]]
      show ?thesis
      proof (cases "sn_audio s \<noteq> []")
        case True
        then show ?thesis using parsed audio by (simp only: if_True simp_thms and_then_Inr_iff split_paired_Ex prod.case) auto
      next
        case noaudio: False
        note parsed = parsed [unfolded if_not_P [OF noaudio]]
        show ?thesis
        proof (cases "sn_search s \<noteq> []")
          case True
          then show ?thesis using parsed search by (simp only: if_True simp_thms and_then_Inr_iff split_paired_Ex prod.case) auto
        next
          case nosearch: False
          show ?thesis using parsed [unfolded if_not_P [OF nosearch]] token by (simp only: and_then_Inr_iff split_paired_Ex prod.case) auto
        qed
      qed
    qed
  qed
qed

text \<open>A group whose multiplier was checked: every way of pricing but the one for videos checks it.\<close>

lemma price_request_ok:
  assumes "price_request tz g s tf platform ri = Inr (m, p, c, rate)" "ratios_ok s" "0 \<le> rat_val (gg_rate (gi_group g))"
  shows "cost_ok c" "0 \<le> rat_val rate" "ratio_ok p"
proof -
  have "cost_ok c \<and> 0 \<le> rat_val rate \<and> ratio_ok p"
    using assms(1)
  proof (cases rule: price_requestE)
    case image
    then show ?thesis using image_cost_ok [OF _ assms(2)] by simp
  next
    case video
    then show ?thesis using video_cost_ok [OF _ assms(2)] assms(3) by simp
  next
    case audio
    then show ?thesis using audio_cost_ok [OF _ assms(2)] assms(3) by simp
  next
    case search
    then show ?thesis using search_cost_ok by simp
  next
    case (token m')
    then have "ratio_ok p" using selection_price_ratio assms(2) by blast
    then show ?thesis using calculated_ok [OF token(3)] token(1) by simp
  qed
  then show "cost_ok c" "0 \<le> rat_val rate" "ratio_ok p" by auto
qed

lemma charged_cost_ok:
  assumes "charged_cost tz g s tf platform ri = Inr (m, mode, c, rate)" "ratios_ok s" "0 \<le> rat_val (gg_rate (gi_group g))"
  shows "cost_ok c"
proof -
  obtain p c1 c2 where p: "price_request tz g s tf platform ri = Inr (m, p, c1, rate)"
    and c2: "with_searches s platform (gi_group g) rate (ri_usage ri) c1 = Inr c2"
    and c: "if concession g s platform ri then \<exists>std. standard_cost tz g s tf platform ri m p rate = Inr std \<and> c = c2\<lparr>c_actual := c_actual std, c_debit := c_debit std\<rparr> else c = c2"
    using assms(1) by (auto simp: charged_cost_def result_iff split: if_splits)
  note ok = price_request_ok [OF p assms(2,3)]
  have c2: "cost_ok c2" using c2 ok hosted_search_ok by (auto simp: with_searches_def split: if_splits)
  show ?thesis
  proof (cases "concession g s platform ri")
    case False
    then show ?thesis using c c2 by simp
  next
    case True
    then obtain std where std: "standard_cost tz g s tf platform ri m p rate = Inr std" and c: "c = c2\<lparr>c_actual := c_actual std, c_debit := c_debit std\<rparr>"
      using c by auto
    then obtain c0 where c0: "if hosted_image tf (ri_usage ri)
        then \<exists>rest. generated_image_cost tz s platform (gi_group g) (tf_media tf) m (ri_usage ri) [] (ri_effort ri) (ri_at ri) = Inr (c0, rest)
        else calculate_price tz p (ri_usage ri) rate [] (ri_effort ri) [] (Some (ri_at ri)) (gg_long_context (gi_group g)) = Inr c0"
      and std: "if 0 < u_search_calls (ri_usage ri) then add_hosted_search_cost c0 (gi_group g) (u_search_calls (ri_usage ri)) rate = Inr std else c0 = std"
      by (auto simp: standard_cost_def Let_def result_iff split: if_splits)
    have "cost_ok c0" using c0 ok(3) calculated_ok(1) image_cost_ok(1) [OF _ assms(2)] by (auto split: if_splits)
    then have "cost_ok std" using std ok(2) hosted_search_ok by (auto split: if_splits)
    then show ?thesis using c2 by (simp add: c cost_ok_def)
  qed
qed

lemma fingerprint_own: "fingerprint_of digest (r\<lparr>rc_fingerprint := f\<rparr>) = fingerprint_of digest r"
  by (simp add: fingerprint_of_def fingerprint_text_def)

lemma make_receiptE:
  assumes "make_receipt digest tz g s tf a ri = Inr r"
  obtains (made) m mode c rate stats where "charged_cost tz g s tf (ua_platform a) ri = Inr (m, mode, c, rate)"
    "account_stats tz g s tf (ua_platform a) (ua_id a) m ri c = Inr stats" "length m \<le> 100" "length (ri_response ri) \<le> 200"
    "length (ri_tier ri) \<le> 16" "length (ri_effort ri) \<le> 20"
    "r = (receipt_body g s tf a ri m mode c rate stats)\<lparr>rc_fingerprint := fingerprint_of digest (receipt_body g s tf a ri m mode c rate stats)\<rparr>"
  using assms unfolding make_receipt_def Let_def and_then_Inr_iff if_Inl_Inr_iff split_paired_Ex prod.case
  by (auto simp: not_less)

lemma shrink_valid_length: "length (shrink_valid s n) \<le> n"
  by (induction s n rule: shrink_valid.induct) (auto simp: Let_def)

lemma clean_request_id_length: "length (clean_request_id s) \<le> 128"
  using shrink_valid_length [of "trim_space s" 128] by (simp add: clean_request_id_def Let_def)

text \<open>Property C20: no receipt pays the customer. Whatever was used, whether it is priced by tokens, images, videos, audio or searches,
  as long as the rates of the group and of the account and the fast ratios of the price cards are not negative, the
  customer's charge and the account's share are never negative; the share is the total at the account's rate rounded once,
  and the receipt carries the fingerprint of its own contents. The texts that come from outside are cut or refused: the
  model has at most 100 bytes, the response model 200, the tier 16, the effort 20, the upstream request id 128, and the
  user agent at most 512 characters. (The requested and upstream models and the endpoint are bounded where the request is
  parsed and its account is checked, not here.)\<close>
theorem receipt_never_pays:
  assumes "make_receipt digest tz g s tf a ri = Inr r"
    and "ratios_ok s" "0 \<le> rat_val (gg_rate (gi_group g))" "0 \<le> rat_val (sn_rate s)"
  shows "0 \<le> c_total_value (rc_cost r) \<and> 0 \<le> rat_val (c_debit (rc_cost r)) \<and>
    rat_val (rc_account_debit r) = round_half_away 8 (c_total_value (rc_cost r) * rat_val (sn_rate s)) \<and> 0 \<le> rat_val (rc_account_debit r) \<and>
    rc_fingerprint r = fingerprint_of digest r \<and>
    length (rc_model r) \<le> 100 \<and> length (rc_response_model r) \<le> 200 \<and> length (rc_tier r) \<le> 16 \<and> length (rc_effort r) \<le> 20 \<and>
    length (rc_upstream_request r) \<le> 128 \<and> length (pieces (rc_agent r)) \<le> 512"
  using assms(1)
proof (cases rule: make_receiptE)
  case (made m mode c rate stats)
  then have "cost_ok c" using charged_cost_ok assms(2,3) by blast
  then show ?thesis using made(3-) assms(4) truncate_runes_count [of "ri_agent ri" 512] clean_request_id_length [of "ri_upstream_request ri"]
    by (simp add: fingerprint_own) (simp add: receipt_body_def Let_def cost_ok_def rat_val_float_string round_half_away_nonneg)
qed


section \<open>The free fast tier\<close>

definition with_free_fast :: "bool \<Rightarrow> gateway_identity \<Rightarrow> gateway_identity" where
  "with_free_fast free g = g\<lparr>gi_group := (gi_group g)\<lparr>gg_free_fast := free\<rparr>\<rparr>"

lemma free_fast_rate:
  "gg_rate (gg\<lparr>gg_free_fast := free\<rparr>) = gg_rate gg" "gg_long_context (gg\<lparr>gg_free_fast := free\<rparr>) = gg_long_context gg"
  "gg_search_price (gg\<lparr>gg_free_fast := free\<rparr>) = gg_search_price gg"
  "gg_web_search_price (gg\<lparr>gg_free_fast := free\<rparr>) = gg_web_search_price gg"
  by simp_all

lemma free_fast_rates:
  "image_rate (gg\<lparr>gg_free_fast := free\<rparr>) md = image_rate gg md"
  "video_rate (gg\<lparr>gg_free_fast := free\<rparr>) md = video_rate gg md"
  unfolding image_rate_def video_rate_def free_fast_rate by (rule refl)+

lemma free_fast_image: "generated_image_price s platform (gg\<lparr>gg_free_fast := free\<rparr>) md m dims = generated_image_price s platform gg md m dims"
  unfolding generated_image_price_def free_fast_rates free_fast_rate by (rule refl)

lemma free_fast_group:
  "group_audio_cost (gg\<lparr>gg_free_fast := free\<rparr>) md protocol units = group_audio_cost gg md protocol units"
  "search_cost (gg\<lparr>gg_free_fast := free\<rparr>) protocol = search_cost gg protocol"
  unfolding group_audio_cost_def search_cost_def free_fast_rate by simp_all

lemma free_fast_costs:
  "generated_image_cost tz s platform (gg\<lparr>gg_free_fast := free\<rparr>) md = generated_image_cost tz s platform gg md"
  "video_cost tz s platform (gg\<lparr>gg_free_fast := free\<rparr>) md = video_cost tz s platform gg md"
  "audio_cost tz s platform (gg\<lparr>gg_free_fast := free\<rparr>) md = audio_cost tz s platform gg md"
  "add_hosted_search_cost cost (gg\<lparr>gg_free_fast := free\<rparr>) = add_hosted_search_cost cost gg"
  by (intro ext, unfold generated_image_cost_def video_cost_def audio_cost_def add_hosted_search_cost_def video_card_def
      free_fast_group free_fast_image free_fast_rate free_fast_rates) (rule refl)+

lemma free_fast_groups: "gi_group (with_free_fast free g) = (gi_group g)\<lparr>gg_free_fast := free\<rparr>"
  by (simp add: with_free_fast_def)

lemma free_fast_key: "gi_key (with_free_fast free g) = gi_key g" "gi_user (with_free_fast free g) = gi_user g"
    "gi_routing (with_free_fast free g) = gi_routing g" "gi_source (with_free_fast free g) = gi_source g"
  by (simp_all add: with_free_fast_def)

lemma free_fast_price: "price_request tz (with_free_fast free g) s tf platform ri = price_request tz g s tf platform ri"
  unfolding price_request_def Let_def free_fast_groups free_fast_costs free_fast_group free_fast_rate by (rule refl)

lemma free_fast_searches: "with_searches s platform (gi_group (with_free_fast free g)) rate u cost = with_searches s platform (gi_group g) rate u cost"
  by (simp add: with_searches_def with_free_fast_def free_fast_costs)

text \<open>A receipt without the customer's charge.\<close>

definition without_charge :: "receipt \<Rightarrow> receipt" where
  "without_charge r = r\<lparr>rc_fingerprint := [], rc_cost := (rc_cost r)\<lparr>c_actual := [], c_debit := []\<rparr>\<rparr>"

lemma charged_free:
  assumes "charged_cost tz (with_free_fast True g) s tf platform ri = Inr (m, mode, c, rate)"
    "charged_cost tz (with_free_fast False g) s tf platform ri = Inr (m', mode', c', rate')"
  shows "m' = m \<and> mode' = mode \<and> rate' = rate \<and> c'\<lparr>c_actual := [], c_debit := []\<rparr> = c\<lparr>c_actual := [], c_debit := []\<rparr>"
proof -
  have no: "\<not> concession (with_free_fast False g) s platform ri" by (simp add: concession_def with_free_fast_def free_fast_rates)
  obtain p c1 where p: "price_request tz g s tf platform ri = Inr (m', p, c1, rate')"
    and c': "with_searches s platform (gi_group g) rate' (ri_usage ri) c1 = Inr c'" "mode' = mp_billing_mode p"
    using assms(2) by (auto simp: charged_cost_def free_fast_price free_fast_searches no result_iff)
  show ?thesis using assms(1)
    by (auto simp: charged_cost_def free_fast_price free_fast_searches p c' result_iff split: if_splits)
qed

lemma without_charge_totals: "c'\<lparr>c_actual := [], c_debit := []\<rparr> = c\<lparr>c_actual := [], c_debit := []\<rparr> \<Longrightarrow> c_total c' = c_total c \<and> c_total_value c' = c_total_value c"
  by (cases c, cases c') simp

lemma free_fast_stats:
  assumes "c_total c' = c_total c"
  shows "account_stats tz (with_free_fast True g) s tf pl i m ri c = account_stats tz (with_free_fast False g) s tf pl i m ri c'"
  unfolding account_stats_def stats_prices_def free_fast_groups free_fast_rate free_fast_key assms by (rule refl)

lemma free_fast_body:
  assumes "c'\<lparr>c_actual := [], c_debit := []\<rparr> = c\<lparr>c_actual := [], c_debit := []\<rparr>"
  shows "without_charge ((receipt_body (with_free_fast True g) s tf a ri m mode c rate stats)\<lparr>rc_fingerprint := x\<rparr>) =
    without_charge ((receipt_body (with_free_fast False g) s tf a ri m mode c' rate stats)\<lparr>rc_fingerprint := y\<rparr>)"
  unfolding receipt_body_def Let_def free_fast_groups free_fast_key free_fast_rates without_charge_def
  using assms without_charge_totals [OF assms] by simp

text \<open>Property C21: a group that gives the fast tier away changes what the customer pays and nothing else: the total, the tier, the
  statistics and the account's share of the receipt are those of a group that charges for the tier, so that the costs of
  the provider stay visible.\<close>
theorem free_fast_spares_customer_only:
  assumes "make_receipt digest tz (with_free_fast True g) s tf a ri = Inr r"
    and "make_receipt digest tz (with_free_fast False g) s tf a ri = Inr r'"
  shows "without_charge r = without_charge r'"
proof -
  show ?thesis using assms(1)
  proof (cases rule: make_receiptE)
    case one: (made m mode c rate stats)
    show ?thesis using assms(2)
    proof (cases rule: make_receiptE)
      case two: (made m' mode' c' rate' stats')
      have same: "m' = m" "mode' = mode" "rate' = rate" "c'\<lparr>c_actual := [], c_debit := []\<rparr> = c\<lparr>c_actual := [], c_debit := []\<rparr>"
        using charged_free [OF one(1) two(1)] by auto
      then have totals: "c_total c' = c_total c" "c_total_value c' = c_total_value c" by (auto dest: without_charge_totals)
      then have "stats' = stats" using free_fast_stats [OF totals(1)] one(2) two(2) same(1) by simp
      then show ?thesis using free_fast_body [OF same(4)] by (simp add: one(7) two(7) same(1-3))
    qed
  qed
qed


section \<open>Witnesses\<close>

definition tier_card :: model_price where
  "tier_card = empty_price\<lparr>mp_platform := ''openai'', mp_models := [''gpt-5*''], mp_billing_mode := ''token'', mp_input := Some ''2''\<rparr>"

definition sample_selection :: selection where
  "sample_selection = \<lparr>sn_response_image = False, sn_features = [], sn_audio = [], sn_search = [], sn_account = None,
     sn_rate = ''0.5'', sn_channel = None, sn_channel_model = ''gpt-5'', sn_upstream_model = ''gpt-5'', sn_source = ''requested'',
     sn_pricing = [], sn_group_pricing = [tier_card], sn_catalog = None, sn_apply = True, sn_restrict = False, sn_rules = JNull\<rparr>"

definition sample_tariff :: tariff where
  "sample_tariff = \<lparr>tf_media = \<lparr>md_independent_image = False, md_image_rate = None, md_image_1k = None, md_image_2k = None,
       md_image_4k = None, md_independent_video = False, md_video_rate = None, md_video_480 = None, md_video_720 = None,
       md_video_1080 = None, md_video_models = [], md_tts = None, md_stt = None, md_realtime = None\<rparr>,
     tf_image = None, tf_rules = []\<rparr>"

definition sample_upstream :: upstream_account where
  "sample_upstream = \<lparr>ua_id = 11, ua_platform = ''openai'', ua_type = ''apikey'', ua_credentials = [], ua_extra = []\<rparr>"

definition priority_input :: receipt_input where
  "priority_input = \<lparr>ri_request = ''r1'', ri_requested = ''gpt-5-mini'', ri_response = ''gpt-5-mini'', ri_tier = ''priority'',
     ri_effort = [], ri_usage = no_usage\<lparr>u_input := 1\<rparr>, ri_stream = False, ri_duration = 800, ri_first_token = 0, ri_at = 0,
     ri_payload = ''p'', ri_ip = ''127.0.0.1'', ri_agent = ''curl'', ri_inbound = ''/v1/responses'', ri_upstream_request = ''u1''\<rparr>"

definition priority_receipt :: "bool \<Rightarrow> receipt result" where
  "priority_receipt free = make_receipt (\<lambda>x. x) utc_only (with_free_fast free sample_identity) sample_selection sample_tariff sample_upstream priority_input"

lemma charged_both:
  assumes "charged_cost tz (with_free_fast True g) s tf platform ri = Inr (m, mode, c, rate)"
  shows "\<exists>c. charged_cost tz (with_free_fast free g) s tf platform ri = Inr (m, mode, c, rate)"
proof (cases free)
  case False
  have no: "\<not> concession (with_free_fast False g) s platform ri" by (simp add: concession_def with_free_fast_def)
  show ?thesis using assms False
    by (auto simp: charged_cost_def free_fast_price free_fast_searches no result_iff split: if_splits)
qed (use assms in simp)

lemma priority_charged:
  "case charged_cost utc_only (with_free_fast True sample_identity) sample_selection sample_tariff ''openai'' priority_input of
     Inr (m, mode, c, rate) \<Rightarrow> length m \<le> 100 | Inl _ \<Rightarrow> False"
  by code_simp

lemma priority_receipt_made: "\<exists>r. priority_receipt free = Inr r"
proof -
  obtain m mode c rate where c: "charged_cost utc_only (with_free_fast free sample_identity) sample_selection sample_tariff ''openai'' priority_input = Inr (m, mode, c, rate)"
    and m: "length m \<le> 100"
    using priority_charged charged_both [of utc_only sample_identity sample_selection sample_tariff "''openai''" priority_input _ _ _ _ free]
    by (auto split: sum.splits)
  have a: "ua_platform sample_upstream = ''openai''" "ua_id sample_upstream = 11" by (simp_all add: sample_upstream_def)
  have stats: "account_stats utc_only (with_free_fast free sample_identity) sample_selection sample_tariff ''openai'' 11 m priority_input c = Inr (Some (c_total c))"
    by (simp add: account_stats_def stats_prices_def sample_selection_def sample_tariff_def)
  have "length (ri_response priority_input) = 10" "length (ri_tier priority_input) = 8" "length (ri_effort priority_input) = 0"
    by (simp_all add: priority_input_def)
  then show ?thesis using m by (simp add: priority_receipt_def make_receipt_def a c stats Let_def)
qed

theorem receipt_never_pays_witness: "\<exists>r. priority_receipt True = Inr r \<and> 0 \<le> rat_val (rc_account_debit r) \<and> length (rc_model r) \<le> 100"
proof -
  obtain r where r: "priority_receipt True = Inr r" using priority_receipt_made by blast
  have "ratios_ok sample_selection" by code_simp
  moreover have "0 \<le> rat_val (gg_rate (gi_group (with_free_fast True sample_identity)))" by code_simp
  moreover have "0 \<le> rat_val (sn_rate sample_selection)" by code_simp
  ultimately show ?thesis using receipt_never_pays [OF r [unfolded priority_receipt_def]] r by blast
qed

theorem free_fast_spares_customer_only_witness:
  "\<exists>r r'. priority_receipt True = Inr r \<and> priority_receipt False = Inr r' \<and> rc_account_debit r = rc_account_debit r'"
proof -
  obtain r r' where r: "priority_receipt True = Inr r" "priority_receipt False = Inr r'" using priority_receipt_made by metis
  then have "without_charge r = without_charge r'"
    using free_fast_spares_customer_only unfolding priority_receipt_def by blast
  then have "rc_account_debit r = rc_account_debit r'" by (cases r, cases r') (simp add: without_charge_def)
  then show ?thesis using r by blast
qed

end
