(* ===== verification/Spec2Isabelle.thy ===== *)
theory Spec2Isabelle
  imports Pricing_Examples Reasoning_Facts Fast_Tier Composite_Facts Proxy_Facts Group_Fallback_Facts
    Gateway_Facts Admission_Facts Quota_Facts Settlement_Facts Balance_Facts Reference_Price_Facts Account_Facts Selection_Facts Health_Facts Settings_Facts Error_Facts Dispatch_Facts
    Metering_Facts Request_Facts Secret_Facts Receipt_Facts
begin

text \<open>
  A model of the decisions of \<open>lite-api\<close>, a gateway that sells access to upstream model providers. All
  code is in the Go package \<open>internal/app\<close>; the theories model its local decisions and its database
  transactions, as functions on explicit values and tables.

  \<^bold>\<open>How the program fits together.\<close> A client request carries an API key, which belongs to a user
  and a group (\<open>gatewayIdentity\<close>). The group may hand the client to a fallback group, map the model by its
  Messages dispatch, or be composite and send each model to a platform. The request takes a slot of its user, waiting
  in a bounded queue if there is none, and then chooses an upstream account: a channel renames and
  restricts models, candidates are ordered, checked against protocol, grants, prices and quotas, and the
  slot of the first that fits is taken. Policies rewrite the reasoning effort and the service tier. The
  usage the provider reports is priced and settled once as a receipt, which moves balances, quotas and the usage
  log. Administrators edit groups, accounts, proxies, prices and balances through handlers that validate
  under a lock in one transaction; idempotency keys make a repeated request harmless.

  \<^bold>\<open>Theories.\<close> A theory named \<open>_Facts\<close> holds the properties of the theory before it.
  \<^item> \<open>Prelude\<close>: the error monad (a \<open>failure\<close> is an \<open>apiError\<close> with its status, or any other error), Go's
    string functions on byte strings, lookups in tables, and the locale \<open>best_choice\<close> of a loop that keeps
    the best element seen so far.
  \<^item> \<open>Decimal\<close>: \<open>json.Number\<close> text and \<open>big.Rat\<close>; \<open>Json\<close>: decoded JSON; \<open>Civil_Time\<close>: instants, dates, RFC 3339.
  \<^item> \<open>Pricing\<close>, \<open>Charges\<close>, \<open>Pricing_Examples\<close>: \<open>pricing.go\<close>. A price card is valid when its tiers, time windows and
    patterns do not overlap; a charge is the exact sum of units times prices, rounded once.
  \<^item> \<open>Reference_Prices\<close>: \<open>reference_prices.go\<close>, the indexed catalog and the precedence of group,
    channel and catalog cards.
  \<^item> \<open>Reasoning\<close>: \<open>reasoning.go\<close>; \<open>Fast_Tier\<close>: \<open>fast_policy.go\<close> and \<open>group_fast.go\<close>.
  \<^item> \<open>Composite\<close>: \<open>composite.go\<close>, the route table with its edits and the routing decision.
  \<^item> \<open>Proxies\<close>: \<open>proxies.go\<close> and \<open>proxy_fallback.go\<close>, the graph of fallback proxies and what expiry does to it.
  \<^item> \<open>Group_Fallback\<close>: \<open>group_fallback.go\<close> and the edits of \<open>groups.go\<close> that touch the fallback graph.
  \<^item> \<open>Gateway\<close>: the records \<open>gatewayKey\<close>, \<open>gatewayGroup\<close>, \<open>gatewayIdentity\<close>, allowlists and routing pools of
    \<open>gateway.go\<close>, \<open>messages_dispatch.go\<close>, \<open>profit_control.go\<close>, and protocol and model mapping of \<open>upstream.go\<close>.
  \<^item> \<open>Admission\<close>: \<open>concurrency.go\<close> with \<open>takeSlot\<close> and \<open>releaseSlot\<close>; its step relation has one step per critical
    section of \<open>gatewayMu\<close>, so its theorems hold for every interleaving of the waiting requests. A request that waits for an
    account tries several of them in one attempt and may take another than the one whose queue it is in; a request that holds
    its user slot is counted for its key, which neither a limit nor the stop prevents.
  \<^item> \<open>Account_Config\<close>, \<open>Accounts\<close>: \<open>accounts.go\<close> with the settings an account carries in its JSON columns.
  \<^item> \<open>Selection\<close>: \<open>chooseAccount\<close> of \<open>gateway.go\<close>.
  \<^item> \<open>Quotas\<close>: \<open>quotas.go\<close>; \<open>Settlement\<close>: the receipts of \<open>settlement.go\<close>
    as they are stored and applied; \<open>Receipts\<close>: \<open>makeReceipt\<close>, which prices the usage of a request by tokens, images, videos,
    audio or searches, and the audio requests of \<open>grok_audio.go\<close>.
  \<^item> \<open>Idempotency\<close>: \<open>gateway_idempotency.go\<close> and \<open>write_idempotency.go\<close>; \<open>Balance\<close>: \<open>balance.go\<close>. A claimed
    request may be sent several times by the attempts of its one execution; what a key makes unique is the execution.

  \<^item> \<open>Go_Text\<close>, \<open>Go_Text_Facts\<close>: runes of UTF-8 text, escaping, and regular expressions with leftmost-first matching; \<open>Json_Text\<close>: the
    parser of \<open>encoding/json\<close>, its decoding into structs, and \<open>json.Marshal\<close>.
  \<^item> \<open>Runtime_Settings\<close>: \<open>runtime_settings.go\<close> and the policy of \<open>stream_timeout.go\<close>; the facts are in \<open>Settings_Facts\<close>.
    They hold for the two buckets of the panel together and for every pattern of failures of Redis, where the panel lets
    requests pass.
  \<^item> \<open>Account_Health\<close>: \<open>markGatewayFailure\<close> of \<open>settlement.go\<close>, the retry hints of \<open>gemini_quota.go\<close> and stream
    timeouts; \<open>Account_Balance\<close>: the probes of \<open>account_balance.go\<close>; the facts of both are in \<open>Health_Facts\<close>.
  \<^item> \<open>Error_Rules\<close>: \<open>error_passthrough.go\<close>, the facts are in \<open>Error_Facts\<close>.
  \<^item> \<open>Anthropic_Policy\<close>: \<open>anthropic_policy.go\<close>, the beta features that are passed on and the corrected request that may
    follow a rejection. \<open>Dispatch\<close>: the loop of \<open>textGateway\<close> over the attempts of one request, with \<open>waitAdmission\<close> for its
    accounts; an attempt logs one sending and, for Messages, at most one corrected sending to the same account.
  \<^item> \<open>Base64\<close>: \<open>base64.StdEncoding\<close>. \<open>Response_Tools\<close>: the tools and history items of \<open>response_program.go\<close>,
    \<open>response_code.go\<close>, \<open>response_local_tools.go\<close> and \<open>response_computer.go\<close>; \<open>Response_Mcp\<close>: \<open>response_mcp.go\<close> and
    \<open>response_tool_search.go\<close>; \<open>Hosted_Tools\<close>: image generation, the hosted searches and \<open>response_files.go\<close>. Their properties are
    in \<open>Secret_Facts\<close>: what a client receives holds no credentials of a tool.
  \<^item> \<open>Grok_Search\<close>: \<open>grok_search.go\<close>. \<open>Text_Request\<close>: \<open>parseTextRequest\<close> and \<open>parseResponsesRequest\<close> with
    \<open>responses_extensions.go\<close>; \<open>Request_Facts\<close>: what an accepted request satisfies, the canonical image edit, cited results.
  \<^item> \<open>Metering\<close>: \<open>textObservation\<close> with its usage parsers and the meter of hosted images; \<open>Result_Checks\<close>: \<open>text_result.go\<close>, the
    meter of hosted searches, and the observer that \<open>textGateway\<close> puts together. In \<open>Metering_Facts\<close> the locale \<open>kept\<close> is an
    invariant of the observation that every step keeps; it is interpreted for the bounds of the usage and for usage that is known.

  \<^bold>\<open>Conventions.\<close> A Go function that returns an error is a function into \<open>failure + 'a\<close>. A struct is a record whose fields have the struct's prefix. A table of the database is an association list or a list of
  rows; a transaction is one function on it, which returns the old table when it rolls back. Strings are
  byte strings, and letters outside ASCII have no case. A Go map is an association list in the order in which the
  code happens to iterate; where the result must not depend on this order, it is proved for every order.
  Machine integers are \<open>int\<close>, with the range checks of the code where it has any.

  \<^bold>\<open>Bounds.\<close> The resolution of a proxy follows at most nine links, which is the bound in the code; \<open>resolve_proxy_sound\<close>
  shows what comes out whether or not the chain is longer. The cleaning of
  credentials descends 33 levels and a filter of a file search 9, the bounds of the code; an event nested in events is followed
  10001 levels deep, more than the 10000 that the JSON parser admits. All other recursions are on lists.

  \<^bold>\<open>Parameters.\<close> Left open are the hash function and its short form for tool names, \<open>url.Parse\<close> and \<open>URL.String\<close>, the resolution of host names with the address policy, the data of
  the time zones (through \<open>Time.In\<close> and \<open>time.Date\<close>), \<open>json.Marshal\<close> of header maps, the media type parser,
  \<open>http.ParseTime\<close>, and the parsing of client addresses.
  Properties that need something of them say so.

  \<^bold>\<open>Not modelled.\<close> The HTTP exchange with clients and providers, streaming and WebSockets, TLS fingerprints, and
  start-up are input and output around the decisions above. Listings and reports (\<open>usage.go\<close>,
  \<open>operational.go\<close>) are database queries. Multipart forms and the
  conversion of images for Grok, the translation between provider protocols, the state machines of
  media tasks and background responses, and the administration of users, keys and channels are not modelled yet.
\<close>

end
